(* ===== verification/Prelude.thy ===== *)
theory Prelude
  imports
    Main
    "HOL-Library.Char_ord"
    "HOL-Library.List_Lexorder"
    "HOL-Library.Monad_Syntax"
    "HOL-Library.Sublist"
    "HOL-Library.Multiset"
    "HOL-Library.Code_Target_Numeral"
begin

text \<open>
  Shared vocabulary of the development: the parts of the Go language and its standard
  library that the operator's own code uses (strings, slices, maps, errors, host:port
  addresses, sorting), the operator's helpers of \<^verbatim>\<open>internal/pkg/util\<close>, and the
  generic lemmas about them that the component theories rely on.

  Conventions used by every theory:
  \<^item> a Go function that may panic returns an \<^typ>\<open>'a option\<close>, and \<^const>\<open>None\<close> is the
    panic; a Go \<^verbatim>\<open>(T, error)\<close> pair is a value of \<open>error + T\<close>, \<^const>\<open>Inl\<close> the error;
  \<^item> a Go function that talks to the outside world takes the world as its last argument
    and returns the new world beside its result;
  \<^item> a Go map that is iterated over is an association list, in the order the iteration
    happens to visit it; a Go map that is only looked up is a HOL map.
\<close>

named_theorems go_simps \<open>equations that evaluate the Go library functions\<close>
named_theorems go_splits \<open>case analyses of the result types\<close>

type_synonym ('w, 'a) go = "'w \<Rightarrow> ('a \<times> 'w) option"
type_synonym ('k, 'v) gomap = "('k \<times> 'v) list"


section \<open>Strings\<close>

text \<open>\<^verbatim>\<open>strings.Contains(s, sub)\<close>.\<close>

fun contains :: "string \<Rightarrow> string \<Rightarrow> bool" where
  "contains [] sub = (sub = [])"
| "contains (c # cs) sub = (prefix sub (c # cs) \<or> contains cs sub)"

text \<open>\<^verbatim>\<open>strings.Split(s, sep)\<close> for a separator of one character.\<close>

fun split_on :: "char \<Rightarrow> string \<Rightarrow> string list" where
  "split_on c [] = [[]]"
| "split_on c (x # xs) =
     (if x = c then [] # split_on c xs
      else (case split_on c xs of [] \<Rightarrow> [[x]] | y # ys \<Rightarrow> (x # y) # ys))"

text \<open>\<^verbatim>\<open>strings.SplitN(s, sep, 2)\<close>: one element when the separator is missing.\<close>

fun split_n2 :: "char \<Rightarrow> string \<Rightarrow> string list" where
  "split_n2 c [] = [[]]"
| "split_n2 c (x # xs) =
     (if x = c then [[], xs]
      else (case split_n2 c xs of [] \<Rightarrow> [[x]] | y # ys \<Rightarrow> (x # y) # ys))"

text \<open>\<^verbatim>\<open>strings.Join(list, sep)\<close>.\<close>

fun join :: "string \<Rightarrow> string list \<Rightarrow> string" where
  "join sep [] = []"
| "join sep [x] = x"
| "join sep (x # y # zs) = x @ sep @ join sep (y # zs)"

text \<open>Decimal formatting: \<^verbatim>\<open>strconv.Itoa\<close> and the verb \<^verbatim>\<open>%d\<close>.\<close>

definition digit :: "nat \<Rightarrow> char" where
  "digit d = ''0123456789'' ! d"

fun nat_str :: "nat \<Rightarrow> string" where
  "nat_str n = (if n < 10 then [digit n] else nat_str (n div 10) @ [digit (n mod 10)])"

declare nat_str.simps [simp del]

definition itoa :: "int \<Rightarrow> string" where
  "itoa i = (if i < 0 then CHR ''-'' # nat_str (nat (- i)) else nat_str (nat i))"

definition formatBool :: "bool \<Rightarrow> string" where
  "formatBool b = (if b then ''true'' else ''false'')"

text \<open>A string between single quotes, as the error messages print names.\<close>

definition quoted :: "string \<Rightarrow> string" where
  "quoted s = CHR 0x27 # s @ [CHR 0x27]"

text \<open>Index of the last and of the first occurrence of a character.\<close>

fun lastIndex :: "char \<Rightarrow> string \<Rightarrow> nat option" where
  "lastIndex c [] = None"
| "lastIndex c (x # xs) =
     (case lastIndex c xs of Some i \<Rightarrow> Some (Suc i) | None \<Rightarrow> if x = c then Some 0 else None)"

fun firstIndex :: "char \<Rightarrow> string \<Rightarrow> nat option" where
  "firstIndex c [] = None"
| "firstIndex c (x # xs) = (if x = c then Some 0 else map_option Suc (firstIndex c xs))"


subsection \<open>Lemmas on strings\<close>

lemma contains_iff: "contains s sub \<longleftrightarrow> (\<exists>a b. s = a @ sub @ b)"
proof (induction s)
  case Nil
  show ?case by simp
next
  case (Cons c cs)
  show ?case
  proof
    assume "contains (c # cs) sub"
    then consider "prefix sub (c # cs)" | "contains cs sub" by auto
    then show "\<exists>a b. c # cs = a @ sub @ b"
    proof cases
      case 1
      then obtain b where "c # cs = [] @ sub @ b" by (auto simp: prefix_def)
      then show ?thesis by blast
    next
      case 2
      with Cons.IH obtain a b where "cs = a @ sub @ b" by blast
      then have "c # cs = (c # a) @ sub @ b" by simp
      then show ?thesis by blast
    qed
  next
    assume "\<exists>a b. c # cs = a @ sub @ b"
    then obtain a b where eq: "c # cs = a @ sub @ b" by blast
    show "contains (c # cs) sub"
    proof (cases a)
      case Nil
      with eq have "prefix sub (c # cs)" by (auto simp: prefix_def)
      then show ?thesis by simp
    next
      case (Cons d ds)
      with eq have "cs = ds @ sub @ b" by simp
      with Cons.IH show ?thesis by auto
    qed
  qed
qed

lemma prefix_contains: "prefix sub s \<Longrightarrow> contains s sub"
  by (auto simp: contains_iff prefix_def intro: exI [of _ "[]"])

lemma split_on_nonempty [simp]: "split_on c s \<noteq> []"
  by (induction s) (auto split: list.splits)

lemma split_n2_nonempty [simp]: "split_n2 c s \<noteq> []"
  by (induction s) (auto split: list.splits)

lemma split_on_notin: "c \<notin> set s \<Longrightarrow> split_on c s = [s]"
  by (induction s) auto

lemma split_on_append: "c \<notin> set a \<Longrightarrow> split_on c (a @ c # b) = a # split_on c b"
  by (induction a) auto

lemma split_n2_notin: "c \<notin> set s \<Longrightarrow> split_n2 c s = [s]"
  by (induction s) auto

lemma split_n2_append: "c \<notin> set a \<Longrightarrow> split_n2 c (a @ c # b) = [a, b]"
  by (induction a) auto

text \<open>Splitting a joined list gives the list back.\<close>

lemma split_on_join:
  assumes "xs \<noteq> []" and "\<forall>x \<in> set xs. c \<notin> set x"
  shows "split_on c (join [c] xs) = xs"
  using assms
proof (induction "[c]" xs rule: join.induct)
  case 1
  then show ?case by simp
next
  case (2 x)
  then show ?case by (simp add: split_on_notin)
next
  case (3 x y zs)
  then show ?case by (simp add: split_on_append)
qed

lemma join_split_on: "join [c] (split_on c s) = s"
proof (induction s)
  case Nil
  show ?case by simp
next
  case (Cons x xs)
  obtain y ys where s: "split_on c xs = y # ys"
    by (cases "split_on c xs") auto
  show ?case
  proof (cases "x = c")
    case True
    then show ?thesis using Cons.IH s by simp
  next
    case False
    then show ?thesis using Cons.IH s by (cases ys) auto
  qed
qed

lemma split_on_parts: "x \<in> set (split_on c s) \<Longrightarrow> c \<notin> set x"
  by (induction s arbitrary: x) (auto split: if_splits list.splits)

lemma length_nat_str_pos [simp]: "nat_str n \<noteq> []"
  by (subst nat_str.simps) simp

lemma digit_inject [simp]: "d < 10 \<Longrightarrow> e < 10 \<Longrightarrow> digit d = digit e \<longleftrightarrow> d = e"
proof -
  have "\<forall>d \<in> set [0..<10]. \<forall>e \<in> set [0..<10]. (digit d = digit e) = (d = e)"
    by (simp add: digit_def upt_rec)
  then show "d < 10 \<Longrightarrow> e < 10 \<Longrightarrow> digit d = digit e \<longleftrightarrow> d = e" by auto
qed

lemma digit_less [simp]: "d < 10 \<Longrightarrow> e < 10 \<Longrightarrow> digit d < digit e \<longleftrightarrow> d < e"
proof -
  have "\<forall>d \<in> set [0..<10]. \<forall>e \<in> set [0..<10]. (digit d < digit e) = (d < e)"
    by (simp add: digit_def upt_rec)
  then show "d < 10 \<Longrightarrow> e < 10 \<Longrightarrow> digit d < digit e \<longleftrightarrow> d < e" by auto
qed

lemma digit_range: "d < 10 \<Longrightarrow> digit d \<in> set ''0123456789''"
  unfolding digit_def by (rule nth_mem) simp

lemma set_nat_str: "set (nat_str n) \<subseteq> set ''0123456789''"
proof (induction n rule: nat_str.induct)
  case (1 n)
  show ?case
  proof (cases "n < 10")
    case True
    then show ?thesis using digit_range [of n] by (subst nat_str.simps) simp
  next
    case False
    then have "set (nat_str (n div 10)) \<subseteq> set ''0123456789''" using "1.IH" by simp
    moreover have "digit (n mod 10) \<in> set ''0123456789''" by (rule digit_range) simp
    ultimately show ?thesis using False by (subst nat_str.simps) auto
  qed
qed


text \<open>
  Decimal strings of the same length compare as the numbers they denote. Go compares
  strings byte by byte, so this is what makes a comparison of formatted timestamps
  chronological.
\<close>

lemma length_nat_str_div:
  "10 \<le> n \<Longrightarrow> length (nat_str n) = Suc (length (nat_str (n div 10)))"
  by (subst nat_str.simps) simp

lemma list_less_append_same_length:
  fixes xs ys :: "'a::linorder list"
  assumes "length xs = length ys"
  shows "xs @ a < ys @ b \<longleftrightarrow> xs < ys \<or> (xs = ys \<and> a < b)"
  using assms by (induction xs ys rule: list_induct2) auto

lemma less_div_mod_10:
  "(m::nat) div 10 < n div 10 \<or> (m div 10 = n div 10 \<and> m mod 10 < n mod 10) \<longleftrightarrow> m < n"
proof -
  define a b c d where "a = m div 10" and "b = n div 10" and "c = m mod 10" and "d = n mod 10"
  have "m = 10 * a + c" "n = 10 * b + d" "c < 10" "d < 10"
    by (simp_all add: a_def b_def c_def d_def)
  then show ?thesis
    unfolding a_def [symmetric] b_def [symmetric] c_def [symmetric] d_def [symmetric]
    by auto
qed

lemma eq_div_mod_10: "(m::nat) div 10 = n div 10 \<and> m mod 10 = n mod 10 \<longleftrightarrow> m = n"
  by (metis div_mult_mod_eq)

lemma nat_str_less_iff:
  "length (nat_str m) = length (nat_str n) \<Longrightarrow>
     (nat_str m < nat_str n \<longleftrightarrow> m < n) \<and> (nat_str m = nat_str n \<longleftrightarrow> m = n)"
proof (induction m arbitrary: n rule: nat_str.induct)
  case (1 m)
  show ?case
  proof (cases "m < 10")
    case True
    have "n < 10"
    proof (rule ccontr)
      assume "\<not> n < 10"
      then have "1 < length (nat_str n)" by (simp add: length_nat_str_div)
      moreover have "length (nat_str m) = 1" using True by (simp add: nat_str.simps [of m])
      ultimately show False using "1.prems" by simp
    qed
    with True show ?thesis by (simp add: nat_str.simps [of m] nat_str.simps [of n])
  next
    case False
    have n: "\<not> n < 10"
    proof
      assume "n < 10"
      then have "length (nat_str n) = 1" by (simp add: nat_str.simps [of n])
      moreover have "1 < length (nat_str m)" using False by (simp add: length_nat_str_div)
      ultimately show False using "1.prems" by simp
    qed
    have len: "length (nat_str (m div 10)) = length (nat_str (n div 10))"
      using "1.prems" False n by (simp add: length_nat_str_div)
    have IH: "(nat_str (m div 10) < nat_str (n div 10) \<longleftrightarrow> m div 10 < n div 10) \<and>
        (nat_str (m div 10) = nat_str (n div 10) \<longleftrightarrow> m div 10 = n div 10)"
      using "1.IH" False len by blast
    have eqs: "nat_str m = nat_str (m div 10) @ [digit (m mod 10)]"
      "nat_str n = nat_str (n div 10) @ [digit (n mod 10)]"
      using False n by (simp_all add: nat_str.simps [of m] nat_str.simps [of n])
    have "nat_str m < nat_str n \<longleftrightarrow>
        m div 10 < n div 10 \<or> (m div 10 = n div 10 \<and> m mod 10 < n mod 10)"
      unfolding eqs list_less_append_same_length [OF len] by (simp add: IH)
    moreover have "nat_str m = nat_str n \<longleftrightarrow> m div 10 = n div 10 \<and> m mod 10 = n mod 10"
      unfolding eqs using len by (simp add: IH)
    ultimately show ?thesis by (simp only: less_div_mod_10 eq_div_mod_10)
  qed
qed

lemma length_nat_str_between:
  "10 ^ k \<le> n \<Longrightarrow> n < 10 ^ Suc k \<Longrightarrow> length (nat_str n) = Suc k"
proof (induction k arbitrary: n)
  case 0
  then show ?case by (simp add: nat_str.simps [of n])
next
  case (Suc k)
  have "10 ^ k \<le> n div 10"
    using div_le_mono [OF Suc.prems(1), of 10] by simp
  moreover have "n div 10 < 10 ^ Suc k"
    using Suc.prems(2) by (simp add: less_mult_imp_div_less)
  moreover have "10 \<le> n"
    by (rule order_trans [OF _ Suc.prems(1)]) simp
  ultimately show ?case using Suc.IH length_nat_str_div by simp
qed


section \<open>Errors\<close>

text \<open>
  The Go \<^verbatim>\<open>error\<close> values the modelled code creates or inspects. \<open>ErrorString\<close> is any
  error known by its text only (\<^verbatim>\<open>errors.New\<close>, \<^verbatim>\<open>fmt.Errorf\<close> without \<^verbatim>\<open>%w\<close>, an
  error of a library); \<open>WrappedError\<close> is \<^verbatim>\<open>fmt.Errorf("prefix%w")\<close> and
  \<open>WrappedErrorIn\<close> the same with a suffix; \<open>MultiError\<close> is
  the type of \<^verbatim>\<open>internal/pkg/util/error.go\<close>; the discovery errors are the types at the
  end of \<^verbatim>\<open>internal/pkg/redis/sharded/discover.go\<close> and
  \<^verbatim>\<open>redis_sharded_cluster.go\<close>.
\<close>

datatype error =
    ErrorString string
  | WrappedError string error
  | WrappedErrorIn string error string
  | MultiError "error list"
  | DiscoveryError_Sentinel_Failure error
  | DiscoveryError_Master_SingleServerFailure error
  | DiscoveryError_Slave_FailoverInProgress error
  | DiscoveryError_Slave_SingleServerFailure error
  | DiscoveryError_UnknownRole_SingleServerFailure error
  | ShardDiscoveryError string "error list"

text \<open>
  \<^verbatim>\<open>json.Marshal\<close> of a list of strings: the escapes of \<^verbatim>\<open>encoding/json\<close> for the
  ASCII characters, every other byte copied.
\<close>

definition hexdigit :: "nat \<Rightarrow> char" where
  "hexdigit d = ''0123456789abcdef'' ! d"

definition json_char :: "char \<Rightarrow> string" where
  "json_char c =
     (let n = of_char c :: nat in
      if n = 34 \<or> n = 92 then [char_of (92 :: nat), c]
      else if n = 8 then [char_of (92 :: nat), CHR ''b'']
      else if n = 12 then [char_of (92 :: nat), CHR ''f'']
      else if n = 10 then [char_of (92 :: nat), CHR ''n'']
      else if n = 13 then [char_of (92 :: nat), CHR ''r'']
      else if n = 9 then [char_of (92 :: nat), CHR ''t'']
      else if n < 32 \<or> n = 60 \<or> n = 62 \<or> n = 38
        then char_of (92 :: nat) # ''u00'' @ [hexdigit (n div 16), hexdigit (n mod 16)]
      else [c])"

definition json_string :: "string \<Rightarrow> string" where
  "json_string s = CHR 0x22 # concat (map json_char s) @ [CHR 0x22]"

definition json_strings :: "string list \<Rightarrow> string" where
  "json_strings xs = ''['' @ join '','' (map json_string xs) @ '']''"

text \<open>
  The text of an error, its method \<^verbatim>\<open>Error()\<close>. The discovery errors embed an error and
  inherit its text.
\<close>

fun error_text :: "error \<Rightarrow> string" where
  "error_text (ErrorString s) = s"
| "error_text (WrappedError s e) = s @ error_text e"
| "error_text (WrappedErrorIn s e t) = s @ error_text e @ t"
| "error_text (MultiError es) = json_strings (map error_text es)"
| "error_text (DiscoveryError_Sentinel_Failure e) = error_text e"
| "error_text (DiscoveryError_Master_SingleServerFailure e) = error_text e"
| "error_text (DiscoveryError_Slave_FailoverInProgress e) = error_text e"
| "error_text (DiscoveryError_Slave_SingleServerFailure e) = error_text e"
| "error_text (DiscoveryError_UnknownRole_SingleServerFailure e) = error_text e"
| "error_text (ShardDiscoveryError n es) =
     ''errors occurred for shard '' @ n @ '': '' @ [CHR 0x27] @ json_strings (map error_text es) @ [CHR 0x27]"

text \<open>\<^verbatim>\<open>util.WrapError\<close>.\<close>

definition WrapError :: "string \<Rightarrow> error \<Rightarrow> error" where
  "WrapError ctx e = ErrorString (''['' @ ctx @ ''] '' @ error_text e)"

text \<open>\<^verbatim>\<open>MultiError.ErrorOrNil\<close>: \<^const>\<open>None\<close> is the nil error.\<close>

definition ErrorOrNil :: "error list \<Rightarrow> error option" where
  "ErrorOrNil me = (if length me > 0 then Some (MultiError me) else None)"

text \<open>
  The chain \<^verbatim>\<open>errors.As\<close> walks: the error itself, then what its \<^verbatim>\<open>Unwrap\<close> method
  returns. \<open>MultiError\<close> and \<open>ShardDiscoveryError\<close> unwrap to lists and \<^verbatim>\<open>%w\<close> to the
  wrapped error. The discovery errors only embed the \<^verbatim>\<open>error\<close> interface, which promotes
  \<^verbatim>\<open>Error()\<close> and not \<^verbatim>\<open>Unwrap()\<close>, so the walk stops at them.
\<close>

fun errors_As :: "(error \<Rightarrow> bool) \<Rightarrow> error \<Rightarrow> bool" where
  "errors_As p (MultiError es) = (p (MultiError es) \<or> list_ex (errors_As p) es)"
| "errors_As p (ShardDiscoveryError n es) =
     (p (ShardDiscoveryError n es) \<or> list_ex (errors_As p) es)"
| "errors_As p (WrappedError s e) = (p (WrappedError s e) \<or> errors_As p e)"
| "errors_As p (WrappedErrorIn s e t) = (p (WrappedErrorIn s e t) \<or> errors_As p e)"
| "errors_As p e = p e"

lemma ErrorOrNil_simps [simp]:
  "ErrorOrNil [] = None"
  "es \<noteq> [] \<Longrightarrow> ErrorOrNil es = Some (MultiError es)"
  "ErrorOrNil es = None \<longleftrightarrow> es = []"
  "ErrorOrNil es = Some e \<longleftrightarrow> es \<noteq> [] \<and> e = MultiError es"
  by (auto simp: ErrorOrNil_def)


section \<open>Network addresses\<close>

text \<open>\<^verbatim>\<open>net.JoinHostPort\<close>: a host that holds a colon is bracketed.\<close>

definition JoinHostPort :: "string \<Rightarrow> string \<Rightarrow> string" where
  "JoinHostPort host port =
     (if CHR '':'' \<in> set host then ''['' @ host @ '']:'' @ port else host @ '':'' @ port)"

text \<open>\<^verbatim>\<open>net.SplitHostPort\<close>, with its error branches.\<close>

definition SplitHostPort :: "string \<Rightarrow> error + string \<times> string" where
  "SplitHostPort hp =
     (case lastIndex (CHR '':'') hp of
        None \<Rightarrow> Inl (ErrorString ''missing port in address'')
      | Some i \<Rightarrow>
          (if hp ! 0 = CHR ''['' then
             (case firstIndex (CHR '']'') hp of
                None \<Rightarrow> Inl (ErrorString ''missing ] in address'')
              | Some e \<Rightarrow>
                  if e + 1 = length hp then Inl (ErrorString ''missing port in address'')
                  else if e + 1 \<noteq> i then
                    Inl (ErrorString (if hp ! (e + 1) = CHR '':'' then ''too many colons in address''
                                      else ''missing port in address''))
                  else if CHR ''['' \<in> set (drop 1 hp) then Inl (ErrorString ''unexpected [ in address'')
                  else if CHR '']'' \<in> set (drop (e + 1) hp) then Inl (ErrorString ''unexpected ] in address'')
                  else Inr (take (e - 1) (drop 1 hp), drop (i + 1) hp))
           else if CHR '':'' \<in> set (take i hp) then Inl (ErrorString ''too many colons in address'')
           else if CHR ''['' \<in> set hp then Inl (ErrorString ''unexpected [ in address'')
           else if CHR '']'' \<in> set hp then Inl (ErrorString ''unexpected ] in address'')
           else Inr (take i hp, drop (i + 1) hp)))"

text \<open>
  The hosts and ports that survive a round trip: no brackets, and no colon in the port
  (an IPv4 address, a DNS name or an IPv6 address, with a numeric port).
\<close>

definition plain_host :: "string \<Rightarrow> bool" where
  "plain_host h \<longleftrightarrow> CHR ''['' \<notin> set h \<and> CHR '']'' \<notin> set h"

definition plain_port :: "string \<Rightarrow> bool" where
  "plain_port p \<longleftrightarrow> CHR ''['' \<notin> set p \<and> CHR '']'' \<notin> set p \<and> CHR '':'' \<notin> set p"

lemma lastIndex_None: "c \<notin> set s \<Longrightarrow> lastIndex c s = None"
  by (induction s) auto

lemma lastIndex_append: "c \<notin> set b \<Longrightarrow> lastIndex c (a @ c # b) = Some (length a)"
  by (induction a) (auto simp: lastIndex_None)

lemma firstIndex_append: "c \<notin> set a \<Longrightarrow> firstIndex c (a @ c # b) = Some (length a)"
  by (induction a) auto

lemma SplitHostPort_bracketed:
  assumes "plain_host h" and "plain_port p"
  shows "SplitHostPort (CHR ''['' # h @ CHR '']'' # CHR '':'' # p) = Inr (h, p)"
proof -
  let ?hp = "CHR ''['' # h @ CHR '']'' # CHR '':'' # p"
  have "lastIndex (CHR '':'') ?hp = Some (Suc (Suc (length h)))"
    using lastIndex_append [of "CHR '':''" p "CHR ''['' # h @ [CHR '']'']"] assms(2)
    by (simp add: plain_port_def)
  moreover have "firstIndex (CHR '']'') ?hp = Some (Suc (length h))"
    using firstIndex_append [of "CHR '']''" "CHR ''['' # h" "CHR '':'' # p"] assms(1)
    by (simp add: plain_host_def)
  ultimately show ?thesis using assms
    by (simp add: SplitHostPort_def plain_host_def plain_port_def)
qed

lemma SplitHostPort_JoinHostPort:
  assumes "plain_host h" and "plain_port p"
  shows "SplitHostPort (JoinHostPort h p) = Inr (h, p)"
proof (cases "CHR '':'' \<in> set h")
  case True
  then show ?thesis using SplitHostPort_bracketed [OF assms] by (simp add: JoinHostPort_def)
next
  case False
  have "lastIndex (CHR '':'') (h @ CHR '':'' # p) = Some (length h)"
    using assms(2) by (simp add: lastIndex_append plain_port_def)
  moreover have "(h @ CHR '':'' # p) ! 0 \<noteq> CHR ''[''"
    using assms(1) by (cases h) (auto simp: plain_host_def)
  ultimately show ?thesis using assms False
    by (simp add: SplitHostPort_def JoinHostPort_def plain_host_def plain_port_def)
qed

lemma JoinHostPort_inject:
  assumes "plain_host h" "plain_port p" "plain_host h'" "plain_port p'"
  shows "JoinHostPort h p = JoinHostPort h' p' \<longleftrightarrow> h = h' \<and> p = p'"
  using SplitHostPort_JoinHostPort assms by (metis Inr_inject Pair_inject)


section \<open>Options\<close>

lemma option_eqI: "(\<And>t. x = Some t \<longleftrightarrow> y = Some t) \<Longrightarrow> x = y"
  by (cases x; cases y) auto

lemma bind_SomeE:
  assumes "Option.bind x f = Some z"
  obtains y where "x = Some y" "f y = Some z"
  using assms by (cases x) auto


section \<open>Slices and sorting\<close>

text \<open>
  \<^verbatim>\<open>sort.Slice(xs, func(i, j) bool { return key(xs[i]) < key(xs[j]) })\<close> is
  \<^const>\<open>sort_key\<close> of the library, and \<^verbatim>\<open>sort.Sort(sort.Reverse(xs))\<close> the descending sort
  below. Go leaves the order of elements with equal keys open; both models keep it.
\<close>

fun insert_desc :: "('a \<Rightarrow> 'k::linorder) \<Rightarrow> 'a \<Rightarrow> 'a list \<Rightarrow> 'a list" where
  "insert_desc f x [] = [x]"
| "insert_desc f x (y # ys) = (if f y \<le> f x then x # y # ys else y # insert_desc f x ys)"

definition sort_desc :: "('a \<Rightarrow> 'k::linorder) \<Rightarrow> 'a list \<Rightarrow> 'a list" where
  "sort_desc f xs = foldr (insert_desc f) xs []"

lemma mset_insert_desc [simp]: "mset (insert_desc f x xs) = add_mset x (mset xs)"
  by (induction xs) auto

lemma sort_desc_Nil [simp]: "sort_desc f [] = []"
  by (simp add: sort_desc_def)

lemma sort_desc_Cons: "sort_desc f (x # xs) = insert_desc f x (sort_desc f xs)"
  by (simp add: sort_desc_def)

lemma mset_sort_desc [simp]: "mset (sort_desc f xs) = mset xs"
  by (induction xs) (auto simp: sort_desc_Cons)

lemma set_sort_desc [simp]: "set (sort_desc f xs) = set xs"
  by (metis mset_sort_desc set_mset_mset)

lemma length_sort_desc [simp]: "length (sort_desc f xs) = length xs"
  by (metis mset_sort_desc size_mset)

lemma set_insert_desc [simp]: "set (insert_desc f x xs) = insert x (set xs)"
  by (metis mset_insert_desc set_mset_add_mset_insert set_mset_mset)

lemma sorted_insert_desc:
  "sorted_wrt (\<lambda>a b. f b \<le> f a) xs \<Longrightarrow> sorted_wrt (\<lambda>a b. f b \<le> f a) (insert_desc f x xs)"
  by (induction xs) (auto intro: order_trans)

lemma sorted_sort_desc: "sorted_wrt (\<lambda>a b. f b \<le> f a) (sort_desc f xs)"
  by (induction xs) (auto simp: sort_desc_Cons sorted_insert_desc)

lemma insert_desc_head: "\<forall>y \<in> set xs. f y \<le> f x \<Longrightarrow> insert_desc f x xs = x # xs"
  by (cases xs) auto

lemma sort_desc_id: "sorted_wrt (\<lambda>a b. f b \<le> f a) xs \<Longrightarrow> sort_desc f xs = xs"
  by (induction xs) (auto simp: sort_desc_Cons insert_desc_head)

lemma length_filter_mset: "mset xs = mset ys \<Longrightarrow> length (filter p xs) = length (filter p ys)"
  by (metis mset_filter size_mset)

text \<open>Two sorted permutations with distinct keys are equal: sorting hides the map order.\<close>

lemma sort_key_perm:
  fixes f :: "'a \<Rightarrow> 'k::linorder"
  assumes "mset xs = mset ys" and "distinct (map f xs)"
  shows "sort_key f xs = sort_key f ys"
proof -
  have "inj_on f (set xs)" using assms(2) by (simp add: distinct_map)
  then show ?thesis
    using assms(1) by (intro sort_key_inj_key_eq) auto
qed

section \<open>Duplicates\<close>

text \<open>\<^verbatim>\<open>lo.Uniq\<close> and \<^verbatim>\<open>lo.UniqBy\<close>: the first element of each key, in order.\<close>

fun UniqBy :: "('a \<Rightarrow> 'k) \<Rightarrow> 'a list \<Rightarrow> 'a list" where
  "UniqBy f [] = []"
| "UniqBy f (x # xs) = x # UniqBy f (filter (\<lambda>y. f y \<noteq> f x) xs)"

definition Uniq :: "'a list \<Rightarrow> 'a list" where
  "Uniq xs = UniqBy id xs"

lemma image_UniqBy: "f ` set (UniqBy f xs) = f ` set xs"
  by (induction f xs rule: UniqBy.induct) auto

lemma UniqBy_subset: "set (UniqBy f xs) \<subseteq> set xs"
  by (induction f xs rule: UniqBy.induct) auto

lemma distinct_UniqBy: "distinct (map f (UniqBy f xs))"
  using UniqBy_subset by (induction f xs rule: UniqBy.induct) fastforce+

lemma Uniq_simps [simp]: "Uniq [] = []" "Uniq [x] = [x]"
  by (simp_all add: Uniq_def)

lemma set_Uniq [simp]: "set (Uniq xs) = set xs"
  using image_UniqBy [of id xs] by (simp add: Uniq_def)

lemma distinct_Uniq [simp]: "distinct (Uniq xs)"
  using distinct_UniqBy [of id xs] by (simp add: Uniq_def)

text \<open>\<^verbatim>\<open>lo.PartitionBy\<close>: the elements in groups of one key, in the order in which the keys appear.\<close>

definition PartitionBy :: "('a \<Rightarrow> 'k) \<Rightarrow> 'a list \<Rightarrow> 'a list list" where
  "PartitionBy f xs = map (\<lambda>k. filter (\<lambda>x. f x = k) xs) (Uniq (map f xs))"

end
