(* ===== verification/CommonTypes.thy ===== *)
theory CommonTypes
  imports Prelude "HOL-Library.Monad_Syntax"
begin

text \<open>
  The building blocks of the custom resources, \<^verbatim>\<open>api/v1alpha1/common_types.go\<close>: the
  optional specifications with their defaulting, the canary patches and the aggregated status.

  A pointer field is an option. Types of the Kubernetes API that the code only copies
  (\<^verbatim>\<open>IntOrString\<close>, scaling behaviours, quantities, deployment statuses) are type variables.
  A slice or map whose nil value the code can tell from the empty one is an option too.
\<close>

section \<open>Values with a default\<close>

text \<open>
  \<^verbatim>\<open>stringOrDefault\<close>, \<^verbatim>\<open>intOrDefault\<close>, \<^verbatim>\<open>int64OrDefault\<close>, \<^verbatim>\<open>boolOrDefault\<close> and
  \<^verbatim>\<open>durationOrDefault\<close> have the same body.
\<close>

definition orDefault :: "'a option \<Rightarrow> 'a option \<Rightarrow> 'a option" where
  "orDefault v d = (if v = None then d else v)"

definition stringSliceOrDefault :: "string list \<Rightarrow> string list \<Rightarrow> string list" where
  "stringSliceOrDefault v d = (if length v = 0 then d else v)"

text \<open>What defaulting may do to a field: a set field keeps its value.\<close>

definition field_kept :: "'a option \<Rightarrow> 'a option \<Rightarrow> bool" where
  "field_kept v v' \<longleftrightarrow> v = None \<or> v' = v"

named_theorems defaulting_simps \<open>defaulting of the fields of a specification\<close>

lemma orDefault_simps [simp, defaulting_simps]:
  "orDefault None d = d"
  "orDefault (Some x) d = Some x"
  "orDefault (orDefault v d) d = orDefault v d"
  by (auto simp: orDefault_def)

lemma field_kept_orDefault [simp, defaulting_simps]: "field_kept v (orDefault v d)"
  by (auto simp: field_kept_def orDefault_def)

lemma field_kept_refl [simp, defaulting_simps]: "field_kept v v"
  by (simp add: field_kept_def)

section \<open>Image\<close>

record ImageSpec =
  img_Name :: "string option"
  img_Tag :: "string option"
  img_PullSecretName :: "string option"
  img_PullPolicy :: "string option"

definition no_ImageSpec :: ImageSpec where
  "no_ImageSpec = \<lparr>img_Name = None, img_Tag = None, img_PullSecretName = None, img_PullPolicy = None\<rparr>"

text \<open>The type of the defaults, \<^verbatim>\<open>defaultImageSpec\<close>, has the same fields.\<close>

definition ImageSpec_Default :: "ImageSpec \<Rightarrow> ImageSpec \<Rightarrow> ImageSpec" where
  "ImageSpec_Default d spec =
     \<lparr>img_Name = orDefault (img_Name spec) (img_Name d),
      img_Tag = orDefault (img_Tag spec) (img_Tag d),
      img_PullSecretName = orDefault (img_PullSecretName spec) (img_PullSecretName d),
      img_PullPolicy = (if img_PullPolicy spec = None then img_PullPolicy d else img_PullPolicy spec)\<rparr>"

definition ImageSpec_IsDeactivated :: "ImageSpec \<Rightarrow> bool" where
  "ImageSpec_IsDeactivated spec = False"

definition InitializeImageSpec :: "ImageSpec option \<Rightarrow> ImageSpec \<Rightarrow> ImageSpec" where
  "InitializeImageSpec spec d =
     (case spec of
        None \<Rightarrow> ImageSpec_Default d no_ImageSpec
      | Some s \<Rightarrow> ImageSpec_Default d s)"

section \<open>Probe\<close>

record ProbeSpec =
  pr_InitialDelaySeconds :: "int option"
  pr_TimeoutSeconds :: "int option"
  pr_PeriodSeconds :: "int option"
  pr_SuccessThreshold :: "int option"
  pr_FailureThreshold :: "int option"

definition no_ProbeSpec :: ProbeSpec where
  "no_ProbeSpec = \<lparr>pr_InitialDelaySeconds = None, pr_TimeoutSeconds = None, pr_PeriodSeconds = None,
     pr_SuccessThreshold = None, pr_FailureThreshold = None\<rparr>"

definition ProbeSpec_Default :: "ProbeSpec \<Rightarrow> ProbeSpec \<Rightarrow> ProbeSpec" where
  "ProbeSpec_Default d spec =
     \<lparr>pr_InitialDelaySeconds = orDefault (pr_InitialDelaySeconds spec) (pr_InitialDelaySeconds d),
      pr_TimeoutSeconds = orDefault (pr_TimeoutSeconds spec) (pr_TimeoutSeconds d),
      pr_PeriodSeconds = orDefault (pr_PeriodSeconds spec) (pr_PeriodSeconds d),
      pr_SuccessThreshold = orDefault (pr_SuccessThreshold spec) (pr_SuccessThreshold d),
      pr_FailureThreshold = orDefault (pr_FailureThreshold spec) (pr_FailureThreshold d)\<rparr>"

definition ProbeSpec_IsDeactivated :: "ProbeSpec \<Rightarrow> bool" where
  "ProbeSpec_IsDeactivated spec \<longleftrightarrow> spec = no_ProbeSpec"

definition InitializeProbeSpec :: "ProbeSpec option \<Rightarrow> ProbeSpec \<Rightarrow> ProbeSpec" where
  "InitializeProbeSpec spec d =
     (case spec of
        None \<Rightarrow> ProbeSpec_Default d no_ProbeSpec
      | Some s \<Rightarrow> if \<not> ProbeSpec_IsDeactivated s then ProbeSpec_Default d s else s)"

section \<open>Load balancers\<close>

record ElasticLoadBalancerSpec =
  elb_ProxyProtocol :: "bool option"
  elb_CrossZoneLoadBalancingEnabled :: "bool option"
  elb_ConnectionDrainingEnabled :: "bool option"
  elb_ConnectionDrainingTimeout :: "int option"
  elb_HealthcheckHealthyThreshold :: "int option"
  elb_HealthcheckUnhealthyThreshold :: "int option"
  elb_HealthcheckInterval :: "int option"
  elb_HealthcheckTimeout :: "int option"

definition no_ElasticLoadBalancerSpec :: ElasticLoadBalancerSpec where
  "no_ElasticLoadBalancerSpec = \<lparr>elb_ProxyProtocol = None, elb_CrossZoneLoadBalancingEnabled = None,
     elb_ConnectionDrainingEnabled = None, elb_ConnectionDrainingTimeout = None,
     elb_HealthcheckHealthyThreshold = None, elb_HealthcheckUnhealthyThreshold = None,
     elb_HealthcheckInterval = None, elb_HealthcheckTimeout = None\<rparr>"

definition DefaultElasticLoadBalancerSpec :: ElasticLoadBalancerSpec where
  "DefaultElasticLoadBalancerSpec = \<lparr>elb_ProxyProtocol = Some True, elb_CrossZoneLoadBalancingEnabled = Some True,
     elb_ConnectionDrainingEnabled = Some True, elb_ConnectionDrainingTimeout = Some 60,
     elb_HealthcheckHealthyThreshold = Some 2, elb_HealthcheckUnhealthyThreshold = Some 2,
     elb_HealthcheckInterval = Some 5, elb_HealthcheckTimeout = Some 3\<rparr>"

definition ElasticLoadBalancerSpec_Default ::
    "ElasticLoadBalancerSpec \<Rightarrow> ElasticLoadBalancerSpec \<Rightarrow> ElasticLoadBalancerSpec" where
  "ElasticLoadBalancerSpec_Default d spec =
     \<lparr>elb_ProxyProtocol = orDefault (elb_ProxyProtocol spec) (elb_ProxyProtocol d),
      elb_CrossZoneLoadBalancingEnabled =
        orDefault (elb_CrossZoneLoadBalancingEnabled spec) (elb_CrossZoneLoadBalancingEnabled d),
      elb_ConnectionDrainingEnabled =
        orDefault (elb_ConnectionDrainingEnabled spec) (elb_ConnectionDrainingEnabled d),
      elb_ConnectionDrainingTimeout =
        orDefault (elb_ConnectionDrainingTimeout spec) (elb_ConnectionDrainingTimeout d),
      elb_HealthcheckHealthyThreshold =
        orDefault (elb_HealthcheckHealthyThreshold spec) (elb_HealthcheckHealthyThreshold d),
      elb_HealthcheckUnhealthyThreshold =
        orDefault (elb_HealthcheckUnhealthyThreshold spec) (elb_HealthcheckUnhealthyThreshold d),
      elb_HealthcheckInterval = orDefault (elb_HealthcheckInterval spec) (elb_HealthcheckInterval d),
      elb_HealthcheckTimeout = orDefault (elb_HealthcheckTimeout spec) (elb_HealthcheckTimeout d)\<rparr>"

definition InitializeElasticLoadBalancerSpec ::
    "ElasticLoadBalancerSpec option \<Rightarrow> ElasticLoadBalancerSpec \<Rightarrow> ElasticLoadBalancerSpec" where
  "InitializeElasticLoadBalancerSpec spec d =
     (case spec of
        None \<Rightarrow> ElasticLoadBalancerSpec_Default d no_ElasticLoadBalancerSpec
      | Some s \<Rightarrow> ElasticLoadBalancerSpec_Default d s)"

record NetworkLoadBalancerSpec =
  nlb_ProxyProtocol :: "bool option"
  nlb_CrossZoneLoadBalancingEnabled :: "bool option"
  nlb_EIPAllocations :: "string list"
  nlb_LoadBalancerName :: "string option"
  nlb_DeletionProtection :: "bool option"

definition no_NetworkLoadBalancerSpec :: NetworkLoadBalancerSpec where
  "no_NetworkLoadBalancerSpec = \<lparr>nlb_ProxyProtocol = None, nlb_CrossZoneLoadBalancingEnabled = None,
     nlb_EIPAllocations = [], nlb_LoadBalancerName = None, nlb_DeletionProtection = None\<rparr>"

definition DefaultNetworkLoadBalancerSpec :: NetworkLoadBalancerSpec where
  "DefaultNetworkLoadBalancerSpec = \<lparr>nlb_ProxyProtocol = Some True, nlb_CrossZoneLoadBalancingEnabled = Some True,
     nlb_EIPAllocations = [], nlb_LoadBalancerName = None, nlb_DeletionProtection = Some False\<rparr>"

definition NetworkLoadBalancerSpec_Default ::
    "NetworkLoadBalancerSpec \<Rightarrow> NetworkLoadBalancerSpec \<Rightarrow> NetworkLoadBalancerSpec" where
  "NetworkLoadBalancerSpec_Default d spec =
     spec\<lparr>nlb_ProxyProtocol := orDefault (nlb_ProxyProtocol spec) (nlb_ProxyProtocol d),
          nlb_CrossZoneLoadBalancingEnabled :=
            orDefault (nlb_CrossZoneLoadBalancingEnabled spec) (nlb_CrossZoneLoadBalancingEnabled d),
          nlb_DeletionProtection := orDefault (nlb_DeletionProtection spec) (nlb_DeletionProtection d)\<rparr>"

definition InitializeNetworkLoadBalancerSpec ::
    "NetworkLoadBalancerSpec option \<Rightarrow> NetworkLoadBalancerSpec \<Rightarrow> NetworkLoadBalancerSpec" where
  "InitializeNetworkLoadBalancerSpec spec d =
     (case spec of
        None \<Rightarrow> NetworkLoadBalancerSpec_Default d no_NetworkLoadBalancerSpec
      | Some s \<Rightarrow> NetworkLoadBalancerSpec_Default d s)"

section \<open>Grafana dashboard\<close>

record GrafanaDashboardSpec =
  gd_SelectorKey :: "string option"
  gd_SelectorValue :: "string option"

definition no_GrafanaDashboardSpec :: GrafanaDashboardSpec where
  "no_GrafanaDashboardSpec = \<lparr>gd_SelectorKey = None, gd_SelectorValue = None\<rparr>"

definition GrafanaDashboardSpec_Default ::
    "GrafanaDashboardSpec \<Rightarrow> GrafanaDashboardSpec \<Rightarrow> GrafanaDashboardSpec" where
  "GrafanaDashboardSpec_Default d spec =
     \<lparr>gd_SelectorKey = orDefault (gd_SelectorKey spec) (gd_SelectorKey d),
      gd_SelectorValue = orDefault (gd_SelectorValue spec) (gd_SelectorValue d)\<rparr>"

definition GrafanaDashboardSpec_IsDeactivated :: "GrafanaDashboardSpec \<Rightarrow> bool" where
  "GrafanaDashboardSpec_IsDeactivated spec \<longleftrightarrow> spec = no_GrafanaDashboardSpec"

definition InitializeGrafanaDashboardSpec ::
    "GrafanaDashboardSpec option \<Rightarrow> GrafanaDashboardSpec \<Rightarrow> GrafanaDashboardSpec" where
  "InitializeGrafanaDashboardSpec spec d =
     (case spec of
        None \<Rightarrow> GrafanaDashboardSpec_Default d no_GrafanaDashboardSpec
      | Some s \<Rightarrow> if \<not> GrafanaDashboardSpec_IsDeactivated s then GrafanaDashboardSpec_Default d s else s)"

section \<open>Pod disruption budget\<close>

record 'i PodDisruptionBudgetSpec =
  pdb_MinAvailable :: "'i option"
  pdb_MaxUnavailable :: "'i option"

definition no_PodDisruptionBudgetSpec :: "'i PodDisruptionBudgetSpec" where
  "no_PodDisruptionBudgetSpec = \<lparr>pdb_MinAvailable = None, pdb_MaxUnavailable = None\<rparr>"

definition PodDisruptionBudgetSpec_Default ::
    "'i PodDisruptionBudgetSpec \<Rightarrow> 'i PodDisruptionBudgetSpec \<Rightarrow> 'i PodDisruptionBudgetSpec" where
  "PodDisruptionBudgetSpec_Default d spec =
     (if pdb_MinAvailable spec = None \<and> pdb_MaxUnavailable spec = None then
        if pdb_MinAvailable d \<noteq> None then
          spec\<lparr>pdb_MinAvailable := pdb_MinAvailable d, pdb_MaxUnavailable := None\<rparr>
        else if pdb_MaxUnavailable d \<noteq> None then
          spec\<lparr>pdb_MinAvailable := None, pdb_MaxUnavailable := pdb_MaxUnavailable d\<rparr>
        else spec
      else spec)"

definition PodDisruptionBudgetSpec_IsDeactivated :: "'i PodDisruptionBudgetSpec \<Rightarrow> bool" where
  "PodDisruptionBudgetSpec_IsDeactivated spec \<longleftrightarrow> spec = no_PodDisruptionBudgetSpec"

definition InitializePodDisruptionBudgetSpec ::
    "'i PodDisruptionBudgetSpec option \<Rightarrow> 'i PodDisruptionBudgetSpec \<Rightarrow> 'i PodDisruptionBudgetSpec" where
  "InitializePodDisruptionBudgetSpec spec d =
     (case spec of
        None \<Rightarrow> PodDisruptionBudgetSpec_Default d no_PodDisruptionBudgetSpec
      | Some s \<Rightarrow> if \<not> PodDisruptionBudgetSpec_IsDeactivated s then PodDisruptionBudgetSpec_Default d s else s)"

section \<open>Horizontal pod autoscaler\<close>

text \<open>The defaults have no behaviour: they are a record whose behaviour is not read.\<close>

record 'b HorizontalPodAutoscalerSpec =
  hpa_MinReplicas :: "int option"
  hpa_MaxReplicas :: "int option"
  hpa_ResourceName :: "string option"
  hpa_ResourceUtilization :: "int option"
  hpa_Behavior :: "'b option"

definition no_HorizontalPodAutoscalerSpec :: "'b HorizontalPodAutoscalerSpec" where
  "no_HorizontalPodAutoscalerSpec = \<lparr>hpa_MinReplicas = None, hpa_MaxReplicas = None, hpa_ResourceName = None,
     hpa_ResourceUtilization = None, hpa_Behavior = None\<rparr>"

definition HorizontalPodAutoscalerSpec_Default ::
    "'b HorizontalPodAutoscalerSpec \<Rightarrow> 'b HorizontalPodAutoscalerSpec \<Rightarrow> 'b HorizontalPodAutoscalerSpec" where
  "HorizontalPodAutoscalerSpec_Default d spec =
     spec\<lparr>hpa_MinReplicas := orDefault (hpa_MinReplicas spec) (hpa_MinReplicas d),
          hpa_MaxReplicas := orDefault (hpa_MaxReplicas spec) (hpa_MaxReplicas d),
          hpa_ResourceName := orDefault (hpa_ResourceName spec) (hpa_ResourceName d),
          hpa_ResourceUtilization := orDefault (hpa_ResourceUtilization spec) (hpa_ResourceUtilization d)\<rparr>"

definition HorizontalPodAutoscalerSpec_IsDeactivated :: "'b HorizontalPodAutoscalerSpec \<Rightarrow> bool" where
  "HorizontalPodAutoscalerSpec_IsDeactivated spec \<longleftrightarrow> spec = no_HorizontalPodAutoscalerSpec"

definition InitializeHorizontalPodAutoscalerSpec ::
    "'b HorizontalPodAutoscalerSpec option \<Rightarrow> 'b HorizontalPodAutoscalerSpec \<Rightarrow> 'b HorizontalPodAutoscalerSpec" where
  "InitializeHorizontalPodAutoscalerSpec spec d =
     (case spec of
        None \<Rightarrow> HorizontalPodAutoscalerSpec_Default d no_HorizontalPodAutoscalerSpec
      | Some s \<Rightarrow>
          if \<not> HorizontalPodAutoscalerSpec_IsDeactivated s then HorizontalPodAutoscalerSpec_Default d s else s)"

section \<open>Deployment strategy\<close>

text \<open>A rolling update is the pair of its maximum surge and its maximum number of unavailable pods.\<close>

record 'i DeploymentStrategySpec =
  ds_Type :: string
  ds_RollingUpdate :: "('i option \<times> 'i option) option"

definition DeploymentStrategySpec_Default ::
    "'i option \<Rightarrow> 'i option \<Rightarrow> 'i DeploymentStrategySpec \<Rightarrow> 'i DeploymentStrategySpec" where
  "DeploymentStrategySpec_Default maxUnavailable maxSurge spec =
     spec\<lparr>ds_Type := ''RollingUpdate'', ds_RollingUpdate := Some (maxSurge, maxUnavailable)\<rparr>"

definition InitializeDeploymentStrategySpec ::
    "'i DeploymentStrategySpec option \<Rightarrow> 'i option \<Rightarrow> 'i option \<Rightarrow> 'i DeploymentStrategySpec" where
  "InitializeDeploymentStrategySpec spec maxUnavailable maxSurge =
     (case spec of
        None \<Rightarrow> DeploymentStrategySpec_Default maxUnavailable maxSurge \<lparr>ds_Type = '''', ds_RollingUpdate = None\<rparr>
      | Some s \<Rightarrow> s)"

section \<open>Resource requirements\<close>

record ('q, 'c) ResourceRequirementsSpec =
  rr_Limits :: "(string, 'q) gomap option"
  rr_Requests :: "(string, 'q) gomap option"
  rr_Claims :: "'c list option"

definition no_ResourceRequirementsSpec :: "('q, 'c) ResourceRequirementsSpec" where
  "no_ResourceRequirementsSpec = \<lparr>rr_Limits = None, rr_Requests = None, rr_Claims = None\<rparr>"

text \<open>The defaults have limits and requests only.\<close>

definition ResourceRequirementsSpec_Default ::
    "('q, 'c) ResourceRequirementsSpec \<Rightarrow> ('q, 'c) ResourceRequirementsSpec \<Rightarrow> ('q, 'c) ResourceRequirementsSpec" where
  "ResourceRequirementsSpec_Default d spec =
     (let spec = (if rr_Requests spec = None then spec\<lparr>rr_Requests := rr_Requests d\<rparr> else spec)
      in if rr_Limits spec = None then spec\<lparr>rr_Limits := rr_Limits d\<rparr> else spec)"

definition ResourceRequirementsSpec_IsDeactivated :: "('q, 'c) ResourceRequirementsSpec \<Rightarrow> bool" where
  "ResourceRequirementsSpec_IsDeactivated spec \<longleftrightarrow> spec = no_ResourceRequirementsSpec"

definition InitializeResourceRequirementsSpec ::
    "('q, 'c) ResourceRequirementsSpec option \<Rightarrow> ('q, 'c) ResourceRequirementsSpec
       \<Rightarrow> ('q, 'c) ResourceRequirementsSpec" where
  "InitializeResourceRequirementsSpec spec d =
     (case spec of
        None \<Rightarrow> ResourceRequirementsSpec_Default d no_ResourceRequirementsSpec
      | Some s \<Rightarrow>
          if \<not> ResourceRequirementsSpec_IsDeactivated s then ResourceRequirementsSpec_Default d s else s)"

section \<open>Secrets\<close>

record ExternalSecretSecretStoreReferenceSpec =
  ss_Name :: "string option"
  ss_Kind :: "string option"

definition no_SecretStoreReference :: ExternalSecretSecretStoreReferenceSpec where
  "no_SecretStoreReference = \<lparr>ss_Name = None, ss_Kind = None\<rparr>"

definition defaultExternalSecretSecretStoreReference :: ExternalSecretSecretStoreReferenceSpec where
  "defaultExternalSecretSecretStoreReference = \<lparr>ss_Name = Some ''vault-mgmt'', ss_Kind = Some ''ClusterSecretStore''\<rparr>"

definition SecretStoreReference_Default ::
    "ExternalSecretSecretStoreReferenceSpec \<Rightarrow> ExternalSecretSecretStoreReferenceSpec
       \<Rightarrow> ExternalSecretSecretStoreReferenceSpec" where
  "SecretStoreReference_Default d spec =
     \<lparr>ss_Name = orDefault (ss_Name spec) (ss_Name d), ss_Kind = orDefault (ss_Kind spec) (ss_Kind d)\<rparr>"

definition InitializeExternalSecretSecretStoreReferenceSpec ::
    "ExternalSecretSecretStoreReferenceSpec option \<Rightarrow> ExternalSecretSecretStoreReferenceSpec
       \<Rightarrow> ExternalSecretSecretStoreReferenceSpec" where
  "InitializeExternalSecretSecretStoreReferenceSpec spec d =
     (case spec of
        None \<Rightarrow> SecretStoreReference_Default d no_SecretStoreReference
      | Some s \<Rightarrow> SecretStoreReference_Default d s)"

text \<open>The refresh interval is in nanoseconds.\<close>

record ExternalSecret =
  es_SecretStoreRef :: "ExternalSecretSecretStoreReferenceSpec option"
  es_RefreshInterval :: "int option"

definition ExternalSecret_Default :: "ExternalSecret \<Rightarrow> ExternalSecret" where
  "ExternalSecret_Default spec =
     \<lparr>es_SecretStoreRef = Some (InitializeExternalSecretSecretStoreReferenceSpec (es_SecretStoreRef spec)
        defaultExternalSecretSecretStoreReference),
      es_RefreshInterval = orDefault (es_RefreshInterval spec) (Some 60000000000)\<rparr>"

text \<open>A reference to Vault is a path and a key; a reference to the seed has no content.\<close>

record SecretReference =
  sr_FromVault :: "(string \<times> string) option"
  sr_Override :: "string option"
  sr_FromSeed :: "unit option"

definition no_SecretReference :: SecretReference where
  "no_SecretReference = \<lparr>sr_FromVault = None, sr_Override = None, sr_FromSeed = None\<rparr>"

record BugsnagSpec =
  bs_ReleaseStage :: "string option"
  bs_APIKey :: SecretReference

definition BugsnagSpec_Enabled :: "BugsnagSpec \<Rightarrow> bool" where
  "BugsnagSpec_Enabled bs \<longleftrightarrow> bs \<noteq> \<lparr>bs_ReleaseStage = None, bs_APIKey = no_SecretReference\<rparr>"

section \<open>Canary deployments\<close>

text \<open>
  The JSON documents, their (un)marshalling and the RFC 6902 patches are those of libraries:
  \<open>'doc\<close> is the type of a document, \<open>'p\<close> that of a decoded patch.
\<close>

record ('s, 'doc, 'p) json_lib =
  js_Marshal :: "'s \<Rightarrow> error + 'doc"
  js_Unmarshal :: "'doc \<Rightarrow> error + 's"
  js_DecodePatch :: "string \<Rightarrow> error + 'p"
  js_Apply :: "'p \<Rightarrow> 'doc \<Rightarrow> error + 'doc"

record Canary =
  can_SendTraffic :: bool
  can_ImageName :: "string option"
  can_ImageTag :: "string option"
  can_Replicas :: "int option"
  can_Patches :: "string list"

definition canary_error :: "string \<Rightarrow> error \<Rightarrow> error" where
  "canary_error what e = ErrorString (what @ '': '' @ [CHR 0x27] @ error_text e @ [CHR 0x27])"

fun apply_patches :: "('s, 'doc, 'p) json_lib \<Rightarrow> string list \<Rightarrow> 'doc \<Rightarrow> error + 'doc" where
  "apply_patches J [] doc = Inr doc"
| "apply_patches J (p # ps) doc =
     (case js_DecodePatch J p of
        Inl e \<Rightarrow> Inl (canary_error ''unable to decode canary patch'' e)
      | Inr patch \<Rightarrow>
          (case js_Apply J patch doc of
             Inl e \<Rightarrow> Inl (canary_error ''unable to apply canary patch'' e)
           | Inr doc \<Rightarrow> apply_patches J ps doc))"

definition Canary_PatchSpec :: "('s, 'doc, 'p) json_lib \<Rightarrow> Canary \<Rightarrow> 's \<Rightarrow> error + 's" where
  "Canary_PatchSpec J c spec =
     (case js_Marshal J spec of
        Inl e \<Rightarrow> Inl (canary_error ''unable to marshal spec'' e)
      | Inr doc \<Rightarrow>
          (case apply_patches J (can_Patches c) doc of
             Inl e \<Rightarrow> Inl e
           | Inr doc \<Rightarrow>
               (case js_Unmarshal J doc of
                  Inl e \<Rightarrow> Inl (canary_error ''unable to unmarshal spec'' e)
                | Inr s \<Rightarrow> Inr s)))"

section \<open>Aggregated status\<close>

text \<open>
  The map holds pointers, and the JSON of a status may hold a null: \<open>Some None\<close> is a nil
  pointer, whose fields panic.
\<close>

record ('d, 's) WorkloadStatus =
  wl_HealthStatus :: string
  wl_HealthMessage :: string
  wl_DeploymentStatus :: "'d option"
  wl_StatefulSetStatus :: "'s option"

record ('d, 's) AggregatedStatus =
  ag_Health :: string
  ag_OwnedWorkloads :: "(string \<rightharpoonup> ('d, 's) WorkloadStatus option) option"

definition owned :: "('d, 's) AggregatedStatus \<Rightarrow> string \<rightharpoonup> ('d, 's) WorkloadStatus option" where
  "owned st = (case ag_OwnedWorkloads st of None \<Rightarrow> Map.empty | Some m \<Rightarrow> m)"

definition new_workload :: "('d, 's) WorkloadStatus" where
  "new_workload = \<lparr>wl_HealthStatus = ''Unknown'', wl_HealthMessage = ''Unable to determine health'',
     wl_DeploymentStatus = None, wl_StatefulSetStatus = None\<rparr>"

definition AggregatedStatus_Init :: "string \<Rightarrow> ('d, 's) AggregatedStatus \<Rightarrow> ('d, 's) AggregatedStatus" where
  "AggregatedStatus_Init key st =
     (let m = owned st
      in st\<lparr>ag_OwnedWorkloads := Some (if m key = None then m(key \<mapsto> Some new_workload) else m)\<rparr>)"

text \<open>The body of the four setters and of the four getters: \<^const>\<open>None\<close> is the panic on a nil workload.\<close>

definition set_workload ::
    "(('d, 's) WorkloadStatus \<Rightarrow> ('d, 's) WorkloadStatus) \<Rightarrow> string \<Rightarrow> ('d, 's) AggregatedStatus
       \<Rightarrow> ('d, 's) AggregatedStatus option" where
  "set_workload f key st =
     (let st = AggregatedStatus_Init key st
      in case owned st key of
           Some (Some w) \<Rightarrow> Some (st\<lparr>ag_OwnedWorkloads := Some ((owned st)(key \<mapsto> Some (f w)))\<rparr>)
         | _ \<Rightarrow> None)"

definition get_workload ::
    "(('d, 's) WorkloadStatus \<Rightarrow> 'a) \<Rightarrow> 'a \<Rightarrow> string \<Rightarrow> ('d, 's) AggregatedStatus \<Rightarrow> 'a option" where
  "get_workload f missing key st =
     (case owned st key of None \<Rightarrow> Some missing | Some w \<Rightarrow> map_option f w)"

definition SetDeploymentStatus :: "string \<Rightarrow> 'd option \<Rightarrow> ('d, 's) AggregatedStatus \<Rightarrow> ('d, 's) AggregatedStatus option" where
  "SetDeploymentStatus key s = set_workload (\<lambda>w. w\<lparr>wl_DeploymentStatus := s\<rparr>) key"
definition SetStatefulSetStatus :: "string \<Rightarrow> 's option \<Rightarrow> ('d, 's) AggregatedStatus \<Rightarrow> ('d, 's) AggregatedStatus option" where
  "SetStatefulSetStatus key s = set_workload (\<lambda>w. w\<lparr>wl_StatefulSetStatus := s\<rparr>) key"
definition SetHealthStatus :: "string \<Rightarrow> string \<Rightarrow> ('d, 's) AggregatedStatus \<Rightarrow> ('d, 's) AggregatedStatus option" where
  "SetHealthStatus key s = set_workload (\<lambda>w. w\<lparr>wl_HealthStatus := s\<rparr>) key"
definition SetHealthMessage :: "string \<Rightarrow> string \<Rightarrow> ('d, 's) AggregatedStatus \<Rightarrow> ('d, 's) AggregatedStatus option" where
  "SetHealthMessage key s = set_workload (\<lambda>w. w\<lparr>wl_HealthMessage := s\<rparr>) key"

definition GetDeploymentStatus :: "string \<Rightarrow> ('d, 's) AggregatedStatus \<Rightarrow> 'd option option" where
  "GetDeploymentStatus = get_workload wl_DeploymentStatus None"
definition GetStatefulSetStatus :: "string \<Rightarrow> ('d, 's) AggregatedStatus \<Rightarrow> 's option option" where
  "GetStatefulSetStatus = get_workload wl_StatefulSetStatus None"
definition GetHealthStatus :: "string \<Rightarrow> ('d, 's) AggregatedStatus \<Rightarrow> string option" where
  "GetHealthStatus = get_workload wl_HealthStatus ''Unknown''"
definition GetHealthMessage :: "string \<Rightarrow> ('d, 's) AggregatedStatus \<Rightarrow> string option" where
  "GetHealthMessage = get_workload wl_HealthMessage ''Unable to determine health''"

definition GetAggregatedHealthStatus :: "('d, 's) AggregatedStatus \<Rightarrow> string" where
  "GetAggregatedHealthStatus st = (if ag_Health st = '''' then ''Unknown'' else ag_Health st)"

definition SetAggregatedHealthStatus :: "string \<Rightarrow> ('d, 's) AggregatedStatus \<Rightarrow> ('d, 's) AggregatedStatus" where
  "SetAggregatedHealthStatus s st = st\<lparr>ag_Health := s\<rparr>"

section \<open>The contract of defaulting\<close>

text \<open>
  What every \<^verbatim>\<open>Initialize\<close> function of the API promises: \<open>dflt\<close> is the method
  \<^verbatim>\<open>Default\<close>, \<open>off\<close> is \<^verbatim>\<open>IsDeactivated\<close> (constantly false where the type has no such
  method), \<open>zero\<close> the empty struct and \<open>ext\<close> the relation between a specification and one that
  keeps its set fields.
\<close>

locale defaulted_spec =
  fixes zero :: 's and dflt :: "'d \<Rightarrow> 's \<Rightarrow> 's" and off :: "'s \<Rightarrow> bool"
    and init :: "'s option \<Rightarrow> 'd \<Rightarrow> 's" and ext :: "'s \<Rightarrow> 's \<Rightarrow> bool"
  assumes init_unfold: "init spec d = (case spec of None \<Rightarrow> dflt d zero | Some s \<Rightarrow> if off s then s else dflt d s)"
    and dflt_idem: "dflt d (dflt d s) = dflt d s"
    and dflt_ext: "ext s (dflt d s)"
    and ext_refl: "ext s s"
begin

lemma init_idem: "init (Some (init spec d)) d = init spec d"
  by (simp add: init_unfold dflt_idem split: option.split)

lemma init_ext: "ext s (init (Some s) d)"
  by (simp add: init_unfold dflt_ext ext_refl)

lemma init_off: "off s \<Longrightarrow> init (Some s) d = s"
  by (simp add: init_unfold)

end

definition image_ext :: "ImageSpec \<Rightarrow> ImageSpec \<Rightarrow> bool" where
  "image_ext s t \<longleftrightarrow> field_kept (img_Name s) (img_Name t) \<and> field_kept (img_Tag s) (img_Tag t) \<and>
     field_kept (img_PullSecretName s) (img_PullSecretName t) \<and> field_kept (img_PullPolicy s) (img_PullPolicy t)"

definition probe_ext :: "ProbeSpec \<Rightarrow> ProbeSpec \<Rightarrow> bool" where
  "probe_ext s t \<longleftrightarrow> field_kept (pr_InitialDelaySeconds s) (pr_InitialDelaySeconds t) \<and>
     field_kept (pr_TimeoutSeconds s) (pr_TimeoutSeconds t) \<and> field_kept (pr_PeriodSeconds s) (pr_PeriodSeconds t) \<and>
     field_kept (pr_SuccessThreshold s) (pr_SuccessThreshold t) \<and>
     field_kept (pr_FailureThreshold s) (pr_FailureThreshold t)"

definition elb_ext :: "ElasticLoadBalancerSpec \<Rightarrow> ElasticLoadBalancerSpec \<Rightarrow> bool" where
  "elb_ext s t \<longleftrightarrow> field_kept (elb_ProxyProtocol s) (elb_ProxyProtocol t) \<and>
     field_kept (elb_CrossZoneLoadBalancingEnabled s) (elb_CrossZoneLoadBalancingEnabled t) \<and>
     field_kept (elb_ConnectionDrainingEnabled s) (elb_ConnectionDrainingEnabled t) \<and>
     field_kept (elb_ConnectionDrainingTimeout s) (elb_ConnectionDrainingTimeout t) \<and>
     field_kept (elb_HealthcheckHealthyThreshold s) (elb_HealthcheckHealthyThreshold t) \<and>
     field_kept (elb_HealthcheckUnhealthyThreshold s) (elb_HealthcheckUnhealthyThreshold t) \<and>
     field_kept (elb_HealthcheckInterval s) (elb_HealthcheckInterval t) \<and>
     field_kept (elb_HealthcheckTimeout s) (elb_HealthcheckTimeout t)"

definition nlb_ext :: "NetworkLoadBalancerSpec \<Rightarrow> NetworkLoadBalancerSpec \<Rightarrow> bool" where
  "nlb_ext s t \<longleftrightarrow> field_kept (nlb_ProxyProtocol s) (nlb_ProxyProtocol t) \<and>
     field_kept (nlb_CrossZoneLoadBalancingEnabled s) (nlb_CrossZoneLoadBalancingEnabled t) \<and>
     nlb_EIPAllocations t = nlb_EIPAllocations s \<and> nlb_LoadBalancerName t = nlb_LoadBalancerName s \<and>
     field_kept (nlb_DeletionProtection s) (nlb_DeletionProtection t)"

definition dashboard_ext :: "GrafanaDashboardSpec \<Rightarrow> GrafanaDashboardSpec \<Rightarrow> bool" where
  "dashboard_ext s t \<longleftrightarrow> field_kept (gd_SelectorKey s) (gd_SelectorKey t) \<and>
     field_kept (gd_SelectorValue s) (gd_SelectorValue t)"

text \<open>The two bounds of a disruption budget exclude each other: a set budget stays as it is.\<close>

definition pdb_ext :: "'i PodDisruptionBudgetSpec \<Rightarrow> 'i PodDisruptionBudgetSpec \<Rightarrow> bool" where
  "pdb_ext s t \<longleftrightarrow> s = no_PodDisruptionBudgetSpec \<or> t = s"

definition hpa_ext :: "'b HorizontalPodAutoscalerSpec \<Rightarrow> 'b HorizontalPodAutoscalerSpec \<Rightarrow> bool" where
  "hpa_ext s t \<longleftrightarrow> field_kept (hpa_MinReplicas s) (hpa_MinReplicas t) \<and>
     field_kept (hpa_MaxReplicas s) (hpa_MaxReplicas t) \<and> field_kept (hpa_ResourceName s) (hpa_ResourceName t) \<and>
     field_kept (hpa_ResourceUtilization s) (hpa_ResourceUtilization t) \<and> hpa_Behavior t = hpa_Behavior s"

definition resources_ext :: "('q, 'c) ResourceRequirementsSpec \<Rightarrow> ('q, 'c) ResourceRequirementsSpec \<Rightarrow> bool" where
  "resources_ext s t \<longleftrightarrow> field_kept (rr_Limits s) (rr_Limits t) \<and> field_kept (rr_Requests s) (rr_Requests t) \<and>
     rr_Claims t = rr_Claims s"

definition store_ext ::
    "ExternalSecretSecretStoreReferenceSpec \<Rightarrow> ExternalSecretSecretStoreReferenceSpec \<Rightarrow> bool" where
  "store_ext s t \<longleftrightarrow> field_kept (ss_Name s) (ss_Name t) \<and> field_kept (ss_Kind s) (ss_Kind t)"

interpretation image: defaulted_spec no_ImageSpec ImageSpec_Default ImageSpec_IsDeactivated InitializeImageSpec image_ext
  by unfold_locales
    (auto simp: InitializeImageSpec_def ImageSpec_Default_def ImageSpec_IsDeactivated_def image_ext_def field_kept_def
      orDefault_def split: option.split)

interpretation probe: defaulted_spec no_ProbeSpec ProbeSpec_Default ProbeSpec_IsDeactivated InitializeProbeSpec probe_ext
  by unfold_locales
    (auto simp: InitializeProbeSpec_def ProbeSpec_Default_def probe_ext_def split: option.split)

interpretation elb: defaulted_spec no_ElasticLoadBalancerSpec ElasticLoadBalancerSpec_Default "\<lambda>_. False"
    InitializeElasticLoadBalancerSpec elb_ext
  by unfold_locales
    (auto simp: InitializeElasticLoadBalancerSpec_def ElasticLoadBalancerSpec_Default_def elb_ext_def split: option.split)

interpretation nlb: defaulted_spec no_NetworkLoadBalancerSpec NetworkLoadBalancerSpec_Default "\<lambda>_. False"
    InitializeNetworkLoadBalancerSpec nlb_ext
  by unfold_locales
    (auto simp: InitializeNetworkLoadBalancerSpec_def NetworkLoadBalancerSpec_Default_def nlb_ext_def split: option.split)

interpretation dashboard: defaulted_spec no_GrafanaDashboardSpec GrafanaDashboardSpec_Default
    GrafanaDashboardSpec_IsDeactivated InitializeGrafanaDashboardSpec dashboard_ext
  by unfold_locales
    (auto simp: InitializeGrafanaDashboardSpec_def GrafanaDashboardSpec_Default_def dashboard_ext_def split: option.split)

interpretation pdb: defaulted_spec no_PodDisruptionBudgetSpec PodDisruptionBudgetSpec_Default
    PodDisruptionBudgetSpec_IsDeactivated InitializePodDisruptionBudgetSpec pdb_ext
  by unfold_locales
    (auto simp: InitializePodDisruptionBudgetSpec_def PodDisruptionBudgetSpec_Default_def pdb_ext_def
      no_PodDisruptionBudgetSpec_def split: option.split)

interpretation hpa: defaulted_spec no_HorizontalPodAutoscalerSpec HorizontalPodAutoscalerSpec_Default
    HorizontalPodAutoscalerSpec_IsDeactivated InitializeHorizontalPodAutoscalerSpec hpa_ext
  by unfold_locales
    (auto simp: InitializeHorizontalPodAutoscalerSpec_def HorizontalPodAutoscalerSpec_Default_def hpa_ext_def
      split: option.split)

interpretation resources: defaulted_spec no_ResourceRequirementsSpec ResourceRequirementsSpec_Default
    ResourceRequirementsSpec_IsDeactivated InitializeResourceRequirementsSpec resources_ext
  by unfold_locales
    (auto simp: InitializeResourceRequirementsSpec_def ResourceRequirementsSpec_Default_def resources_ext_def
      field_kept_def Let_def split: option.split)

interpretation store: defaulted_spec no_SecretStoreReference SecretStoreReference_Default "\<lambda>_. False"
    InitializeExternalSecretSecretStoreReferenceSpec store_ext
  by unfold_locales
    (auto simp: InitializeExternalSecretSecretStoreReferenceSpec_def SecretStoreReference_Default_def store_ext_def
      split: option.split)

text \<open>
  Defaulting is idempotent: the resource defaulter runs on every reconciliation, and a
  specification that has been through it once does not change again.
\<close>

lemma Initialize_idempotent:
  "InitializeImageSpec (Some (InitializeImageSpec i di)) di = InitializeImageSpec i di \<and>
   InitializeProbeSpec (Some (InitializeProbeSpec p dp)) dp = InitializeProbeSpec p dp \<and>
   InitializeElasticLoadBalancerSpec (Some (InitializeElasticLoadBalancerSpec e de)) de
     = InitializeElasticLoadBalancerSpec e de \<and>
   InitializeNetworkLoadBalancerSpec (Some (InitializeNetworkLoadBalancerSpec n dn)) dn
     = InitializeNetworkLoadBalancerSpec n dn \<and>
   InitializeGrafanaDashboardSpec (Some (InitializeGrafanaDashboardSpec g dg)) dg
     = InitializeGrafanaDashboardSpec g dg \<and>
   InitializePodDisruptionBudgetSpec (Some (InitializePodDisruptionBudgetSpec b db)) db
     = InitializePodDisruptionBudgetSpec b db \<and>
   InitializeHorizontalPodAutoscalerSpec (Some (InitializeHorizontalPodAutoscalerSpec h dh)) dh
     = InitializeHorizontalPodAutoscalerSpec h dh \<and>
   InitializeResourceRequirementsSpec (Some (InitializeResourceRequirementsSpec r dr)) dr
     = InitializeResourceRequirementsSpec r dr \<and>
   InitializeDeploymentStrategySpec (Some (InitializeDeploymentStrategySpec s mu ms)) mu ms
     = InitializeDeploymentStrategySpec s mu ms \<and>
   ExternalSecret_Default (ExternalSecret_Default x) = ExternalSecret_Default x"
  by (simp add: image.init_idem probe.init_idem elb.init_idem nlb.init_idem dashboard.init_idem pdb.init_idem
      hpa.init_idem resources.init_idem InitializeDeploymentStrategySpec_def ExternalSecret_Default_def store.init_idem
      split: option.split)

text \<open>
  Defaulting respects the user: every field that is set keeps its value, and the empty
  struct, which deactivates the feature, is left alone for probes, dashboards, disruption
  budgets, autoscalers and resource requirements.
\<close>

lemma Initialize_respects_user:
  "image_ext i (InitializeImageSpec (Some i) di) \<and>
   probe_ext p (InitializeProbeSpec (Some p) dp) \<and>
   elb_ext e (InitializeElasticLoadBalancerSpec (Some e) de) \<and>
   nlb_ext n (InitializeNetworkLoadBalancerSpec (Some n) dn) \<and>
   dashboard_ext g (InitializeGrafanaDashboardSpec (Some g) dg) \<and>
   pdb_ext b (InitializePodDisruptionBudgetSpec (Some b) db) \<and>
   hpa_ext h (InitializeHorizontalPodAutoscalerSpec (Some h) dh) \<and>
   resources_ext r (InitializeResourceRequirementsSpec (Some r) dr) \<and>
   InitializeProbeSpec (Some no_ProbeSpec) dp = no_ProbeSpec \<and>
   InitializeGrafanaDashboardSpec (Some no_GrafanaDashboardSpec) dg = no_GrafanaDashboardSpec \<and>
   InitializePodDisruptionBudgetSpec (Some no_PodDisruptionBudgetSpec) db = no_PodDisruptionBudgetSpec \<and>
   InitializeHorizontalPodAutoscalerSpec (Some no_HorizontalPodAutoscalerSpec) dh = no_HorizontalPodAutoscalerSpec \<and>
   InitializeResourceRequirementsSpec (Some no_ResourceRequirementsSpec) dr = no_ResourceRequirementsSpec"
  by (simp add: image.init_ext probe.init_ext elb.init_ext nlb.init_ext dashboard.init_ext pdb.init_ext hpa.init_ext
      resources.init_ext probe.init_off dashboard.init_off pdb.init_off hpa.init_off resources.init_off
      ProbeSpec_IsDeactivated_def GrafanaDashboardSpec_IsDeactivated_def PodDisruptionBudgetSpec_IsDeactivated_def
      HorizontalPodAutoscalerSpec_IsDeactivated_def ResourceRequirementsSpec_IsDeactivated_def)

text \<open>A disruption budget never ends with both bounds when the user sets at most one.\<close>

lemma InitializePodDisruptionBudgetSpec_exclusive:
  assumes "case spec of None \<Rightarrow> True | Some s \<Rightarrow> pdb_MinAvailable s = None \<or> pdb_MaxUnavailable s = None"
  shows "pdb_MinAvailable (InitializePodDisruptionBudgetSpec spec d) = None \<or>
    pdb_MaxUnavailable (InitializePodDisruptionBudgetSpec spec d) = None"
  using assms
  by (auto simp: InitializePodDisruptionBudgetSpec_def PodDisruptionBudgetSpec_Default_def no_PodDisruptionBudgetSpec_def
      split: option.splits)

section \<open>Properties of the aggregated status\<close>

lemma owned_Init:
  "owned (AggregatedStatus_Init key st) = (if owned st key = None then (owned st)(key \<mapsto> Some new_workload) else owned st)"
  by (simp add: AggregatedStatus_Init_def owned_def Let_def)

lemma set_workload_effect:
  assumes "owned st key \<noteq> Some None"
  shows "\<exists>st'. set_workload f key st = Some st' \<and> ag_Health st' = ag_Health st \<and>
    owned st' = (owned st)(key \<mapsto> Some (f (case owned st key of Some (Some w) \<Rightarrow> w | _ \<Rightarrow> new_workload)))"
proof -
  have h: "ag_Health (AggregatedStatus_Init key st) = ag_Health st" by (simp add: AggregatedStatus_Init_def Let_def)
  show ?thesis
  proof (cases "owned st key")
    case None
    with h show ?thesis by (simp add: set_workload_def Let_def owned_Init) (simp add: owned_def)
  next
    case (Some v)
    with assms obtain w where "v = Some w" by (cases v) auto
    with Some h show ?thesis by (simp add: set_workload_def Let_def owned_Init) (simp add: owned_def)
  qed
qed

text \<open>
  The status of a workload reads back what was written: after \<^verbatim>\<open>SetHealthStatus\<close> the
  getter returns the new value, the other fields of the workload and all the fields of every
  other workload read as before, whether or not the workload, or the map, existed. The same
  holds of the deployment status.
\<close>

lemma AggregatedStatus_get_set:
  assumes "owned st key \<noteq> Some None"
  shows "(\<exists>st'. SetHealthStatus key s st = Some st' \<and> GetHealthStatus key st' = Some s \<and>
      GetHealthMessage key st' = GetHealthMessage key st \<and>
      GetDeploymentStatus key st' = GetDeploymentStatus key st \<and>
      GetStatefulSetStatus key st' = GetStatefulSetStatus key st \<and>
      (\<forall>k. k \<noteq> key \<longrightarrow> GetHealthStatus k st' = GetHealthStatus k st \<and> GetHealthMessage k st' = GetHealthMessage k st \<and>
        GetDeploymentStatus k st' = GetDeploymentStatus k st \<and> GetStatefulSetStatus k st' = GetStatefulSetStatus k st) \<and>
      GetAggregatedHealthStatus st' = GetAggregatedHealthStatus st) \<and>
    (\<exists>st'. SetDeploymentStatus key d st = Some st' \<and> GetDeploymentStatus key st' = Some d \<and>
      GetHealthStatus key st' = GetHealthStatus key st \<and> GetHealthMessage key st' = GetHealthMessage key st \<and>
      GetStatefulSetStatus key st' = GetStatefulSetStatus key st \<and>
      (\<forall>k. k \<noteq> key \<longrightarrow> owned st' k = owned st k))"
proof -
  note defs = GetHealthStatus_def GetHealthMessage_def GetDeploymentStatus_def GetStatefulSetStatus_def
    get_workload_def GetAggregatedHealthStatus_def new_workload_def
  obtain st1 where st1: "SetHealthStatus key s st = Some st1" "ag_Health st1 = ag_Health st"
    "owned st1 = (owned st)(key \<mapsto> Some ((case owned st key of Some (Some w) \<Rightarrow> w | _ \<Rightarrow> new_workload)\<lparr>wl_HealthStatus := s\<rparr>))"
    using set_workload_effect [OF assms, of "\<lambda>w. w\<lparr>wl_HealthStatus := s\<rparr>"] by (auto simp: SetHealthStatus_def)
  obtain st2 where st2: "SetDeploymentStatus key d st = Some st2" "ag_Health st2 = ag_Health st"
    "owned st2 = (owned st)(key \<mapsto> Some ((case owned st key of Some (Some w) \<Rightarrow> w | _ \<Rightarrow> new_workload)\<lparr>wl_DeploymentStatus := d\<rparr>))"
    using set_workload_effect [OF assms, of "\<lambda>w. w\<lparr>wl_DeploymentStatus := d\<rparr>"] by (auto simp: SetDeploymentStatus_def)
  have "\<exists>w. owned st key = None \<or> owned st key = Some (Some w)" using assms by (cases "owned st key") auto
  with st1 st2 show ?thesis by (auto simp: defs)
qed

end
