(* ===== verification/RedisPool.thy ===== *)
theory RedisPool
  imports Prelude
begin

text \<open>
  The redis client layer: \<^verbatim>\<open>internal/pkg/redis/client\<close> (result types, the client
  interface, the fake client) and \<^verbatim>\<open>internal/pkg/redis/server\<close> (the \<^verbatim>\<open>Server\<close>
  wrapper that decodes the replies, and the \<^verbatim>\<open>ServerPool\<close> of reusable servers).

  The go-redis library and the redis servers behind it are not part of the sources: every
  operation takes a record \<open>X\<close> of type \<open>'w lib\<close> that holds the client's commands, as
  functions on an arbitrary world \<open>'w\<close>, and the two library functions the code calls
  (\<^verbatim>\<open>redis.ParseURL\<close> and the \<^verbatim>\<open>Scan\<close> into a struct). The fake client of the
  sources is one such record.

  A \<^verbatim>\<open>*Server\<close> pointer is represented by the pair of its host and port: the pool never
  holds two servers with the same address (\<open>pool_ok\<close> below), and a server's host and
  port never change. Its only mutable field, the alias, is read from the pool.
\<close>

section \<open>Result types of the client\<close>

datatype Role = Master | Slave | Unknown

definition role_str :: "Role \<Rightarrow> string" where
  "role_str r = (case r of Master \<Rightarrow> ''master'' | Slave \<Rightarrow> ''slave'' | Unknown \<Rightarrow> ''unknown'')"

record SentinelMasterCmdResult =
  m_Name :: string
  m_IP :: string
  m_Port :: int
  m_RunID :: string
  m_Flags :: string
  m_LinkPendingCommands :: int
  m_LinkRefcount :: int
  m_LastPingSent :: int
  m_LastOkPingReply :: int
  m_LastPingReply :: int
  m_DownAfterMilliseconds :: int
  m_InfoRefresh :: int
  m_RoleReported :: string
  m_RoleReportedTime :: int
  m_ConfigEpoch :: int
  m_NumSlaves :: int
  m_NumOtherSentinels :: int
  m_Quorum :: int
  m_FailoverTimeout :: int
  m_ParallelSyncs :: int

record SentinelSlaveCmdResult =
  sl_Name :: string
  sl_IP :: string
  sl_Port :: int
  sl_RunID :: string
  sl_Flags :: string
  sl_LinkPendingCommands :: int
  sl_LinkRefcount :: int
  sl_LastPingSent :: int
  sl_LastOkPingReply :: int
  sl_LastPingReply :: int
  sl_DownAfterMilliseconds :: int
  sl_InfoRefresh :: int
  sl_RoleReported :: string
  sl_RoleReportedTime :: int
  sl_MasterLinkDownTime :: int
  sl_MasterLinkStatus :: string
  sl_MasterHost :: string
  sl_MasterPort :: int
  sl_SlavePriority :: int
  sl_SlaveReplOffset :: int

text \<open>The dynamic values (\<^verbatim>\<open>any\<close>) that the client returns.\<close>

datatype any =
    ANil
  | AStr string
  | AInt int
  | ASlice "any list"
  | AStrings "string list"
  | AMaster SentinelMasterCmdResult

text \<open>Type assertions and indexing: \<^const>\<open>None\<close> is the panic.\<close>

fun as_string :: "any \<Rightarrow> string option" where
  "as_string (AStr s) = Some s"
| "as_string _ = None"

fun as_int :: "any \<Rightarrow> int option" where
  "as_int (AInt i) = Some i"
| "as_int _ = None"

fun as_slice :: "any \<Rightarrow> any list option" where
  "as_slice (ASlice xs) = Some xs"
| "as_slice _ = None"

definition at :: "'a list \<Rightarrow> nat \<Rightarrow> 'a option" where
  "at xs i = (if i < length xs then Some (xs ! i) else None)"

lemma at_simps [simp]:
  "at [] i = None"
  "at (x # xs) 0 = Some x"
  "at (x # xs) (Suc i) = at xs i"
  "at (x # xs) 1 = at xs 0"
  by (auto simp: at_def)

text \<open>\<^verbatim>\<open>RedisServerInfoCache\<close>; a duration is a number of nanoseconds.\<close>

record RedisServerInfoCache =
  CacheAge :: int
  Info :: "string \<rightharpoonup> string"

type_synonym SentinelInfoCache = "string \<rightharpoonup> (string \<rightharpoonup> RedisServerInfoCache)"

definition GetValue ::
    "SentinelInfoCache \<Rightarrow> string \<Rightarrow> string \<Rightarrow> string \<Rightarrow> int \<Rightarrow> error + string" where
  "GetValue sic shard runID key maxCacheAge =
     (case sic shard of
        None \<Rightarrow> Inl (ErrorString (''unable to find shard '' @ quoted shard @ '' in cache''))
      | Some servers \<Rightarrow>
          (case servers runID of
             None \<Rightarrow> Inl (ErrorString (''unable to find run_id '' @ quoted runID @ '' in '' @ shard @ [CHR 0x27] @ ''s cache''))
           | Some entry \<Rightarrow>
               if CacheAge entry > maxCacheAge then Inl (ErrorString ''cache is too old'')
               else (case Info entry key of
                       None \<Rightarrow> Inl (ErrorString (''unable to find key '' @ quoted key @ '' in '' @ runID @ [CHR 0x27] @ ''s cache''))
                     | Some value \<Rightarrow> Inr value)))"


section \<open>The client interface\<close>

text \<open>
  \<^verbatim>\<open>TestableInterface\<close>, one field per command the operator issues. The first argument is
  the address of the server the client is connected to. A call may panic, which the fake
  client does when it runs out of responses.
\<close>

record 'w lib =
  lib_ParseURL :: "string \<Rightarrow> error + string"
  lib_ScanMaster :: "(string \<rightharpoonup> string) \<Rightarrow> error + SentinelMasterCmdResult"
  lib_ScanSlave :: "(string \<rightharpoonup> string) \<Rightarrow> error + SentinelSlaveCmdResult"
  cl_SentinelMaster :: "string \<Rightarrow> string \<Rightarrow> ('w, error + SentinelMasterCmdResult) go"
  cl_SentinelMasters :: "string \<Rightarrow> ('w, error + any list) go"
  cl_SentinelGetMasterAddrByName :: "string \<Rightarrow> string \<Rightarrow> ('w, error + string list) go"
  cl_SentinelSlaves :: "string \<Rightarrow> string \<Rightarrow> ('w, error + any list) go"
  cl_SentinelMonitor :: "string \<Rightarrow> string \<Rightarrow> string \<Rightarrow> string \<Rightarrow> int \<Rightarrow> ('w, error option) go"
  cl_SentinelSet :: "string \<Rightarrow> string \<Rightarrow> string \<Rightarrow> string \<Rightarrow> ('w, error option) go"
  cl_SentinelInfoCache :: "string \<Rightarrow> ('w, any \<times> error option) go"
  cl_SentinelPing :: "string \<Rightarrow> ('w, error option) go"
  cl_RedisRole :: "string \<Rightarrow> ('w, error + any) go"
  cl_RedisConfigGet :: "string \<Rightarrow> string \<Rightarrow> ('w, error + any list) go"
  cl_RedisConfigSet :: "string \<Rightarrow> string \<Rightarrow> string \<Rightarrow> ('w, error option) go"
  cl_RedisSlaveOf :: "string \<Rightarrow> string \<Rightarrow> string \<Rightarrow> ('w, error option) go"
  cl_RedisBGSave :: "string \<Rightarrow> ('w, error option) go"
  cl_RedisLastSave :: "string \<Rightarrow> ('w, error + int) go"
  cl_RedisInfo :: "string \<Rightarrow> string \<Rightarrow> ('w, error + string) go"


section \<open>Server\<close>

record Server =
  s_alias :: string
  s_host :: string
  s_port :: string

type_synonym srvref = "string \<times> string"

definition ID :: "srvref \<Rightarrow> string" where
  "ID srv = JoinHostPort (fst srv) (snd srv)"

definition ref_of :: "Server \<Rightarrow> srvref" where
  "ref_of s = (s_host s, s_port s)"

definition GetHost :: "srvref \<Rightarrow> string" where "GetHost srv = fst srv"
definition GetPort :: "srvref \<Rightarrow> string" where "GetPort srv = snd srv"

definition SetAlias :: "string \<Rightarrow> Server \<Rightarrow> Server" where
  "SetAlias a s = s\<lparr>s_alias := a\<rparr>"

definition GetAlias :: "Server \<Rightarrow> string" where
  "GetAlias s = (if s_alias s \<noteq> '''' then s_alias s else ID (ref_of s))"

definition NewServer :: "'w lib \<Rightarrow> string \<Rightarrow> string option \<Rightarrow> error + Server" where
  "NewServer X connectionString als =
     (case lib_ParseURL X connectionString of
        Inl e \<Rightarrow> Inl e
      | Inr addr \<Rightarrow>
          (case SplitHostPort addr of
             Inl e \<Rightarrow> Inl e
           | Inr (h, p) \<Rightarrow>
               let srv = \<lparr>s_alias = '''', s_host = h, s_port = p\<rparr>
               in Inr (case als of None \<Rightarrow> srv | Some a \<Rightarrow> SetAlias a srv)))"

definition MustNewServer :: "'w lib \<Rightarrow> string \<Rightarrow> string option \<Rightarrow> Server option" where
  "MustNewServer X connectionString als =
     (case NewServer X connectionString als of Inl e \<Rightarrow> None | Inr s \<Rightarrow> Some s)"

definition NewServerFromParams :: "string \<Rightarrow> string \<Rightarrow> string \<Rightarrow> Server" where
  "NewServerFromParams als h p = \<lparr>s_alias = als, s_host = h, s_port = p\<rparr>"


subsection \<open>Decoding of the replies\<close>

text \<open>
  \<^verbatim>\<open>sliceCmdToStruct\<close>: a flat slice of keys and values becomes a map. A key or value
  that is not a string, or a last key without value, panics.
\<close>

fun slice_pairs :: "any list \<Rightarrow> (string \<rightharpoonup> string) \<Rightarrow> (string \<rightharpoonup> string) option" where
  "slice_pairs [] m = Some m"
| "slice_pairs [k] m = None"
| "slice_pairs (k # v # rest) m =
     do { ks \<leftarrow> as_string k; vs \<leftarrow> as_string v; slice_pairs rest (m(ks \<mapsto> vs)) }"

definition sliceCmdToStruct ::
    "((string \<rightharpoonup> string) \<Rightarrow> error + 'r) \<Rightarrow> any \<Rightarrow> (error + 'r) option" where
  "sliceCmdToStruct scan inp =
     do { xs \<leftarrow> as_slice inp; m \<leftarrow> slice_pairs xs Map.empty; Some (scan m) }"

text \<open>\<^verbatim>\<open>islice2imap\<close>: the same, for values that are slices. Later keys overwrite.\<close>

fun islice_pairs :: "any list \<Rightarrow> (string, any list) gomap \<Rightarrow> (string, any list) gomap option" where
  "islice_pairs [] m = Some m"
| "islice_pairs [k] m = None"
| "islice_pairs (k # v # rest) m =
     do { ks \<leftarrow> as_string k; vs \<leftarrow> as_slice v;
          islice_pairs rest ((ks, vs) # filter (\<lambda>e. fst e \<noteq> ks) m) }"

definition islice2imap :: "any \<Rightarrow> (string, any list) gomap option" where
  "islice2imap inp = do { xs \<leftarrow> as_slice inp; islice_pairs xs [] }"

text \<open>
  \<^verbatim>\<open>InfoStringToMap\<close>: one \<^verbatim>\<open>key:value\<close> per line; empty lines and section headings are
  skipped; a line with no colon indexes past the end of the split result and panics. The
  lines are those of \<^verbatim>\<open>bufio.ScanLines\<close>: split at newlines, a final carriage return
  dropped, no empty line after the last newline.
\<close>

definition drop_cr :: "string \<Rightarrow> string" where
  "drop_cr s = (if s \<noteq> [] \<and> last s = CHR 0x0D then butlast s else s)"

definition scan_lines :: "string \<Rightarrow> string list" where
  "scan_lines s =
     (let ls = split_on (CHR 0x0A) s
      in map drop_cr (if last ls = [] then butlast ls else ls))"

fun info_lines :: "string list \<Rightarrow> (string \<rightharpoonup> string) \<Rightarrow> (string \<rightharpoonup> string) option" where
  "info_lines [] m = Some m"
| "info_lines (l # ls) m =
     (if l \<noteq> '''' \<and> \<not> prefix ''# '' l then
        (case split_n2 (CHR '':'') l of
           k # v # _ \<Rightarrow> info_lines ls (m(k \<mapsto> v))
         | _ \<Rightarrow> None)
      else info_lines ls m)"

definition InfoStringToMap :: "string \<Rightarrow> (string \<rightharpoonup> string) option" where
  "InfoStringToMap s = info_lines (scan_lines s) Map.empty"


subsection \<open>Commands\<close>

definition SentinelMaster ::
    "'w lib \<Rightarrow> srvref \<Rightarrow> string \<Rightarrow> ('w, error + SentinelMasterCmdResult) go" where
  "SentinelMaster X srv shard w = cl_SentinelMaster X (ID srv) shard w"

text \<open>\<^verbatim>\<open>strconv.Atoi\<close> on the decimal numbers the servers return.\<close>

definition digit_val :: "char \<Rightarrow> nat option" where
  "digit_val c =
     (let n = of_char c :: nat in if 48 \<le> n \<and> n \<le> 57 then Some (n - 48) else None)"

fun atoi_nat :: "string \<Rightarrow> nat \<Rightarrow> nat option" where
  "atoi_nat [] acc = Some acc"
| "atoi_nat (c # cs) acc = do { d \<leftarrow> digit_val c; atoi_nat cs (10 * acc + d) }"

text \<open>The range check is that of a 64 bit \<^verbatim>\<open>int\<close>.\<close>

definition atoi_error :: "string \<Rightarrow> string \<Rightarrow> error" where
  "atoi_error s what = ErrorString (''strconv.Atoi: parsing '' @ [CHR 0x22] @ s @ [CHR 0x22] @ '': '' @ what)"

definition Atoi :: "string \<Rightarrow> error + int" where
  "Atoi s =
     (let neg = (s \<noteq> [] \<and> hd s = CHR ''-'');
          body = (if s \<noteq> [] \<and> (hd s = CHR ''-'' \<or> hd s = CHR ''+'') then tl s else s)
      in if body = [] then Inl (atoi_error s ''invalid syntax'')
         else case atoi_nat body 0 of
                None \<Rightarrow> Inl (atoi_error s ''invalid syntax'')
              | Some n \<Rightarrow>
                  let v = (if neg then - int n else int n)
                  in if v < - (2 ^ 63) \<or> 2 ^ 63 \<le> v then Inl (atoi_error s ''value out of range'')
                     else Inr v)"

definition SentinelGetMasterAddrByName ::
    "'w lib \<Rightarrow> srvref \<Rightarrow> string \<Rightarrow> ('w, error + string \<times> int) go" where
  "SentinelGetMasterAddrByName X srv shard w =
     do { (r, w) \<leftarrow> cl_SentinelGetMasterAddrByName X (ID srv) shard w;
          case r of
            Inl e \<Rightarrow> Some (Inl e, w)
          | Inr values \<Rightarrow>
              do { v1 \<leftarrow> at values 1;
                   case Atoi v1 of
                     Inl e \<Rightarrow> Some (Inl e, w)
                   | Inr port \<Rightarrow> do { v0 \<leftarrow> at values 0; Some (Inr (v0, port), w) } } }"

text \<open>The loops of \<^verbatim>\<open>SentinelMasters\<close> and \<^verbatim>\<open>SentinelSlaves\<close> stop at the first error.\<close>

fun scan_all :: "((string \<rightharpoonup> string) \<Rightarrow> error + 'r) \<Rightarrow> any list \<Rightarrow> (error + 'r list) option" where
  "scan_all scan [] = Some (Inr [])"
| "scan_all scan (v # vs) =
     do { r \<leftarrow> sliceCmdToStruct scan v;
          case r of
            Inl e \<Rightarrow> Some (Inl e)
          | Inr x \<Rightarrow> do { rest \<leftarrow> scan_all scan vs; Some (map_sum id ((#) x) rest) } }"

definition SentinelMasters ::
    "'w lib \<Rightarrow> srvref \<Rightarrow> ('w, error + SentinelMasterCmdResult list) go" where
  "SentinelMasters X srv w =
     do { (r, w) \<leftarrow> cl_SentinelMasters X (ID srv) w;
          case r of
            Inl e \<Rightarrow> Some (Inl e, w)
          | Inr values \<Rightarrow> do { res \<leftarrow> scan_all (lib_ScanMaster X) values; Some (res, w) } }"

definition SentinelSlaves ::
    "'w lib \<Rightarrow> srvref \<Rightarrow> string \<Rightarrow> ('w, error + SentinelSlaveCmdResult list) go" where
  "SentinelSlaves X srv shard w =
     do { (r, w) \<leftarrow> cl_SentinelSlaves X (ID srv) shard w;
          case r of
            Inl e \<Rightarrow> Some (Inl e, w)
          | Inr values \<Rightarrow> do { res \<leftarrow> scan_all (lib_ScanSlave X) values; Some (res, w) } }"

definition SentinelMonitor ::
    "'w lib \<Rightarrow> srvref \<Rightarrow> string \<Rightarrow> string \<Rightarrow> string \<Rightarrow> int \<Rightarrow> ('w, error option) go" where
  "SentinelMonitor X srv name h p quorum w = cl_SentinelMonitor X (ID srv) name h p quorum w"

definition SentinelSet ::
    "'w lib \<Rightarrow> srvref \<Rightarrow> string \<Rightarrow> string \<Rightarrow> string \<Rightarrow> ('w, error option) go" where
  "SentinelSet X srv shard parameter val w = cl_SentinelSet X (ID srv) shard parameter val w"

definition SentinelPing :: "'w lib \<Rightarrow> srvref \<Rightarrow> ('w, error option) go" where
  "SentinelPing X srv w = cl_SentinelPing X (ID srv) w"

definition RedisRole :: "'w lib \<Rightarrow> srvref \<Rightarrow> ('w, error + Role \<times> string) go" where
  "RedisRole X srv w =
     do { (r, w) \<leftarrow> cl_RedisRole X (ID srv) w;
          case r of
            Inl e \<Rightarrow> Some (Inl e, w)
          | Inr val \<Rightarrow>
              do { xs \<leftarrow> as_slice val; x0 \<leftarrow> at xs 0; role \<leftarrow> as_string x0;
                   if role = ''master'' then Some (Inr (Master, ''''), w)
                   else do { x1 \<leftarrow> at xs 1; slaveof \<leftarrow> as_string x1; Some (Inr (Slave, slaveof), w) } } }"

definition RedisConfigGet :: "'w lib \<Rightarrow> srvref \<Rightarrow> string \<Rightarrow> ('w, error + string) go" where
  "RedisConfigGet X srv parameter w =
     do { (r, w) \<leftarrow> cl_RedisConfigGet X (ID srv) parameter w;
          case r of
            Inl e \<Rightarrow> Some (Inl e, w)
          | Inr val \<Rightarrow> do { v1 \<leftarrow> at val 1; s \<leftarrow> as_string v1; Some (Inr s, w) } }"

definition RedisConfigSet :: "'w lib \<Rightarrow> srvref \<Rightarrow> string \<Rightarrow> string \<Rightarrow> ('w, error option) go" where
  "RedisConfigSet X srv parameter val w = cl_RedisConfigSet X (ID srv) parameter val w"

definition RedisSlaveOf :: "'w lib \<Rightarrow> srvref \<Rightarrow> string \<Rightarrow> string \<Rightarrow> ('w, error option) go" where
  "RedisSlaveOf X srv h p w = cl_RedisSlaveOf X (ID srv) h p w"

definition RedisBGSave :: "'w lib \<Rightarrow> srvref \<Rightarrow> ('w, error option) go" where
  "RedisBGSave X srv w = cl_RedisBGSave X (ID srv) w"

definition RedisLastSave :: "'w lib \<Rightarrow> srvref \<Rightarrow> ('w, error + int) go" where
  "RedisLastSave X srv w = cl_RedisLastSave X (ID srv) w"

definition RedisInfo :: "'w lib \<Rightarrow> srvref \<Rightarrow> string \<Rightarrow> ('w, error + (string \<rightharpoonup> string)) go" where
  "RedisInfo X srv sec w =
     do { (r, w) \<leftarrow> cl_RedisInfo X (ID srv) sec w;
          case r of
            Inl e \<Rightarrow> Some (Inl e, w)
          | Inr val \<Rightarrow> do { m \<leftarrow> InfoStringToMap val; Some (Inr m, w) } }"

text \<open>
  The servers of one shard in \<^verbatim>\<open>SentinelInfoCache\<close>: a server whose info field is nil is
  skipped, the others are stored under the run id of their info (the empty string when the
  info has none).
\<close>

fun info_cache_servers ::
    "any list \<Rightarrow> (string \<rightharpoonup> RedisServerInfoCache) \<Rightarrow> (string \<rightharpoonup> RedisServerInfoCache) option" where
  "info_cache_servers [] m = Some m"
| "info_cache_servers (s # ss) m =
     do { fields \<leftarrow> as_slice s;
          f1 \<leftarrow> at fields 1;
          if f1 = ANil then info_cache_servers ss m
          else do { txt \<leftarrow> as_string f1;
                    info \<leftarrow> InfoStringToMap txt;
                    f0 \<leftarrow> at fields 0;
                    age \<leftarrow> as_int f0;
                    info_cache_servers ss
                      (m((case info ''run_id'' of None \<Rightarrow> '''' | Some i \<Rightarrow> i) \<mapsto>
                          \<lparr>CacheAge = age * 1000000, Info = info\<rparr>)) } }"

fun info_cache_shards :: "(string, any list) gomap \<Rightarrow> SentinelInfoCache \<Rightarrow> SentinelInfoCache option" where
  "info_cache_shards [] acc = Some acc"
| "info_cache_shards ((shard, servers) # rest) acc =
     do { m \<leftarrow> info_cache_servers servers Map.empty; info_cache_shards rest (acc(shard \<mapsto> m)) }"

definition SentinelInfoCache ::
    "'w lib \<Rightarrow> srvref \<Rightarrow> ('w, SentinelInfoCache \<times> error option) go" where
  "SentinelInfoCache X srv w =
     do { ((raw, err), w) \<leftarrow> cl_SentinelInfoCache X (ID srv) w;
          mval \<leftarrow> islice2imap raw;
          result \<leftarrow> info_cache_shards mval Map.empty;
          Some ((result, err), w) }"

section \<open>ServerPool\<close>

type_synonym ServerPool = "Server list"

definition NewServerPool :: "Server list \<Rightarrow> ServerPool" where
  "NewServerPool servers = (if length servers > 0 then servers else [])"

text \<open>
  \<^verbatim>\<open>indexByHostPort\<close> maps an address to the position of the server that has it, the last
  one when several do.
\<close>

definition indexByHostPort :: "ServerPool \<Rightarrow> (string \<rightharpoonup> nat)" where
  "indexByHostPort pool =
     foldl (\<lambda>m i. m(ID (ref_of (pool ! i)) \<mapsto> i)) Map.empty [0..<length pool]"

definition GetServer ::
    "'w lib \<Rightarrow> string \<Rightarrow> string option \<Rightarrow> ServerPool \<Rightarrow> (error + Server) \<times> ServerPool" where
  "GetServer X connectionString als pool =
     (case lib_ParseURL X connectionString of
        Inl e \<Rightarrow> (Inl e, pool)
      | Inr addr \<Rightarrow>
          (case indexByHostPort pool addr of
             Some i \<Rightarrow>
               (case als of
                  Some a \<Rightarrow>
                    if GetAlias (pool ! i) \<noteq> a
                    then (Inr (SetAlias a (pool ! i)), pool[i := SetAlias a (pool ! i)])
                    else (Inr (pool ! i), pool)
                | None \<Rightarrow> (Inr (pool ! i), pool))
           | None \<Rightarrow>
               (case NewServer X connectionString als of
                  Inl e \<Rightarrow> (Inl e, pool)
                | Inr srv \<Rightarrow> (Inr srv, sort_key (\<lambda>s. ID (ref_of s)) (pool @ [srv])))))"

definition GetServerAlias :: "'w lib \<Rightarrow> string \<Rightarrow> ServerPool \<Rightarrow> string \<times> ServerPool" where
  "GetServerAlias X hostport pool =
     (case GetServer X (''redis://'' @ hostport) None pool of
        (Inr srv, pool') \<Rightarrow> (s_alias srv, pool')
      | (Inl e, pool') \<Rightarrow> ('''', pool'))"

text \<open>Reading the alias of a server through its pointer.\<close>

definition pool_lookup :: "ServerPool \<Rightarrow> string \<Rightarrow> Server option" where
  "pool_lookup pool addr = List.find (\<lambda>s. ID (ref_of s) = addr) pool"

definition alias_of :: "ServerPool \<Rightarrow> srvref \<Rightarrow> string" where
  "alias_of pool srv = (case pool_lookup pool (ID srv) of Some s \<Rightarrow> GetAlias s | None \<Rightarrow> ID srv)"

text \<open>
  The pool invariant: addresses are distinct and increasing. It is what makes the address of
  a server as good as a pointer to it.
\<close>

definition pool_ok :: "ServerPool \<Rightarrow> bool" where
  "pool_ok pool \<longleftrightarrow>
     distinct (map (\<lambda>s. ID (ref_of s)) pool) \<and> sorted (map (\<lambda>s. ID (ref_of s)) pool)"

text \<open>
  What the pool relies on: the address \<^verbatim>\<open>redis.ParseURL\<close> returns is in the form
  \<^verbatim>\<open>net.JoinHostPort\<close> gives it, as \<^verbatim>\<open>setupTCPConn\<close> of go-redis builds it.
\<close>

definition url_canonical :: "'w lib \<Rightarrow> bool" where
  "url_canonical X \<longleftrightarrow>
     (\<forall>u addr h p. lib_ParseURL X u = Inr addr \<longrightarrow> SplitHostPort addr = Inr (h, p) \<longrightarrow>
        JoinHostPort h p = addr)"


subsection \<open>Lemmas on the pool\<close>

lemma ref_of_SetAlias [simp]: "ref_of (SetAlias a s) = ref_of s"
  by (simp add: ref_of_def SetAlias_def)

lemma NewServer_ID:
  assumes "url_canonical X" and "lib_ParseURL X u = Inr addr" and "NewServer X u als = Inr s"
  shows "ID (ref_of s) = addr"
  using assms
  by (auto simp: NewServer_def url_canonical_def ID_def ref_of_def SetAlias_def Let_def
      split: sum.splits option.splits prod.splits)

lemma index_foldl_None:
  "foldl (\<lambda>m i. m(f i \<mapsto> i)) m0 is a = None \<longleftrightarrow> m0 a = None \<and> a \<notin> f ` set is"
  by (induction "is" arbitrary: m0) auto

lemma index_foldl_Some:
  "foldl (\<lambda>m i. m(f i \<mapsto> i)) m0 is a = Some j \<Longrightarrow> m0 a = Some j \<or> (j \<in> set is \<and> f j = a)"
  by (induction "is" arbitrary: m0) (fastforce split: if_splits)+

lemma indexByHostPort_None:
  "indexByHostPort pool addr = None \<longleftrightarrow> addr \<notin> (\<lambda>s. ID (ref_of s)) ` set pool"
  by (fastforce simp: indexByHostPort_def index_foldl_None image_iff in_set_conv_nth)

lemma indexByHostPort_Some:
  "indexByHostPort pool addr = Some i \<Longrightarrow> i < length pool \<and> ID (ref_of (pool ! i)) = addr"
  by (auto simp: indexByHostPort_def dest: index_foldl_Some)

lemma map_ID_update:
  "i < length pool \<Longrightarrow>
     map (\<lambda>s. ID (ref_of s)) (pool[i := SetAlias a (pool ! i)]) = map (\<lambda>s. ID (ref_of s)) pool"
  by (simp add: map_update list_update_same_conv)

lemma pool_lookup_None: "pool_lookup pool a = None \<longleftrightarrow> a \<notin> (\<lambda>s. ID (ref_of s)) ` set pool"
  by (auto simp: pool_lookup_def find_None_iff)

lemma pool_lookup_Some:
  assumes "pool_ok pool"
  shows "pool_lookup pool a = Some s \<longleftrightarrow> s \<in> set pool \<and> ID (ref_of s) = a"
proof
  assume "pool_lookup pool a = Some s"
  then show "s \<in> set pool \<and> ID (ref_of s) = a"
    by (auto simp: pool_lookup_def find_Some_iff)
next
  assume s: "s \<in> set pool \<and> ID (ref_of s) = a"
  then obtain t where t: "pool_lookup pool a = Some t"
    using pool_lookup_None [of pool a] by (cases "pool_lookup pool a") auto
  then have "t \<in> set pool \<and> ID (ref_of t) = a"
    by (auto simp: pool_lookup_def find_Some_iff)
  moreover have "inj_on (\<lambda>s. ID (ref_of s)) (set pool)"
    using assms by (simp add: pool_ok_def distinct_map)
  ultimately have "t = s" using s by (auto dest: inj_onD)
  with t show "pool_lookup pool a = Some s" by simp
qed

lemma pool_ok_insert:
  assumes "pool_ok pool" and "ID (ref_of srv) \<notin> (\<lambda>s. ID (ref_of s)) ` set pool"
  shows "pool_ok (sort_key (\<lambda>s. ID (ref_of s)) (pool @ [srv]))"
proof -
  have "distinct (map (\<lambda>s. ID (ref_of s)) (pool @ [srv]))"
    using assms by (auto simp: pool_ok_def)
  then show ?thesis
    by (auto simp: pool_ok_def distinct_map)
qed

text \<open>The four outcomes of \<^verbatim>\<open>GetServer\<close>.\<close>

lemma GetServer_cases:
  obtains (bad_url) e where "lib_ParseURL X u = Inl e" "GetServer X u als pool = (Inl e, pool)"
  | (known) addr i s where "lib_ParseURL X u = Inr addr" "i < length pool"
      "ID (ref_of (pool ! i)) = addr" "GetServer X u als pool = (Inr s, pool[i := s])"
      "s = pool ! i \<and> (\<forall>a. als = Some a \<longrightarrow> GetAlias s = a)
       \<or> (\<exists>a. als = Some a \<and> s = SetAlias a (pool ! i))"
  | (bad_addr) e addr where "lib_ParseURL X u = Inr addr"
      "addr \<notin> (\<lambda>s. ID (ref_of s)) ` set pool" "GetServer X u als pool = (Inl e, pool)"
  | (fresh) addr s where "lib_ParseURL X u = Inr addr"
      "addr \<notin> (\<lambda>s. ID (ref_of s)) ` set pool" "NewServer X u als = Inr s"
      "GetServer X u als pool = (Inr s, sort_key (\<lambda>s. ID (ref_of s)) (pool @ [s]))"
proof (cases "lib_ParseURL X u")
  case (Inl e)
  then show thesis by (intro bad_url) (auto simp: GetServer_def)
next
  case addr: (Inr addr)
  show thesis
  proof (cases "indexByHostPort pool addr")
    case None
    then have "addr \<notin> (\<lambda>s. ID (ref_of s)) ` set pool" by (simp add: indexByHostPort_None)
    with None addr bad_addr fresh show thesis
      by (cases "NewServer X u als") (auto simp: GetServer_def)
  next
    case (Some i)
    with indexByHostPort_Some have i: "i < length pool" "ID (ref_of (pool ! i)) = addr" by blast+
    show thesis
    proof (cases "\<exists>a. als = Some a \<and> GetAlias (pool ! i) \<noteq> a")
      case True
      then obtain a where "als = Some a" "GetAlias (pool ! i) \<noteq> a" by blast
      with addr Some i show thesis
        by (intro known [of addr i "SetAlias a (pool ! i)"]) (auto simp: GetServer_def)
    next
      case False
      with addr Some i show thesis
        by (intro known [of addr i "pool ! i"]) (auto simp: GetServer_def split: option.splits)
    qed
  qed
qed

lemma GetServer_keeps_pool_ok:
  assumes "url_canonical X" and "pool_ok pool"
  shows "pool_ok (snd (GetServer X u als pool))"
proof (cases rule: GetServer_cases [of X u als pool])
  case (known addr i s)
  then have "map (\<lambda>s. ID (ref_of s)) (pool[i := s]) = map (\<lambda>s. ID (ref_of s)) pool"
    by (auto simp: map_ID_update)
  with known assms(2) show ?thesis by (simp add: pool_ok_def)
next
  case (fresh addr s)
  then show ?thesis using assms NewServer_ID pool_ok_insert by fastforce
qed (use assms in simp_all)

lemma GetServer_returns_pooled:
  assumes "url_canonical X" and "GetServer X u als pool = (Inr s, pool')"
  shows "s \<in> set pool' \<and> lib_ParseURL X u = Inr (ID (ref_of s))"
proof (cases rule: GetServer_cases [of X u als pool])
  case (known addr i t)
  with assms(2) show ?thesis by (auto simp: set_update_memI)
next
  case (fresh addr t)
  with assms NewServer_ID show ?thesis by fastforce
qed (use assms in simp_all)

lemma GetServer_other:
  assumes "url_canonical X" and "pool_ok pool" and "GetServer X u als pool = (Inr s, pool')"
    and "a \<noteq> ID (ref_of s)"
  shows "pool_lookup pool' a = pool_lookup pool a"
proof -
  have ok': "pool_ok pool'"
    using GetServer_keeps_pool_ok [OF assms(1,2), of u als] assms(3) by simp
  have "t \<in> set pool' \<and> ID (ref_of t) = a \<longleftrightarrow> t \<in> set pool \<and> ID (ref_of t) = a" for t
  proof (cases rule: GetServer_cases [of X u als pool])
    case (known addr i v)
    then have eq: "pool' = pool[i := s]" "v = s" using assms(3) by auto
    have id: "ID (ref_of s) = ID (ref_of (pool ! i))" using known(5) eq by auto
    show ?thesis
      unfolding eq using known(2) assms(4) id
      by (auto simp: in_set_conv_nth nth_list_update)
  next
    case (fresh addr v)
    with assms show ?thesis by auto
  qed (use assms in simp_all)
  then show ?thesis
    by (intro option_eqI) (simp add: pool_lookup_Some [OF ok'] pool_lookup_Some [OF assms(2)])
qed

lemma GetServer_again:
  assumes "url_canonical X" and "pool_ok pool" and "GetServer X u als pool = (Inr s, pool')"
  shows "GetServer X u None pool' = (Inr s, pool')"
proof -
  have ok': "pool_ok pool'"
    using GetServer_keeps_pool_ok [OF assms(1,2), of u als] assms(3) by simp
  have s: "s \<in> set pool'" "lib_ParseURL X u = Inr (ID (ref_of s))"
    using GetServer_returns_pooled [OF assms(1,3)] by auto
  show ?thesis
  proof (cases rule: GetServer_cases [of X u None pool'])
    case (known addr i t)
    then have t: "t = pool' ! i" "ID (ref_of t) = ID (ref_of s)" using s by auto
    have "pool_lookup pool' (ID (ref_of s)) = Some t"
      using t known(2) ok' by (simp add: pool_lookup_Some)
    moreover have "pool_lookup pool' (ID (ref_of s)) = Some s"
      using s ok' by (simp add: pool_lookup_Some)
    ultimately have "t = s" by simp
    with known t show ?thesis by (simp add: list_update_same_conv)
  qed (use s in auto)
qed

lemma GetServer_sets_alias:
  assumes "GetServer X u (Some a) pool = (Inr s, pool')" and "a \<noteq> ''''"
  shows "GetAlias s = a"
proof (cases rule: GetServer_cases [of X u "Some a" pool])
  case (known addr i t)
  with assms show ?thesis by (auto simp: GetAlias_def SetAlias_def)
next
  case (fresh addr t)
  with assms show ?thesis
    by (auto simp: NewServer_def GetAlias_def SetAlias_def Let_def split: sum.splits)
qed (use assms in simp_all)

section \<open>The pool as an interface\<close>

text \<open>
  What the shards, sentinels, event watchers and metrics rely on when they ask the pool for a
  server: the store keeps its invariant, the server that comes back is the one the store
  holds under its address, no other address is affected, and a failed request changes
  nothing.
\<close>

locale server_store =
  fixes get :: "string \<Rightarrow> string option \<Rightarrow> 'p \<Rightarrow> (error + Server) \<times> 'p"
    and inv :: "'p \<Rightarrow> bool"
    and look :: "'p \<Rightarrow> string \<Rightarrow> Server option"
  assumes inv_get: "inv p \<Longrightarrow> inv (snd (get u als p))"
    and get_found: "inv p \<Longrightarrow> get u als p = (Inr s, p') \<Longrightarrow> look p' (ID (ref_of s)) = Some s"
    and get_frame:
      "inv p \<Longrightarrow> get u als p = (Inr s, p') \<Longrightarrow> a \<noteq> ID (ref_of s) \<Longrightarrow> look p' a = look p a"
    and get_error: "get u als p = (Inl e, p') \<Longrightarrow> p' = p"

text \<open>
  The loop of \<^verbatim>\<open>NewShardFromTopology\<close> and \<^verbatim>\<open>NewHighAvailableSentinel\<close>: one server per
  entry of the topology map, under the alias that is its key, the errors collected.
\<close>

fun get_all ::
    "(string \<Rightarrow> string option \<Rightarrow> 'p \<Rightarrow> (error + Server) \<times> 'p) \<Rightarrow>
     (string, string) gomap \<Rightarrow> 'p \<Rightarrow> (error list \<times> Server list) \<times> 'p" where
  "get_all get [] p = (([], []), p)"
| "get_all get ((key, connectionString) # rest) p =
     (let als = (if key \<noteq> connectionString then Some key else None)
      in case get connectionString als p of
           (Inl e, p') \<Rightarrow>
             (case get_all get rest p' of ((errs, srvs), p'') \<Rightarrow> ((e # errs, srvs), p''))
         | (Inr srv, p') \<Rightarrow>
             (case get_all get rest p' of ((errs, srvs), p'') \<Rightarrow> ((errs, srv # srvs), p'')))"

context server_store
begin

lemma look_mono: "inv p \<Longrightarrow> look p a \<noteq> None \<Longrightarrow> look (snd (get u als p)) a \<noteq> None"
  using get_found get_frame get_error by (metis option.discI prod.collapse old.sum.exhaust)

lemma inv_get_all: "inv p \<Longrightarrow> inv (snd (get_all get xs p))"
proof (induction xs arbitrary: p)
  case Nil
  then show ?case by simp
next
  case (Cons kv xs)
  obtain k c where kv: "kv = (k, c)" by (cases kv)
  have "inv (snd (get c (if k \<noteq> c then Some k else None) p))" by (rule inv_get) (rule Cons.prems)
  with Cons.IH show ?case
    by (auto simp: kv Let_def split: prod.splits sum.splits) (metis snd_conv)+
qed

lemma get_all_mono: "inv p \<Longrightarrow> look p a \<noteq> None \<Longrightarrow> look (snd (get_all get xs p)) a \<noteq> None"
proof (induction xs arbitrary: p)
  case Nil
  then show ?case by simp
next
  case (Cons kv xs)
  obtain k c where kv: "kv = (k, c)" by (cases kv)
  let ?p = "snd (get c (if k \<noteq> c then Some k else None) p)"
  have "look (snd (get_all get xs ?p)) a \<noteq> None"
    using Cons.IH Cons.prems look_mono inv_get by blast
  then show ?case
    by (auto simp: kv Let_def split: prod.splits sum.splits)
qed

text \<open>Every server the loop hands out is known to the store when the loop ends.\<close>

lemma get_all_known:
  assumes "inv p" and "s \<in> set (snd (fst (get_all get xs p)))"
  shows "look (snd (get_all get xs p)) (ID (ref_of s)) \<noteq> None"
  using assms
proof (induction xs arbitrary: p)
  case Nil
  then show ?case by simp
next
  case (Cons kv xs)
  obtain k c where kv: "kv = (k, c)" by (cases kv)
  obtain r p' where g: "get c (if k \<noteq> c then Some k else None) p = (r, p')" by fastforce
  have inv': "inv p'" using inv_get [OF Cons.prems(1)] g by (metis snd_conv)
  obtain errs srvs p'' where rest: "get_all get xs p' = ((errs, srvs), p'')"
    by (metis prod.collapse)
  have step: "snd (get_all get (kv # xs) p) = p''"
    using g rest by (auto simp: kv Let_def split: sum.splits)
  show ?case
  proof (cases "s \<in> set srvs")
    case True
    then show ?thesis using Cons.IH [OF inv'] rest step by simp
  next
    case False
    then have "r = Inr s" using Cons.prems(2) g rest
      by (auto simp: kv Let_def split: sum.splits)
    then have "look p' (ID (ref_of s)) \<noteq> None" using get_found Cons.prems(1) g by auto
    then show ?thesis using get_all_mono [OF inv'] rest step by (metis snd_conv)
  qed
qed

end

locale redis_lib =
  fixes X :: "'w lib"
  assumes canonical: "url_canonical X"

sublocale redis_lib \<subseteq> pool: server_store "GetServer X" pool_ok pool_lookup
proof unfold_locales
  fix p u als s p' a e
  show "pool_ok (snd (GetServer X u als p))" if "pool_ok p"
    using that GetServer_keeps_pool_ok [OF canonical] by blast
  show "pool_lookup p' (ID (ref_of s)) = Some s"
    if "pool_ok p" "GetServer X u als p = (Inr s, p')"
    using that GetServer_returns_pooled [OF canonical] GetServer_keeps_pool_ok [OF canonical]
    by (metis pool_lookup_Some snd_conv)
  show "pool_lookup p' a = pool_lookup p a"
    if "pool_ok p" "GetServer X u als p = (Inr s, p')" "a \<noteq> ID (ref_of s)"
    using that GetServer_other [OF canonical] by blast
  show "p' = p" if "GetServer X u als p = (Inl e, p')"
    using that by (cases rule: GetServer_cases [of X u als p]) auto
qed

section \<open>The fake client of the sources\<close>

text \<open>
  \<^verbatim>\<open>FakeClient\<close> answers every command with the next of its prepared responses, whatever
  the command; a type assertion on the response or an empty list of responses panics. The
  world is the list of responses of the fake client of each server.
\<close>

record FakeResponse =
  InjectResponse :: any
  InjectError :: "error option"

type_synonym fake_world = "string \<Rightarrow> FakeResponse list"

definition fake_pop :: "string \<Rightarrow> (fake_world, FakeResponse) go" where
  "fake_pop addr w = (case w addr of [] \<Rightarrow> None | r # rs \<Rightarrow> Some (r, w(addr := rs)))"

definition fake_value ::
    "(any \<Rightarrow> 'r option) \<Rightarrow> string \<Rightarrow> (fake_world, error + 'r) go" where
  "fake_value assertion addr w =
     do { (r, w) \<leftarrow> fake_pop addr w;
          v \<leftarrow> assertion (InjectResponse r);
          Some (case InjectError r of Some e \<Rightarrow> Inl e | None \<Rightarrow> Inr v, w) }"

definition fake_error :: "string \<Rightarrow> (fake_world, error option) go" where
  "fake_error addr w = do { (r, w) \<leftarrow> fake_pop addr w; Some (InjectError r, w) }"

definition fake_both :: "string \<Rightarrow> (fake_world, any \<times> error option) go" where
  "fake_both addr w = do { (r, w) \<leftarrow> fake_pop addr w; Some ((InjectResponse r, InjectError r), w) }"

fun as_strings :: "any \<Rightarrow> string list option" where
  "as_strings (AStrings xs) = Some xs"
| "as_strings _ = None"

fun as_master :: "any \<Rightarrow> SentinelMasterCmdResult option" where
  "as_master (AMaster m) = Some m"
| "as_master _ = None"

text \<open>
  \<^verbatim>\<open>redis.ParseURL\<close> on the URLs the operator builds, \<^verbatim>\<open>redis://host:port\<close> with
  neither user, path nor query: the host and port with the defaults of go-redis.
\<close>

definition parse_redis_url :: "string \<Rightarrow> error + string" where
  "parse_redis_url u =
     (if prefix ''redis://'' u then
        (case SplitHostPort (drop 8 u) of
           Inl e \<Rightarrow> Inl e
         | Inr (h, p) \<Rightarrow>
             let h' = (if h = '''' then ''localhost'' else h); p' = (if p = '''' then ''6379'' else p)
             in if plain_host h' \<and> plain_port p' then Inr (JoinHostPort h' p')
                else Inl (ErrorString ''invalid host''))
      else Inl (ErrorString ''redis: invalid URL scheme''))"

text \<open>The fields of a struct that \<^verbatim>\<open>Scan\<close> finds in the map, the others zero.\<close>

definition str_field :: "(string \<rightharpoonup> string) \<Rightarrow> string \<Rightarrow> string" where
  "str_field m k = (case m k of None \<Rightarrow> '''' | Some v \<Rightarrow> v)"

definition int_field :: "(string \<rightharpoonup> string) \<Rightarrow> string \<Rightarrow> int" where
  "int_field m k = (case m k of None \<Rightarrow> 0 | Some v \<Rightarrow> (case Atoi v of Inl _ \<Rightarrow> 0 | Inr i \<Rightarrow> i))"

definition scan_master :: "(string \<rightharpoonup> string) \<Rightarrow> SentinelMasterCmdResult" where
  "scan_master m =
     \<lparr>m_Name = str_field m ''name'', m_IP = str_field m ''ip'', m_Port = int_field m ''port'',
      m_RunID = str_field m ''runid'', m_Flags = str_field m ''flags'',
      m_LinkPendingCommands = int_field m ''link-pending-commands'',
      m_LinkRefcount = int_field m ''link-refcount'', m_LastPingSent = int_field m ''last-ping-sent'',
      m_LastOkPingReply = int_field m ''last-ok-ping-reply'',
      m_LastPingReply = int_field m ''last-ping-reply'',
      m_DownAfterMilliseconds = int_field m ''down-after-milliseconds'',
      m_InfoRefresh = int_field m ''info-refresh'', m_RoleReported = str_field m ''role-reported'',
      m_RoleReportedTime = int_field m ''role-reported-time'',
      m_ConfigEpoch = int_field m ''config-epoch'', m_NumSlaves = int_field m ''num-slaves'',
      m_NumOtherSentinels = int_field m ''num-other-sentinels'', m_Quorum = int_field m ''quorum'',
      m_FailoverTimeout = int_field m ''failover-timeout'',
      m_ParallelSyncs = int_field m ''parallel-syncs''\<rparr>"

definition scan_slave :: "(string \<rightharpoonup> string) \<Rightarrow> SentinelSlaveCmdResult" where
  "scan_slave m =
     \<lparr>sl_Name = str_field m ''name'', sl_IP = str_field m ''ip'', sl_Port = int_field m ''port'',
      sl_RunID = str_field m ''runid'', sl_Flags = str_field m ''flags'',
      sl_LinkPendingCommands = int_field m ''link-pending-commands'',
      sl_LinkRefcount = int_field m ''link-refcount'', sl_LastPingSent = int_field m ''last-ping-sent'',
      sl_LastOkPingReply = int_field m ''last-ok-ping-reply'',
      sl_LastPingReply = int_field m ''last-ping-reply'',
      sl_DownAfterMilliseconds = int_field m ''down-after-milliseconds'',
      sl_InfoRefresh = int_field m ''info-refresh'', sl_RoleReported = str_field m ''role-reported'',
      sl_RoleReportedTime = int_field m ''role-reported-time'',
      sl_MasterLinkDownTime = int_field m ''master-link-down-time'',
      sl_MasterLinkStatus = str_field m ''master-link-status'',
      sl_MasterHost = str_field m ''master-host'', sl_MasterPort = int_field m ''master-port'',
      sl_SlavePriority = int_field m ''slave-priority'',
      sl_SlaveReplOffset = int_field m ''slave-repl-offset''\<rparr>"

definition fake_lib :: "fake_world lib" where
  "fake_lib =
     \<lparr>lib_ParseURL = parse_redis_url,
      lib_ScanMaster = (\<lambda>m. Inr (scan_master m)),
      lib_ScanSlave = (\<lambda>m. Inr (scan_slave m)),
      cl_SentinelMaster = (\<lambda>addr shard. fake_value as_master addr),
      cl_SentinelMasters = (\<lambda>addr. fake_value as_slice addr),
      cl_SentinelGetMasterAddrByName = (\<lambda>addr shard. fake_value as_strings addr),
      cl_SentinelSlaves = (\<lambda>addr shard. fake_value as_slice addr),
      cl_SentinelMonitor = (\<lambda>addr name h p q. fake_error addr),
      cl_SentinelSet = (\<lambda>addr shard par val. fake_error addr),
      cl_SentinelInfoCache = fake_both,
      cl_SentinelPing = fake_error,
      cl_RedisRole = (\<lambda>addr. fake_value Some addr),
      cl_RedisConfigGet = (\<lambda>addr par. fake_value as_slice addr),
      cl_RedisConfigSet = (\<lambda>addr par val. fake_error addr),
      cl_RedisSlaveOf = (\<lambda>addr h p. fake_error addr),
      cl_RedisBGSave = fake_error,
      cl_RedisLastSave = (\<lambda>addr. fake_value as_int addr),
      cl_RedisInfo = (\<lambda>addr sec. fake_value as_string addr)\<rparr>"

text \<open>Evaluation of the fake client, for the witnesses.\<close>

lemmas fake_defs = fake_lib_def fake_value_def fake_error_def fake_both_def fake_pop_def

lemma parse_redis_url_canonical:
  "parse_redis_url u = Inr addr \<Longrightarrow>
     \<exists>h p. plain_host h \<and> plain_port p \<and> addr = JoinHostPort h p"
  by (simp add: parse_redis_url_def Let_def split: if_splits sum.splits prod.splits) blast+

lemma fake_lib_canonical: "url_canonical fake_lib"
  unfolding url_canonical_def
  by (auto simp: fake_lib_def SplitHostPort_JoinHostPort dest!: parse_redis_url_canonical)

interpretation fake: redis_lib fake_lib
  by unfold_locales (rule fake_lib_canonical)

section \<open>Properties\<close>

text \<open>
  The text \<^verbatim>\<open>INFO\<close> returns for a list of keys and values, with the line ends of redis.
\<close>

definition info_text :: "(string \<times> string) list \<Rightarrow> string" where
  "info_text kvs = concat (map (\<lambda>(k, v). k @ '':'' @ v @ [CHR 0x0D, CHR 0x0A]) kvs)"

definition info_pair_ok :: "string \<times> string \<Rightarrow> bool" where
  "info_pair_ok kv \<longleftrightarrow>
     CHR '':'' \<notin> set (fst kv) \<and> CHR 0x0A \<notin> set (fst kv) \<and> CHR 0x0A \<notin> set (snd kv) \<and>
     \<not> prefix ''# '' (fst kv @ '':'' @ snd kv)"

lemma split_lines:
  "\<forall>l \<in> set ls. c \<notin> set l \<Longrightarrow> split_on c (concat (map (\<lambda>l. l @ [c]) ls)) = ls @ [[]]"
  by (induction ls) (auto simp: split_on_append)

lemma scan_lines_info_text:
  assumes "\<forall>kv \<in> set kvs. info_pair_ok kv"
  shows "scan_lines (info_text kvs) = map (\<lambda>(k, v). k @ '':'' @ v) kvs"
proof -
  let ?ls = "map (\<lambda>(k, v). k @ '':'' @ v @ [CHR 0x0D]) kvs"
  have "info_text kvs = concat (map (\<lambda>l. l @ [CHR 0x0A]) ?ls)"
    by (simp add: info_text_def case_prod_unfold comp_def)
  moreover have "\<forall>l \<in> set ?ls. CHR 0x0A \<notin> set l"
    using assms by (auto simp: info_pair_ok_def)
  ultimately have "split_on (CHR 0x0A) (info_text kvs) = ?ls @ [[]]"
    by (simp only: split_lines)
  then have "scan_lines (info_text kvs) = map drop_cr ?ls"
    by (simp add: scan_lines_def)
  also have "\<dots> = map (\<lambda>(k, v). k @ '':'' @ v) kvs"
    by (auto simp: drop_cr_def butlast_append)
  finally show ?thesis .
qed

lemma info_lines_pairs:
  "\<forall>kv \<in> set kvs. info_pair_ok kv \<Longrightarrow>
     info_lines (map (\<lambda>(k, v). k @ '':'' @ v) kvs) m = Some (m ++ map_of (rev kvs))"
proof (induction kvs arbitrary: m)
  case Nil
  then show ?case by simp
next
  case (Cons kv kvs)
  obtain k v where kv: "kv = (k, v)" by (cases kv)
  have "split_n2 (CHR '':'') (k @ '':'' @ v) = [k, v]"
    using Cons.prems by (simp add: kv info_pair_ok_def split_n2_append)
  moreover have "\<not> prefix ''# '' (k @ '':'' @ v)"
    using Cons.prems by (simp add: kv info_pair_ok_def)
  ultimately have "info_lines (map (\<lambda>(k, v). k @ '':'' @ v) (kv # kvs)) m
      = Some ((m(k \<mapsto> v)) ++ map_of (rev kvs))"
    using Cons by (simp add: kv)
  also have "(m(k \<mapsto> v)) ++ map_of (rev kvs) = m ++ map_of (rev (kv # kvs))"
    by (simp add: kv map_add_def fun_eq_iff split: option.splits)
  finally show ?case .
qed

text \<open>
  Round trip of \<^verbatim>\<open>InfoStringToMap\<close>: for any list of keys and values that the
  redis INFO format can express (no colon in a key, no line end in a key or value, no line
  that looks like a section heading), parsing the text gives back exactly the map of the
  list, the last occurrence of a key winning, and does not panic.
\<close>

lemma InfoStringToMap_roundtrip:
  assumes "\<forall>kv \<in> set kvs. info_pair_ok kv"
  shows "InfoStringToMap (info_text kvs) = Some (map_of (rev kvs))"
  using info_lines_pairs [OF assms] by (simp add: InfoStringToMap_def scan_lines_info_text [OF assms])

text \<open>
  Client reuse: a server obtained from the pool is the one the pool holds under its
  address; asking again for the same URL returns the same server and leaves the pool alone;
  no other server of the pool is replaced; and the pool keeps its invariant (distinct,
  sorted addresses), on which the sharing of clients rests.
\<close>

lemma GetServer_reuse:
  assumes "url_canonical X" and "pool_ok pool" and "GetServer X u als pool = (Inr s, pool')"
  shows "pool_ok pool' \<and> pool_lookup pool' (ID (ref_of s)) = Some s \<and>
    GetServer X u None pool' = (Inr s, pool') \<and>
    (\<forall>a. a \<noteq> ID (ref_of s) \<longrightarrow> pool_lookup pool' a = pool_lookup pool a)"
  using GetServer_keeps_pool_ok [OF assms(1,2), of u als] GetServer_returns_pooled [OF assms(1,3)]
    GetServer_again [OF assms] GetServer_other [OF assms] assms(3)
  by (auto simp: pool_lookup_Some)

end
