(* ===== verification/Sharded.thy ===== *)
theory Sharded
  imports RedisPool
begin

text \<open>
  A redis shard: \<^verbatim>\<open>internal/pkg/redis/sharded/redis_server.go\<close> (initialisation of masters
  and slaves), \<^verbatim>\<open>discover.go\<close> (discovery of one server) and \<^verbatim>\<open>redis_shard.go\<close>
  (discovery of a shard through sentinel, master and slave selection, initialisation of a
  shard).

  The servers of a shard are pointers that the code mutates in place: they are the elements
  of a list, and a pointer into it is an index. The server pool is passed along, because
  \<^verbatim>\<open>GetServerByID\<close> adds servers to it.
\<close>

section \<open>RedisServer\<close>

record RedisServer =
  rs_ref :: srvref
  rs_Role :: Role
  rs_Config :: "string \<rightharpoonup> string"
  rs_Info :: "string \<rightharpoonup> string"

abbreviation rs_ID :: "RedisServer \<Rightarrow> string" where
  "rs_ID srv \<equiv> ID (rs_ref srv)"

definition NewRedisServerFromPool ::
    "'w lib \<Rightarrow> string \<Rightarrow> string option \<Rightarrow> ServerPool \<Rightarrow> (error + RedisServer) \<times> ServerPool" where
  "NewRedisServerFromPool X connectionString als pool =
     (case GetServer X connectionString als pool of
        (Inl e, pool') \<Rightarrow> (Inl e, pool')
      | (Inr srv, pool') \<Rightarrow>
          (Inr \<lparr>rs_ref = ref_of srv, rs_Role = Unknown, rs_Config = Map.empty, rs_Info = Map.empty\<rparr>,
           pool'))"

definition NewRedisServerFromParams ::
    "srvref \<Rightarrow> Role \<Rightarrow> (string \<rightharpoonup> string) \<Rightarrow> RedisServer" where
  "NewRedisServerFromParams srv role config =
     \<lparr>rs_ref = srv, rs_Role = role, rs_Config = config, rs_Info = Map.empty\<rparr>"

text \<open>The result is whether the server was reconfigured, beside the updated server.\<close>

definition InitMaster :: "'w lib \<Rightarrow> RedisServer \<Rightarrow> ('w, (error + bool) \<times> RedisServer) go" where
  "InitMaster X srv w =
     do { (r, w) \<leftarrow> RedisRole X (rs_ref srv) w;
          case r of
            Inl e \<Rightarrow> Some ((Inl e, srv), w)
          | Inr (role, slaveof) \<Rightarrow>
              (case role of
                 Slave \<Rightarrow>
                   if slaveof = ''127.0.0.1'' then
                     do { (e, w) \<leftarrow> RedisSlaveOf X (rs_ref srv) ''NO'' ''ONE'' w;
                          case e of
                            Some e \<Rightarrow> Some ((Inl e, srv), w)
                          | None \<Rightarrow> Some ((Inr True, srv), w) }
                   else Some ((Inr False, srv\<lparr>rs_Role := Slave\<rparr>), w)
               | Master \<Rightarrow> Some ((Inr False, srv\<lparr>rs_Role := Master\<rparr>), w)
               | Unknown \<Rightarrow> Some ((Inr False, srv), w)) }"

text \<open>
  The master is a pointer that is nil when no server of the shard has the master's address;
  calling its role command then panics.
\<close>

definition InitSlave ::
    "'w lib \<Rightarrow> ServerPool \<Rightarrow> srvref option \<Rightarrow> RedisServer \<Rightarrow> ('w, (error + bool) \<times> RedisServer) go" where
  "InitSlave X pool master srv w =
     do { (r, w) \<leftarrow> RedisRole X (rs_ref srv) w;
          case r of
            Inl e \<Rightarrow> Some ((Inl e, srv), w)
          | Inr (role, slaveof) \<Rightarrow>
              (case role of
                 Slave \<Rightarrow>
                   if slaveof = ''127.0.0.1'' then
                     do { m \<leftarrow> master;
                          (mr, w) \<leftarrow> RedisRole X m w;
                          if (case mr of Inl _ \<Rightarrow> True | Inr (mrole, _) \<Rightarrow> mrole \<noteq> Master)
                          then Some ((Inl (ErrorString (''shard master '' @ alias_of pool m @ ''|'' @ ID m
                                        @ '' is not ready'')), srv), w)
                          else do { (e, w) \<leftarrow> RedisSlaveOf X (rs_ref srv) (GetHost m) (GetPort m) w;
                                    case e of
                                      Some e \<Rightarrow> Some ((Inl e, srv), w)
                                    | None \<Rightarrow> Some ((Inr True, srv), w) } }
                   else Some ((Inr False, srv\<lparr>rs_Role := Slave\<rparr>), w)
               | Master \<Rightarrow> Some ((Inr False, srv\<lparr>rs_Role := Master\<rparr>), w)
               | Unknown \<Rightarrow> Some ((Inr False, srv), w)) }"


section \<open>Discovery of one server\<close>

datatype DiscoveryOption =
    SlaveReadOnlyDiscoveryOpt
  | SaveConfigDiscoveryOpt
  | OnlyMasterDiscoveryOpt
  | SlavePriorityDiscoveryOpt
  | ReplicationInfoDiscoveryOpt

fun DiscoveryOptionSet_Has :: "DiscoveryOption list \<Rightarrow> DiscoveryOption \<Rightarrow> bool" where
  "DiscoveryOptionSet_Has [] opt = False"
| "DiscoveryOptionSet_Has (o1 # os) opt = (if opt = o1 then True else DiscoveryOptionSet_Has os opt)"

text \<open>One optional \<^verbatim>\<open>CONFIG GET\<close>; an error ends the discovery of the server.\<close>

definition discover_config ::
    "'w lib \<Rightarrow> bool \<Rightarrow> string \<Rightarrow> RedisServer \<Rightarrow> ('w, error option \<times> RedisServer) go" where
  "discover_config X wanted key srv w =
     (if wanted then
        do { (r, w) \<leftarrow> RedisConfigGet X (rs_ref srv) key w;
             case r of
               Inl e \<Rightarrow> Some ((Some e, srv), w)
             | Inr val \<Rightarrow> Some ((None, srv\<lparr>rs_Config := (rs_Config srv)(key \<mapsto> val)\<rparr>), w) }
      else Some ((None, srv), w))"

definition sync_in_progress :: "(string \<rightharpoonup> string) \<Rightarrow> string" where
  "sync_in_progress repinfo =
     (case repinfo ''master_sync_in_progress'' of
        Some flag \<Rightarrow> if flag = ''0'' then ''no'' else if flag = ''1'' then ''yes'' else ''''
      | None \<Rightarrow> '''')"

definition discover_replication ::
    "'w lib \<Rightarrow> bool \<Rightarrow> RedisServer \<Rightarrow> ('w, error option \<times> RedisServer) go" where
  "discover_replication X wanted srv w =
     (if wanted then
        do { (r, w) \<leftarrow> RedisInfo X (rs_ref srv) ''replication'' w;
             case r of
               Inl e \<Rightarrow> Some ((Some e, srv), w)
             | Inr repinfo \<Rightarrow>
                 Some ((None, srv\<lparr>rs_Info := (rs_Info srv)(''replication'' \<mapsto>
                     ''master-link: '' @ (case repinfo ''master_link_status'' of None \<Rightarrow> '''' | Some s \<Rightarrow> s)
                     @ '', sync-in-progress: '' @ sync_in_progress repinfo)\<rparr>), w) }
      else Some ((None, srv), w))"

definition and_then ::
    "(error option \<times> 's) \<times> 'w \<Rightarrow> ('s \<Rightarrow> ('w, error option \<times> 's) go) \<Rightarrow> ((error option \<times> 's) \<times> 'w) option" where
  "and_then r k = (case r of ((Some e, s), w) \<Rightarrow> Some ((Some e, s), w) | ((None, s), w) \<Rightarrow> k s w)"

definition RedisServer_Discover ::
    "'w lib \<Rightarrow> DiscoveryOption list \<Rightarrow> RedisServer \<Rightarrow> ('w, error option \<times> RedisServer) go" where
  "RedisServer_Discover X opts srv w =
     do { (r, w) \<leftarrow> RedisRole X (rs_ref srv) w;
          case r of
            Inl e \<Rightarrow> Some ((Some e, srv\<lparr>rs_Role := Unknown\<rparr>), w)
          | Inr (role, _) \<Rightarrow>
              do { r1 \<leftarrow> discover_config X (DiscoveryOptionSet_Has opts SaveConfigDiscoveryOpt) ''save''
                     (srv\<lparr>rs_Role := role\<rparr>) w;
                   r2 \<leftarrow> and_then r1 (discover_config X
                     (DiscoveryOptionSet_Has opts SlaveReadOnlyDiscoveryOpt \<and> role \<noteq> Master) ''slave-read-only'');
                   r3 \<leftarrow> and_then r2 (discover_config X
                     (DiscoveryOptionSet_Has opts SlavePriorityDiscoveryOpt) ''slave-priority'');
                   and_then r3 (discover_replication X
                     (DiscoveryOptionSet_Has opts ReplicationInfoDiscoveryOpt \<and> role \<noteq> Master)) } }"


section \<open>Shard\<close>

record Shard =
  sh_Name :: string
  sh_Servers :: "RedisServer list"

definition NewShardFromServers :: "string \<Rightarrow> RedisServer list \<Rightarrow> Shard" where
  "NewShardFromServers name servers = \<lparr>sh_Name = name, sh_Servers = servers\<rparr>"

definition NewShardFromTopology ::
    "'w lib \<Rightarrow> string \<Rightarrow> (string, string) gomap \<Rightarrow> ServerPool \<Rightarrow> (error option \<times> Shard) \<times> ServerPool" where
  "NewShardFromTopology X name servers pool =
     (case get_all (GetServer X) servers pool of
        ((merr, srvs), pool') \<Rightarrow>
          ((ErrorOrNil merr,
            \<lparr>sh_Name = name,
             sh_Servers = sort_key rs_ID
               (map (\<lambda>s. \<lparr>rs_ref = ref_of s, rs_Role = Unknown, rs_Config = Map.empty, rs_Info = Map.empty\<rparr>)
                  srvs)\<rparr>), pool'))"

definition GetMaster :: "Shard \<Rightarrow> error + RedisServer" where
  "GetMaster shard =
     (let master = filter (\<lambda>srv. rs_Role srv = Master) (sh_Servers shard)
      in if length master \<noteq> 1
         then Inl (WrapError ''(*Shard).GetMasterAddr''
                (ErrorString (''wrong number of masters: '' @ itoa (int (length master)) @ '' != 1'')))
         else Inr (master ! 0))"

definition GetSlavesRW :: "Shard \<Rightarrow> RedisServer list" where
  "GetSlavesRW shard =
     sort_key rs_ID
       (filter (\<lambda>srv. rs_Role srv = Slave \<and> rs_Config srv ''slave-read-only'' = Some ''no'')
          (sh_Servers shard))"

definition GetSlavesRO :: "Shard \<Rightarrow> RedisServer list" where
  "GetSlavesRO shard =
     sort_key rs_ID
       (filter (\<lambda>srv. rs_Role srv = Slave \<and> rs_Config srv ''slave-read-only'' = Some ''yes'')
          (sh_Servers shard))"

text \<open>\<^verbatim>\<open>GetServerByID\<close> returns a pointer: the index of the server in the shard.\<close>

fun find_server :: "string \<Rightarrow> RedisServer list \<Rightarrow> nat option" where
  "find_server hostport [] = None"
| "find_server hostport (s # ss) =
     (if rs_ID s = hostport then Some 0 else map_option Suc (find_server hostport ss))"

definition GetServerByID ::
    "'w lib \<Rightarrow> string \<Rightarrow> Shard \<Rightarrow> ServerPool \<Rightarrow> (error + nat) \<times> Shard \<times> ServerPool" where
  "GetServerByID X hostport shard pool =
     (case find_server hostport (sh_Servers shard) of
        Some i \<Rightarrow> (Inr i, shard, pool)
      | None \<Rightarrow>
          (case NewRedisServerFromPool X (''redis://'' @ hostport) None pool of
             (Inl e, pool') \<Rightarrow> (Inl e, shard, pool')
           | (Inr rs, pool') \<Rightarrow>
               (Inr (length (sh_Servers shard)),
                shard\<lparr>sh_Servers := sh_Servers shard @ [rs]\<rparr>, pool')))"

definition set_server :: "nat \<Rightarrow> RedisServer \<Rightarrow> Shard \<Rightarrow> Shard" where
  "set_server i srv shard = shard\<lparr>sh_Servers := (sh_Servers shard)[i := srv]\<rparr>"

definition is_down :: "string \<Rightarrow> bool" where
  "is_down flags \<longleftrightarrow> contains flags ''s_down'' \<or> contains flags ''o_down''"

text \<open>Discovery without sentinel: every server, failures collected.\<close>

fun discover_servers ::
    "'w lib \<Rightarrow> DiscoveryOption list \<Rightarrow> RedisServer list \<Rightarrow> ('w, error list \<times> RedisServer list) go" where
  "discover_servers X opts [] w = Some (([], []), w)"
| "discover_servers X opts (s # ss) w =
     do { ((e, s'), w) \<leftarrow> RedisServer_Discover X opts s w;
          ((es, ss'), w) \<leftarrow> discover_servers X opts ss w;
          Some ((case e of
                   None \<Rightarrow> es
                 | Some e \<Rightarrow> DiscoveryError_UnknownRole_SingleServerFailure e # es, s' # ss'), w) }"

text \<open>Discovery of one slave that sentinel reports.\<close>

definition discover_slave ::
    "'w lib \<Rightarrow> DiscoveryOption list \<Rightarrow> SentinelSlaveCmdResult \<Rightarrow> Shard \<Rightarrow> ServerPool
       \<Rightarrow> ('w, error list \<times> Shard \<times> ServerPool) go" where
  "discover_slave X opts slave shard pool w =
     (case GetServerByID X (sl_IP slave @ '':'' @ itoa (sl_Port slave)) shard pool of
        (Inl e, shard, pool) \<Rightarrow> Some (([DiscoveryError_Slave_SingleServerFailure e], shard, pool), w)
      | (Inr i, shard, pool) \<Rightarrow>
          let srv = sh_Servers shard ! i in
          if is_down (sl_Flags slave) then
            Some (([DiscoveryError_Slave_SingleServerFailure (ErrorString
                 (''slave '' @ alias_of pool (rs_ref srv) @ '' is s_down/o_down''))], shard, pool), w)
          else
            do { ((e, srv'), w) \<leftarrow> RedisServer_Discover X opts srv w;
                 case e of
                   Some e \<Rightarrow>
                     Some (([DiscoveryError_Slave_SingleServerFailure e],
                            set_server i (srv'\<lparr>rs_Role := Unknown\<rparr>) shard, pool), w)
                 | None \<Rightarrow>
                     if rs_Role srv' \<noteq> Slave then
                       Some (([DiscoveryError_Slave_SingleServerFailure (ErrorString
                           (''sentinel config has not yet converged for '' @ alias_of pool (rs_ref srv)))],
                           set_server i (srv'\<lparr>rs_Role := Unknown\<rparr>) shard, pool), w)
                     else Some (([], set_server i srv' shard, pool), w) })"

fun discover_slaves ::
    "'w lib \<Rightarrow> DiscoveryOption list \<Rightarrow> SentinelSlaveCmdResult list \<Rightarrow> Shard \<Rightarrow> ServerPool
       \<Rightarrow> ('w, error list \<times> Shard \<times> ServerPool) go" where
  "discover_slaves X opts [] shard pool w = Some (([], shard, pool), w)"
| "discover_slaves X opts (sl # sls) shard pool w =
     do { ((es, shard, pool), w) \<leftarrow> discover_slave X opts sl shard pool w;
          ((es', shard, pool), w) \<leftarrow> discover_slaves X opts sls shard pool w;
          Some ((es @ es', shard, pool), w) }"

text \<open>Discovery of the slaves of a shard whose master is confirmed.\<close>

definition discover_shard_slaves ::
    "'w lib \<Rightarrow> srvref \<Rightarrow> DiscoveryOption list \<Rightarrow> bool \<Rightarrow> Shard \<Rightarrow> ServerPool
       \<Rightarrow> ('w, error option \<times> Shard \<times> ServerPool) go" where
  "discover_shard_slaves X sentinel opts failoverInProgress shard pool w =
     (if DiscoveryOptionSet_Has opts OnlyMasterDiscoveryOpt then Some ((None, shard, pool), w)
      else if failoverInProgress then
        Some ((Some (MultiError [DiscoveryError_Slave_FailoverInProgress (ErrorString
          ''refusing to discover slaves while a failover is in progress'')]), shard, pool), w)
      else
        do { (r, w) \<leftarrow> SentinelSlaves X sentinel (sh_Name shard) w;
             case r of
               Inl e \<Rightarrow> Some ((Some (MultiError [DiscoveryError_Sentinel_Failure e]), shard, pool), w)
             | Inr slaves \<Rightarrow>
                 do { ((merr, shard, pool), w) \<leftarrow> discover_slaves X opts slaves shard pool w;
                      Some ((ErrorOrNil merr, shard, pool), w) } })"

text \<open>
  Discovery of the master at the address sentinel gives, then of the slaves. \<open>flags\<close> are
  those of \<^verbatim>\<open>SENTINEL MASTER\<close>.
\<close>

definition discover_shard_master ::
    "'w lib \<Rightarrow> srvref \<Rightarrow> DiscoveryOption list \<Rightarrow> string \<Rightarrow> int \<Rightarrow> string \<Rightarrow> bool \<Rightarrow> Shard \<Rightarrow> ServerPool
       \<Rightarrow> ('w, error option \<times> Shard \<times> ServerPool) go" where
  "discover_shard_master X sentinel opts ip port flags failoverInProgress shard pool w =
     (case GetServerByID X (ip @ '':'' @ itoa port) shard pool of
        (Inl e, shard, pool) \<Rightarrow>
          Some ((Some (MultiError [DiscoveryError_Master_SingleServerFailure e]), shard, pool), w)
      | (Inr i, shard, pool) \<Rightarrow>
          let srv = sh_Servers shard ! i in
          if is_down flags then
            Some ((Some (MultiError [DiscoveryError_Master_SingleServerFailure (ErrorString
                (''master '' @ alias_of pool (rs_ref srv) @ '' is s_down/o_down''))]), shard, pool), w)
          else
            do { ((e, srv'), w) \<leftarrow> RedisServer_Discover X opts srv w;
                 case e of
                   Some e \<Rightarrow>
                     Some ((Some (MultiError [DiscoveryError_Master_SingleServerFailure e]),
                            set_server i (srv'\<lparr>rs_Role := Unknown\<rparr>) shard, pool), w)
                 | None \<Rightarrow>
                     if rs_Role srv' \<noteq> Master then
                       Some ((Some (MultiError [DiscoveryError_Master_SingleServerFailure (ErrorString
                           (''sentinel config has not yet converged for '' @ alias_of pool (rs_ref srv)))]),
                           set_server i (srv'\<lparr>rs_Role := Unknown\<rparr>) shard, pool), w)
                     else
                       discover_shard_slaves X sentinel opts failoverInProgress
                         (set_server i srv' shard) pool w })"

definition Shard_Discover ::
    "'w lib \<Rightarrow> srvref option \<Rightarrow> DiscoveryOption list \<Rightarrow> Shard \<Rightarrow> ServerPool
       \<Rightarrow> ('w, error option \<times> Shard \<times> ServerPool) go" where
  "Shard_Discover X sentinel opts shard pool w =
     (case sentinel of
        None \<Rightarrow>
          do { ((merr, servers), w) \<leftarrow> discover_servers X opts (sh_Servers shard) w;
               Some ((ErrorOrNil merr, shard\<lparr>sh_Servers := servers\<rparr>, pool), w) }
      | Some sen \<Rightarrow>
          do { (r, w) \<leftarrow> SentinelMaster X sen (sh_Name shard) w;
               case r of
                 Inl e \<Rightarrow> Some ((Some (MultiError [DiscoveryError_Sentinel_Failure e]), shard, pool), w)
               | Inr master \<Rightarrow>
                   do { (r, w) \<leftarrow> SentinelGetMasterAddrByName X sen (sh_Name shard) w;
                        case r of
                          Inl e \<Rightarrow> Some ((Some (MultiError [DiscoveryError_Sentinel_Failure e]), shard, pool), w)
                        | Inr (masterIP, masterPort) \<Rightarrow>
                            discover_shard_master X sen opts masterIP masterPort (m_Flags master)
                              (masterIP \<noteq> m_IP master \<or> masterPort \<noteq> m_Port master) shard pool w } })"

text \<open>\<^verbatim>\<open>Init\<close>: first the master, then the slaves.\<close>

fun init_masters ::
    "'w lib \<Rightarrow> string \<Rightarrow> RedisServer list \<Rightarrow> srvref option
       \<Rightarrow> ('w, (error option \<times> string list \<times> srvref option) \<times> RedisServer list) go" where
  "init_masters X hp [] master w = Some (((None, [], master), []), w)"
| "init_masters X hp (s # ss) master w =
     (if rs_ID s = hp then
        do { ((r, s'), w) \<leftarrow> InitMaster X s w;
             case r of
               Inl e \<Rightarrow> Some (((Some e, [], Some (rs_ref s)), s' # ss), w)
             | Inr changed \<Rightarrow>
                 do { (((e, ch, master), ss'), w) \<leftarrow> init_masters X hp ss (Some (rs_ref s)) w;
                      Some (((e, (if changed then [rs_ID s] else []) @ ch, master), s' # ss'), w) } }
      else
        do { (((e, ch, master), ss'), w) \<leftarrow> init_masters X hp ss master w;
             Some (((e, ch, master), s # ss'), w) })"

fun init_slaves ::
    "'w lib \<Rightarrow> ServerPool \<Rightarrow> string \<Rightarrow> srvref option \<Rightarrow> RedisServer list
       \<Rightarrow> ('w, (error list \<times> string list) \<times> RedisServer list) go" where
  "init_slaves X pool hp master [] w = Some ((([], []), []), w)"
| "init_slaves X pool hp master (s # ss) w =
     (if rs_ID s \<noteq> hp then
        do { ((r, s'), w) \<leftarrow> InitSlave X pool master s w;
             (((es, ch), ss'), w) \<leftarrow> init_slaves X pool hp master ss w;
             Some ((case r of
                      Inl e \<Rightarrow> (e # es, ch)
                    | Inr changed \<Rightarrow> (es, (if changed then [rs_ID s] else []) @ ch), s' # ss'), w) }
      else
        do { (((es, ch), ss'), w) \<leftarrow> init_slaves X pool hp master ss w;
             Some (((es, ch), s # ss'), w) })"

definition Shard_Init ::
    "'w lib \<Rightarrow> ServerPool \<Rightarrow> string \<Rightarrow> Shard \<Rightarrow> ('w, (string list \<times> error option) \<times> Shard) go" where
  "Shard_Init X pool masterHostPort shard w =
     do { (((e, ch, master), ss), w) \<leftarrow> init_masters X masterHostPort (sh_Servers shard) None w;
          case e of
            Some e \<Rightarrow> Some (((ch, Some (MultiError [e])), shard\<lparr>sh_Servers := ss\<rparr>), w)
          | None \<Rightarrow>
              do { (((es, ch'), ss'), w) \<leftarrow> init_slaves X pool masterHostPort master ss w;
                   Some (((ch @ ch', ErrorOrNil es), shard\<lparr>sh_Servers := ss'\<rparr>), w) } }"

section \<open>Lemmas on discovery\<close>

lemma discover_config_frame:
  "discover_config X b k s w = Some ((e, s'), w') \<Longrightarrow> rs_ref s' = rs_ref s \<and> rs_Role s' = rs_Role s"
  by (auto simp: discover_config_def split: if_splits sum.splits elim!: bind_SomeE)

lemma discover_replication_frame:
  "discover_replication X b s w = Some ((e, s'), w') \<Longrightarrow> rs_ref s' = rs_ref s \<and> rs_Role s' = rs_Role s"
  by (auto simp: discover_replication_def split: if_splits sum.splits elim!: bind_SomeE)

lemma and_then_frame:
  assumes "and_then r k = Some ((e, s'), w')"
    and "\<And>s w e s' w'. k s w = Some ((e, s'), w') \<Longrightarrow> rs_ref s' = rs_ref s \<and> rs_Role s' = rs_Role s"
  shows "rs_ref s' = rs_ref (snd (fst r)) \<and> rs_Role s' = rs_Role (snd (fst r))"
  using assms by (auto simp: and_then_def split: prod.splits option.splits)

lemma RedisRole_known: "RedisRole X srv w = Some (Inr (role, so), w') \<Longrightarrow> role \<noteq> Unknown"
  by (auto simp: RedisRole_def split: if_splits sum.splits elim!: bind_SomeE)

text \<open>A discovered server is the same server; without error its role is known.\<close>

lemma RedisServer_Discover_frame:
  assumes "RedisServer_Discover X opts s w = Some ((e, s'), w')"
  shows "rs_ref s' = rs_ref s \<and> (e = None \<longrightarrow> rs_Role s' \<noteq> Unknown)"
proof -
  let ?P = "\<lambda>s s' :: RedisServer. rs_ref s' = rs_ref s \<and> rs_Role s' = rs_Role s"
  from assms obtain r w1 where role: "RedisRole X (rs_ref s) w = Some (r, w1)"
    by (auto simp: RedisServer_Discover_def elim!: bind_SomeE)
  show ?thesis
  proof (cases r)
    case (Inl err)
    with assms role show ?thesis by (auto simp: RedisServer_Discover_def)
  next
    case (Inr rr)
    obtain ro so where rr: "rr = (ro, so)" by (cases rr)
    let ?s0 = "s\<lparr>rs_Role := ro\<rparr>"
    from assms role Inr rr obtain r1 r2 r3 b1 b2 b3 b4 where
      r1: "discover_config X b1 ''save'' ?s0 w1 = Some r1" and
      r2: "and_then r1 (discover_config X b2 ''slave-read-only'') = Some r2" and
      r3: "and_then r2 (discover_config X b3 ''slave-priority'') = Some r3" and
      r4: "and_then r3 (discover_replication X b4) = Some ((e, s'), w')"
      by (auto simp: RedisServer_Discover_def elim!: bind_SomeE)
    obtain e1 s1 v1 where q1: "r1 = ((e1, s1), v1)" by (metis prod.collapse)
    obtain e2 s2 v2 where q2: "r2 = ((e2, s2), v2)" by (metis prod.collapse)
    obtain e3 s3 v3 where q3: "r3 = ((e3, s3), v3)" by (metis prod.collapse)
    have "?P ?s0 s1" using discover_config_frame [OF r1 [unfolded q1]] by simp
    moreover have "?P s1 s2"
      using and_then_frame [OF r2 [unfolded q2] discover_config_frame] q1 by simp
    moreover have "?P s2 s3"
      using and_then_frame [OF r3 [unfolded q3] discover_config_frame] q2 by simp
    moreover have "?P s3 s'"
      using and_then_frame [OF r4 discover_replication_frame] q3 by simp
    moreover have "ro \<noteq> Unknown" using RedisRole_known [of X "rs_ref s" w ro so w1] role Inr rr by simp
    ultimately show ?thesis by auto
  qed
qed

lemma find_server_Some:
  "find_server hp ss = Some i \<Longrightarrow> i < length ss \<and> rs_ID (ss ! i) = hp"
  by (induction ss arbitrary: i) (auto split: if_splits)

lemma find_server_None: "find_server hp ss = None \<longleftrightarrow> hp \<notin> rs_ID ` set ss"
  by (induction ss) auto

lemma GetServerByID_frame:
  assumes "GetServerByID X hp shard pool = (r, shard', pool')"
  shows "sh_Name shard' = sh_Name shard \<and>
    (\<exists>new. sh_Servers shard' = sh_Servers shard @ new \<and> (\<forall>s \<in> set new. rs_Role s = Unknown) \<and>
       (\<forall>i. r = Inr i \<longrightarrow> i < length (sh_Servers shard')))"
proof (cases "find_server hp (sh_Servers shard)")
  case (Some i)
  with assms find_server_Some show ?thesis by (fastforce simp: GetServerByID_def)
next
  case None
  with assms show ?thesis
    by (auto simp: GetServerByID_def NewRedisServerFromPool_def split: prod.splits sum.splits)
qed

lemma GetServerByID_address:
  assumes "url_canonical X" and "GetServerByID X hp shard pool = (Inr i, shard', pool')"
  shows "rs_ID (sh_Servers shard' ! i) = hp \<or>
    lib_ParseURL X (''redis://'' @ hp) = Inr (rs_ID (sh_Servers shard' ! i))"
proof (cases "find_server hp (sh_Servers shard)")
  case (Some j)
  with assms find_server_Some show ?thesis by (fastforce simp: GetServerByID_def)
next
  case None
  with assms(2) obtain s where
    "GetServer X (''redis://'' @ hp) None pool = (Inr s, pool')"
    "sh_Servers shard' ! i = \<lparr>rs_ref = ref_of s, rs_Role = Unknown, rs_Config = Map.empty, rs_Info = Map.empty\<rparr>"
    by (auto simp: GetServerByID_def NewRedisServerFromPool_def split: prod.splits sum.splits)
  then show ?thesis using GetServer_returns_pooled [OF assms(1)] by auto
qed

text \<open>
  Discovering a slave never makes a master: every server with the role master afterwards had
  it before, at the same place.
\<close>

definition no_new_master :: "RedisServer list \<Rightarrow> RedisServer list \<Rightarrow> bool" where
  "no_new_master ss ss' \<longleftrightarrow>
     (\<forall>i < length ss'. rs_Role (ss' ! i) = Master \<longrightarrow>
        i < length ss \<and> rs_Role (ss ! i) = Master \<and> rs_ref (ss' ! i) = rs_ref (ss ! i))"

lemma no_new_master_refl: "no_new_master ss ss"
  by (simp add: no_new_master_def)

lemma no_new_master_trans: "no_new_master a b \<Longrightarrow> no_new_master b c \<Longrightarrow> no_new_master a c"
  by (simp add: no_new_master_def)

lemma no_new_master_append:
  "\<forall>s \<in> set new. rs_Role s = Unknown \<Longrightarrow> no_new_master ss (ss @ new)"
  by (auto simp: no_new_master_def nth_append)

lemma no_new_master_update: "rs_Role s \<noteq> Master \<Longrightarrow> no_new_master ss (ss[i := s])"
  by (cases "i < length ss") (auto simp: no_new_master_def nth_list_update list_update_beyond split: if_splits)

text \<open>The outcomes of \<open>discover_slave\<close> in terms of the list of servers.\<close>

lemma discover_slave_servers:
  assumes "discover_slave X opts sl shard pool w = Some ((es, shard', pool'), w')"
  obtains new where "sh_Name shard' = sh_Name shard" "es \<noteq> []"
      "sh_Servers shard' = sh_Servers shard @ new" "\<forall>s \<in> set new. rs_Role s = Unknown"
  | new i srv where "sh_Name shard' = sh_Name shard" "i < length (sh_Servers shard @ new)"
      "sh_Servers shard' = (sh_Servers shard @ new)[i := srv]" "\<forall>s \<in> set new. rs_Role s = Unknown"
      "rs_ref srv = rs_ref ((sh_Servers shard @ new) ! i)"
      "length new \<le> 1" "new \<noteq> [] \<longrightarrow> i = length (sh_Servers shard)"
      "es \<noteq> [] \<and> rs_Role srv = Unknown \<or> es = [] \<and> rs_Role srv = Slave"
proof -
  obtain r sh1 p1 where g: "GetServerByID X (sl_IP sl @ '':'' @ itoa (sl_Port sl)) shard pool = (r, sh1, p1)"
    by (metis prod.collapse)
  obtain new where new: "sh_Name sh1 = sh_Name shard" "sh_Servers sh1 = sh_Servers shard @ new"
    "\<forall>s \<in> set new. rs_Role s = Unknown" "\<forall>i. r = Inr i \<longrightarrow> i < length (sh_Servers sh1)"
    using GetServerByID_frame [OF g] by blast
  have one: "length new \<le> 1 \<and> (new \<noteq> [] \<longrightarrow> r = Inr (length (sh_Servers shard)))"
    using g new(2)
    by (auto simp: GetServerByID_def NewRedisServerFromPool_def split: prod.splits sum.splits option.splits)
  show thesis
  proof (cases r)
    case (Inl e)
    with assms g new show thesis by (intro that(1) [of new]) (auto simp: discover_slave_def)
  next
    case (Inr i)
    show thesis
    proof (cases "is_down (sl_Flags sl)")
      case True
      with assms g Inr new show thesis
        by (intro that(1) [of new]) (auto simp: discover_slave_def Let_def)
    next
      case False
      with assms g Inr obtain e srv' w1 where
        d: "RedisServer_Discover X opts (sh_Servers sh1 ! i) w = Some ((e, srv'), w1)"
        by (auto simp: discover_slave_def Let_def elim!: bind_SomeE)
      have ref: "rs_ref srv' = rs_ref (sh_Servers sh1 ! i)"
        using RedisServer_Discover_frame [OF d] by simp
      let ?srv = "if e = None \<and> rs_Role srv' = Slave then srv' else srv'\<lparr>rs_Role := Unknown\<rparr>"
      have "sh_Name shard' = sh_Name shard"
        and "sh_Servers shard' = (sh_Servers shard @ new)[i := ?srv]"
        and "es \<noteq> [] \<and> rs_Role ?srv = Unknown \<or> es = [] \<and> rs_Role ?srv = Slave"
        using assms g Inr False d new
        by (auto simp: discover_slave_def Let_def set_server_def split: option.splits if_splits)
      then show thesis using ref new one Inr by (intro that(2) [of i new ?srv]) auto
    qed
  qed
qed

lemma discover_slave_no_new_master:
  assumes "discover_slave X opts sl shard pool w = Some ((es, shard', pool'), w')"
  shows "no_new_master (sh_Servers shard) (sh_Servers shard')"
  using assms
proof (cases rule: discover_slave_servers)
  case (1 new)
  then show ?thesis by (simp add: no_new_master_append)
next
  case (2 new i srv)
  then have "rs_Role srv \<noteq> Master" by auto
  with 2 show ?thesis
    by (metis no_new_master_append no_new_master_update no_new_master_trans)
qed

lemma discover_slaves_no_new_master:
  "discover_slaves X opts sls shard pool w = Some ((es, shard', pool'), w') \<Longrightarrow>
     no_new_master (sh_Servers shard) (sh_Servers shard')"
proof (induction sls arbitrary: shard pool w es)
  case Nil
  then show ?case by (simp add: no_new_master_refl)
next
  case (Cons sl sls)
  then show ?case
    by (auto elim!: bind_SomeE) (meson discover_slave_no_new_master no_new_master_trans)
qed

lemma discover_shard_slaves_no_new_master:
  assumes "discover_shard_slaves X sen opts fo shard pool w = Some ((e, shard', pool'), w')"
  shows "no_new_master (sh_Servers shard) (sh_Servers shard')"
  using assms
  by (auto simp: discover_shard_slaves_def no_new_master_refl split: if_splits sum.splits
      elim!: bind_SomeE intro: discover_slaves_no_new_master)

text \<open>Discovery of slaves without error leaves every server it did not find before a slave.\<close>

definition slaves_from :: "nat \<Rightarrow> RedisServer list \<Rightarrow> bool" where
  "slaves_from k ss \<longleftrightarrow> k \<le> length ss \<and> (\<forall>i < length ss. k \<le> i \<longrightarrow> rs_Role (ss ! i) = Slave)"

lemma discover_slave_slaves_from:
  assumes "discover_slave X opts sl shard pool w = Some (([], shard', pool'), w')"
    and "slaves_from k (sh_Servers shard)"
  shows "slaves_from k (sh_Servers shard')"
  using assms(1)
proof (cases rule: discover_slave_servers)
  case (1 new)
  then show ?thesis by simp
next
  case (2 new i srv)
  show ?thesis
  proof (cases new)
    case Nil
    with 2 assms(2) show ?thesis by (auto simp: slaves_from_def nth_list_update)
  next
    case (Cons n ns)
    with 2 have "new = [n]" "i = length (sh_Servers shard)" by auto
    with 2 assms(2) show ?thesis by (auto simp: slaves_from_def nth_append nth_list_update)
  qed
qed

lemma discover_slaves_slaves_from:
  "discover_slaves X opts sls shard pool w = Some (([], shard', pool'), w') \<Longrightarrow>
     slaves_from k (sh_Servers shard) \<Longrightarrow> slaves_from k (sh_Servers shard')"
proof (induction sls arbitrary: shard pool w)
  case Nil
  then show ?case by simp
next
  case (Cons sl sls)
  then show ?case
    by (auto elim!: bind_SomeE) (meson discover_slave_slaves_from)
qed

lemma discover_slaves_name:
  "discover_slaves X opts sls shard pool w = Some ((es, shard', pool'), w') \<Longrightarrow>
     sh_Name shard' = sh_Name shard"
proof (induction sls arbitrary: shard pool w es)
  case Nil
  then show ?case by simp
next
  case (Cons sl sls)
  then show ?case by (auto elim!: bind_SomeE) (metis discover_slave_servers)
qed

text \<open>
  The cases of a discovery through sentinel that gets as far as the slaves: the master's
  server has been found or added, and it reports the role master.
\<close>

lemma Shard_Discover_sentinel:
  assumes "Shard_Discover X (Some sen) opts shard pool w = Some ((e, shard', pool'), w')"
  obtains (failed) new where "e \<noteq> None" "sh_Name shard' = sh_Name shard"
      "\<forall>s \<in> set new. rs_Role s = Unknown"
      "sh_Servers shard' = sh_Servers shard @ new \<or>
       (\<exists>i srv. rs_Role srv = Unknown \<and> sh_Servers shard' = (sh_Servers shard @ new)[i := srv])"
  | (master) m ip port w1 w2 new i srv sh1 p1 w3 fo where
      "SentinelMaster X sen (sh_Name shard) w = Some (Inr m, w1)" "\<not> is_down (m_Flags m)"
      "SentinelGetMasterAddrByName X sen (sh_Name shard) w1 = Some (Inr (ip, port), w2)"
      "GetServerByID X (ip @ '':'' @ itoa port) shard pool = (Inr i, sh1, p1)"
      "sh_Servers sh1 = sh_Servers shard @ new" "\<forall>s \<in> set new. rs_Role s = Unknown"
      "i < length (sh_Servers sh1)" "rs_ref srv = rs_ref (sh_Servers sh1 ! i)" "rs_Role srv = Master"
      "sh_Name sh1 = sh_Name shard"
      "discover_shard_slaves X sen opts fo (set_server i srv sh1) p1 w3 = Some ((e, shard', pool'), w')"
proof -
  from assms obtain r w1 where sm: "SentinelMaster X sen (sh_Name shard) w = Some (r, w1)"
    by (auto simp: Shard_Discover_def elim!: bind_SomeE)
  show thesis
  proof (cases r)
    case (Inl err)
    with assms sm show thesis
      by (intro failed [of "[]"]) (auto simp: Shard_Discover_def)
  next
    case (Inr m)
    with assms sm obtain r2 w2 where
      ga: "SentinelGetMasterAddrByName X sen (sh_Name shard) w1 = Some (r2, w2)"
      by (auto simp: Shard_Discover_def elim!: bind_SomeE)
    show thesis
    proof (cases r2)
      case (Inl err)
      with assms sm ga \<open>r = Inr m\<close> show thesis
        by (intro failed [of "[]"]) (auto simp: Shard_Discover_def)
    next
      case r2: (Inr a)
      obtain ip port where a: "a = (ip, port)" by (cases a)
      obtain fo where d: "discover_shard_master X sen opts ip port (m_Flags m) fo shard pool w2
          = Some ((e, shard', pool'), w')"
        using assms sm ga Inr r2 a by (auto simp: Shard_Discover_def)
      obtain r3 sh1 p1 where g: "GetServerByID X (ip @ '':'' @ itoa port) shard pool = (r3, sh1, p1)"
        by (metis prod.collapse)
      obtain new where new: "sh_Name sh1 = sh_Name shard" "sh_Servers sh1 = sh_Servers shard @ new"
        "\<forall>s \<in> set new. rs_Role s = Unknown" "\<forall>i. r3 = Inr i \<longrightarrow> i < length (sh_Servers sh1)"
        using GetServerByID_frame [OF g] by blast
      show thesis
      proof (cases r3)
        case (Inl err)
        with d g new show thesis
          by (intro failed [of new]) (auto simp: discover_shard_master_def)
      next
        case i: (Inr i)
        show thesis
        proof (cases "is_down (m_Flags m)")
          case True
          with d g new i show thesis
            by (intro failed [of new])
              (auto simp: discover_shard_master_def Let_def)
        next
          case False
          with d g i obtain e1 srv w3 where
            disc: "RedisServer_Discover X opts (sh_Servers sh1 ! i) w2 = Some ((e1, srv), w3)"
            by (auto simp: discover_shard_master_def Let_def elim!: bind_SomeE)
          show thesis
          proof (cases "e1 = None \<and> rs_Role srv = Master")
            case True
            have "discover_shard_slaves X sen opts fo (set_server i srv sh1) p1 w3 = Some ((e, shard', pool'), w')"
              using d g i False disc True by (auto simp: discover_shard_master_def Let_def)
            with sm Inr False ga r2 a g i new disc True show thesis
              using RedisServer_Discover_frame [OF disc] by (intro master) auto
          next
            case nm: False
            have "e \<noteq> None \<and> sh_Name shard' = sh_Name shard \<and>
                sh_Servers shard' = (sh_Servers shard @ new)[i := srv\<lparr>rs_Role := Unknown\<rparr>]"
              using d g i False disc nm new
              by (auto simp: discover_shard_master_def Let_def set_server_def split: option.splits if_splits)
            moreover have "rs_Role (srv\<lparr>rs_Role := Unknown\<rparr>) = Unknown" by simp
            ultimately show thesis using new by (intro failed [of new]) blast+
          qed
        qed
      qed
    qed
  qed
qed

lemma discover_slaves_refs:
  "discover_slaves X opts sls shard pool w = Some ((es, shard', pool'), w') \<Longrightarrow>
     prefix (map rs_ref (sh_Servers shard)) (map rs_ref (sh_Servers shard'))"
proof (induction sls arbitrary: shard pool w es)
  case Nil
  then show ?case by simp
next
  case (Cons sl sls)
  then obtain es1 sh1 p1 w1 es2 where
    1: "discover_slave X opts sl shard pool w = Some ((es1, sh1, p1), w1)" and
    2: "discover_slaves X opts sls sh1 p1 w1 = Some ((es2, shard', pool'), w')"
    by (auto elim!: bind_SomeE)
  from 1 have "prefix (map rs_ref (sh_Servers shard)) (map rs_ref (sh_Servers sh1))"
  proof (cases rule: discover_slave_servers)
    case (2 new i srv)
    then have "map rs_ref (sh_Servers sh1) = map rs_ref (sh_Servers shard @ new)"
      by (simp add: map_update list_update_same_conv del: map_append)
    then show ?thesis by simp
  qed simp
  then show ?case using Cons.IH [OF 2] by (rule prefix_order.trans)
qed

text \<open>What \<open>discover_shard_slaves\<close> does to the servers, with and without error.\<close>

lemma discover_shard_slaves_refs:
  assumes "discover_shard_slaves X sen opts fo shard pool w = Some ((e, shard', pool'), w')"
  shows "prefix (map rs_ref (sh_Servers shard)) (map rs_ref (sh_Servers shard'))"
  using assms
  by (auto simp: discover_shard_slaves_def split: if_splits sum.splits
      elim!: bind_SomeE intro: discover_slaves_refs)

lemma discover_shard_slaves_ok:
  assumes "discover_shard_slaves X sen opts fo shard pool w = Some ((None, shard', pool'), w')"
    and "slaves_from k (sh_Servers shard)"
  shows "slaves_from k (sh_Servers shard')"
  using assms
  by (auto simp: discover_shard_slaves_def split: if_splits sum.splits
      elim!: bind_SomeE) (meson discover_slaves_slaves_from)

lemma discover_shard_slaves_only_master:
  assumes "discover_shard_slaves X sen opts fo shard pool w = Some ((e, shard', pool'), w')"
    and "DiscoveryOptionSet_Has opts OnlyMasterDiscoveryOpt"
  shows "e = None \<and> shard' = shard \<and> w' = w"
  using assms by (simp add: discover_shard_slaves_def)

lemma DiscoveryOptionSet_Has_iff: "DiscoveryOptionSet_Has opts o1 \<longleftrightarrow> o1 \<in> set opts"
  by (induction opts) auto

lemma GetMaster_single: "sh_Servers shard = [m] \<Longrightarrow> rs_Role m = Master \<Longrightarrow> GetMaster shard = Inr m"
  by (simp add: GetMaster_def)

lemma length_filter_le_one:
  "\<forall>i < length xs. P (xs ! i) \<longrightarrow> i = 0 \<Longrightarrow> length (filter P xs) \<le> 1"
proof (cases xs)
  case (Cons y ys)
  assume a: "\<forall>i < length xs. P (xs ! i) \<longrightarrow> i = 0"
  have "\<not> P z" if "z \<in> set ys" for z
  proof
    assume "P z"
    from that obtain j where "j < length ys" "ys ! j = z" by (auto simp: in_set_conv_nth)
    with a Cons \<open>P z\<close> have "Suc j = 0" by (auto dest: spec [of _ "Suc j"])
    then show False by simp
  qed
  then show ?thesis by (simp add: Cons filter_empty_conv)
qed simp


section \<open>Properties of discovery\<close>

lemma discover_fresh:
  assumes "url_canonical X"
    and "Shard_Discover X (Some sen) opts (NewShardFromServers n []) pool w = Some ((None, shard', pool'), w')"
  shows "\<exists>m rest mr w1 ip port w2.
    sh_Servers shard' = m # rest \<and> (\<forall>s \<in> set rest. rs_Role s = Slave) \<and>
    SentinelMaster X sen n w = Some (Inr mr, w1) \<and> \<not> is_down (m_Flags mr) \<and>
    SentinelGetMasterAddrByName X sen n w1 = Some (Inr (ip, port), w2) \<and>
    lib_ParseURL X (''redis://'' @ ip @ '':'' @ itoa port) = Inr (rs_ID m) \<and>
    (OnlyMasterDiscoveryOpt \<in> set opts \<longrightarrow> rest = [] \<and> GetMaster shard' = Inr m)"
  using assms(2)
proof (cases rule: Shard_Discover_sentinel)
  case (failed new)
  then show ?thesis by simp
next
  case (master mr ip port w1 w2 new i srv sh1 p1 w3 fo)
  have new1: "sh_Servers sh1 = [new ! 0] \<and> i = 0 \<and>
      lib_ParseURL X (''redis://'' @ ip @ '':'' @ itoa port) = Inr (rs_ID (new ! 0))"
    using master(4,5,7) GetServer_returns_pooled [OF assms(1)]
    by (fastforce simp: NewShardFromServers_def GetServerByID_def NewRedisServerFromPool_def
        split: prod.splits sum.splits)
  let ?s0 = "sh_Servers (set_server i srv sh1)"
  have s0: "?s0 = [srv]" using new1 by (simp add: set_server_def)
  have "slaves_from 1 ?s0" by (simp add: s0 slaves_from_def)
  with master(11) have sl: "slaves_from 1 (sh_Servers shard')" by (rule discover_shard_slaves_ok)
  then obtain m rest where m: "sh_Servers shard' = m # rest"
    by (cases "sh_Servers shard'") (auto simp: slaves_from_def)
  have "rs_ref m = rs_ref srv"
    using discover_shard_slaves_refs [OF master(11)] by (simp add: s0 m)
  then have id: "rs_ID m = rs_ID (new ! 0)" using master(8) new1 by simp
  have rest: "\<forall>s \<in> set rest. rs_Role s = Slave"
    using sl by (auto simp: m slaves_from_def in_set_conv_nth nth_Cons split: nat.splits)
      (metis One_nat_def Suc_leI Suc_less_eq zero_less_Suc)
  have "rest = [] \<and> GetMaster shard' = Inr m" if "OnlyMasterDiscoveryOpt \<in> set opts"
    using discover_shard_slaves_only_master [OF master(11)] that master(9) m s0
    by (auto simp: DiscoveryOptionSet_Has_iff GetMaster_def)
  with m rest master(1-3) new1 id show ?thesis by (fastforce simp: NewShardFromServers_def)
qed

text \<open>
  C1. Functional correctness of discovery through sentinel, for a shard that starts with no
  servers (as in the TwemproxyConfig controller). When it reports no error, the first server
  of the shard is the one at the address that \<^verbatim>\<open>SENTINEL GET-MASTER-ADDR-BY-NAME\<close>
  returned (and not a stale address of \<^verbatim>\<open>SENTINEL MASTER\<close>), it was not flagged down, every
  other server has confirmed the role slave, and with \<^verbatim>\<open>OnlyMasterDiscoveryOpt\<close> it is the
  only server and \<^verbatim>\<open>GetMaster\<close> returns it.
\<close>

theorem Shard_Discover_fresh:
  assumes "url_canonical X"
    and "Shard_Discover X (Some sen) opts (NewShardFromServers n []) pool w = Some ((None, shard', pool'), w')"
  shows "\<exists>m rest mr w1 ip port w2.
    sh_Servers shard' = m # rest \<and> (\<forall>s \<in> set rest. rs_Role s = Slave) \<and>
    SentinelMaster X sen n w = Some (Inr mr, w1) \<and> \<not> is_down (m_Flags mr) \<and>
    SentinelGetMasterAddrByName X sen n w1 = Some (Inr (ip, port), w2) \<and>
    lib_ParseURL X (''redis://'' @ ip @ '':'' @ itoa port) = Inr (rs_ID m) \<and>
    (OnlyMasterDiscoveryOpt \<in> set opts \<longrightarrow> rest = [] \<and> GetMaster shard' = Inr m)"
  using assms by (rule discover_fresh)

text \<open>
  No split brain: whatever the sentinel and the servers answer, and whatever error is
  reported, a discovery that starts from an empty shard never leaves two servers with the
  role master.
\<close>

lemma Shard_Discover_single_master:
  assumes "Shard_Discover X (Some sen) opts (NewShardFromServers n []) pool w = Some ((e, shard', pool'), w')"
  shows "length (filter (\<lambda>s. rs_Role s = Master) (sh_Servers shard')) \<le> 1"
  using assms
proof (cases rule: Shard_Discover_sentinel)
  case (failed new)
  have "filter (\<lambda>s. rs_Role s = Master) (sh_Servers shard') = []"
    using failed(3,4) by (auto simp: NewShardFromServers_def filter_empty_conv dest!: set_update_subset_insert [THEN subsetD])
  then show ?thesis by simp
next
  case (master mr ip port w1 w2 new i srv sh1 p1 w3 fo)
  have "length (sh_Servers (set_server i srv sh1)) \<le> 1"
    using master(4,5) by (auto simp: set_server_def NewShardFromServers_def GetServerByID_def
        NewRedisServerFromPool_def split: prod.splits sum.splits)
  then show ?thesis
    using discover_shard_slaves_no_new_master [OF master(11)]
    by (intro length_filter_le_one) (auto simp: no_new_master_def)
qed

text \<open>
  Every error that \<^verbatim>\<open>(*Shard).Discover\<close> returns is a \<^verbatim>\<open>MultiError\<close> with at least one
  element, so the type assertion \<^verbatim>\<open>err.(operatorutils.MultiError)\<close> of
  \<^verbatim>\<open>(*Cluster).SentinelDiscover\<close> cannot panic.
\<close>

lemma Shard_Discover_error_type:
  assumes "Shard_Discover X sentinel opts shard pool w = Some ((Some e, shard', pool'), w')"
  shows "\<exists>es. e = MultiError es \<and> es \<noteq> []"
proof -
  have slaves: "\<exists>es. e = MultiError es \<and> es \<noteq> []"
    if "discover_shard_slaves X sen opts fo sh p v = Some ((Some e, sh', p'), v')" for sen fo sh p v sh' p' v'
    using that by (auto simp: discover_shard_slaves_def split: if_splits sum.splits elim!: bind_SomeE)
  have "\<exists>es. e = MultiError es \<and> es \<noteq> []"
    if "discover_shard_master X sen opts ip port flags fo sh p v = Some ((Some e, sh', p'), v')"
    for sen ip port flags fo sh p v sh' p' v'
    using that
    by (auto simp: discover_shard_master_def Let_def split: if_splits sum.splits prod.splits option.splits
        elim!: bind_SomeE) (metis slaves)
  then show ?thesis using assms
    by (auto simp: Shard_Discover_def split: option.splits sum.splits elim!: bind_SomeE)
qed

lemma Shard_Discover_name:
  assumes "Shard_Discover X (Some sen) opts shard pool w = Some ((e, shard', pool'), w')"
  shows "sh_Name shard' = sh_Name shard"
  using assms
proof (cases rule: Shard_Discover_sentinel)
  case (failed new)
  then show ?thesis by simp
next
  case (master mr ip port w1 w2 new i srv sh1 p1 w3 fo)
  then show ?thesis
    by (auto simp: discover_shard_slaves_def set_server_def split: if_splits sum.splits
        elim!: bind_SomeE dest!: discover_slaves_name)
qed

section \<open>Initialisation of a shard\<close>

text \<open>
  The documented behaviour of the \<^verbatim>\<open>ROLE\<close> and \<^verbatim>\<open>SLAVEOF\<close> commands:
  \<open>master_of w a\<close> is the host that the server at address \<open>a\<close> replicates from, or
  \<^const>\<open>None\<close> when it is a master.
\<close>

definition replication_laws :: "'w lib \<Rightarrow> ('w \<Rightarrow> string \<Rightarrow> string option) \<Rightarrow> bool" where
  "replication_laws X master_of \<longleftrightarrow>
     (\<forall>a w. cl_RedisRole X a w =
        Some (Inr (case master_of w a of
                     None \<Rightarrow> ASlice [AStr ''master'']
                   | Some h \<Rightarrow> ASlice [AStr ''slave'', AStr h]), w)) \<and>
     (\<forall>a h p w. \<exists>w'. cl_RedisSlaveOf X a h p w = Some (None, w') \<and>
        master_of w' = (master_of w)(a := if h = ''NO'' \<and> p = ''ONE'' then None else Some h))"

locale replication =
  fixes X :: "'w lib" and master_of :: "'w \<Rightarrow> string \<Rightarrow> string option"
  assumes laws: "replication_laws X master_of"
begin

lemma role:
  "RedisRole X srv w =
     Some (Inr (case master_of w (ID srv) of None \<Rightarrow> (Master, '''') | Some h \<Rightarrow> (Slave, h)), w)"
  using laws by (auto simp: replication_laws_def RedisRole_def split: option.splits)

lemma slaveof:
  obtains w' where "RedisSlaveOf X srv h p w = Some (None, w')"
    "master_of w' = (master_of w)(ID srv := if h = ''NO'' \<and> p = ''ONE'' then None else Some h)"
  using laws unfolding replication_laws_def RedisSlaveOf_def by blast

lemma init_masters_none:
  "hp \<notin> rs_ID ` set ss \<Longrightarrow> init_masters X hp ss m w = Some (((None, [], m), ss), w)"
  by (induction ss) auto

lemma init_masters_skip:
  "hp \<notin> rs_ID ` set ss1 \<Longrightarrow> init_masters X hp ss m w = Some ((r, ss'), w') \<Longrightarrow>
     init_masters X hp (ss1 @ ss) m w = Some ((r, ss1 @ ss'), w')"
  by (induction ss1) (auto split: prod.splits)

text \<open>The first pass promotes the master if it is not initialised, and touches nothing else.\<close>

lemma init_masters_runs:
  assumes "distinct (map rs_ID (ss1 @ m # ss2))" and "rs_ID m = hp"
    and "master_of w hp = None \<or> master_of w hp = Some ''127.0.0.1''"
  obtains w' where
    "init_masters X hp (ss1 @ m # ss2) mst w =
       Some (((None, if master_of w hp = None then [] else [hp], Some (rs_ref m)),
             ss1 @ (if master_of w hp = None then m\<lparr>rs_Role := Master\<rparr> else m) # ss2), w')"
    "master_of w' = (master_of w)(hp := None)" "master_of w hp = None \<Longrightarrow> w' = w"
proof -
  have nin: "hp \<notin> rs_ID ` set ss1" "hp \<notin> rs_ID ` set ss2" using assms(1,2) by auto
  have im: "\<exists>w'. InitMaster X m w = Some ((Inr (master_of w hp \<noteq> None),
        if master_of w hp = None then m\<lparr>rs_Role := Master\<rparr> else m), w') \<and>
      master_of w' = (master_of w)(hp := None) \<and> (master_of w hp = None \<longrightarrow> w' = w)"
  proof (cases "master_of w hp")
    case None
    then show ?thesis using assms(2) by (auto simp: InitMaster_def role fun_upd_idem)
  next
    case (Some h)
    with assms(3) have "h = ''127.0.0.1''" by simp
    moreover obtain w' where "RedisSlaveOf X (rs_ref m) ''NO'' ''ONE'' w = Some (None, w')"
      "master_of w' = (master_of w)(hp := None)"
      using slaveof [of "rs_ref m" "''NO''" "''ONE''" w] assms(2) by auto
    ultimately show ?thesis using Some assms(2) by (auto simp: InitMaster_def role)
  qed
  then obtain w' where w': "InitMaster X m w = Some ((Inr (master_of w hp \<noteq> None),
        if master_of w hp = None then m\<lparr>rs_Role := Master\<rparr> else m), w')"
    "master_of w' = (master_of w)(hp := None)" "master_of w hp = None \<longrightarrow> w' = w"
    by (elim exE conjE) (rule that)
  have "init_masters X hp (m # ss2) mst w =
       Some (((None, if master_of w hp = None then [] else [hp], Some (rs_ref m)),
             (if master_of w hp = None then m\<lparr>rs_Role := Master\<rparr> else m) # ss2), w')" for mst
    using w'(1) init_masters_none [OF nin(2)] by (simp add: assms(2))
  from this [THEN init_masters_skip [OF nin(1)]] w'(2) w'(3) [THEN mp] show thesis by (rule that)
qed

text \<open>The second pass attaches every slave that is not initialised to the master.\<close>

lemma init_slaves_runs:
  assumes "distinct (map rs_ID ss)" and "ID m = hp" and "master_of w hp = None"
    and "GetHost m \<noteq> ''127.0.0.1''" and "GetHost m \<noteq> ''NO''"
    and "\<forall>s \<in> set ss. rs_ID s \<noteq> hp \<longrightarrow>
      master_of w (rs_ID s) = Some ''127.0.0.1'' \<or> master_of w (rs_ID s) = Some (GetHost m)"
  shows "\<exists>w'. init_slaves X pool hp (Some m) ss w =
      Some ((([], map rs_ID (filter (\<lambda>s. rs_ID s \<noteq> hp \<and> master_of w (rs_ID s) = Some ''127.0.0.1'') ss)),
             map (\<lambda>s. if rs_ID s = hp \<or> master_of w (rs_ID s) = Some ''127.0.0.1'' then s
                      else s\<lparr>rs_Role := Slave\<rparr>) ss), w') \<and>
    (\<forall>a. master_of w' a = (if a \<noteq> hp \<and> a \<in> rs_ID ` set ss then Some (GetHost m) else master_of w a)) \<and>
    ((\<forall>s \<in> set ss. rs_ID s \<noteq> hp \<longrightarrow> master_of w (rs_ID s) = Some (GetHost m)) \<longrightarrow> w' = w)"
  using assms
proof (induction ss arbitrary: w)
  case Nil
  then show ?case by simp
next
  case (Cons s ss)
  show ?case
  proof (cases "rs_ID s = hp")
    case True
    from Cons.prems obtain w' where "init_slaves X pool hp (Some m) ss w =
      Some ((([], map rs_ID (filter (\<lambda>s. rs_ID s \<noteq> hp \<and> master_of w (rs_ID s) = Some ''127.0.0.1'') ss)),
             map (\<lambda>s. if rs_ID s = hp \<or> master_of w (rs_ID s) = Some ''127.0.0.1'' then s
                      else s\<lparr>rs_Role := Slave\<rparr>) ss), w')"
      "\<forall>a. master_of w' a = (if a \<noteq> hp \<and> a \<in> rs_ID ` set ss then Some (GetHost m) else master_of w a)"
      "(\<forall>s \<in> set ss. rs_ID s \<noteq> hp \<longrightarrow> master_of w (rs_ID s) = Some (GetHost m)) \<longrightarrow> w' = w"
      using Cons.IH [of w] by auto
    with True show ?thesis by auto
  next
    case False
    let ?lo = "Some ''127.0.0.1''"
    define c where "c = (master_of w (rs_ID s) = ?lo)"
    have "\<exists>w1. InitSlave X pool (Some m) s w = Some ((Inr c, if c then s else s\<lparr>rs_Role := Slave\<rparr>), w1) \<and>
        master_of w1 = (master_of w)(rs_ID s := Some (GetHost m)) \<and> (\<not> c \<longrightarrow> w1 = w)"
    proof (cases c)
      case True
      obtain w1 where "RedisSlaveOf X (rs_ref s) (GetHost m) (GetPort m) w = Some (None, w1)"
        "master_of w1 = (master_of w)(rs_ID s := Some (GetHost m))"
        using slaveof [of "rs_ref s" "GetHost m" "GetPort m" w] Cons.prems(5) by auto
      with True Cons.prems(2,3) show ?thesis by (auto simp: InitSlave_def role c_def)
    next
      case nc: False
      then have "master_of w (rs_ID s) = Some (GetHost m)"
        using Cons.prems(6) False by (auto simp: c_def)
      with nc Cons.prems(4) show ?thesis by (auto simp: InitSlave_def role fun_upd_idem)
    qed
    then obtain w1 where w1: "InitSlave X pool (Some m) s w = Some ((Inr c, if c then s else s\<lparr>rs_Role := Slave\<rparr>), w1)"
      "master_of w1 = (master_of w)(rs_ID s := Some (GetHost m))" "\<not> c \<Longrightarrow> w1 = w" by blast
    have same: "master_of w1 (rs_ID t) = master_of w (rs_ID t)" if "t \<in> set ss" for t
    proof -
      have "rs_ID s \<notin> rs_ID ` set ss" using Cons.prems(1) by simp
      with that have "rs_ID t \<noteq> rs_ID s" by (metis imageI)
      then show ?thesis by (simp add: w1(2))
    qed
    have "master_of w1 hp = None" using w1(2) Cons.prems(3) False by auto
    then obtain w' where IH: "init_slaves X pool hp (Some m) ss w1 =
      Some ((([], map rs_ID (filter (\<lambda>s. rs_ID s \<noteq> hp \<and> master_of w1 (rs_ID s) = ?lo) ss)),
             map (\<lambda>s. if rs_ID s = hp \<or> master_of w1 (rs_ID s) = ?lo then s
                      else s\<lparr>rs_Role := Slave\<rparr>) ss), w')"
      "\<forall>a. master_of w' a = (if a \<noteq> hp \<and> a \<in> rs_ID ` set ss then Some (GetHost m) else master_of w1 a)"
      "(\<forall>s \<in> set ss. rs_ID s \<noteq> hp \<longrightarrow> master_of w1 (rs_ID s) = Some (GetHost m)) \<longrightarrow> w' = w1"
      using Cons.IH [of w1] Cons.prems same by auto
    have filt: "filter (\<lambda>s. rs_ID s \<noteq> hp \<and> master_of w1 (rs_ID s) = ?lo) ss
        = filter (\<lambda>s. rs_ID s \<noteq> hp \<and> master_of w (rs_ID s) = ?lo) ss"
      by (rule filter_cong) (simp_all add: same)
    have maps: "map (\<lambda>s. if rs_ID s = hp \<or> master_of w1 (rs_ID s) = ?lo then s else s\<lparr>rs_Role := Slave\<rparr>) ss
        = map (\<lambda>s. if rs_ID s = hp \<or> master_of w (rs_ID s) = ?lo then s else s\<lparr>rs_Role := Slave\<rparr>) ss"
      by (rule map_cong) (simp_all add: same)
    have run: "init_slaves X pool hp (Some m) (s # ss) w =
      Some ((([], map rs_ID (filter (\<lambda>s. rs_ID s \<noteq> hp \<and> master_of w (rs_ID s) = ?lo) (s # ss))),
             map (\<lambda>s. if rs_ID s = hp \<or> master_of w (rs_ID s) = ?lo then s
                      else s\<lparr>rs_Role := Slave\<rparr>) (s # ss)), w')"
      using False w1(1) IH(1) filt maps by (simp add: c_def)
    have "\<forall>a. master_of w' a =
        (if a \<noteq> hp \<and> a \<in> rs_ID ` set (s # ss) then Some (GetHost m) else master_of w a)"
      using IH(2) w1(2) False by auto
    moreover have "w' = w" if "\<forall>t \<in> set (s # ss). rs_ID t \<noteq> hp \<longrightarrow> master_of w (rs_ID t) = Some (GetHost m)"
    proof -
      from that False have "\<not> c" using Cons.prems(4) by (auto simp: c_def)
      then show ?thesis using IH(3) w1(3) that by simp
    qed
    ultimately show ?thesis using run by blast
  qed
qed

text \<open>Both passes together.  A server is written to when it still replicates from the loopback
  address; its role in the shard is set when it does not.\<close>

lemma Shard_Init_runs:
  assumes "distinct (map rs_ID (sh_Servers sh))" and "m \<in> set (sh_Servers sh)" and "rs_ID m = hp"
    and "GetHost (rs_ref m) \<noteq> ''127.0.0.1''" and "GetHost (rs_ref m) \<noteq> ''NO''"
    and "master_of w hp = None \<or> master_of w hp = Some ''127.0.0.1''"
    and "\<forall>s \<in> set (sh_Servers sh). rs_ID s \<noteq> hp \<longrightarrow>
      master_of w (rs_ID s) = Some ''127.0.0.1'' \<or> master_of w (rs_ID s) = Some (GetHost (rs_ref m))"
  shows "\<exists>w'. Shard_Init X pool hp sh w = Some
      ((((if master_of w hp = None then [] else [hp]) @
          map rs_ID (filter (\<lambda>s. rs_ID s \<noteq> hp \<and> master_of w (rs_ID s) = Some ''127.0.0.1'') (sh_Servers sh)),
         None),
        sh\<lparr>sh_Servers := map (\<lambda>s. if master_of w (rs_ID s) = Some ''127.0.0.1'' then s
             else s\<lparr>rs_Role := if rs_ID s = hp then Master else Slave\<rparr>) (sh_Servers sh)\<rparr>), w') \<and>
    (\<forall>a. master_of w' a = (if a = hp then None
        else if a \<in> rs_ID ` set (sh_Servers sh) then Some (GetHost (rs_ref m)) else master_of w a)) \<and>
    (master_of w hp = None \<and>
     (\<forall>s \<in> set (sh_Servers sh). rs_ID s \<noteq> hp \<longrightarrow> master_of w (rs_ID s) = Some (GetHost (rs_ref m)))
       \<longrightarrow> w' = w)"
proof -
  from assms(2) obtain ss1 ss2 where ss: "sh_Servers sh = ss1 @ m # ss2" by (meson split_list)
  let ?m = "if master_of w hp = None then m\<lparr>rs_Role := Master\<rparr> else m"
  let ?ss = "ss1 @ ?m # ss2"
  obtain w1 where w1: "init_masters X hp (sh_Servers sh) None w =
       Some (((None, if master_of w hp = None then [] else [hp], Some (rs_ref m)), ?ss), w1)"
    "master_of w1 = (master_of w)(hp := None)" "master_of w hp = None \<Longrightarrow> w1 = w"
    using init_masters_runs [OF assms(1) [unfolded ss] assms(3,6), of None] unfolding ss by metis
  have nin: "hp \<notin> rs_ID ` set ss1" "hp \<notin> rs_ID ` set ss2" using assms(1,3) ss by auto
  have ids: "map rs_ID ?ss = map rs_ID (sh_Servers sh)" by (simp add: ss)
  then have idset: "rs_ID ` set ?ss = rs_ID ` set (sh_Servers sh)" by (metis list.set_map)
  have all: "\<forall>s \<in> set ?ss. rs_ID s \<noteq> hp \<longrightarrow>
      master_of w1 (rs_ID s) = Some ''127.0.0.1'' \<or> master_of w1 (rs_ID s) = Some (GetHost (rs_ref m))"
    using assms(3,7) by (auto simp: ss w1(2))
  have none: "master_of w1 hp = None" by (simp add: w1(2))
  obtain w' where w': "init_slaves X pool hp (Some (rs_ref m)) ?ss w1 =
      Some ((([], map rs_ID (filter (\<lambda>s. rs_ID s \<noteq> hp \<and> master_of w1 (rs_ID s) = Some ''127.0.0.1'') ?ss)),
             map (\<lambda>s. if rs_ID s = hp \<or> master_of w1 (rs_ID s) = Some ''127.0.0.1'' then s
                      else s\<lparr>rs_Role := Slave\<rparr>) ?ss), w')"
    "\<forall>a. master_of w' a = (if a \<noteq> hp \<and> a \<in> rs_ID ` set ?ss then Some (GetHost (rs_ref m)) else master_of w1 a)"
    "(\<forall>s \<in> set ?ss. rs_ID s \<noteq> hp \<longrightarrow> master_of w1 (rs_ID s) = Some (GetHost (rs_ref m))) \<longrightarrow> w' = w1"
    using init_slaves_runs [OF assms(1) [folded ids] assms(3) none assms(4,5) all, of pool]
    by (elim exE conjE) (rule that)
  have filt: "map rs_ID (filter (\<lambda>s. rs_ID s \<noteq> hp \<and> master_of w1 (rs_ID s) = Some ''127.0.0.1'') ?ss) =
      map rs_ID (filter (\<lambda>s. rs_ID s \<noteq> hp \<and> master_of w (rs_ID s) = Some ''127.0.0.1'') (sh_Servers sh))"
    by (simp add: ss assms(3) w1(2) cong: conj_cong)
  have maps: "map (\<lambda>s. if rs_ID s = hp \<or> master_of w1 (rs_ID s) = Some ''127.0.0.1'' then s
                      else s\<lparr>rs_Role := Slave\<rparr>) ?ss =
      map (\<lambda>s. if master_of w (rs_ID s) = Some ''127.0.0.1'' then s
             else s\<lparr>rs_Role := if rs_ID s = hp then Master else Slave\<rparr>) (sh_Servers sh)"
    using nin assms(3,6) by (auto simp: ss w1(2) image_iff)
  show ?thesis
  proof (intro exI [of _ w'] conjI)
    show "Shard_Init X pool hp sh w = Some
      ((((if master_of w hp = None then [] else [hp]) @
          map rs_ID (filter (\<lambda>s. rs_ID s \<noteq> hp \<and> master_of w (rs_ID s) = Some ''127.0.0.1'') (sh_Servers sh)),
         None),
        sh\<lparr>sh_Servers := map (\<lambda>s. if master_of w (rs_ID s) = Some ''127.0.0.1'' then s
             else s\<lparr>rs_Role := if rs_ID s = hp then Master else Slave\<rparr>) (sh_Servers sh)\<rparr>), w')"
      unfolding Shard_Init_def w1(1) using w'(1) filt maps by simp
    show "\<forall>a. master_of w' a = (if a = hp then None
        else if a \<in> rs_ID ` set (sh_Servers sh) then Some (GetHost (rs_ref m)) else master_of w a)"
      using w'(2) w1(2) unfolding idset by simp
    show "master_of w hp = None \<and>
     (\<forall>s \<in> set (sh_Servers sh). rs_ID s \<noteq> hp \<longrightarrow> master_of w (rs_ID s) = Some (GetHost (rs_ref m)))
       \<longrightarrow> w' = w"
      using w'(3) w1(3) by (auto simp: ss)
  qed
qed

end

text \<open>A simulated set of redis servers: the world records whom each address replicates from.\<close>

definition replica_lib :: "(string \<Rightarrow> string option) lib" where
  "replica_lib =
     (let unsupported = ErrorString ''ERR unknown command'' in
     \<lparr>lib_ParseURL = parse_redis_url,
      lib_ScanMaster = (\<lambda>m. Inr (scan_master m)),
      lib_ScanSlave = (\<lambda>m. Inr (scan_slave m)),
      cl_SentinelMaster = (\<lambda>addr shard w. Some (Inl unsupported, w)),
      cl_SentinelMasters = (\<lambda>addr w. Some (Inl unsupported, w)),
      cl_SentinelGetMasterAddrByName = (\<lambda>addr shard w. Some (Inl unsupported, w)),
      cl_SentinelSlaves = (\<lambda>addr shard w. Some (Inl unsupported, w)),
      cl_SentinelMonitor = (\<lambda>addr name h p q w. Some (Some unsupported, w)),
      cl_SentinelSet = (\<lambda>addr shard par val w. Some (Some unsupported, w)),
      cl_SentinelInfoCache = (\<lambda>addr w. Some ((ASlice [], Some unsupported), w)),
      cl_SentinelPing = (\<lambda>addr w. Some (Some unsupported, w)),
      cl_RedisRole = (\<lambda>addr w. Some (Inr (case w addr of
                         None \<Rightarrow> ASlice [AStr ''master'']
                       | Some h \<Rightarrow> ASlice [AStr ''slave'', AStr h]), w)),
      cl_RedisConfigGet = (\<lambda>addr par w. Some (Inl unsupported, w)),
      cl_RedisConfigSet = (\<lambda>addr par val w. Some (Some unsupported, w)),
      cl_RedisSlaveOf = (\<lambda>addr h p w.
          Some (None, w(addr := if h = ''NO'' \<and> p = ''ONE'' then None else Some h))),
      cl_RedisBGSave = (\<lambda>addr w. Some (Some unsupported, w)),
      cl_RedisLastSave = (\<lambda>addr w. Some (Inl unsupported, w)),
      cl_RedisInfo = (\<lambda>addr sec w. Some (Inl unsupported, w))\<rparr>)"

interpretation simulated: replication replica_lib "\<lambda>w. w"
  by unfold_locales (auto simp: replication_laws_def replica_lib_def Let_def split: option.splits)

text \<open>
  C12. Initialisation converges. The servers of a shard start as replicas of the loopback
  address. For a shard with distinct addresses whose servers are each uninitialised or already
  in place, one call of \<^verbatim>\<open>(*Shard).Init\<close> returns no error, makes the designated server a
  master and all the others its replicas, and leaves every server outside the shard alone. A
  second call changes nothing and leaves every server of the shard with its role.
\<close>

theorem Shard_Init_converges:
  assumes "replication_laws X master_of"
    and "distinct (map rs_ID (sh_Servers sh))" and "m \<in> set (sh_Servers sh)" and "rs_ID m = hp"
    and "GetHost (rs_ref m) \<noteq> ''127.0.0.1''" and "GetHost (rs_ref m) \<noteq> ''NO''"
    and "master_of w hp = None \<or> master_of w hp = Some ''127.0.0.1''"
    and "\<forall>s \<in> set (sh_Servers sh). rs_ID s \<noteq> hp \<longrightarrow>
      master_of w (rs_ID s) = Some ''127.0.0.1'' \<or> master_of w (rs_ID s) = Some (GetHost (rs_ref m))"
  shows "\<exists>ch sh1 w1 sh2.
    Shard_Init X pool hp sh w = Some (((ch, None), sh1), w1) \<and>
    master_of w1 hp = None \<and>
    (\<forall>s \<in> set (sh_Servers sh). rs_ID s \<noteq> hp \<longrightarrow> master_of w1 (rs_ID s) = Some (GetHost (rs_ref m))) \<and>
    (\<forall>a. a \<notin> rs_ID ` set (sh_Servers sh) \<longrightarrow> master_of w1 a = master_of w a) \<and>
    Shard_Init X pool hp sh1 w1 = Some ((([], None), sh2), w1) \<and>
    map rs_ref (sh_Servers sh2) = map rs_ref (sh_Servers sh) \<and>
    (\<forall>s \<in> set (sh_Servers sh2). rs_Role s = (if rs_ID s = hp then Master else Slave))"
proof -
  have R: "replication X master_of" by (rule replication.intro) (rule assms(1))
  let ?up = "\<lambda>s. if master_of w (rs_ID s) = Some ''127.0.0.1'' then s
             else s\<lparr>rs_Role := if rs_ID s = hp then Master else Slave\<rparr>"
  let ?sh1 = "sh\<lparr>sh_Servers := map ?up (sh_Servers sh)\<rparr>"
  obtain ch w1 where first: "Shard_Init X pool hp sh w = Some (((ch, None), ?sh1), w1)"
    and w1: "\<forall>a. master_of w1 a = (if a = hp then None
        else if a \<in> rs_ID ` set (sh_Servers sh) then Some (GetHost (rs_ref m)) else master_of w a)"
    using replication.Shard_Init_runs [OF R assms(2-8), of pool] by (elim exE conjE) (rule that)
  have up: "rs_ref (?up s) = rs_ref s" for s by simp
  have refs: "map rs_ref (sh_Servers ?sh1) = map rs_ref (sh_Servers sh)" by (simp add: up)
  then have ids: "map rs_ID (sh_Servers ?sh1) = map rs_ID (sh_Servers sh)"
    by (metis (no_types, lifting) list.map_comp comp_apply map_eq_conv)
  have m1: "?up m \<in> set (sh_Servers ?sh1)" "rs_ref (?up m) = rs_ref m" using assms(3) by auto
  have fin: "\<forall>s \<in> set (sh_Servers ?sh1). rs_ID s \<noteq> hp \<longrightarrow> master_of w1 (rs_ID s) = Some (GetHost (rs_ref m))"
    using w1 by auto
  have lo: "master_of w1 (rs_ID s) \<noteq> Some ''127.0.0.1''" if "s \<in> set (sh_Servers sh)" for s
    using w1 assms(5) that by auto
  let ?sh2 = "?sh1\<lparr>sh_Servers := map (\<lambda>s. s\<lparr>rs_Role := if rs_ID s = hp then Master else Slave\<rparr>) (sh_Servers ?sh1)\<rparr>"
  have second: "Shard_Init X pool hp ?sh1 w1 = Some ((([], None), ?sh2), w1)"
    using replication.Shard_Init_runs [OF R, of ?sh1 "?up m" hp w1 pool] assms(2-6) m1 ids fin w1 lo
    by (auto simp: filter_empty_conv cong: map_cong)
  have "map rs_ref (sh_Servers ?sh2) = map rs_ref (sh_Servers sh)"
    "\<forall>s \<in> set (sh_Servers ?sh2). rs_Role s = (if rs_ID s = hp then Master else Slave)" by auto
  moreover have "master_of w1 hp = None"
    "\<forall>s \<in> set (sh_Servers sh). rs_ID s \<noteq> hp \<longrightarrow> master_of w1 (rs_ID s) = Some (GetHost (rs_ref m))"
    "\<forall>a. a \<notin> rs_ID ` set (sh_Servers sh) \<longrightarrow> master_of w1 a = master_of w a"
    using w1 assms(3,4) by auto
  ultimately show ?thesis
    using first second by (intro exI conjI)
qed

text \<open>A sentinel with one shard: the master at 10.0.0.1 and a slave at 10.0.0.2.\<close>

definition ex_reply :: "any \<Rightarrow> FakeResponse" where
  "ex_reply v = \<lparr>InjectResponse = v, InjectError = None\<rparr>"

definition ex_sentinel :: srvref where "ex_sentinel = (''10.0.0.9'', ''26379'')"

definition ex_master :: SentinelMasterCmdResult where
  "ex_master = scan_master (map_of
     [(''name'', ''shard01''), (''ip'', ''10.0.0.1''), (''port'', ''6379''), (''flags'', ''master'')])"

definition ex_world :: fake_world where
  "ex_world = (\<lambda>_. [])
     (''10.0.0.9:26379'' :=
        [ex_reply (AMaster ex_master), ex_reply (AStrings [''10.0.0.1'', ''6379'']),
         ex_reply (ASlice [ASlice [AStr ''name'', AStr ''10.0.0.2:6379'', AStr ''ip'', AStr ''10.0.0.2'',
           AStr ''port'', AStr ''6379'', AStr ''flags'', AStr ''slave'']])],
      ''10.0.0.1:6379'' := [ex_reply (ASlice [AStr ''master''])],
      ''10.0.0.2:6379'' := [ex_reply (ASlice [AStr ''slave'', AStr ''10.0.0.1''])])"

definition ex_outcome :: "((error option \<times> Shard \<times> ServerPool) \<times> fake_world) option \<Rightarrow>
    (error option \<times> (string \<times> Role) list) option" where
  "ex_outcome = map_option (\<lambda>((e, s, p), w). (e, map (\<lambda>t. (rs_ID t, rs_Role t)) (sh_Servers s)))"

lemma ex_outcome_SomeE:
  assumes "ex_outcome r = Some (e, xs)"
  obtains s p w where "r = Some ((e, s, p), w)" "map (\<lambda>t. (rs_ID t, rs_Role t)) (sh_Servers s) = xs"
  using assms by (auto simp: ex_outcome_def)

lemma ex_discover:
  "ex_outcome (Shard_Discover fake_lib (Some ex_sentinel) [] (NewShardFromServers ''shard01'' []) [] ex_world)
   = Some (None, [(''10.0.0.1:6379'', Master), (''10.0.0.2:6379'', Slave)])"
  by code_simp

theorem Shard_Discover_fresh_witness:
  "\<exists>shard' pool' w' m rest.
    Shard_Discover fake_lib (Some ex_sentinel) [] (NewShardFromServers ''shard01'' []) [] ex_world
      = Some ((None, shard', pool'), w') \<and>
    sh_Servers shard' = m # rest \<and> (\<forall>s \<in> set rest. rs_Role s = Slave)"
proof -
  obtain s p w where d: "Shard_Discover fake_lib (Some ex_sentinel) [] (NewShardFromServers ''shard01'' []) []
      ex_world = Some ((None, s, p), w)"
    using ex_discover by (rule ex_outcome_SomeE)
  with Shard_Discover_fresh [OF fake_lib_canonical d] show ?thesis by blast
qed

theorem Shard_Init_converges_witness:
  "\<exists>ch sh1 w1 sh2.
    let srv = (\<lambda>h. NewRedisServerFromParams (h, ''6379'') Unknown Map.empty);
        sh = NewShardFromServers ''shard01'' [srv ''10.0.0.1'', srv ''10.0.0.2'', srv ''10.0.0.3'']
    in Shard_Init replica_lib [] ''10.0.0.2:6379'' sh (\<lambda>_. Some ''127.0.0.1'') = Some (((ch, None), sh1), w1) \<and>
       w1 ''10.0.0.2:6379'' = None \<and>
       Shard_Init replica_lib [] ''10.0.0.2:6379'' sh1 w1 = Some ((([], None), sh2), w1)"
proof -
  let ?srv = "\<lambda>h. NewRedisServerFromParams (h, ''6379'') Unknown Map.empty"
  let ?sh = "NewShardFromServers ''shard01'' [?srv ''10.0.0.1'', ?srv ''10.0.0.2'', ?srv ''10.0.0.3'']"
  have "distinct (map rs_ID (sh_Servers ?sh))" "?srv ''10.0.0.2'' \<in> set (sh_Servers ?sh)"
    "rs_ID (?srv ''10.0.0.2'') = ''10.0.0.2:6379''"
    by (simp_all add: NewShardFromServers_def NewRedisServerFromParams_def ID_def JoinHostPort_def)
  from Shard_Init_converges [OF simulated.laws this, of "\<lambda>_. Some ''127.0.0.1''" "[]"]
  show ?thesis by (simp add: Let_def NewRedisServerFromParams_def GetHost_def) blast
qed

end
