(* ===== verification/ShardedCluster.thy ===== *)
theory ShardedCluster
  imports Sharded
begin

text \<open>
  The sharded cluster: \<^verbatim>\<open>internal/pkg/redis/sharded/redis_sharded_cluster.go\<close> and
  \<^verbatim>\<open>sentinel_server.go\<close>. A cluster is its shards and its sentinels; the pool of servers it
  shares with its shards is threaded through the operations. A sentinel is a pointer to a
  server of the pool.
\<close>

section \<open>Sentinel servers\<close>

definition NewSentinelServerFromPool ::
    "'w lib \<Rightarrow> string \<Rightarrow> string option \<Rightarrow> ServerPool \<Rightarrow> (error + srvref) \<times> ServerPool" where
  "NewSentinelServerFromPool X connectionString als pool =
     (case GetServer X connectionString als pool of
        (Inl e, pool') \<Rightarrow> (Inl e, pool')
      | (Inr srv, pool') \<Rightarrow> (Inr (ref_of srv), pool'))"

definition NewSentinelServerFromParams :: "Server \<Rightarrow> srvref" where
  "NewSentinelServerFromParams srv = ref_of srv"

definition NewHighAvailableSentinel ::
    "'w lib \<Rightarrow> (string, string) gomap \<Rightarrow> ServerPool \<Rightarrow> (error option \<times> srvref list) \<times> ServerPool" where
  "NewHighAvailableSentinel X servers pool =
     (case get_all (GetServer X) servers pool of
        ((merr, srvs), pool') \<Rightarrow> ((ErrorOrNil merr, sort_key ID (map ref_of srvs)), pool'))"

definition IsMonitoringShards ::
    "'w lib \<Rightarrow> srvref \<Rightarrow> string list \<Rightarrow> ('w, error + bool) go" where
  "IsMonitoringShards X sentinel shards w =
     do { (r, w) \<leftarrow> SentinelMasters X sentinel w;
          case r of
            Inl e \<Rightarrow> Some (Inl e, w)
          | Inr monitored \<Rightarrow>
              Some (Inr (length monitored \<noteq> 0 \<and>
                         list_all (\<lambda>name. list_ex (\<lambda>m. m_Name m = name) monitored) shards), w) }"

section \<open>The cluster\<close>

record Cluster =
  cl_Shards :: "Shard list"
  cl_Sentinels :: "srvref list"

definition NewShardedCluster ::
    "'w lib \<Rightarrow> (string, string) gomap \<Rightarrow> Shard list \<Rightarrow> ServerPool \<Rightarrow> (error + Cluster) \<times> ServerPool" where
  "NewShardedCluster X sentinels shards pool =
     (case NewHighAvailableSentinel X sentinels pool of
        ((Some e, _), pool') \<Rightarrow> (Inl e, pool')
      | ((None, has), pool') \<Rightarrow> (Inr \<lparr>cl_Shards = shards, cl_Sentinels = has\<rparr>, pool'))"

text \<open>
  The loop over the topology map, in the order in which Go happens to iterate over it; the key
  \<^verbatim>\<open>sentinel\<close> holds the sentinels, every other key a shard.
\<close>

fun topology_loop ::
    "'w lib \<Rightarrow> (string, (string, string) gomap) gomap \<Rightarrow> Cluster \<Rightarrow> ServerPool
       \<Rightarrow> (error + Cluster) \<times> ServerPool" where
  "topology_loop X [] cluster pool = (Inr cluster, pool)"
| "topology_loop X ((shardName, shardServers) # rest) cluster pool =
     (if shardName = ''sentinel'' then
        (case NewHighAvailableSentinel X shardServers pool of
           ((Some e, _), pool') \<Rightarrow> (Inl e, pool')
         | ((None, sentinels), pool') \<Rightarrow> topology_loop X rest (cluster\<lparr>cl_Sentinels := sentinels\<rparr>) pool')
      else
        (case NewShardFromTopology X shardName shardServers pool of
           ((Some e, _), pool') \<Rightarrow> (Inl e, pool')
         | ((None, shard), pool') \<Rightarrow>
             topology_loop X rest (cluster\<lparr>cl_Shards := cl_Shards cluster @ [shard]\<rparr>) pool'))"

definition NewShardedClusterFromTopology ::
    "'w lib \<Rightarrow> (string, (string, string) gomap) gomap \<Rightarrow> ServerPool \<Rightarrow> (error + Cluster) \<times> ServerPool" where
  "NewShardedClusterFromTopology X serverList pool =
     (case topology_loop X serverList \<lparr>cl_Shards = [], cl_Sentinels = []\<rparr> pool of
        (Inl e, pool') \<Rightarrow> (Inl e, pool')
      | (Inr cluster, pool') \<Rightarrow>
          (Inr \<lparr>cl_Shards = sort_key sh_Name (cl_Shards cluster),
                cl_Sentinels = sort_key ID (cl_Sentinels cluster)\<rparr>, pool'))"

definition GetShardNames :: "Cluster \<Rightarrow> string list" where
  "GetShardNames cluster = sort (map sh_Name (cl_Shards cluster))"

fun shard_index :: "string \<Rightarrow> Shard list \<Rightarrow> nat option" where
  "shard_index name [] = None"
| "shard_index name (s # ss) = (if sh_Name s = name then Some 0 else map_option Suc (shard_index name ss))"

text \<open>\<^verbatim>\<open>LookupShardByName\<close> returns a pointer: the index of the shard.\<close>

definition LookupShardByName :: "string \<Rightarrow> Cluster \<Rightarrow> nat option" where
  "LookupShardByName name cluster = shard_index name (cl_Shards cluster)"

definition LookupServerByID :: "string \<Rightarrow> Cluster \<Rightarrow> RedisServer option" where
  "LookupServerByID hostport cluster =
     List.find (\<lambda>srv. hostport = rs_ID srv) (concat (map sh_Servers (cl_Shards cluster)))"

fun discover_shards ::
    "'w lib \<Rightarrow> DiscoveryOption list \<Rightarrow> Shard list \<Rightarrow> ServerPool
       \<Rightarrow> ('w, error list \<times> Shard list \<times> ServerPool) go" where
  "discover_shards X opts [] pool w = Some (([], [], pool), w)"
| "discover_shards X opts (s # ss) pool w =
     do { ((e, s', pool), w) \<leftarrow> Shard_Discover X None opts s pool w;
          ((es, ss', pool), w) \<leftarrow> discover_shards X opts ss pool w;
          Some (((case e of None \<Rightarrow> [] | Some e \<Rightarrow> [e]) @ es, s' # ss', pool), w) }"

definition Cluster_Discover ::
    "'w lib \<Rightarrow> DiscoveryOption list \<Rightarrow> Cluster \<Rightarrow> ServerPool
       \<Rightarrow> ('w, error option \<times> Cluster \<times> ServerPool) go" where
  "Cluster_Discover X opts cluster pool w =
     do { ((merr, shards, pool), w) \<leftarrow> discover_shards X opts (cl_Shards cluster) pool w;
          Some ((ErrorOrNil merr, cluster\<lparr>cl_Shards := shards\<rparr>, pool), w) }"

text \<open>
  \<^verbatim>\<open>GetSentinel\<close> pings all the sentinels at once. \<open>arrival\<close> is the order in which the
  pings return before the five seconds pass, as indices into the list of sentinels; a sentinel
  that is not in it does not answer in time. The channel takes the first successful ping; the
  later ones are received by nobody and their sends on the closed channel are recovered, as is
  a panic of the ping itself.
\<close>

fun ping_loop :: "'w lib \<Rightarrow> srvref list \<Rightarrow> nat list \<Rightarrow> 'w \<Rightarrow> nat option \<times> 'w" where
  "ping_loop X sentinels [] w = (None, w)"
| "ping_loop X sentinels (i # arrival) w =
     (if i < length sentinels then
        (case SentinelPing X (sentinels ! i) w of
           None \<Rightarrow> ping_loop X sentinels arrival w
         | Some (Some e, w) \<Rightarrow> ping_loop X sentinels arrival w
         | Some (None, w) \<Rightarrow> (Some i, snd (ping_loop X sentinels arrival w)))
      else ping_loop X sentinels arrival w)"

definition GetSentinel :: "'w lib \<Rightarrow> nat list \<Rightarrow> Cluster \<Rightarrow> 'w \<Rightarrow> srvref option \<times> 'w" where
  "GetSentinel X arrival cluster w =
     (case ping_loop X (cl_Sentinels cluster) arrival w of
        (None, w) \<Rightarrow> (None, w)
      | (Some idx, w) \<Rightarrow> (Some (cl_Sentinels cluster ! idx), w))"

text \<open>
  The loop of \<^verbatim>\<open>SentinelDiscover\<close> over the masters that sentinel reports. The type
  assertion on the error panics when it is not a \<^verbatim>\<open>MultiError\<close>.
\<close>

definition shard_for :: "string \<Rightarrow> Cluster \<Rightarrow> nat \<times> Cluster" where
  "shard_for name cluster =
     (case LookupShardByName name cluster of
        Some i \<Rightarrow> (i, cluster)
      | None \<Rightarrow> (length (cl_Shards cluster),
                 cluster\<lparr>cl_Shards := cl_Shards cluster @ [\<lparr>sh_Name = name, sh_Servers = []\<rparr>]\<rparr>))"

fun sentinel_discover_loop ::
    "'w lib \<Rightarrow> srvref \<Rightarrow> DiscoveryOption list \<Rightarrow> SentinelMasterCmdResult list \<Rightarrow> Cluster \<Rightarrow> ServerPool
       \<Rightarrow> ('w, error list \<times> Cluster \<times> ServerPool) go" where
  "sentinel_discover_loop X sentinel opts [] cluster pool w = Some (([], cluster, pool), w)"
| "sentinel_discover_loop X sentinel opts (master # masters) cluster pool w =
     (case shard_for (m_Name master) cluster of
        (i, cluster) \<Rightarrow>
          do { ((e, shard, pool), w) \<leftarrow> Shard_Discover X (Some sentinel) opts (cl_Shards cluster ! i) pool w;
               errs \<leftarrow> (case e of
                          None \<Rightarrow> Some []
                        | Some (MultiError es) \<Rightarrow> Some [ShardDiscoveryError (m_Name master) es]
                        | Some _ \<Rightarrow> None);
               ((errs', cluster, pool), w) \<leftarrow> sentinel_discover_loop X sentinel opts masters
                 (cluster\<lparr>cl_Shards := (cl_Shards cluster)[i := shard]\<rparr>) pool w;
               Some ((errs @ errs', cluster, pool), w) })"

definition SentinelDiscover ::
    "'w lib \<Rightarrow> nat list \<Rightarrow> DiscoveryOption list \<Rightarrow> Cluster \<Rightarrow> ServerPool
       \<Rightarrow> ('w, error option \<times> Cluster \<times> ServerPool) go" where
  "SentinelDiscover X arrival opts cluster pool w =
     (case GetSentinel X arrival cluster w of
        (None, w) \<Rightarrow>
          Some ((Some (MultiError [ErrorString ''unable to find a healthy sentinel server'']), cluster, pool), w)
      | (Some sentinel, w) \<Rightarrow>
          do { (r, w) \<leftarrow> SentinelMasters X sentinel w;
               case r of
                 Inl e \<Rightarrow> Some ((Some (MultiError [e]), cluster, pool), w)
               | Inr masters \<Rightarrow>
                   do { ((merr, cluster, pool), w) \<leftarrow> sentinel_discover_loop X sentinel opts masters cluster pool w;
                        Some ((ErrorOrNil merr, cluster, pool), w) } })"

section \<open>Monitoring\<close>

definition shardNotInitializedError :: string where
  "shardNotInitializedError = ''ERR No such master with that name''"

text \<open>
  The loop of \<^verbatim>\<open>Monitor\<close>. The names come from the cluster, so the lookup of the shard
  cannot return nil; a nil shard would panic.
\<close>

fun monitor_loop ::
    "'w lib \<Rightarrow> srvref \<Rightarrow> Cluster \<Rightarrow> int \<Rightarrow> string list \<Rightarrow> ('w, string list \<times> error option) go" where
  "monitor_loop X sentinel cluster quorum [] w = Some (([], None), w)"
| "monitor_loop X sentinel cluster quorum (name # names) w =
     do { (r, w) \<leftarrow> SentinelMaster X sentinel name w;
          case r of
            Inr _ \<Rightarrow> monitor_loop X sentinel cluster quorum names w
          | Inl err \<Rightarrow>
              if error_text err = shardNotInitializedError then
                do { i \<leftarrow> LookupShardByName name cluster;
                     case GetMaster (cl_Shards cluster ! i) of
                       Inl e \<Rightarrow> Some (([], Some e), w)
                     | Inr master \<Rightarrow>
                         do { (e, w) \<leftarrow> SentinelMonitor X sentinel name (GetHost (rs_ref master))
                                (GetPort (rs_ref master)) quorum w;
                              case e of
                                Some e \<Rightarrow>
                                  Some (([], Some (WrapError ''redis-sentinel/SentinelServer.Monitor'' e)), w)
                              | None \<Rightarrow>
                                  do { (e, w) \<leftarrow> SentinelSet X sentinel name ''down-after-milliseconds'' ''5000'' w;
                                       case e of
                                         Some e \<Rightarrow>
                                           Some (([name],
                                             Some (WrapError ''redis-sentinel/SentinelServer.Monitor'' e)), w)
                                       | None \<Rightarrow>
                                           do { ((ch, e), w) \<leftarrow> monitor_loop X sentinel cluster quorum names w;
                                                Some ((name # ch, e), w) } } } }
              else Some (([], Some err), w) }"

definition Monitor ::
    "'w lib \<Rightarrow> srvref \<Rightarrow> Cluster \<Rightarrow> int \<Rightarrow> ('w, string list \<times> error option) go" where
  "Monitor X sentinel cluster quorum w = monitor_loop X sentinel cluster quorum (GetShardNames cluster) w"

section \<open>The topology does not depend on the iteration order\<close>

text \<open>A connection string that \<^verbatim>\<open>NewServer\<close> accepts, and the address it stands for.\<close>

definition url_ref :: "'w lib \<Rightarrow> string \<Rightarrow> srvref option" where
  "url_ref X u = (case lib_ParseURL X u of
     Inl e \<Rightarrow> None
   | Inr addr \<Rightarrow> (case SplitHostPort addr of Inl e \<Rightarrow> None | Inr r \<Rightarrow> Some r))"

text \<open>A pool of servers whose hosts and ports were split from their addresses.\<close>

definition pool_split :: "ServerPool \<Rightarrow> bool" where
  "pool_split pool \<longleftrightarrow> (\<forall>s \<in> set pool. SplitHostPort (ID (ref_of s)) = Inr (ref_of s))"

lemma NewServer_ref: "url_ref X u = Some r \<Longrightarrow> \<exists>s. NewServer X u als = Inr s \<and> ref_of s = r"
  by (auto simp: url_ref_def NewServer_def ref_of_def SetAlias_def Let_def
      split: sum.splits option.splits prod.splits)

lemma NewServer_split:
  "url_canonical X \<Longrightarrow> NewServer X u als = Inr s \<Longrightarrow> SplitHostPort (ID (ref_of s)) = Inr (ref_of s)"
  by (auto simp: NewServer_def url_canonical_def ID_def ref_of_def SetAlias_def Let_def
      split: sum.splits option.splits prod.splits)

lemma GetServer_ref:
  assumes "url_canonical X" and "pool_split pool" and "url_ref X u = Some r"
  obtains s pool' where "GetServer X u als pool = (Inr s, pool')" "ref_of s = r" "pool_split pool'"
proof (cases rule: GetServer_cases [of X u als pool])
  case (bad_url e)
  with assms(3) show thesis by (simp add: url_ref_def)
next
  case (known addr i s)
  have i: "pool ! i \<in> set pool" "ref_of s = ref_of (pool ! i)" using known(2,5) by auto
  then have "ref_of s = r" using assms(2,3) known(1,3) by (auto simp: url_ref_def pool_split_def)
  moreover have "pool_split (pool[i := s])"
    using assms(2) i by (auto simp: pool_split_def dest!: set_update_subset_insert [THEN subsetD])
  ultimately show thesis using known(4) that by blast
next
  case (bad_addr e addr)
  moreover obtain s where "NewServer X u als = Inr s" using NewServer_ref [OF assms(3)] by blast
  ultimately show thesis by (simp add: GetServer_def indexByHostPort_None [symmetric])
next
  case (fresh addr s)
  with NewServer_ref [OF assms(3), of als] NewServer_split [OF assms(1) fresh(3)] assms(2)
  show thesis by (intro that [OF fresh(4)]) (auto simp: pool_split_def)
qed

definition refs_of :: "'w lib \<Rightarrow> (string, string) gomap \<Rightarrow> srvref list" where
  "refs_of X servers = map (\<lambda>(k, u). the (url_ref X u)) servers"

abbreviation urls_ok :: "'w lib \<Rightarrow> (string, string) gomap \<Rightarrow> bool" where
  "urls_ok X servers \<equiv> \<forall>(k, u) \<in> set servers. url_ref X u \<noteq> None"

lemma get_all_refs:
  assumes "url_canonical X" and "pool_split pool" and "urls_ok X servers"
  shows "\<exists>srvs pool'. get_all (GetServer X) servers pool = (([], srvs), pool') \<and>
    map ref_of srvs = refs_of X servers \<and> pool_split pool'"
  using assms(2,3)
proof (induction servers arbitrary: pool)
  case Nil
  then show ?case by (simp add: refs_of_def)
next
  case (Cons kv servers)
  obtain k u where kv: "kv = (k, u)" by (cases kv)
  obtain r where r: "url_ref X u = Some r" using Cons.prems(2) kv by auto
  obtain s p where s: "GetServer X u (if k \<noteq> u then Some k else None) pool = (Inr s, p)"
    "ref_of s = r" "pool_split p"
    using GetServer_ref [OF assms(1) Cons.prems(1) r] .
  obtain srvs pool' where "get_all (GetServer X) servers p = (([], srvs), pool')"
    "map ref_of srvs = refs_of X servers" "pool_split pool'"
    using Cons.IH [OF s(3)] Cons.prems(2) by auto
  with s r show ?case by (auto simp: kv Let_def refs_of_def)
qed

text \<open>Two servers of a shard with the same address are the same server.\<close>

definition unknown_server :: "srvref \<Rightarrow> RedisServer" where
  "unknown_server r = \<lparr>rs_ref = r, rs_Role = Unknown, rs_Config = Map.empty, rs_Info = Map.empty\<rparr>"

definition topology_shard :: "'w lib \<Rightarrow> string \<times> (string, string) gomap \<Rightarrow> Shard" where
  "topology_shard X = (\<lambda>(name, servers).
     \<lparr>sh_Name = name, sh_Servers = sort_key rs_ID (map unknown_server (refs_of X servers))\<rparr>)"

definition topology_sentinels :: "'w lib \<Rightarrow> (string, (string, string) gomap) gomap \<Rightarrow> srvref list" where
  "topology_sentinels X serverList =
     (case map_of serverList ''sentinel'' of None \<Rightarrow> [] | Some servers \<Rightarrow> sort_key ID (refs_of X servers))"

lemma NewShardFromTopology_refs:
  assumes "url_canonical X" and "pool_split pool" and "urls_ok X servers"
  shows "\<exists>pool'. NewShardFromTopology X name servers pool = ((None, topology_shard X (name, servers)), pool')
    \<and> pool_split pool'"
proof -
  obtain srvs pool' where g: "get_all (GetServer X) servers pool = (([], srvs), pool')"
    "map ref_of srvs = refs_of X servers" "pool_split pool'"
    using get_all_refs [OF assms] by blast
  have "map (\<lambda>s. \<lparr>rs_ref = ref_of s, rs_Role = Unknown, rs_Config = Map.empty, rs_Info = Map.empty\<rparr>) srvs
      = map unknown_server (refs_of X servers)"
    unfolding g(2) [symmetric] by (simp add: unknown_server_def)
  with g(1,3) show ?thesis by (simp add: NewShardFromTopology_def topology_shard_def)
qed

lemma NewHighAvailableSentinel_refs:
  assumes "url_canonical X" and "pool_split pool" and "urls_ok X servers"
  shows "\<exists>pool'. NewHighAvailableSentinel X servers pool = ((None, sort_key ID (refs_of X servers)), pool')
    \<and> pool_split pool'"
  using get_all_refs [OF assms] by (auto simp: NewHighAvailableSentinel_def)

lemma topology_loop_refs:
  assumes "url_canonical X" and "pool_split pool" and "\<forall>(n, servers) \<in> set serverList. urls_ok X servers"
    and "distinct (map fst serverList)"
  shows "\<exists>pool'. topology_loop X serverList cluster pool =
    (Inr \<lparr>cl_Shards = cl_Shards cluster @ map (topology_shard X) (filter (\<lambda>e. fst e \<noteq> ''sentinel'') serverList),
          cl_Sentinels = (case map_of serverList ''sentinel'' of None \<Rightarrow> cl_Sentinels cluster
             | Some servers \<Rightarrow> sort_key ID (refs_of X servers))\<rparr>, pool')"
  using assms(2-4)
proof (induction serverList arbitrary: cluster pool)
  case Nil
  then show ?case by simp
next
  case (Cons kv rest)
  obtain n servers where kv: "kv = (n, servers)" by (cases kv)
  have ok: "urls_ok X servers" using Cons.prems(2) by (auto simp: kv)
  show ?case
  proof (cases "n = ''sentinel''")
    case True
    obtain p where "NewHighAvailableSentinel X servers pool = ((None, sort_key ID (refs_of X servers)), p)"
      "pool_split p"
      using NewHighAvailableSentinel_refs [OF assms(1) Cons.prems(1) ok] by blast
    moreover have "map_of rest ''sentinel'' = None"
      using Cons.prems(3) True by (auto simp: kv map_of_eq_None_iff)
    ultimately show ?thesis
      using Cons.IH [of p "cluster\<lparr>cl_Sentinels := sort_key ID (refs_of X servers)\<rparr>"] Cons.prems True
      by (simp add: kv)
  next
    case False
    obtain p where "NewShardFromTopology X n servers pool = ((None, topology_shard X (n, servers)), p)"
      "pool_split p"
      using NewShardFromTopology_refs [OF assms(1) Cons.prems(1) ok] by blast
    then show ?thesis
      using Cons.IH [of p "cluster\<lparr>cl_Shards := cl_Shards cluster @ [topology_shard X (n, servers)]\<rparr>"]
        Cons.prems False
      by (simp add: kv cong: option.case_cong)
  qed
qed

lemma refs_of_split:
  assumes "url_canonical X" and "urls_ok X servers" and "r \<in> set (refs_of X servers)"
  shows "SplitHostPort (ID r) = Inr r"
proof -
  obtain k u where "(k, u) \<in> set servers" "r = the (url_ref X u)" using assms(3) by (auto simp: refs_of_def)
  with assms(2) have "url_ref X u = Some r" by auto
  then obtain s where "NewServer X u None = Inr s" "ref_of s = r" using NewServer_ref by blast
  with NewServer_split [OF assms(1)] show ?thesis by blast
qed

lemma sort_refs_perm:
  assumes "url_canonical X" and "urls_ok X servers" and "mset servers = mset servers'"
  shows "sort_key ID (refs_of X servers) = sort_key ID (refs_of X servers')"
    and "topology_shard X (n, servers) = topology_shard X (n, servers')"
proof -
  have inj: "inj_on ID (set (refs_of X servers))"
    using refs_of_split [OF assms(1,2)] by (intro inj_onI) (metis Inr_inject)
  have m: "mset (refs_of X servers) = mset (refs_of X servers')"
    unfolding refs_of_def mset_map assms(3) ..
  then show "sort_key ID (refs_of X servers) = sort_key ID (refs_of X servers')"
    using inj by (intro sort_key_inj_key_eq) auto
  have "inj_on rs_ID (set (map unknown_server (refs_of X servers)))"
    using inj by (auto simp: inj_on_def unknown_server_def)
  with m show "topology_shard X (n, servers) = topology_shard X (n, servers')"
    by (auto simp: topology_shard_def intro!: sort_key_inj_key_eq)
qed

text \<open>Two iterations over the same topology: the same keys, with the same servers in any order.\<close>

definition same_topology ::
    "(string, (string, string) gomap) gomap \<Rightarrow> (string, (string, string) gomap) gomap \<Rightarrow> bool" where
  "same_topology a b \<longleftrightarrow> distinct (map fst a) \<and> distinct (map fst b) \<and>
     (\<forall>n. map_option mset (map_of a n) = map_option mset (map_of b n))"

lemma same_topology_sym: "same_topology a b \<Longrightarrow> same_topology b a"
  by (auto simp: same_topology_def)

lemma same_topology_entry:
  assumes "same_topology a b" and "(n, s) \<in> set a"
  obtains s' where "(n, s') \<in> set b" "mset s = mset s'"
proof -
  have "map_of a n = Some s" using assms by (simp add: same_topology_def)
  then have "map_option mset (map_of b n) = Some (mset s)"
    using assms(1) by (metis same_topology_def option.simps(9))
  then show thesis using that by (auto dest: map_of_SomeD)
qed

lemma same_topology_ok:
  assumes "same_topology a b" and "\<forall>(n, servers) \<in> set a. urls_ok X servers"
  shows "\<forall>(n, servers) \<in> set b. urls_ok X servers"
proof -
  have False if s: "(n, s) \<in> set b" and u: "(k, u) \<in> set s" "url_ref X u = None" for n s k u
  proof -
    obtain s' where "(n, s') \<in> set a" "mset s = mset s'"
      using same_topology_entry [OF same_topology_sym [OF assms(1)] s] .
    then have "(k, u) \<in> set s'" "urls_ok X s'" using assms(2) u(1) mset_eq_setD by fastforce+
    with u(2) show False by auto
  qed
  then show ?thesis by fast
qed

lemma topology_shards_subset:
  assumes "url_canonical X" and "\<forall>(n, servers) \<in> set a. urls_ok X servers" and "same_topology a b"
  shows "topology_shard X ` set (filter (\<lambda>e. fst e \<noteq> ''sentinel'') a)
    \<subseteq> topology_shard X ` set (filter (\<lambda>e. fst e \<noteq> ''sentinel'') b)"
proof clarify
  fix n s assume s: "(n, s) \<in> set (filter (\<lambda>e. fst e \<noteq> ''sentinel'') a)"
  then obtain s' where s': "(n, s') \<in> set b" "mset s = mset s'"
    using same_topology_entry [OF assms(3), of n s] by auto
  have "topology_shard X (n, s) = topology_shard X (n, s')"
    using assms(2) s by (intro sort_refs_perm(2) [OF assms(1) _ s'(2)]) auto
  with s s'(1) show "topology_shard X (n, s) \<in> topology_shard X ` set (filter (\<lambda>e. fst e \<noteq> ''sentinel'') b)"
    by (intro image_eqI [where x = "(n, s')"]) auto
qed

lemma sh_Name_topology_shard [simp]: "sh_Name (topology_shard X e) = fst e"
  by (simp add: topology_shard_def split: prod.splits)

lemma topology_names_distinct:
  "distinct (map fst c) \<Longrightarrow>
     distinct (map sh_Name (map (topology_shard X) (filter (\<lambda>e. fst e \<noteq> ''sentinel'') c)))"
  by (simp add: comp_def distinct_map_filter)

lemma distinct_map_sort_key: "distinct (map f (sort_key g xs)) \<longleftrightarrow> distinct (map f xs)"
  by (simp add: distinct_map)

lemma topology_shards_perm:
  assumes "url_canonical X" and "\<forall>(n, servers) \<in> set a. urls_ok X servers" and "same_topology a b"
  shows "sort_key sh_Name (map (topology_shard X) (filter (\<lambda>e. fst e \<noteq> ''sentinel'') a))
    = sort_key sh_Name (map (topology_shard X) (filter (\<lambda>e. fst e \<noteq> ''sentinel'') b))"
proof (rule sort_key_perm)
  let ?f = "\<lambda>a. map (topology_shard X) (filter (\<lambda>e. fst e \<noteq> ''sentinel'') a)"
  note names = topology_names_distinct
  have da: "distinct (map fst a)" and db: "distinct (map fst b)" using assms(3) by (auto simp: same_topology_def)
  show "distinct (map sh_Name (?f a))" using da by (rule names)
  have "distinct (?f a)" "distinct (?f b)" using names [OF da] names [OF db] distinct_map by blast+
  moreover have "set (?f a) = set (?f b)"
    using topology_shards_subset [OF assms] topology_shards_subset
      [OF assms(1) same_topology_ok [OF assms(3,2)] same_topology_sym [OF assms(3)]] by simp
  ultimately show "mset (?f a) = mset (?f b)" by (rule set_eq_iff_mset_eq_distinct [THEN iffD1])
qed

text \<open>
  C37. Discovery from the topology in the custom resources does not depend on the order in
  which Go iterates over the maps, nor on what the pool of servers holds already: two
  iterations over the same topology both succeed, when every connection string is valid, and
  build the same cluster, with its shards in the order of their names and its sentinels in
  the order of their addresses.
\<close>

theorem topology_order_irrelevant:
  assumes "url_canonical X" and "pool_split pool" and "pool_split pool'" and "same_topology a b"
    and "\<forall>(n, servers) \<in> set a. urls_ok X servers"
  shows "\<exists>cluster. fst (NewShardedClusterFromTopology X a pool) = Inr cluster \<and>
    fst (NewShardedClusterFromTopology X b pool') = Inr cluster \<and>
    sorted_wrt (<) (map sh_Name (cl_Shards cluster)) \<and> sorted (map ID (cl_Sentinels cluster)) \<and>
    set (map sh_Name (cl_Shards cluster)) = set (map fst a) - {''sentinel''}"
proof -
  let ?s = "\<lambda>a. sort_key sh_Name (map (topology_shard X) (filter (\<lambda>e. fst e \<noteq> ''sentinel'') a))"
  let ?c = "\<lambda>a. \<lparr>cl_Shards = ?s a, cl_Sentinels = topology_sentinels X a\<rparr>"
  have run: "fst (NewShardedClusterFromTopology X c p) = Inr (?c c)"
    if "pool_split p" "\<forall>(n, servers) \<in> set c. urls_ok X servers" "distinct (map fst c)" for c p
    using topology_loop_refs [OF assms(1) that, of "\<lparr>cl_Shards = [], cl_Sentinels = []\<rparr>"]
    by (auto simp: NewShardedClusterFromTopology_def topology_sentinels_def sort_key_id_if_sorted
        split: option.splits)
  have da: "distinct (map fst a)" and db: "distinct (map fst b)" using assms(4) by (auto simp: same_topology_def)
  have "topology_sentinels X a = topology_sentinels X b"
  proof (cases "map_of a ''sentinel''")
    case None
    then show ?thesis using assms(4) unfolding same_topology_def topology_sentinels_def
      by (metis map_option_is_None)
  next
    case (Some s)
    have "map_option mset (map_of b ''sentinel'') = map_option mset (map_of a ''sentinel'')"
      using assms(4) unfolding same_topology_def by simp
    then obtain s' where s': "map_of b ''sentinel'' = Some s'" "mset s = mset s'"
      using Some by auto
    have "urls_ok X s" using assms(5) map_of_SomeD [OF Some] by fast
    with sort_refs_perm(1) [OF assms(1) _ s'(2)] Some s'(1) show ?thesis by (simp add: topology_sentinels_def)
  qed
  then have eq: "?c a = ?c b" using topology_shards_perm [OF assms(1,5,4)] by simp
  have "distinct (map sh_Name (?s a))"
    using topology_names_distinct [OF da] by (simp only: distinct_map_sort_key)
  then have "sorted_wrt (<) (map sh_Name (?s a))" by (simp add: strict_sorted_iff)
  moreover have "sorted (map ID (topology_sentinels X a))"
    by (simp add: topology_sentinels_def split: option.splits)
  moreover have "set (map sh_Name (?s a)) = set (map fst a) - {''sentinel''}" by force
  ultimately show ?thesis
    using run [OF assms(2,5) da] run [OF assms(3) same_topology_ok [OF assms(4,5)] db, folded eq]
    by (intro exI [of _ "?c a"] conjI) simp_all
qed

section \<open>Discovery of the cluster through sentinel\<close>

lemma shard_index_None: "shard_index n ss = None \<longleftrightarrow> n \<notin> sh_Name ` set ss"
  by (induction ss) auto

lemma shard_index_Some: "shard_index n ss = Some i \<Longrightarrow> i < length ss \<and> sh_Name (ss ! i) = n"
  by (induction ss arbitrary: i) (auto split: if_splits)

lemma shard_for_fresh:
  "n \<notin> sh_Name ` set (cl_Shards c) \<Longrightarrow>
     shard_for n c = (length (cl_Shards c), c\<lparr>cl_Shards := cl_Shards c @ [NewShardFromServers n []]\<rparr>)"
  by (simp add: shard_for_def LookupShardByName_def shard_index_None [THEN iffD2] NewShardFromServers_def)

text \<open>What discovery leaves of one shard: at most one master, and no error without a master.\<close>

definition shard_discovered :: "error list \<Rightarrow> Shard \<Rightarrow> bool" where
  "shard_discovered errs s \<longleftrightarrow>
     length (filter (\<lambda>srv. rs_Role srv = Master) (sh_Servers s)) \<le> 1 \<and>
     ((\<exists>es. ShardDiscoveryError (sh_Name s) es \<in> set errs \<and> es \<noteq> []) \<or>
      (\<exists>m rest. sh_Servers s = m # rest \<and> (\<forall>t \<in> set rest. rs_Role t = Slave)))"

lemma shard_discovered_mono: "shard_discovered errs s \<Longrightarrow> set errs \<subseteq> set errs' \<Longrightarrow> shard_discovered errs' s"
  unfolding shard_discovered_def by blast

lemma Shard_Discover_step:
  assumes "url_canonical X"
    and "Shard_Discover X (Some sen) opts (NewShardFromServers n []) pool w = Some ((e, s, pool'), w')"
  shows "sh_Name s = n \<and> (\<exists>errs. (case e of
            None \<Rightarrow> Some []
          | Some (MultiError es) \<Rightarrow> Some [ShardDiscoveryError n es]
          | Some _ \<Rightarrow> None) = Some errs \<and>
       shard_discovered errs s \<and> (\<forall>x \<in> set errs. \<exists>es. x = ShardDiscoveryError n es \<and> es \<noteq> []))"
proof -
  have n: "sh_Name s = n" using Shard_Discover_name [OF assms(2)] by (simp add: NewShardFromServers_def)
  have le: "length (filter (\<lambda>srv. rs_Role srv = Master) (sh_Servers s)) \<le> 1"
    by (rule Shard_Discover_single_master [OF assms(2)])
  show ?thesis
  proof (cases e)
    case None
    have "\<exists>m rest. sh_Servers s = m # rest \<and> (\<forall>t \<in> set rest. rs_Role t = Slave)"
      using discover_fresh [OF assms(1) assms(2) [unfolded None]] by blast
    with None n le show ?thesis by (simp add: shard_discovered_def)
  next
    case (Some x)
    obtain es where "x = MultiError es" "es \<noteq> []"
      using Shard_Discover_error_type [OF assms(2) [unfolded Some]] by blast
    with Some n le show ?thesis by (simp add: shard_discovered_def)
  qed
qed

lemma sentinel_discover_loop_fresh:
  assumes "url_canonical X" and "distinct (map m_Name masters)"
    and "\<forall>m \<in> set masters. m_Name m \<notin> sh_Name ` set (cl_Shards c)"
    and "sentinel_discover_loop X sen opts masters c pool w = Some ((errs, c', pool'), w')"
  shows "\<exists>new. cl_Shards c' = cl_Shards c @ new \<and> cl_Sentinels c' = cl_Sentinels c \<and>
    map sh_Name new = map m_Name masters \<and> list_all (shard_discovered errs) new \<and>
    (\<forall>x \<in> set errs. \<exists>m \<in> set masters. \<exists>es. x = ShardDiscoveryError (m_Name m) es \<and> es \<noteq> [])"
  using assms(2-4)
proof (induction masters arbitrary: c pool w errs)
  case Nil
  then show ?case by simp
next
  case (Cons m masters)
  let ?n = "m_Name m"
  have f: "shard_for ?n c = (length (cl_Shards c), c\<lparr>cl_Shards := cl_Shards c @ [NewShardFromServers ?n []]\<rparr>)"
    using Cons.prems(2) by (intro shard_for_fresh) simp
  obtain e s p1 w1 e1 errs2 where
    d: "Shard_Discover X (Some sen) opts (NewShardFromServers ?n []) pool w = Some ((e, s, p1), w1)" and
    e1: "(case e of None \<Rightarrow> Some [] | Some (MultiError es) \<Rightarrow> Some [ShardDiscoveryError ?n es]
          | Some _ \<Rightarrow> None) = Some e1" and
    l: "sentinel_discover_loop X sen opts masters (c\<lparr>cl_Shards := cl_Shards c @ [s]\<rparr>) p1 w1
         = Some ((errs2, c', pool'), w')" and
    errs: "errs = e1 @ errs2"
    using Cons.prems(3) by (auto simp: f elim!: bind_SomeE)
  have step: "sh_Name s = ?n" "shard_discovered e1 s"
    "\<forall>x \<in> set e1. \<exists>es. x = ShardDiscoveryError ?n es \<and> es \<noteq> []"
    using Shard_Discover_step [OF assms(1) d] e1 by simp_all
  have "\<forall>m' \<in> set masters. m_Name m' \<notin> sh_Name ` set (cl_Shards (c\<lparr>cl_Shards := cl_Shards c @ [s]\<rparr>))"
    using Cons.prems(1,2) step(1) by (auto simp: image_iff)
  then obtain new where new: "cl_Shards c' = cl_Shards c @ s # new" "cl_Sentinels c' = cl_Sentinels c"
    "map sh_Name new = map m_Name masters" "list_all (shard_discovered errs2) new"
    "\<forall>x \<in> set errs2. \<exists>m \<in> set masters. \<exists>es. x = ShardDiscoveryError (m_Name m) es \<and> es \<noteq> []"
    using Cons.IH [OF _ _ l] Cons.prems(1) by auto
  have "list_all (shard_discovered errs) (s # new)"
    using step(2) new(4) unfolding errs list_all_iff by (auto intro: shard_discovered_mono)
  with new step show ?case unfolding errs by (intro exI [of _ "s # new"]) auto
qed


section \<open>Monitoring of the shards by a sentinel\<close>

text \<open>
  The documented behaviour of the sentinel commands: \<open>monitored w a n\<close> is what the sentinel at
  address \<open>a\<close> monitors under the name \<open>n\<close> (host, port and quorum) and \<open>setting w a n k\<close> the
  value of its option \<open>k\<close>. \<^verbatim>\<open>SENTINEL MASTER\<close> of a name that is not monitored is an error
  with the text that the operator looks for.
\<close>

definition sentinel_laws ::
    "'w lib \<Rightarrow> ('w \<Rightarrow> string \<Rightarrow> string \<Rightarrow> (string \<times> string \<times> int) option)
       \<Rightarrow> ('w \<Rightarrow> string \<Rightarrow> string \<Rightarrow> string \<Rightarrow> string option) \<Rightarrow> bool" where
  "sentinel_laws X monitored setting \<longleftrightarrow>
     (\<forall>a n w. \<exists>r. cl_SentinelMaster X a n w =
        Some (if monitored w a n = None then Inl (ErrorString ''ERR No such master with that name'')
              else Inr r, w)) \<and>
     (\<forall>a n h p q w. monitored w a n = None \<longrightarrow> (\<exists>w'. cl_SentinelMonitor X a n h p q w = Some (None, w') \<and>
        monitored w' = (monitored w)(a := (monitored w a)(n \<mapsto> (h, p, q))) \<and>
        (\<forall>n'. n' \<noteq> n \<longrightarrow> setting w' a n' = setting w a n'))) \<and>
     (\<forall>a n k v w. monitored w a n \<noteq> None \<longrightarrow> (\<exists>w'. cl_SentinelSet X a n k v w = Some (None, w') \<and>
        monitored w' = monitored w \<and>
        setting w' = (setting w)(a := (setting w a)(n := (setting w a n)(k \<mapsto> v)))))"

text \<open>
  What monitoring the shards \<open>names\<close> with the masters \<open>m\<close> at the sentinel \<open>a\<close> does: the shards
  it did not monitor are monitored, with their timeout set; the others and their settings are
  untouched; with nothing to do the world does not change.
\<close>

definition monitor_post ::
    "('w \<Rightarrow> string \<Rightarrow> string \<Rightarrow> (string \<times> string \<times> int) option)
       \<Rightarrow> ('w \<Rightarrow> string \<Rightarrow> string \<Rightarrow> string \<Rightarrow> string option)
       \<Rightarrow> string \<Rightarrow> (string \<Rightarrow> srvref) \<Rightarrow> int \<Rightarrow> string list \<Rightarrow> 'w \<Rightarrow> 'w \<Rightarrow> bool" where
  "monitor_post monitored setting a m q names w w' \<longleftrightarrow>
     (\<forall>n. monitored w' a n =
        (if n \<in> set names \<and> monitored w a n = None then Some (GetHost (m n), GetPort (m n), q)
         else monitored w a n)) \<and>
     (\<forall>n. if n \<in> set names \<and> monitored w a n = None
        then setting w' a n ''down-after-milliseconds'' = Some ''5000''
        else setting w' a n = setting w a n) \<and>
     ((\<forall>n \<in> set names. monitored w a n \<noteq> None) \<longrightarrow> w' = w)"

lemma monitor_post_Cons:
  assumes "n \<notin> set names" and "monitored w a n = None"
    and "monitored w2 = (monitored w)(a := (monitored w a)(n \<mapsto> (GetHost r, GetPort r, q)))"
    and "setting w2 a n ''down-after-milliseconds'' = Some ''5000''"
    and "\<forall>n'. n' \<noteq> n \<longrightarrow> setting w2 a n' = setting w a n'"
    and "monitor_post monitored setting a m q names w2 w'" and "m n = r"
  shows "monitor_post monitored setting a m q (n # names) w w'"
proof -
  have same: "monitored w2 a k = (if k = n then Some (GetHost (m n), GetPort (m n), q) else monitored w a k)" for k
    using assms(3,7) by simp
  have "monitored w' a k =
      (if k \<in> set (n # names) \<and> monitored w a k = None then Some (GetHost (m k), GetPort (m k), q)
       else monitored w a k)" for k
    using assms(1,2,6) same by (cases "k = n") (simp_all add: monitor_post_def)
  moreover have "if k \<in> set (n # names) \<and> monitored w a k = None
      then setting w' a k ''down-after-milliseconds'' = Some ''5000''
      else setting w' a k = setting w a k" for k
  proof -
    have "if k \<in> set names \<and> monitored w2 a k = None
      then setting w' a k ''down-after-milliseconds'' = Some ''5000''
      else setting w' a k = setting w2 a k" using assms(6) by (simp add: monitor_post_def)
    then show ?thesis using assms(1,2,4,5) same by (cases "k = n") (auto split: if_splits)
  qed
  ultimately show ?thesis using assms(2) by (simp add: monitor_post_def)
qed

locale sentinel_monitoring =
  fixes X :: "'w lib"
    and monitored :: "'w \<Rightarrow> string \<Rightarrow> string \<Rightarrow> (string \<times> string \<times> int) option"
    and setting :: "'w \<Rightarrow> string \<Rightarrow> string \<Rightarrow> string \<Rightarrow> string option"
  assumes laws: "sentinel_laws X monitored setting"
begin

lemma master:
  obtains r where "SentinelMaster X srv n w =
    Some (if monitored w (ID srv) n = None then Inl (ErrorString ''ERR No such master with that name'')
          else Inr r, w)"
  using laws unfolding sentinel_laws_def SentinelMaster_def by blast

lemma monitor_and_set:
  assumes "monitored w (ID srv) n = None"
  obtains w1 w2 where "SentinelMonitor X srv n h p q w = Some (None, w1)"
    "SentinelSet X srv n k v w1 = Some (None, w2)"
    "monitored w2 = (monitored w)(ID srv := (monitored w (ID srv))(n \<mapsto> (h, p, q)))"
    "setting w2 (ID srv) n k = Some v" "\<forall>n'. n' \<noteq> n \<longrightarrow> setting w2 (ID srv) n' = setting w (ID srv) n'"
proof -
  obtain w1 where w1: "cl_SentinelMonitor X (ID srv) n h p q w = Some (None, w1)"
    "monitored w1 = (monitored w)(ID srv := (monitored w (ID srv))(n \<mapsto> (h, p, q)))"
    "\<forall>n'. n' \<noteq> n \<longrightarrow> setting w1 (ID srv) n' = setting w (ID srv) n'"
    using laws assms unfolding sentinel_laws_def by blast
  then have "monitored w1 (ID srv) n \<noteq> None" by simp
  then obtain w2 where "cl_SentinelSet X (ID srv) n k v w1 = Some (None, w2)" "monitored w2 = monitored w1"
    "setting w2 = (setting w1)(ID srv := (setting w1 (ID srv))(n := (setting w1 (ID srv) n)(k \<mapsto> v)))"
    using laws unfolding sentinel_laws_def by blast
  with w1 show thesis by (intro that [of w1 w2]) (simp_all add: SentinelMonitor_def SentinelSet_def)
qed

text \<open>What the loop does with a list of names that are all shards with one master.\<close>

lemma monitor_loop_runs:
  assumes "distinct names"
    and "\<forall>n \<in> set names. \<exists>i. LookupShardByName n c = Some i \<and> GetMaster (cl_Shards c ! i) = Inr (m n)"
  shows "\<exists>w'. monitor_loop X srv c q names w =
      Some ((filter (\<lambda>n. monitored w (ID srv) n = None) names, None), w') \<and>
    monitor_post monitored setting (ID srv) (rs_ref \<circ> m) q names w w'"
  using assms
proof (induction names arbitrary: w)
  case Nil
  then show ?case by (simp add: monitor_post_def)
next
  case (Cons n names)
  obtain r where r: "SentinelMaster X srv n w =
    Some (if monitored w (ID srv) n = None then Inl (ErrorString ''ERR No such master with that name'')
          else Inr r, w)" by (rule master)
  have "distinct names" and ok: "\<forall>n \<in> set names. \<exists>i. LookupShardByName n c = Some i \<and>
      GetMaster (cl_Shards c ! i) = Inr (m n)" and nin: "n \<notin> set names"
    using Cons.prems by auto
  note IH = Cons.IH [OF this(1,2)]
  show ?case
  proof (cases "monitored w (ID srv) n")
    case (Some v)
    obtain w' where "monitor_loop X srv c q names w =
      Some ((filter (\<lambda>n. monitored w (ID srv) n = None) names, None), w')"
      "monitor_post monitored setting (ID srv) (rs_ref \<circ> m) q names w w'"
      using IH by blast
    with Some r show ?thesis by (intro exI [of _ w']) (auto simp: monitor_post_def)
  next
    case None
    obtain i where i: "LookupShardByName n c = Some i" "GetMaster (cl_Shards c ! i) = Inr (m n)"
      using Cons.prems(2) by auto
    obtain w1 w2 where w2:
      "SentinelMonitor X srv n (GetHost (rs_ref (m n))) (GetPort (rs_ref (m n))) q w = Some (None, w1)"
      "SentinelSet X srv n ''down-after-milliseconds'' ''5000'' w1 = Some (None, w2)"
      "monitored w2 = (monitored w)(ID srv := (monitored w (ID srv))
          (n \<mapsto> (GetHost (rs_ref (m n)), GetPort (rs_ref (m n)), q)))"
      "setting w2 (ID srv) n ''down-after-milliseconds'' = Some ''5000''"
      "\<forall>n'. n' \<noteq> n \<longrightarrow> setting w2 (ID srv) n' = setting w (ID srv) n'"
      using monitor_and_set [OF None] .
    have same: "monitored w2 (ID srv) k = monitored w (ID srv) k" if "k \<noteq> n" for k
      using that w2(3) by simp
    have filt: "filter (\<lambda>n. monitored w2 (ID srv) n = None) names = filter (\<lambda>n. monitored w (ID srv) n = None) names"
      using nin by (intro filter_cong refl) (metis same)
    obtain w' where w': "monitor_loop X srv c q names w2 =
      Some ((filter (\<lambda>n. monitored w2 (ID srv) n = None) names, None), w')"
      "monitor_post monitored setting (ID srv) (rs_ref \<circ> m) q names w2 w'"
      using IH by blast
    have "monitor_loop X srv c q (n # names) w =
        Some ((filter (\<lambda>n. monitored w (ID srv) n = None) (n # names), None), w')"
      using r None i w2(1,2) w'(1) filt by (simp add: shardNotInitializedError_def)
    moreover have "monitor_post monitored setting (ID srv) (rs_ref \<circ> m) q (n # names) w w'"
      using monitor_post_Cons [OF nin None w2(3-5) w'(2)] by simp
    ultimately show ?thesis by blast
  qed
qed

end

text \<open>A simulated sentinel: its world is what each address monitors and the options it has set.\<close>

type_synonym sentinel_world =
  "(string \<Rightarrow> string \<Rightarrow> (string \<times> string \<times> int) option) \<times> (string \<Rightarrow> string \<Rightarrow> string \<Rightarrow> string option)"

definition sentinel_lib :: "sentinel_world lib" where
  "sentinel_lib =
     (let unsupported = ErrorString ''ERR unknown command'' in
     \<lparr>lib_ParseURL = parse_redis_url,
      lib_ScanMaster = (\<lambda>m. Inr (scan_master m)),
      lib_ScanSlave = (\<lambda>m. Inr (scan_slave m)),
      cl_SentinelMaster = (\<lambda>addr shard w. Some (case fst w addr shard of
          None \<Rightarrow> Inl (ErrorString ''ERR No such master with that name'')
        | Some (h, p, q) \<Rightarrow> Inr (scan_master [''name'' \<mapsto> shard, ''ip'' \<mapsto> h, ''port'' \<mapsto> p]), w)),
      cl_SentinelMasters = (\<lambda>addr w. Some (Inl unsupported, w)),
      cl_SentinelGetMasterAddrByName = (\<lambda>addr shard w. Some (Inl unsupported, w)),
      cl_SentinelSlaves = (\<lambda>addr shard w. Some (Inl unsupported, w)),
      cl_SentinelMonitor = (\<lambda>addr name h p q w.
          if fst w addr name = None
          then Some (None, ((fst w)(addr := (fst w addr)(name \<mapsto> (h, p, q))), snd w))
          else Some (Some (ErrorString ''ERR Duplicated master name''), w)),
      cl_SentinelSet = (\<lambda>addr shard par val w.
          if fst w addr shard = None then Some (Some (ErrorString ''ERR No such master with that name''), w)
          else Some (None, (fst w, (snd w)(addr := (snd w addr)(shard := (snd w addr shard)(par \<mapsto> val)))))),
      cl_SentinelInfoCache = (\<lambda>addr w. Some ((ASlice [], Some unsupported), w)),
      cl_SentinelPing = (\<lambda>addr w. Some (None, w)),
      cl_RedisRole = (\<lambda>addr w. Some (Inl unsupported, w)),
      cl_RedisConfigGet = (\<lambda>addr par w. Some (Inl unsupported, w)),
      cl_RedisConfigSet = (\<lambda>addr par val w. Some (Some unsupported, w)),
      cl_RedisSlaveOf = (\<lambda>addr h p w. Some (Some unsupported, w)),
      cl_RedisBGSave = (\<lambda>addr w. Some (Some unsupported, w)),
      cl_RedisLastSave = (\<lambda>addr w. Some (Inl unsupported, w)),
      cl_RedisInfo = (\<lambda>addr sec w. Some (Inl unsupported, w))\<rparr>)"

interpretation simulated_sentinel: sentinel_monitoring sentinel_lib fst snd
  by unfold_locales
    (auto simp: sentinel_laws_def sentinel_lib_def Let_def split: option.splits)

lemma LookupShardByName_known:
  assumes "distinct (map sh_Name (cl_Shards c))" and "s \<in> set (cl_Shards c)"
  shows "\<exists>i. LookupShardByName (sh_Name s) c = Some i \<and> cl_Shards c ! i = s"
proof -
  obtain i where i: "LookupShardByName (sh_Name s) c = Some i"
    using assms(2) shard_index_None [of "sh_Name s" "cl_Shards c"]
    by (auto simp: LookupShardByName_def)
  then have "i < length (cl_Shards c) \<and> sh_Name (cl_Shards c ! i) = sh_Name s"
    by (simp add: LookupShardByName_def shard_index_Some)
  then have "cl_Shards c ! i = s" using assms by (auto simp: distinct_map dest: inj_onD)
  with i show ?thesis by blast
qed

text \<open>
  C13. \<^verbatim>\<open>(*SentinelServer).Monitor\<close> configures a sentinel. For a cluster with distinct
  shard names where every shard has exactly one master, it returns no error and the sorted
  list of the shards the sentinel did not monitor; afterwards the sentinel monitors every
  shard of the cluster, those it did not know at the address of their master, with the given
  quorum and the timeout of five seconds, and whatever it monitored before is unchanged. A
  second call finds nothing to do and changes nothing.
\<close>

theorem Monitor_converges:
  assumes "sentinel_laws X monitored setting" and "distinct (map sh_Name (cl_Shards c))"
    and "\<forall>s \<in> set (cl_Shards c). GetMaster s = Inr (m (sh_Name s))"
  shows "\<exists>w'. Monitor X srv c q w =
      Some ((filter (\<lambda>n. monitored w (ID srv) n = None) (sort (map sh_Name (cl_Shards c))), None), w') \<and>
    (\<forall>s \<in> set (cl_Shards c). monitored w (ID srv) (sh_Name s) = None \<longrightarrow>
       monitored w' (ID srv) (sh_Name s) =
         Some (GetHost (rs_ref (m (sh_Name s))), GetPort (rs_ref (m (sh_Name s))), q) \<and>
       setting w' (ID srv) (sh_Name s) ''down-after-milliseconds'' = Some ''5000'') \<and>
    (\<forall>n. n \<notin> sh_Name ` set (cl_Shards c) \<or> monitored w (ID srv) n \<noteq> None \<longrightarrow>
       monitored w' (ID srv) n = monitored w (ID srv) n \<and> setting w' (ID srv) n = setting w (ID srv) n) \<and>
    Monitor X srv c q w' = Some (([], None), w')"
proof -
  let ?names = "sort (map sh_Name (cl_Shards c))"
  have S: "sentinel_monitoring X monitored setting" by (rule sentinel_monitoring.intro) (rule assms(1))
  have d: "distinct ?names" using assms(2) by simp
  have ok: "\<forall>n \<in> set ?names. \<exists>i. LookupShardByName n c = Some i \<and> GetMaster (cl_Shards c ! i) = Inr (m n)"
    using LookupShardByName_known [OF assms(2)] assms(3) by fastforce
  obtain w' where w': "Monitor X srv c q w = Some ((filter (\<lambda>n. monitored w (ID srv) n = None) ?names, None), w')"
    and post: "monitor_post monitored setting (ID srv) (rs_ref \<circ> m) q ?names w w'"
    using sentinel_monitoring.monitor_loop_runs [OF S d ok, of srv q w] by (auto simp: Monitor_def GetShardNames_def)
  have all: "monitored w' (ID srv) n \<noteq> None" if "n \<in> set ?names" for n
    using post that by (auto simp: monitor_post_def)
  obtain w2 where "Monitor X srv c q w' = Some ((filter (\<lambda>n. monitored w' (ID srv) n = None) ?names, None), w2)"
    "monitor_post monitored setting (ID srv) (rs_ref \<circ> m) q ?names w' w2"
    using sentinel_monitoring.monitor_loop_runs [OF S d ok, of srv q w'] by (auto simp: Monitor_def GetShardNames_def)
  moreover have "filter (\<lambda>n. monitored w' (ID srv) n = None) ?names = []" using all by (simp add: filter_empty_conv)
  moreover have "w2 = w'" using calculation(2) all by (simp add: monitor_post_def)
  ultimately have "Monitor X srv c q w' = Some (([], None), w')" by simp
  with w' post show ?thesis
    by (intro exI [of _ w'] conjI) (auto simp: monitor_post_def split: if_splits)
qed

section \<open>Witnesses\<close>

lemma map_sum_eq_InrE:
  assumes "map_sum f g x = Inr y" obtains z where "x = Inr z" "y = g z"
  using assms by (cases x) auto

definition ex_cluster :: Cluster where
  "ex_cluster = \<lparr>cl_Shards = [], cl_Sentinels = [ex_sentinel]\<rparr>"

text \<open>The sentinel of the shard example, answering a ping and \<^verbatim>\<open>SENTINEL MASTERS\<close> first.\<close>

definition ex_cluster_world :: fake_world where
  "ex_cluster_world = ex_world(''10.0.0.9:26379'' :=
     ex_reply (ASlice []) #
     ex_reply (ASlice [ASlice [AStr ''name'', AStr ''shard01'', AStr ''ip'', AStr ''10.0.0.1'']]) #
     ex_world ''10.0.0.9:26379'')"

lemma ex_masters:
  "fst (GetSentinel fake_lib [0] ex_cluster ex_cluster_world) = Some ex_sentinel"
  "map_option (map_sum id (map m_Name) \<circ> fst)
     (SentinelMasters fake_lib ex_sentinel (snd (GetSentinel fake_lib [0] ex_cluster ex_cluster_world)))
   = Some (Inr [''shard01''])"
  by code_simp+

lemma ex_SentinelDiscover:
  "map_option (\<lambda>((e, c, p), w). (e, map sh_Name (cl_Shards c)))
     (SentinelDiscover fake_lib [0] [] ex_cluster [] ex_cluster_world) = Some (None, [''shard01''])"
  by code_simp


theorem topology_order_irrelevant_witness:
  "\<exists>cluster.
    fst (NewShardedClusterFromTopology fake_lib
      [(''shard02'', [(''a'', ''redis://10.0.0.3:6379'')]), (''sentinel'', [(''s'', ''redis://10.0.0.9:26379'')]),
       (''shard01'', [(''a'', ''redis://10.0.0.1:6379''), (''b'', ''redis://10.0.0.2:6379'')])] [])
      = Inr cluster \<and>
    fst (NewShardedClusterFromTopology fake_lib
      [(''shard01'', [(''b'', ''redis://10.0.0.2:6379''), (''a'', ''redis://10.0.0.1:6379'')]),
       (''shard02'', [(''a'', ''redis://10.0.0.3:6379'')]), (''sentinel'', [(''s'', ''redis://10.0.0.9:26379'')])] [])
      = Inr cluster"
proof -
  let ?a = "[(''shard02'', [(''a'', ''redis://10.0.0.3:6379'')]), (''sentinel'', [(''s'', ''redis://10.0.0.9:26379'')]),
       (''shard01'', [(''a'', ''redis://10.0.0.1:6379''), (''b'', ''redis://10.0.0.2:6379'')])]"
  let ?b = "[(''shard01'', [(''b'', ''redis://10.0.0.2:6379''), (''a'', ''redis://10.0.0.1:6379'')]),
       (''shard02'', [(''a'', ''redis://10.0.0.3:6379'')]), (''sentinel'', [(''s'', ''redis://10.0.0.9:26379'')])]"
  have "same_topology ?a ?b" by (simp add: same_topology_def add_mset_commute)
  moreover have "pool_split []" by (simp add: pool_split_def)
  moreover have "list_all (\<lambda>u. url_ref fake_lib u \<noteq> None)
      [''redis://10.0.0.1:6379'', ''redis://10.0.0.2:6379'', ''redis://10.0.0.3:6379'', ''redis://10.0.0.9:26379'']"
    by code_simp
  then have "\<forall>(n, servers) \<in> set ?a. urls_ok fake_lib servers" by simp
  ultimately show ?thesis
    using topology_order_irrelevant [OF fake_lib_canonical, of "[]" "[]" ?a ?b] by blast
qed

theorem Monitor_converges_witness:
  "\<exists>w'. Monitor sentinel_lib ex_sentinel
      \<lparr>cl_Shards = [NewShardFromServers ''shard01''
         [NewRedisServerFromParams (''10.0.0.1'', ''6379'') Master Map.empty]], cl_Sentinels = []\<rparr> 2
      (\<lambda>_ _. None, \<lambda>_ _ _. None) = Some (([''shard01''], None), w') \<and>
    fst w' ''10.0.0.9:26379'' ''shard01'' = Some (''10.0.0.1'', ''6379'', 2)"
proof -
  let ?m = "NewRedisServerFromParams (''10.0.0.1'', ''6379'') Master Map.empty"
  let ?c = "\<lparr>cl_Shards = [NewShardFromServers ''shard01'' [?m]], cl_Sentinels = []\<rparr>"
  have "GetMaster (NewShardFromServers ''shard01'' [?m]) = Inr ?m"
    by (simp add: GetMaster_def NewShardFromServers_def NewRedisServerFromParams_def)
  then show ?thesis
    using Monitor_converges [OF simulated_sentinel.laws, of ?c "\<lambda>_. ?m" ex_sentinel 2 "(\<lambda>_ _. None, \<lambda>_ _ _. None)"]
    by (auto simp: NewShardFromServers_def ex_sentinel_def ID_def JoinHostPort_def GetHost_def GetPort_def
        NewRedisServerFromParams_def)
qed

end
