(* ===== verification/Threads.thy ===== *)
theory Threads
  imports Prelude "HOL-Library.AList"
begin

text \<open>
  The manager of background threads, \<^verbatim>\<open>internal/pkg/reconcilers/threads/manager.go\<close>. The
  interface \<^verbatim>\<open>RunnableThread\<close> is a record of operations on the state of a thread. The
  manager is its mutex, the map of its threads and the threads it has stopped. An operation
  returns \<^const>\<open>None\<close> when it panics or waits for the mutex forever.
\<close>

section \<open>The manager\<close>

record 't thread_ops =
  t_GetID :: "'t \<Rightarrow> string"
  t_SetChannel :: "'t \<Rightarrow> 't"
  t_Start :: "'t \<Rightarrow> error option \<times> 't"
  t_Stop :: "'t \<Rightarrow> 't option"
  t_IsStarted :: "'t \<Rightarrow> bool"
  t_CanBeDeleted :: "'t \<Rightarrow> bool"

record 't Manager =
  mgr_locked :: bool
  mgr_threads :: "(string, 't) gomap"
  mgr_stopped :: "'t list"

definition NewManager :: "'t Manager" where
  "NewManager = \<lparr>mgr_locked = False, mgr_threads = [], mgr_stopped = []\<rparr>"

text \<open>A Kubernetes object is known by its namespace and name.\<close>

type_synonym owner = "string \<times> string"

definition owner_prefix :: "owner \<Rightarrow> string" where
  "owner_prefix o1 = fst o1 @ ''/'' @ snd o1 @ ''_''"

text \<open>\<^verbatim>\<open>mu.Lock()\<close> blocks when the mutex is held.\<close>

definition mgr_Lock :: "'t Manager \<Rightarrow> 't Manager option" where
  "mgr_Lock mgr = (if mgr_locked mgr then None else Some (mgr\<lparr>mgr_locked := True\<rparr>))"

definition mgr_Unlock :: "'t Manager \<Rightarrow> 't Manager" where
  "mgr_Unlock mgr = mgr\<lparr>mgr_locked := False\<rparr>"

definition runThread ::
    "'t thread_ops \<Rightarrow> string \<Rightarrow> 't \<Rightarrow> 't Manager \<Rightarrow> (error option \<times> 't Manager) option" where
  "runThread T key thread mgr =
     (let thread = t_SetChannel T thread
      in case map_of (mgr_threads mgr) key of
           Some t \<Rightarrow>
             if t_IsStarted T t then Some (None, mgr)
             else do { mgr \<leftarrow> mgr_Lock mgr;
                       case t_Start T t of
                         (e, t') \<Rightarrow>
                           Some (e, mgr_Unlock (mgr\<lparr>mgr_threads := AList.update key t' (mgr_threads mgr)\<rparr>)) }
         | None \<Rightarrow>
             do { mgr \<leftarrow> mgr_Lock mgr;
                  case t_Start T thread of
                    (e, t') \<Rightarrow>
                      Some (e, mgr_Unlock (mgr\<lparr>mgr_threads := AList.update key t' (mgr_threads mgr)\<rparr>)) })"

text \<open>The early return of \<^verbatim>\<open>stopThread\<close> keeps the mutex.\<close>

definition stopThread :: "'t thread_ops \<Rightarrow> string \<Rightarrow> 't Manager \<Rightarrow> 't Manager option" where
  "stopThread T key mgr =
     do { mgr \<leftarrow> mgr_Lock mgr;
          case map_of (mgr_threads mgr) key of
            None \<Rightarrow> Some mgr
          | Some t \<Rightarrow>
              do { t' \<leftarrow> t_Stop T t;
                   Some (mgr_Unlock (mgr\<lparr>mgr_threads := AList.delete key (mgr_threads mgr),
                                         mgr_stopped := mgr_stopped mgr @ [t']\<rparr>)) } }"

fun run_loop ::
    "'t thread_ops \<Rightarrow> owner \<Rightarrow> 't list \<Rightarrow> 't Manager \<Rightarrow> (error option \<times> 't Manager) option" where
  "run_loop T o1 [] mgr = Some (None, mgr)"
| "run_loop T o1 (thread # threads) mgr =
     do { (e, mgr) \<leftarrow> runThread T (owner_prefix o1 @ t_GetID T thread) thread mgr;
          case e of Some e \<Rightarrow> Some (Some e, mgr) | None \<Rightarrow> run_loop T o1 threads mgr }"

text \<open>The loop over the keys of the map, for the keys in the order of the iteration.\<close>

fun stop_loop :: "'t thread_ops \<Rightarrow> (string \<Rightarrow> 't \<Rightarrow> bool) \<Rightarrow> string list \<Rightarrow> 't Manager \<Rightarrow> 't Manager option" where
  "stop_loop T sel [] mgr = Some mgr"
| "stop_loop T sel (key # keys) mgr =
     (case map_of (mgr_threads mgr) key of
        None \<Rightarrow> stop_loop T sel keys mgr
      | Some t \<Rightarrow> if sel key t then do { mgr \<leftarrow> stopThread T key mgr; stop_loop T sel keys mgr }
                  else stop_loop T sel keys mgr)"

definition ReconcileThreads ::
    "'t thread_ops \<Rightarrow> owner \<Rightarrow> 't list \<Rightarrow> 't Manager \<Rightarrow> (error option \<times> 't Manager) option" where
  "ReconcileThreads T o1 threads mgr =
     do { (e, mgr) \<leftarrow> run_loop T o1 threads mgr;
          case e of
            Some e \<Rightarrow> Some (Some e, mgr)
          | None \<Rightarrow>
              do { mgr \<leftarrow> stop_loop T
                     (\<lambda>key t. contains key (owner_prefix o1) \<and>
                        key \<notin> set (map (\<lambda>th. owner_prefix o1 @ t_GetID T th) threads) \<and> t_CanBeDeleted T t)
                     (map fst (mgr_threads mgr)) mgr;
                   Some (None, mgr) } }"

definition CleanupThreads :: "'t thread_ops \<Rightarrow> owner \<Rightarrow> 't Manager \<Rightarrow> 't Manager option" where
  "CleanupThreads T o1 mgr =
     stop_loop T (\<lambda>key t. contains key (owner_prefix o1)) (map fst (mgr_threads mgr)) mgr"

definition GetThread :: "string \<Rightarrow> owner \<Rightarrow> 't Manager \<Rightarrow> 't option" where
  "GetThread thid o1 mgr = map_of (mgr_threads mgr) (owner_prefix o1 @ thid)"

definition GetKeys :: "'t Manager \<Rightarrow> string list" where
  "GetKeys mgr = map fst (mgr_threads mgr)"

section \<open>Invariant and effect of the operations\<close>

definition mgr_ok :: "'t Manager \<Rightarrow> bool" where
  "mgr_ok mgr \<longleftrightarrow> \<not> mgr_locked mgr \<and> distinct (map fst (mgr_threads mgr))"

definition stoppable :: "'t thread_ops \<Rightarrow> 't Manager \<Rightarrow> bool" where
  "stoppable T mgr \<longleftrightarrow> (\<forall>(k, t) \<in> set (mgr_threads mgr). t_Stop T t \<noteq> None)"

text \<open>The threads that a selection leaves.\<close>

definition map_of_remaining :: "('k \<Rightarrow> 't \<Rightarrow> bool) \<Rightarrow> ('k, 't) gomap \<Rightarrow> 'k \<Rightarrow> 't option" where
  "map_of_remaining sel m k = (case map_of m k of None \<Rightarrow> None | Some t \<Rightarrow> if sel k t then None else Some t)"

lemma stoppable_thread:
  "stoppable T mgr \<Longrightarrow> map_of (mgr_threads mgr) k = Some t \<Longrightarrow> t_Stop T t \<noteq> None"
  unfolding stoppable_def by (fastforce dest: map_of_SomeD)

lemma mgr_ok_New: "mgr_ok NewManager"
  by (simp add: mgr_ok_def NewManager_def)

lemma runThread_effect:
  assumes "mgr_ok mgr"
  obtains e mgr' where "runThread T key thread mgr = Some (e, mgr')" "mgr_ok mgr'"
    "\<forall>k. k \<noteq> key \<longrightarrow> map_of (mgr_threads mgr') k = map_of (mgr_threads mgr) k"
    "\<exists>t'. map_of (mgr_threads mgr') key = Some t' \<and>
       (t_IsStarted T t' \<and> e = None \<or> (\<exists>t. t_Start T t = (e, t')))"
    "\<forall>t. map_of (mgr_threads mgr) key = Some t \<and> t_IsStarted T t \<longrightarrow> mgr' = mgr"
proof (cases "\<exists>t. map_of (mgr_threads mgr) key = Some t \<and> t_IsStarted T t")
  case True
  with assms show thesis by (intro that [of None mgr]) (auto simp: runThread_def Let_def)
next
  case False
  define t where "t = (case map_of (mgr_threads mgr) key of Some t \<Rightarrow> t | None \<Rightarrow> t_SetChannel T thread)"
  obtain e t' where st: "t_Start T t = (e, t')" by fastforce
  let ?mgr = "mgr\<lparr>mgr_locked := False, mgr_threads := AList.update key t' (mgr_threads mgr)\<rparr>"
  have "runThread T key thread mgr = Some (e, ?mgr)"
  proof (cases "map_of (mgr_threads mgr) key")
    case None
    with st assms show ?thesis
      by (simp add: runThread_def Let_def mgr_Lock_def mgr_Unlock_def mgr_ok_def t_def)
  next
    case (Some x)
    with False st assms show ?thesis
      by (simp add: runThread_def Let_def mgr_Lock_def mgr_Unlock_def mgr_ok_def t_def)
  qed
  moreover have "mgr_ok ?mgr" using assms by (simp add: mgr_ok_def distinct_update)
  ultimately show thesis
    using st False by (intro that [of e ?mgr]) (auto simp: update_conv')
qed

lemma stopThread_effect:
  assumes "mgr_ok mgr" and "map_of (mgr_threads mgr) key = Some t" and "t_Stop T t = Some t'"
  shows "stopThread T key mgr = Some (mgr\<lparr>mgr_threads := AList.delete key (mgr_threads mgr),
     mgr_stopped := mgr_stopped mgr @ [t']\<rparr>)"
  using assms by (simp add: stopThread_def mgr_Lock_def mgr_Unlock_def mgr_ok_def)

lemma run_loop_effect:
  assumes "mgr_ok mgr"
  obtains e mgr' where "run_loop T o1 threads mgr = Some (e, mgr')" "mgr_ok mgr'"
    "\<forall>k. k \<notin> (\<lambda>th. owner_prefix o1 @ t_GetID T th) ` set threads \<longrightarrow>
       map_of (mgr_threads mgr') k = map_of (mgr_threads mgr) k"
proof -
  have "\<exists>e mgr'. run_loop T o1 threads mgr = Some (e, mgr') \<and> mgr_ok mgr' \<and>
    (\<forall>k. k \<notin> (\<lambda>th. owner_prefix o1 @ t_GetID T th) ` set threads \<longrightarrow>
       map_of (mgr_threads mgr') k = map_of (mgr_threads mgr) k)"
    using assms
  proof (induction threads arbitrary: mgr)
    case Nil
    then show ?case by simp
  next
    case (Cons th threads)
    let ?key = "owner_prefix o1 @ t_GetID T th"
    obtain e mgr1 where r: "runThread T ?key th mgr = Some (e, mgr1)" "mgr_ok mgr1"
      "\<forall>k. k \<noteq> ?key \<longrightarrow> map_of (mgr_threads mgr1) k = map_of (mgr_threads mgr) k"
      by (rule runThread_effect [OF Cons.prems, of T ?key th])
    show ?case
    proof (cases e)
      case (Some x)
      with r show ?thesis by auto
    next
      case None
      with r Cons.IH [OF r(2)] show ?thesis by auto
    qed
  qed
  with that show thesis by blast
qed

lemma stop_loop_effect:
  assumes "mgr_ok mgr" and "\<forall>k t. map_of (mgr_threads mgr) k = Some t \<and> sel k t \<longrightarrow> t_Stop T t \<noteq> None"
  shows "\<exists>mgr'. stop_loop T sel keys mgr = Some mgr' \<and> mgr_ok mgr' \<and>
    (\<forall>k. map_of (mgr_threads mgr') k =
      map_of_remaining (\<lambda>k t. k \<in> set keys \<and> sel k t) (mgr_threads mgr) k)"
  using assms
proof (induction keys arbitrary: mgr)
  case Nil
  then show ?case by (auto simp: map_of_remaining_def split: option.split)
next
  case (Cons key keys)
  show ?case
  proof (cases "\<exists>t. map_of (mgr_threads mgr) key = Some t \<and> sel key t")
    case False
    then have "map_of_remaining (\<lambda>k t. k \<in> set (key # keys) \<and> sel k t) (mgr_threads mgr)
        = map_of_remaining (\<lambda>k t. k \<in> set keys \<and> sel k t) (mgr_threads mgr)"
      by (auto simp: map_of_remaining_def fun_eq_iff split: option.split)
    moreover have "stop_loop T sel (key # keys) mgr = stop_loop T sel keys mgr"
      using False by (auto split: option.split)
    ultimately show ?thesis using Cons.IH [OF Cons.prems] by simp
  next
    case True
    then obtain t where t: "map_of (mgr_threads mgr) key = Some t" "sel key t" by blast
    then obtain t' where t': "t_Stop T t = Some t'"
      using Cons.prems(2) by fastforce
    let ?mgr = "mgr\<lparr>mgr_threads := AList.delete key (mgr_threads mgr), mgr_stopped := mgr_stopped mgr @ [t']\<rparr>"
    have ok: "mgr_ok ?mgr" using Cons.prems(1) by (simp add: mgr_ok_def distinct_delete)
    have sel: "\<forall>k t. map_of (mgr_threads ?mgr) k = Some t \<and> sel k t \<longrightarrow> t_Stop T t \<noteq> None"
      using Cons.prems(2) by (simp add: delete_conv')
    note IH = Cons.IH [OF ok sel]
    have "map_of_remaining (\<lambda>k t. k \<in> set keys \<and> sel k t) (mgr_threads ?mgr)
        = map_of_remaining (\<lambda>k t. k \<in> set (key # keys) \<and> sel k t) (mgr_threads mgr)"
      using t by (auto simp: map_of_remaining_def delete_conv' fun_eq_iff split: option.split)
    with IH stopThread_effect [OF Cons.prems(1) t(1) t'] t show ?thesis by simp
  qed
qed

lemma stop_loop_all_keys:
  assumes "mgr_ok mgr" and "\<forall>k t. map_of (mgr_threads mgr) k = Some t \<and> sel k t \<longrightarrow> t_Stop T t \<noteq> None"
  shows "\<exists>mgr'. stop_loop T sel (map fst (mgr_threads mgr)) mgr = Some mgr' \<and> mgr_ok mgr' \<and>
    (\<forall>k. map_of (mgr_threads mgr') k = map_of_remaining sel (mgr_threads mgr) k)"
proof -
  have "k \<in> set (map fst (mgr_threads mgr))" if "map_of (mgr_threads mgr) k = Some t" for k t
    using that by (force dest: map_of_SomeD)
  then have "map_of_remaining (\<lambda>k t. k \<in> set (map fst (mgr_threads mgr)) \<and> sel k t) (mgr_threads mgr)
      = map_of_remaining sel (mgr_threads mgr)"
    by (auto simp: map_of_remaining_def fun_eq_iff split: option.split)
  with stop_loop_effect [OF assms, of "map fst (mgr_threads mgr)"] show ?thesis by simp
qed

section \<open>The contract of a thread\<close>

text \<open>What the manager relies on: a thread whose start succeeds is started.\<close>

locale runnable_thread =
  fixes T :: "'t thread_ops"
  assumes start_started: "t_Start T t = (None, t') \<Longrightarrow> t_IsStarted T t'"
begin

lemma run_loop_started:
  assumes "mgr_ok mgr" and "run_loop T o1 threads mgr = Some (None, mgr')" and "th \<in> set threads"
  shows "\<exists>t. GetThread (t_GetID T th) o1 mgr' = Some t \<and> t_IsStarted T t"
  using assms
proof (induction threads arbitrary: mgr)
  case Nil
  then show ?case by simp
next
  case (Cons x threads)
  let ?key = "\<lambda>th. owner_prefix o1 @ t_GetID T th"
  obtain mgr1 where r: "runThread T (?key x) x mgr = Some (None, mgr1)"
    and l: "run_loop T o1 threads mgr1 = Some (None, mgr')"
    using Cons.prems(2) by (auto split: option.splits elim!: bind_SomeE)
  have ok: "mgr_ok mgr1" "\<exists>t. map_of (mgr_threads mgr1) (?key x) = Some t \<and> t_IsStarted T t"
    using runThread_effect [OF Cons.prems(1), of T "?key x" x] r start_started by (metis option.inject prod.inject)+
  have keep: "\<exists>t. map_of (mgr_threads mgr') k = Some t \<and> t_IsStarted T t"
    if "\<exists>t. map_of (mgr_threads mgr1) k = Some t \<and> t_IsStarted T t" for k
    using l ok(1) that
  proof (induction threads arbitrary: mgr1)
    case Nil
    then show ?case by simp
  next
    case (Cons y threads)
    obtain mgr2 where r: "runThread T (?key y) y mgr1 = Some (None, mgr2)"
      and l: "run_loop T o1 threads mgr2 = Some (None, mgr')"
      using Cons.prems(1) by (auto split: option.splits elim!: bind_SomeE)
    have "mgr_ok mgr2 \<and> (\<exists>t. map_of (mgr_threads mgr2) k = Some t \<and> t_IsStarted T t)"
      using runThread_effect [OF Cons.prems(2), of T "?key y" y] r Cons.prems(3) start_started
      by (metis option.inject prod.inject)
    with Cons.IH [OF l] show ?case by blast
  qed
  show ?case
  proof (cases "th = x")
    case True
    with keep [OF ok(2)] show ?thesis by (simp add: GetThread_def)
  next
    case False
    with Cons.IH [OF ok(1) l] Cons.prems(3) show ?thesis by simp
  qed
qed

end

lemma ReconcileThreads_returns:
  assumes "mgr_ok mgr" and "stoppable T mgr"
  shows "\<exists>e mgr'. ReconcileThreads T o1 threads mgr = Some (e, mgr') \<and> mgr_ok mgr'"
proof -
  obtain e mgr1 where l: "run_loop T o1 threads mgr = Some (e, mgr1)" "mgr_ok mgr1"
    "\<forall>k. k \<notin> (\<lambda>th. owner_prefix o1 @ t_GetID T th) ` set threads \<longrightarrow>
       map_of (mgr_threads mgr1) k = map_of (mgr_threads mgr) k"
    by (rule run_loop_effect [OF assms(1), of T o1 threads])
  let ?sel = "\<lambda>key t. contains key (owner_prefix o1) \<and>
      key \<notin> set (map (\<lambda>th. owner_prefix o1 @ t_GetID T th) threads) \<and> t_CanBeDeleted T t"
  have sel: "\<forall>k t. map_of (mgr_threads mgr1) k = Some t \<and> ?sel k t \<longrightarrow> t_Stop T t \<noteq> None"
    using l(3) stoppable_thread [OF assms(2)] by auto
  obtain mgr' where "stop_loop T ?sel (map fst (mgr_threads mgr1)) mgr1 = Some mgr'" "mgr_ok mgr'"
    using stop_loop_all_keys [OF l(2) sel] by blast
  with l show ?thesis by (cases e) (auto simp: ReconcileThreads_def)
qed

lemma runThread_no_error:
  assumes "\<And>t. fst (t_Start T t) = None" and "runThread T key thread mgr = Some (e, mgr')"
  shows "e = None"
  using assms by (auto simp: runThread_def Let_def split: option.splits if_splits prod.splits elim!: bind_SomeE)
    (metis fst_conv)+

lemma ReconcileThreads_no_error:
  assumes "\<And>t. fst (t_Start T t) = None" and "ReconcileThreads T o1 threads mgr = Some (e, mgr')"
  shows "e = None"
proof -
  have "e1 = None" if "run_loop T o1 threads mgr = Some (e1, mgr1)" for e1 mgr1
    using that
  proof (induction threads arbitrary: mgr)
    case (Cons th threads)
    then show ?case
      by (auto split: option.splits elim!: bind_SomeE dest: runThread_no_error [OF assms(1)])
  qed simp
  with assms(2) show ?thesis
    by (auto simp: ReconcileThreads_def split: option.splits elim!: bind_SomeE)
qed

section \<open>Properties of the manager\<close>

definition thread_laws :: "'t thread_ops \<Rightarrow> bool" where
  "thread_laws T \<longleftrightarrow> (\<forall>t t'. t_Start T t = (None, t') \<longrightarrow> t_IsStarted T t')"

lemma ReconcileThreads_spec:
  assumes "thread_laws T" and "mgr_ok mgr" and "stoppable T mgr"
  shows "\<exists>e mgr'. ReconcileThreads T o1 threads mgr = Some (e, mgr') \<and> mgr_ok mgr' \<and>
    (let wanted = (\<lambda>th. owner_prefix o1 @ t_GetID T th) ` set threads in
     (e = None \<longrightarrow> (\<forall>th \<in> set threads. \<exists>t. GetThread (t_GetID T th) o1 mgr' = Some t \<and> t_IsStarted T t)) \<and>
     (e = None \<longrightarrow> (\<forall>k t. k \<notin> wanted \<longrightarrow> map_of (mgr_threads mgr) k = Some t \<longrightarrow>
        map_of (mgr_threads mgr') k =
          (if contains k (owner_prefix o1) \<and> t_CanBeDeleted T t then None else Some t))) \<and>
     (e \<noteq> None \<longrightarrow> (\<forall>k. k \<notin> wanted \<longrightarrow> map_of (mgr_threads mgr') k = map_of (mgr_threads mgr) k)))"
proof -
  have R: "runnable_thread T" using assms(1) by (auto simp: runnable_thread_def thread_laws_def)
  let ?wanted = "(\<lambda>th. owner_prefix o1 @ t_GetID T th) ` set threads"
  obtain e mgr1 where l: "run_loop T o1 threads mgr = Some (e, mgr1)" "mgr_ok mgr1"
    "\<forall>k. k \<notin> ?wanted \<longrightarrow> map_of (mgr_threads mgr1) k = map_of (mgr_threads mgr) k"
    by (rule run_loop_effect [OF assms(2), of T o1 threads])
  show ?thesis
  proof (cases e)
    case (Some x)
    with l show ?thesis by (auto simp: ReconcileThreads_def)
  next
    case None
    let ?sel = "\<lambda>key t. contains key (owner_prefix o1) \<and>
        key \<notin> set (map (\<lambda>th. owner_prefix o1 @ t_GetID T th) threads) \<and> t_CanBeDeleted T t"
    have sel: "\<forall>k t. map_of (mgr_threads mgr1) k = Some t \<and> ?sel k t \<longrightarrow> t_Stop T t \<noteq> None"
      using l(3) stoppable_thread [OF assms(3)] by auto
    obtain mgr' where s: "stop_loop T ?sel (map fst (mgr_threads mgr1)) mgr1 = Some mgr'" "mgr_ok mgr'"
      "\<forall>k. map_of (mgr_threads mgr') k = map_of_remaining ?sel (mgr_threads mgr1) k"
      using stop_loop_all_keys [OF l(2) sel] by blast
    have "ReconcileThreads T o1 threads mgr = Some (None, mgr')"
      using l(1) s(1) None by (simp add: ReconcileThreads_def)
    moreover have "\<exists>t. GetThread (t_GetID T th) o1 mgr' = Some t \<and> t_IsStarted T t" if "th \<in> set threads" for th
      using runnable_thread.run_loop_started [OF R assms(2) l(1) [unfolded None] that] s(3) that
      by (auto simp: GetThread_def map_of_remaining_def)
    ultimately show ?thesis
      using s(2,3) l(3) by (auto simp: Let_def map_of_remaining_def)
  qed
qed

lemma ReconcileThreads_started:
  assumes "thread_laws T" and "mgr_ok mgr" and "stoppable T mgr"
    and "ReconcileThreads T o1 threads mgr = Some (None, mgr')"
  shows "mgr_ok mgr'" and "th \<in> set threads \<Longrightarrow> \<exists>t. GetThread (t_GetID T th) o1 mgr' = Some t \<and> t_IsStarted T t"
  using ReconcileThreads_spec [OF assms(1-3), where ?o1.0 = o1 and threads = threads] assms(4)
  unfolding Let_def by auto

text \<open>
  C35. Reconciliation of the threads of an owner, from a manager whose mutex is free and whose
  threads can be stopped. It returns, with the mutex free and one thread per key. When it
  reports no error every requested thread is present and started; every other thread whose key
  contains the prefix of the owner is gone, unless it cannot be deleted yet; and all the
  remaining threads are untouched. When a start fails, no thread but the requested ones is
  touched.
\<close>

theorem ReconcileThreads_correct:
  assumes "thread_laws T" and "mgr_ok mgr" and "stoppable T mgr"
  shows "\<exists>e mgr'. ReconcileThreads T o1 threads mgr = Some (e, mgr') \<and> mgr_ok mgr' \<and>
    (let wanted = (\<lambda>th. owner_prefix o1 @ t_GetID T th) ` set threads in
     (e = None \<longrightarrow> (\<forall>th \<in> set threads. \<exists>t. GetThread (t_GetID T th) o1 mgr' = Some t \<and> t_IsStarted T t)) \<and>
     (e = None \<longrightarrow> (\<forall>k t. k \<notin> wanted \<longrightarrow> map_of (mgr_threads mgr) k = Some t \<longrightarrow>
        map_of (mgr_threads mgr') k =
          (if contains k (owner_prefix o1) \<and> t_CanBeDeleted T t then None else Some t))) \<and>
     (e \<noteq> None \<longrightarrow> (\<forall>k. k \<notin> wanted \<longrightarrow> map_of (mgr_threads mgr') k = map_of (mgr_threads mgr) k)))"
  using assms by (rule ReconcileThreads_spec)

text \<open>The names of Kubernetes objects have neither slashes nor underscores.\<close>

definition k8s_name :: "string \<Rightarrow> bool" where
  "k8s_name s \<longleftrightarrow> CHR ''/'' \<notin> set s \<and> CHR ''_'' \<notin> set s"

lemma contains_owner_prefix:
  assumes "k8s_name (fst o1)" "k8s_name (snd o1)" "k8s_name (fst o2)" "k8s_name (snd o2)"
    and "CHR ''_'' \<notin> set thid"
  shows "contains (owner_prefix o2 @ thid) (owner_prefix o1) \<longleftrightarrow> snd o1 = snd o2 \<and> suffix (fst o1) (fst o2)"
proof
  assume "contains (owner_prefix o2 @ thid) (owner_prefix o1)"
  then obtain a b where "owner_prefix o2 @ thid = a @ owner_prefix o1 @ b" by (auto simp: contains_iff)
  then have eq: "(fst o2 @ CHR ''/'' # snd o2) @ CHR ''_'' # thid
      = (a @ fst o1 @ CHR ''/'' # snd o1) @ CHR ''_'' # b"
    by (simp add: owner_prefix_def)
  have "CHR ''_'' \<notin> set (fst o2 @ CHR ''/'' # snd o2)" using assms(3,4) by (auto simp: k8s_name_def)
  from eq [unfolded append_Cons_eq_iff [OF this assms(5)]]
  have "fst o2 @ CHR ''/'' # snd o2 = (a @ fst o1) @ CHR ''/'' # snd o1" by simp
  moreover have "CHR ''/'' \<notin> set (fst o2)" "CHR ''/'' \<notin> set (snd o2)"
    using assms(3,4) by (simp_all add: k8s_name_def)
  ultimately have "fst o2 = a @ fst o1 \<and> snd o2 = snd o1"
    by (metis append_Cons_eq_iff)
  then show "snd o1 = snd o2 \<and> suffix (fst o1) (fst o2)" by (auto simp: suffix_def)
next
  assume "snd o1 = snd o2 \<and> suffix (fst o1) (fst o2)"
  then obtain a where "owner_prefix o2 @ thid = a @ owner_prefix o1 @ thid"
    by (auto simp: owner_prefix_def suffix_def)
  then show "contains (owner_prefix o2 @ thid) (owner_prefix o1)" unfolding contains_iff by blast
qed

text \<open>
  What the cleanup of an owner stops. \<^verbatim>\<open>CleanupThreads\<close> looks for the prefix of the owner
  anywhere in the key, not at its start. For Kubernetes names and a thread id without
  underscores (a sentinel URI) it stops the thread of another owner exactly when that one has
  the same name and a namespace that ends with the owner's. Within one namespace, and for
  namespaces none of which is a suffix of another, the cleanup is therefore confined to the
  owner.
\<close>

lemma CleanupThreads_scope:
  assumes "mgr_ok mgr" and "stoppable T mgr" and "GetThread thid o2 mgr = Some t"
    and "k8s_name (fst o1)" "k8s_name (snd o1)" "k8s_name (fst o2)" "k8s_name (snd o2)"
    and "CHR ''_'' \<notin> set thid"
  shows "\<exists>mgr'. CleanupThreads T o1 mgr = Some mgr' \<and> mgr_ok mgr' \<and>
    GetThread thid o2 mgr' = (if snd o1 = snd o2 \<and> suffix (fst o1) (fst o2) then None else Some t)"
proof -
  have "\<forall>k t. map_of (mgr_threads mgr) k = Some t \<and> contains k (owner_prefix o1) \<longrightarrow> t_Stop T t \<noteq> None"
    using stoppable_thread [OF assms(2)] by blast
  from stop_loop_all_keys [OF assms(1) this] obtain mgr' where "CleanupThreads T o1 mgr = Some mgr'" "mgr_ok mgr'"
    "\<forall>k. map_of (mgr_threads mgr') k = map_of_remaining (\<lambda>k t. contains k (owner_prefix o1)) (mgr_threads mgr) k"
    by (auto simp: CleanupThreads_def)
  with assms(3) contains_owner_prefix [OF assms(4-8)] show ?thesis
    by (auto simp: GetThread_def map_of_remaining_def)
qed

text \<open>The managers that the controllers reach. The threads change their own state in between.\<close>

inductive mgr_reach :: "'t thread_ops \<Rightarrow> 't Manager \<Rightarrow> bool" for T where
  reach_init: "mgr_reach T NewManager"
| reach_reconcile: "mgr_reach T mgr \<Longrightarrow> ReconcileThreads T o1 threads mgr = Some (e, mgr') \<Longrightarrow> mgr_reach T mgr'"
| reach_cleanup: "mgr_reach T mgr \<Longrightarrow> CleanupThreads T o1 mgr = Some mgr' \<Longrightarrow> mgr_reach T mgr'"
| reach_thread: "mgr_reach T mgr \<Longrightarrow> map fst ths = map fst (mgr_threads mgr) \<Longrightarrow>
    mgr_reach T (mgr\<lparr>mgr_threads := ths\<rparr>)"

inductive_cases mgr_reachE: "mgr_reach T mgr"

lemma stop_loop_mgr_ok:
  "mgr_ok mgr \<Longrightarrow> stop_loop T sel keys mgr = Some mgr' \<Longrightarrow> mgr_ok mgr'"
proof (induction keys arbitrary: mgr)
  case Nil
  then show ?case by simp
next
  case (Cons key keys)
  have "mgr_ok mgr1" if "stopThread T key mgr = Some mgr1" "map_of (mgr_threads mgr) key = Some t" for mgr1 t
    using that Cons.prems(1)
    by (auto simp: stopThread_def mgr_Lock_def mgr_Unlock_def mgr_ok_def distinct_delete elim!: bind_SomeE)
  with Cons show ?case by (auto split: option.splits if_splits elim!: bind_SomeE)
qed

text \<open>
  No reachable manager has its mutex locked or two threads under one key. So the path of
  \<^verbatim>\<open>stopThread\<close> that returns without unlocking is never taken by a sequence of
  reconciliations and cleanups, whatever the threads do, and the next operation never blocks.
\<close>

lemma mgr_reach_ok: "mgr_reach T mgr \<Longrightarrow> mgr_ok mgr"
proof (induction rule: mgr_reach.induct)
  case reach_init
  then show ?case by (rule mgr_ok_New)
next
  case (reach_reconcile mgr o1 threads e mgr')
  obtain e1 mgr1 where "run_loop T o1 threads mgr = Some (e1, mgr1)" "mgr_ok mgr1"
    by (rule run_loop_effect [OF reach_reconcile.IH, of T o1 threads])
  with reach_reconcile.hyps(2) show ?case
    by (auto simp: ReconcileThreads_def split: option.splits elim!: bind_SomeE dest: stop_loop_mgr_ok)
next
  case (reach_cleanup mgr o1 mgr')
  then show ?case by (auto simp: CleanupThreads_def dest: stop_loop_mgr_ok)
next
  case (reach_thread mgr ths)
  then show ?case by (simp add: mgr_ok_def)
qed

text \<open>
  A call of \<^verbatim>\<open>stopThread\<close> with a key that the manager does not know, on the other
  hand, keeps the mutex: every later \<^verbatim>\<open>stopThread\<close>, and every \<^verbatim>\<open>runThread\<close> of a thread
  that is not running, waits forever.
\<close>

lemma stopThread_unknown_key_deadlocks:
  assumes "mgr_ok mgr" and "map_of (mgr_threads mgr) key = None"
  shows "\<exists>mgr'. stopThread T key mgr = Some mgr' \<and> mgr_threads mgr' = mgr_threads mgr \<and>
    (\<forall>k. stopThread T k mgr' = None) \<and>
    (\<forall>k thread. (\<nexists>t. map_of (mgr_threads mgr) k = Some t \<and> t_IsStarted T t) \<longrightarrow>
       runThread T k thread mgr' = None)"
  using assms
  by (auto simp: stopThread_def runThread_def mgr_Lock_def mgr_ok_def Let_def split: option.splits)

end
