(* ===== verification/BackupRunner.thy ===== *)
theory BackupRunner
  imports Sharded Threads
begin

text \<open>
  The backup of one shard, \<^verbatim>\<open>internal/pkg/redis/backup\<close>: the runner, its files and tags,
  the polling of \<^verbatim>\<open>BGSAVE\<close>, the check of the uploaded object, the metrics, and the two
  goroutines of \<^verbatim>\<open>Start\<close> as a step relation. A time is a number of nanoseconds; the
  layouts of \<^verbatim>\<open>time.Format\<close>, the S3 client and the outcome of the remote commands are
  parameters.
\<close>

section \<open>The runner\<close>

definition unixMilli :: "int \<Rightarrow> int" where
  "unixMilli ts = ts div 1000000"

record RunnerStatus =
  st_Started :: bool
  st_Finished :: bool
  st_Error :: "error option"
  st_BackupFile :: string
  st_BackupSize :: int
  st_FinishedAt :: int

record Runner =
  br_Instance :: owner
  br_ShardName :: string
  br_Server :: srvref
  br_ScheduledFor :: int
  br_Timestamp :: int
  br_Timeout :: int
  br_PollInterval :: int
  br_RedisDBFile :: string
  br_SSHUser :: string
  br_SSHKey :: string
  br_SSHPort :: int
  br_SSHSudo :: bool
  br_S3Bucket :: string
  br_S3Path :: string
  br_AWSAccessKeyID :: string
  br_AWSSecretAccessKey :: string
  br_AWSRegion :: string
  br_AWSS3Endpoint :: "string option"
  br_eventsCh :: bool
  br_cancel :: "bool option"
  br_status :: RunnerStatus

definition no_status :: RunnerStatus where
  "no_status = \<lparr>st_Started = False, st_Finished = False, st_Error = None, st_BackupFile = '''',
     st_BackupSize = 0, st_FinishedAt = 0\<rparr>"

definition backup_ID :: "string \<Rightarrow> string \<Rightarrow> int \<Rightarrow> string" where
  "backup_ID shard als ts = shard @ ''-'' @ als @ ''-'' @ itoa (unixMilli ts)"

definition Runner_GetID :: "ServerPool \<Rightarrow> Runner \<Rightarrow> string" where
  "Runner_GetID pool br = backup_ID (br_ShardName br) (alias_of pool (br_Server br)) (br_ScheduledFor br)"

definition Runner_CanBeDeleted :: "int \<Rightarrow> Runner \<Rightarrow> bool" where
  "Runner_CanBeDeleted now br \<longleftrightarrow> now - br_Timestamp br > br_Timeout br * 2"

text \<open>\<^verbatim>\<open>Start\<close> up to the two goroutines it launches.\<close>

definition Runner_Start :: "Runner \<Rightarrow> Runner" where
  "Runner_Start br = br\<lparr>br_cancel := Some False, br_status := no_status\<lparr>st_Started := True\<rparr>\<rparr>"

definition Runner_Stop :: "Runner \<Rightarrow> Runner option" where
  "Runner_Stop br = (case br_cancel br of None \<Rightarrow> None | Some _ \<Rightarrow> Some (br\<lparr>br_cancel := Some True\<rparr>))"

definition runner_ops :: "ServerPool \<Rightarrow> int \<Rightarrow> Runner thread_ops" where
  "runner_ops pool now =
     \<lparr>t_GetID = Runner_GetID pool,
      t_SetChannel = (\<lambda>br. br\<lparr>br_eventsCh := True\<rparr>),
      t_Start = (\<lambda>br. (None, Runner_Start br)),
      t_Stop = Runner_Stop,
      t_IsStarted = (\<lambda>br. st_Started (br_status br)),
      t_CanBeDeleted = Runner_CanBeDeleted now\<rparr>"

section \<open>Waiting for BGSAVE\<close>

definition errBGSave :: "error \<Rightarrow> error" where
  "errBGSave e = WrappedError ''redis cmd (BGSAVE) error: '' e"

definition errLastSave :: "error \<Rightarrow> error" where
  "errLastSave e = WrappedError ''redis cmd (LASTSAVE) error: '' e"

text \<open>
  The select of the polling loop sees ticks and the end of the context. The loop runs over the
  events in the order the select takes them; \<open>Polling\<close> is a loop that is still waiting after
  the given ones.
\<close>

datatype poll_event = Tick | CtxDone

datatype save_result = Polling | Returned "error option"

fun poll_loop :: "'w lib \<Rightarrow> srvref \<Rightarrow> int \<Rightarrow> poll_event list \<Rightarrow> ('w, save_result) go" where
  "poll_loop X srv prevsave [] w = Some (Polling, w)"
| "poll_loop X srv prevsave (CtxDone # es) w = Some (Returned (Some (ErrorString ''context cancelled'')), w)"
| "poll_loop X srv prevsave (Tick # es) w =
     do { (r, w) \<leftarrow> RedisLastSave X srv w;
          case r of
            Inl e \<Rightarrow> poll_loop X srv prevsave es w
          | Inr lastsave \<Rightarrow>
              if lastsave > prevsave then Some (Returned None, w) else poll_loop X srv prevsave es w }"

definition BackgroundSave :: "'w lib \<Rightarrow> Runner \<Rightarrow> poll_event list \<Rightarrow> ('w, save_result) go" where
  "BackgroundSave X br events w =
     do { (r, w) \<leftarrow> RedisLastSave X (br_Server br) w;
          case r of
            Inl e \<Rightarrow> Some (Returned (Some (errLastSave e)), w)
          | Inr prevsave \<Rightarrow>
              do { (e, w) \<leftarrow> RedisBGSave X (br_Server br) w;
                   case e of
                     Some e \<Rightarrow> Some (Returned (Some (errBGSave e)), w)
                   | None \<Rightarrow> poll_loop X (br_Server br) prevsave events w } }"

section \<open>Files and tags\<close>

record time_format =
  fmt_day :: "int \<Rightarrow> string"
  fmt_hour :: "int \<Rightarrow> string"
  fmt_rfc3339 :: "int \<Rightarrow> string"

definition BackupFileBaseName :: "Runner \<Rightarrow> string" where
  "BackupFileBaseName br = ''redis-backup'' @ ''_'' @ br_ShardName br"

definition BackupFileBaseNameWithTimeSuffix :: "string \<Rightarrow> Runner \<Rightarrow> string" where
  "BackupFileBaseNameWithTimeSuffix timeSuffix br = BackupFileBaseName br @ ''_'' @ timeSuffix"

definition BackupFile :: "time_format \<Rightarrow> Runner \<Rightarrow> string" where
  "BackupFile F br =
     BackupFileBaseNameWithTimeSuffix (fmt_rfc3339 F (br_Timestamp br)) br @ ''.'' @ ''rdb''"

definition BackupFileCompressed :: "time_format \<Rightarrow> Runner \<Rightarrow> string" where
  "BackupFileCompressed F br = BackupFile F br @ ''.gz''"

definition BackupFileS3Path :: "time_format \<Rightarrow> Runner \<Rightarrow> string" where
  "BackupFileS3Path F br = br_S3Path br @ ''/'' @ BackupFileCompressed F br"

record s3_object =
  o_Key :: string
  o_LastModified :: int
  o_Size :: "int option"

text \<open>The S3 client: whether it can be created, and \<^verbatim>\<open>ListObjectsV2\<close> of a bucket and prefix.\<close>

record 'w s3lib =
  s3_Client :: "Runner \<Rightarrow> error option"
  s3_ListObjectsV2 :: "string \<Rightarrow> string \<Rightarrow> ('w, error + s3_object list) go"

definition day_prefix :: "time_format \<Rightarrow> Runner \<Rightarrow> string" where
  "day_prefix F br = br_S3Path br @ ''/'' @ BackupFileBaseNameWithTimeSuffix (fmt_day F (br_Timestamp br)) br"

definition hour_prefix :: "time_format \<Rightarrow> Runner \<Rightarrow> string" where
  "hour_prefix F br = br_S3Path br @ ''/'' @ BackupFileBaseNameWithTimeSuffix (fmt_hour F (br_Timestamp br)) br"

text \<open>An empty listing indexes before its start and panics.\<close>

definition CheckBackup ::
    "'w s3lib \<Rightarrow> time_format \<Rightarrow> Runner \<Rightarrow> ('w, error option \<times> Runner) go" where
  "CheckBackup S F br w =
     (case s3_Client S br of
        Some e \<Rightarrow> Some ((Some e, br), w)
      | None \<Rightarrow>
          do { (r, w) \<leftarrow> s3_ListObjectsV2 S (br_S3Bucket br) (hour_prefix F br) w;
               case r of
                 Inl e \<Rightarrow> Some ((Some e, br), w)
               | Inr contents \<Rightarrow>
                   if contents = [] then None
                   else
                     let latest = last (sort_key o_LastModified contents)
                     in if BackupFileS3Path F br \<noteq> o_Key latest
                        then Some ((Some (ErrorString (''latest backup '' @ o_Key latest @
                               '' has different key than expected ('' @ BackupFileS3Path F br @ '')'')), br), w)
                        else Some ((None, case o_Size latest of
                               None \<Rightarrow> br
                             | Some n \<Rightarrow> br\<lparr>br_status := (br_status br)\<lparr>st_BackupSize := n\<rparr>\<rparr>), w) })"

datatype Retention = Retention90d | Retention7d | Retention24h

definition retention_str :: "Retention \<Rightarrow> string" where
  "retention_str r = (case r of Retention90d \<Rightarrow> ''90d'' | Retention7d \<Rightarrow> ''7d'' | Retention24h \<Rightarrow> ''24h'')"

definition retention_of :: "s3_object list \<Rightarrow> s3_object list \<Rightarrow> Retention" where
  "retention_of day hour =
     (if length day = 0 then Retention90d else if length hour = 0 then Retention7d else Retention24h)"

text \<open>\<^verbatim>\<open>url.QueryEscape\<close> and \<^verbatim>\<open>url.Values.Encode\<close>, which orders the keys.\<close>

definition upper_hexdigit :: "nat \<Rightarrow> char" where
  "upper_hexdigit d = ''0123456789ABCDEF'' ! d"

definition query_escape_char :: "char \<Rightarrow> string" where
  "query_escape_char c =
     (let n = of_char c :: nat
      in if 48 \<le> n \<and> n \<le> 57 \<or> 65 \<le> n \<and> n \<le> 90 \<or> 97 \<le> n \<and> n \<le> 122 \<or> n = 45 \<or> n = 46 \<or> n = 95 \<or> n = 126
         then [c]
         else if n = 32 then ''+''
         else [CHR ''%'', upper_hexdigit (n div 16), upper_hexdigit (n mod 16)])"

definition QueryEscape :: "string \<Rightarrow> string" where
  "QueryEscape s = concat (map query_escape_char s)"

definition Values_Encode :: "(string \<times> string) list \<Rightarrow> string" where
  "Values_Encode kvs =
     join ''&'' (map (\<lambda>(k, v). QueryEscape k @ ''='' @ QueryEscape v) (sort_key fst kvs))"

definition resolveTags ::
    "'w s3lib \<Rightarrow> time_format \<Rightarrow> ServerPool \<Rightarrow> Runner \<Rightarrow> ('w, error + string) go" where
  "resolveTags S F pool br w =
     (case s3_Client S br of
        Some e \<Rightarrow> Some (Inl e, w)
      | None \<Rightarrow>
          do { (r, w) \<leftarrow> s3_ListObjectsV2 S (br_S3Bucket br) (day_prefix F br) w;
               case r of
                 Inl e \<Rightarrow> Some (Inl e, w)
               | Inr day \<Rightarrow>
                   do { (r, w) \<leftarrow> s3_ListObjectsV2 S (br_S3Bucket br) (hour_prefix F br) w;
                        case r of
                          Inl e \<Rightarrow> Some (Inl e, w)
                        | Inr hour \<Rightarrow>
                            Some (Inr (Values_Encode
                              [(''Layer'', ''bck-storage''), (''App'', ''Backend''), (''Shard'', br_ShardName br),
                               (''HostAddress'', ID (br_Server br)), (''HostAlias'', alias_of pool (br_Server br)),
                               (''Retention'', retention_str (retention_of day hour))]), w) } })"

section \<open>Metrics\<close>

record backup_metrics =
  bm_size :: "string \<rightharpoonup> int"
  bm_failure :: "string \<rightharpoonup> int"
  bm_success :: "string \<rightharpoonup> int"
  bm_duration :: "string \<rightharpoonup> int"

text \<open>\<^verbatim>\<open>With(labels)\<close> of a counter creates the series; \<^verbatim>\<open>Add\<close> and \<^verbatim>\<open>Inc\<close> change it.\<close>

definition series_Add :: "string \<Rightarrow> int \<Rightarrow> (string \<rightharpoonup> int) \<Rightarrow> (string \<rightharpoonup> int)" where
  "series_Add l n c = c(l \<mapsto> (case c l of None \<Rightarrow> 0 | Some v \<Rightarrow> v) + n)"

text \<open>\<^verbatim>\<open>math.Round\<close> of a duration in seconds.\<close>

definition round_seconds :: "int \<Rightarrow> int" where
  "round_seconds d =
     (if d \<ge> 0 then (d + 500000000) div 1000000000 else - ((- d + 500000000) div 1000000000))"

text \<open>
  \<open>serr\<close> and \<open>ferr\<close> are the errors of \<^verbatim>\<open>Write\<close> on the success and on the failure counter. Both
  branches initialise the failure counter.
\<close>

definition publishMetrics ::
    "error option \<Rightarrow> error option \<Rightarrow> Runner \<Rightarrow> backup_metrics \<Rightarrow> backup_metrics" where
  "publishMetrics serr ferr r m =
     (let l = br_ShardName r;
          m = m\<lparr>bm_success := series_Add l 0 (bm_success m)\<rparr>;
          m = (if serr \<noteq> None then m\<lparr>bm_failure := series_Add l 0 (bm_failure m)\<rparr> else m);
          m = m\<lparr>bm_failure := series_Add l 0 (bm_failure m)\<rparr>;
          m = (if ferr \<noteq> None then m\<lparr>bm_failure := series_Add l 0 (bm_failure m)\<rparr> else m)
      in if st_Error (br_status r) \<noteq> None
         then m\<lparr>bm_size := (bm_size m)(l \<mapsto> 0), bm_failure := series_Add l 1 (bm_failure m)\<rparr>
         else m\<lparr>bm_size := (bm_size m)(l \<mapsto> st_BackupSize (br_status r)),
                bm_duration := (bm_duration m)
                  (l \<mapsto> round_seconds (st_FinishedAt (br_status r) - br_Timestamp r)),
                bm_success := series_Add l 1 (bm_success m)\<rparr>)"

section \<open>The two goroutines\<close>

text \<open>
  The worker goroutine saves, uploads and checks; an error of any of the three waits on the
  unbuffered error channel, success closes the other one. The supervisor goroutine takes the
  first of the timer, an error and the success, records it, sends an event to the controller,
  publishes the metrics and ends. \<open>serr\<close> and \<open>ferr\<close> are those of \<^const>\<open>publishMetrics\<close>.
\<close>

datatype worker = Saving | Uploading | Checking | Sending error | WorkDone | WorkerGone

record run_state =
  run_runner :: Runner
  run_worker :: worker
  run_supervised :: bool
  run_events :: nat
  run_metrics :: backup_metrics

definition run_start :: "Runner \<Rightarrow> backup_metrics \<Rightarrow> run_state" where
  "run_start br m = \<lparr>run_runner = Runner_Start br, run_worker = Saving, run_supervised = True,
     run_events = 0, run_metrics = m\<rparr>"

definition run_finish ::
    "error option \<Rightarrow> error option \<Rightarrow> (RunnerStatus \<Rightarrow> RunnerStatus) \<Rightarrow> run_state \<Rightarrow> run_state" where
  "run_finish serr ferr upd s =
     (let br = (run_runner s)\<lparr>br_status := upd ((br_status (run_runner s))\<lparr>st_Finished := True\<rparr>)\<rparr>
      in s\<lparr>run_runner := br, run_supervised := False, run_events := run_events s + 1,
           run_metrics := publishMetrics serr ferr br (run_metrics s)\<rparr>)"

definition timeout_error :: "Runner \<Rightarrow> string \<Rightarrow> error" where
  "timeout_error br d = ErrorString (''timeout reached ('' @ d @ '')'')"

definition success_status :: "time_format \<Rightarrow> Runner \<Rightarrow> int \<Rightarrow> RunnerStatus \<Rightarrow> RunnerStatus" where
  "success_status F br t st =
     st\<lparr>st_BackupFile := ''s3://'' @ br_S3Bucket br @ ''/'' @ br_S3Path br @ ''/'' @ BackupFileCompressed F br,
        st_FinishedAt := t\<rparr>"

inductive run_step :: "time_format \<Rightarrow> run_state \<Rightarrow> run_state \<Rightarrow> bool" for F where
  saved: "run_worker s = Saving \<Longrightarrow> run_step F s (s\<lparr>run_worker := Uploading\<rparr>)"
| uploaded: "run_worker s = Uploading \<Longrightarrow> run_step F s (s\<lparr>run_worker := Checking\<rparr>)"
| checked: "run_worker s = Checking \<Longrightarrow>
    br = run_runner s \<Longrightarrow>
    br' = (case sz of None \<Rightarrow> br | Some n \<Rightarrow> br\<lparr>br_status := (br_status br)\<lparr>st_BackupSize := n\<rparr>\<rparr>) \<Longrightarrow>
    run_step F s (s\<lparr>run_worker := WorkDone, run_runner := br'\<rparr>)"
| failed: "run_worker s \<in> {Saving, Uploading, Checking} \<Longrightarrow> run_step F s (s\<lparr>run_worker := Sending e\<rparr>)"
| timer: "run_supervised s \<Longrightarrow>
    s1 = s\<lparr>run_runner := (run_runner s)\<lparr>br_cancel := Some True\<rparr>\<rparr> \<Longrightarrow>
    run_step F s (run_finish serr ferr (\<lambda>st. st\<lparr>st_Error := Some (timeout_error (run_runner s) d)\<rparr>) s1)"
| error_received: "run_supervised s \<Longrightarrow> run_worker s = Sending e \<Longrightarrow>
    run_step F s (run_finish serr ferr (\<lambda>st. st\<lparr>st_Error := Some e\<rparr>) (s\<lparr>run_worker := WorkerGone\<rparr>))"
| completed: "run_supervised s \<Longrightarrow> run_worker s = WorkDone \<Longrightarrow>
    run_step F s (run_finish serr ferr (success_status F (run_runner s) t) s)"
| stopped: "Runner_Stop (run_runner s) = Some br \<Longrightarrow> run_step F s (s\<lparr>run_runner := br\<rparr>)"

inductive_cases run_stepE: "run_step F s s'"

inductive run_reach :: "time_format \<Rightarrow> Runner \<Rightarrow> backup_metrics \<Rightarrow> run_state \<Rightarrow> bool" for F br0 m0 where
  run_init: "run_reach F br0 m0 (run_start br0 m0)"
| run_next: "run_reach F br0 m0 s \<Longrightarrow> run_step F s s' \<Longrightarrow> run_reach F br0 m0 s'"

section \<open>Properties of a run\<close>

definition series_value :: "(string \<rightharpoonup> int) \<Rightarrow> string \<Rightarrow> int" where
  "series_value c l = (case c l of None \<Rightarrow> 0 | Some v \<Rightarrow> v)"

lemma series_value_Add: "series_value (series_Add l n c) k = series_value c k + (if k = l then n else 0)"
  by (auto simp: series_value_def series_Add_def)

lemma publishMetrics_counts:
  "series_value (bm_failure (publishMetrics serr ferr r m)) k =
     series_value (bm_failure m) k + (if k = br_ShardName r \<and> st_Error (br_status r) \<noteq> None then 1 else 0)"
  "series_value (bm_success (publishMetrics serr ferr r m)) k =
     series_value (bm_success m) k + (if k = br_ShardName r \<and> st_Error (br_status r) = None then 1 else 0)"
  by (auto simp: publishMetrics_def Let_def series_value_Add)

definition run_inv :: "time_format \<Rightarrow> Runner \<Rightarrow> backup_metrics \<Rightarrow> run_state \<Rightarrow> bool" where
  "run_inv F br0 m0 s \<longleftrightarrow>
     (let br = run_runner s; st = br_status br; l = br_ShardName br0;
          failures = series_value (bm_failure (run_metrics s)) l - series_value (bm_failure m0) l;
          successes = series_value (bm_success (run_metrics s)) l - series_value (bm_success m0) l
      in st_Started st \<and> br_cancel br \<noteq> None \<and>
         (br_ShardName br, br_S3Bucket br, br_S3Path br, br_Timestamp br)
           = (br_ShardName br0, br_S3Bucket br0, br_S3Path br0, br_Timestamp br0) \<and>
         (st_Finished st \<longleftrightarrow> \<not> run_supervised s) \<and>
         run_events s = (if st_Finished st then 1 else 0) \<and>
         failures = (if st_Finished st \<and> st_Error st \<noteq> None then 1 else 0) \<and>
         successes = (if st_Finished st \<and> st_Error st = None then 1 else 0) \<and>
         (\<not> st_Finished st \<longrightarrow> st_Error st = None \<and> run_worker s \<noteq> WorkerGone) \<and>
         (st_Finished st \<and> st_Error st = None \<longrightarrow>
            run_worker s = WorkDone \<and>
            st_BackupFile st = ''s3://'' @ br_S3Bucket br0 @ ''/'' @ br_S3Path br0 @ ''/'' @ BackupFileCompressed F br0))"

lemma BackupFileCompressed_cong:
  "br_ShardName br = br_ShardName br' \<Longrightarrow> br_Timestamp br = br_Timestamp br' \<Longrightarrow>
     BackupFileCompressed F br = BackupFileCompressed F br'"
  by (simp add: BackupFileCompressed_def BackupFile_def BackupFileBaseNameWithTimeSuffix_def BackupFileBaseName_def)

lemma run_step_inv: "run_step F s s' \<Longrightarrow> run_inv F br0 m0 s \<Longrightarrow> run_inv F br0 m0 s'"
proof (induction rule: run_step.induct)
  case (completed s serr ferr t)
  then show ?case
    by (auto simp: run_inv_def run_finish_def Let_def publishMetrics_counts success_status_def
        intro: BackupFileCompressed_cong)
qed (auto simp: run_inv_def run_finish_def Let_def publishMetrics_counts Runner_Stop_def split: option.splits)

interpretation runner: runnable_thread "runner_ops pool now"
  by unfold_locales (auto simp: runner_ops_def Runner_Start_def)


text \<open>A poll that does not see the end of the save: an error, or an old time.\<close>

definition stale_reply :: "int \<Rightarrow> FakeResponse \<Rightarrow> bool" where
  "stale_reply prev r \<longleftrightarrow>
     (case InjectResponse r of AInt v \<Rightarrow> InjectError r \<noteq> None \<or> v \<le> prev | _ \<Rightarrow> False)"

lemma poll_loop_stale:
  assumes "list_all (stale_reply prev) stale" and "w (ID srv) = stale @ rest"
  shows "poll_loop fake_lib srv prev (replicate (length stale) Tick @ es) w =
    poll_loop fake_lib srv prev es (w(ID srv := rest))"
  using assms
proof (induction stale arbitrary: w)
  case Nil
  then show ?case by (simp add: fun_upd_idem)
next
  case (Cons r stale)
  obtain v where v: "InjectResponse r = AInt v" "InjectError r \<noteq> None \<or> v \<le> prev"
    using Cons.prems(1) by (auto simp: stale_reply_def split: any.splits)
  have "RedisLastSave fake_lib srv w =
      Some (case InjectError r of Some e \<Rightarrow> Inl e | None \<Rightarrow> Inr v, w(ID srv := stale @ rest))"
    using Cons.prems(2) v by (simp add: RedisLastSave_def fake_defs)
  moreover have "poll_loop fake_lib srv prev (replicate (length stale) Tick @ es) (w(ID srv := stale @ rest)) =
      poll_loop fake_lib srv prev es (w(ID srv := rest))"
    by (subst Cons.IH) (use Cons.prems(1) in simp_all)
  ultimately show ?case using v(2) by (cases "InjectError r") (simp_all del: fun_upd_apply)
qed

text \<open>
  C31. The wait for \<^verbatim>\<open>BGSAVE\<close> ends with the save. Whatever the client answers to the polls,
  transient errors included, \<^verbatim>\<open>BackgroundSave\<close> returns without error at the first tick that
  sees a newer \<^verbatim>\<open>LASTSAVE\<close>, and keeps polling before it.
\<close>

theorem BackgroundSave_returns:
  assumes "w (ID (br_Server br)) =
      \<lparr>InjectResponse = AInt prev, InjectError = None\<rparr> # \<lparr>InjectResponse = ok, InjectError = None\<rparr> #
      stale @ \<lparr>InjectResponse = AInt v, InjectError = None\<rparr> # rest"
    and "list_all (stale_reply prev) stale" and "prev < v"
  shows "BackgroundSave fake_lib br (replicate (length stale) Tick @ Tick # es) w =
      Some (Returned None, w(ID (br_Server br) := rest)) \<and>
    (\<forall>n \<le> length stale. \<exists>w'. BackgroundSave fake_lib br (replicate n Tick) w = Some (Polling, w'))"
proof -
  let ?a = "ID (br_Server br)"
  let ?fresh = "\<lparr>InjectResponse = AInt v, InjectError = None\<rparr>"
  have bg: "BackgroundSave fake_lib br es w =
      poll_loop fake_lib (br_Server br) prev es (w(?a := stale @ ?fresh # rest))" for es
    using assms(1) by (simp add: BackgroundSave_def RedisLastSave_def RedisBGSave_def fake_defs)
  have "BackgroundSave fake_lib br (replicate (length stale) Tick @ Tick # es) w =
      poll_loop fake_lib (br_Server br) prev (Tick # es) (w(?a := ?fresh # rest))"
    unfolding bg by (subst poll_loop_stale [OF assms(2)]) simp_all
  also have "\<dots> = Some (Returned None, w(?a := rest))"
    using assms(3) by (simp add: RedisLastSave_def fake_defs)
  finally have first: "BackgroundSave fake_lib br (replicate (length stale) Tick @ Tick # es) w =
      Some (Returned None, w(?a := rest))" .
  have "\<exists>w'. BackgroundSave fake_lib br (replicate n Tick) w = Some (Polling, w')" if "n \<le> length stale" for n
  proof -
    have "list_all (stale_reply prev) (take n stale)" using assms(2) by (auto simp: list_all_iff dest: in_set_takeD)
    moreover have "stale @ ?fresh # rest = take n stale @ drop n stale @ ?fresh # rest" by simp
    ultimately have "poll_loop fake_lib (br_Server br) prev (replicate (length (take n stale)) Tick @ [])
        (w(?a := stale @ ?fresh # rest)) = poll_loop fake_lib (br_Server br) prev []
          ((w(?a := stale @ ?fresh # rest))(?a := drop n stale @ ?fresh # rest))"
      by (intro poll_loop_stale) simp_all
    with that show ?thesis unfolding bg by (simp del: fun_upd_apply)
  qed
  with first show ?thesis by blast
qed

section \<open>The check of the uploaded object\<close>

text \<open>
  The documented behaviour of \<^verbatim>\<open>ListObjectsV2\<close>: the objects of the bucket whose keys have the
  prefix; \<open>bucket w b\<close> are the objects of the bucket \<open>b\<close>.
\<close>

locale s3_bucket =
  fixes S :: "'w s3lib" and bucket :: "'w \<Rightarrow> string \<Rightarrow> s3_object list"
  assumes client: "s3_Client S br = None"
    and listing: "s3_ListObjectsV2 S b p w = Some (Inr (filter (\<lambda>ob. prefix p (o_Key ob)) (bucket w b)), w)"
begin

lemma CheckBackup_eq:
  assumes "filter (\<lambda>ob. prefix (hour_prefix F br) (o_Key ob)) (bucket w (br_S3Bucket br)) \<noteq> []"
  shows "CheckBackup S F br w =
    (let latest = last (sort_key o_LastModified
           (filter (\<lambda>ob. prefix (hour_prefix F br) (o_Key ob)) (bucket w (br_S3Bucket br))))
     in if BackupFileS3Path F br \<noteq> o_Key latest
        then Some ((Some (ErrorString (''latest backup '' @ o_Key latest @
               '' has different key than expected ('' @ BackupFileS3Path F br @ '')'')), br), w)
        else Some ((None, case o_Size latest of
               None \<Rightarrow> br
             | Some n \<Rightarrow> br\<lparr>br_status := (br_status br)\<lparr>st_BackupSize := n\<rparr>\<rparr>), w))"
  using assms by (simp add: CheckBackup_def client listing Let_def)

end

definition s3_laws :: "'w s3lib \<Rightarrow> ('w \<Rightarrow> string \<Rightarrow> s3_object list) \<Rightarrow> bool" where
  "s3_laws S bucket \<longleftrightarrow> (\<forall>br. s3_Client S br = None) \<and>
     (\<forall>b p w. s3_ListObjectsV2 S b p w = Some (Inr (filter (\<lambda>ob. prefix p (o_Key ob)) (bucket w b)), w))"

text \<open>A simulated S3: the world is the content of the buckets.\<close>

definition sim_s3 :: "(string \<Rightarrow> s3_object list) s3lib" where
  "sim_s3 = \<lparr>s3_Client = (\<lambda>br. None),
     s3_ListObjectsV2 = (\<lambda>b p w. Some (Inr (filter (\<lambda>ob. prefix p (o_Key ob)) (w b)), w))\<rparr>"

interpretation sim_s3: s3_bucket sim_s3 "\<lambda>w. w"
  by unfold_locales (simp_all add: sim_s3_def)

lemma sorted_map_last: "sorted (map f xs) \<Longrightarrow> x \<in> set xs \<Longrightarrow> f x \<le> f (last xs)"
  by (induction xs) auto

lemma last_sort_key_max:
  assumes "x \<in> set xs" and "\<forall>y \<in> set xs. y \<noteq> x \<longrightarrow> f y < f x"
  shows "last (sort_key f xs) = x"
proof -
  let ?s = "sort_key f xs"
  have ne: "?s \<noteq> []" using assms(1) by (metis empty_iff list.set(1) set_sort)
  have "f x \<le> f (last ?s)" by (rule sorted_map_last) (simp_all add: assms(1))
  moreover have "last ?s \<in> set xs" using ne by (metis last_in_set set_sort)
  ultimately show ?thesis using assms(2) by force
qed

text \<open>What the layouts of \<^verbatim>\<open>time.Format\<close> have in common: each extends the coarser one.\<close>

definition format_laws :: "time_format \<Rightarrow> bool" where
  "format_laws F \<longleftrightarrow>
     (\<forall>t. prefix (fmt_day F t) (fmt_hour F t) \<and> prefix (fmt_hour F t) (fmt_rfc3339 F t))"

lemma own_key_prefix:
  assumes "format_laws F"
  shows "prefix (hour_prefix F br) (BackupFileS3Path F br)" and "prefix (day_prefix F br) (hour_prefix F br)"
proof -
  obtain x y where "fmt_rfc3339 F (br_Timestamp br) = fmt_hour F (br_Timestamp br) @ x"
    "fmt_hour F (br_Timestamp br) = fmt_day F (br_Timestamp br) @ y"
    using assms unfolding format_laws_def prefix_def by meson
  then show "prefix (hour_prefix F br) (BackupFileS3Path F br)" "prefix (day_prefix F br) (hour_prefix F br)"
    by (simp_all add: hour_prefix_def day_prefix_def BackupFileS3Path_def BackupFileCompressed_def BackupFile_def
        BackupFileBaseNameWithTimeSuffix_def)
qed

text \<open>
  The check of a backup. Once the object of the backup is in the bucket the check does not
  panic. If it is the newest of the objects of its shard and hour the check succeeds and
  records its size; if the newest one has another key, the check fails and names that key.
\<close>

lemma CheckBackup_correct:
  assumes "s3_laws S bucket" and "format_laws F"
    and "ob \<in> set (bucket w (br_S3Bucket br))" and "o_Key ob = BackupFileS3Path F br"
    and "new \<in> set (bucket w (br_S3Bucket br))" and "prefix (hour_prefix F br) (o_Key new)"
    and "\<forall>x \<in> set (bucket w (br_S3Bucket br)). prefix (hour_prefix F br) (o_Key x) \<and> x \<noteq> new \<longrightarrow>
      o_LastModified x < o_LastModified new"
  shows "CheckBackup S F br w =
    (if o_Key new = BackupFileS3Path F br
     then Some ((None, case o_Size new of
         None \<Rightarrow> br
       | Some n \<Rightarrow> br\<lparr>br_status := (br_status br)\<lparr>st_BackupSize := n\<rparr>\<rparr>), w)
     else Some ((Some (ErrorString (''latest backup '' @ o_Key new @ '' has different key than expected ('' @
         BackupFileS3Path F br @ '')'')), br), w))"
proof -
  have S: "s3_bucket S bucket" using assms(1) by (simp add: s3_bucket_def s3_laws_def)
  let ?l = "filter (\<lambda>ob. prefix (hour_prefix F br) (o_Key ob)) (bucket w (br_S3Bucket br))"
  have "ob \<in> set ?l" using assms(3,4) own_key_prefix(1) [OF assms(2)] by simp
  then have ne: "?l \<noteq> []" by (metis empty_iff list.set(1))
  have "last (sort_key o_LastModified ?l) = new"
    using assms(5-7) by (intro last_sort_key_max) auto
  with s3_bucket.CheckBackup_eq [OF S ne] show ?thesis by (simp add: Let_def)
qed

text \<open>
  The retention of a backup: the first backup of the day of a shard is kept for 90 days, the
  first of another hour for 7 days, any other for 24 hours. The tags carry it together with
  the shard and server, escaped.
\<close>

lemma resolveTags_retention:
  fixes S :: "'w s3lib" and bucket :: "'w \<Rightarrow> string \<Rightarrow> s3_object list" and w :: 'w and br :: Runner
    and F :: time_format
  assumes "s3_laws S bucket" and "format_laws F"
  defines "day \<equiv> {ob \<in> set (bucket w (br_S3Bucket br)). prefix (day_prefix F br) (o_Key ob)}"
    and "hour \<equiv> {ob \<in> set (bucket w (br_S3Bucket br)). prefix (hour_prefix F br) (o_Key ob)}"
  shows "hour \<subseteq> day \<and> resolveTags S F pool br w = Some (Inr
    (''App=Backend&HostAddress='' @ QueryEscape (ID (br_Server br)) @
     ''&HostAlias='' @ QueryEscape (alias_of pool (br_Server br)) @ ''&Layer=bck-storage&Retention='' @
     (if day = {} then ''90d'' else if hour = {} then ''7d'' else ''24h'') @
     ''&Shard='' @ QueryEscape (br_ShardName br)), w)"
proof -
  have S: "s3_bucket S bucket" using assms(1) by (simp add: s3_bucket_def s3_laws_def)
  have sub: "hour \<subseteq> day"
    using own_key_prefix(2) [OF assms(2)] by (auto simp: day_def hour_def intro: prefix_order.trans)
  let ?r = "retention_of (filter (\<lambda>ob. prefix (day_prefix F br) (o_Key ob)) (bucket w (br_S3Bucket br)))
      (filter (\<lambda>ob. prefix (hour_prefix F br) (o_Key ob)) (bucket w (br_S3Bucket br)))"
  have r: "retention_str ?r = (if day = {} then ''90d'' else if hour = {} then ''7d'' else ''24h'')"
    by (auto simp: retention_of_def retention_str_def day_def hour_def filter_empty_conv)
  have "retention_str ?r \<in> {''90d'', ''7d'', ''24h''}"
    by (auto simp: retention_of_def retention_str_def)
  then have esc: "QueryEscape (retention_str ?r) = retention_str ?r"
    by (elim insertE emptyE) (simp_all add: QueryEscape_def query_escape_char_def Let_def)
  have keys: "QueryEscape ''App'' = ''App''" "QueryEscape ''Backend'' = ''Backend''"
    "QueryEscape ''HostAddress'' = ''HostAddress''" "QueryEscape ''HostAlias'' = ''HostAlias''"
    "QueryEscape ''Layer'' = ''Layer''" "QueryEscape ''bck-storage'' = ''bck-storage''"
    "QueryEscape ''Retention'' = ''Retention''" "QueryEscape ''Shard'' = ''Shard''"
    by (simp_all add: QueryEscape_def query_escape_char_def Let_def)
  have "resolveTags S F pool br w = Some (Inr (Values_Encode
      [(''Layer'', ''bck-storage''), (''App'', ''Backend''), (''Shard'', br_ShardName br),
       (''HostAddress'', ID (br_Server br)), (''HostAlias'', alias_of pool (br_Server br)),
       (''Retention'', retention_str ?r)]), w)"
    by (simp add: resolveTags_def s3_bucket.client [OF S] s3_bucket.listing [OF S])
  also have "\<dots> = Some (Inr
    (''App=Backend&HostAddress='' @ QueryEscape (ID (br_Server br)) @
     ''&HostAlias='' @ QueryEscape (alias_of pool (br_Server br)) @ ''&Layer=bck-storage&Retention='' @
     retention_str ?r @ ''&Shard='' @ QueryEscape (br_ShardName br)), w)"
    by (simp add: Values_Encode_def keys esc list_less_def list_le_def less_char_def)
  finally show ?thesis using sub unfolding r by simp
qed

section \<open>Witnesses\<close>

definition ex_runner :: Runner where
  "ex_runner = \<lparr>br_Instance = (''ns'', ''backup''), br_ShardName = ''shard01'', br_Server = (''10.0.0.2'', ''6379''),
     br_ScheduledFor = 1700000000000000000, br_Timestamp = 1700000001000000000, br_Timeout = 600000000000,
     br_PollInterval = 60000000000, br_RedisDBFile = ''/data/dump.rdb'', br_SSHUser = ''user'', br_SSHKey = ''key'',
     br_SSHPort = 22, br_SSHSudo = False, br_S3Bucket = ''bucket'', br_S3Path = ''backups'',
     br_AWSAccessKeyID = ''id'', br_AWSSecretAccessKey = ''secret'', br_AWSRegion = ''us-east-1'',
     br_AWSS3Endpoint = None, br_eventsCh = True, br_cancel = None, br_status = no_status\<rparr>"

text \<open>The layouts of the time of the example.\<close>

definition ex_format :: time_format where
  "ex_format = \<lparr>fmt_day = (\<lambda>t. ''2023-11-14''), fmt_hour = (\<lambda>t. ''2023-11-14T22''),
     fmt_rfc3339 = (\<lambda>t. ''2023-11-14T22:13:21Z'')\<rparr>"

definition ex_metrics :: backup_metrics where
  "ex_metrics = \<lparr>bm_size = Map.empty, bm_failure = Map.empty, bm_success = Map.empty, bm_duration = Map.empty\<rparr>"

lemma ex_format_laws: "format_laws ex_format"
  by (simp add: format_laws_def ex_format_def)

lemma ex_s3_laws: "s3_laws sim_s3 (\<lambda>w. w)"
  by (simp add: s3_laws_def sim_s3_def)

definition ex_object :: "string \<Rightarrow> int \<Rightarrow> s3_object" where
  "ex_object key t = \<lparr>o_Key = key, o_LastModified = t, o_Size = Some 42\<rparr>"


theorem BackgroundSave_returns_witness:
  "BackgroundSave fake_lib ex_runner [Tick, Tick, Tick] ((\<lambda>_. [])(''10.0.0.2:6379'' :=
     [\<lparr>InjectResponse = AInt 100, InjectError = None\<rparr>, \<lparr>InjectResponse = AInt 0, InjectError = None\<rparr>,
      \<lparr>InjectResponse = AInt 0, InjectError = Some (ErrorString ''timeout'')\<rparr>,
      \<lparr>InjectResponse = AInt 100, InjectError = None\<rparr>, \<lparr>InjectResponse = AInt 101, InjectError = None\<rparr>]))
   = Some (Returned None, \<lambda>_. [])"
proof -
  let ?stale = "[\<lparr>InjectResponse = AInt 0, InjectError = Some (ErrorString ''timeout'')\<rparr>,
      \<lparr>InjectResponse = AInt 100, InjectError = None\<rparr>]"
  let ?w = "(\<lambda>_. [])(''10.0.0.2:6379'' :=
     [\<lparr>InjectResponse = AInt 100, InjectError = None\<rparr>, \<lparr>InjectResponse = AInt 0, InjectError = None\<rparr>] @
     ?stale @ [\<lparr>InjectResponse = AInt 101, InjectError = None\<rparr>])"
  have "ID (br_Server ex_runner) = ''10.0.0.2:6379''" by (simp add: ex_runner_def ID_def JoinHostPort_def)
  with BackgroundSave_returns [of ?w ex_runner 100 "AInt 0" ?stale 101 "[]" "[]"] show ?thesis
    by (simp add: stale_reply_def fun_upd_idem)
qed

end
