(* ===== verification/BackupController.thy ===== *)
theory BackupController
  imports CommonTypes ShardedCluster BackupRunner
begin

text \<open>
  The status of backups, \<^verbatim>\<open>api/v1alpha1/shardedredisbackup_types.go\<close>, and the phases of the
  controller, \<^verbatim>\<open>internal/controller/shardedredisbackup_controller.go\<close>. The list of backups
  is a Go slice that may be nil (\<^const>\<open>None\<close>), which matters to \<^verbatim>\<open>reflect.DeepEqual\<close>. A
  pointer into the list is an index.
\<close>

section \<open>Specification and defaults\<close>

record SSHOptions =
  ssh_User :: string
  ssh_PrivateKeySecretRef :: string
  ssh_Port :: "int option"
  ssh_Sudo :: "bool option"

record S3Options =
  s3o_Bucket :: string
  s3o_Path :: string
  s3o_Region :: string
  s3o_CredentialsSecretRef :: string
  s3o_ServiceEndpoint :: "string option"

record ShardedRedisBackupSpec =
  srb_SentinelRef :: string
  srb_Schedule :: string
  srb_DBFile :: string
  srb_SSHOptions :: SSHOptions
  srb_S3Options :: S3Options
  srb_Timeout :: "int option"
  srb_HistoryLimit :: "int option"
  srb_PollInterval :: "int option"
  srb_Pause :: "bool option"

text \<open>The value of a pointer, or its default.\<close>

definition SSHOptions_Default :: "SSHOptions \<Rightarrow> SSHOptions" where
  "SSHOptions_Default opts =
     opts\<lparr>ssh_Port := orDefault (ssh_Port opts) (Some 22), ssh_Sudo := orDefault (ssh_Sudo opts) (Some False)\<rparr>"

text \<open>Ten minutes and sixty seconds, in nanoseconds.\<close>

definition ShardedRedisBackupSpec_Default :: "ShardedRedisBackupSpec \<Rightarrow> ShardedRedisBackupSpec" where
  "ShardedRedisBackupSpec_Default spec =
     spec\<lparr>srb_Timeout := orDefault (srb_Timeout spec) (Some 600000000000),
          srb_PollInterval := orDefault (srb_PollInterval spec) (Some 60000000000),
          srb_HistoryLimit := orDefault (srb_HistoryLimit spec) (Some 10),
          srb_Pause := orDefault (srb_Pause spec) (Some False),
          srb_SSHOptions := SSHOptions_Default (srb_SSHOptions spec)\<rparr>"

section \<open>Status\<close>

datatype BackupState = BackupPending | BackupRunning | BackupCompleted | BackupFailed | BackupUnknown

record BackupStatus =
  b_Shard :: string
  b_ServerAlias :: "string option"
  b_ServerID :: "string option"
  b_ScheduledFor :: int
  b_StartedAt :: "int option"
  b_FinishedAt :: "int option"
  b_Message :: string
  b_State :: BackupState
  b_BackupFile :: "string option"
  b_BackupSize :: "int option"

type_synonym BackupStatusList = "BackupStatus list option"

definition backups :: "BackupStatusList \<Rightarrow> BackupStatus list" where
  "backups bl = (case bl of None \<Rightarrow> [] | Some l \<Rightarrow> l)"

text \<open>
  The key that \<^verbatim>\<open>Less\<close> compares, as strings. \<^verbatim>\<open>sort.Sort\<close> may order two backups with the
  same key either way; the model keeps their order.
\<close>

definition backup_key :: "BackupStatus \<Rightarrow> string" where
  "backup_key b = itoa (unixMilli (b_ScheduledFor b)) @ ''-'' @ b_Shard b"

definition AddBackup :: "BackupStatus \<Rightarrow> BackupStatusList \<Rightarrow> BackupStatusList" where
  "AddBackup b bl = Some (sort_desc backup_key (backups bl @ [b]))"

definition DeleteBackup :: "nat \<Rightarrow> BackupStatusList \<Rightarrow> BackupStatusList" where
  "DeleteBackup pos bl = Some (take pos (backups bl) @ drop (Suc pos) (backups bl))"

fun find_backup :: "string \<Rightarrow> BackupState \<Rightarrow> BackupStatus list \<Rightarrow> nat option" where
  "find_backup shard state [] = None"
| "find_backup shard state (b # bs) =
     (if b_Shard b = shard \<and> b_State b = state then Some 0 else map_option Suc (find_backup shard state bs))"

definition FindLastBackup :: "string \<Rightarrow> BackupState \<Rightarrow> BackupStatusList \<Rightarrow> nat option" where
  "FindLastBackup shard state bl = find_backup shard state (backups bl)"

definition GetRunningBackups :: "BackupStatusList \<Rightarrow> nat list" where
  "GetRunningBackups bl =
     filter (\<lambda>i. b_State (backups bl ! i) = BackupRunning) [0..<length (backups bl)]"

text \<open>
  \<^verbatim>\<open>ApplyHistoryLimit\<close>: the first backups of each shard, up to the limit, sorted again. A
  negative limit is a negative capacity and panics.
\<close>

fun take_shard :: "string \<Rightarrow> nat \<Rightarrow> BackupStatus list \<Rightarrow> BackupStatus list" where
  "take_shard shard n [] = []"
| "take_shard shard 0 bs = []"
| "take_shard shard (Suc n) (b # bs) =
     (if b_Shard b = shard then b # take_shard shard n bs else take_shard shard (Suc n) bs)"

definition ApplyHistoryLimit ::
    "int \<Rightarrow> string list \<Rightarrow> BackupStatusList \<Rightarrow> (bool \<times> BackupStatusList) option" where
  "ApplyHistoryLimit limit shards bl =
     (if limit < 0 \<and> shards \<noteq> [] then None
      else
        let flat = sort_desc backup_key (concat (map (\<lambda>s. take_shard s (nat limit) (backups bl)) shards))
        in if Some flat \<noteq> bl then Some (True, Some flat) else Some (False, bl))"

section \<open>Scheduling\<close>

definition new_backup :: "string \<Rightarrow> int \<Rightarrow> BackupStatus" where
  "new_backup shard nextRun =
     \<lparr>b_Shard = shard, b_ServerAlias = None, b_ServerID = None, b_ScheduledFor = nextRun,
      b_StartedAt = None, b_FinishedAt = None, b_Message = ''backup scheduled'', b_State = BackupPending,
      b_BackupFile = None, b_BackupSize = None\<rparr>"

definition schedule_shard :: "int \<Rightarrow> string \<Rightarrow> BackupStatusList \<Rightarrow> bool \<times> BackupStatusList" where
  "schedule_shard nextRun shard bl =
     (if FindLastBackup shard BackupRunning bl \<noteq> None then (False, bl)
      else case FindLastBackup shard BackupPending bl of
             Some pos \<Rightarrow>
               if nextRun = b_ScheduledFor (backups bl ! pos) then (False, bl)
               else (True, AddBackup (new_backup shard nextRun) (DeleteBackup pos bl))
           | None \<Rightarrow> (True, AddBackup (new_backup shard nextRun) bl))"

fun schedule_shards :: "int \<Rightarrow> string list \<Rightarrow> BackupStatusList \<Rightarrow> bool \<times> BackupStatusList" where
  "schedule_shards nextRun [] bl = (False, bl)"
| "schedule_shards nextRun (s # ss) bl =
     (case schedule_shard nextRun s bl of
        (c, bl) \<Rightarrow> (case schedule_shards nextRun ss bl of (c', bl) \<Rightarrow> (c \<or> c', bl)))"

definition reconcileBackupList ::
    "int \<Rightarrow> int \<Rightarrow> string list \<Rightarrow> BackupStatusList \<Rightarrow> (bool \<times> BackupStatusList) option" where
  "reconcileBackupList limit nextRun shards bl =
     (case schedule_shards nextRun shards bl of
        (changed, bl) \<Rightarrow>
          do { (c, bl) \<leftarrow> ApplyHistoryLimit limit shards bl;
               Some (changed \<or> c, bl) })"

section \<open>Reconciliation\<close>

text \<open>
  What the controller has read before it starts: the resource and the secrets. \<open>env_now\<close> is the
  clock at the start of the reconciliation and \<open>env_end\<close> the clock \<^verbatim>\<open>time.Until\<close> reads at its
  end; \<open>env_Next\<close> is the parsed cron schedule, or the error of parsing it.
\<close>

record backup_env =
  env_owner :: owner
  env_spec :: ShardedRedisBackupSpec
  env_cluster :: Cluster
  env_pool :: ServerPool
  env_sshKey :: string
  env_awsAccessKey :: string
  env_awsSecretKey :: string
  env_now :: int
  env_end :: int
  env_Next :: "error + (int \<Rightarrow> int)"

definition new_runner :: "backup_env \<Rightarrow> string \<Rightarrow> srvref \<Rightarrow> int \<Rightarrow> Runner option" where
  "new_runner E shard srv scheduledFor =
     do { timeout \<leftarrow> srb_Timeout (env_spec E);
          poll \<leftarrow> srb_PollInterval (env_spec E);
          port \<leftarrow> ssh_Port (srb_SSHOptions (env_spec E));
          sudo \<leftarrow> ssh_Sudo (srb_SSHOptions (env_spec E));
          Some \<lparr>br_Instance = env_owner E, br_ShardName = shard, br_Server = srv,
                br_ScheduledFor = scheduledFor, br_Timestamp = env_now E, br_Timeout = timeout,
                br_PollInterval = poll, br_RedisDBFile = srb_DBFile (env_spec E),
                br_SSHUser = ssh_User (srb_SSHOptions (env_spec E)), br_SSHKey = env_sshKey E,
                br_SSHPort = port, br_SSHSudo = sudo,
                br_S3Bucket = s3o_Bucket (srb_S3Options (env_spec E)),
                br_S3Path = s3o_Path (srb_S3Options (env_spec E)),
                br_AWSAccessKeyID = env_awsAccessKey E, br_AWSSecretAccessKey = env_awsSecretKey E,
                br_AWSRegion = s3o_Region (srb_S3Options (env_spec E)),
                br_AWSS3Endpoint = s3o_ServiceEndpoint (srb_S3Options (env_spec E)),
                br_eventsCh = False, br_cancel = None, br_status = no_status\<rparr> }"

text \<open>Phase 2: the loop over the shards. The flags are \<^verbatim>\<open>statusChanged\<close> and \<^verbatim>\<open>requeue\<close>.\<close>

record phase2 =
  p2_changed :: bool
  p2_requeue :: bool
  p2_runners :: "Runner list"
  p2_backups :: BackupStatusList

definition run_pending_shard :: "backup_env \<Rightarrow> Shard \<Rightarrow> phase2 \<Rightarrow> phase2 option" where
  "run_pending_shard E shard p =
     (case FindLastBackup (sh_Name shard) BackupPending (p2_backups p) of
        None \<Rightarrow> Some p
      | Some i \<Rightarrow>
          let b = backups (p2_backups p) ! i in
          if b_ScheduledFor b < env_now E then
            (case GetSlavesRO shard of
               [] \<Rightarrow> Some (p\<lparr>p2_requeue := True\<rparr>)
             | srv # _ \<Rightarrow>
                 do { r \<leftarrow> new_runner E (sh_Name shard) (rs_ref srv) (b_ScheduledFor b);
                      Some (p\<lparr>p2_runners := p2_runners p @ [r],
                              p2_backups := Some ((backups (p2_backups p))[i :=
                                b\<lparr>b_ServerAlias := Some (alias_of (env_pool E) (rs_ref srv)),
                                  b_ServerID := Some (rs_ID srv),
                                  b_StartedAt := Some (env_now E),
                                  b_Message := ''backup is running'',
                                  b_State := BackupRunning\<rparr>]),
                              p2_changed := True\<rparr>) })
          else Some p)"

fun run_pending :: "backup_env \<Rightarrow> Shard list \<Rightarrow> phase2 \<Rightarrow> phase2 option" where
  "run_pending E [] p = Some p"
| "run_pending E (s # ss) p = do { p \<leftarrow> run_pending_shard E s p; run_pending E ss p }"

text \<open>Phase 3: the status of one running backup. A running backup without server id panics.\<close>

definition reconcile_running ::
    "backup_env \<Rightarrow> Runner Manager \<Rightarrow> BackupStatus \<Rightarrow> (bool \<times> BackupStatus) option" where
  "reconcile_running E mgr b =
     do { sid \<leftarrow> b_ServerID b;
          case LookupServerByID sid (env_cluster E) of
            None \<Rightarrow> Some (True, b\<lparr>b_State := BackupUnknown, b_Message := ''server not found in cluster''\<rparr>)
          | Some srv \<Rightarrow>
              (case GetThread (backup_ID (b_Shard b) (alias_of (env_pool E) (rs_ref srv)) (b_ScheduledFor b))
                      (env_owner E) mgr of
                 None \<Rightarrow> Some (True, b\<lparr>b_State := BackupUnknown, b_Message := ''runner not found''\<rparr>)
               | Some thread \<Rightarrow>
                   let st = br_status thread in
                   if st_Finished st then
                     Some (True, case st_Error st of
                       Some e \<Rightarrow> b\<lparr>b_State := BackupFailed, b_Message := error_text e\<rparr>
                     | None \<Rightarrow> b\<lparr>b_State := BackupCompleted, b_Message := ''backup complete'',
                                  b_BackupFile := Some (st_BackupFile st),
                                  b_BackupSize := Some (st_BackupSize st),
                                  b_FinishedAt := Some (st_FinishedAt st)\<rparr>)
                   else Some (False, b)) }"

fun reconcile_running_list ::
    "backup_env \<Rightarrow> Runner Manager \<Rightarrow> nat list \<Rightarrow> BackupStatus list \<Rightarrow> (bool \<times> BackupStatus list) option" where
  "reconcile_running_list E mgr [] bs = Some (False, bs)"
| "reconcile_running_list E mgr (i # is) bs =
     do { (c, b) \<leftarrow> reconcile_running E mgr (bs ! i);
          (c', bs) \<leftarrow> reconcile_running_list E mgr is (bs[i := b]);
          Some (c \<or> c', bs) }"

text \<open>
  The outcome of a reconciliation: an error, or whether the status is written to the API
  server, the new list, and after how long to requeue.
\<close>

datatype outcome = Failed error | UpdateStatus | RequeueAfter int

definition minute :: int where "minute = 60000000000"

definition Reconcile ::
    "backup_env \<Rightarrow> BackupStatusList \<Rightarrow> Runner Manager \<Rightarrow> (outcome \<times> BackupStatusList \<times> Runner Manager) option" where
  "Reconcile E bl mgr =
     do { p \<leftarrow> run_pending E (cl_Shards (env_cluster E))
            \<lparr>p2_changed = False, p2_requeue = False, p2_runners = [], p2_backups = bl\<rparr>;
          (e, mgr) \<leftarrow> ReconcileThreads (runner_ops (env_pool E) (env_now E)) (env_owner E) (p2_runners p) mgr;
          case e of
            Some e \<Rightarrow> Some (Failed e, p2_backups p, mgr)
          | None \<Rightarrow>
              if p2_changed p then Some (UpdateStatus, p2_backups p, mgr)
              else if p2_requeue p then Some (RequeueAfter minute, p2_backups p, mgr)
              else
                do { (c, bs) \<leftarrow> reconcile_running_list E mgr (GetRunningBackups (p2_backups p))
                       (backups (p2_backups p));
                     if c then Some (UpdateStatus, Some bs, mgr)
                     else
                       (case env_Next E of
                          Inl e \<Rightarrow> Some (Failed e, p2_backups p, mgr)
                        | Inr nxt \<Rightarrow>
                            do { pause \<leftarrow> srb_Pause (env_spec E);
                                 let nextRun = nxt (env_now E) in
                                 if pause
                                 then Some (RequeueAfter (nextRun + 1000000000 - env_end E), p2_backups p, mgr)
                                 else
                                   do { limit \<leftarrow> srb_HistoryLimit (env_spec E);
                                        (changed, bl) \<leftarrow> reconcileBackupList limit nextRun
                                          (GetShardNames (env_cluster E)) (p2_backups p);
                                        if changed then Some (UpdateStatus, bl, mgr)
                                        else Some (RequeueAfter (nextRun + 1000000000 - env_end E), bl, mgr) } }) } }"

section \<open>Invariant of the list of backups\<close>

definition active :: "BackupStatus \<Rightarrow> bool" where
  "active b \<longleftrightarrow> b_State b = BackupPending \<or> b_State b = BackupRunning"

definition actives :: "string \<Rightarrow> BackupStatus list \<Rightarrow> nat" where
  "actives s bs = length (filter (\<lambda>b. b_Shard b = s \<and> active b) bs)"

text \<open>
  The list is ordered from the newest to the oldest, a shard has at most one backup that is
  pending or running, and a running backup has its server.
\<close>

definition backups_ok :: "BackupStatus list \<Rightarrow> bool" where
  "backups_ok bs \<longleftrightarrow> sorted_wrt (\<lambda>a b. backup_key b \<le> backup_key a) bs \<and> (\<forall>s. actives s bs \<le> 1) \<and>
     (\<forall>b \<in> set bs. b_State b = BackupRunning \<longrightarrow> b_ServerID b \<noteq> None)"

lemma find_backup_Some:
  "find_backup s st bs = Some i \<Longrightarrow> i < length bs \<and> b_Shard (bs ! i) = s \<and> b_State (bs ! i) = st"
  by (induction bs arbitrary: i) (auto split: if_splits)

lemma find_backup_None: "find_backup s st bs = None \<longleftrightarrow> (\<forall>b \<in> set bs. \<not> (b_Shard b = s \<and> b_State b = st))"
  by (induction bs) auto

lemma actives_append: "actives s (xs @ ys) = actives s xs + actives s ys"
  by (simp add: actives_def)

lemma actives_perm: "mset xs = mset ys \<Longrightarrow> actives s xs = actives s ys"
  unfolding actives_def by (rule length_filter_mset)

lemma actives_split:
  "i < length bs \<Longrightarrow>
     actives s bs = actives s (take i bs) + (if b_Shard (bs ! i) = s \<and> active (bs ! i) then 1 else 0)
       + actives s (drop (Suc i) bs)"
  by (subst id_take_nth_drop [of i bs]) (simp_all add: actives_def)

lemma actives_update:
  "i < length bs \<Longrightarrow>
     actives s (bs[i := b]) = actives s (take i bs) + (if b_Shard b = s \<and> active b then 1 else 0)
       + actives s (drop (Suc i) bs)"
  by (simp add: upd_conv_take_nth_drop actives_def)

text \<open>Replacing a backup by one with the same key that is not newly active.\<close>

lemma backups_ok_update:
  assumes "backups_ok bs" and "i < length bs" and "b_Shard b = b_Shard (bs ! i)"
    and "b_ScheduledFor b = b_ScheduledFor (bs ! i)" and "active b \<Longrightarrow> active (bs ! i)"
    and "b_State b = BackupRunning \<Longrightarrow> b_ServerID b \<noteq> None"
  shows "backups_ok (bs[i := b])"
proof -
  have key: "map backup_key (bs[i := b]) = map backup_key bs"
    using assms(2-4) by (simp add: map_update backup_key_def list_update_same_conv)
  have "sorted_wrt (\<lambda>a b. b \<le> a) (map backup_key bs)"
    using assms(1) by (simp add: backups_ok_def sorted_wrt_map)
  then have "sorted_wrt (\<lambda>a b. backup_key b \<le> backup_key a) (bs[i := b])"
    unfolding key [symmetric] by (simp add: sorted_wrt_map)
  moreover have "actives s (bs[i := b]) \<le> 1" for s
  proof -
    have "actives s (bs[i := b]) \<le> actives s bs"
      using actives_split [OF assms(2), of s] actives_update [OF assms(2), of s b] assms(3,5) by auto
    also have "\<dots> \<le> 1" using assms(1) by (simp add: backups_ok_def)
    finally show ?thesis .
  qed
  moreover have "\<forall>x \<in> set (bs[i := b]). b_State x = BackupRunning \<longrightarrow> b_ServerID x \<noteq> None"
    using assms(1,6) by (auto simp: backups_ok_def dest!: set_update_subset_insert [THEN subsetD])
  ultimately show ?thesis by (simp add: backups_ok_def)
qed

lemma backups_ok_sort:
  assumes "\<forall>s. actives s bs \<le> 1" and "\<forall>b \<in> set bs. b_State b = BackupRunning \<longrightarrow> b_ServerID b \<noteq> None"
  shows "backups_ok (sort_desc backup_key bs)"
proof -
  have "actives s (sort_desc backup_key bs) = actives s bs" for s by (rule actives_perm) simp
  with assms show ?thesis by (simp add: backups_ok_def sorted_sort_desc)
qed

text \<open>One shard gets its backup scheduled.\<close>

lemma actives_none:
  assumes "find_backup s BackupRunning bs = None" and "find_backup s BackupPending bs = None"
  shows "actives s bs = 0"
  using assms by (auto simp: actives_def active_def find_backup_None filter_empty_conv)

lemma schedule_shard_ok:
  assumes "backups_ok (backups bl)"
  shows "backups_ok (backups (snd (schedule_shard nextRun s bl)))"
proof -
  let ?bs = "backups bl"
  have add: "backups_ok (sort_desc backup_key (bs @ [new_backup s nextRun]))"
    if "\<forall>t. actives t bs \<le> 1" "actives s bs = 0"
      "\<forall>b \<in> set bs. b_State b = BackupRunning \<longrightarrow> b_ServerID b \<noteq> None" for bs
    using that
    by (intro backups_ok_sort) (auto simp: actives_append actives_def [of _ "[_]"] new_backup_def)
  show ?thesis
  proof (cases "FindLastBackup s BackupRunning bl")
    case (Some i)
    with assms show ?thesis by (simp add: schedule_shard_def)
  next
    case noRun: None
    show ?thesis
    proof (cases "FindLastBackup s BackupPending bl")
      case None
      then have "actives s ?bs = 0" using noRun by (simp add: FindLastBackup_def actives_none)
      with assms add [of ?bs] None noRun show ?thesis
        by (simp add: schedule_shard_def AddBackup_def backups_def [of "Some _"] backups_ok_def)
    next
      case (Some pos)
      let ?del = "take pos ?bs @ drop (Suc pos) ?bs"
      have pos: "pos < length ?bs" "b_Shard (?bs ! pos) = s" "active (?bs ! pos)"
        using find_backup_Some Some by (auto simp: FindLastBackup_def active_def)
      have le: "actives t ?bs \<le> 1" for t using assms by (simp add: backups_ok_def)
      have "actives t ?del \<le> 1" for t using actives_split [OF pos(1), of t] le [of t] by (simp add: actives_append)
      moreover have "actives s ?del = 0"
        using actives_split [OF pos(1), of s] le [of s] pos(2,3) by (simp add: actives_append)
      moreover have "\<forall>b \<in> set ?del. b_State b = BackupRunning \<longrightarrow> b_ServerID b \<noteq> None"
        using assms by (auto simp: backups_ok_def dest: in_set_takeD in_set_dropD)
      ultimately have "backups_ok (sort_desc backup_key (?del @ [new_backup s nextRun]))" by (intro add) auto
      with assms Some noRun show ?thesis
        by (simp add: schedule_shard_def AddBackup_def DeleteBackup_def backups_def [of "Some _"])
    qed
  qed
qed

lemma schedule_shards_ok:
  "backups_ok (backups bl) \<Longrightarrow> backups_ok (backups (snd (schedule_shards nextRun ss bl)))"
proof (induction ss arbitrary: bl)
  case (Cons s ss)
  from Cons.IH [OF schedule_shard_ok [OF Cons.prems, of nextRun s]] show ?case
    by (auto split: prod.splits)
qed simp

subsection \<open>The history limit\<close>

lemma take_shard_eq: "take_shard s n bs = take n (filter (\<lambda>b. b_Shard b = s) bs)"
proof (induction s n bs rule: take_shard.induct)
  case (2 s b bs)
  show ?case by simp
qed auto

definition kept :: "nat \<Rightarrow> string list \<Rightarrow> BackupStatus list \<Rightarrow> BackupStatus list" where
  "kept n shards bs = concat (map (\<lambda>s. take_shard s n bs) shards)"

lemma kept_shard:
  assumes "distinct shards"
  shows "filter (\<lambda>b. b_Shard b = s) (kept n shards bs) =
    (if s \<in> set shards then take n (filter (\<lambda>b. b_Shard b = s) bs) else [])"
proof -
  have other: "filter (\<lambda>b. b_Shard b = s) (take_shard t n bs) = (if t = s then take_shard s n bs else [])" for t
    by (auto simp: take_shard_eq filter_empty_conv filter_id_conv dest!: in_set_takeD)
  show ?thesis using assms unfolding kept_def take_shard_eq
    by (induction shards) (auto simp: other [unfolded take_shard_eq])
qed

lemma set_kept: "set (kept n shards bs) \<subseteq> set bs"
  by (auto simp: kept_def take_shard_eq dest: in_set_takeD)

lemma filter_take_le: "length (filter p (take n xs)) \<le> length (filter p xs)"
  by (metis append_take_drop_id filter_append le_add1 length_append)

lemma actives_kept:
  assumes "distinct shards" shows "actives s (kept n shards bs) \<le> actives s bs"
proof -
  have split: "actives s xs = length (filter active (filter (\<lambda>b. b_Shard b = s) xs))" for xs
    by (simp add: actives_def conj_commute)
  show ?thesis unfolding split kept_shard [OF assms]
    using filter_take_le [of active n "filter (\<lambda>b. b_Shard b = s) bs"] by auto
qed

lemma ApplyHistoryLimit_kept:
  assumes "0 \<le> limit"
  obtains c bl' where "ApplyHistoryLimit limit shards bl = Some (c, bl')"
    "backups bl' = sort_desc backup_key (kept (nat limit) shards (backups bl))"
    "\<not> c \<Longrightarrow> bl' = bl"
proof -
  let ?flat = "sort_desc backup_key (kept (nat limit) shards (backups bl))"
  show thesis
  proof (cases "Some ?flat = bl")
    case True
    then have "backups bl = ?flat" by (metis backups_def option.simps(5))
    with True assms show thesis by (intro that [of False bl]) (simp_all add: ApplyHistoryLimit_def kept_def Let_def)
  next
    case False
    with assms show thesis
      by (intro that [of True "Some ?flat"]) (simp_all add: ApplyHistoryLimit_def kept_def Let_def backups_def)
  qed
qed

lemma reconcileBackupList_ok:
  assumes "backups_ok (backups bl)" and "distinct shards" and "0 \<le> limit"
  shows "\<exists>c bl'. reconcileBackupList limit nextRun shards bl = Some (c, bl') \<and> backups_ok (backups bl')"
proof -
  obtain c1 bl1 where s: "schedule_shards nextRun shards bl = (c1, bl1)" by fastforce
  have ok: "backups_ok (backups bl1)" using schedule_shards_ok [OF assms(1), of nextRun shards] s by simp
  obtain c2 bl2 where a: "ApplyHistoryLimit limit shards bl1 = Some (c2, bl2)"
    "backups bl2 = sort_desc backup_key (kept (nat limit) shards (backups bl1))"
    using ApplyHistoryLimit_kept [OF assms(3)] by blast
  have "actives t (kept (nat limit) shards (backups bl1)) \<le> 1" for t
    using actives_kept [OF assms(2)] ok by (meson backups_ok_def order_trans)
  moreover have "\<forall>b \<in> set (kept (nat limit) shards (backups bl1)).
      b_State b = BackupRunning \<longrightarrow> b_ServerID b \<noteq> None"
    using set_kept ok by (fastforce simp: backups_ok_def)
  ultimately have "backups_ok (backups bl2)" unfolding a(2) by (intro backups_ok_sort) auto
  with s a show ?thesis by (simp add: reconcileBackupList_def)
qed

subsection \<open>Pending and running backups\<close>

definition spec_complete :: "ShardedRedisBackupSpec \<Rightarrow> bool" where
  "spec_complete spec \<longleftrightarrow> srb_Timeout spec \<noteq> None \<and> srb_PollInterval spec \<noteq> None \<and>
     srb_Pause spec \<noteq> None \<and> ssh_Port (srb_SSHOptions spec) \<noteq> None \<and> ssh_Sudo (srb_SSHOptions spec) \<noteq> None \<and>
     (\<exists>n. srb_HistoryLimit spec = Some n \<and> 0 \<le> n)"

lemma new_runner_defined:
  "spec_complete (env_spec E) \<Longrightarrow> \<exists>r. new_runner E s srv t = Some r"
  by (auto simp: spec_complete_def new_runner_def)

lemma run_pending_shard_ok:
  assumes "spec_complete (env_spec E)" and "backups_ok (backups (p2_backups p))"
  shows "\<exists>p'. run_pending_shard E s p = Some p' \<and> backups_ok (backups (p2_backups p'))"
proof (cases "FindLastBackup (sh_Name s) BackupPending (p2_backups p)")
  case None
  with assms show ?thesis by (simp add: run_pending_shard_def)
next
  case (Some i)
  let ?bs = "backups (p2_backups p)"
  have i: "i < length ?bs" "b_State (?bs ! i) = BackupPending"
    using find_backup_Some Some by (auto simp: FindLastBackup_def)
  have up: "backups_ok (?bs[i := (?bs ! i)\<lparr>b_ServerAlias := a, b_ServerID := Some sid, b_StartedAt := t,
      b_Message := m, b_State := BackupRunning\<rparr>])" for a sid t m
    using assms(2) i by (intro backups_ok_update) (auto simp: active_def)
  show ?thesis
  proof (cases "b_ScheduledFor (?bs ! i) < env_now E")
    case False
    with Some assms(2) show ?thesis by (simp add: run_pending_shard_def Let_def)
  next
    case True
    show ?thesis
    proof (cases "GetSlavesRO s")
      case Nil
      with Some True assms(2) show ?thesis by (simp add: run_pending_shard_def Let_def)
    next
      case (Cons srv rest)
      obtain r where "new_runner E (sh_Name s) (rs_ref srv) (b_ScheduledFor (?bs ! i)) = Some r"
        using new_runner_defined [OF assms(1)] by blast
      with Some True Cons up show ?thesis
        by (simp add: run_pending_shard_def Let_def backups_def [of "Some _"])
    qed
  qed
qed

lemma run_pending_ok:
  assumes "spec_complete (env_spec E)"
  shows "backups_ok (backups (p2_backups p)) \<Longrightarrow>
    \<exists>p'. run_pending E ss p = Some p' \<and> backups_ok (backups (p2_backups p'))"
proof (induction ss arbitrary: p)
  case (Cons s ss)
  obtain p1 where "run_pending_shard E s p = Some p1" "backups_ok (backups (p2_backups p1))"
    using run_pending_shard_ok [OF assms Cons.prems] by blast
  with Cons.IH [of p1] show ?case by simp
qed simp

lemma reconcile_running_cases:
  assumes "b_ServerID b \<noteq> None" and "b_State b = BackupRunning"
  shows "\<exists>c b'. reconcile_running E mgr b = Some (c, b') \<and> b_Shard b' = b_Shard b \<and>
    b_ScheduledFor b' = b_ScheduledFor b \<and>
    (if c then b_State b' \<in> {BackupCompleted, BackupFailed, BackupUnknown} else b' = b)"
proof -
  obtain sid where sid: "b_ServerID b = Some sid" using assms(1) by blast
  show ?thesis
  proof (cases "LookupServerByID sid (env_cluster E)")
    case None
    with sid show ?thesis by (auto simp: reconcile_running_def)
  next
    case (Some srv)
    show ?thesis
    proof (cases "GetThread (backup_ID (b_Shard b) (alias_of (env_pool E) (rs_ref srv)) (b_ScheduledFor b))
        (env_owner E) mgr")
      case None
      with sid Some show ?thesis by (auto simp: reconcile_running_def)
    next
      case thread: (Some t)
      with sid Some show ?thesis
        by (cases "st_Error (br_status t)") (auto simp: reconcile_running_def Let_def)
    qed
  qed
qed

lemma reconcile_running_list_ok:
  assumes "distinct is" and "\<forall>i \<in> set is. i < length bs \<and> b_State (bs ! i) = BackupRunning" and "backups_ok bs"
  shows "\<exists>c bs'. reconcile_running_list E mgr is bs = Some (c, bs') \<and> backups_ok bs' \<and> (\<not> c \<longrightarrow> bs' = bs)"
  using assms
proof (induction "is" arbitrary: bs)
  case (Cons i "is")
  have i: "i < length bs" "b_State (bs ! i) = BackupRunning" using Cons.prems(2) by auto
  then have "b_ServerID (bs ! i) \<noteq> None" using Cons.prems(3) by (auto simp: backups_ok_def)
  then obtain c b where r: "reconcile_running E mgr (bs ! i) = Some (c, b)" "b_Shard b = b_Shard (bs ! i)"
    "b_ScheduledFor b = b_ScheduledFor (bs ! i)"
    "if c then b_State b \<in> {BackupCompleted, BackupFailed, BackupUnknown} else b = bs ! i"
    using reconcile_running_cases [OF _ i(2)] by blast
  have "backups_ok (bs[i := b])"
    using Cons.prems(3) i r by (intro backups_ok_update) (auto simp: active_def backups_ok_def split: if_splits)
  moreover have "\<forall>j \<in> set is. j < length (bs[i := b]) \<and> b_State (bs[i := b] ! j) = BackupRunning"
    using Cons.prems(1,2) by (auto simp: nth_list_update)
  ultimately obtain c' bs' where "reconcile_running_list E mgr is (bs[i := b]) = Some (c', bs')" "backups_ok bs'"
    "\<not> c' \<longrightarrow> bs' = bs[i := b]"
    using Cons.IH [of "bs[i := b]"] Cons.prems(1) by auto
  with r show ?case by (auto split: if_splits)
qed auto

lemma GetRunningBackups_ok:
  "distinct (GetRunningBackups bl) \<and>
   (\<forall>i \<in> set (GetRunningBackups bl). i < length (backups bl) \<and> b_State (backups bl ! i) = BackupRunning)"
  by (simp add: GetRunningBackups_def)

section \<open>Properties of the controller\<close>


subsection \<open>Scheduling\<close>

text \<open>The times of the years 2001 to 2286: their milliseconds have thirteen digits.\<close>

definition ms_13 :: "int \<Rightarrow> bool" where
  "ms_13 t \<longleftrightarrow> 10 ^ 12 \<le> unixMilli t \<and> unixMilli t < 10 ^ 13"

lemma backup_key_less:
  assumes "ms_13 (b_ScheduledFor a)" and "ms_13 (b_ScheduledFor b)"
    and "unixMilli (b_ScheduledFor a) < unixMilli (b_ScheduledFor b)"
  shows "backup_key a < backup_key b"
proof -
  let ?m = "nat (unixMilli (b_ScheduledFor a))" and ?n = "nat (unixMilli (b_ScheduledFor b))"
  have itoa: "itoa (unixMilli (b_ScheduledFor a)) = nat_str ?m" "itoa (unixMilli (b_ScheduledFor b)) = nat_str ?n"
    using assms(1,2) by (auto simp: itoa_def ms_13_def)
  have digits: "length (nat_str (nat i)) = Suc 12" if "10 ^ 12 \<le> i" "i < 10 ^ 13" for i :: int
    by (rule length_nat_str_between) (use that in \<open>simp_all add: nat_less_iff le_nat_iff\<close>)
  have len: "length (nat_str ?m) = length (nat_str ?n)"
    using assms(1,2) by (simp only: ms_13_def digits)
  have "?m < ?n" using assms by (simp add: ms_13_def)
  then have "nat_str ?m < nat_str ?n" using nat_str_less_iff [OF len] by simp
  then show ?thesis unfolding backup_key_def itoa list_less_append_same_length [OF len] by blast
qed

abbreviation of_shard :: "string \<Rightarrow> BackupStatus list \<Rightarrow> BackupStatus list" where
  "of_shard s bs \<equiv> filter (\<lambda>b. b_Shard b = s) bs"

lemma schedule_shard_other:
  assumes "t \<noteq> s"
  shows "mset (of_shard s (backups (snd (schedule_shard nextRun t bl)))) = mset (of_shard s (backups bl))"
proof -
  have add: "mset (of_shard s (backups (AddBackup (new_backup t nextRun) bl))) = mset (of_shard s (backups bl))" for bl
    using assms by (simp add: AddBackup_def backups_def [of "Some _"] new_backup_def)
  have del: "of_shard s (backups (DeleteBackup pos bl)) = of_shard s (backups bl)"
    if "FindLastBackup t st bl = Some pos" for pos st
  proof -
    have "pos < length (backups bl)" "b_Shard (backups bl ! pos) = t"
      using find_backup_Some that by (auto simp: FindLastBackup_def)
    then have "of_shard s (backups bl) = of_shard s (take pos (backups bl) @ backups bl ! pos # drop (Suc pos) (backups bl))"
      by (simp add: id_take_nth_drop [symmetric])
    then show ?thesis
      using assms \<open>b_Shard (backups bl ! pos) = t\<close> by (simp add: DeleteBackup_def backups_def [of "Some _"])
  qed
  show ?thesis using add del
    by (auto simp: schedule_shard_def simp del: mset_filter split: option.split)
qed

lemma snd_schedule_shards_Cons [simp]:
  "snd (schedule_shards nextRun (t # ss) bl) = snd (schedule_shards nextRun ss (snd (schedule_shard nextRun t bl)))"
  by (simp split: prod.splits)

lemma schedule_shards_other:
  "s \<notin> set ss \<Longrightarrow> mset (of_shard s (backups (snd (schedule_shards nextRun ss bl)))) = mset (of_shard s (backups bl))"
proof (induction ss arbitrary: bl)
  case (Cons t ss)
  then show ?case using schedule_shard_other [of t s nextRun bl] by (auto simp del: schedule_shards.simps)
qed simp

lemma schedule_shard_same:
  assumes "FindLastBackup s BackupRunning bl = None"
  shows "(\<exists>b \<in> set (backups (snd (schedule_shard nextRun s bl))).
      b_Shard b = s \<and> b_State b = BackupPending \<and> b_ScheduledFor b = nextRun) \<and>
    (\<forall>b \<in> set (backups (snd (schedule_shard nextRun s bl))). b_State b \<noteq> BackupPending \<longrightarrow> b \<in> set (backups bl))"
proof (cases "FindLastBackup s BackupPending bl")
  case None
  with assms show ?thesis
    by (auto simp: schedule_shard_def AddBackup_def backups_def [of "Some _"] new_backup_def)
next
  case (Some pos)
  have pos: "pos < length (backups bl)" "b_Shard (backups bl ! pos) = s" "b_State (backups bl ! pos) = BackupPending"
    using find_backup_Some Some by (auto simp: FindLastBackup_def)
  show ?thesis
  proof (cases "nextRun = b_ScheduledFor (backups bl ! pos)")
    case True
    with Some assms pos show ?thesis by (auto simp: schedule_shard_def intro!: bexI [of _ "backups bl ! pos"])
  next
    case False
    with Some assms show ?thesis
      by (auto simp: schedule_shard_def AddBackup_def DeleteBackup_def backups_def [of "Some _"] new_backup_def
          dest: in_set_takeD in_set_dropD)
  qed
qed

text \<open>The pending backup that scheduling leaves is the newest of its shard.\<close>

lemma schedule_shards_pending:
  assumes "distinct shards" and "s \<in> set shards" and "FindLastBackup s BackupRunning bl = None"
  obtains b where "b \<in> set (backups (snd (schedule_shards nextRun shards bl)))"
    "b_Shard b = s" "b_State b = BackupPending" "b_ScheduledFor b = nextRun"
    "\<forall>x \<in> set (backups (snd (schedule_shards nextRun shards bl))).
       b_Shard x = s \<and> b_State x \<noteq> BackupPending \<longrightarrow> x \<in> set (backups bl)"
proof -
  obtain ss1 ss2 where ss: "shards = ss1 @ s # ss2" by (meson assms(2) split_list)
  have app: "snd (schedule_shards nextRun (xs @ ys) bl) = snd (schedule_shards nextRun ys (snd (schedule_shards nextRun xs bl)))"
    for xs ys bl by (induction xs arbitrary: bl) (simp_all del: schedule_shards.simps(2))
  let ?b1 = "snd (schedule_shards nextRun ss1 bl)"
  let ?b2 = "snd (schedule_shard nextRun s ?b1)"
  let ?b3 = "snd (schedule_shards nextRun ss2 ?b2)"
  have res: "snd (schedule_shards nextRun shards bl) = ?b3"
    unfolding ss app by (simp del: schedule_shards.simps(2))
  have m1: "set (of_shard s (backups ?b1)) = set (of_shard s (backups bl))"
    using schedule_shards_other [of s ss1] assms(1) ss by (intro mset_eq_setD) auto
  have m3: "set (of_shard s (backups ?b3)) = set (of_shard s (backups ?b2))"
    using schedule_shards_other [of s ss2] assms(1) ss by (intro mset_eq_setD) auto
  have "FindLastBackup s BackupRunning ?b1 = None"
    using m1 assms(3) unfolding FindLastBackup_def find_backup_None by (auto simp: set_eq_iff)
  from schedule_shard_same [OF this, of nextRun] obtain b where b: "b \<in> set (backups ?b2)" "b_Shard b = s"
    "b_State b = BackupPending" "b_ScheduledFor b = nextRun"
    and old: "\<forall>b \<in> set (backups ?b2). b_State b \<noteq> BackupPending \<longrightarrow> b \<in> set (backups ?b1)" by blast
  have "b \<in> set (backups ?b3)" using b m3 by (auto simp: set_eq_iff)
  moreover have "\<forall>x \<in> set (backups ?b3). b_Shard x = s \<and> b_State x \<noteq> BackupPending \<longrightarrow> x \<in> set (backups bl)"
    using m3 m1 old by (auto simp: set_eq_iff)
  ultimately show thesis using b(2-4) that [unfolded res] by blast
qed

lemma filter_singleton:
  assumes "length (filter p xs) \<le> 1" and "b \<in> set xs" and "p b"
  shows "filter p xs = [b]"
proof -
  have "b \<in> set (filter p xs)" using assms(2,3) by simp
  with assms(1) show ?thesis by (cases "filter p xs") auto
qed

lemma length_filter_le_one_eq:
  "length (filter p xs) \<le> 1 \<Longrightarrow> x \<in> set xs \<Longrightarrow> p x \<Longrightarrow> y \<in> set xs \<Longrightarrow> p y \<Longrightarrow> x = y"
  using filter_singleton by (metis list.inject)

lemma of_shard_sort_desc_take:
  assumes "b \<in> set bs" and "b_Shard b = s" and "0 < n"
    and "sorted_wrt (\<lambda>x y. backup_key y \<le> backup_key x) bs"
    and "\<forall>x \<in> set bs. b_Shard x = s \<and> x \<noteq> b \<longrightarrow> backup_key x < backup_key b"
  shows "b \<in> set (take n (of_shard s bs))"
proof -
  have b: "b \<in> set (of_shard s bs)" using assms(1,2) by simp
  then obtain h t where h: "of_shard s bs = h # t" by (cases "of_shard s bs") auto
  have "sorted_wrt (\<lambda>x y. backup_key y \<le> backup_key x) (of_shard s bs)" by (rule sorted_wrt_filter [OF assms(4)])
  then have "backup_key b \<le> backup_key h" using b unfolding h by auto
  moreover have "h \<in> set bs \<and> b_Shard h = s" using h by (auto simp: filter_eq_Cons_iff)
  ultimately have "h = b" using assms(5) by force
  with h assms(3) show ?thesis by (cases n) auto
qed

text \<open>
  Scheduling. For a shard without a running backup, when the backups of the shard that are
  not pending lie before the next run, the list that \<^verbatim>\<open>reconcileBackupList\<close> returns has
  exactly one active backup of the shard: pending, for the next run, whatever was pending
  before. For every shard the list has at most as many backups as the history limit, and it
  has none of other shards.
\<close>

lemma reconcileBackupList_schedules:
  assumes "backups_ok (backups bl)" and "distinct shards" and "1 \<le> limit"
    and "s \<in> set shards" and "FindLastBackup s BackupRunning bl = None" and "ms_13 nextRun"
    and "\<forall>b \<in> set (backups bl). b_Shard b = s \<and> b_State b \<noteq> BackupPending \<longrightarrow>
      ms_13 (b_ScheduledFor b) \<and> unixMilli (b_ScheduledFor b) < unixMilli nextRun"
  shows "\<exists>c bl' b. reconcileBackupList limit nextRun shards bl = Some (c, bl') \<and>
    filter (\<lambda>x. b_Shard x = s \<and> active x) (backups bl') = [b] \<and>
    b_State b = BackupPending \<and> b_ScheduledFor b = nextRun \<and>
    (\<forall>t. int (length (of_shard t (backups bl'))) \<le> limit) \<and>
    b_Shard ` set (backups bl') \<subseteq> set shards"
proof -
  obtain c1 bl1 where s1: "schedule_shards nextRun shards bl = (c1, bl1)" by fastforce
  have ok1: "backups_ok (backups bl1)" using schedule_shards_ok [OF assms(1), of nextRun shards] s1 by simp
  obtain b where b: "b \<in> set (backups bl1)" "b_Shard b = s" "b_State b = BackupPending" "b_ScheduledFor b = nextRun"
    and old: "\<forall>x \<in> set (backups bl1). b_Shard x = s \<and> b_State x \<noteq> BackupPending \<longrightarrow> x \<in> set (backups bl)"
    using schedule_shards_pending [OF assms(2,4,5), of nextRun] s1 by auto
  obtain c2 bl2 where a: "ApplyHistoryLimit limit shards bl1 = Some (c2, bl2)"
    "backups bl2 = sort_desc backup_key (kept (nat limit) shards (backups bl1))"
    using ApplyHistoryLimit_kept [of limit] assms(3) by (metis order_trans zero_le_one)
  have run: "reconcileBackupList limit nextRun shards bl = Some (c1 \<or> c2, bl2)"
    using s1 a(1) by (simp add: reconcileBackupList_def)
  have only: "x = b" if "x \<in> set (backups bl1)" "b_Shard x = s" "active x" for x
    using that b ok1 length_filter_le_one_eq [of "\<lambda>x. b_Shard x = s \<and> active x" "backups bl1" x b]
    by (auto simp: active_def backups_ok_def actives_def)
  have "backup_key x < backup_key b" if "x \<in> set (backups bl1)" "b_Shard x = s" "x \<noteq> b" for x
  proof -
    have "b_State x \<noteq> BackupPending" using that only by (auto simp: active_def)
    then have "ms_13 (b_ScheduledFor x) \<and> unixMilli (b_ScheduledFor x) < unixMilli nextRun"
      using old assms(7) that by blast
    then show ?thesis using assms(6) b(4) by (intro backup_key_less) auto
  qed
  then have bk: "b \<in> set (take (nat limit) (of_shard s (backups bl1)))"
    using b(1,2) assms(3) ok1 by (intro of_shard_sort_desc_take) (auto simp: backups_ok_def)
  have per: "mset (of_shard t (backups bl2)) =
      mset (if t \<in> set shards then take (nat limit) (of_shard t (backups bl1)) else [])" for t
    unfolding kept_shard [OF assms(2), symmetric] a(2) mset_filter mset_sort_desc ..
  have len: "length (of_shard t (backups bl2)) = length (if t \<in> set shards then take (nat limit) (of_shard t (backups bl1)) else [])" for t
    using per [of t] by (metis size_mset)
  have "int (length (of_shard t (backups bl2))) \<le> limit" for t
    unfolding len using assms(3) by auto
  moreover have "b_Shard ` set (backups bl2) \<subseteq> set shards"
    unfolding a(2) by (auto simp: kept_def take_shard_eq dest!: in_set_takeD)
  moreover have "set (of_shard s (backups bl2)) = set (take (nat limit) (of_shard s (backups bl1)))"
    using mset_eq_setD [OF per [of s]] assms(4) by simp
  then have "b \<in> set (backups bl2)" using bk by auto
  moreover have "actives s (backups bl2) \<le> 1"
    using reconcileBackupList_ok [OF assms(1,2), of limit nextRun] assms(3) run by (auto simp: backups_ok_def)
  ultimately have "filter (\<lambda>x. b_Shard x = s \<and> active x) (backups bl2) = [b]"
    using b(2,3) unfolding actives_def by (intro filter_singleton) (auto simp: active_def)
  with run b(3,4) \<open>\<And>t. int (length (of_shard t (backups bl2))) \<le> limit\<close>
    \<open>b_Shard ` set (backups bl2) \<subseteq> set shards\<close> show ?thesis by blast
qed

subsection \<open>Transitions\<close>

text \<open>The record of a backup that phase 2 starts on a server.\<close>

definition started_backup :: "backup_env \<Rightarrow> RedisServer \<Rightarrow> BackupStatus \<Rightarrow> BackupStatus" where
  "started_backup E srv b =
     b\<lparr>b_ServerAlias := Some (alias_of (env_pool E) (rs_ref srv)), b_ServerID := Some (rs_ID srv),
       b_StartedAt := Some (env_now E), b_Message := ''backup is running'', b_State := BackupRunning\<rparr>"

text \<open>How a backup of the new list comes from the old list.\<close>

definition backup_origin :: "backup_env \<Rightarrow> BackupStatus list \<Rightarrow> BackupStatus \<Rightarrow> bool" where
  "backup_origin E bs b \<longleftrightarrow>
     b \<in> set bs \<or>
     (\<exists>b0 \<in> set bs. \<exists>shard \<in> set (cl_Shards (env_cluster E)). \<exists>srv rest.
        b_State b0 = BackupPending \<and> b_Shard b0 = sh_Name shard \<and> b_ScheduledFor b0 < env_now E \<and>
        GetSlavesRO shard = srv # rest \<and> b = started_backup E srv b0) \<or>
     (\<exists>b0 \<in> set bs. b_State b0 = BackupRunning \<and> b_Shard b = b_Shard b0 \<and>
        b_ScheduledFor b = b_ScheduledFor b0 \<and> b_State b \<in> {BackupCompleted, BackupFailed, BackupUnknown}) \<or>
     (\<exists>nxt shard. env_Next E = Inr nxt \<and> shard \<in> set (cl_Shards (env_cluster E)) \<and>
        b = new_backup (sh_Name shard) (nxt (env_now E)))"

lemma run_pending_shard_cases:
  assumes "run_pending_shard E s p = Some p'"
  obtains (same) "p2_backups p' = p2_backups p" "p2_runners p' = p2_runners p" "p2_changed p' = p2_changed p"
  | (started) i srv rest r where "FindLastBackup (sh_Name s) BackupPending (p2_backups p) = Some i"
      "b_ScheduledFor (backups (p2_backups p) ! i) < env_now E" "GetSlavesRO s = srv # rest"
      "backups (p2_backups p') = (backups (p2_backups p))[i := started_backup E srv (backups (p2_backups p) ! i)]"
      "new_runner E (sh_Name s) (rs_ref srv) (b_ScheduledFor (backups (p2_backups p) ! i)) = Some r"
      "p2_runners p' = p2_runners p @ [r]" "p2_changed p'"
proof (cases "FindLastBackup (sh_Name s) BackupPending (p2_backups p)")
  case None
  with assms show thesis by (intro same) (auto simp: run_pending_shard_def)
next
  case (Some i)
  show thesis
  proof (cases "b_ScheduledFor (backups (p2_backups p) ! i) < env_now E")
    case False
    with assms Some show thesis by (intro same) (auto simp: run_pending_shard_def Let_def)
  next
    case True
    show thesis
    proof (cases "GetSlavesRO s")
      case Nil
      with assms Some True show thesis by (intro same) (auto simp: run_pending_shard_def Let_def)
    next
      case (Cons srv rest)
      obtain r where r: "new_runner E (sh_Name s) (rs_ref srv) (b_ScheduledFor (backups (p2_backups p) ! i)) = Some r"
        using assms Some True Cons by (auto simp: run_pending_shard_def Let_def elim!: bind_SomeE)
      with assms Some True Cons show thesis
        by (intro started [OF Some True Cons _ r])
          (auto simp: run_pending_shard_def Let_def started_backup_def backups_def [of "Some _"])
    qed
  qed
qed

lemma backup_origin_started:
  "b0 \<in> set bs \<Longrightarrow> shard \<in> set (cl_Shards (env_cluster E)) \<Longrightarrow> b_State b0 = BackupPending \<Longrightarrow>
     b_Shard b0 = sh_Name shard \<Longrightarrow> b_ScheduledFor b0 < env_now E \<Longrightarrow> GetSlavesRO shard = srv # rest \<Longrightarrow>
     backup_origin E bs (started_backup E srv b0)"
  unfolding backup_origin_def by blast

lemma backup_origin_ended:
  "b0 \<in> set bs \<Longrightarrow> b_State b0 = BackupRunning \<Longrightarrow> b_Shard b = b_Shard b0 \<Longrightarrow>
     b_ScheduledFor b = b_ScheduledFor b0 \<Longrightarrow> b_State b \<in> {BackupCompleted, BackupFailed, BackupUnknown} \<Longrightarrow>
     backup_origin E bs b"
  unfolding backup_origin_def by blast

lemma run_pending_origin:
  assumes "run_pending E ss p = Some p'" and "set ss \<subseteq> set (cl_Shards (env_cluster E))"
    and "\<forall>b \<in> set (backups (p2_backups p)). backup_origin E bs b \<and> (b_State b = BackupPending \<longrightarrow> b \<in> set bs)"
  shows "\<forall>b \<in> set (backups (p2_backups p')). backup_origin E bs b"
  using assms
proof (induction ss arbitrary: p)
  case (Cons s ss)
  obtain p1 where p1: "run_pending_shard E s p = Some p1" "run_pending E ss p1 = Some p'"
    using Cons.prems(1) by (auto elim!: bind_SomeE)
  have "\<forall>b \<in> set (backups (p2_backups p1)). backup_origin E bs b \<and> (b_State b = BackupPending \<longrightarrow> b \<in> set bs)"
    using p1(1)
  proof (cases rule: run_pending_shard_cases)
    case same
    with Cons.prems(3) show ?thesis by simp
  next
    case (started i srv rest r)
    let ?b = "backups (p2_backups p) ! i"
    have i: "i < length (backups (p2_backups p))" "b_Shard ?b = sh_Name s" "b_State ?b = BackupPending"
      using find_backup_Some started(1) by (auto simp: FindLastBackup_def)
    then have "?b \<in> set bs" using Cons.prems(3) by auto
    then have "backup_origin E bs (started_backup E srv ?b)"
      using i started(2,3) Cons.prems(2) by (intro backup_origin_started [of _ _ s]) auto
    with Cons.prems(3) show ?thesis
      unfolding started(4) by (auto simp: started_backup_def dest!: set_update_subset_insert [THEN subsetD])
  qed
  with Cons.IH [OF p1(2)] Cons.prems(2) show ?case by simp
qed simp

lemma run_pending_unchanged:
  "run_pending E ss p = Some p' \<Longrightarrow> \<not> p2_changed p' \<Longrightarrow> p2_backups p' = p2_backups p \<and> \<not> p2_changed p"
proof (induction ss arbitrary: p)
  case (Cons s ss)
  then obtain p1 where p1: "run_pending_shard E s p = Some p1" "p2_backups p' = p2_backups p1" "\<not> p2_changed p1"
    by (auto elim!: bind_SomeE)
  from p1(1) show ?case by (cases rule: run_pending_shard_cases) (use p1 in auto)
qed simp

lemma reconcile_running_list_origin:
  assumes "reconcile_running_list E mgr is bs = Some (c, bs')" and "distinct is"
    and "\<forall>i \<in> set is. i < length bs \<and> bs ! i \<in> set bs0 \<and> b_State (bs ! i) = BackupRunning"
    and "\<forall>b \<in> set bs. backup_origin E bs0 b"
  shows "\<forall>b \<in> set bs'. backup_origin E bs0 b"
  using assms
proof (induction "is" arbitrary: bs c)
  case (Cons i "is")
  obtain c1 b c2 where r: "reconcile_running E mgr (bs ! i) = Some (c1, b)"
    "reconcile_running_list E mgr is (bs[i := b]) = Some (c2, bs')"
    using Cons.prems(1) by (auto elim!: bind_SomeE)
  have i: "bs ! i \<in> set bs0" "b_State (bs ! i) = BackupRunning" using Cons.prems(3) by auto
  have "b_ServerID (bs ! i) \<noteq> None" using r(1) by (auto simp: reconcile_running_def elim!: bind_SomeE)
  with reconcile_running_cases [OF this i(2), of E mgr] r(1)
  have "backup_origin E bs0 b"
    using i by (cases c1) (auto intro: backup_origin_ended simp: backup_origin_def [of E bs0 "bs ! i"])
  then have "\<forall>x \<in> set (bs[i := b]). backup_origin E bs0 x"
    using Cons.prems(4) by (auto dest!: set_update_subset_insert [THEN subsetD])
  moreover have "\<forall>j \<in> set is. j < length (bs[i := b]) \<and> bs[i := b] ! j \<in> set bs0 \<and> b_State (bs[i := b] ! j) = BackupRunning"
    using Cons.prems(2,3) by (auto simp: nth_list_update)
  ultimately show ?case using Cons.IH [OF r(2)] Cons.prems(2) by simp
qed simp

lemma schedule_shards_origin:
  "b \<in> set (backups (snd (schedule_shards nextRun ss bl))) \<Longrightarrow>
     b \<in> set (backups bl) \<or> (\<exists>s \<in> set ss. b = new_backup s nextRun)"
proof (induction ss arbitrary: bl)
  case (Cons s ss)
  have "x \<in> set (backups bl) \<or> x = new_backup s nextRun" if "x \<in> set (backups (snd (schedule_shard nextRun s bl)))" for x
    using that
    by (auto simp: schedule_shard_def AddBackup_def DeleteBackup_def backups_def [of "Some _"]
        split: option.splits if_splits dest: in_set_takeD in_set_dropD)
  moreover have "b \<in> set (backups (snd (schedule_shard nextRun s bl))) \<or> (\<exists>s \<in> set ss. b = new_backup s nextRun)"
    using Cons by (simp del: schedule_shards.simps(2))
  ultimately show ?case by auto
qed simp

lemma reconcileBackupList_origin:
  assumes "reconcileBackupList limit nextRun shards bl = Some (c, bl')" and "b \<in> set (backups bl')"
  shows "b \<in> set (backups bl) \<or> (\<exists>s \<in> set shards. b = new_backup s nextRun)"
proof -
  obtain c1 bl1 where s: "schedule_shards nextRun shards bl = (c1, bl1)" by fastforce
  then obtain c2 where a: "ApplyHistoryLimit limit shards bl1 = Some (c2, bl')"
    using assms(1) by (auto simp: reconcileBackupList_def elim!: bind_SomeE)
  have "b \<in> set (backups bl1)"
  proof (cases c2)
    case True
    with a have "backups bl' = sort_desc backup_key (kept (nat limit) shards (backups bl1))"
      by (auto simp: ApplyHistoryLimit_def kept_def backups_def [of "Some _"] Let_def split: if_splits)
    with assms(2) show ?thesis using set_kept by fastforce
  next
    case False
    with a have "bl' = bl1" by (auto simp: ApplyHistoryLimit_def Let_def split: if_splits)
    with assms(2) show ?thesis by simp
  qed
  then show ?thesis using schedule_shards_origin [of b nextRun shards bl] s by simp
qed

text \<open>
  C28. The life of a backup. Whatever the cluster, the threads and the clock do, every backup in
  the list that a reconciliation leaves was in the list before; or was pending and due and now
  runs on the first read only slave of its shard; or was running and is now completed, failed
  or unknown, with its shard and schedule unchanged; or is new and pending for the next run of
  the schedule. So a backup that has ended is never restarted nor edited.
\<close>

theorem Reconcile_transitions:
  assumes "Reconcile E bl mgr = Some (out, bl', mgr')" and "b \<in> set (backups bl')"
  shows "backup_origin E (backups bl) b"
proof -
  let ?p0 = "\<lparr>p2_changed = False, p2_requeue = False, p2_runners = [], p2_backups = bl\<rparr>"
  obtain p where p: "run_pending E (cl_Shards (env_cluster E)) ?p0 = Some p"
    using assms(1) by (auto simp: Reconcile_def elim!: bind_SomeE)
  have self: "backup_origin E (backups bl) x" if "x \<in> set (backups bl)" for x
    using that by (simp add: backup_origin_def)
  have org: "\<forall>x \<in> set (backups (p2_backups p)). backup_origin E (backups bl) x"
    using run_pending_origin [OF p, of "backups bl"] self by simp
  have same: "p2_backups p = bl" if "\<not> p2_changed p" using run_pending_unchanged [OF p that] by simp
  have run: "backup_origin E (backups bl) x"
    if "reconcile_running_list E m (GetRunningBackups bl) (backups bl) = Some (c, bs)" "x \<in> set bs" for m c bs x
    using reconcile_running_list_origin [OF that(1), of "backups bl"] GetRunningBackups_ok self that(2) by simp
  have sch: "backup_origin E (backups bl) x"
    if "reconcileBackupList limit (nxt (env_now E)) (GetShardNames (env_cluster E)) bl = Some (c, bl2)"
      "x \<in> set (backups bl2)" "env_Next E = Inr nxt" for limit nxt c bl2 x
    using reconcileBackupList_origin [OF that(1,2)] that(3) self
    by (auto simp: backup_origin_def GetShardNames_def)
  show ?thesis
  proof (cases "p2_changed p")
    case True
    with assms p org show ?thesis
      by (auto simp: Reconcile_def split: option.splits elim!: bind_SomeE)
  next
    case False
    with assms p same run sch self show ?thesis
      by (auto simp: Reconcile_def Let_def backups_def [of "Some _"]
          split: option.splits if_splits sum.splits elim!: bind_SomeE)
  qed
qed

subsection \<open>Due backups\<close>

lemma find_backup_update_other:
  assumes "i < length bs" and "b_Shard (bs ! i) \<noteq> s" and "b_Shard b = b_Shard (bs ! i)"
  shows "find_backup s st (bs[i := b]) = find_backup s st bs"
  using assms
proof (induction bs arbitrary: i)
  case (Cons x bs)
  then show ?case by (cases i) auto
qed simp

lemma run_pending_shard_other:
  assumes "run_pending_shard E t p = Some p'" and "sh_Name t \<noteq> s"
  shows "FindLastBackup s st (p2_backups p') = FindLastBackup s st (p2_backups p) \<and>
    (\<forall>i < length (backups (p2_backups p)). b_Shard (backups (p2_backups p) ! i) = s \<longrightarrow>
       i < length (backups (p2_backups p')) \<and> backups (p2_backups p') ! i = backups (p2_backups p) ! i) \<and>
    set (p2_runners p) \<subseteq> set (p2_runners p') \<and> (p2_changed p \<longrightarrow> p2_changed p')"
  using assms(1)
proof (cases rule: run_pending_shard_cases)
  case same
  then show ?thesis by (simp add: FindLastBackup_def)
next
  case (started i srv rest r)
  have i: "i < length (backups (p2_backups p))" "b_Shard (backups (p2_backups p) ! i) = sh_Name t"
    using find_backup_Some started(1) by (auto simp: FindLastBackup_def)
  with started(4,6,7) assms(2) show ?thesis
    by (auto simp: FindLastBackup_def started_backup_def find_backup_update_other nth_list_update)
qed

lemma run_pending_other:
  assumes "run_pending E ss p = Some p'" and "s \<notin> sh_Name ` set ss"
  shows "FindLastBackup s st (p2_backups p') = FindLastBackup s st (p2_backups p) \<and>
    (\<forall>i < length (backups (p2_backups p)). b_Shard (backups (p2_backups p) ! i) = s \<longrightarrow>
       i < length (backups (p2_backups p')) \<and> backups (p2_backups p') ! i = backups (p2_backups p) ! i) \<and>
    set (p2_runners p) \<subseteq> set (p2_runners p') \<and> (p2_changed p \<longrightarrow> p2_changed p')"
  using assms
proof (induction ss arbitrary: p)
  case (Cons t ss)
  obtain p1 where p1: "run_pending_shard E t p = Some p1" "run_pending E ss p1 = Some p'"
    using Cons.prems(1) by (auto elim!: bind_SomeE)
  have "sh_Name t \<noteq> s" using Cons.prems(2) by auto
  with run_pending_shard_other [OF p1(1) this, of st] Cons.IH [OF p1(2)] Cons.prems(2) show ?case by auto
qed simp

lemma run_pending_append:
  "run_pending E (xs @ ys) p = do { p \<leftarrow> run_pending E xs p; run_pending E ys p }"
proof (induction xs arbitrary: p)
  case (Cons x xs)
  then show ?case by (cases "run_pending_shard E x p") simp_all
qed simp

text \<open>What phase 2 does with a shard whose pending backup is due and that has a slave to read from.\<close>

lemma run_pending_due:
  assumes "run_pending E shards p = Some p'" and "distinct (map sh_Name shards)" and "shard \<in> set shards"
    and "FindLastBackup (sh_Name shard) BackupPending (p2_backups p) = Some i"
    and "b_ScheduledFor (backups (p2_backups p) ! i) < env_now E" and "GetSlavesRO shard = srv # rest"
  obtains r where "p2_changed p'" "i < length (backups (p2_backups p'))"
    "backups (p2_backups p') ! i = started_backup E srv (backups (p2_backups p) ! i)"
    "new_runner E (sh_Name shard) (rs_ref srv) (b_ScheduledFor (backups (p2_backups p) ! i)) = Some r"
    "r \<in> set (p2_runners p')"
proof -
  obtain ss1 ss2 where ss: "shards = ss1 @ shard # ss2" by (meson assms(3) split_list)
  let ?s = "sh_Name shard" and ?b = "backups (p2_backups p) ! i"
  have nin: "?s \<notin> sh_Name ` set ss1" "?s \<notin> sh_Name ` set ss2" using assms(2) ss by auto
  obtain p1 p2 where p1: "run_pending E ss1 p = Some p1" and p2: "run_pending_shard E shard p1 = Some p2"
    and p3: "run_pending E ss2 p2 = Some p'"
    using assms(1) unfolding ss run_pending_append by (auto elim!: bind_SomeE)
  have i: "i < length (backups (p2_backups p))" "b_Shard ?b = ?s"
    using find_backup_Some assms(4) by (auto simp: FindLastBackup_def)
  have o1: "FindLastBackup ?s BackupPending (p2_backups p1) = Some i" "backups (p2_backups p1) ! i = ?b"
    using run_pending_other [OF p1 nin(1), of BackupPending] assms(4) i by auto
  from p2 obtain r where r: "backups (p2_backups p2) = (backups (p2_backups p1))[i := started_backup E srv ?b]"
      "new_runner E ?s (rs_ref srv) (b_ScheduledFor ?b) = Some r" "r \<in> set (p2_runners p2)" "p2_changed p2"
  proof (cases rule: run_pending_shard_cases)
    case same
    obtain r where "new_runner E ?s (rs_ref srv) (b_ScheduledFor ?b) = Some r"
      using p2 o1 assms(5,6) by (auto simp: run_pending_shard_def Let_def elim!: bind_SomeE)
    with p2 o1 assms(5,6) that show thesis
      by (auto simp: run_pending_shard_def Let_def started_backup_def backups_def [of "Some _"])
  next
    case (started j srv' rest' r)
    with o1 assms(6) that show thesis by auto
  qed
  have "i < length (backups (p2_backups p1))" using find_backup_Some o1(1) by (auto simp: FindLastBackup_def)
  then have "i < length (backups (p2_backups p2))" "backups (p2_backups p2) ! i = started_backup E srv ?b"
    by (simp_all add: r(1))
  moreover have "b_Shard (started_backup E srv ?b) = ?s" using i by (simp add: started_backup_def)
  ultimately show thesis
    using run_pending_other [OF p3 nin(2)] r(2-4) by (intro that [of r]) auto
qed

lemma alias_of_ID: "ID r = ID r' \<Longrightarrow> alias_of pool r = alias_of pool r'"
  unfolding alias_of_def by (simp cong: option.case_cong)

lemma Reconcile_due:
  assumes "Reconcile E bl mgr = Some (out, bl', mgr')" and "mgr_ok mgr"
    and "stoppable (runner_ops (env_pool E) (env_now E)) mgr"
    and "distinct (map sh_Name (cl_Shards (env_cluster E)))" and "shard \<in> set (cl_Shards (env_cluster E))"
    and "FindLastBackup (sh_Name shard) BackupPending bl = Some i"
    and "b_ScheduledFor (backups bl ! i) < env_now E" and "GetSlavesRO shard = srv # rest"
  shows "out = UpdateStatus \<and> i < length (backups bl') \<and>
    backups bl' ! i = started_backup E srv (backups bl ! i) \<and>
    (\<forall>srv'. LookupServerByID (rs_ID srv) (env_cluster E) = Some srv' \<longrightarrow>
       (\<exists>t. GetThread (backup_ID (sh_Name shard) (alias_of (env_pool E) (rs_ref srv')) (b_ScheduledFor (backups bl ! i)))
              (env_owner E) mgr' = Some t \<and> st_Started (br_status t)))"
proof -
  let ?T = "runner_ops (env_pool E) (env_now E)"
  let ?p0 = "\<lparr>p2_changed = False, p2_requeue = False, p2_runners = [], p2_backups = bl\<rparr>"
  obtain p where p: "run_pending E (cl_Shards (env_cluster E)) ?p0 = Some p"
    using assms(1) by (auto simp: Reconcile_def elim!: bind_SomeE)
  obtain r where r: "p2_changed p" "i < length (backups (p2_backups p))"
    "backups (p2_backups p) ! i = started_backup E srv (backups bl ! i)"
    "new_runner E (sh_Name shard) (rs_ref srv) (b_ScheduledFor (backups bl ! i)) = Some r" "r \<in> set (p2_runners p)"
    using run_pending_due [OF p assms(4,5)] assms(6-8) by auto
  have laws: "thread_laws ?T" by (auto simp: thread_laws_def runner_ops_def Runner_Start_def)
  obtain e mgr1 where t: "ReconcileThreads ?T (env_owner E) (p2_runners p) mgr = Some (e, mgr1)"
    and run: "e = None \<Longrightarrow> \<exists>t. GetThread (t_GetID ?T r) (env_owner E) mgr1 = Some t \<and> t_IsStarted ?T t"
    using ReconcileThreads_spec [OF laws assms(2,3), of "env_owner E" "p2_runners p"] r(5)
    unfolding Let_def by blast
  have e: "e = None" using ReconcileThreads_no_error [OF _ t] by (simp add: runner_ops_def)
  have out: "out = UpdateStatus" "bl' = p2_backups p" "mgr' = mgr1"
    using assms(1) p t e r(1) by (auto simp: Reconcile_def)
  have idr: "t_GetID ?T r = backup_ID (sh_Name shard) (alias_of (env_pool E) (rs_ref srv)) (b_ScheduledFor (backups bl ! i))"
    using r(4) by (auto simp: new_runner_def runner_ops_def Runner_GetID_def elim!: bind_SomeE)
  have "alias_of (env_pool E) (rs_ref srv') = alias_of (env_pool E) (rs_ref srv)"
    if "LookupServerByID (rs_ID srv) (env_cluster E) = Some srv'" for srv'
    using that by (intro alias_of_ID) (auto simp: LookupServerByID_def find_Some_iff)
  with out r(2,3) run [OF e] show ?thesis
    unfolding idr by (auto simp: runner_ops_def)
qed


section \<open>Witnesses\<close>

definition ex_spec :: ShardedRedisBackupSpec where
  "ex_spec = ShardedRedisBackupSpec_Default
     \<lparr>srb_SentinelRef = ''sentinel'', srb_Schedule = ''0 * * * *'', srb_DBFile = ''/data/dump.rdb'',
      srb_SSHOptions = \<lparr>ssh_User = ''user'', ssh_PrivateKeySecretRef = ''ssh'', ssh_Port = None, ssh_Sudo = None\<rparr>,
      srb_S3Options = \<lparr>s3o_Bucket = ''bucket'', s3o_Path = ''backups'', s3o_Region = ''us-east-1'',
        s3o_CredentialsSecretRef = ''aws'', s3o_ServiceEndpoint = None\<rparr>,
      srb_Timeout = None, srb_HistoryLimit = None, srb_PollInterval = None, srb_Pause = None\<rparr>"

definition ex_slave :: RedisServer where
  "ex_slave = NewRedisServerFromParams (''10.0.0.2'', ''6379'') Slave [''slave-read-only'' \<mapsto> ''yes'']"

definition ex_shard :: Shard where
  "ex_shard = NewShardFromServers ''shard01'' [ex_slave]"

definition ex_env :: backup_env where
  "ex_env = \<lparr>env_owner = (''ns'', ''backup''), env_spec = ex_spec,
     env_cluster = \<lparr>cl_Shards = [ex_shard], cl_Sentinels = []\<rparr>, env_pool = [], env_sshKey = ''key'',
     env_awsAccessKey = ''id'', env_awsSecretKey = ''secret'', env_now = 1700000001000000000, env_end = 1700000001000000000,
     env_Next = Inr (\<lambda>t. 1700003600000000000)\<rparr>"

definition ex_backups :: BackupStatusList where
  "ex_backups = Some [new_backup ''shard01'' 1700000000000000000]"

lemma ex_env_complete: "spec_complete (env_spec ex_env)"
  by (simp add: ex_env_def ex_spec_def spec_complete_def ShardedRedisBackupSpec_Default_def SSHOptions_Default_def
      orDefault_def)

lemma ex_backups_ok: "backups_ok (backups ex_backups)"
  by (simp add: backups_ok_def ex_backups_def backups_def actives_def new_backup_def)

lemma ex_stoppable: "stoppable T NewManager"
  by (simp add: stoppable_def NewManager_def)

lemma ex_due:
  "FindLastBackup ''shard01'' BackupPending ex_backups = Some 0"
  "b_ScheduledFor (backups ex_backups ! 0) = 1700000000000000000"
  "GetSlavesRO ex_shard = [ex_slave]" "sh_Name ex_shard = ''shard01''"
  "cl_Shards (env_cluster ex_env) = [ex_shard]" "env_now ex_env = 1700000001000000000"
  by (simp_all add: FindLastBackup_def ex_backups_def backups_def new_backup_def GetSlavesRO_def ex_shard_def
      ex_slave_def NewShardFromServers_def NewRedisServerFromParams_def ex_env_def)


lemma ex_Reconcile:
  obtains out bl' mgr' where "Reconcile ex_env ex_backups NewManager = Some (out, bl', mgr')"
proof -
  have "Reconcile ex_env ex_backups NewManager \<noteq> None"
    by (simp add: Reconcile_def ex_due run_pending_shard_def Let_def new_runner_def ex_env_def ex_spec_def
        ShardedRedisBackupSpec_Default_def SSHOptions_Default_def orDefault_def ex_slave_def
        NewRedisServerFromParams_def ReconcileThreads_def runThread_def runner_ops_def NewManager_def
        mgr_Lock_def mgr_Unlock_def Runner_Start_def)
  with that show thesis by (cases "Reconcile ex_env ex_backups NewManager") auto
qed

theorem Reconcile_transitions_witness:
  "\<exists>out bl' mgr'. Reconcile ex_env ex_backups NewManager = Some (out, bl', mgr') \<and>
     (\<forall>b \<in> set (backups bl'). backup_origin ex_env (backups ex_backups) b)"
proof -
  obtain out bl' mgr' where r: "Reconcile ex_env ex_backups NewManager = Some (out, bl', mgr')" by (rule ex_Reconcile)
  then show ?thesis using Reconcile_transitions [OF r] by blast
qed


end
