(* ===== verification/SentinelStatus.thy ===== *)
theory SentinelStatus
  imports ShardedCluster CommonTypes "HOL-Library.AList"
begin

text \<open>
  The Sentinel resource, \<^verbatim>\<open>api/v1alpha1/sentinel_types.go\<close>: its specification and defaults,
  the status that the Sentinel controller publishes
  (\<^verbatim>\<open>sentinelStatusReconciler\<close> of \<^verbatim>\<open>internal/controller/sentinel_controller.go\<close>) and
  \<^verbatim>\<open>SentinelStatus.ShardedCluster\<close>, which the backup controller uses to read the cluster back from
  that status without a call to redis.
\<close>

section \<open>Specification and defaults\<close>

definition SentinelPort :: int where "SentinelPort = 26379"
definition SentinelDefaultReplicas :: int where "SentinelDefaultReplicas = 3"
definition SentinelDefaultQuorum :: int where "SentinelDefaultQuorum = 2"

text \<open>A quantity is kept as the text that \<^verbatim>\<open>resource.MustParse\<close> reads, an int-or-string as a number.\<close>

definition sentinelDefaultImage :: ImageSpec where
  "sentinelDefaultImage = \<lparr>img_Name = Some ''bitnami/redis-sentinel'', img_Tag = Some ''4.0.11-debian-9-r110'',
     img_PullSecretName = None, img_PullPolicy = Some ''IfNotPresent''\<rparr>"

definition sentinelDefaultResources :: "(string, unit) ResourceRequirementsSpec" where
  "sentinelDefaultResources = \<lparr>rr_Limits = Some [(''cpu'', ''150m''), (''memory'', ''128Mi'')],
     rr_Requests = Some [(''cpu'', ''75m''), (''memory'', ''64Mi'')], rr_Claims = None\<rparr>"

definition sentinelDefaultProbe :: ProbeSpec where
  "sentinelDefaultProbe = \<lparr>pr_InitialDelaySeconds = Some 25, pr_TimeoutSeconds = Some 1, pr_PeriodSeconds = Some 10,
     pr_SuccessThreshold = Some 1, pr_FailureThreshold = Some 3\<rparr>"

definition sentinelDefaultPDB :: "int PodDisruptionBudgetSpec" where
  "sentinelDefaultPDB = \<lparr>pdb_MinAvailable = None, pdb_MaxUnavailable = Some 1\<rparr>"

definition sentinelDefaultGrafanaDashboard :: GrafanaDashboardSpec where
  "sentinelDefaultGrafanaDashboard = \<lparr>gd_SelectorKey = Some ''monitoring-key'', gd_SelectorValue = Some ''middleware''\<rparr>"

definition sentinelDefaultStorageSize :: string where "sentinelDefaultStorageSize = ''10Mi''"
definition sentinelDefaultMetricsRefreshInterval :: int where "sentinelDefaultMetricsRefreshInterval = 30000000000"

record SentinelConfig =
  sc_MonitoredShards :: "(string, string list) gomap option"
  sc_ClusterTopology :: "(string, (string, string) gomap) gomap option"
  sc_StorageClass :: "string option"
  sc_StorageSize :: "string option"
  sc_MetricsRefreshInterval :: "int option"

definition SentinelConfig_Default :: "SentinelConfig \<Rightarrow> SentinelConfig" where
  "SentinelConfig_Default cfg =
     (let cfg = (if sc_StorageSize cfg = None then cfg\<lparr>sc_StorageSize := Some sentinelDefaultStorageSize\<rparr> else cfg)
      in if sc_MetricsRefreshInterval cfg = None
         then cfg\<lparr>sc_MetricsRefreshInterval := Some sentinelDefaultMetricsRefreshInterval\<rparr> else cfg)"

text \<open>The node affinity and the tolerations are data of Kubernetes that the operator only copies.\<close>

record SentinelSpec =
  sen_Image :: "ImageSpec option"
  sen_Replicas :: "int option"
  sen_PDB :: "int PodDisruptionBudgetSpec option"
  sen_Resources :: "(string, unit) ResourceRequirementsSpec option"
  sen_LivenessProbe :: "ProbeSpec option"
  sen_ReadinessProbe :: "ProbeSpec option"
  sen_GrafanaDashboard :: "GrafanaDashboardSpec option"
  sen_Config :: "SentinelConfig option"

text \<open>The method \<^verbatim>\<open>Default\<close> of a nil configuration panics.\<close>

definition SentinelSpec_Default :: "SentinelSpec \<Rightarrow> SentinelSpec option" where
  "SentinelSpec_Default spec =
     do { cfg \<leftarrow> sen_Config spec;
          Some (spec\<lparr>sen_Image := Some (InitializeImageSpec (sen_Image spec) sentinelDefaultImage),
            sen_Replicas := orDefault (sen_Replicas spec) (Some SentinelDefaultReplicas),
            sen_PDB := Some (InitializePodDisruptionBudgetSpec (sen_PDB spec) sentinelDefaultPDB),
            sen_Resources := Some (InitializeResourceRequirementsSpec (sen_Resources spec) sentinelDefaultResources),
            sen_LivenessProbe := Some (InitializeProbeSpec (sen_LivenessProbe spec) sentinelDefaultProbe),
            sen_ReadinessProbe := Some (InitializeProbeSpec (sen_ReadinessProbe spec) sentinelDefaultProbe),
            sen_GrafanaDashboard := Some (InitializeGrafanaDashboardSpec (sen_GrafanaDashboard spec) sentinelDefaultGrafanaDashboard),
            sen_Config := Some (SentinelConfig_Default cfg)\<rparr>) }"

section \<open>Status\<close>

record RedisServerDetails =
  rsd_Role :: Role
  rsd_Address :: string
  rsd_Config :: "string \<rightharpoonup> string"
  rsd_Info :: "string \<rightharpoonup> string"

record MonitoredShard =
  ms_Name :: string
  ms_Servers :: "(string, RedisServerDetails) gomap"

record SentinelStatus =
  ss_Sentinels :: "string list"
  ss_MonitoredShards :: "MonitoredShard list"

subsection \<open>Writing the status\<close>

text \<open>
  The loops of \<^verbatim>\<open>sentinelStatusReconciler\<close>: the servers of a shard are written to a map by
  their alias, and a second server with the same alias replaces the first.
\<close>

definition server_details :: "RedisServer \<Rightarrow> RedisServerDetails" where
  "server_details srv = \<lparr>rsd_Role = rs_Role srv, rsd_Address = rs_ID srv, rsd_Config = rs_Config srv, rsd_Info = rs_Info srv\<rparr>"

definition put_server :: "ServerPool \<Rightarrow> RedisServer \<Rightarrow> (string, RedisServerDetails) gomap \<Rightarrow> (string, RedisServerDetails) gomap" where
  "put_server pool srv m = AList.update (alias_of pool (rs_ref srv)) (server_details srv) m"

definition monitored_shard :: "ServerPool \<Rightarrow> Shard \<Rightarrow> MonitoredShard" where
  "monitored_shard pool shard =
     \<lparr>ms_Name = sh_Name shard, ms_Servers = fold (put_server pool) (sh_Servers shard) []\<rparr>"

definition cluster_status :: "ServerPool \<Rightarrow> Cluster \<Rightarrow> SentinelStatus" where
  "cluster_status pool cluster =
     \<lparr>ss_Sentinels = map ID (cl_Sentinels cluster), ss_MonitoredShards = map (monitored_shard pool) (cl_Shards cluster)\<rparr>"

subsection \<open>Reading the cluster back\<close>

text \<open>
  The two loops over maps run in the order that \<open>iter\<close> and \<open>iterS\<close> choose. An address that does
  not parse ends the function with the error.
\<close>

fun status_servers ::
    "'w lib \<Rightarrow> (string, RedisServerDetails) gomap \<Rightarrow> ServerPool \<Rightarrow> (error + RedisServer list) \<times> ServerPool" where
  "status_servers X [] pool = (Inr [], pool)"
| "status_servers X ((k, rsd) # rest) pool =
     (case GetServer X (''redis://'' @ rsd_Address rsd) None pool of
        (Inl e, pool) \<Rightarrow> (Inl e, pool)
      | (Inr srv, pool) \<Rightarrow>
          (case status_servers X rest pool of
             (Inl e, pool) \<Rightarrow> (Inl e, pool)
           | (Inr servers, pool) \<Rightarrow>
               (Inr (NewRedisServerFromParams (ref_of srv) (rsd_Role rsd) (rsd_Config rsd) # servers), pool)))"

fun status_shards ::
    "'w lib \<Rightarrow> ((string, RedisServerDetails) gomap \<Rightarrow> (string, RedisServerDetails) gomap) \<Rightarrow> MonitoredShard list
       \<Rightarrow> ServerPool \<Rightarrow> (error + Shard list) \<times> ServerPool" where
  "status_shards X iter [] pool = (Inr [], pool)"
| "status_shards X iter (s # ss) pool =
     (case status_servers X (iter (ms_Servers s)) pool of
        (Inl e, pool) \<Rightarrow> (Inl e, pool)
      | (Inr servers, pool) \<Rightarrow>
          (case status_shards X iter ss pool of
             (Inl e, pool) \<Rightarrow> (Inl e, pool)
           | (Inr shards, pool) \<Rightarrow>
               (Inr (NewShardFromServers (ms_Name s) (sort_key rs_ID servers) # shards), pool)))"

definition status_sentinels :: "string list \<Rightarrow> (string, string) gomap" where
  "status_sentinels ss = fold (\<lambda>s. AList.update s (''redis://'' @ s)) ss []"

definition Status_ShardedCluster ::
    "'w lib \<Rightarrow> ((string, RedisServerDetails) gomap \<Rightarrow> (string, RedisServerDetails) gomap)
       \<Rightarrow> ((string, string) gomap \<Rightarrow> (string, string) gomap) \<Rightarrow> SentinelStatus \<Rightarrow> ServerPool
       \<Rightarrow> (error + Cluster) \<times> ServerPool" where
  "Status_ShardedCluster X iter iterS ss pool =
     (case status_shards X iter (ss_MonitoredShards ss) pool of
        (Inl e, pool) \<Rightarrow> (Inl e, pool)
      | (Inr shards, pool) \<Rightarrow> NewShardedCluster X (iterS (status_sentinels (ss_Sentinels ss))) shards pool)"

section \<open>The cluster survives the status\<close>

lemma fold_update_fresh:
  "distinct (map f xs) \<Longrightarrow> f ` set xs \<inter> fst ` set m = {} \<Longrightarrow>
     fold (\<lambda>x. AList.update (f x) (g x)) xs m = m @ map (\<lambda>x. (f x, g x)) xs"
proof (induction xs arbitrary: m)
  case (Cons x xs)
  have "AList.update (f x) (g x) m = m @ [(f x, g x)]"
    using Cons.prems(2) by (induction m) (auto split: prod.splits)
  with Cons.IH [of "m @ [(f x, g x)]"] Cons.prems show ?case by auto
qed simp

text \<open>The address of a server is read back as that server.\<close>

definition readable :: "'w lib \<Rightarrow> srvref \<Rightarrow> bool" where
  "readable X r \<longleftrightarrow> url_ref X (''redis://'' @ ID r) = Some r"

lemma readable_inj: "\<forall>r \<in> R. readable X r \<Longrightarrow> inj_on ID R"
  by (rule inj_onI) (metis option.inject readable_def)

text \<open>What is left of a server: the replication details of \<^verbatim>\<open>Info\<close> are not read back.\<close>

definition read_back :: "RedisServer \<Rightarrow> RedisServer" where
  "read_back srv = NewRedisServerFromParams (rs_ref srv) (rs_Role srv) (rs_Config srv)"

lemma read_back_simps [simp]:
  "rs_ref (read_back srv) = rs_ref srv" "rs_Role (read_back srv) = rs_Role srv" "rs_Config (read_back srv) = rs_Config srv"
  by (simp_all add: read_back_def NewRedisServerFromParams_def)

lemma status_servers_details:
  assumes "url_canonical X" and "pool_split pool"
    and "\<forall>srv \<in> set srvs. readable X (rs_ref srv)"
  shows "\<exists>pool'. status_servers X (map (\<lambda>srv. (f srv, server_details srv)) srvs) pool = (Inr (map read_back srvs), pool') \<and>
    pool_split pool'"
  using assms(2,3)
proof (induction srvs arbitrary: pool)
  case (Cons srv srvs)
  obtain s p where "GetServer X (''redis://'' @ rs_ID srv) None pool = (Inr s, p)" "ref_of s = rs_ref srv" "pool_split p"
    using GetServer_ref [OF assms(1) Cons.prems(1), of "''redis://'' @ rs_ID srv" "rs_ref srv"] Cons.prems(2)
    by (auto simp: readable_def)
  with Cons.IH [of p] Cons.prems(2) show ?case by (auto simp: server_details_def read_back_def)
qed simp

definition shard_read_back :: "Shard \<Rightarrow> Shard" where
  "shard_read_back s = \<lparr>sh_Name = sh_Name s, sh_Servers = sort_key rs_ID (map read_back (sh_Servers s))\<rparr>"

definition publishable :: "'w lib \<Rightarrow> ServerPool \<Rightarrow> Shard \<Rightarrow> bool" where
  "publishable X pool s \<longleftrightarrow> (\<forall>srv \<in> set (sh_Servers s). readable X (rs_ref srv)) \<and>
     distinct (map (\<lambda>srv. alias_of pool (rs_ref srv)) (sh_Servers s))"

lemma publishable_servers:
  assumes "publishable X pool s"
  shows "ms_Servers (monitored_shard pool s) = map (\<lambda>srv. (alias_of pool (rs_ref srv), server_details srv)) (sh_Servers s)"
    and "inj_on rs_ID (set (sh_Servers s))"
proof -
  have "put_server pool = (\<lambda>srv. AList.update (alias_of pool (rs_ref srv)) (server_details srv))"
    by (intro ext) (simp add: put_server_def)
  then show "ms_Servers (monitored_shard pool s) = map (\<lambda>srv. (alias_of pool (rs_ref srv), server_details srv)) (sh_Servers s)"
    using fold_update_fresh [of "\<lambda>srv. alias_of pool (rs_ref srv)" "sh_Servers s" "[]" server_details] assms
    by (simp add: monitored_shard_def publishable_def)
  have "inj_on rs_ref (set (sh_Servers s))"
    using assms by (auto simp: publishable_def distinct_map inj_on_def)
  moreover have "inj_on ID (rs_ref ` set (sh_Servers s))"
    using assms by (intro readable_inj) (auto simp: publishable_def)
  ultimately show "inj_on rs_ID (set (sh_Servers s))" using comp_inj_on [of rs_ref _ ID] by (simp add: comp_def)
qed

lemma perm_map: "mset ys = mset (map f xs) \<Longrightarrow> \<exists>zs. ys = map f zs \<and> mset zs = mset xs"
proof (induction ys arbitrary: xs)
  case (Cons y ys)
  then obtain x where x: "x \<in> set xs" "y = f x" by (metis in_set_conv_decomp list.set_intros(1) mset_eq_setD imageE list.set_map)
  then have "mset ys = mset (map f (remove1 x xs))"
    using Cons.prems by (simp add: image_mset_Diff) (metis add_mset_remove_trivial)
  then obtain zs where "ys = map f zs" "mset zs = mset (remove1 x xs)" using Cons.IH by blast
  with x show ?case by (intro exI [of _ "x # zs"]) auto
qed simp

text \<open>
  A status that shows a cluster: the maps of servers have the entries that the controller
  writes, in any order.
\<close>

definition shows_shard :: "ServerPool \<Rightarrow> MonitoredShard \<Rightarrow> Shard \<Rightarrow> bool" where
  "shows_shard pool ms s \<longleftrightarrow> ms_Name ms = sh_Name s \<and> mset (ms_Servers ms) = mset (ms_Servers (monitored_shard pool s))"

definition shows_cluster :: "ServerPool \<Rightarrow> SentinelStatus \<Rightarrow> Cluster \<Rightarrow> bool" where
  "shows_cluster pool ss cluster \<longleftrightarrow> ss_Sentinels ss = map ID (cl_Sentinels cluster) \<and>
     list_all2 (shows_shard pool) (ss_MonitoredShards ss) (cl_Shards cluster)"

lemma cluster_status_shows: "shows_cluster pool (cluster_status pool cluster) cluster"
  by (simp add: shows_cluster_def cluster_status_def shows_shard_def list_all2_map1 monitored_shard_def list.rel_refl)

lemma status_shards_read_back:
  assumes "url_canonical X" and "pool_split pool" and "\<forall>m. mset (iter m) = mset m"
    and "\<forall>s \<in> set shards. publishable X pool0 s" and "list_all2 (shows_shard pool0) mss shards"
  shows "\<exists>pool'. status_shards X iter mss pool = (Inr (map shard_read_back shards), pool') \<and> pool_split pool'"
  using assms(5,2,4)
proof (induction mss shards arbitrary: pool rule: list_all2_induct)
  case (Cons ms mss s shards)
  have s: "publishable X pool0 s" using Cons.prems(2) by simp
  have "mset (iter (ms_Servers ms)) = mset (map (\<lambda>srv. (alias_of pool0 (rs_ref srv), server_details srv)) (sh_Servers s))"
    using assms(3) Cons.hyps(1) publishable_servers(1) [OF s] by (simp add: shows_shard_def)
  then obtain zs where z: "iter (ms_Servers ms) = map (\<lambda>srv. (alias_of pool0 (rs_ref srv), server_details srv)) zs"
    "mset zs = mset (sh_Servers s)"
    using perm_map [of "iter (ms_Servers ms)" "\<lambda>srv. (alias_of pool0 (rs_ref srv), server_details srv)" "sh_Servers s"] by auto
  have "\<forall>srv \<in> set zs. readable X (rs_ref srv)" using s mset_eq_setD [OF z(2)] by (simp add: publishable_def)
  then obtain p where p: "status_servers X (iter (ms_Servers ms)) pool = (Inr (map read_back zs), p)" "pool_split p"
    using status_servers_details [OF assms(1) Cons.prems(1), of zs "\<lambda>srv. alias_of pool0 (rs_ref srv)"] unfolding z(1) by blast
  have "sort_key rs_ID (map read_back zs) = sort_key rs_ID (map read_back (sh_Servers s))"
    using z(2) publishable_servers(2) [OF s] mset_eq_setD [OF z(2)]
    by (intro sort_key_inj_key_eq) (auto simp: inj_on_def)
  moreover have "ms_Name ms = sh_Name s" using Cons.hyps(1) by (simp add: shows_shard_def)
  ultimately show ?case using p Cons.IH [OF p(2)] Cons.prems(2)
    by (auto simp: shard_read_back_def NewShardFromServers_def)
qed simp

lemma status_sentinels_read_back:
  assumes "url_canonical X" and "pool_split pool" and "\<forall>m. mset (iterS m) = mset m"
    and "\<forall>r \<in> set sens. readable X r" and "distinct sens"
  shows "\<exists>pool'. NewShardedCluster X (iterS (status_sentinels (map ID sens))) shards pool =
    (Inr \<lparr>cl_Shards = shards, cl_Sentinels = sort_key ID sens\<rparr>, pool') \<and> pool_split pool'"
proof -
  let ?m = "map (\<lambda>r. (ID r, ''redis://'' @ ID r)) sens"
  have "distinct (map ID sens)" using assms(4,5) readable_inj by (simp add: distinct_map)
  then have m: "status_sentinels (map ID sens) = ?m"
    using fold_update_fresh [of "\<lambda>s. s" "map ID sens" "[]" "\<lambda>s. ''redis://'' @ s"]
    by (simp add: status_sentinels_def comp_def)
  have u: "url_ref X (''redis://'' @ ID r) = Some r" if "r \<in> set sens" for r using assms(4) that by (simp add: readable_def)
  have ok: "urls_ok X ?m" using u by auto
  have ok': "urls_ok X (iterS ?m)" using ok mset_eq_setD [OF assms(3) [THEN spec, of ?m]] by simp
  have "refs_of X ?m = map (\<lambda>r. the (url_ref X (''redis://'' @ ID r))) sens" by (simp add: refs_of_def)
  also have "\<dots> = sens" using u by (intro map_idI) simp
  finally have "refs_of X ?m = sens" .
  then have "sort_key ID (refs_of X (iterS ?m)) = sort_key ID sens"
    using sort_refs_perm(1) [OF assms(1) ok, of "iterS ?m"] assms(3) by simp
  then show ?thesis
    using NewHighAvailableSentinel_refs [OF assms(1,2) ok'] m by (auto simp: NewShardedCluster_def)
qed

lemma sort_key_read_back: "sort_key rs_ID (map read_back srvs) = map read_back (sort_key rs_ID srvs)"
proof (induction srvs)
  case (Cons srv srvs)
  have "insort_key rs_ID (read_back srv) (map read_back xs) = map read_back (insort_key rs_ID srv xs)" for xs
    by (induction xs) simp_all
  with Cons.IH show ?case by simp
qed simp

lemma filter_read_back:
  assumes "\<And>srv. P (read_back srv) = P srv"
  shows "map rs_ref (sort_key rs_ID (filter P (sort_key rs_ID (map read_back srvs)))) = map rs_ref (sort_key rs_ID (filter P srvs))"
proof -
  have "filter P (sort_key rs_ID (map read_back srvs)) = map read_back (sort_key rs_ID (filter P srvs))"
    unfolding filter_sort [symmetric] sort_key_read_back by (simp add: filter_map comp_def assms)
  then show ?thesis by (simp add: sort_key_id_if_sorted comp_def)
qed

lemma status_reads_back:
  assumes "url_canonical X" and "pool_split pool"
    and "\<forall>m. mset (iter m) = mset m" and "\<forall>m. mset (iterS m) = mset m"
    and "\<forall>s \<in> set (cl_Shards cluster). publishable X pool0 s"
    and "\<forall>r \<in> set (cl_Sentinels cluster). readable X r" and "distinct (cl_Sentinels cluster)"
    and "shows_cluster pool0 ss cluster"
  shows "\<exists>cluster' pool'. Status_ShardedCluster X iter iterS ss pool = (Inr cluster', pool') \<and>
    cl_Shards cluster' = map shard_read_back (cl_Shards cluster) \<and>
    cl_Sentinels cluster' = sort_key ID (cl_Sentinels cluster) \<and>
    (\<forall>s \<in> set (cl_Shards cluster).
       map rs_ref (GetSlavesRO (shard_read_back s)) = map rs_ref (GetSlavesRO s) \<and>
       map rs_ref (GetSlavesRW (shard_read_back s)) = map rs_ref (GetSlavesRW s))"
proof -
  obtain p where p: "status_shards X iter (ss_MonitoredShards ss) pool
      = (Inr (map shard_read_back (cl_Shards cluster)), p)" "pool_split p"
    using status_shards_read_back [OF assms(1,2,3,5)] assms(8) by (auto simp: shows_cluster_def)
  obtain p' where "NewShardedCluster X (iterS (status_sentinels (map ID (cl_Sentinels cluster)))) (map shard_read_back (cl_Shards cluster)) p =
      (Inr \<lparr>cl_Shards = map shard_read_back (cl_Shards cluster), cl_Sentinels = sort_key ID (cl_Sentinels cluster)\<rparr>, p')"
    using status_sentinels_read_back [OF assms(1) p(2) assms(4,6,7)] by blast
  with p have "Status_ShardedCluster X iter iterS ss pool =
      (Inr \<lparr>cl_Shards = map shard_read_back (cl_Shards cluster), cl_Sentinels = sort_key ID (cl_Sentinels cluster)\<rparr>, p')"
    using assms(8) by (simp add: Status_ShardedCluster_def shows_cluster_def)
  moreover have "map rs_ref (GetSlavesRO (shard_read_back s)) = map rs_ref (GetSlavesRO s)"
    "map rs_ref (GetSlavesRW (shard_read_back s)) = map rs_ref (GetSlavesRW s)" for s
    unfolding GetSlavesRO_def GetSlavesRW_def shard_read_back_def by (simp_all only: Shard.simps, (rule filter_read_back, simp)+)
  ultimately show ?thesis by (metis Cluster.select_convs(1,2))
qed

text \<open>
  C10. The cluster that a published status shows is the cluster that the backup
  controller reads, whatever the order of the iterations over maps, in the same process or in
  another: the same shards in the same order, the servers of each sorted by address with their
  role and configuration, and the same sentinels; the slaves a backup may use, in their order, are
  those of the discovered cluster. It needs addresses that the library reads back and, within a
  shard, servers with different aliases.
\<close>

theorem status_roundtrip:
  assumes "url_canonical X" and "pool_split pool"
    and "\<forall>m. mset (iter m) = mset m" and "\<forall>m. mset (iterS m) = mset m"
    and "\<forall>s \<in> set (cl_Shards cluster). publishable X pool0 s"
    and "\<forall>r \<in> set (cl_Sentinels cluster). readable X r" and "distinct (cl_Sentinels cluster)"
    and "shows_cluster pool0 ss cluster"
  shows "\<exists>cluster' pool'. Status_ShardedCluster X iter iterS ss pool = (Inr cluster', pool') \<and>
    cl_Shards cluster' = map shard_read_back (cl_Shards cluster) \<and>
    cl_Sentinels cluster' = sort_key ID (cl_Sentinels cluster) \<and>
    (\<forall>s \<in> set (cl_Shards cluster).
       map rs_ref (GetSlavesRO (shard_read_back s)) = map rs_ref (GetSlavesRO s) \<and>
       map rs_ref (GetSlavesRW (shard_read_back s)) = map rs_ref (GetSlavesRW s))"
  using assms by (rule status_reads_back)

definition ex_published :: Cluster where
  "ex_published = \<lparr>cl_Shards = [\<lparr>sh_Name = ''shard01'', sh_Servers =
     [\<lparr>rs_ref = (''10.0.0.2'', ''6379''), rs_Role = Slave, rs_Config = [''slave-read-only'' \<mapsto> ''yes''],
        rs_Info = [''replication'' \<mapsto> ''slave'']\<rparr>,
      \<lparr>rs_ref = (''10.0.0.1'', ''6379''), rs_Role = Master, rs_Config = Map.empty, rs_Info = Map.empty\<rparr>]\<rparr>],
     cl_Sentinels = [(''10.0.0.9'', ''26379'')]\<rparr>"

theorem status_roundtrip_witness:
  "\<exists>cluster' pool'. Status_ShardedCluster fake_lib rev rev (cluster_status [] ex_published) [] = (Inr cluster', pool') \<and>
     map (\<lambda>s. map rs_ID (sh_Servers s)) (cl_Shards cluster') = [[''10.0.0.1:6379'', ''10.0.0.2:6379'']] \<and>
     map rs_ref (GetSlavesRO (hd (cl_Shards cluster'))) = [(''10.0.0.2'', ''6379'')]"
proof -
  have "list_all (\<lambda>s. list_all (\<lambda>srv. readable fake_lib (rs_ref srv)) (sh_Servers s)) (cl_Shards ex_published)"
    "list_all (readable fake_lib) (cl_Sentinels ex_published)"
    "map (\<lambda>s. map rs_ID (sh_Servers (shard_read_back s))) (cl_Shards ex_published) = [[''10.0.0.1:6379'', ''10.0.0.2:6379'']]"
    "map (\<lambda>s. map rs_ref (GetSlavesRO s)) (cl_Shards ex_published) = [[(''10.0.0.2'', ''6379'')]]"
    "list_all (\<lambda>s. distinct (map (\<lambda>srv. alias_of [] (rs_ref srv)) (sh_Servers s))) (cl_Shards ex_published)"
    "distinct (cl_Sentinels ex_published)"
    by code_simp+
  then show ?thesis
    using status_roundtrip [OF fake_lib_canonical, of "[]" rev rev ex_published "[]" "cluster_status [] ex_published"]
      cluster_status_shows [of "[]" ex_published]
    by (auto simp: pool_split_def publishable_def list_all_iff ex_published_def)
qed

end
