(* ===== verification/BackupReconciler.thy ===== *)
theory BackupReconciler
  imports BackupController SentinelStatus
begin

text \<open>
  The whole reconciliation of a ShardedRedisBackup: the first phase of
  \<^verbatim>\<open>internal/controller/shardedredisbackup_controller.go\<close>, which reads the Sentinel resource and the
  two secrets, in front of the phases of theory BackupController. It is where the backup controller
  depends on the status that the Sentinel controller publishes.
\<close>

section \<open>Reading the resources\<close>

record Secret =
  sec_Type :: string
  sec_Data :: "string \<rightharpoonup> string"

text \<open>The reads of the Kubernetes client, by namespace and name.\<close>

record 'k backup_kube =
  bk_GetSentinel :: "owner \<Rightarrow> 'k \<Rightarrow> error + SentinelStatus"
  bk_GetSecret :: "owner \<Rightarrow> 'k \<Rightarrow> error + Secret"

definition SecretTypeSSHAuth :: string where "SecretTypeSSHAuth = ''kubernetes.io/ssh-auth''"
definition SSHAuthPrivateKey :: string where "SSHAuthPrivateKey = ''ssh-privatekey''"
definition AWSAccessKeyEnvvar :: string where "AWSAccessKeyEnvvar = ''AWS_ACCESS_KEY_ID''"
definition AWSSecretKeyEnvvar :: string where "AWSSecretKeyEnvvar = ''AWS_SECRET_ACCESS_KEY''"
definition AWSAccessKeyID_SecretKey :: string where "AWSAccessKeyID_SecretKey = ''AWS_ACCESS_KEY_ID''"
definition AWSSecretAccessKey_SecretKey :: string where "AWSSecretAccessKey_SecretKey = ''AWS_SECRET_ACCESS_KEY''"

text \<open>A missing key of the data of a secret reads as the empty string.\<close>

definition data_of :: "Secret \<Rightarrow> string \<Rightarrow> string" where
  "data_of s key = (case sec_Data s key of None \<Rightarrow> '''' | Some v \<Rightarrow> v)"

definition missing_key :: "string \<Rightarrow> string \<Rightarrow> error" where
  "missing_key name key = ErrorString (''secret '' @ name @ '' is missing '' @ key @ '' key'')"

definition check_ssh :: "string \<Rightarrow> Secret \<Rightarrow> error option" where
  "check_ssh name s =
     (if sec_Type s \<noteq> SecretTypeSSHAuth
      then Some (ErrorString (''secret '' @ name @ '' must be of 'kubernetes.io/ssh-auth' type''))
      else if sec_Data s SSHAuthPrivateKey = None then Some (missing_key name SSHAuthPrivateKey)
      else None)"

definition check_aws :: "string \<Rightarrow> Secret \<Rightarrow> error option" where
  "check_aws name s =
     (if sec_Data s AWSAccessKeyEnvvar = None then Some (missing_key name AWSAccessKeyEnvvar)
      else if sec_Data s AWSSecretKeyEnvvar = None then Some (missing_key name AWSSecretKeyEnvvar)
      else None)"

record 'w backup_lib =
  bb_X :: "'w lib"
  bb_iter :: "(string, RedisServerDetails) gomap \<Rightarrow> (string, RedisServerDetails) gomap"
  bb_iterS :: "(string, string) gomap \<Rightarrow> (string, string) gomap"

definition get_instances ::
    "'w backup_lib \<Rightarrow> 'k backup_kube \<Rightarrow> 'k \<Rightarrow> string \<Rightarrow> ShardedRedisBackupSpec \<Rightarrow> ServerPool
       \<Rightarrow> (error + Cluster \<times> Secret \<times> Secret) \<times> ServerPool" where
  "get_instances L K k ns spec pool =
     (case bk_GetSentinel K (ns, srb_SentinelRef spec) k of
        Inl e \<Rightarrow> (Inl e, pool)
      | Inr status \<Rightarrow>
          (case Status_ShardedCluster (bb_X L) (bb_iter L) (bb_iterS L) status pool of
             (Inl e, pool) \<Rightarrow> (Inl e, pool)
           | (Inr cluster, pool) \<Rightarrow>
               let ssh = ssh_PrivateKeySecretRef (srb_SSHOptions spec);
                   aws = s3o_CredentialsSecretRef (srb_S3Options spec)
               in case bk_GetSecret K (ns, ssh) k of
                    Inl e \<Rightarrow> (Inl e, pool)
                  | Inr sshPrivateKey \<Rightarrow>
                      (case check_ssh ssh sshPrivateKey of
                         Some e \<Rightarrow> (Inl e, pool)
                       | None \<Rightarrow>
                           (case bk_GetSecret K (ns, aws) k of
                              Inl e \<Rightarrow> (Inl e, pool)
                            | Inr awsCredentials \<Rightarrow>
                                (case check_aws aws awsCredentials of
                                   Some e \<Rightarrow> (Inl e, pool)
                                 | None \<Rightarrow> (Inr (cluster, sshPrivateKey, awsCredentials), pool))))))"

text \<open>\<open>clock\<close> is the time at the start and at the end, and \<open>nxt\<close> the parsed schedule.\<close>

definition backup_env_of ::
    "owner \<Rightarrow> ShardedRedisBackupSpec \<Rightarrow> int \<times> int \<Rightarrow> error + (int \<Rightarrow> int) \<Rightarrow> Cluster \<times> Secret \<times> Secret \<Rightarrow> ServerPool \<Rightarrow> backup_env" where
  "backup_env_of o1 spec clock nxt = (\<lambda>(cluster, ssh, aws) pool.
     \<lparr>env_owner = o1, env_spec = spec, env_cluster = cluster, env_pool = pool,
      env_sshKey = data_of ssh SSHAuthPrivateKey,
      env_awsAccessKey = data_of aws AWSAccessKeyID_SecretKey,
      env_awsSecretKey = data_of aws AWSSecretAccessKey_SecretKey,
      env_now = fst clock, env_end = snd clock, env_Next = nxt\<rparr>)"

definition Backup_Reconcile ::
    "'w backup_lib \<Rightarrow> 'k backup_kube \<Rightarrow> 'k \<Rightarrow> owner \<Rightarrow> ShardedRedisBackupSpec \<Rightarrow> int \<times> int \<Rightarrow> error + (int \<Rightarrow> int)
       \<Rightarrow> ServerPool \<Rightarrow> BackupStatusList \<Rightarrow> Runner Manager
       \<Rightarrow> ((outcome \<times> BackupStatusList \<times> Runner Manager) \<times> ServerPool) option" where
  "Backup_Reconcile L K k o1 spec clock nxt pool bl mgr =
     (case get_instances L K k (fst o1) spec pool of
        (Inl e, pool) \<Rightarrow> Some ((Failed e, bl, mgr), pool)
      | (Inr i, pool) \<Rightarrow> map_option (\<lambda>r. (r, pool)) (Reconcile (backup_env_of o1 spec clock nxt i pool) bl mgr))"

section \<open>Properties\<close>

text \<open>A secret that a backup can use.\<close>

definition secrets_ok :: "'k backup_kube \<Rightarrow> 'k \<Rightarrow> string \<Rightarrow> ShardedRedisBackupSpec \<Rightarrow> bool" where
  "secrets_ok K k ns spec \<longleftrightarrow>
     (\<exists>s. bk_GetSecret K (ns, ssh_PrivateKeySecretRef (srb_SSHOptions spec)) k = Inr s \<and>
        sec_Type s = SecretTypeSSHAuth \<and> SSHAuthPrivateKey \<in> dom (sec_Data s)) \<and>
     (\<exists>s. bk_GetSecret K (ns, s3o_CredentialsSecretRef (srb_S3Options spec)) k = Inr s \<and>
        {AWSAccessKeyEnvvar, AWSSecretKeyEnvvar} \<subseteq> dom (sec_Data s))"

lemma get_instances_ok:
  assumes "bk_GetSentinel K (ns, srb_SentinelRef spec) k = Inr ss"
    and "Status_ShardedCluster (bb_X L) (bb_iter L) (bb_iterS L) ss pool = (Inr cluster, pool')"
  shows "(\<exists>ssh aws. get_instances L K k ns spec pool = (Inr (cluster, ssh, aws), pool')) \<longleftrightarrow> secrets_ok K k ns spec"
  using assms
  by (auto simp: get_instances_def secrets_ok_def check_ssh_def check_aws_def Let_def split: sum.splits option.splits if_splits)


section \<open>Witness\<close>

definition ex_secrets :: "unit backup_kube" where
  "ex_secrets = \<lparr>bk_GetSentinel = (\<lambda>_ _. Inr (cluster_status [] ex_published)),
     bk_GetSecret = (\<lambda>n _. Inr (if n = (''ns'', ''ssh'')
       then \<lparr>sec_Type = SecretTypeSSHAuth, sec_Data = [SSHAuthPrivateKey \<mapsto> ''key'']\<rparr>
       else \<lparr>sec_Type = ''Opaque'', sec_Data = [AWSAccessKeyEnvvar \<mapsto> ''id'', AWSSecretKeyEnvvar \<mapsto> ''secret'']\<rparr>))\<rparr>"

definition ex_lib :: "fake_world backup_lib" where
  "ex_lib = \<lparr>bb_X = fake_lib, bb_iter = rev, bb_iterS = rev\<rparr>"

lemma ex_backup_reconcile:
  "map_option (\<lambda>r. ()) (Backup_Reconcile ex_lib ex_secrets () (''ns'', ''backup'') ex_spec (1700000001000000000, 1700000001000000000)
     (Inr (\<lambda>t. 1700003600000000000)) [] ex_backups NewManager) = Some ()"
  by code_simp

lemma ex_published_ok:
  "list_all (\<lambda>s. list_all (\<lambda>srv. readable fake_lib (rs_ref srv)) (sh_Servers s)) (cl_Shards ex_published)"
  "list_all (readable fake_lib) (cl_Sentinels ex_published)"
  "list_all (\<lambda>s. distinct (map (\<lambda>srv. alias_of [] (rs_ref srv)) (sh_Servers s))) (cl_Shards ex_published)"
  "distinct (cl_Sentinels ex_published)" "map sh_Name (cl_Shards ex_published) = [''shard01'']"
  by code_simp+


end
