(* ===== verification/BackupUpload.thy ===== *)
theory BackupUpload
  imports BackupRunner
begin

text \<open>
  The upload of a backup: \<^verbatim>\<open>internal/pkg/ssh/remote_exec.go\<close>, which runs commands and scripts
  on a remote host, and \<^verbatim>\<open>UploadBackup\<close> and \<^verbatim>\<open>uploadScript\<close> of
  \<^verbatim>\<open>internal/pkg/redis/backup/s3upload.go\<close>, with the lexical functions of the packages
  \<^verbatim>\<open>path\<close> and \<^verbatim>\<open>path/filepath\<close> they use. The SSH library and the remote host are parameters.
  The lemmas show that the file of a backup is not removed before its upload succeeded, that
  the AWS secret does not reach the log, and when the check of a backup finds the upload.
\<close>

section \<open>Paths\<close>

text \<open>
  \<^verbatim>\<open>path.Clean\<close>: empty elements and dots are dropped, and a double dot drops the element before
  it. The second argument holds the elements kept so far, last first.
\<close>

fun clean_parts :: "bool \<Rightarrow> string list \<Rightarrow> string list \<Rightarrow> string list" where
  "clean_parts rooted st [] = rev st"
| "clean_parts rooted st (x # xs) =
     (if x = '''' \<or> x = ''.'' then clean_parts rooted st xs
      else if x = ''..'' then
        (case st of
           y # ys \<Rightarrow> if y \<noteq> ''..'' then clean_parts rooted ys xs else clean_parts rooted (x # st) xs
         | [] \<Rightarrow> if rooted then clean_parts rooted [] xs else clean_parts rooted [x] xs)
      else clean_parts rooted (x # st) xs)"

definition path_rooted :: "string \<Rightarrow> bool" where
  "path_rooted p \<longleftrightarrow> (case p of [] \<Rightarrow> False | c # _ \<Rightarrow> c = CHR ''/'')"

definition path_parts :: "string \<Rightarrow> string list" where
  "path_parts p = clean_parts (path_rooted p) [] (split_on (CHR ''/'') p)"

definition path_Clean :: "string \<Rightarrow> string" where
  "path_Clean p =
     (if p = '''' then ''.''
      else if path_rooted p then CHR ''/'' # join ''/'' (path_parts p)
      else if path_parts p = [] then ''.''
      else join ''/'' (path_parts p))"

text \<open>\<^verbatim>\<open>path.Dir\<close>: what precedes the last slash, that slash included, cleaned.\<close>

definition path_Dir :: "string \<Rightarrow> string" where
  "path_Dir p = path_Clean (case lastIndex (CHR ''/'') p of None \<Rightarrow> '''' | Some i \<Rightarrow> take (i + 1) p)"

text \<open>\<^verbatim>\<open>filepath.Join\<close>: empty elements at the start are ignored.\<close>

fun filepath_Join :: "string list \<Rightarrow> string" where
  "filepath_Join [] = ''''"
| "filepath_Join (e # es) = (if e \<noteq> '''' then path_Clean (join ''/'' (e # es)) else filepath_Join es)"

section \<open>Remote execution\<close>

text \<open>
  \<^verbatim>\<open>strings.ReplaceAll\<close>: the occurrences that do not overlap, from the left; an empty string
  occurs before every character and at the end.
\<close>

function ReplaceAll_nonempty :: "string \<Rightarrow> string \<Rightarrow> string \<Rightarrow> string" where
  "ReplaceAll_nonempty old new s =
     (if old = [] then s
      else if prefix old s then new @ ReplaceAll_nonempty old new (drop (length old) s)
      else (case s of [] \<Rightarrow> [] | c # cs \<Rightarrow> c # ReplaceAll_nonempty old new cs))"
  by pat_completeness auto

termination
  by (relation "measure (\<lambda>(old, new, s). length s)") (auto simp: prefix_def)

declare ReplaceAll_nonempty.simps [simp del]

definition ReplaceAll :: "string \<Rightarrow> string \<Rightarrow> string \<Rightarrow> string" where
  "ReplaceAll s old new =
     (if old = '''' then new @ concat (map (\<lambda>c. c # new) s) else ReplaceAll_nonempty old new s)"

definition hideSensitive :: "string \<Rightarrow> string list \<Rightarrow> string" where
  "hideSensitive msg hide = foldl (\<lambda>msg ss. ReplaceAll msg ss ''*****'') msg hide"

record Command =
  cmd_value :: string
  cmd_sensitive :: "string list"
  cmd_sudo :: bool

record Script =
  scr_value :: string
  scr_interpreter :: string
  scr_sensitive :: "string list"
  scr_sudo :: bool

datatype Runnable = RunCommand Command | RunScript Script

definition NewCommand :: "string \<Rightarrow> string list \<Rightarrow> Command" where
  "NewCommand v sens = \<lparr>cmd_value = v, cmd_sensitive = sens, cmd_sudo = False\<rparr>"

definition NewScript :: "string \<Rightarrow> string \<Rightarrow> string list \<Rightarrow> Script" where
  "NewScript interp script sens =
     \<lparr>scr_value = script, scr_interpreter = interp, scr_sensitive = sens, scr_sudo = False\<rparr>"

definition Command_WithSudo :: "bool \<Rightarrow> Command \<Rightarrow> Runnable" where
  "Command_WithSudo sudo c = RunCommand (c\<lparr>cmd_sudo := sudo\<rparr>)"

definition Script_WithSudo :: "bool \<Rightarrow> Script \<Rightarrow> Runnable" where
  "Script_WithSudo sudo s = RunScript (s\<lparr>scr_sudo := sudo\<rparr>)"

definition resolveValue :: "Command \<Rightarrow> string" where
  "resolveValue c = (if cmd_sudo c then ''sudo '' @ cmd_value c else cmd_value c)"

definition resolveInterpreter :: "Script \<Rightarrow> string" where
  "resolveInterpreter s = (if scr_sudo s then ''sudo '' @ scr_interpreter s else scr_interpreter s)"

definition Command_Info :: "Command \<Rightarrow> string" where
  "Command_Info c = ''run command: '' @ hideSensitive (resolveValue c) (cmd_sensitive c)"

definition Script_Info :: "Script \<Rightarrow> string" where
  "Script_Info s =
     ''run script with: '' @ quoted (hideSensitive (resolveInterpreter s) (scr_sensitive s)) @ '' '' @
     [CHR 0x0A] @ quoted (hideSensitive (scr_value s) (scr_sensitive s))"

fun Runnable_Info :: "Runnable \<Rightarrow> string" where
  "Runnable_Info (RunCommand c) = Command_Info c"
| "Runnable_Info (RunScript s) = Script_Info s"

text \<open>
  The SSH library: parsing of a private key, the connection of a user to an address with a key
  and a timeout, a new session, the combined output of a command, the pipe to standard input,
  and a command that is started while its standard input is written: the error of the write, or
  the combined output.
\<close>

record 'w sshlib =
  ssh_ParsePrivateKey :: "string \<Rightarrow> error option"
  ssh_Dial :: "string \<Rightarrow> string \<Rightarrow> string \<Rightarrow> int \<Rightarrow> ('w, error option) go"
  ssh_NewSession :: "('w, error option) go"
  ssh_CombinedOutput :: "string \<Rightarrow> ('w, string \<times> error option) go"
  ssh_StdinPipe :: "('w, error option) go"
  ssh_Feed :: "string \<Rightarrow> string \<Rightarrow> ('w, error + string \<times> error option) go"

definition Command_Run :: "'w sshlib \<Rightarrow> Command \<Rightarrow> ('w, string \<times> error option) go" where
  "Command_Run R c w =
     do { (e, w) \<leftarrow> ssh_NewSession R w;
          case e of
            Some e \<Rightarrow> Some (('''', Some e), w)
          | None \<Rightarrow>
              do { ((output, e), w) \<leftarrow> ssh_CombinedOutput R (resolveValue c) w;
                   Some (if e \<noteq> None then (output, e) else ('''', None), w) } }"

definition Script_Run :: "'w sshlib \<Rightarrow> Script \<Rightarrow> ('w, string \<times> error option) go" where
  "Script_Run R s w =
     do { (e, w) \<leftarrow> ssh_NewSession R w;
          case e of
            Some e \<Rightarrow> Some (('''', Some e), w)
          | None \<Rightarrow>
              do { (e, w) \<leftarrow> ssh_StdinPipe R w;
                   case e of
                     Some e \<Rightarrow> Some (('''', Some e), w)
                   | None \<Rightarrow>
                       do { (r, w) \<leftarrow> ssh_Feed R (resolveInterpreter s) (scr_value s) w;
                            Some (case r of
                                    Inl e \<Rightarrow> ('''', Some e)
                                  | Inr (output, e) \<Rightarrow> if e \<noteq> None then (output, e) else ('''', None), w) } } }"

fun Runnable_Run :: "'w sshlib \<Rightarrow> Runnable \<Rightarrow> ('w, string \<times> error option) go" where
  "Runnable_Run R (RunCommand c) w = Command_Run R c w"
| "Runnable_Run R (RunScript s) w = Script_Run R s w"

definition errRemote :: "error \<Rightarrow> string \<Rightarrow> error" where
  "errRemote e output = WrappedErrorIn ''remote ssh command failed: '' e ('' ('' @ output @ '')'')"

text \<open>The result carries the lines written to the log.\<close>

definition run_log :: "Runnable \<Rightarrow> string \<Rightarrow> error option \<Rightarrow> string list" where
  "run_log c output e =
     [Runnable_Info c] @ (if output \<noteq> '''' then [''remote ssh command output: '' @ output] else []) @
     (case e of None \<Rightarrow> [] | Some e \<Rightarrow> [''remote ssh command error: '' @ error_text e])"

fun run_commands :: "'w sshlib \<Rightarrow> Runnable list \<Rightarrow> ('w, error option \<times> string list) go" where
  "run_commands R [] w = Some ((None, []), w)"
| "run_commands R (c # cs) w =
     do { ((output, e), w) \<leftarrow> Runnable_Run R c w;
          case e of
            Some e \<Rightarrow> Some ((Some (errRemote e output), run_log c output (Some e)), w)
          | None \<Rightarrow>
              do { ((r, log), w) \<leftarrow> run_commands R cs w;
                   Some ((r, run_log c output None @ log), w) } }"

record RemoteExecutor =
  re_Host :: string
  re_User :: string
  re_Port :: int
  re_PrivateKey :: string
  re_CmdTimeout :: int
  re_Commands :: "Runnable list"

definition RemoteExecutor_Run :: "'w sshlib \<Rightarrow> RemoteExecutor \<Rightarrow> ('w, error option \<times> string list) go" where
  "RemoteExecutor_Run R re w =
     (case ssh_ParsePrivateKey R (re_PrivateKey re) of
        Some e \<Rightarrow> Some ((Some e, []), w)
      | None \<Rightarrow>
          do { (e, w) \<leftarrow> ssh_Dial R (re_User re) (JoinHostPort (re_Host re) (itoa (re_Port re)))
                 (re_PrivateKey re) (re_CmdTimeout re) w;
               case e of
                 Some e \<Rightarrow> Some ((Some e, []), w)
               | None \<Rightarrow> run_commands R (re_Commands re) w })"

section \<open>The upload\<close>

record templateVars =
  tv_File :: string
  tv_Bucket :: string
  tv_Key :: string
  tv_Endpoint :: string
  tv_Tags :: string

definition dquoted :: "string \<Rightarrow> string" where
  "dquoted s = CHR 0x22 # s @ [CHR 0x22]"

text \<open>The script template executed on its variables, without the indentation that \<^verbatim>\<open>heredoc.Doc\<close> removes.\<close>

definition scriptTemplate :: "templateVars \<Rightarrow> string" where
  "scriptTemplate v =
     concat (map (\<lambda>l. l @ [CHR 0x0A])
       [''import boto3'',
        ''session = boto3.session.Session()'',
        ''s3 = session.client(service_name='' @ dquoted ''s3'' @
          (if tv_Endpoint v \<noteq> '''' then '',endpoint_url='' @ dquoted (tv_Endpoint v) else '''') @ '')'',
        ''s3.upload_file('',
        CHR 0x09 # dquoted (tv_File v) @ '','',
        CHR 0x09 # dquoted (tv_Bucket v) @ '','',
        CHR 0x09 # dquoted (tv_Key v) @ '','',
        CHR 0x09 # ''ExtraArgs={'' @ dquoted ''Tagging'' @ '': '' @ dquoted (tv_Tags v) @ ''},'',
        '')''])"

definition upload_vars :: "time_format \<Rightarrow> Runner \<Rightarrow> string \<Rightarrow> templateVars" where
  "upload_vars F br tags =
     \<lparr>tv_File = filepath_Join [path_Dir (br_RedisDBFile br), BackupFileCompressed F br],
      tv_Bucket = br_S3Bucket br,
      tv_Key = filepath_Join [br_S3Path br, BackupFileCompressed F br],
      tv_Endpoint = (case br_AWSS3Endpoint br of None \<Rightarrow> '''' | Some ep \<Rightarrow> ep),
      tv_Tags = tags\<rparr>"

definition uploadScript ::
    "'w s3lib \<Rightarrow> time_format \<Rightarrow> ServerPool \<Rightarrow> Runner \<Rightarrow> ('w, error + string) go" where
  "uploadScript S F pool br w =
     do { (r, w) \<leftarrow> resolveTags S F pool br w;
          Some (case r of Inl e \<Rightarrow> Inl e | Inr tags \<Rightarrow> Inr (scriptTemplate (upload_vars F br tags)), w) }"

definition mv_command :: "time_format \<Rightarrow> Runner \<Rightarrow> string" where
  "mv_command F br =
     ''mv '' @ br_RedisDBFile br @ '' '' @ path_Dir (br_RedisDBFile br) @ ''/'' @ BackupFile F br"

definition gzip_command :: "time_format \<Rightarrow> Runner \<Rightarrow> string" where
  "gzip_command F br = ''gzip -1 '' @ path_Dir (br_RedisDBFile br) @ ''/'' @ BackupFile F br"

definition upload_interpreter :: "Runner \<Rightarrow> string" where
  "upload_interpreter br =
     ''AWS_REGION='' @ br_AWSRegion br @ '' AWS_ACCESS_KEY_ID='' @ br_AWSAccessKeyID br @
     '' AWS_SECRET_ACCESS_KEY='' @ br_AWSSecretAccessKey br @ '' python -''"

definition rm_command :: "Runner \<Rightarrow> string" where
  "rm_command br = ''rm -f '' @ path_Dir (br_RedisDBFile br) @ ''/'' @ BackupFileBaseName br @ ''*''"

definition upload_executor :: "time_format \<Rightarrow> Runner \<Rightarrow> string \<Rightarrow> RemoteExecutor" where
  "upload_executor F br script =
     \<lparr>re_Host = GetHost (br_Server br), re_User = br_SSHUser br, re_Port = br_SSHPort br,
      re_PrivateKey = br_SSHKey br, re_CmdTimeout = 0,
      re_Commands =
        [Command_WithSudo (br_SSHSudo br) (NewCommand (mv_command F br) []),
         Command_WithSudo (br_SSHSudo br) (NewCommand (gzip_command F br) []),
         RunScript (NewScript (upload_interpreter br) script [br_AWSSecretAccessKey br]),
         Command_WithSudo (br_SSHSudo br) (NewCommand (rm_command br) [])]\<rparr>"

definition UploadBackup ::
    "'w s3lib \<Rightarrow> 'w sshlib \<Rightarrow> time_format \<Rightarrow> ServerPool \<Rightarrow> Runner \<Rightarrow> ('w, error option \<times> string list) go" where
  "UploadBackup S R F pool br w =
     do { (r, w) \<leftarrow> uploadScript S F pool br w;
          case r of
            Inl e \<Rightarrow> Some ((Some e, []), w)
          | Inr script \<Rightarrow> RemoteExecutor_Run R (upload_executor F br script) w }"

section \<open>Lemmas on paths\<close>

lemma split_on_last: "c \<notin> set f \<Longrightarrow> split_on c (p @ c # f) = split_on c p @ [f]"
proof (induction p)
  case Nil
  then show ?case by (simp add: split_on_notin)
next
  case (Cons x xs)
  then show ?case by (cases "split_on c xs") simp_all
qed

lemma clean_parts_snoc:
  assumes "f \<notin> {'''', ''.'', ''..''}"
  shows "clean_parts r st (xs @ [f]) = clean_parts r st xs @ [f]"
  using assms by (induction r st xs rule: clean_parts.induct) (auto split: list.splits)

lemma join_snoc: "xs \<noteq> [] \<Longrightarrow> join sep (xs @ [f]) = join sep xs @ sep @ f"
  by (induction sep xs rule: join.induct) auto

text \<open>A name that \<^verbatim>\<open>path.Clean\<close> leaves alone.\<close>

definition plain_name :: "string \<Rightarrow> bool" where
  "plain_name f \<longleftrightarrow> CHR ''/'' \<notin> set f \<and> f \<notin> {'''', ''.'', ''..''}"

lemma path_parts_snoc:
  assumes "plain_name f" and "p \<noteq> ''''"
  shows "path_rooted (p @ ''/'' @ f) = path_rooted p" and "path_parts (p @ ''/'' @ f) = path_parts p @ [f]"
proof -
  show r: "path_rooted (p @ ''/'' @ f) = path_rooted p"
    using assms(2) by (cases p) (simp_all add: path_rooted_def)
  have "split_on (CHR ''/'') (p @ ''/'' @ f) = split_on (CHR ''/'') p @ [f]"
    using assms(1) split_on_last [of "CHR ''/''" f p] by (simp add: plain_name_def)
  with assms(1) r show "path_parts (p @ ''/'' @ f) = path_parts p @ [f]"
    unfolding path_parts_def by (simp add: clean_parts_snoc plain_name_def)
qed

lemma path_Clean_plain:
  assumes "plain_name f"
  shows "path_Clean f = f"
proof -
  have "\<not> path_rooted f" using assms by (cases f) (auto simp: plain_name_def path_rooted_def)
  moreover have "path_parts f = [f]" using assms by (auto simp: plain_name_def path_parts_def split_on_notin)
  ultimately show ?thesis using assms by (simp add: path_Clean_def plain_name_def)
qed

lemma filepath_Join_name:
  assumes "plain_name f"
  shows "filepath_Join [p, f] =
    (if p = '''' \<or> \<not> path_rooted p \<and> path_parts p = [] then '''' else if path_parts p = [] then ''/''
     else path_Clean p @ ''/'') @ f"
proof (cases "p = ''''")
  case True
  then show ?thesis using assms path_Clean_plain [OF assms] by (auto simp: plain_name_def)
next
  case False
  have "path_Clean (p @ ''/'' @ f) =
      (if \<not> path_rooted p \<and> path_parts p = [] then '''' else if path_parts p = [] then ''/''
       else path_Clean p @ ''/'') @ f"
    unfolding path_Clean_def using False path_parts_snoc [OF assms False] by (auto simp: join_snoc)
  with False show ?thesis by simp
qed

definition parts_size :: "string list \<Rightarrow> nat" where
  "parts_size xs = sum_list (map (\<lambda>x. Suc (length x)) xs)"

lemma parts_size_simps [simp]:
  "parts_size [] = 0" "parts_size (x # xs) = Suc (length x) + parts_size xs"
  "parts_size (xs @ ys) = parts_size xs + parts_size ys" "parts_size (rev xs) = parts_size xs"
  by (simp_all add: parts_size_def sum_list_rev flip: rev_map)

lemma clean_parts_size: "parts_size (clean_parts r st xs) \<le> parts_size st + parts_size xs"
  by (induction r st xs rule: clean_parts.induct) (auto split: list.splits)

lemma length_join: "xs \<noteq> [] \<Longrightarrow> Suc (length (join [c] xs)) = parts_size xs"
  by (induction "[c]" xs rule: join.induct) auto

lemma parts_size_split: "parts_size (split_on c p) = Suc (length p)"
  using length_join [of "split_on c p" c] by (simp add: join_split_on)

lemma length_path_Clean:
  assumes "p \<noteq> ''''"
  shows "length (path_Clean p) \<le> length p"
proof (cases "path_rooted p")
  case True
  then obtain q where p: "p = CHR ''/'' # q" by (auto simp: path_rooted_def split: list.splits)
  have "path_parts p = clean_parts True [] (split_on (CHR ''/'') q)"
    using True by (simp add: path_parts_def p)
  then have "parts_size (path_parts p) \<le> length p"
    using clean_parts_size [of True "[]" "split_on (CHR ''/'') q"] by (simp add: parts_size_split p)
  with True show ?thesis
    using length_join [of "path_parts p" "CHR ''/''"] p by (cases "path_parts p = []") (simp_all add: path_Clean_def)
next
  case False
  have "parts_size (path_parts p) \<le> Suc (length p)"
    using clean_parts_size [of "path_rooted p" "[]" "split_on (CHR ''/'') p"]
    by (simp add: path_parts_def parts_size_split)
  with False assms show ?thesis
    using length_join [of "path_parts p" "CHR ''/''"]
    by (cases "path_parts p = []") (auto simp: path_Clean_def Suc_le_eq)
qed

lemma filepath_Join_dir:
  assumes "plain_name f"
  obtains d where "filepath_Join [p, f] = d @ f" "length d \<le> Suc (length p)"
proof (rule that [OF filepath_Join_name [OF assms]])
  show "length (if p = '''' \<or> \<not> path_rooted p \<and> path_parts p = [] then '''' else
      if path_parts p = [] then ''/'' else path_Clean p @ ''/'') \<le> Suc (length p)"
    using length_path_Clean [of p] by auto
qed

text \<open>
  Joining a directory and a name writes them with a slash between exactly when the directory
  is clean, and neither the root nor the dot.
\<close>

lemma filepath_Join_iff:
  assumes "plain_name f"
  shows "filepath_Join [p, f] = p @ ''/'' @ f \<longleftrightarrow> path_Clean p = p \<and> p \<notin> {''.'', ''/''}"
proof -
  have "path_parts ''.'' = []" "path_parts ''/'' = []" by (simp_all add: path_parts_def)
  moreover have "path_Clean p \<in> {''.'', ''/''}" if "path_parts p = []"
    using that by (simp add: path_Clean_def)
  ultimately show ?thesis unfolding filepath_Join_name [OF assms]
    by (auto simp: path_Clean_def [of "''''"])
qed

text \<open>A key under the expected directory is the expected key.\<close>

lemma filepath_Join_prefix:
  assumes "plain_name f" and "prefix (p @ ''/'' @ x) (filepath_Join [p, f])"
  shows "filepath_Join [p, f] = p @ ''/'' @ f"
proof -
  obtain d where d: "filepath_Join [p, f] = d @ f" "length d \<le> Suc (length p)"
    using assms(1) by (rule filepath_Join_dir)
  obtain z where z: "d @ f = (p @ ''/'') @ (x @ z)" using assms(2) d(1) by (auto simp: prefix_def)
  have "length d = Suc (length p)"
  proof (rule ccontr)
    assume "length d \<noteq> Suc (length p)"
    with d(2) have l: "length d \<le> length p" by simp
    then have "(d @ f) ! length p = f ! (length p - length d)" by (simp add: nth_append)
    moreover have "(d @ f) ! length p = CHR ''/''" by (simp add: z nth_append)
    moreover have "length p - length d < length f"
      using arg_cong [OF z, of length] l by simp
    ultimately have "CHR ''/'' \<in> set f" by (metis nth_mem)
    with assms(1) show False by (simp add: plain_name_def)
  qed
  then have "d = p @ ''/''" using z by (subst (asm) append_eq_append_conv) simp_all
  with d(1) show ?thesis by simp
qed

section \<open>The outcomes of a remote command\<close>

lemma Command_RunE:
  assumes "Command_Run R c w = Some ((out, e), w')"
  obtains (no_session) "ssh_NewSession R w = Some (e, w')" "out = ''''" "e \<noteq> None"
  | (ran) w1 out1 where "ssh_NewSession R w = Some (None, w1)"
      "ssh_CombinedOutput R (resolveValue c) w1 = Some ((out1, e), w')" "out = (if e = None then '''' else out1)"
proof -
  obtain e1 w1 where s: "ssh_NewSession R w = Some (e1, w1)"
    using assms by (auto simp: Command_Run_def elim!: bind_SomeE)
  show ?thesis
  proof (cases e1)
    case (Some x)
    with assms s show ?thesis by (intro no_session) (auto simp: Command_Run_def)
  next
    case None
    with assms s obtain out1 e2 where c: "ssh_CombinedOutput R (resolveValue c) w1 = Some ((out1, e2), w')"
      by (auto simp: Command_Run_def elim!: bind_SomeE)
    with None assms s show ?thesis by (intro ran) (auto simp: Command_Run_def split: if_splits)
  qed
qed

lemma Script_RunE:
  assumes "Script_Run R c w = Some ((out, e), w')"
  obtains (no_session) "ssh_NewSession R w = Some (e, w')" "out = ''''" "e \<noteq> None"
  | (no_pipe) w1 where "ssh_NewSession R w = Some (None, w1)" "ssh_StdinPipe R w1 = Some (e, w')"
      "out = ''''" "e \<noteq> None"
  | (not_written) w1 w2 e1 where "ssh_NewSession R w = Some (None, w1)" "ssh_StdinPipe R w1 = Some (None, w2)"
      "ssh_Feed R (resolveInterpreter c) (scr_value c) w2 = Some (Inl e1, w')" "out = ''''" "e = Some e1"
  | (ran) w1 w2 out1 where "ssh_NewSession R w = Some (None, w1)" "ssh_StdinPipe R w1 = Some (None, w2)"
      "ssh_Feed R (resolveInterpreter c) (scr_value c) w2 = Some (Inr (out1, e), w')"
      "out = (if e = None then '''' else out1)"
proof -
  obtain e1 w1 where s: "ssh_NewSession R w = Some (e1, w1)"
    using assms by (auto simp: Script_Run_def elim!: bind_SomeE)
  show ?thesis
  proof (cases e1)
    case (Some x)
    with assms s show ?thesis by (intro no_session) (auto simp: Script_Run_def)
  next
    case None
    obtain e2 w2 where p: "ssh_StdinPipe R w1 = Some (e2, w2)"
      using assms s None by (auto simp: Script_Run_def elim!: bind_SomeE)
    show ?thesis
    proof (cases e2)
      case (Some x)
      with assms s p None show ?thesis by (intro no_pipe) (auto simp: Script_Run_def)
    next
      case p2: None
      obtain r where f: "ssh_Feed R (resolveInterpreter c) (scr_value c) w2 = Some (r, w')"
        using assms s p None p2 by (auto simp: Script_Run_def elim!: bind_SomeE)
      show ?thesis
      proof (cases r)
        case (Inl x)
        with assms s p f None p2 show ?thesis by (intro not_written) (auto simp: Script_Run_def)
      next
        case (Inr y)
        obtain out1 e3 where "y = (out1, e3)" by (cases y)
        with Inr assms s p f None p2 show ?thesis by (intro ran) (auto simp: Script_Run_def split: if_splits)
      qed
    qed
  qed
qed

text \<open>The commands run in order; the first one that fails ends the run.\<close>

lemma run_commands_ConsE:
  assumes "run_commands R (c # cs) w = Some ((r, log), w')"
  obtains (failed) out e where "Runnable_Run R c w = Some ((out, Some e), w')" "r = Some (errRemote e out)"
      "log = run_log c out (Some e)"
  | (succeeded) out w1 log1 where "Runnable_Run R c w = Some ((out, None), w1)"
      "run_commands R cs w1 = Some ((r, log1), w')" "log = run_log c out None @ log1"
proof -
  obtain out e w1 where c: "Runnable_Run R c w = Some ((out, e), w1)"
    using assms by (auto elim!: bind_SomeE)
  show ?thesis
  proof (cases e)
    case (Some x)
    with assms c show ?thesis by (intro failed) auto
  next
    case None
    with assms c obtain log1 where "run_commands R cs w1 = Some ((r, log1), w')" "log = run_log c out None @ log1"
      by (auto elim!: bind_SomeE)
    with None c show ?thesis by (intro succeeded) auto
  qed
qed

section \<open>The secret in the log\<close>

lemma contains_Nil [simp]: "contains t []"
  by (cases t) simp_all

lemma contains_short: "length t < length s \<Longrightarrow> \<not> contains t s"
  by (auto simp: contains_iff)

lemma prefix_before: "c \<notin> set s \<Longrightarrow> prefix s (a @ c # b) \<longleftrightarrow> prefix s a"
  by (auto simp: prefix_append prefix_Cons)

lemma contains_sep: "c \<notin> set s \<Longrightarrow> contains (a @ c # b) s \<longleftrightarrow> contains a s \<or> contains b s"
proof (induction a)
  case Nil
  then show ?case by (cases s) auto
next
  case (Cons x xs)
  then show ?case using prefix_before [of c s "x # xs" b] by auto
qed

lemma contains_disjoint: "set a \<inter> set s = {} \<Longrightarrow> s \<noteq> [] \<Longrightarrow> contains (a @ b) s = contains b s"
  by (induction a) (auto simp: prefix_Cons)

lemma prefix_ReplaceAll:
  assumes "prefix p (ReplaceAll_nonempty old new t)" and "set p \<inter> set new = {}" and "new \<noteq> []"
  shows "prefix p t"
  using assms
proof (induction p arbitrary: t)
  case Nil
  then show ?case by simp
next
  case (Cons a p)
  show ?case
  proof (cases "old = [] \<or> prefix old t")
    case True
    then have "ReplaceAll_nonempty old new t = (if old = [] then t else
        new @ ReplaceAll_nonempty old new (drop (length old) t))"
      by (subst ReplaceAll_nonempty.simps) auto
    moreover obtain b bs where "new = b # bs" using Cons.prems(3) by (cases new) auto
    ultimately show ?thesis using Cons.prems(1,2) by (auto split: if_splits)
  next
    case False
    with Cons.prems obtain c cs where t: "t = c # cs" and p: "prefix (a # p) (c # ReplaceAll_nonempty old new cs)"
      by (cases t) (simp_all add: ReplaceAll_nonempty.simps [of old new "[]"] ReplaceAll_nonempty.simps [of old new "_ # _"])
    with Cons.IH [of cs] Cons.prems(2,3) show ?thesis by simp
  qed
qed

lemma ReplaceAll_removes:
  assumes "old \<noteq> []" and "new \<noteq> []" and "set old \<inter> set new = {}"
  shows "\<not> contains (ReplaceAll_nonempty old new t) old"
proof (induction "length t" arbitrary: t rule: less_induct)
  case less
  show ?case
  proof (cases "prefix old t")
    case True
    have "length (drop (length old) t) < length t" using True assms(1) by (auto simp: prefix_def)
    then have "\<not> contains (ReplaceAll_nonempty old new (drop (length old) t)) old" by (rule less)
    moreover have "set new \<inter> set old = {}" using assms(3) by blast
    ultimately show ?thesis using True assms(1)
      by (simp add: ReplaceAll_nonempty.simps [of old new t] contains_disjoint)
  next
    case False
    show ?thesis
    proof (cases t)
      case Nil
      with assms(1) show ?thesis by (simp add: ReplaceAll_nonempty.simps [of old new "[]"])
    next
      case (Cons c cs)
      have r: "ReplaceAll_nonempty old new t = c # ReplaceAll_nonempty old new cs"
        using False Cons assms(1) by (simp add: ReplaceAll_nonempty.simps [of old new "c # cs"])
      then have "\<not> prefix old (c # ReplaceAll_nonempty old new cs)"
        using prefix_ReplaceAll [of old old new t] assms(2,3) False by auto
      moreover have "\<not> contains (ReplaceAll_nonempty old new cs) old" by (rule less) (simp add: Cons)
      ultimately show ?thesis by (simp add: r)
    qed
  qed
qed

text \<open>A secret as AWS issues them: long, and of letters, digits and a few signs.\<close>

definition aws_secret :: "string \<Rightarrow> bool" where
  "aws_secret s \<longleftrightarrow> 8 \<le> length s \<and>
     set s \<inter> {CHR '' '', CHR ''*'', CHR 0x27, CHR ''('', CHR '')'', CHR 0x0A} = {}"

lemma hideSensitive_hides:
  assumes "aws_secret s"
  shows "\<not> contains (hideSensitive msg [s]) s"
proof -
  have "s \<noteq> []" "set s \<inter> set ''*****'' = {}" using assms by (auto simp: aws_secret_def)
  then show ?thesis using ReplaceAll_removes [of s "''*****''" msg] by (simp add: hideSensitive_def ReplaceAll_def)
qed

lemma contains_words:
  assumes "aws_secret s" and "list_all (\<lambda>w. length w < 8) (split_on (CHR '' '') a)"
  shows "contains (a @ '' '' @ x) s \<longleftrightarrow> contains x s"
proof -
  have *: "list_all (\<lambda>w. length w < 8) ws \<Longrightarrow> contains (join '' '' ws @ '' '' @ x) s \<longleftrightarrow> contains x s" for ws
  proof (induction "'' ''" ws rule: join.induct)
    case 1
    then show ?case using assms(1) contains_sep [of "CHR '' ''" s "[]" x] contains_short [of "[]" s]
      by (auto simp: aws_secret_def)
  next
    case (2 w)
    then show ?case using assms(1) contains_sep [of "CHR '' ''" s w x] contains_short [of w s]
      by (auto simp: aws_secret_def)
  next
    case (3 w v ws)
    then show ?case
      using assms(1) contains_sep [of "CHR '' ''" s w "join '' '' (v # ws) @ '' '' @ x"] contains_short [of w s]
      by (auto simp: aws_secret_def)
  qed
  show ?thesis using * [OF assms(2)] by (simp add: join_split_on)
qed

lemma Script_Info_hides:
  assumes "aws_secret s"
  shows "\<not> contains (Script_Info (NewScript interp script [s])) s"
proof -
  let ?a = "hideSensitive interp [s]" and ?b = "hideSensitive script [s]"
  have q: "CHR 0x27 \<notin> set s" "8 \<le> length s" using assms by (auto simp: aws_secret_def)
  have b: "\<not> contains (?b @ [CHR 0x27]) s"
    using contains_sep [OF q(1), of ?b "[]"] hideSensitive_hides [OF assms, of script] contains_short [of "[]" s] q(2)
    by auto
  have m: "\<not> contains ('' '' @ [CHR 0x0A] @ CHR 0x27 # ?b @ [CHR 0x27]) s"
    using contains_sep [OF q(1), of "'' '' @ [CHR 0x0A]" "?b @ [CHR 0x27]"] b
      contains_short [of "'' '' @ [CHR 0x0A]" s] q(2) by simp
  have i: "\<not> contains (CHR 0x27 # ?a @ CHR 0x27 # '' '' @ [CHR 0x0A] @ CHR 0x27 # ?b @ [CHR 0x27]) s"
    using contains_sep [OF q(1), of "[]" "?a @ CHR 0x27 # '' '' @ [CHR 0x0A] @ CHR 0x27 # ?b @ [CHR 0x27]"]
      contains_sep [OF q(1), of ?a "'' '' @ [CHR 0x0A] @ CHR 0x27 # ?b @ [CHR 0x27]"] m
      hideSensitive_hides [OF assms, of interp] contains_short [of "[]" s] q(2) by auto
  have w: "list_all (\<lambda>w. length w < 8) (split_on (CHR '' '') ''run script with:'')" by simp
  show ?thesis
    using contains_words [OF assms w, of "CHR 0x27 # ?a @ CHR 0x27 # '' '' @ [CHR 0x0A] @ CHR 0x27 # ?b @ [CHR 0x27]"] i
    by (simp add: Script_Info_def NewScript_def resolveInterpreter_def quoted_def)
qed

text \<open>What the libraries and the remote host return does not hold the secret.\<close>

definition quiet_error :: "string \<Rightarrow> error option \<Rightarrow> bool" where
  "quiet_error s e \<longleftrightarrow> (case e of None \<Rightarrow> True | Some e \<Rightarrow> \<not> contains (error_text e) s)"

definition quiet_s3 :: "string \<Rightarrow> 'w s3lib \<Rightarrow> bool" where
  "quiet_s3 s S \<longleftrightarrow> (\<forall>br. quiet_error s (s3_Client S br)) \<and>
     (\<forall>b p w e w'. s3_ListObjectsV2 S b p w = Some (Inl e, w') \<longrightarrow> quiet_error s (Some e))"

definition quiet_host :: "string \<Rightarrow> 'w sshlib \<Rightarrow> bool" where
  "quiet_host s R \<longleftrightarrow>
     (\<forall>k. quiet_error s (ssh_ParsePrivateKey R k)) \<and>
     (\<forall>u a k t w e w'. ssh_Dial R u a k t w = Some (e, w') \<longrightarrow> quiet_error s e) \<and>
     (\<forall>w e w'. ssh_NewSession R w = Some (e, w') \<longrightarrow> quiet_error s e) \<and>
     (\<forall>w e w'. ssh_StdinPipe R w = Some (e, w') \<longrightarrow> quiet_error s e) \<and>
     (\<forall>c w out e w'. ssh_CombinedOutput R c w = Some ((out, e), w') \<longrightarrow> \<not> contains out s \<and> quiet_error s e) \<and>
     (\<forall>c i w e w'. ssh_Feed R c i w = Some (Inl e, w') \<longrightarrow> quiet_error s (Some e)) \<and>
     (\<forall>c i w out e w'. ssh_Feed R c i w = Some (Inr (out, e), w') \<longrightarrow> \<not> contains out s \<and> quiet_error s e)"

lemma quiet_hostD:
  assumes "quiet_host s R"
  shows "quiet_error s (ssh_ParsePrivateKey R k)"
    and "ssh_Dial R u a k t w = Some (e, w') \<Longrightarrow> quiet_error s e"
    and "ssh_NewSession R w = Some (e, w') \<Longrightarrow> quiet_error s e"
    and "ssh_StdinPipe R w = Some (e, w') \<Longrightarrow> quiet_error s e"
    and "ssh_CombinedOutput R c w = Some ((out, e), w') \<Longrightarrow> \<not> contains out s \<and> quiet_error s e"
    and "ssh_Feed R c i w = Some (Inl e', w') \<Longrightarrow> quiet_error s (Some e')"
    and "ssh_Feed R c i w = Some (Inr (out, e), w') \<Longrightarrow> \<not> contains out s \<and> quiet_error s e"
  using assms by (simp_all only: quiet_host_def) blast+

lemma Runnable_Run_quiet:
  assumes "quiet_host s R" and "s \<noteq> []" and "Runnable_Run R c w = Some ((out, e), w')"
  shows "\<not> contains out s \<and> quiet_error s e"
proof -
  have n: "\<not> contains [] s" using assms(2) by simp
  show ?thesis
  proof (cases c)
    case (RunCommand cmd)
    with assms(3) have "Command_Run R cmd w = Some ((out, e), w')" by simp
    then show ?thesis
    proof (cases rule: Command_RunE)
      case no_session
      with quiet_hostD(3) [OF assms(1)] n show ?thesis by blast
    next
      case (ran w1 out1)
      with quiet_hostD(5) [OF assms(1) ran(2)] n show ?thesis by simp
    qed
  next
    case (RunScript scr)
    with assms(3) have "Script_Run R scr w = Some ((out, e), w')" by simp
    then show ?thesis
    proof (cases rule: Script_RunE)
      case no_session
      with quiet_hostD(3) [OF assms(1)] n show ?thesis by blast
    next
      case (no_pipe w1)
      with quiet_hostD(4) [OF assms(1)] n show ?thesis by blast
    next
      case (not_written w1 w2 e1)
      with quiet_hostD(6) [OF assms(1) not_written(3)] n show ?thesis by simp
    next
      case (ran w1 w2 out1)
      with quiet_hostD(7) [OF assms(1) ran(3)] n show ?thesis by simp
    qed
  qed
qed

lemma run_log_quiet:
  assumes "aws_secret s" and "\<not> contains (Runnable_Info c) s" and "\<not> contains out s" and "quiet_error s e"
    and "l \<in> set (run_log c out e)"
  shows "\<not> contains l s"
proof -
  have w: "list_all (\<lambda>w. length w < 8) (split_on (CHR '' '') ''remote ssh command output:'')"
    "list_all (\<lambda>w. length w < 8) (split_on (CHR '' '') ''remote ssh command error:'')" by simp_all
  have "contains (''remote ssh command output: '' @ x) s \<longleftrightarrow> contains x s"
    "contains (''remote ssh command error: '' @ x) s \<longleftrightarrow> contains x s" for x
    using contains_words [OF assms(1) w(1), of x] contains_words [OF assms(1) w(2), of x] by simp_all
  then show ?thesis using assms(2-5)
    by (auto simp: run_log_def quiet_error_def simp del: append_Cons split: option.splits if_splits)
qed

lemma errRemote_quiet:
  assumes "aws_secret s" and "\<not> contains out s" and "quiet_error s (Some e)"
  shows "quiet_error s (Some (errRemote e out))"
proof -
  have sep: "CHR '' '' \<notin> set s" "CHR ''('' \<notin> set s" "CHR '')'' \<notin> set s" and l: "8 \<le> length s"
    using assms(1) by (auto simp: aws_secret_def)
  have w: "list_all (\<lambda>w. length w < 8) (split_on (CHR '' '') ''remote ssh command failed:'')" by simp
  have "\<not> contains (out @ '')'') s"
    using contains_sep [OF sep(3), of out "[]"] assms(2) contains_short [of "[]" s] l by auto
  then have "\<not> contains (CHR ''('' # out @ '')'') s"
    using contains_sep [OF sep(2), of "[]" "out @ '')''"] contains_short [of "[]" s] l by auto
  then have "\<not> contains (error_text e @ CHR '' '' # CHR ''('' # out @ '')'') s"
    using contains_sep [OF sep(1), of "error_text e"] assms(3) by (auto simp: quiet_error_def)
  then show ?thesis
    using contains_words [OF assms(1) w, of "error_text e @ CHR '' '' # CHR ''('' # out @ '')''"]
    by (simp add: quiet_error_def errRemote_def)
qed

lemma run_commands_quiet:
  assumes "quiet_host s R" and "aws_secret s"
  shows "run_commands R cs w = Some ((r, log), w') \<Longrightarrow> \<forall>c \<in> set cs. \<not> contains (Runnable_Info c) s \<Longrightarrow>
    quiet_error s r \<and> (\<forall>l \<in> set log. \<not> contains l s)"
proof (induction cs arbitrary: w log)
  case Nil
  then show ?case by (simp add: quiet_error_def)
next
  case (Cons c cs)
  have s: "s \<noteq> []" using assms(2) by (auto simp: aws_secret_def)
  from Cons.prems(1) show ?case
  proof (cases rule: run_commands_ConsE)
    case (failed out e)
    with Runnable_Run_quiet [OF assms(1) s failed(1)] Cons.prems(2) assms(2) show ?thesis
      by (auto intro!: errRemote_quiet dest: run_log_quiet [rotated -1])
  next
    case (succeeded out w1 log1)
    with Runnable_Run_quiet [OF assms(1) s succeeded(1)] Cons.prems(2) assms(2) Cons.IH [OF succeeded(2)] show ?thesis
      by (auto dest: run_log_quiet [rotated -1])
  qed
qed

lemma resolveTags_quiet:
  assumes "quiet_s3 s S" and "resolveTags S F pool br w = Some (Inl e, w')"
  shows "quiet_error s (Some e)"
proof (cases "s3_Client S br")
  case (Some x)
  then have "quiet_error s (Some x)" using assms(1) unfolding quiet_s3_def by metis
  with Some assms(2) show ?thesis by (simp add: resolveTags_def)
next
  case None
  have q: "s3_ListObjectsV2 S b p w1 = Some (Inl e, w2) \<Longrightarrow> quiet_error s (Some e)" for b p w1 w2
    using assms(1) unfolding quiet_s3_def by blast
  from None assms(2) show ?thesis
    by (auto simp: resolveTags_def elim!: bind_SomeE split: sum.splits) (erule q)+
qed

lemma UploadBackupE:
  assumes "UploadBackup S R F pool br w = Some ((r, log), w')"
  obtains (no_tags) e where "resolveTags S F pool br w = Some (Inl e, w')" "r = Some e" "log = []"
  | (no_key) tags e where "resolveTags S F pool br w = Some (Inr tags, w')"
      "ssh_ParsePrivateKey R (br_SSHKey br) = Some e" "r = Some e" "log = []"
  | (no_dial) tags w1 addr e where "resolveTags S F pool br w = Some (Inr tags, w1)"
      "ssh_Dial R (br_SSHUser br) addr (br_SSHKey br) 0 w1 = Some (Some e, w')" "r = Some e" "log = []"
  | (ran) tags w1 w2 addr where "resolveTags S F pool br w = Some (Inr tags, w1)"
      "ssh_Dial R (br_SSHUser br) addr (br_SSHKey br) 0 w1 = Some (None, w2)"
      "run_commands R (re_Commands (upload_executor F br (scriptTemplate (upload_vars F br tags)))) w2 =
         Some ((r, log), w')"
proof -
  obtain t w1 where t: "resolveTags S F pool br w = Some (t, w1)"
    using assms by (auto simp: UploadBackup_def uploadScript_def elim!: bind_SomeE)
  show ?thesis
  proof (cases t)
    case (Inl e)
    with assms t show ?thesis by (intro no_tags) (auto simp: UploadBackup_def uploadScript_def)
  next
    case (Inr tags)
    let ?re = "upload_executor F br (scriptTemplate (upload_vars F br tags))"
    have re: "RemoteExecutor_Run R ?re w1 = Some ((r, log), w')"
      using assms t Inr by (simp add: UploadBackup_def uploadScript_def)
    have k: "re_User ?re = br_SSHUser br" "re_PrivateKey ?re = br_SSHKey br" "re_CmdTimeout ?re = 0"
      by (simp_all add: upload_executor_def)
    show ?thesis
    proof (cases "ssh_ParsePrivateKey R (br_SSHKey br)")
      case (Some e)
      with re t Inr show ?thesis by (intro no_key [of tags e]) (auto simp: RemoteExecutor_Run_def k)
    next
      case None
      let ?addr = "JoinHostPort (re_Host ?re) (itoa (re_Port ?re))"
      obtain d w2 where d: "ssh_Dial R (br_SSHUser br) ?addr (br_SSHKey br) 0 w1 = Some (d, w2)"
        using re None by (auto simp: RemoteExecutor_Run_def k elim!: bind_SomeE)
      show ?thesis
      proof (cases d)
        case (Some e)
        with re None d t Inr show ?thesis by (intro no_dial) (auto simp: RemoteExecutor_Run_def k)
      next
        case d2: None
        with re None d have "run_commands R (re_Commands ?re) w2 = Some ((r, log), w')"
          by (simp add: RemoteExecutor_Run_def k)
        with t Inr d d2 show ?thesis by (intro ran) auto
      qed
    qed
  qed
qed

text \<open>
  C34. The AWS secret does not leak. Whatever the outcome of an upload, no line that it writes
  to the log and no error that it returns, which the controller copies to the status of the
  backup, holds the secret key that the command line of the upload script carries, provided
  that the other commands do not hold it and that neither the libraries nor the remote host
  print it.
\<close>

theorem UploadBackup_hides_secret:
  assumes "quiet_host (br_AWSSecretAccessKey br) R" and "quiet_s3 (br_AWSSecretAccessKey br) S"
    and "aws_secret (br_AWSSecretAccessKey br)"
    and "\<forall>c \<in> {mv_command F br, gzip_command F br, rm_command br}.
      \<not> contains (''run command: sudo '' @ c) (br_AWSSecretAccessKey br) \<and>
      \<not> contains (''run command: '' @ c) (br_AWSSecretAccessKey br)"
    and "UploadBackup S R F pool br w = Some ((r, log), w')"
  shows "(\<forall>l \<in> set log. \<not> contains l (br_AWSSecretAccessKey br)) \<and>
    (\<forall>e. r = Some e \<longrightarrow> \<not> contains (error_text e) (br_AWSSecretAccessKey br))"
proof -
  let ?s = "br_AWSSecretAccessKey br"
  have "quiet_error ?s r \<and> (\<forall>l \<in> set log. \<not> contains l ?s)" using assms(5)
  proof (cases rule: UploadBackupE)
    case (no_tags e)
    with resolveTags_quiet [OF assms(2) no_tags(1)] show ?thesis by simp
  next
    case (no_key tags e)
    with quiet_hostD(1) [OF assms(1), of "br_SSHKey br"] show ?thesis by simp
  next
    case (no_dial tags w1 addr e)
    with quiet_hostD(2) [OF assms(1) no_dial(2)] show ?thesis by simp
  next
    case (ran tags w1 w2 addr)
    have "\<forall>c \<in> set (re_Commands (upload_executor F br (scriptTemplate (upload_vars F br tags)))).
        \<not> contains (Runnable_Info c) ?s"
      using assms(4) Script_Info_hides [OF assms(3)]
      by (simp add: upload_executor_def Command_WithSudo_def NewCommand_def Command_Info_def resolveValue_def
          hideSensitive_def del: contains.simps)
    with run_commands_quiet [OF assms(1,3) ran(3)] show ?thesis by blast
  qed
  then show ?thesis by (auto simp: quiet_error_def)
qed

section \<open>The stages of an upload\<close>

definition session_keeps :: "'w sshlib \<Rightarrow> ('w \<Rightarrow> bool) \<Rightarrow> bool" where
  "session_keeps R P \<longleftrightarrow>
     (\<forall>u a k t w e w'. ssh_Dial R u a k t w = Some (e, w') \<longrightarrow> P w \<longrightarrow> P w') \<and>
     (\<forall>w e w'. ssh_NewSession R w = Some (e, w') \<longrightarrow> P w \<longrightarrow> P w') \<and>
     (\<forall>w e w'. ssh_StdinPipe R w = Some (e, w') \<longrightarrow> P w \<longrightarrow> P w')"

definition command_keeps :: "'w sshlib \<Rightarrow> Runner \<Rightarrow> string \<Rightarrow> ('w \<Rightarrow> bool) \<Rightarrow> bool" where
  "command_keeps R br c P \<longleftrightarrow>
     (\<forall>w r w'. ssh_CombinedOutput R (if br_SSHSudo br then ''sudo '' @ c else c) w = Some (r, w') \<longrightarrow> P w \<longrightarrow> P w')"

definition upload_command :: "Runner \<Rightarrow> string \<Rightarrow> Command" where
  "upload_command br c = (NewCommand c [])\<lparr>cmd_sudo := br_SSHSudo br\<rparr>"

lemma session_keepsD:
  assumes "session_keeps R P"
  shows "ssh_Dial R u a k t w = Some (e, w') \<Longrightarrow> P w \<Longrightarrow> P w'"
    and "ssh_NewSession R w = Some (e, w') \<Longrightarrow> P w \<Longrightarrow> P w'"
    and "ssh_StdinPipe R w = Some (e, w') \<Longrightarrow> P w \<Longrightarrow> P w'"
  using assms by (simp_all only: session_keeps_def)

lemma Command_Run_keeps:
  assumes "session_keeps R P" and "command_keeps R br c P"
    and "Command_Run R (upload_command br c) w = Some ((out, e), w')" and "P w"
  shows "P w'"
  using assms(3)
proof (cases rule: Command_RunE)
  case no_session
  with session_keepsD(2) [OF assms(1)] assms(4) show ?thesis by blast
next
  case (ran w1 out1)
  have "resolveValue (upload_command br c) = (if br_SSHSudo br then ''sudo '' @ c else c)"
    by (simp add: upload_command_def resolveValue_def NewCommand_def)
  with ran(2) assms(2) have "P w1 \<Longrightarrow> P w'" unfolding command_keeps_def by (elim allE impE) simp_all
  with session_keepsD(2) [OF assms(1) ran(1) assms(4)] show ?thesis by blast
qed

text \<open>
  A predicate of the world that the first two commands keep holds when the script starts; the
  files are removed only after the script succeeded.
\<close>

lemma upload_stages:
  assumes "session_keeps R P" and "command_keeps R br (mv_command F br) P"
    and "command_keeps R br (gzip_command F br) P" and "P w"
    and "run_commands R (re_Commands (upload_executor F br script)) w = Some ((r, log), w')"
  obtains (early) "P w'" "r \<noteq> None"
  | (upload_failed) w1 out e where "P w1" "r \<noteq> None"
      "Script_Run R (NewScript (upload_interpreter br) script [br_AWSSecretAccessKey br]) w1 = Some ((out, Some e), w')"
  | (uploaded) w1 w2 out out' e where "P w1"
      "Script_Run R (NewScript (upload_interpreter br) script [br_AWSSecretAccessKey br]) w1 = Some ((out, None), w2)"
      "Command_Run R (upload_command br (rm_command br)) w2 = Some ((out', e), w')" "r = None \<longleftrightarrow> e = None"
proof -
  let ?c = "\<lambda>c. RunCommand (upload_command br c)"
  let ?s = "NewScript (upload_interpreter br) script [br_AWSSecretAccessKey br]"
  have "run_commands R [?c (mv_command F br), ?c (gzip_command F br), RunScript ?s, ?c (rm_command br)] w =
      Some ((r, log), w')"
    using assms(5) by (simp add: upload_executor_def Command_WithSudo_def upload_command_def del: run_commands.simps)
  then show ?thesis
  proof (cases rule: run_commands_ConsE)
    case (failed out e)
    with Command_Run_keeps [OF assms(1,2) _ assms(4)] early show ?thesis by auto
  next
    case (succeeded out1 w1 log1)
    then have P1: "P w1" using Command_Run_keeps [OF assms(1,2) _ assms(4)] by auto
    from succeeded(2) show ?thesis
    proof (cases rule: run_commands_ConsE)
      case (failed out e)
      with Command_Run_keeps [OF assms(1,3) _ P1] early show ?thesis by auto
    next
      case (succeeded out2 w2 log2)
      then have P2: "P w2" using Command_Run_keeps [OF assms(1,3) _ P1] by auto
      from succeeded(2) show ?thesis
      proof (cases rule: run_commands_ConsE)
        case (failed out e)
        with P2 upload_failed show ?thesis by auto
      next
        case (succeeded out3 w3 log3)
        then have s3: "Script_Run R ?s w2 = Some ((out3, None), w3)" by simp
        from succeeded(2) show ?thesis
        proof (cases rule: run_commands_ConsE)
          case (failed out e)
          with P2 s3 show ?thesis by (intro uploaded) auto
        next
          case (succeeded out4 w4 log4)
          with P2 s3 show ?thesis by (intro uploaded) auto
        qed
      qed
    qed
  qed
qed

section \<open>The uploaded object\<close>

text \<open>
  What the upload relies on: connecting and the commands on the host do not change the bucket,
  and the script, when it succeeds, has stored the object under the key it was given, as
  the newest object of the bucket.
\<close>

definition stored :: "('w \<Rightarrow> string \<Rightarrow> s3_object list) \<Rightarrow> string \<Rightarrow> string \<Rightarrow> 'w \<Rightarrow> 'w \<Rightarrow> bool" where
  "stored bucket b key w w' \<longleftrightarrow>
     (\<exists>ob. o_Key ob = key \<and> bucket w' b = filter (\<lambda>x. o_Key x \<noteq> key) (bucket w b) @ [ob] \<and>
        (\<forall>x \<in> set (bucket w b). o_LastModified x < o_LastModified ob))"

definition upload_key :: "time_format \<Rightarrow> Runner \<Rightarrow> string" where
  "upload_key F br = filepath_Join [br_S3Path br, BackupFileCompressed F br]"

definition upload_laws ::
    "'w sshlib \<Rightarrow> ('w \<Rightarrow> string \<Rightarrow> s3_object list) \<Rightarrow> time_format \<Rightarrow> Runner \<Rightarrow> bool" where
  "upload_laws R bucket F br \<longleftrightarrow>
     (\<forall>obs. session_keeps R (\<lambda>w. bucket w (br_S3Bucket br) = obs) \<and>
        (\<forall>c \<in> {mv_command F br, gzip_command F br, rm_command br}.
           command_keeps R br c (\<lambda>w. bucket w (br_S3Bucket br) = obs))) \<and>
     (\<forall>tags w out w'. ssh_Feed R (upload_interpreter br) (scriptTemplate (upload_vars F br tags)) w =
         Some (Inr (out, None), w') \<longrightarrow> stored bucket (br_S3Bucket br) (upload_key F br) w w')"

definition host_keeps :: "'w sshlib \<Rightarrow> time_format \<Rightarrow> Runner \<Rightarrow> ('w \<Rightarrow> bool) \<Rightarrow> bool" where
  "host_keeps R F br kept \<longleftrightarrow> session_keeps R kept \<and>
     command_keeps R br (mv_command F br) kept \<and> command_keeps R br (gzip_command F br) kept \<and>
     (\<forall>i w r w'. ssh_Feed R (upload_interpreter br) i w = Some (r, w') \<longrightarrow> kept w \<longrightarrow> kept w')"

lemma script_interpreter [simp]:
  "resolveInterpreter (NewScript i s sens) = i" "scr_value (NewScript i s sens) = s"
  by (simp_all add: NewScript_def resolveInterpreter_def)

lemma Script_Run_stored:
  assumes "upload_laws R bucket F br"
    and "Script_Run R (NewScript (upload_interpreter br) (scriptTemplate (upload_vars F br tags)) sens) w =
      Some ((out, None), w')"
  shows "stored bucket (br_S3Bucket br) (upload_key F br) w w'"
  using assms(2)
proof (cases rule: Script_RunE)
  case (ran w1 w2 out1)
  have k: "session_keeps R (\<lambda>x. bucket x (br_S3Bucket br) = bucket w (br_S3Bucket br))"
    using assms(1) by (simp add: upload_laws_def)
  have "bucket w1 (br_S3Bucket br) = bucket w (br_S3Bucket br)" by (rule session_keepsD(2) [OF k ran(1)]) simp
  then have "bucket w2 (br_S3Bucket br) = bucket w (br_S3Bucket br)" by (rule session_keepsD(3) [OF k ran(2)])
  moreover have "stored bucket (br_S3Bucket br) (upload_key F br) w2 w'"
    using assms(1) ran(3) unfolding upload_laws_def script_interpreter by blast
  ultimately show ?thesis by (simp add: stored_def)
qed simp_all

lemma Script_Run_keeps:
  assumes "host_keeps R F br kept" and "kept w"
    and "Script_Run R (NewScript (upload_interpreter br) script sens) w = Some ((out, e), w')"
  shows "kept w'"
proof -
  have s: "session_keeps R kept" using assms(1) by (simp add: host_keeps_def)
  have f: "ssh_Feed R (upload_interpreter br) i w = Some (r, w') \<Longrightarrow> kept w \<Longrightarrow> kept w'" for i w r w'
    using assms(1) unfolding host_keeps_def by blast
  from assms(3) show ?thesis
  proof (cases rule: Script_RunE)
    case (no_pipe w1)
    then show ?thesis using session_keepsD(2,3) [OF s] assms(2) by blast
  next
    case (not_written w1 w2 e1)
    then show ?thesis
      using f [OF not_written(3) [simplified] session_keepsD(3) [OF s not_written(2) session_keepsD(2) [OF s not_written(1) assms(2)]]]
      by simp
  next
    case (ran w1 w2 out1)
    then show ?thesis
      using f [OF ran(3) [simplified] session_keepsD(3) [OF s ran(2) session_keepsD(2) [OF s ran(1) assms(2)]]]
      by simp
  qed (use session_keepsD(2) [OF s] assms(2) in blast)
qed

lemma resolveTags_world:
  assumes "s3_laws S bucket" and "resolveTags S F pool br w = Some (r, w')"
  shows "w' = w \<and> (\<exists>tags. r = Inr tags)"
  using assms by (auto simp: resolveTags_def s3_laws_def)

text \<open>
  C33. A backup is never lost. \<open>kept\<close> says that the saved data is on the redis host, renamed or
  compressed; connecting, renaming, compressing and uploading keep it, removing need not. After
  an upload, whatever its outcome, the data is still on the host or the object is in the bucket,
  and after a successful one the object is in the bucket.
\<close>

theorem UploadBackup_never_loses:
  assumes "s3_laws S bucket" and "upload_laws R bucket F br" and "host_keeps R F br kept" and "kept w"
    and "UploadBackup S R F pool br w = Some ((r, log), w')"
  shows "(kept w' \<or> (\<exists>ob \<in> set (bucket w' (br_S3Bucket br)). o_Key ob = upload_key F br)) \<and>
    (r = None \<longrightarrow> (\<exists>ob \<in> set (bucket w' (br_S3Bucket br)). o_Key ob = upload_key F br))"
  using assms(5)
proof (cases rule: UploadBackupE)
  case (no_tags e)
  with resolveTags_world [OF assms(1) no_tags(1)] show ?thesis by simp
next
  case (no_key tags e)
  with resolveTags_world [OF assms(1) no_key(1)] assms(4) show ?thesis by simp
next
  case (no_dial tags w1 addr e)
  have s: "session_keeps R kept" using assms(3) by (simp add: host_keeps_def)
  have "kept w1" using resolveTags_world [OF assms(1) no_dial(1)] assms(4) by simp
  then have "kept w'" by (rule session_keepsD(1) [OF s no_dial(2)])
  with no_dial(3) show ?thesis by simp
next
  case (ran tags w1 w2 addr)
  have k: "session_keeps R kept" "command_keeps R br (mv_command F br) kept"
    "command_keeps R br (gzip_command F br) kept" using assms(3) by (simp_all add: host_keeps_def)
  have kw: "kept w2" using resolveTags_world [OF assms(1) ran(1)] session_keepsD(1) [OF k(1) ran(2)] assms(4) by simp
  show ?thesis
  proof (cases rule: upload_stages [OF k kw ran(3), case_names early upload_failed uploaded])
    case early
    then show ?thesis by auto
  next
    case (upload_failed w3 out e)
    with Script_Run_keeps [OF assms(3)] show ?thesis by blast
  next
    case (uploaded w3 w4 out out' e)
    have l: "session_keeps R (\<lambda>x. bucket x (br_S3Bucket br) = bucket w4 (br_S3Bucket br))"
      "command_keeps R br (rm_command br) (\<lambda>x. bucket x (br_S3Bucket br) = bucket w4 (br_S3Bucket br))"
      using assms(2) by (simp_all add: upload_laws_def)
    have "bucket w' (br_S3Bucket br) = bucket w4 (br_S3Bucket br)"
      using Command_Run_keeps [OF l uploaded(3)] by simp
    with Script_Run_stored [OF assms(2) uploaded(2)] show ?thesis by (force simp: stored_def)
  qed
qed

lemma UploadBackup_stored:
  assumes "s3_laws S bucket" and "upload_laws R bucket F br" and "UploadBackup S R F pool br w = Some ((None, log), w')"
  shows "stored bucket (br_S3Bucket br) (upload_key F br) w w'"
  using assms(3)
proof (cases rule: UploadBackupE)
  case (ran tags w1 w2 addr)
  let ?P = "\<lambda>obs x. bucket x (br_S3Bucket br) = obs"
  have l: "session_keeps R (?P obs)" "command_keeps R br (mv_command F br) (?P obs)"
    "command_keeps R br (gzip_command F br) (?P obs)" "command_keeps R br (rm_command br) (?P obs)" for obs
    using assms(2) by (simp_all add: upload_laws_def)
  have w2: "?P (bucket w (br_S3Bucket br)) w2"
    using resolveTags_world [OF assms(1) ran(1)] session_keepsD(1) [OF l(1) ran(2)] by simp
  show ?thesis
  proof (cases rule: upload_stages [OF l(1-3) w2 ran(3), case_names early upload_failed uploaded])
    case (uploaded w3 w4 out out' e)
    have "bucket w' (br_S3Bucket br) = bucket w4 (br_S3Bucket br)"
      using Command_Run_keeps [OF l(1,4) uploaded(3)] by simp
    with Script_Run_stored [OF assms(2) uploaded(2)] uploaded(1) show ?thesis by (simp add: stored_def)
  qed simp_all
qed simp_all

lemma BackupFileCompressed_plain:
  assumes "CHR ''/'' \<notin> set (br_ShardName br)" and "CHR ''/'' \<notin> set (fmt_rfc3339 F (br_Timestamp br))"
  shows "plain_name (BackupFileCompressed F br)"
  using assms by (auto simp: plain_name_def BackupFileCompressed_def BackupFile_def
      BackupFileBaseNameWithTimeSuffix_def BackupFileBaseName_def)


section \<open>Witnesses\<close>

text \<open>A simulated host: whether the saved data is on it, and the buckets that the script writes.\<close>

record upload_world =
  uw_bucket :: "string \<Rightarrow> s3_object list"
  uw_file :: bool

definition uw_s3 :: "upload_world s3lib" where
  "uw_s3 = \<lparr>s3_Client = (\<lambda>br. None),
     s3_ListObjectsV2 = (\<lambda>b p w. Some (Inr (filter (\<lambda>ob. prefix p (o_Key ob)) (uw_bucket w b)), w))\<rparr>"

definition uw_put :: "string \<Rightarrow> string \<Rightarrow> upload_world \<Rightarrow> upload_world" where
  "uw_put b key w = w\<lparr>uw_bucket := (uw_bucket w)(b := filter (\<lambda>x. o_Key x \<noteq> key) (uw_bucket w b) @
     [ex_object key (foldr max (map o_LastModified (uw_bucket w b)) 0 + 1)])\<rparr>"

definition uw_host :: "time_format \<Rightarrow> Runner \<Rightarrow> upload_world sshlib" where
  "uw_host F br = \<lparr>ssh_ParsePrivateKey = (\<lambda>k. None), ssh_Dial = (\<lambda>u a k t w. Some (None, w)),
     ssh_NewSession = (\<lambda>w. Some (None, w)),
     ssh_CombinedOutput = (\<lambda>c w. Some (('''', None), if c = rm_command br then w\<lparr>uw_file := False\<rparr> else w)),
     ssh_StdinPipe = (\<lambda>w. Some (None, w)),
     ssh_Feed = (\<lambda>c i w. Some (Inr ('''', None), uw_put (br_S3Bucket br) (upload_key F br) w))\<rparr>"

definition uw_empty :: upload_world where
  "uw_empty = \<lparr>uw_bucket = (\<lambda>_. []), uw_file = True\<rparr>"

lemma foldr_max_ge: "x \<in> set xs \<Longrightarrow> f x \<le> foldr max (map f xs) (0 :: int)"
  by (induction xs) auto

lemma uw_s3_laws: "s3_laws uw_s3 uw_bucket"
  by (simp add: s3_laws_def uw_s3_def)

lemma uw_put_stored: "stored uw_bucket b key w (uw_put b key w)"
proof -
  have "\<forall>x \<in> set (uw_bucket w b). o_LastModified x < foldr max (map o_LastModified (uw_bucket w b)) 0 + 1"
    using foldr_max_ge [of _ "uw_bucket w b" o_LastModified] by force
  then show ?thesis unfolding stored_def uw_put_def
    by (intro exI [of _ "ex_object key (foldr max (map o_LastModified (uw_bucket w b)) 0 + 1)"]) (simp add: ex_object_def)
qed

lemma uw_upload_laws: "upload_laws (uw_host F br) uw_bucket F br"
  using uw_put_stored
  by (simp add: upload_laws_def session_keeps_def command_keeps_def uw_host_def)

lemma uw_host_keeps: "host_keeps (uw_host F br) F br uw_file"
proof -
  have "mv_command F br \<noteq> rm_command br" "gzip_command F br \<noteq> rm_command br"
    "''sudo '' @ mv_command F br \<noteq> rm_command br" "''sudo '' @ gzip_command F br \<noteq> rm_command br"
    by (simp_all add: mv_command_def gzip_command_def rm_command_def)
  then show ?thesis
    by (simp add: host_keeps_def session_keeps_def command_keeps_def uw_host_def uw_put_def)
qed

lemma uw_upload: "\<exists>log w'. UploadBackup uw_s3 (uw_host F br) F pool br w = Some ((None, log), w') \<and> log \<noteq> []"
  by (simp add: UploadBackup_def uploadScript_def resolveTags_def uw_s3_def RemoteExecutor_Run_def uw_host_def
      upload_executor_def Command_WithSudo_def Command_Run_def Script_Run_def run_log_def)

theorem UploadBackup_hides_secret_witness:
  "\<exists>log w'. UploadBackup uw_s3 (uw_host ex_format (ex_runner\<lparr>br_AWSSecretAccessKey := ''wJalrXUtnFEMI''\<rparr>)) ex_format
       [] (ex_runner\<lparr>br_AWSSecretAccessKey := ''wJalrXUtnFEMI''\<rparr>) uw_empty = Some ((None, log), w') \<and>
     log \<noteq> [] \<and> list_all (\<lambda>l. \<not> contains l ''wJalrXUtnFEMI'') log"
proof -
  let ?br = "ex_runner\<lparr>br_AWSSecretAccessKey := ''wJalrXUtnFEMI''\<rparr>"
  obtain log w' where u: "UploadBackup uw_s3 (uw_host ex_format ?br) ex_format [] ?br uw_empty = Some ((None, log), w')"
    "log \<noteq> []"
    using uw_upload [of ex_format ?br "[]" uw_empty] by blast
  have s: "br_AWSSecretAccessKey ?br = ''wJalrXUtnFEMI''" by simp
  have "quiet_host (br_AWSSecretAccessKey ?br) (uw_host ex_format ?br)"
    by (simp add: quiet_host_def quiet_error_def uw_host_def)
  moreover have "quiet_s3 (br_AWSSecretAccessKey ?br) uw_s3" by (simp add: quiet_s3_def quiet_error_def uw_s3_def)
  moreover have "aws_secret (br_AWSSecretAccessKey ?br)" by (simp add: aws_secret_def)
  moreover have "\<forall>c \<in> {mv_command ex_format ?br, gzip_command ex_format ?br, rm_command ?br}.
      \<not> contains (''run command: sudo '' @ c) (br_AWSSecretAccessKey ?br) \<and>
      \<not> contains (''run command: '' @ c) (br_AWSSecretAccessKey ?br)"
    by (simp add: mv_command_def gzip_command_def rm_command_def ex_runner_def ex_format_def path_Dir_def path_Clean_def
        path_rooted_def path_parts_def BackupFile_def BackupFileBaseNameWithTimeSuffix_def BackupFileBaseName_def)
  ultimately have "\<forall>l \<in> set log. \<not> contains l (br_AWSSecretAccessKey ?br)"
    using UploadBackup_hides_secret [OF _ _ _ _ u(1)] by blast
  with u show ?thesis unfolding s list_all_iff by blast
qed

theorem UploadBackup_never_loses_witness:
  "\<exists>log w'. UploadBackup uw_s3 (uw_host ex_format ex_runner) ex_format [] ex_runner uw_empty = Some ((None, log), w') \<and>
     uw_bucket w' ''bucket'' \<noteq> []"
proof -
  obtain log w' where u: "UploadBackup uw_s3 (uw_host ex_format ex_runner) ex_format [] ex_runner uw_empty =
      Some ((None, log), w')"
    using uw_upload by blast
  have "uw_file uw_empty" by (simp add: uw_empty_def)
  from UploadBackup_never_loses [OF uw_s3_laws uw_upload_laws uw_host_keeps this u]
  have "uw_bucket w' (br_S3Bucket ex_runner) \<noteq> []" by auto
  with u show ?thesis by (simp add: ex_runner_def)
qed

lemma ex_names:
  "CHR ''/'' \<notin> set (br_ShardName (ex_runner\<lparr>br_S3Path := p\<rparr>))" "CHR ''/'' \<notin> set (fmt_rfc3339 ex_format t)"
  by (simp_all add: ex_runner_def ex_format_def)


end
