(* ===== verification/Events.thy ===== *)
theory Events
  imports ShardedCluster Threads
begin

text \<open>
  The events that a sentinel publishes, \<^verbatim>\<open>internal/pkg/redis/events/message.go\<close>, and the
  thread that listens to them and counts them, \<^verbatim>\<open>watcher.go\<close>.
\<close>

section \<open>Event messages\<close>

record RedisInstanceDetails =
  ri_name :: string
  ri_ip :: string
  ri_port :: string
  ri_role :: string

record RedisConfig =
  rc_name :: string
  rc_value :: string

record RedisEventMessage =
  rem_event :: string
  rem_target :: RedisInstanceDetails
  rem_master :: RedisInstanceDetails
  rem_config :: RedisConfig

definition no_instance :: RedisInstanceDetails where
  "no_instance = \<lparr>ri_name = '''', ri_ip = '''', ri_port = '''', ri_role = ''''\<rparr>"

definition no_config :: RedisConfig where
  "no_config = \<lparr>rc_name = '''', rc_value = ''''\<rparr>"

text \<open>\<^verbatim>\<open>%s\<close> of a slice of strings.\<close>

definition slice_str :: "string list \<Rightarrow> string" where
  "slice_str xs = ''['' @ join '' '' xs @ '']''"

definition parseEmptyPayload :: "string list \<Rightarrow> RedisEventMessage \<Rightarrow> error + RedisEventMessage" where
  "parseEmptyPayload payload rem =
     (if length payload > 0 \<and> payload ! 0 \<noteq> '''' then Inl (ErrorString ''payload should be empty'')
      else Inr rem)"

definition parseInstanceDetailsPayload :: "string list \<Rightarrow> RedisEventMessage \<Rightarrow> error + RedisEventMessage" where
  "parseInstanceDetailsPayload payload rem =
     (if length payload < 4
      then Inl (ErrorString (''invalid payload for instance details event: '' @ slice_str payload))
      else
        let target = \<lparr>ri_name = payload ! 1, ri_ip = payload ! 2, ri_port = payload ! 3, ri_role = payload ! 0\<rparr>
        in if ri_role target \<noteq> ''master'' \<and> length payload < 8
           then Inl (ErrorString (''invalid payload for non-master instance event: '' @ slice_str payload))
           else if length payload = 8 \<and> payload ! 4 = ''@''
           then Inr (rem\<lparr>rem_target := target,
                  rem_master := \<lparr>ri_name = payload ! 5, ri_ip = payload ! 6, ri_port = payload ! 7,
                                 ri_role = ''master''\<rparr>\<rparr>)
           else Inr (rem\<lparr>rem_target := target,
                  rem_master := \<lparr>ri_name = payload ! 1, ri_ip = payload ! 2, ri_port = payload ! 3,
                                 ri_role = payload ! 0\<rparr>\<rparr>))"

definition parseConfigurationPayload :: "string list \<Rightarrow> RedisEventMessage \<Rightarrow> error + RedisEventMessage" where
  "parseConfigurationPayload payload rem =
     (if length payload = 6 then
        parseInstanceDetailsPayload payload
          (rem\<lparr>rem_config := \<lparr>rc_name = payload ! 4, rc_value = payload ! 5\<rparr>\<rparr>)
      else if length payload = 1 then
        Inr (rem\<lparr>rem_config := \<lparr>rc_name = '''', rc_value = payload ! 0\<rparr>\<rparr>)
      else if length payload = 2 then
        Inr (rem\<lparr>rem_config := \<lparr>rc_name = payload ! 0, rc_value = payload ! 1\<rparr>\<rparr>)
      else Inl (ErrorString (''invalid payload for this configuration message: '' @ slice_str payload)))"

definition parseSwitchPayload :: "string list \<Rightarrow> RedisEventMessage \<Rightarrow> error + RedisEventMessage" where
  "parseSwitchPayload payload rem =
     (if length payload \<noteq> 5 then Inl (ErrorString (''invalid payload for switch event: '' @ slice_str payload))
      else Inr (rem\<lparr>
        rem_target := \<lparr>ri_name = payload ! 0, ri_ip = payload ! 1, ri_port = payload ! 2, ri_role = ''master''\<rparr>,
        rem_master := \<lparr>ri_name = payload ! 0, ri_ip = payload ! 3, ri_port = payload ! 4, ri_role = ''master''\<rparr>\<rparr>))"

definition parsePayload :: "string list \<Rightarrow> RedisEventMessage \<Rightarrow> error + RedisEventMessage" where
  "parsePayload payload rem =
     (if rem_event rem \<in> {''+tilt'', ''-tilt''} then parseEmptyPayload payload rem
      else if rem_event rem = ''+switch-master'' then parseSwitchPayload payload rem
      else if rem_event rem \<in> {''+monitor'', ''+set'', ''+new-epoch'', ''+vote-for-leader''}
      then parseConfigurationPayload payload rem
      else parseInstanceDetailsPayload payload rem)"

text \<open>A message of the client: its channel and its payload.\<close>

definition NewRedisEventMessage :: "string \<times> string \<Rightarrow> error + RedisEventMessage" where
  "NewRedisEventMessage msg =
     (let rem = \<lparr>rem_event = fst msg, rem_target = no_instance, rem_master = no_instance, rem_config = no_config\<rparr>
      in if rem_event rem = '''' then Inl (ErrorString ''empty event name'')
         else parsePayload (split_on (CHR '' '') (snd msg)) rem)"

section \<open>Counters\<close>

text \<open>
  The counter vectors of prometheus: the value of each series, by the name of the vector and
  the values of its labels. \<^verbatim>\<open>With(labels).Add(n)\<close> creates the series when it is missing.
\<close>

type_synonym counters = "(string \<times> string list) \<rightharpoonup> int"

definition counter_Add :: "string \<Rightarrow> string list \<Rightarrow> int \<Rightarrow> counters \<Rightarrow> counters" where
  "counter_Add name labels n c =
     c((name, labels) \<mapsto> (case c (name, labels) of None \<Rightarrow> 0 | Some v \<Rightarrow> v) + n)"

definition host_port :: "RedisInstanceDetails \<Rightarrow> string" where
  "host_port r = ri_ip r @ '':'' @ ri_port r"

text \<open>
  The alias of the server is looked up in the pool of the topology, which adds the server when
  it is not there.
\<close>

definition count_server_event ::
    "'w lib \<Rightarrow> string \<Rightarrow> string \<Rightarrow> string \<Rightarrow> string \<Rightarrow> int \<Rightarrow> counters \<times> ServerPool \<Rightarrow> counters \<times> ServerPool" where
  "count_server_event X name sentinelURI shard hostport n cp =
     (case GetServerAlias X hostport (snd cp) of
        (als, pool') \<Rightarrow> (counter_Add name [sentinelURI, shard, hostport, als] n (fst cp), pool'))"

definition metricsFromEvent ::
    "'w lib \<Rightarrow> string \<Rightarrow> RedisEventMessage \<Rightarrow> counters \<times> ServerPool \<Rightarrow> counters \<times> ServerPool" where
  "metricsFromEvent X sentinelURI rem cp =
     (let shard = ri_name (rem_master rem); hp = host_port (rem_target rem)
      in if rem_event rem = ''+switch-master''
         then (counter_Add ''switch_master_count'' [sentinelURI, shard] 1 (fst cp), snd cp)
         else if rem_event rem = ''-failover-abort-no-good-slave''
         then (counter_Add ''failover_abort_no_good_slave_count'' [sentinelURI, ri_name (rem_target rem)] 1 (fst cp),
               snd cp)
         else if rem_event rem = ''+sdown''
         then (if ri_role (rem_target rem) = ''sentinel''
               then count_server_event X ''sdown_sentinel_count'' sentinelURI shard hp 1 cp
               else count_server_event X ''sdown_count'' sentinelURI shard hp 1 cp)
         else if rem_event rem = ''-sdown''
         then (if ri_role (rem_target rem) = ''sentinel''
               then count_server_event X ''sdown_cleared_sentinel_count'' sentinelURI shard hp 1 cp
               else count_server_event X ''sdown_cleared_count'' sentinelURI shard hp 1 cp)
         else cp)"

definition init_server_counters ::
    "'w lib \<Rightarrow> string \<Rightarrow> string \<Rightarrow> RedisServer \<Rightarrow> counters \<times> ServerPool \<Rightarrow> counters \<times> ServerPool" where
  "init_server_counters X sentinelURI shard server cp =
     (let cp = (counter_Add ''switch_master_count'' [sentinelURI, shard] 0 (fst cp), snd cp);
          cp = count_server_event X ''sdown_sentinel_count'' sentinelURI shard (rs_ID server) 0 cp;
          cp = count_server_event X ''sdown_count'' sentinelURI shard (rs_ID server) 0 cp;
          cp = count_server_event X ''sdown_cleared_sentinel_count'' sentinelURI shard (rs_ID server) 0 cp
      in count_server_event X ''sdown_cleared_count'' sentinelURI shard (rs_ID server) 0 cp)"

definition init_shard_counters ::
    "'w lib \<Rightarrow> string \<Rightarrow> Shard \<Rightarrow> counters \<times> ServerPool \<Rightarrow> counters \<times> ServerPool" where
  "init_shard_counters X sentinelURI shard cp =
     fold (init_server_counters X sentinelURI (sh_Name shard)) (sh_Servers shard)
       (counter_Add ''failover_abort_no_good_slave_count'' [sentinelURI, sh_Name shard] 0 (fst cp), snd cp)"

definition initCounters ::
    "'w lib \<Rightarrow> string \<Rightarrow> Cluster option \<Rightarrow> counters \<times> ServerPool \<Rightarrow> counters \<times> ServerPool" where
  "initCounters X sentinelURI topology cp =
     (case topology of
        None \<Rightarrow> cp
      | Some cluster \<Rightarrow> fold (init_shard_counters X sentinelURI) (cl_Shards cluster) cp)"

section \<open>The watcher\<close>

text \<open>
  The life of the goroutine of a watcher: it is spawned by \<^verbatim>\<open>Start\<close>, and only when it runs
  it sets the cancel function and listens.
\<close>

datatype goroutine = NotSpawned | Spawned | Listening | Exited

record SentinelEventWatcher =
  sew_sentinelURI :: string
  sew_exportMetrics :: bool
  sew_topology :: "Cluster option"
  sew_sentinel :: srvref
  sew_eventsCh :: bool
  sew_started :: bool
  sew_cancel :: "bool option"
  sew_goroutine :: goroutine

definition NewSentinelEventWatcher ::
    "'w lib \<Rightarrow> string \<Rightarrow> Cluster option \<Rightarrow> bool \<Rightarrow> ServerPool
       \<Rightarrow> (error + SentinelEventWatcher) \<times> ServerPool" where
  "NewSentinelEventWatcher X sentinelURI topology metrics pool =
     (case NewSentinelServerFromPool X sentinelURI None pool of
        (Inl e, pool') \<Rightarrow> (Inl e, pool')
      | (Inr sentinel, pool') \<Rightarrow>
          (Inr \<lparr>sew_sentinelURI = sentinelURI, sew_exportMetrics = metrics, sew_topology = topology,
                sew_sentinel = sentinel, sew_eventsCh = False, sew_started = False, sew_cancel = None,
                sew_goroutine = NotSpawned\<rparr>, pool'))"

definition watcher_Start ::
    "'w lib \<Rightarrow> SentinelEventWatcher \<Rightarrow> counters \<times> ServerPool
       \<Rightarrow> SentinelEventWatcher \<times> counters \<times> ServerPool" where
  "watcher_Start X sew cp =
     (if sew_started sew then (sew, cp)
      else (sew\<lparr>sew_started := True, sew_goroutine := Spawned\<rparr>,
            if sew_exportMetrics sew then initCounters X (sew_sentinelURI sew) (sew_topology sew) cp else cp))"

text \<open>A call of the cancel function before the goroutine has set it is a nil dereference.\<close>

definition watcher_Stop :: "SentinelEventWatcher \<Rightarrow> SentinelEventWatcher option" where
  "watcher_Stop sew = (case sew_cancel sew of
     None \<Rightarrow> None
   | Some _ \<Rightarrow> Some (sew\<lparr>sew_cancel := Some True\<rparr>))"

definition watcher_ops :: "'w lib \<Rightarrow> counters \<times> ServerPool \<Rightarrow> SentinelEventWatcher thread_ops" where
  "watcher_ops X cp =
     \<lparr>t_GetID = sew_sentinelURI,
      t_SetChannel = (\<lambda>sew. sew\<lparr>sew_eventsCh := True\<rparr>),
      t_Start = (\<lambda>sew. (None, fst (watcher_Start X sew cp))),
      t_Stop = watcher_Stop,
      t_IsStarted = sew_started,
      t_CanBeDeleted = (\<lambda>sew. True)\<rparr>"

text \<open>What one received message does: an event to the controller, and the counters.\<close>

record watch_state =
  ws_watcher :: SentinelEventWatcher
  ws_counters :: counters
  ws_pool :: ServerPool
  ws_sent :: nat

definition watch_message :: "'w lib \<Rightarrow> string \<times> string \<Rightarrow> watch_state \<Rightarrow> watch_state" where
  "watch_message X msg s =
     (let s = s\<lparr>ws_sent := ws_sent s + 1\<rparr>
      in case NewRedisEventMessage msg of
           Inl e \<Rightarrow> s
         | Inr rem \<Rightarrow>
             if sew_exportMetrics (ws_watcher s)
             then (case metricsFromEvent X (sew_sentinelURI (ws_watcher s)) rem (ws_counters s, ws_pool s) of
                     (c, p) \<Rightarrow> s\<lparr>ws_counters := c, ws_pool := p\<rparr>)
             else s)"

text \<open>
  The steps of the watcher: the caller starts and stops it, the goroutine sets the cancel
  function, handles a message, or leaves when its context is done; when a message and the end
  of the context are both ready the select takes either.
\<close>

inductive watch_step :: "'w lib \<Rightarrow> watch_state \<Rightarrow> watch_state \<Rightarrow> bool" for X where
  step_start: "watcher_Start X (ws_watcher s) (ws_counters s, ws_pool s) = (sew, c, p) \<Longrightarrow>
    watch_step X s (s\<lparr>ws_watcher := sew, ws_counters := c, ws_pool := p\<rparr>)"
| step_stop: "watcher_Stop (ws_watcher s) = Some sew \<Longrightarrow> watch_step X s (s\<lparr>ws_watcher := sew\<rparr>)"
| step_begin: "sew_goroutine (ws_watcher s) = Spawned \<Longrightarrow>
    watch_step X s (s\<lparr>ws_watcher := (ws_watcher s)\<lparr>sew_goroutine := Listening, sew_cancel := Some False\<rparr>\<rparr>)"
| step_message: "sew_goroutine (ws_watcher s) = Listening \<Longrightarrow> watch_step X s (watch_message X msg s)"
| step_done: "sew_goroutine (ws_watcher s) = Listening \<Longrightarrow>
    watch_step X s (s\<lparr>ws_watcher := (ws_watcher s)\<lparr>sew_goroutine := Exited, sew_started := False\<rparr>\<rparr>)"

inductive_cases watch_stepE: "watch_step X s s'"

inductive watch_reach :: "'w lib \<Rightarrow> watch_state \<Rightarrow> bool" for X where
  watch_init: "NewSentinelEventWatcher X u topology m pool = (Inr sew, pool') \<Longrightarrow>
    watch_reach X \<lparr>ws_watcher = sew, ws_counters = c, ws_pool = pool', ws_sent = 0\<rparr>"
| watch_next: "watch_reach X s \<Longrightarrow> watch_step X s s' \<Longrightarrow> watch_reach X s'"

section \<open>Properties of the messages\<close>

definition word_ok :: "string \<Rightarrow> bool" where
  "word_ok s \<longleftrightarrow> CHR '' '' \<notin> set s"

text \<open>The payloads as the sentinel documentation gives them.\<close>

definition instance_payload :: "RedisInstanceDetails \<Rightarrow> RedisInstanceDetails option \<Rightarrow> string" where
  "instance_payload r m =
     join '' '' ([ri_role r, ri_name r, ri_ip r, ri_port r] @
       (case m of None \<Rightarrow> [] | Some m \<Rightarrow> [''@'', ri_name m, ri_ip m, ri_port m]))"

definition instance_ok :: "RedisInstanceDetails \<Rightarrow> bool" where
  "instance_ok r \<longleftrightarrow> word_ok (ri_role r) \<and> word_ok (ri_name r) \<and> word_ok (ri_ip r) \<and> word_ok (ri_port r)"

definition details_event :: "string \<Rightarrow> bool" where
  "details_event e \<longleftrightarrow> e \<noteq> '''' \<and>
     e \<notin> {''+tilt'', ''-tilt'', ''+switch-master'', ''+monitor'', ''+set'', ''+new-epoch'', ''+vote-for-leader''}"

lemma split_words: "xs \<noteq> [] \<Longrightarrow> list_all word_ok xs \<Longrightarrow> split_on (CHR '' '') (join '' '' xs) = xs"
  by (rule split_on_join) (auto simp: word_ok_def list_all_iff)

text \<open>
  The parser reads back the events that carry instance details: for a master alone the
  target is also the master; for a slave or sentinel the part after the @ is the master.
\<close>

lemma instance_event_roundtrip:
  assumes "details_event e" and "instance_ok r"
    and "case m of None \<Rightarrow> ri_role r = ''master'' | Some m \<Rightarrow> instance_ok m \<and> ri_role m = ''master''"
  shows "NewRedisEventMessage (e, instance_payload r m) =
    Inr \<lparr>rem_event = e, rem_target = r, rem_master = (case m of None \<Rightarrow> r | Some m \<Rightarrow> m), rem_config = no_config\<rparr>"
proof (cases m)
  case None
  have "split_on (CHR '' '') (instance_payload r m) = [ri_role r, ri_name r, ri_ip r, ri_port r]"
    unfolding instance_payload_def None
    by (subst split_words) (use assms(2) in \<open>simp_all add: instance_ok_def\<close>)
  with assms None show ?thesis
    by (auto simp: NewRedisEventMessage_def parsePayload_def details_event_def Let_def
        parseInstanceDetailsPayload_def)
next
  case (Some mm)
  have "split_on (CHR '' '') (instance_payload r m) =
      [ri_role r, ri_name r, ri_ip r, ri_port r, ''@'', ri_name mm, ri_ip mm, ri_port mm]"
    unfolding instance_payload_def Some
    by (subst split_words) (use assms(2,3) Some in \<open>simp_all add: instance_ok_def word_ok_def\<close>)
  with assms Some show ?thesis
    by (auto simp: NewRedisEventMessage_def parsePayload_def details_event_def Let_def
        parseInstanceDetailsPayload_def)
qed

section \<open>Properties of the counters\<close>

definition counter_value :: "counters \<Rightarrow> string \<times> string list \<Rightarrow> int" where
  "counter_value c k = (case c k of None \<Rightarrow> 0 | Some v \<Rightarrow> v)"

lemma counter_value_Add:
  "counter_value (counter_Add name labels n c) k = counter_value c k + (if k = (name, labels) then n else 0)"
  by (auto simp: counter_value_def counter_Add_def)

lemma dom_counter_Add [simp]: "dom (counter_Add name labels n c) = insert (name, labels) (dom c)"
  by (auto simp: counter_Add_def)

lemma counter_value_server_event:
  "counter_value (fst (count_server_event X name u shard hp n cp)) k = counter_value (fst cp) k +
     (if k = (name, [u, shard, hp, fst (GetServerAlias X hp (snd cp))]) then n else 0)"
  by (auto simp: count_server_event_def counter_value_Add split: prod.splits)

lemma dom_server_event: "dom (fst cp) \<subseteq> dom (fst (count_server_event X name u shard hp n cp))"
  by (auto simp: count_server_event_def split: prod.splits)

lemma init_server_counters_values:
  "counter_value (fst (init_server_counters X u shard server cp)) k = counter_value (fst cp) k"
  by (simp add: init_server_counters_def Let_def counter_value_server_event counter_value_Add)

lemma init_server_counters_step:
  "dom (counter_Add ''switch_master_count'' [u, shard] 0 (fst cp))
     \<subseteq> dom (fst (init_server_counters X u shard server cp))"
  unfolding init_server_counters_def Let_def
  by (rule order_trans [OF _ dom_server_event], rule order_trans [OF _ dom_server_event],
      rule order_trans [OF _ dom_server_event], rule order_trans [OF _ dom_server_event]) simp

lemma init_server_counters_dom: "dom (fst cp) \<subseteq> dom (fst (init_server_counters X u shard server cp))"
  using init_server_counters_step [of u shard cp X server] by simp

lemma init_server_counters_switch:
  "(''switch_master_count'', [u, shard]) \<in> dom (fst (init_server_counters X u shard server cp))"
  using init_server_counters_step [of u shard cp X server] by simp

lemma fold_values:
  assumes "\<And>x cp. counter_value (fst (f x cp)) k = counter_value (fst cp) k"
  shows "counter_value (fst (fold f xs cp)) k = counter_value (fst cp) k"
  by (induction xs arbitrary: cp) (simp_all add: assms)

lemma fold_dom:
  assumes "\<And>x cp. dom (fst cp) \<subseteq> dom (fst (f x cp))"
  shows "dom (fst cp) \<subseteq> dom (fst (fold f xs cp))"
proof (induction xs arbitrary: cp)
  case (Cons x xs)
  have "dom (fst cp) \<subseteq> dom (fst (f x cp))" by (rule assms)
  also have "\<dots> \<subseteq> dom (fst (fold f xs (f x cp)))" by (rule Cons.IH)
  finally show ?case by simp
qed simp

lemma fold_dom_elem:
  assumes "\<And>x cp. dom (fst cp) \<subseteq> dom (fst (f x cp))" and "x \<in> set xs" and "\<And>cp. k \<in> dom (fst (f x cp))"
  shows "k \<in> dom (fst (fold f xs cp))"
  using assms(2)
proof (induction xs arbitrary: cp)
  case (Cons y xs)
  show ?case
  proof (cases "x \<in> set xs")
    case True
    with Cons.IH show ?thesis by simp
  next
    case False
    with Cons.prems have "k \<in> dom (fst (f y cp))" using assms(3) by auto
    then show ?thesis using fold_dom [of f "f y cp" xs, OF assms(1)] by auto
  qed
qed simp

lemma init_shard_counters_dom: "dom (fst cp) \<subseteq> dom (fst (init_shard_counters X u shard cp))"
proof -
  let ?c = "(counter_Add ''failover_abort_no_good_slave_count'' [u, sh_Name shard] 0 (fst cp), snd cp)"
  have "dom (fst cp) \<subseteq> dom (fst ?c)" by auto
  also have "\<dots> \<subseteq> dom (fst (init_shard_counters X u shard cp))"
    unfolding init_shard_counters_def by (rule fold_dom) (rule init_server_counters_dom)
  finally show ?thesis .
qed

text \<open>
  \<^verbatim>\<open>initCounters\<close> makes the series of the topology visible and changes no value: every
  series keeps its count, the failover series of every shard exists, and so does the switch
  series of every shard that has a server.
\<close>

lemma initCounters_values:
  "counter_value (fst (initCounters X u (Some cluster) cp)) k = counter_value (fst cp) k \<and>
   dom (fst cp) \<subseteq> dom (fst (initCounters X u (Some cluster) cp)) \<and>
   (\<forall>shard \<in> set (cl_Shards cluster).
      (''failover_abort_no_good_slave_count'', [u, sh_Name shard])
         \<in> dom (fst (initCounters X u (Some cluster) cp)) \<and>
      (sh_Servers shard \<noteq> [] \<longrightarrow>
         (''switch_master_count'', [u, sh_Name shard]) \<in> dom (fst (initCounters X u (Some cluster) cp))))"
proof -
  have vals: "counter_value (fst (init_shard_counters X u shard cp)) k = counter_value (fst cp) k" for shard cp
    unfolding init_shard_counters_def
    by (subst fold_values) (simp_all add: init_server_counters_values counter_value_Add)
  have fo: "(''failover_abort_no_good_slave_count'', [u, sh_Name shard]) \<in> dom (fst (init_shard_counters X u shard cp))"
    for shard cp
  proof -
    let ?c = "(counter_Add ''failover_abort_no_good_slave_count'' [u, sh_Name shard] 0 (fst cp), snd cp)"
    have "(''failover_abort_no_good_slave_count'', [u, sh_Name shard]) \<in> dom (fst ?c)" by simp
    also have "dom (fst ?c) \<subseteq> dom (fst (init_shard_counters X u shard cp))"
      unfolding init_shard_counters_def by (rule fold_dom) (rule init_server_counters_dom)
    finally show ?thesis .
  qed
  have sw: "(''switch_master_count'', [u, sh_Name shard]) \<in> dom (fst (init_shard_counters X u shard cp))"
    if "sh_Servers shard \<noteq> []" for shard cp
    unfolding init_shard_counters_def
    by (rule fold_dom_elem [OF init_server_counters_dom hd_in_set [OF that]]) (rule init_server_counters_switch)
  show ?thesis
    unfolding initCounters_def option.case
    using fold_values [of "init_shard_counters X u" k, OF vals]
      fold_dom [of "init_shard_counters X u", OF init_shard_counters_dom]
      fold_dom_elem [of "init_shard_counters X u", OF init_shard_counters_dom]  fo sw
    by (metis (no_types, lifting))
qed

lemma parse_keeps_event:
  "parsePayload payload rem = Inr rem' \<Longrightarrow> rem_event rem' = rem_event rem"
  by (auto simp: parsePayload_def parseEmptyPayload_def parseSwitchPayload_def parseConfigurationPayload_def
      parseInstanceDetailsPayload_def Let_def split: if_splits)

lemma NewRedisEventMessage_event: "NewRedisEventMessage msg = Inr rem \<Longrightarrow> rem_event rem = fst msg"
  by (auto simp: NewRedisEventMessage_def Let_def dest!: parse_keeps_event split: if_splits)

definition counted_event :: "string \<Rightarrow> bool" where
  "counted_event e \<longleftrightarrow> e \<in> {''+switch-master'', ''-failover-abort-no-good-slave'', ''+sdown'', ''-sdown''}"

lemma metricsFromEvent_counts:
  "\<exists>k0. \<forall>k. counter_value (fst (metricsFromEvent X u rem cp)) k =
     counter_value (fst cp) k + (if counted_event (rem_event rem) \<and> k = k0 then 1 else 0)"
proof (cases "counted_event (rem_event rem)")
  case False
  then have "metricsFromEvent X u rem cp = cp"
    by (simp add: metricsFromEvent_def counted_event_def Let_def)
  with False show ?thesis by simp
next
  case True
  have "\<exists>name labels. fst (count_server_event X n u shard hp 1 cp) = counter_Add name labels 1 (fst cp)" for n shard hp
    by (auto simp: count_server_event_def split: prod.splits)
  with True have "\<exists>name labels. fst (metricsFromEvent X u rem cp) = counter_Add name labels 1 (fst cp)"
    unfolding metricsFromEvent_def Let_def counted_event_def by auto
  then obtain name labels where "fst (metricsFromEvent X u rem cp) = counter_Add name labels 1 (fst cp)"
    by blast
  with True show ?thesis by (intro exI [of _ "(name, labels)"]) (simp add: counter_value_Add)
qed

text \<open>
  What the watcher does with a message: it sends exactly one event to the controller,
  well formed or not, so no message of sentinel goes without a reconciliation; and the counters
  differ in one series at most, by one, which happens exactly when metrics are exported, the
  message parses and its channel is one of the four that are counted.
\<close>

lemma watch_message_effect:
  "ws_sent (watch_message X msg s) = ws_sent s + 1 \<and> ws_watcher (watch_message X msg s) = ws_watcher s \<and>
   (\<exists>k0. \<forall>k. counter_value (ws_counters (watch_message X msg s)) k = counter_value (ws_counters s) k +
     (if sew_exportMetrics (ws_watcher s) \<and> \<not> isl (NewRedisEventMessage msg) \<and> counted_event (fst msg) \<and> k = k0
      then 1 else 0))"
proof (cases "NewRedisEventMessage msg")
  case (Inl e)
  then show ?thesis by (simp add: watch_message_def Let_def)
next
  case (Inr rem)
  obtain k0 where k0: "\<forall>k. counter_value (fst (metricsFromEvent X (sew_sentinelURI (ws_watcher s)) rem
        (ws_counters s, ws_pool s))) k =
      counter_value (ws_counters s) k + (if counted_event (fst msg) \<and> k = k0 then 1 else 0)"
    using metricsFromEvent_counts [of X "sew_sentinelURI (ws_watcher s)" rem "(ws_counters s, ws_pool s)"]
    unfolding NewRedisEventMessage_event [OF Inr] fst_conv by blast
  show ?thesis
  proof (cases "sew_exportMetrics (ws_watcher s)")
    case True
    then have "ws_counters (watch_message X msg s) = fst (metricsFromEvent X (sew_sentinelURI (ws_watcher s)) rem
        (ws_counters s, ws_pool s))"
      by (simp add: watch_message_def Let_def Inr split: prod.splits)
    with k0 True Inr show ?thesis
      by (intro conjI exI [of _ k0]) (simp_all add: watch_message_def Let_def split: prod.splits)
  next
    case False
    with Inr show ?thesis by (simp add: watch_message_def Let_def)
  qed
qed

interpretation watcher: runnable_thread "watcher_ops X cp"
  by unfold_locales (auto simp: watcher_ops_def watcher_Start_def split: if_splits)

lemma watcher_laws: "thread_laws (watcher_ops X cp)"
  using watcher.start_started [of X cp] by (auto simp: thread_laws_def)

definition watch_inv :: "watch_state \<Rightarrow> bool" where
  "watch_inv s \<longleftrightarrow>
     (let sew = ws_watcher s in
      (sew_started sew \<longleftrightarrow> sew_goroutine sew \<in> {Spawned, Listening}) \<and>
      (sew_goroutine sew \<in> {Listening, Exited} \<longrightarrow> sew_cancel sew \<noteq> None))"

lemma watch_step_inv: "watch_step X s s' \<Longrightarrow> watch_inv s \<Longrightarrow> watch_inv s'"
proof (induction rule: watch_step.induct)
  case (step_message s msg)
  have "ws_watcher (watch_message X msg s) = ws_watcher s"
    by (simp add: watch_message_def Let_def split: sum.splits prod.splits)
  with step_message show ?case by (simp add: watch_inv_def)
qed (auto simp: watch_inv_def Let_def watcher_Start_def watcher_Stop_def split: if_splits option.splits)

text \<open>
  The flag that the manager reads is exact: in every reachable state the watcher reports
  that it is started exactly when its goroutine is spawned or listening. So the manager never
  runs two goroutines of one watcher, nor takes a dead one for running. Once the goroutine
  listens, \<^verbatim>\<open>Stop\<close> does not panic.
\<close>

lemma watch_reach_started:
  assumes "watch_reach X s"
  shows "(sew_started (ws_watcher s) \<longleftrightarrow> sew_goroutine (ws_watcher s) \<in> {Spawned, Listening}) \<and>
    (sew_goroutine (ws_watcher s) = Listening \<longrightarrow> watcher_Stop (ws_watcher s) \<noteq> None)"
proof -
  have "watch_inv s" using assms
  proof (induction rule: watch_reach.induct)
    case (watch_init u topology m pool sew pool' c)
    then show ?case
      by (auto simp: watch_inv_def NewSentinelEventWatcher_def split: prod.splits sum.splits)
  next
    case (watch_next s s')
    then show ?case by (blast intro: watch_step_inv)
  qed
  then show ?thesis by (auto simp: watch_inv_def Let_def watcher_Stop_def split: option.splits)
qed

text \<open>
  A watcher that is stopped after \<^verbatim>\<open>Start\<close> has returned and before its goroutine has
  run panics, since the cancel function is set by the goroutine: reconciling the threads of an
  owner and cleaning them up at once crashes the operator.
\<close>

lemma watcher_stop_race:
  assumes "NewSentinelEventWatcher X u topology m pool = (Inr sew, pool')"
  shows "sew_started (fst (watcher_Start X sew cp)) \<and> watcher_Stop (fst (watcher_Start X sew cp)) = None \<and>
    (\<exists>mgr. ReconcileThreads (watcher_ops X cp) o1 [sew] NewManager = Some (None, mgr) \<and>
       CleanupThreads (watcher_ops X cp) o1 mgr = None)"
proof -
  have "contains (owner_prefix o1 @ t) (owner_prefix o1)" for t
    by (rule prefix_contains) simp
  moreover have "sew_cancel sew = None" "\<not> sew_started sew"
    using assms by (auto simp: NewSentinelEventWatcher_def split: prod.splits sum.splits)
  ultimately show ?thesis
    by (simp add: watcher_Start_def watcher_Stop_def ReconcileThreads_def CleanupThreads_def NewManager_def
        runThread_def mgr_Lock_def mgr_Unlock_def watcher_ops_def stopThread_def Let_def)
qed

section \<open>Witnesses\<close>

definition ex_watcher :: "string \<Rightarrow> SentinelEventWatcher" where
  "ex_watcher u = \<lparr>sew_sentinelURI = u, sew_exportMetrics = False, sew_topology = None,
     sew_sentinel = ex_sentinel, sew_eventsCh = True, sew_started = True, sew_cancel = Some False,
     sew_goroutine = Listening\<rparr>"

definition ex_ops :: "SentinelEventWatcher thread_ops" where
  "ex_ops = watcher_ops fake_lib (Map.empty, [])"

text \<open>A manager with the watchers of two owners of the same name.\<close>

definition ex_manager :: "SentinelEventWatcher Manager" where
  "ex_manager = \<lparr>mgr_locked = False,
     mgr_threads = [(''preprod/redis_redis://10.0.0.9:26379'', ex_watcher ''redis://10.0.0.9:26379''),
                    (''prod/redis_redis://10.0.0.8:26379'', ex_watcher ''redis://10.0.0.8:26379'')],
     mgr_stopped = []\<rparr>"

lemma ex_manager_ok: "mgr_ok ex_manager" "stoppable ex_ops ex_manager" "thread_laws ex_ops"
  using watcher.start_started [of fake_lib "(Map.empty, [])"]
  by (auto simp: mgr_ok_def stoppable_def ex_manager_def ex_ops_def ex_watcher_def watcher_ops_def
      watcher_Stop_def thread_laws_def)

theorem ReconcileThreads_correct_witness:
  "\<exists>mgr'. ReconcileThreads ex_ops (''prod'', ''redis'') [ex_watcher ''redis://10.0.0.7:26379''] ex_manager
     = Some (None, mgr') \<and> mgr_ok mgr' \<and>
   (\<exists>t. GetThread ''redis://10.0.0.7:26379'' (''prod'', ''redis'') mgr' = Some t \<and> sew_started t) \<and>
   GetThread ''redis://10.0.0.8:26379'' (''prod'', ''redis'') mgr' = None"
proof -
  let ?o = "(''prod'', ''redis'')" and ?w = "ex_watcher ''redis://10.0.0.7:26379''"
  obtain e mgr' where r: "ReconcileThreads ex_ops ?o [?w] ex_manager = Some (e, mgr')" "mgr_ok mgr'"
    and post: "e = None \<Longrightarrow> \<exists>t. GetThread (t_GetID ex_ops ?w) ?o mgr' = Some t \<and> t_IsStarted ex_ops t"
      "e = None \<Longrightarrow> map_of (mgr_threads mgr') ''prod/redis_redis://10.0.0.8:26379'' = None"
    using ReconcileThreads_correct [OF ex_manager_ok(3,1,2), of ?o "[?w]"]
    by (auto simp: Let_def ex_manager_def ex_ops_def watcher_ops_def owner_prefix_def ex_watcher_def
        prefix_contains)
  have "map_option fst (ReconcileThreads ex_ops ?o [?w] ex_manager) = Some None"
    by (simp add: ReconcileThreads_def ex_ops_def watcher_ops_def runThread_def ex_manager_def owner_prefix_def
        ex_watcher_def mgr_Lock_def mgr_Unlock_def watcher_Start_def stopThread_def watcher_Stop_def Let_def)
  with r have "e = None" by simp
  with r post show ?thesis
    by (auto simp: ex_ops_def watcher_ops_def ex_watcher_def GetThread_def owner_prefix_def)
qed

text \<open>Cleaning up the owner prod stops a thread of preprod.\<close>

lemma CleanupThreads_stops_other:
  "\<exists>mgr'. CleanupThreads ex_ops (''prod'', ''redis'') ex_manager = Some mgr' \<and>
     GetThread ''redis://10.0.0.9:26379'' (''preprod'', ''redis'') mgr' = None"
proof -
  have "GetThread ''redis://10.0.0.9:26379'' (''preprod'', ''redis'') ex_manager
      = Some (ex_watcher ''redis://10.0.0.9:26379'')"
    by (simp add: GetThread_def ex_manager_def owner_prefix_def)
  from CleanupThreads_scope [OF ex_manager_ok(1,2) this, of "(''prod'', ''redis'')"]
  show ?thesis by (auto simp: k8s_name_def suffix_def)
qed

theorem mgr_reach_ok_witness:
  "\<exists>mgr. ReconcileThreads ex_ops (''prod'', ''redis'') [ex_watcher ''redis://10.0.0.7:26379''] NewManager
      = Some (None, mgr) \<and> mgr_ok mgr"
proof -
  let ?o = "(''prod'', ''redis'')" and ?w = "ex_watcher ''redis://10.0.0.7:26379''"
  have "map_option fst (ReconcileThreads ex_ops ?o [?w] NewManager) = Some None"
    by (simp add: ReconcileThreads_def ex_ops_def watcher_ops_def runThread_def NewManager_def owner_prefix_def
        ex_watcher_def mgr_Lock_def mgr_Unlock_def watcher_Start_def Let_def)
  then obtain mgr where r: "ReconcileThreads ex_ops ?o [?w] NewManager = Some (None, mgr)" by auto
  have "mgr_reach ex_ops mgr" by (rule reach_reconcile [OF reach_init r])
  from mgr_reach_ok [OF this] r show ?thesis by blast
qed

theorem stopThread_unknown_key_deadlocks_witness:
  "\<exists>mgr'. stopThread ex_ops ''prod/redis_gone'' ex_manager = Some mgr' \<and>
     stopThread ex_ops ''prod/redis_redis://10.0.0.8:26379'' mgr' = None"
  using stopThread_unknown_key_deadlocks [OF ex_manager_ok(1), of "''prod/redis_gone''" ex_ops]
  by (auto simp: ex_manager_def)

lemma ex_new_watcher:
  "\<not> isl (fst (NewSentinelEventWatcher fake_lib ''redis://10.0.0.9:26379'' None True []))"
  by code_simp

end
