(* ===== verification/SentinelMetrics.thy ===== *)
theory SentinelMetrics
  imports ShardedCluster Events
begin

text \<open>
  The gauges of the operator: \<^verbatim>\<open>internal/pkg/redis/metrics/sentinel_metrics.go\<close>, a thread per
  sentinel that publishes what sentinel says of every redis server, and
  \<^verbatim>\<open>cluster_status_metrics.go\<close>, which publishes the discovered cluster. A gauge vector maps
  the values of its labels, in the order of its declaration, to a number; the numbers the code
  stores are integers converted to \<^verbatim>\<open>float64\<close>.
\<close>

section \<open>Gauges\<close>

type_synonym gauges = "(string \<times> string list) \<rightharpoonup> int"

definition gauge_Set :: "string \<Rightarrow> string list \<Rightarrow> int \<Rightarrow> gauges \<Rightarrow> gauges" where
  "gauge_Set name labels v g = g((name, labels) \<mapsto> v)"

definition gauge_Delete :: "string list \<Rightarrow> string \<Rightarrow> gauges \<Rightarrow> gauges" where
  "gauge_Delete labels name g = g((name, labels) := None)"

definition gauge_Reset :: "string \<Rightarrow> gauges \<Rightarrow> gauges" where
  "gauge_Reset name g = (\<lambda>k. if fst k = name then None else g k)"

definition sentinel_gauges :: "string list" where
  "sentinel_gauges = [''link_pending_commands'', ''last_ok_ping_reply'', ''role_reported_time'',
     ''num_other_sentinels'', ''master_link_down_time'', ''slave_repl_offset'']"

definition cleanupMetrics :: "string list \<Rightarrow> gauges \<Rightarrow> gauges" where
  "cleanupMetrics labels = fold (gauge_Delete labels) sentinel_gauges"

section \<open>Gathering\<close>

definition server_host :: "string \<Rightarrow> int \<Rightarrow> string" where
  "server_host ip port = ip @ '':'' @ itoa port"

definition gather_master ::
    "'w lib \<Rightarrow> string \<Rightarrow> SentinelMasterCmdResult \<Rightarrow> gauges \<times> ServerPool \<Rightarrow> gauges \<times> ServerPool" where
  "gather_master X uri master = (\<lambda>(g, pool).
     let host = server_host (m_IP master) (m_Port master);
         (al, pool) = GetServerAlias X host pool;
         labels = [uri, m_Name master, host, al, m_RoleReported master];
         g = gauge_Set ''link_pending_commands'' labels (m_LinkPendingCommands master) g;
         g = gauge_Set ''last_ok_ping_reply'' labels (m_LastOkPingReply master) g;
         g = gauge_Set ''role_reported_time'' labels (m_RoleReportedTime master) g;
         g = gauge_Set ''num_other_sentinels'' labels (m_NumOtherSentinels master) g
     in (g, pool))"

definition gather_slave ::
    "'w lib \<Rightarrow> string \<Rightarrow> string \<Rightarrow> SentinelSlaveCmdResult \<Rightarrow> gauges \<times> ServerPool \<Rightarrow> gauges \<times> ServerPool" where
  "gather_slave X uri shard slave = (\<lambda>(g, pool).
     let host = server_host (sl_IP slave) (sl_Port slave);
         (al, pool) = GetServerAlias X host pool;
         labels = [uri, shard, host, al, sl_RoleReported slave];
         g = gauge_Set ''link_pending_commands'' labels (sl_LinkPendingCommands slave) g;
         g = gauge_Set ''last_ok_ping_reply'' labels (sl_LastOkPingReply slave) g;
         g = gauge_Set ''role_reported_time'' labels (sl_RoleReportedTime slave) g;
         g = gauge_Set ''master_link_down_time'' labels (sl_MasterLinkDownTime slave) g;
         g = gauge_Set ''slave_repl_offset'' labels (sl_SlaveReplOffset slave) g
     in (cleanupMetrics [uri, shard, host, al, role_str Master] g, pool))"

text \<open>The alias of the master is read once per master, before the slaves of its shard.\<close>

fun gather_masters ::
    "'w lib \<Rightarrow> string \<Rightarrow> srvref \<Rightarrow> SentinelMasterCmdResult list \<Rightarrow> gauges \<times> ServerPool
       \<Rightarrow> ('w, error option \<times> gauges \<times> ServerPool) go" where
  "gather_masters X uri sentinel [] gp w = Some ((None, gp), w)"
| "gather_masters X uri sentinel (master # masters) gp w =
     (let host = server_host (m_IP master) (m_Port master);
          al = fst (GetServerAlias X host (snd gp));
          (g, pool) = gather_master X uri master gp
      in do { (r, w) \<leftarrow> SentinelSlaves X sentinel (m_Name master) w;
              case r of
                Inl e \<Rightarrow> Some ((Some e, g, pool), w)
              | Inr slaves \<Rightarrow>
                  gather_masters X uri sentinel masters
                    (fold (gather_slave X uri (m_Name master)) slaves
                      (cleanupMetrics [uri, m_Name master, host, al, role_str Slave] g, pool)) w })"

section \<open>The gatherer thread\<close>

record SentinelMetricsGatherer =
  smg_refreshInterval :: int
  smg_sentinelURI :: string
  smg_sentinel :: srvref
  smg_started :: bool
  smg_cancel :: "bool option"
  smg_goroutine :: goroutine

definition NewSentinelMetricsGatherer ::
    "'w lib \<Rightarrow> string \<Rightarrow> int \<Rightarrow> ServerPool \<Rightarrow> (error + SentinelMetricsGatherer) \<times> ServerPool" where
  "NewSentinelMetricsGatherer X sentinelURI refreshInterval pool =
     (case NewSentinelServerFromPool X sentinelURI None pool of
        (Inl e, pool) \<Rightarrow> (Inl e, pool)
      | (Inr sentinel, pool) \<Rightarrow>
          (Inr \<lparr>smg_refreshInterval = refreshInterval, smg_sentinelURI = sentinelURI, smg_sentinel = sentinel,
                smg_started = False, smg_cancel = None, smg_goroutine = NotSpawned\<rparr>, pool))"

definition gatherer_Start :: "SentinelMetricsGatherer \<Rightarrow> SentinelMetricsGatherer" where
  "gatherer_Start smg =
     (if smg_started smg then smg else smg\<lparr>smg_started := True, smg_goroutine := Spawned\<rparr>)"

text \<open>
  \<^verbatim>\<open>Stop\<close> calls the cancel function, which is nil until the goroutine has run, and empties the
  six vectors, of every gatherer.
\<close>

definition gatherer_Stop :: "SentinelMetricsGatherer \<Rightarrow> gauges \<Rightarrow> (SentinelMetricsGatherer \<times> gauges) option" where
  "gatherer_Stop smg g =
     (case smg_cancel smg of
        None \<Rightarrow> None
      | Some _ \<Rightarrow> Some (smg\<lparr>smg_cancel := Some True\<rparr>, fold gauge_Reset sentinel_gauges g))"

definition gatherer_ops :: "gauges \<Rightarrow> SentinelMetricsGatherer thread_ops" where
  "gatherer_ops g =
     \<lparr>t_GetID = smg_sentinelURI,
      t_SetChannel = (\<lambda>smg. smg),
      t_Start = (\<lambda>smg. (None, gatherer_Start smg)),
      t_Stop = (\<lambda>smg. map_option fst (gatherer_Stop smg g)),
      t_IsStarted = smg_started,
      t_CanBeDeleted = (\<lambda>smg. True)\<rparr>"

definition gatherMetrics ::
    "'w lib \<Rightarrow> SentinelMetricsGatherer \<Rightarrow> gauges \<times> ServerPool \<Rightarrow> ('w, error option \<times> gauges \<times> ServerPool) go" where
  "gatherMetrics X smg gp w =
     do { (r, w) \<leftarrow> SentinelMasters X (smg_sentinel smg) w;
          case r of
            Inl e \<Rightarrow> Some ((Some e, gp), w)
          | Inr masters \<Rightarrow> gather_masters X (smg_sentinelURI smg) (smg_sentinel smg) masters gp w }"

interpretation gatherer: runnable_thread "gatherer_ops g"
  by unfold_locales (auto simp: gatherer_ops_def gatherer_Start_def)

lemma gatherer_laws: "thread_laws (gatherer_ops g)"
  using gatherer.start_started [of g] by (auto simp: thread_laws_def)

section \<open>The status of the cluster\<close>

definition read_only_label :: "RedisServer \<Rightarrow> string" where
  "read_only_label server = (case rs_Config server ''slave-read-only'' of Some ro \<Rightarrow> ro | None \<Rightarrow> ''no'')"

definition publish_server :: "ServerPool \<Rightarrow> string \<Rightarrow> string \<Rightarrow> RedisServer \<Rightarrow> gauges \<times> int \<times> int \<Rightarrow> gauges \<times> int \<times> int" where
  "publish_server pool resource shard server = (\<lambda>(g, roslave, rwslave).
     let ro = read_only_label server;
         g = gauge_Set ''server_info'' [resource, shard, rs_ID server, alias_of pool (rs_ref server),
               role_str (rs_Role server), ro] 1 g
     in if rs_Role server = Slave
        then if ro = ''yes'' then (g, roslave + 1, rwslave) else (g, roslave, rwslave + 1)
        else (g, roslave, rwslave))"

definition publish_shard :: "ServerPool \<Rightarrow> string \<Rightarrow> Shard \<Rightarrow> gauges \<Rightarrow> gauges" where
  "publish_shard pool resource shard g =
     (case fold (publish_server pool resource (sh_Name shard)) (sh_Servers shard) (g, 0, 0) of
        (g, roslave, rwslave) \<Rightarrow>
          gauge_Set ''rw_slave_count'' [resource, sh_Name shard] rwslave
            (gauge_Set ''ro_slave_count'' [resource, sh_Name shard] roslave g))"

definition FromShardedCluster ::
    "'w lib \<Rightarrow> nat list \<Rightarrow> Cluster \<Rightarrow> bool \<Rightarrow> string \<Rightarrow> gauges \<Rightarrow> ServerPool
       \<Rightarrow> ('w, error option \<times> gauges \<times> Cluster \<times> ServerPool) go" where
  "FromShardedCluster X arrival cluster refresh resource g pool w =
     do { ((e, cluster, pool), w) \<leftarrow>
            (if refresh then SentinelDiscover X arrival [SlaveReadOnlyDiscoveryOpt] cluster pool w
             else Some ((None, cluster, pool), w));
          case e of
            Some e \<Rightarrow> Some ((Some e, g, cluster, pool), w)
          | None \<Rightarrow>
              Some ((None, fold (publish_shard pool resource) (cl_Shards cluster) g, cluster, pool), w) }"

section \<open>Aliases\<close>

text \<open>The alias that the gatherer sees, read from the pool.\<close>

lemma GetServerAlias_lookup:
  assumes "url_canonical X" and "pool_ok pool"
  shows "fst (GetServerAlias X hp pool) =
    (case lib_ParseURL X (''redis://'' @ hp) of
       Inl e \<Rightarrow> '''' | Inr a \<Rightarrow> (case pool_lookup pool a of None \<Rightarrow> '''' | Some s \<Rightarrow> s_alias s))"
proof (cases rule: GetServer_cases [of X "''redis://'' @ hp" None pool])
  case (bad_url e)
  then show ?thesis by (simp add: GetServerAlias_def)
next
  case (known addr i s)
  then have "pool_lookup pool addr = Some (pool ! i)" "s = pool ! i"
    using assms(2) by (auto simp: pool_lookup_Some)
  with known show ?thesis by (simp add: GetServerAlias_def)
next
  case (bad_addr e addr)
  then have "pool_lookup pool addr = None" by (simp add: pool_lookup_None)
  with bad_addr show ?thesis by (simp add: GetServerAlias_def)
next
  case (fresh addr s)
  then have "pool_lookup pool addr = None" by (simp add: pool_lookup_None)
  moreover have "s_alias s = ''''" using fresh(3) by (auto simp: NewServer_def Let_def split: sum.splits prod.splits)
  ultimately show ?thesis using fresh by (simp add: GetServerAlias_def)
qed

lemma GetServerAlias_keeps:
  assumes "url_canonical X" and "pool_ok pool"
  shows "pool_ok (snd (GetServerAlias X hp pool)) \<and>
    fst (GetServerAlias X hp' (snd (GetServerAlias X hp pool))) = fst (GetServerAlias X hp' pool)"
proof -
  let ?u = "''redis://'' @ hp"
  have snd: "snd (GetServerAlias X hp pool) = snd (GetServer X ?u None pool)"
    by (auto simp: GetServerAlias_def split: prod.splits sum.splits)
  have ok: "pool_ok (snd (GetServer X ?u None pool))" by (rule GetServer_keeps_pool_ok [OF assms])
  have same: "(case pool_lookup (snd (GetServer X ?u None pool)) a of None \<Rightarrow> '''' | Some s \<Rightarrow> s_alias s) =
      (case pool_lookup pool a of None \<Rightarrow> '''' | Some s \<Rightarrow> s_alias s)" for a
  proof (cases "GetServer X ?u None pool")
    case (Pair r pool')
    show ?thesis
    proof (cases r)
      case (Inl e)
      have "pool' = pool" using Pair Inl by (cases rule: GetServer_cases [of X ?u None pool]) auto
      then show ?thesis using Pair by simp
    next
      case (Inr s)
      have p: "GetServer X ?u None pool = (Inr s, pool')" using Pair Inr by simp
      show ?thesis
      proof (cases "a = ID (ref_of s)")
        case False
        then show ?thesis using GetServer_other [OF assms p] p by simp
      next
        case True
        have s: "pool_lookup pool' a = Some s"
          using GetServer_returns_pooled [OF assms(1) p] ok p True by (simp add: pool_lookup_Some)
        have "pool_lookup pool a = Some s \<or> pool_lookup pool a = None \<and> s_alias s = ''''"
        proof (cases rule: GetServer_cases [of X ?u None pool])
          case (known addr i t)
          then show ?thesis using p True assms(2) by (auto simp: pool_lookup_Some)
        next
          case (fresh addr t)
          then show ?thesis using p True NewServer_ID [OF assms(1) fresh(1,3)]
            by (auto simp: pool_lookup_None NewServer_def Let_def split: sum.splits prod.splits)
        qed (use p in auto)
        then show ?thesis using s p by auto
      qed
    qed
  qed
  show ?thesis
    using ok same unfolding snd GetServerAlias_lookup [OF assms(1) ok] GetServerAlias_lookup [OF assms]
    by (auto split: sum.splits)
qed

text \<open>A pool that shows the aliases \<open>A\<close>; every read of an alias leaves such a pool.\<close>

definition shows_aliases :: "'w lib \<Rightarrow> (string \<Rightarrow> string) \<Rightarrow> ServerPool \<Rightarrow> bool" where
  "shows_aliases X A pool \<longleftrightarrow> pool_ok pool \<and> (\<forall>hp. fst (GetServerAlias X hp pool) = A hp)"

lemma shows_aliases_get:
  "url_canonical X \<Longrightarrow> shows_aliases X A pool \<Longrightarrow>
     fst (GetServerAlias X hp pool) = A hp \<and> shows_aliases X A (snd (GetServerAlias X hp pool))"
  using GetServerAlias_keeps by (fastforce simp: shows_aliases_def)

section \<open>What the gauges hold\<close>

definition labels_of :: "(string \<Rightarrow> string) \<Rightarrow> string \<Rightarrow> string \<Rightarrow> string \<Rightarrow> string \<Rightarrow> string list" where
  "labels_of A uri shard host role = [uri, shard, host, A host, role]"

lemma labels_of_eq [simp]:
  "labels_of A uri shard host role = labels_of A uri' shard' host' role' \<longleftrightarrow>
     uri = uri' \<and> shard = shard' \<and> host = host' \<and> role = role'"
  by (auto simp: labels_of_def)

abbreviation m_host :: "SentinelMasterCmdResult \<Rightarrow> string" where
  "m_host m \<equiv> server_host (m_IP m) (m_Port m)"

abbreviation sl_host :: "SentinelSlaveCmdResult \<Rightarrow> string" where
  "sl_host s \<equiv> server_host (sl_IP s) (sl_Port s)"

definition master_values :: "SentinelMasterCmdResult \<Rightarrow> string \<rightharpoonup> int" where
  "master_values m = [''link_pending_commands'' \<mapsto> m_LinkPendingCommands m, ''last_ok_ping_reply'' \<mapsto> m_LastOkPingReply m,
     ''role_reported_time'' \<mapsto> m_RoleReportedTime m, ''num_other_sentinels'' \<mapsto> m_NumOtherSentinels m]"

definition slave_values :: "SentinelSlaveCmdResult \<Rightarrow> string \<rightharpoonup> int" where
  "slave_values s = [''link_pending_commands'' \<mapsto> sl_LinkPendingCommands s, ''last_ok_ping_reply'' \<mapsto> sl_LastOkPingReply s,
     ''role_reported_time'' \<mapsto> sl_RoleReportedTime s, ''master_link_down_time'' \<mapsto> sl_MasterLinkDownTime s,
     ''slave_repl_offset'' \<mapsto> sl_SlaveReplOffset s]"

text \<open>The gauges \<open>g\<close> with the values \<open>h\<close> written under one set of labels.\<close>

definition overlay :: "string list \<Rightarrow> (string \<rightharpoonup> int) \<Rightarrow> gauges \<Rightarrow> gauges" where
  "overlay labels h g = (\<lambda>(n, l). if l = labels \<and> h n \<noteq> None then h n else g (n, l))"

lemma overlay_empty: "overlay labels Map.empty g = g"
  by (auto simp: overlay_def)

lemma gauge_Set_overlay: "gauge_Set name labels v (overlay labels h g) = overlay labels (h(name \<mapsto> v)) g"
  by (rule ext) (auto simp: gauge_Set_def overlay_def split: if_splits)

lemma fold_gauge_Delete:
  "fold (gauge_Delete labels) names g (n, l) = (if l = labels \<and> n \<in> set names then None else g (n, l))"
  by (induction names arbitrary: g) (auto simp: gauge_Delete_def)

lemma cleanupMetrics_apply:
  "cleanupMetrics labels g (n, l) = (if l = labels \<and> n \<in> set sentinel_gauges then None else g (n, l))"
  unfolding cleanupMetrics_def by (rule fold_gauge_Delete)

lemma gather_master_overlay:
  assumes "url_canonical X" and "shows_aliases X A pool"
  shows "fst (gather_master X uri m (g, pool)) = overlay (labels_of A uri (m_Name m) (m_host m) (m_RoleReported m)) (master_values m) g"
    and "shows_aliases X A (snd (gather_master X uri m (g, pool)))"
proof -
  obtain pool' where p: "GetServerAlias X (m_host m) pool = (A (m_host m), pool')" "shows_aliases X A pool'"
    using shows_aliases_get [OF assms, of "m_host m"] by (metis prod.collapse)
  show "fst (gather_master X uri m (g, pool)) = overlay (labels_of A uri (m_Name m) (m_host m) (m_RoleReported m)) (master_values m) g"
    by (subst overlay_empty [symmetric, of g "labels_of A uri (m_Name m) (m_host m) (m_RoleReported m)"])
      (simp add: gather_master_def p(1) master_values_def gauge_Set_overlay Let_def flip: labels_of_def)
  show "shows_aliases X A (snd (gather_master X uri m (g, pool)))" using p by (simp add: gather_master_def Let_def)
qed

lemma gather_slave_overlay:
  assumes "url_canonical X" and "shows_aliases X A pool"
  shows "fst (gather_slave X uri shard s (g, pool)) = cleanupMetrics (labels_of A uri shard (sl_host s) ''master'')
      (overlay (labels_of A uri shard (sl_host s) (sl_RoleReported s)) (slave_values s) g)"
    and "shows_aliases X A (snd (gather_slave X uri shard s (g, pool)))"
proof -
  obtain pool' where p: "GetServerAlias X (sl_host s) pool = (A (sl_host s), pool')" "shows_aliases X A pool'"
    using shows_aliases_get [OF assms, of "sl_host s"] by (metis prod.collapse)
  show "fst (gather_slave X uri shard s (g, pool)) = cleanupMetrics (labels_of A uri shard (sl_host s) ''master'')
      (overlay (labels_of A uri shard (sl_host s) (sl_RoleReported s)) (slave_values s) g)"
    by (subst overlay_empty [symmetric, of g "labels_of A uri shard (sl_host s) (sl_RoleReported s)"])
      (simp add: gather_slave_def p(1) slave_values_def role_str_def gauge_Set_overlay Let_def flip: labels_of_def)
  show "shows_aliases X A (snd (gather_slave X uri shard s (g, pool)))" using p by (simp add: gather_slave_def Let_def)
qed

lemma gather_slave_apply:
  assumes "url_canonical X" and "shows_aliases X A pool"
  shows "fst (gather_slave X uri shard s (g, pool)) (n, l) =
      (if l = labels_of A uri shard (sl_host s) ''master'' \<and> n \<in> set sentinel_gauges then None
       else if l = labels_of A uri shard (sl_host s) (sl_RoleReported s) \<and> slave_values s n \<noteq> None
       then slave_values s n else g (n, l))"
  unfolding gather_slave_overlay(1) [OF assms] cleanupMetrics_apply overlay_def by auto

lemma slave_values_gauge: "slave_values s n = Some v \<Longrightarrow> n \<in> set sentinel_gauges"
proof -
  have "dom (slave_values s) \<subseteq> set sentinel_gauges" by (simp add: slave_values_def sentinel_gauges_def)
  then show "slave_values s n = Some v \<Longrightarrow> n \<in> set sentinel_gauges" by blast
qed

lemma gather_slaves_spec:
  assumes "url_canonical X"
  shows "shows_aliases X A (snd gp) \<Longrightarrow>
    shows_aliases X A (snd (fold (gather_slave X uri shard) ss gp)) \<and>
    (\<forall>n l. (\<forall>s \<in> set ss. \<forall>r. l \<noteq> labels_of A uri shard (sl_host s) r) \<longrightarrow>
       fst (fold (gather_slave X uri shard) ss gp) (n, l) = fst gp (n, l)) \<and>
    (\<forall>n h. n \<in> set sentinel_gauges \<and> (h \<in> sl_host ` set ss \<or> fst gp (n, labels_of A uri shard h ''master'') = None) \<longrightarrow>
       fst (fold (gather_slave X uri shard) ss gp) (n, labels_of A uri shard h ''master'') = None) \<and>
    (distinct (map sl_host ss) \<longrightarrow> (\<forall>s \<in> set ss. \<forall>n v. sl_RoleReported s \<noteq> ''master'' \<longrightarrow> slave_values s n = Some v \<longrightarrow>
       fst (fold (gather_slave X uri shard) ss gp) (n, labels_of A uri shard (sl_host s) (sl_RoleReported s)) = Some v))"
proof (induction ss arbitrary: gp)
  case (Cons s ss)
  obtain g pool where gp: "gp = (g, pool)" by (cases gp)
  have A: "shows_aliases X A pool" using Cons.prems gp by simp
  note a = gather_slave_apply [OF assms A, of uri shard s g]
  have sh: "shows_aliases X A (snd (gather_slave X uri shard s gp))" using gather_slave_overlay(2) [OF assms A] by (simp add: gp)
  note IH = Cons.IH [OF sh]
  show ?case
  proof (intro conjI allI impI ballI, goal_cases)
    case 1
    then show ?case using IH by simp
  next
    case (2 n l)
    have "fst (fold (gather_slave X uri shard) (s # ss) gp) (n, l) = fst (gather_slave X uri shard s gp) (n, l)"
      using IH 2 by simp
    then show ?case using a [of n l] 2 by (simp add: gp)
  next
    case (3 n h)
    have "h \<in> sl_host ` set ss \<or> fst (gather_slave X uri shard s gp) (n, labels_of A uri shard h ''master'') = None"
      using a [of n "labels_of A uri shard h ''master''"] 3 by (cases "h = sl_host s") (auto simp: gp split: if_splits)
    with 3 show ?case using IH [THEN conjunct2, THEN conjunct2, THEN conjunct1, rule_format, of n h] by simp
  next
    case (4 t n v)
    show ?case
    proof (cases "t \<in> set ss")
      case True
      then show ?thesis using IH 4 by simp
    next
      case False
      then have t: "t = s" using 4 by simp
      have "fst (gather_slave X uri shard s gp) (n, labels_of A uri shard (sl_host s) (sl_RoleReported s)) = Some v"
        using a [of n "labels_of A uri shard (sl_host s) (sl_RoleReported s)"] 4 t by (simp add: gp)
      moreover have "sl_host s \<notin> sl_host ` set ss" using 4(1) by simp
      then have "\<forall>u \<in> set ss. sl_host s \<noteq> sl_host u" by (simp add: image_iff)
      ultimately show ?thesis
        using IH [THEN conjunct2, THEN conjunct1, rule_format, of "labels_of A uri shard (sl_host s) (sl_RoleReported s)" n] t by simp
    qed
  qed
qed simp

text \<open>
  The series of one shard are those of the two replies: no server that sentinel lists as a slave
  has a series with the role master, the master has none with the role slave, and the series of
  the reported roles hold the reported values.
\<close>

definition series_fresh ::
    "(string \<Rightarrow> string) \<Rightarrow> string \<Rightarrow> SentinelMasterCmdResult \<Rightarrow> SentinelSlaveCmdResult list \<Rightarrow> gauges \<Rightarrow> bool" where
  "series_fresh A uri m slaves g \<longleftrightarrow>
     (\<forall>h \<in> sl_host ` set slaves. \<forall>n \<in> set sentinel_gauges. g (n, labels_of A uri (m_Name m) h ''master'') = None) \<and>
     (distinct (map sl_host slaves) \<longrightarrow> (\<forall>s \<in> set slaves. \<forall>n v. sl_RoleReported s \<noteq> ''master'' \<longrightarrow> slave_values s n = Some v \<longrightarrow>
        g (n, labels_of A uri (m_Name m) (sl_host s) (sl_RoleReported s)) = Some v)) \<and>
     (m_host m \<notin> sl_host ` set slaves \<longrightarrow>
        (\<forall>n \<in> set sentinel_gauges. g (n, labels_of A uri (m_Name m) (m_host m) ''slave'') = None) \<and>
        (m_RoleReported m \<noteq> ''slave'' \<longrightarrow> (\<forall>n v. master_values m n = Some v \<longrightarrow>
           g (n, labels_of A uri (m_Name m) (m_host m) (m_RoleReported m)) = Some v)))"

lemma series_freshD:
  "series_fresh A uri m slaves g \<Longrightarrow> h \<in> sl_host ` set slaves \<Longrightarrow> n \<in> set sentinel_gauges \<Longrightarrow>
     g (n, labels_of A uri (m_Name m) h ''master'') = None"
  by (auto simp: series_fresh_def)

lemma series_fresh_cong:
  assumes "series_fresh A uri m slaves g"
    and "\<And>n h r. g' (n, labels_of A uri (m_Name m) h r) = g (n, labels_of A uri (m_Name m) h r)"
  shows "series_fresh A uri m slaves g'"
  using assms(1) unfolding series_fresh_def assms(2) .

definition gather_shard :: "'w lib \<Rightarrow> string \<Rightarrow> SentinelMasterCmdResult \<Rightarrow> SentinelSlaveCmdResult list
    \<Rightarrow> gauges \<times> ServerPool \<Rightarrow> gauges \<times> ServerPool" where
  "gather_shard X uri m slaves gp =
     (case gather_master X uri m gp of (g, pool) \<Rightarrow>
        fold (gather_slave X uri (m_Name m)) slaves
          (cleanupMetrics [uri, m_Name m, m_host m, fst (GetServerAlias X (m_host m) (snd gp)), role_str Slave] g, pool))"

lemma gather_shard_spec:
  assumes "url_canonical X" and "shows_aliases X A (snd gp)"
  shows "shows_aliases X A (snd (gather_shard X uri m slaves gp))"
    and "series_fresh A uri m slaves (fst (gather_shard X uri m slaves gp))"
    and "(\<forall>h r. l \<noteq> labels_of A uri (m_Name m) h r) \<Longrightarrow> fst (gather_shard X uri m slaves gp) (n, l) = fst gp (n, l)"
proof -
  obtain g pool where gp: "gp = (g, pool)" by (cases gp)
  have A: "shows_aliases X A pool" using assms(2) gp by simp
  let ?L = "labels_of A uri (m_Name m)" and ?gm = "gather_master X uri m (g, pool)"
  let ?c = "(cleanupMetrics (?L (m_host m) ''slave'') (fst ?gm), snd ?gm)"
  have al: "fst (GetServerAlias X (m_host m) pool) = A (m_host m)" using A by (simp add: shows_aliases_def)
  have sh: "gather_shard X uri m slaves gp = fold (gather_slave X uri (m_Name m)) slaves ?c"
    by (simp add: gather_shard_def gp al role_str_def labels_of_def split: prod.splits)
  have c: "fst ?c (n, l) = (if l = ?L (m_host m) ''slave'' \<and> n \<in> set sentinel_gauges then None
       else if l = ?L (m_host m) (m_RoleReported m) \<and> master_values m n \<noteq> None then master_values m n else g (n, l))" for n l
    unfolding fst_conv gather_master_overlay(1) [OF assms(1) A] cleanupMetrics_apply overlay_def by auto
  have "shows_aliases X A (snd ?c)" using gather_master_overlay(2) [OF assms(1) A] by simp
  note sp = gather_slaves_spec [OF assms(1) this, of uri "m_Name m" slaves]
  show "shows_aliases X A (snd (gather_shard X uri m slaves gp))" unfolding sh using sp by blast
  have other: "fst (gather_shard X uri m slaves gp) (n, l) = fst ?c (n, l)"
    if "\<forall>s \<in> set slaves. \<forall>r. l \<noteq> ?L (sl_host s) r" for n l
    unfolding sh using sp that by blast
  show "fst (gather_shard X uri m slaves gp) (n, l) = fst gp (n, l)" if "\<forall>h r. l \<noteq> ?L h r" for n l
    using other [of l n] c [of n l] that by (simp add: gp)
  show "series_fresh A uri m slaves (fst (gather_shard X uri m slaves gp))"
    unfolding series_fresh_def
  proof (intro conjI impI allI ballI, goal_cases)
    case (1 h n)
    then show ?case unfolding sh using sp [THEN conjunct2, THEN conjunct2, THEN conjunct1, rule_format, of n h] by simp
  next
    case (2 s n v)
    then show ?case unfolding sh using sp [THEN conjunct2, THEN conjunct2, THEN conjunct2, rule_format, of s n v] by simp
  next
    case (3 n)
    then have "fst (gather_shard X uri m slaves gp) (n, ?L (m_host m) ''slave'') = fst ?c (n, ?L (m_host m) ''slave'')"
      by (intro other) (simp add: image_iff)
    then show ?case using c [of n "?L (m_host m) ''slave''"] 3 by simp
  next
    case (4 n v)
    then have "fst (gather_shard X uri m slaves gp) (n, ?L (m_host m) (m_RoleReported m)) = fst ?c (n, ?L (m_host m) (m_RoleReported m))"
      by (intro other) (simp add: image_iff)
    then show ?case using c [of n "?L (m_host m) (m_RoleReported m)"] 4 by simp
  qed
qed

lemma gather_masters_step:
  assumes "gather_masters X uri sen (m # ms) gp w = Some ((None, gp'), w')"
  obtains slaves w1 where "SentinelSlaves X sen (m_Name m) w = Some (Inr slaves, w1)"
    "gather_masters X uri sen ms (gather_shard X uri m slaves gp) w1 = Some ((None, gp'), w')"
  using assms by (auto simp: gather_shard_def Let_def split: prod.splits sum.splits elim!: bind_SomeE)

text \<open>The replies to \<^verbatim>\<open>SENTINEL SLAVES\<close>, asked for one master after the other.\<close>

fun ask_slaves :: "'w lib \<Rightarrow> srvref \<Rightarrow> SentinelMasterCmdResult list \<Rightarrow> ('w, SentinelSlaveCmdResult list list) go" where
  "ask_slaves X sen [] w = Some ([], w)"
| "ask_slaves X sen (m # ms) w =
     do { (r, w) \<leftarrow> SentinelSlaves X sen (m_Name m) w;
          case r of
            Inl e \<Rightarrow> None
          | Inr slaves \<Rightarrow> do { (rs, w) \<leftarrow> ask_slaves X sen ms w; Some (slaves # rs, w) } }"

lemma gather_masters_fresh:
  assumes "url_canonical X" and "gather_masters X uri sen ms gp w = Some ((None, gp'), w')"
    and "shows_aliases X A (snd gp)" and "distinct (map m_Name ms)"
  shows "(\<forall>n l. (\<forall>m \<in> set ms. \<forall>h r. l \<noteq> labels_of A uri (m_Name m) h r) \<longrightarrow> fst gp' (n, l) = fst gp (n, l)) \<and>
    (\<exists>rs. ask_slaves X sen ms w = Some (rs, w') \<and> list_all2 (\<lambda>m slaves. series_fresh A uri m slaves (fst gp')) ms rs)"
  using assms(2-4)
proof (induction ms arbitrary: gp w)
  case (Cons m ms)
  from Cons.prems(1) obtain slaves w1 where s: "SentinelSlaves X sen (m_Name m) w = Some (Inr slaves, w1)"
    and r: "gather_masters X uri sen ms (gather_shard X uri m slaves gp) w1 = Some ((None, gp'), w')"
    by (rule gather_masters_step)
  note g = gather_shard_spec [OF assms(1) Cons.prems(2), where uri = uri and m = m and slaves = slaves]
  have d: "distinct (map m_Name ms)" using Cons.prems(3) by simp
  note IH = Cons.IH [OF r g(1) d]
  have "m_Name m \<notin> m_Name ` set ms" using Cons.prems(3) by simp
  then have "fst gp' (n, labels_of A uri (m_Name m) h r) = fst (gather_shard X uri m slaves gp) (n, labels_of A uri (m_Name m) h r)" for n h r
    using IH [THEN conjunct1, rule_format, of "labels_of A uri (m_Name m) h r" n] by (auto simp: image_iff)
  then have "series_fresh A uri m slaves (fst gp')" using series_fresh_cong [OF g(2)] by blast
  moreover have "fst gp' (n, l) = fst gp (n, l)" if "\<forall>m \<in> set (m # ms). \<forall>h r. l \<noteq> labels_of A uri (m_Name m) h r" for n l
    using IH [THEN conjunct1, rule_format, of l n] g(3) [where l = l and n = n] that by simp
  ultimately show ?case using s IH by (intro conjI) auto
qed simp


section \<open>Counts of slaves\<close>

lemma publish_servers_counts:
  "snd (fold (publish_server pool resource shard) srvs (g, ro, rw)) =
     (ro + int (length (filter (\<lambda>srv. rs_Role srv = Slave \<and> read_only_label srv = ''yes'') srvs)),
      rw + int (length (filter (\<lambda>srv. rs_Role srv = Slave \<and> read_only_label srv \<noteq> ''yes'') srvs)))"
proof (induction srvs arbitrary: g ro rw)
  case (Cons srv srvs)
  obtain g1 ro1 rw1 where p: "publish_server pool resource shard srv (g, ro, rw) = (g1, ro1, rw1)" by (metis prod_cases3)
  have "ro1 = ro + (if rs_Role srv = Slave \<and> read_only_label srv = ''yes'' then 1 else 0)"
    "rw1 = rw + (if rs_Role srv = Slave \<and> read_only_label srv \<noteq> ''yes'' then 1 else 0)"
    using p by (auto simp: publish_server_def Let_def split: if_splits)
  with Cons.IH [of g1 ro1 rw1] p show ?case by simp
qed simp

lemma publish_server_other:
  "n \<noteq> ''server_info'' \<Longrightarrow> fst (fold (publish_server pool resource shard) srvs (g, c)) (n, l) = g (n, l)"
proof (induction srvs arbitrary: g c)
  case (Cons srv srvs)
  obtain g1 c1 where p: "publish_server pool resource shard srv (g, c) = (g1, c1)" by (rule prod.exhaust)
  then have "g1 (n, l) = g (n, l)"
    using Cons.prems by (cases c) (auto simp: publish_server_def Let_def gauge_Set_def split: if_splits)
  with Cons.IH [OF Cons.prems, of g1 c1] p show ?case by simp
qed simp

lemma publish_shard_counts:
  "publish_shard pool resource s g (''ro_slave_count'', l) =
     (if l = [resource, sh_Name s] then Some (int (length (filter (\<lambda>srv. rs_Role srv = Slave \<and> read_only_label srv = ''yes'') (sh_Servers s))))
      else g (''ro_slave_count'', l))"
  "publish_shard pool resource s g (''rw_slave_count'', l) =
     (if l = [resource, sh_Name s] then Some (int (length (filter (\<lambda>srv. rs_Role srv = Slave \<and> read_only_label srv \<noteq> ''yes'') (sh_Servers s))))
      else g (''rw_slave_count'', l))"
proof -
  let ?f = "fold (publish_server pool resource (sh_Name s)) (sh_Servers s) (g, 0, 0)"
  have p: "publish_shard pool resource s g = gauge_Set ''rw_slave_count'' [resource, sh_Name s] (snd (snd ?f))
      (gauge_Set ''ro_slave_count'' [resource, sh_Name s] (fst (snd ?f)) (fst ?f))"
    by (simp add: publish_shard_def split: prod.splits)
  show "publish_shard pool resource s g (''ro_slave_count'', l) =
     (if l = [resource, sh_Name s] then Some (int (length (filter (\<lambda>srv. rs_Role srv = Slave \<and> read_only_label srv = ''yes'') (sh_Servers s))))
      else g (''ro_slave_count'', l))"
    "publish_shard pool resource s g (''rw_slave_count'', l) =
     (if l = [resource, sh_Name s] then Some (int (length (filter (\<lambda>srv. rs_Role srv = Slave \<and> read_only_label srv \<noteq> ''yes'') (sh_Servers s))))
      else g (''rw_slave_count'', l))"
    unfolding p gauge_Set_def by (simp_all add: publish_servers_counts publish_server_other)
qed

text \<open>
  The published counts are those of the lists that the controllers use: the read-only count is
  the number of slaves a backup may use, and, once the setting of every slave is known, the
  read-write count is the number of slaves that twemproxy may write to.
\<close>

lemma publish_shards_counts:
  assumes "distinct (map sh_Name shards)" and "s \<in> set shards"
  shows "fold (publish_shard pool resource) shards g (''ro_slave_count'', [resource, sh_Name s]) = Some (int (length (GetSlavesRO s)))"
    and "(\<forall>srv \<in> set (sh_Servers s). rs_Role srv = Slave \<longrightarrow> rs_Config srv ''slave-read-only'' \<in> {Some ''yes'', Some ''no''}) \<Longrightarrow>
      fold (publish_shard pool resource) shards g (''rw_slave_count'', [resource, sh_Name s]) = Some (int (length (GetSlavesRW s)))"
proof -
  have keep: "fold (publish_shard pool resource) xs g (n, [resource, sh_Name s]) = g (n, [resource, sh_Name s])"
    if "sh_Name s \<notin> sh_Name ` set xs" "n = ''ro_slave_count'' \<or> n = ''rw_slave_count''" for xs g n
    using that by (induction xs arbitrary: g) (auto simp: publish_shard_counts)
  obtain xs ys where sp: "shards = xs @ s # ys" using assms(2) by (meson split_list)
  then have ys: "sh_Name s \<notin> sh_Name ` set ys" using assms(1) by auto
  let ?g = "fold (publish_shard pool resource) xs g"
  have "filter (\<lambda>srv. rs_Role srv = Slave \<and> read_only_label srv = ''yes'') (sh_Servers s) =
      filter (\<lambda>srv. rs_Role srv = Slave \<and> rs_Config srv ''slave-read-only'' = Some ''yes'') (sh_Servers s)"
    by (intro filter_cong) (auto simp: read_only_label_def split: option.splits)
  then show "fold (publish_shard pool resource) shards g (''ro_slave_count'', [resource, sh_Name s]) = Some (int (length (GetSlavesRO s)))"
    using keep [OF ys, of "''ro_slave_count''" "publish_shard pool resource s ?g"]
    by (simp add: sp publish_shard_counts GetSlavesRO_def)
  assume "\<forall>srv \<in> set (sh_Servers s). rs_Role srv = Slave \<longrightarrow> rs_Config srv ''slave-read-only'' \<in> {Some ''yes'', Some ''no''}"
  then have "filter (\<lambda>srv. rs_Role srv = Slave \<and> read_only_label srv \<noteq> ''yes'') (sh_Servers s) =
      filter (\<lambda>srv. rs_Role srv = Slave \<and> rs_Config srv ''slave-read-only'' = Some ''no'') (sh_Servers s)"
    by (intro filter_cong) (auto simp: read_only_label_def split: option.splits)
  then show "fold (publish_shard pool resource) shards g (''rw_slave_count'', [resource, sh_Name s]) = Some (int (length (GetSlavesRW s)))"
    using keep [OF ys, of "''rw_slave_count''" "publish_shard pool resource s ?g"]
    by (simp add: sp publish_shard_counts GetSlavesRW_def)
qed

section \<open>Witnesses\<close>

definition ex_smg :: SentinelMetricsGatherer where
  "ex_smg = \<lparr>smg_refreshInterval = 30000000000, smg_sentinelURI = ''redis://10.0.0.9:26379'', smg_sentinel = ex_sentinel,
     smg_started = True, smg_cancel = Some False, smg_goroutine = Listening\<rparr>"

definition ex_metrics_world :: fake_world where
  "ex_metrics_world = (\<lambda>_. [])(''10.0.0.9:26379'' :=
     [ex_reply (ASlice [ASlice [AStr ''name'', AStr ''shard01'', AStr ''ip'', AStr ''10.0.0.1'', AStr ''port'', AStr ''6379'',
        AStr ''role-reported'', AStr ''master'']]),
      ex_reply (ASlice [ASlice [AStr ''name'', AStr ''10.0.0.2:6379'', AStr ''ip'', AStr ''10.0.0.2'', AStr ''port'', AStr ''6379'',
        AStr ''role-reported'', AStr ''slave'']])])"

text \<open>The gauges before: the server that is a slave now was the master.\<close>

definition ex_stale :: "string \<times> string list" where
  "ex_stale = (''link_pending_commands'', [''redis://10.0.0.9:26379'', ''shard01'', ''10.0.0.2:6379'', '''', ''master''])"

lemma ex_gather:
  "map_option (\<lambda>((e, g, p), w). e) (gatherMetrics fake_lib ex_smg ([ex_stale \<mapsto> 3], []) ex_metrics_world) = Some None"
  "map_option (\<lambda>(r, w). map_sum id (\<lambda>ms. (map m_Name ms, map_option (\<lambda>(rs, w). map (map (\<lambda>s. (sl_host s, sl_RoleReported s))) rs)
       (ask_slaves fake_lib ex_sentinel ms w))) r) (SentinelMasters fake_lib ex_sentinel ex_metrics_world)
     = Some (Inr ([''shard01''], Some [[(''10.0.0.2:6379'', ''slave'')]]))"
  "fst (GetServerAlias fake_lib ''10.0.0.2:6379'' []) = ''''"
  by code_simp+


end
