(* ===== verification/Twemproxy.thy ===== *)
theory Twemproxy
  imports CommonTypes Events
begin

text \<open>
  The twemproxy configuration: the types of \<^verbatim>\<open>api/v1alpha1/twemproxyconfig_types.go\<close>, the
  server pools of \<^verbatim>\<open>internal/pkg/resource_builders/twemproxy/config.go\<close>, and the generator of
  \<^verbatim>\<open>internal/pkg/generators/twemproxyconfig\<close> (\<^verbatim>\<open>generator.go\<close>, \<^verbatim>\<open>configmap.go\<close>),
  which discovers the servers through sentinel and decides which of them every shard points to.

  Parameters: \<open>U\<close> parses a URL (\<^verbatim>\<open>url.Parse\<close>) into its host name and its text; \<open>iter\<close> is the
  order in which Go iterates over the map of sentinels; \<open>sl\<close> is what listing the Sentinel
  resources of the namespace returns, as the sentinel addresses in the status of each.
\<close>

section \<open>Specification\<close>

type_synonym TargetRedisServers = string

definition Masters :: TargetRedisServers where "Masters = ''masters''"
definition SlavesRW :: TargetRedisServers where "SlavesRW = ''slaves-rw''"

record ShardedRedisTopology =
  srt_ShardName :: string
  srt_PhysicalShard :: string

record TwemproxyServerPool =
  tsp_Name :: string
  tsp_Topology :: "ShardedRedisTopology list"
  tsp_BindAddress :: string
  tsp_Timeout :: int
  tsp_TCPBacklog :: int
  tsp_PreConnect :: bool
  tsp_Target :: "TargetRedisServers option"

definition TwemproxyServerPool_Default :: "TwemproxyServerPool \<Rightarrow> TwemproxyServerPool" where
  "TwemproxyServerPool_Default p =
     (if tsp_Target p = None then p\<lparr>tsp_Target := Some Masters\<rparr> else p)"

text \<open>A nil list of sentinels asks for autodiscovery, an empty one does not.\<close>

record TwemproxyConfigSpec =
  tcs_SentinelURIs :: "string list option"
  tcs_ServerPools :: "TwemproxyServerPool list"
  tcs_ReconcileServerPools :: "bool option"
  tcs_GrafanaDashboard :: "GrafanaDashboardSpec option"

definition twemproxyDefaultGrafanaDashboard :: GrafanaDashboardSpec where
  "twemproxyDefaultGrafanaDashboard =
     \<lparr>gd_SelectorKey = Some ''monitoring-key'', gd_SelectorValue = Some ''middleware''\<rparr>"

definition TwemproxyConfigSpec_Default :: "TwemproxyConfigSpec \<Rightarrow> TwemproxyConfigSpec" where
  "TwemproxyConfigSpec_Default spec =
     spec\<lparr>tcs_ServerPools := map TwemproxyServerPool_Default (tcs_ServerPools spec),
          tcs_ReconcileServerPools :=
            (if tcs_ReconcileServerPools spec = None then Some True else tcs_ReconcileServerPools spec),
          tcs_GrafanaDashboard :=
            Some (InitializeGrafanaDashboardSpec (tcs_GrafanaDashboard spec) twemproxyDefaultGrafanaDashboard)\<rparr>"

record TargetServer =
  ts_ServerAlias :: "string option"
  ts_ServerAddress :: string

record TwemproxyConfig =
  tc_name :: string
  tc_namespace :: string
  tc_Spec :: TwemproxyConfigSpec
  tc_Targets :: "(string \<rightharpoonup> TargetServer) option"

section \<open>Server pools\<close>

record twemproxy_Server =
  tw_alias :: string
  tw_Address :: string
  tw_Priority :: int
  tw_Name :: string

definition no_target :: twemproxy_Server where
  "no_target = \<lparr>tw_alias = '''', tw_Address = '''', tw_Priority = 0, tw_Name = ''''\<rparr>"

definition twemproxy_NewServer :: "string \<Rightarrow> string \<Rightarrow> twemproxy_Server" where
  "twemproxy_NewServer hostport als =
     \<lparr>tw_alias = als, tw_Address = hostport, tw_Priority = 1, tw_Name = ''''\<rparr>"

definition MarshalJSON :: "twemproxy_Server \<Rightarrow> string" where
  "MarshalJSON srv =
     [CHR 0x22] @ tw_Address srv @ '':'' @ itoa (tw_Priority srv) @ '' '' @ tw_Name srv @ [CHR 0x22]"

text \<open>\<^verbatim>\<open>strings.Trim(s, "\"")\<close>.\<close>

definition trim_quotes :: "string \<Rightarrow> string" where
  "trim_quotes s =
     (let t = dropWhile (\<lambda>c. c = CHR 0x22) s in rev (dropWhile (\<lambda>c. c = CHR 0x22) (rev t)))"

text \<open>
  \<^verbatim>\<open>UnmarshalJSON\<close> updates the server it is called on. Data without a space panics, because
  the second part of the split is read without a check; the name is already written when the
  priority turns out to be malformed.
\<close>

definition UnmarshalJSON :: "string \<Rightarrow> twemproxy_Server \<Rightarrow> (error option \<times> twemproxy_Server) option" where
  "UnmarshalJSON data srv =
     do { let parts = split_on (CHR '' '') (trim_quotes data);
          name \<leftarrow> at parts 1;
          let srv = srv\<lparr>tw_Name := name\<rparr>;
          let parts = split_on (CHR '':'') (parts ! 0);
          case Atoi (last parts) of
            Inl e \<Rightarrow> Some (Some e, srv)
          | Inr p \<Rightarrow> Some (None, srv\<lparr>tw_Priority := p, tw_Address := join '':'' (butlast parts)\<rparr>) }"

definition twemproxy_Alias :: "twemproxy_Server \<Rightarrow> string" where
  "twemproxy_Alias srv = (if tw_alias srv \<noteq> '''' then tw_alias srv else tw_Address srv)"

record ServerPoolConfig =
  spc_Listen :: string
  spc_Hash :: string
  spc_HashTag :: string
  spc_Distribution :: string
  spc_Timeout :: int
  spc_Backlog :: int
  spc_PreConnect :: bool
  spc_Redis :: bool
  spc_AutoEjectHosts :: bool
  spc_ServerFailureLimit :: int
  spc_Servers :: "twemproxy_Server list"

text \<open>A physical shard without target reads the zero server out of the map.\<close>

definition target_of :: "(string \<rightharpoonup> twemproxy_Server) \<Rightarrow> string \<Rightarrow> twemproxy_Server" where
  "target_of targets shard = (case targets shard of None \<Rightarrow> no_target | Some srv \<Rightarrow> srv)"

definition GenerateServerPool :: "TwemproxyServerPool \<Rightarrow> (string \<rightharpoonup> twemproxy_Server) \<Rightarrow> ServerPoolConfig" where
  "GenerateServerPool p targets =
     \<lparr>spc_Listen = tsp_BindAddress p, spc_Hash = ''fnv1a_64'', spc_HashTag = ''{}'',
      spc_Distribution = ''ketama'', spc_Timeout = tsp_Timeout p, spc_Backlog = tsp_TCPBacklog p,
      spc_PreConnect = tsp_PreConnect p, spc_Redis = True, spc_AutoEjectHosts = False,
      spc_ServerFailureLimit = 0,
      spc_Servers = map (\<lambda>s. (target_of targets (srt_PhysicalShard s))\<lparr>tw_Name := srt_ShardName s\<rparr>)
        (tsp_Topology p)\<rparr>"

section \<open>The generator\<close>

record Generator =
  gen_Component :: string
  gen_InstanceName :: string
  gen_Namespace :: string
  gen_Labels :: "string \<rightharpoonup> string"
  gen_Spec :: TwemproxyConfigSpec
  gen_masterTargets :: "string \<rightharpoonup> twemproxy_Server"
  gen_slaverwTargets :: "string \<rightharpoonup> twemproxy_Server"

text \<open>The gauge \<^verbatim>\<open>slave_rw_configured\<close>, by configuration and shard.\<close>

type_synonym rw_gauge = "(string \<times> string) \<rightharpoonup> int"

definition discoverSentinels :: "error + string list list \<Rightarrow> error + string list" where
  "discoverSentinels sl =
     (case sl of
        Inl e \<Rightarrow> Inl e
      | Inr items \<Rightarrow>
          if length items \<noteq> 1
          then Inl (ErrorString (''unexpected number ('' @ itoa (int (length items))
                 @ '') of Sentinel resources in namespace''))
          else Inr (map (\<lambda>address. ''redis://'' @ address) (items ! 0)))"

fun sentinel_map ::
    "(string \<Rightarrow> error + string \<times> string) \<Rightarrow> string list \<Rightarrow> (string, string) gomap
       \<Rightarrow> error + (string, string) gomap" where
  "sentinel_map U [] m = Inr m"
| "sentinel_map U (uri # uris) m =
     (case U uri of
        Inl e \<Rightarrow> Inl e
      | Inr (hostname, text) \<Rightarrow>
          sentinel_map U uris (AList.update (hd (split_on (CHR ''.'') hostname)) text m))"

text \<open>Whether some pool targets read-write slaves; a nil target panics.\<close>

fun discoverSlavesRW :: "TwemproxyServerPool list \<Rightarrow> bool option" where
  "discoverSlavesRW [] = Some False"
| "discoverSlavesRW (p # ps) =
     do { t \<leftarrow> tsp_Target p; b \<leftarrow> discoverSlavesRW ps; Some (t = SlavesRW \<or> b) }"

fun getMonitoredMasters ::
    "ServerPool \<Rightarrow> Shard list \<Rightarrow> (string \<rightharpoonup> twemproxy_Server) \<Rightarrow> error + (string \<rightharpoonup> twemproxy_Server)" where
  "getMonitoredMasters pool [] m = Inr m"
| "getMonitoredMasters pool (shard # shards) m =
     (case GetMaster shard of
        Inl e \<Rightarrow> Inl e
      | Inr master \<Rightarrow>
          getMonitoredMasters pool shards
            (m(sh_Name shard \<mapsto> twemproxy_NewServer (rs_ID master) (alias_of pool (rs_ref master)))))"

fun getMonitoredReadWriteSlavesWithFallbackToMasters ::
    "ServerPool \<Rightarrow> string \<Rightarrow> Shard list \<Rightarrow> (string \<rightharpoonup> twemproxy_Server) \<Rightarrow> rw_gauge
       \<Rightarrow> (error + (string \<rightharpoonup> twemproxy_Server)) \<times> rw_gauge" where
  "getMonitoredReadWriteSlavesWithFallbackToMasters pool cfg [] m g = (Inr m, g)"
| "getMonitoredReadWriteSlavesWithFallbackToMasters pool cfg (shard # shards) m g =
     (case GetSlavesRW shard of
        slave # _ \<Rightarrow>
          getMonitoredReadWriteSlavesWithFallbackToMasters pool cfg shards
            (m(sh_Name shard \<mapsto> twemproxy_NewServer (rs_ID slave) (alias_of pool (rs_ref slave))))
            (g((cfg, sh_Name shard) \<mapsto> 1))
      | [] \<Rightarrow>
          (case GetMaster shard of
             Inl e \<Rightarrow> (Inl e, g)
           | Inr master \<Rightarrow>
               getMonitoredReadWriteSlavesWithFallbackToMasters pool cfg shards
                 (m(sh_Name shard \<mapsto> twemproxy_NewServer (rs_ID master) (alias_of pool (rs_ref master))))
                 (g((cfg, sh_Name shard) \<mapsto> 0))))"

text \<open>The errors that end a generation in which slaves are discovered.\<close>

fun is_sentinel_failure :: "error \<Rightarrow> bool" where
  "is_sentinel_failure (DiscoveryError_Sentinel_Failure e) = True"
| "is_sentinel_failure _ = False"

fun is_master_failure :: "error \<Rightarrow> bool" where
  "is_master_failure (DiscoveryError_Master_SingleServerFailure e) = True"
| "is_master_failure _ = False"

definition fatal_discovery_error :: "error \<Rightarrow> bool" where
  "fatal_discovery_error e \<longleftrightarrow> errors_As is_sentinel_failure e \<or> errors_As is_master_failure e"

text \<open>The discovery and the choice of targets, once the cluster of sentinels is built.\<close>

definition generate_masters ::
    "'w lib \<Rightarrow> nat list \<Rightarrow> Generator \<Rightarrow> Cluster \<Rightarrow> ServerPool \<Rightarrow> rw_gauge
       \<Rightarrow> ('w, (error + Generator) \<times> ServerPool \<times> rw_gauge) go" where
  "generate_masters X arrival gen cluster pool g w =
     do { ((e, cluster, pool), w) \<leftarrow> SentinelDiscover X arrival [OnlyMasterDiscoveryOpt] cluster pool w;
          case e of
            Some e \<Rightarrow> Some ((Inl e, pool, g), w)
          | None \<Rightarrow>
              (case getMonitoredMasters pool (cl_Shards cluster) Map.empty of
                 Inl e \<Rightarrow> Some ((Inl e, pool, g), w)
               | Inr m \<Rightarrow> Some ((Inr (gen\<lparr>gen_masterTargets := m\<rparr>), pool, g), w)) }"

definition generate_slaves ::
    "'w lib \<Rightarrow> nat list \<Rightarrow> Generator \<Rightarrow> Cluster \<Rightarrow> ServerPool \<Rightarrow> rw_gauge
       \<Rightarrow> ('w, (error + Generator) \<times> ServerPool \<times> rw_gauge) go" where
  "generate_slaves X arrival gen cluster pool g w =
     do { ((e, cluster, pool), w) \<leftarrow> SentinelDiscover X arrival [SlaveReadOnlyDiscoveryOpt] cluster pool w;
          if (case e of None \<Rightarrow> False | Some e \<Rightarrow> fatal_discovery_error e)
          then Some ((Inl (the e), pool, g), w)
          else
            (case getMonitoredMasters pool (cl_Shards cluster) Map.empty of
               Inl e \<Rightarrow> Some ((Inl e, pool, g), w)
             | Inr m \<Rightarrow>
                 (case getMonitoredReadWriteSlavesWithFallbackToMasters pool (gen_InstanceName gen)
                         (cl_Shards cluster) Map.empty g of
                    (Inl e, g) \<Rightarrow> Some ((Inl e, pool, g), w)
                  | (Inr sm, g) \<Rightarrow>
                      Some ((Inr (gen\<lparr>gen_masterTargets := m, gen_slaverwTargets := sm\<rparr>), pool, g), w))) }"

definition base_generator :: "TwemproxyConfig \<Rightarrow> Generator" where
  "base_generator inst =
     \<lparr>gen_Component = ''twemproxy'', gen_InstanceName = tc_name inst, gen_Namespace = tc_namespace inst,
      gen_Labels = [''app'' \<mapsto> ''twemproxy'', ''part-of'' \<mapsto> ''3scale-saas''], gen_Spec = tc_Spec inst,
      gen_masterTargets = Map.empty, gen_slaverwTargets = Map.empty\<rparr>"

definition NewGenerator ::
    "'w lib \<Rightarrow> (string \<Rightarrow> error + string \<times> string) \<Rightarrow> error + string list list
       \<Rightarrow> ((string, string) gomap \<Rightarrow> (string, string) gomap) \<Rightarrow> nat list \<Rightarrow> TwemproxyConfig \<Rightarrow> ServerPool \<Rightarrow> rw_gauge
       \<Rightarrow> ('w, (error + Generator) \<times> ServerPool \<times> rw_gauge) go" where
  "NewGenerator X U sl iter arrival inst pool g w =
     (let gen = base_generator inst
      in case (case tcs_SentinelURIs (gen_Spec gen) of None \<Rightarrow> discoverSentinels sl | Some uris \<Rightarrow> Inr uris) of
           Inl e \<Rightarrow> Some ((Inl e, pool, g), w)
         | Inr uris \<Rightarrow>
             let gen = gen\<lparr>gen_Spec := (gen_Spec gen)\<lparr>tcs_SentinelURIs := Some uris\<rparr>\<rparr>
             in case sentinel_map U uris [] of
                  Inl e \<Rightarrow> Some ((Inl e, pool, g), w)
                | Inr sentinels \<Rightarrow>
                    (case NewShardedClusterFromTopology X [(''sentinel'', iter sentinels)] pool of
                       (Inl e, pool) \<Rightarrow> Some ((Inl e, pool, g), w)
                     | (Inr cluster, pool) \<Rightarrow>
                         do { rw \<leftarrow> discoverSlavesRW (tcs_ServerPools (gen_Spec gen));
                              if rw then generate_slaves X arrival gen cluster pool g w
                              else generate_masters X arrival gen cluster pool g w }))"

definition GetTargets :: "string \<Rightarrow> Generator \<Rightarrow> (string \<rightharpoonup> twemproxy_Server) option" where
  "GetTargets poolName gen =
     (case List.find (\<lambda>p. tsp_Name p = poolName) (tcs_ServerPools (gen_Spec gen)) of
        None \<Rightarrow> Some Map.empty
      | Some p \<Rightarrow>
          do { t \<leftarrow> tsp_Target p;
               Some (if t = Masters then gen_masterTargets gen else gen_slaverwTargets gen) })"

section \<open>The ConfigMap\<close>

definition HealthPoolName :: string where "HealthPoolName = ''health''"
definition HealthBindAddress :: string where "HealthBindAddress = ''127.0.0.1:22333''"

definition health_pool :: ServerPoolConfig where
  "health_pool =
     \<lparr>spc_Listen = HealthBindAddress, spc_Hash = '''', spc_HashTag = '''', spc_Distribution = '''',
      spc_Timeout = 0, spc_Backlog = 0, spc_PreConnect = False, spc_Redis = True, spc_AutoEjectHosts = False,
      spc_ServerFailureLimit = 0,
      spc_Servers = [\<lparr>tw_alias = '''', tw_Address = ''127.0.0.1:6379'', tw_Priority = 1, tw_Name = ''dummy''\<rparr>]\<rparr>"

fun config_pools ::
    "Generator \<Rightarrow> TwemproxyServerPool list \<Rightarrow> (string \<rightharpoonup> ServerPoolConfig) \<Rightarrow> (string \<rightharpoonup> ServerPoolConfig) option" where
  "config_pools gen [] config = Some config"
| "config_pools gen (p # ps) config =
     do { t \<leftarrow> tsp_Target p;
          config_pools gen ps
            (config(tsp_Name p \<mapsto>
               GenerateServerPool p (if t = Masters then gen_masterTargets gen else gen_slaverwTargets gen))) }"

definition twemproxy_config :: "Generator \<Rightarrow> (string \<rightharpoonup> ServerPoolConfig) option" where
  "twemproxy_config gen =
     map_option (\<lambda>config. config(HealthPoolName \<mapsto> health_pool))
       (config_pools gen (tcs_ServerPools (gen_Spec gen)) Map.empty)"

record ConfigMap =
  cm_Name :: string
  cm_Namespace :: string
  cm_Labels :: "string \<rightharpoonup> string"
  cm_Data :: "string \<rightharpoonup> string"

text \<open>\<open>marshal\<close> is \<^verbatim>\<open>yaml.Marshal\<close> or \<^verbatim>\<open>json.Marshal\<close>; its error panics.\<close>

definition configMap ::
    "((string \<rightharpoonup> ServerPoolConfig) \<Rightarrow> error + string) \<Rightarrow> Generator \<Rightarrow> ConfigMap option" where
  "configMap marshal gen =
     do { config \<leftarrow> twemproxy_config gen;
          case marshal config of
            Inl e \<Rightarrow> None
          | Inr b \<Rightarrow>
              Some \<lparr>cm_Name = gen_InstanceName gen, cm_Namespace = gen_Namespace gen,
                    cm_Labels = gen_Labels gen, cm_Data = [''nutcracker.yml'' \<mapsto> b]\<rparr> }"

section \<open>The text of a server\<close>

lemma digit_val_digit: "d < 10 \<Longrightarrow> digit_val (digit d) = Some d"
proof -
  have "\<forall>d \<in> set [0..<10]. digit_val (digit d) = Some d"
    by (simp add: digit_def digit_val_def upt_rec)
  then show "d < 10 \<Longrightarrow> digit_val (digit d) = Some d" by simp
qed

lemma atoi_nat_append:
  "atoi_nat (xs @ ys) acc = Option.bind (atoi_nat xs acc) (atoi_nat ys)"
  by (induction xs arbitrary: acc) (auto split: Option.bind_splits)

lemma atoi_nat_nat_str: "atoi_nat (nat_str n) 0 = Some n"
proof (induction n rule: nat_str.induct)
  case (1 n)
  show ?case
  proof (cases "n < 10")
    case True
    then show ?thesis by (subst nat_str.simps) (simp add: digit_val_digit)
  next
    case False
    then have "atoi_nat (nat_str (n div 10)) 0 = Some (n div 10)" using "1.IH" by simp
    with False show ?thesis
      by (subst nat_str.simps) (simp add: atoi_nat_append digit_val_digit)
  qed
qed

lemma nat_str_head: "hd (nat_str n) \<in> set ''0123456789''"
  using set_nat_str [of n] hd_in_set [OF length_nat_str_pos, of n] by blast

lemma Atoi_itoa:
  assumes "- (2 ^ 63) \<le> i" and "i < 2 ^ 63"
  shows "Atoi (itoa i) = Inr i"
proof (cases "i < 0")
  case True
  with assms show ?thesis by (simp add: Atoi_def itoa_def Let_def atoi_nat_nat_str)
next
  case False
  obtain c cs where n: "nat_str (nat i) = c # cs" by (cases "nat_str (nat i)") auto
  then have "c \<in> set ''0123456789''" using nat_str_head [of "nat i"] by simp
  then have "c \<noteq> CHR ''-''" "c \<noteq> CHR ''+''" by auto
  moreover have "atoi_nat (c # cs) 0 = Some (nat i)" using atoi_nat_nat_str [of "nat i"] n by simp
  ultimately show ?thesis using False assms n by (simp add: Atoi_def itoa_def Let_def)
qed

lemma set_itoa: "set (itoa i) \<subseteq> set ''-0123456789''"
proof -
  have sub: "set ''0123456789'' \<subseteq> set ''-0123456789''" by (simp add: subset_iff)
  show ?thesis
  proof (cases "i < 0")
    case True
    then have "set (itoa i) = insert (CHR ''-'') (set (nat_str (nat (- i))))" by (simp add: itoa_def)
    also have "\<dots> \<subseteq> set ''-0123456789''" using subset_trans [OF set_nat_str sub] by (intro insert_subsetI) simp_all
    finally show ?thesis .
  next
    case False
    then have "set (itoa i) = set (nat_str (nat i))" by (simp add: itoa_def)
    also have "\<dots> \<subseteq> set ''-0123456789''" by (rule subset_trans [OF set_nat_str sub])
    finally show ?thesis .
  qed
qed

lemma split_on_snoc: "c \<notin> set b \<Longrightarrow> split_on c (a @ c # b) = split_on c a @ [b]"
  by (induction a) (auto simp: split_on_notin split: list.splits)

lemma trim_quotes_id:
  assumes "s \<noteq> []" and "hd s \<noteq> CHR 0x22" and "last s \<noteq> CHR 0x22"
  shows "trim_quotes ([CHR 0x22] @ s @ [CHR 0x22]) = s"
proof -
  have d: "dropWhile (\<lambda>c. c = CHR 0x22) (s @ t) = s @ t" for t using assms by (cases s) auto
  have "dropWhile (\<lambda>c. c = CHR 0x22) (rev s) = rev s"
    using assms by (cases s rule: rev_cases) auto
  with d show ?thesis by (simp add: trim_quotes_def)
qed

text \<open>
  The text form of a server reads back: decoding the JSON that encodes a server gives its
  address (whatever colons it has), priority and name, and leaves the alias, which is not
  encoded, as it was. The address may not contain a space nor begin with a double quote, and
  the name may contain no space and not end with a double quote.
\<close>

lemma MarshalJSON_roundtrip:
  assumes "CHR '' '' \<notin> set (tw_Address srv)" and "tw_Address srv = '''' \<or> hd (tw_Address srv) \<noteq> CHR 0x22"
    and "CHR '' '' \<notin> set (tw_Name srv)" and "tw_Name srv = '''' \<or> last (tw_Name srv) \<noteq> CHR 0x22"
    and "- (2 ^ 63) \<le> tw_Priority srv" and "tw_Priority srv < 2 ^ 63"
  shows "UnmarshalJSON (MarshalJSON srv) s0 = Some (None, srv\<lparr>tw_alias := tw_alias s0\<rparr>)"
proof -
  let ?a = "tw_Address srv" and ?p = "itoa (tw_Priority srv)" and ?n = "tw_Name srv"
  have sp: "CHR '' '' \<notin> set ?p" and co: "CHR '':'' \<notin> set ?p" using set_itoa [of "tw_Priority srv"] by auto
  let ?body = "(?a @ '':'' @ ?p) @ CHR '' '' # ?n"
  have m: "MarshalJSON srv = [CHR 0x22] @ ?body @ [CHR 0x22]" by (simp add: MarshalJSON_def)
  have t: "trim_quotes (MarshalJSON srv) = ?body"
    unfolding m using assms(2,4) by (intro trim_quotes_id) (auto simp: hd_append)
  have nosp: "CHR '' '' \<notin> set (?a @ '':'' @ ?p)" using assms(1) sp by simp
  have parts: "split_on (CHR '' '') ?body = [?a @ '':'' @ ?p, ?n]"
    by (simp only: split_on_append [OF nosp] split_on_notin [OF assms(3)])
  have colon: "split_on (CHR '':'') (?a @ '':'' @ ?p) = split_on (CHR '':'') ?a @ [?p]"
    using split_on_snoc [OF co, of ?a] by simp
  show ?thesis
    unfolding UnmarshalJSON_def t parts
    using assms(5,6) colon by (simp add: Let_def Atoi_itoa join_split_on)
qed

section \<open>The targets\<close>

lemma discoverSlavesRW_targets: "discoverSlavesRW ps = Some b \<Longrightarrow> \<forall>p \<in> set ps. tsp_Target p \<noteq> None"
  by (induction ps arbitrary: b) (auto elim!: bind_SomeE)

text \<open>Every shard that discovery adds is the result of the discovery of that shard alone.\<close>

definition shard_result ::
    "'w lib \<Rightarrow> srvref \<Rightarrow> DiscoveryOption list \<Rightarrow> error list \<Rightarrow> Shard \<Rightarrow> bool" where
  "shard_result X sen opts errs s \<longleftrightarrow> (\<exists>e p v p' v'.
       Shard_Discover X (Some sen) opts (NewShardFromServers (sh_Name s) []) p v = Some ((e, s, p'), v') \<and>
       (\<forall>es. e = Some (MultiError es) \<longrightarrow> ShardDiscoveryError (sh_Name s) es \<in> set errs))"

lemma shard_result_mono: "shard_result X sen opts errs s \<Longrightarrow> set errs \<subseteq> set errs' \<Longrightarrow> shard_result X sen opts errs' s"
  unfolding shard_result_def by blast

lemma shard_result_no_error:
  assumes "shard_result X sen opts errs s" and "\<forall>es. ShardDiscoveryError (sh_Name s) es \<notin> set errs"
  obtains p v p' v' where
    "Shard_Discover X (Some sen) opts (NewShardFromServers (sh_Name s) []) p v = Some ((None, s, p'), v')"
proof -
  obtain e p v p' v' where
    d: "Shard_Discover X (Some sen) opts (NewShardFromServers (sh_Name s) []) p v = Some ((e, s, p'), v')"
    and e: "\<forall>es. e = Some (MultiError es) \<longrightarrow> ShardDiscoveryError (sh_Name s) es \<in> set errs"
    using assms(1) unfolding shard_result_def by blast
  show thesis
  proof (cases e)
    case None
    with d show thesis by (auto intro: that)
  next
    case (Some x)
    with Shard_Discover_error_type [OF d [unfolded Some]] e assms(2) show thesis by auto
  qed
qed

lemma sentinel_discover_loop_each:
  assumes "distinct (map m_Name masters)" and "\<forall>m \<in> set masters. m_Name m \<notin> sh_Name ` set (cl_Shards c)"
    and "sentinel_discover_loop X sen opts masters c pool w = Some ((errs, c', pool'), w')"
  shows "\<exists>new. cl_Shards c' = cl_Shards c @ new \<and> map sh_Name new = map m_Name masters \<and>
    (\<forall>s \<in> set new. shard_result X sen opts errs s)"
  using assms
proof (induction masters arbitrary: c pool w errs)
  case Nil
  then show ?case by simp
next
  case (Cons m masters)
  let ?n = "m_Name m"
  have f: "shard_for ?n c = (length (cl_Shards c), c\<lparr>cl_Shards := cl_Shards c @ [NewShardFromServers ?n []]\<rparr>)"
    using Cons.prems(2) by (intro shard_for_fresh) simp
  obtain e s p1 w1 e1 errs2 where
    d: "Shard_Discover X (Some sen) opts (NewShardFromServers ?n []) pool w = Some ((e, s, p1), w1)" and
    e1: "(case e of None \<Rightarrow> Some [] | Some (MultiError es) \<Rightarrow> Some [ShardDiscoveryError ?n es]
          | Some _ \<Rightarrow> None) = Some e1" and
    l: "sentinel_discover_loop X sen opts masters (c\<lparr>cl_Shards := cl_Shards c @ [s]\<rparr>) p1 w1
         = Some ((errs2, c', pool'), w')" and
    errs: "errs = e1 @ errs2"
    using Cons.prems(3) by (auto simp: f elim!: bind_SomeE)
  have n: "sh_Name s = ?n" using Shard_Discover_name [OF d] by (simp add: NewShardFromServers_def)
  have "\<forall>m' \<in> set masters. m_Name m' \<notin> sh_Name ` set (cl_Shards (c\<lparr>cl_Shards := cl_Shards c @ [s]\<rparr>))"
    using Cons.prems(1,2) n by (auto simp: image_iff)
  then obtain new where new: "cl_Shards c' = cl_Shards c @ s # new" "map sh_Name new = map m_Name masters"
    "\<forall>s \<in> set new. shard_result X sen opts errs2 s"
    using Cons.IH [OF _ _ l] Cons.prems(1) by auto
  have "\<forall>es. e = Some (MultiError es) \<longrightarrow> ShardDiscoveryError (sh_Name s) es \<in> set errs"
    using e1 n unfolding errs by auto
  moreover have "Shard_Discover X (Some sen) opts (NewShardFromServers (sh_Name s) []) pool w = Some ((e, s, p1), w1)"
    using d by (simp only: n)
  ultimately have "shard_result X sen opts errs s" unfolding shard_result_def by blast
  moreover have "\<forall>t \<in> set new. shard_result X sen opts errs t"
    using new(3) shard_result_mono [of X sen opts errs2 _ errs] by (simp add: errs)
  ultimately show ?case using new(1,2) n by (intro exI [of _ "s # new"]) simp
qed

lemma getMonitoredMasters_eq:
  assumes "getMonitoredMasters pool shards m = Inr m'" and "distinct (map sh_Name shards)"
  shows "dom m' = dom m \<union> sh_Name ` set shards \<and>
    (\<forall>s \<in> set shards. \<exists>ms. GetMaster s = Inr ms \<and>
       m' (sh_Name s) = Some (twemproxy_NewServer (rs_ID ms) (alias_of pool (rs_ref ms)))) \<and>
    (\<forall>k. k \<notin> sh_Name ` set shards \<longrightarrow> m' k = m k)"
  using assms
proof (induction shards arbitrary: m)
  case Nil
  then show ?case by simp
next
  case (Cons s shards)
  obtain ms where ms: "GetMaster s = Inr ms"
    and r: "getMonitoredMasters pool shards
        (m(sh_Name s \<mapsto> twemproxy_NewServer (rs_ID ms) (alias_of pool (rs_ref ms)))) = Inr m'"
    using Cons.prems(1) by (auto split: sum.splits)
  have "sh_Name s \<notin> sh_Name ` set shards" using Cons.prems(2) by simp
  with Cons.IH [OF r] Cons.prems(2) ms show ?case by auto
qed

lemma getMonitoredSlaves_eq:
  assumes "getMonitoredReadWriteSlavesWithFallbackToMasters pool cfg shards m g = (Inr m', g')"
    and "distinct (map sh_Name shards)"
  shows "dom m' = dom m \<union> sh_Name ` set shards \<and>
    (\<forall>s \<in> set shards. \<exists>t.
       m' (sh_Name s) = Some (twemproxy_NewServer (rs_ID t) (alias_of pool (rs_ref t))) \<and>
       (if GetSlavesRW s \<noteq> [] then t = hd (GetSlavesRW s) \<and> g' (cfg, sh_Name s) = Some 1
        else GetMaster s = Inr t \<and> g' (cfg, sh_Name s) = Some 0)) \<and>
    (\<forall>k. k \<notin> sh_Name ` set shards \<longrightarrow> m' k = m k \<and> g' (cfg, k) = g (cfg, k))"
  using assms
proof (induction shards arbitrary: m g)
  case Nil
  then show ?case by simp
next
  case (Cons s shards)
  let ?new = "\<lambda>t. m(sh_Name s \<mapsto> twemproxy_NewServer (rs_ID t) (alias_of pool (rs_ref t)))"
  obtain t v where t: "if GetSlavesRW s \<noteq> [] then t = hd (GetSlavesRW s) \<and> v = 1 else GetMaster s = Inr t \<and> v = 0"
    and r: "getMonitoredReadWriteSlavesWithFallbackToMasters pool cfg shards (?new t) (g((cfg, sh_Name s) \<mapsto> v))
        = (Inr m', g')"
    using Cons.prems(1) by (auto split: sum.splits list.splits)
  have "sh_Name s \<notin> sh_Name ` set shards" using Cons.prems(2) by simp
  moreover have IH: "dom m' = dom (?new t) \<union> sh_Name ` set shards"
    "\<forall>s \<in> set shards. \<exists>t.
       m' (sh_Name s) = Some (twemproxy_NewServer (rs_ID t) (alias_of pool (rs_ref t))) \<and>
       (if GetSlavesRW s \<noteq> [] then t = hd (GetSlavesRW s) \<and> g' (cfg, sh_Name s) = Some 1
        else GetMaster s = Inr t \<and> g' (cfg, sh_Name s) = Some 0)"
    "\<forall>k. k \<notin> sh_Name ` set shards \<longrightarrow> m' k = ?new t k \<and> g' (cfg, k) = (g((cfg, sh_Name s) \<mapsto> v)) (cfg, k)"
    using Cons.IH [OF r] Cons.prems(2) by auto
  ultimately have "m' (sh_Name s) = Some (twemproxy_NewServer (rs_ID t) (alias_of pool (rs_ref t)))"
    "g' (cfg, sh_Name s) = Some v"
    by simp_all
  with t have "\<exists>t. m' (sh_Name s) = Some (twemproxy_NewServer (rs_ID t) (alias_of pool (rs_ref t))) \<and>
       (if GetSlavesRW s \<noteq> [] then t = hd (GetSlavesRW s) \<and> g' (cfg, sh_Name s) = Some 1
        else GetMaster s = Inr t \<and> g' (cfg, sh_Name s) = Some 0)"
    by (intro exI [of _ t]) auto
  with IH show ?case by auto
qed

lemma sentinels_only:
  assumes "NewShardedClusterFromTopology X [(''sentinel'', ss)] pool = (Inr cluster, pool')"
  shows "cl_Shards cluster = []"
  using assms by (auto simp: NewShardedClusterFromTopology_def split: prod.splits sum.splits option.splits)

lemma NewGenerator_cases:
  assumes "NewGenerator X U sl iter arrival inst pool g w = Some ((Inr gen, pool', g'), w')"
  obtains uris sentinels cluster p1 rw where
    "sentinel_map U uris [] = Inr sentinels"
    "NewShardedClusterFromTopology X [(''sentinel'', iter sentinels)] pool = (Inr cluster, p1)"
    "cl_Shards cluster = []"
    "discoverSlavesRW (tcs_ServerPools (tc_Spec inst)) = Some rw"
    "(if rw then generate_slaves else generate_masters) X arrival
       ((base_generator inst)\<lparr>gen_Spec := (tc_Spec inst)\<lparr>tcs_SentinelURIs := Some uris\<rparr>\<rparr>) cluster p1 g w
       = Some ((Inr gen, pool', g'), w')"
proof -
  let ?u = "case tcs_SentinelURIs (tc_Spec inst) of None \<Rightarrow> discoverSentinels sl | Some uris \<Rightarrow> Inr uris"
  have spec: "gen_Spec (base_generator inst) = tc_Spec inst" by (simp add: base_generator_def)
  obtain uris where u: "?u = Inr uris"
    using assms by (cases ?u) (auto simp: NewGenerator_def Let_def spec)
  obtain sentinels where m: "sentinel_map U uris [] = Inr sentinels"
    using assms by (cases "sentinel_map U uris []") (auto simp: NewGenerator_def Let_def spec u)
  obtain r p1 where c: "NewShardedClusterFromTopology X [(''sentinel'', iter sentinels)] pool = (r, p1)"
    by (metis prod.collapse)
  obtain cluster where r: "r = Inr cluster"
    using assms by (cases r) (auto simp: NewGenerator_def Let_def spec u m c)
  have "cl_Shards cluster = []" using sentinels_only c r by blast
  moreover obtain rw where "discoverSlavesRW (tcs_ServerPools (tc_Spec inst)) = Some rw"
    "(if rw then generate_slaves else generate_masters) X arrival
       ((base_generator inst)\<lparr>gen_Spec := (tc_Spec inst)\<lparr>tcs_SentinelURIs := Some uris\<rparr>\<rparr>) cluster p1 g w
       = Some ((Inr gen, pool', g'), w')"
    using assms by (auto simp: NewGenerator_def Let_def spec u m c r elim!: bind_SomeE split: if_splits)
  ultimately show thesis using m c r by (intro that) simp_all
qed

lemma SentinelDiscover_ok:
  assumes "SentinelDiscover X arrival opts cluster pool w = Some ((None, cluster', pool'), w')"
  obtains sen w1 masters w2 where "GetSentinel X arrival cluster w = (Some sen, w1)"
    "SentinelMasters X sen w1 = Some (Inr masters, w2)"
    "sentinel_discover_loop X sen opts masters cluster pool w2 = Some (([], cluster', pool'), w')"
proof -
  obtain s w1 where g: "GetSentinel X arrival cluster w = (s, w1)" by (metis prod.collapse)
  obtain sen where s: "s = Some sen" using assms g by (cases s) (auto simp: SentinelDiscover_def)
  obtain r w2 where m: "SentinelMasters X sen w1 = Some (r, w2)"
    using assms g s by (auto simp: SentinelDiscover_def elim!: bind_SomeE)
  obtain masters where "r = Inr masters" using assms g s m by (cases r) (auto simp: SentinelDiscover_def)
  with assms g s m show thesis
    by (auto simp: SentinelDiscover_def ErrorOrNil_def split: if_splits elim!: bind_SomeE intro: that)
qed

text \<open>
  The address that a sentinel gives for the master of a shard: what
  \<^verbatim>\<open>SENTINEL GET-MASTER-ADDR-BY-NAME\<close> answered, in the form the client dials.
\<close>

definition sentinel_address :: "'w lib \<Rightarrow> srvref \<Rightarrow> string \<Rightarrow> string \<Rightarrow> bool" where
  "sentinel_address X sen n addr \<longleftrightarrow>
     (\<exists>w w' ip port. SentinelGetMasterAddrByName X sen n w = Some (Inr (ip, port), w') \<and>
        lib_ParseURL X (''redis://'' @ ip @ '':'' @ itoa port) = Inr addr)"



section \<open>The configuration file\<close>

definition pool_targets :: "Generator \<Rightarrow> TwemproxyServerPool \<Rightarrow> string \<rightharpoonup> twemproxy_Server" where
  "pool_targets gen p = (if tsp_Target p = Some Masters then gen_masterTargets gen else gen_slaverwTargets gen)"

lemma config_pools_eq:
  assumes "distinct (map tsp_Name ps)" and "\<forall>p \<in> set ps. tsp_Target p \<noteq> None"
  shows "\<exists>c. config_pools gen ps config = Some c \<and>
    (\<forall>p \<in> set ps. c (tsp_Name p) = Some (GenerateServerPool p (pool_targets gen p))) \<and>
    (\<forall>k. k \<notin> tsp_Name ` set ps \<longrightarrow> c k = config k)"
  using assms
proof (induction ps arbitrary: config)
  case Nil
  then show ?case by simp
next
  case (Cons p ps)
  obtain t where t: "tsp_Target p = Some t" using Cons.prems(2) by auto
  let ?config = "config(tsp_Name p \<mapsto> GenerateServerPool p (if t = Masters then gen_masterTargets gen else gen_slaverwTargets gen))"
  have ps: "distinct (map tsp_Name ps)" "\<forall>p \<in> set ps. tsp_Target p \<noteq> None" using Cons.prems by simp_all
  obtain c where c: "config_pools gen ps ?config = Some c"
    "\<forall>p \<in> set ps. c (tsp_Name p) = Some (GenerateServerPool p (pool_targets gen p))"
    "\<forall>k. k \<notin> tsp_Name ` set ps \<longrightarrow> c k = ?config k"
    using Cons.IH [OF ps, of ?config] by blast
  have "tsp_Name p \<notin> tsp_Name ` set ps" using Cons.prems(1) by simp
  then have "c (tsp_Name p) = Some (GenerateServerPool p (pool_targets gen p))"
    using c(3) t by (simp add: pool_targets_def)
  with c t show ?case by (auto simp: pool_targets_def)
qed

lemma find_pool:
  "p \<in> set ps \<Longrightarrow> distinct (map tsp_Name ps) \<Longrightarrow> List.find (\<lambda>q. tsp_Name q = tsp_Name p) ps = Some p"
  by (induction ps) (auto simp: image_iff)

text \<open>
  C36. The configuration file. For a defaulted specification whose pools have distinct names
  other than that of the health pool, the file has one section per pool and the health section,
  and nothing else. The section of a pool listens at the address of the pool and lists one
  server per logical shard, in the order of the topology: the server carries the name of the
  logical shard and the address and priority of the target of its physical shard, as
  \<^verbatim>\<open>GetTargets\<close> returns it, which is also what the status of the resource shows.
\<close>

theorem twemproxy_config_correct:
  assumes "distinct (map tsp_Name (tcs_ServerPools (gen_Spec gen)))"
    and "\<forall>p \<in> set (tcs_ServerPools (gen_Spec gen)). tsp_Target p \<noteq> None \<and> tsp_Name p \<noteq> HealthPoolName"
  shows "\<exists>c. twemproxy_config gen = Some c \<and>
    dom c = insert HealthPoolName (tsp_Name ` set (tcs_ServerPools (gen_Spec gen))) \<and>
    c HealthPoolName = Some health_pool \<and>
    (\<forall>p \<in> set (tcs_ServerPools (gen_Spec gen)). \<exists>spc targets. c (tsp_Name p) = Some spc \<and>
       GetTargets (tsp_Name p) gen = Some targets \<and> spc_Listen spc = tsp_BindAddress p \<and>
       map tw_Name (spc_Servers spc) = map srt_ShardName (tsp_Topology p) \<and>
       (\<forall>i < length (tsp_Topology p). \<forall>t. targets (srt_PhysicalShard (tsp_Topology p ! i)) = Some t \<longrightarrow>
          tw_Address (spc_Servers spc ! i) = tw_Address t \<and> tw_Priority (spc_Servers spc ! i) = tw_Priority t))"
proof -
  let ?ps = "tcs_ServerPools (gen_Spec gen)"
  obtain c where c: "config_pools gen ?ps Map.empty = Some c"
    "\<forall>p \<in> set ?ps. c (tsp_Name p) = Some (GenerateServerPool p (pool_targets gen p))"
    "\<forall>k. k \<notin> tsp_Name ` set ?ps \<longrightarrow> c k = None"
    using config_pools_eq [OF assms(1), of gen Map.empty] assms(2) by auto
  have t: "GetTargets (tsp_Name p) gen = Some (pool_targets gen p)" if "p \<in> set ?ps" for p
    using find_pool [OF that assms(1)] assms(2) that by (auto simp: GetTargets_def pool_targets_def)
  have "dom c = tsp_Name ` set ?ps" using c(2,3) by (auto simp: dom_def)
  moreover have "\<exists>spc targets. (c(HealthPoolName \<mapsto> health_pool)) (tsp_Name p) = Some spc \<and>
       GetTargets (tsp_Name p) gen = Some targets \<and> spc_Listen spc = tsp_BindAddress p \<and>
       map tw_Name (spc_Servers spc) = map srt_ShardName (tsp_Topology p) \<and>
       (\<forall>i < length (tsp_Topology p). \<forall>t. targets (srt_PhysicalShard (tsp_Topology p ! i)) = Some t \<longrightarrow>
          tw_Address (spc_Servers spc ! i) = tw_Address t \<and> tw_Priority (spc_Servers spc ! i) = tw_Priority t)"
    if p: "p \<in> set ?ps" for p
    using c(2) p assms(2) t [OF p]
    by (intro exI [of _ "GenerateServerPool p (pool_targets gen p)"] exI [of _ "pool_targets gen p"])
      (auto simp: GenerateServerPool_def target_of_def)
  ultimately show ?thesis using c(1) by (auto simp: twemproxy_config_def)
qed

text \<open>
  What a generator does when no sentinel answers. A configuration of masters is refused
  with the error of the discovery. A configuration with a pool of read-write slaves is
  accepted, because the error \<^verbatim>\<open>unable to find a healthy sentinel server\<close> is not one of the
  two error types that the generator looks for: the targets are empty, and every server of every
  pool of the resulting configuration has an empty address.
\<close>

lemma NewGenerator_no_sentinel:
  assumes "tcs_SentinelURIs (tc_Spec inst) = Some uris" and "sentinel_map U uris [] = Inr sentinels"
    and "NewShardedClusterFromTopology X [(''sentinel'', iter sentinels)] pool = (Inr cluster, p1)"
    and "discoverSlavesRW (tcs_ServerPools (tc_Spec inst)) = Some rw"
    and "distinct (map tsp_Name (tcs_ServerPools (tc_Spec inst)))"
  shows "if rw then
      \<exists>gen c. NewGenerator X U sl iter [] inst pool g w = Some ((Inr gen, p1, g), w) \<and>
        gen_masterTargets gen = Map.empty \<and> gen_slaverwTargets gen = Map.empty \<and>
        twemproxy_config gen = Some c \<and>
        (\<forall>p \<in> set (tcs_ServerPools (tc_Spec inst)). tsp_Name p \<noteq> HealthPoolName \<longrightarrow>
           (\<exists>spc. c (tsp_Name p) = Some spc \<and> length (spc_Servers spc) = length (tsp_Topology p) \<and>
              (\<forall>srv \<in> set (spc_Servers spc). tw_Address srv = '''')))
    else NewGenerator X U sl iter [] inst pool g w
      = Some ((Inl (MultiError [ErrorString ''unable to find a healthy sentinel server'']), p1, g), w)"
proof -
  let ?gen = "(base_generator inst)\<lparr>gen_Spec := (tc_Spec inst)\<lparr>tcs_SentinelURIs := Some uris\<rparr>\<rparr>"
  let ?e = "MultiError [ErrorString ''unable to find a healthy sentinel server'']"
  have c: "cl_Shards cluster = []" by (rule sentinels_only [OF assms(3)])
  have d: "SentinelDiscover X [] opts cluster p1 w = Some ((Some ?e, cluster, p1), w)" for opts
    by (simp add: SentinelDiscover_def GetSentinel_def)
  have "\<not> fatal_discovery_error ?e" by (simp add: fatal_discovery_error_def)
  with d c have "generate_slaves X [] ?gen cluster p1 g w = Some ((Inr ?gen, p1, g), w)"
    by (simp add: generate_slaves_def base_generator_def)
  moreover have "generate_masters X [] ?gen cluster p1 g w = Some ((Inl ?e, p1, g), w)"
    by (simp add: generate_masters_def d)
  moreover have "NewGenerator X U sl iter [] inst pool g w =
      (if rw then generate_slaves else generate_masters) X [] ?gen cluster p1 g w"
    using assms(1-4) by (simp add: NewGenerator_def base_generator_def)
  moreover have targets: "\<forall>p \<in> set (tcs_ServerPools (tc_Spec inst)). tsp_Target p \<noteq> None"
    by (rule discoverSlavesRW_targets [OF assms(4)])
  moreover obtain cf where "config_pools ?gen (tcs_ServerPools (tc_Spec inst)) Map.empty = Some cf"
    "\<forall>p \<in> set (tcs_ServerPools (tc_Spec inst)). cf (tsp_Name p) = Some (GenerateServerPool p (pool_targets ?gen p))"
    using config_pools_eq [OF assms(5) targets] by blast
  moreover have "pool_targets ?gen p = Map.empty" for p by (simp add: pool_targets_def base_generator_def)
  ultimately show ?thesis
    by (auto simp: twemproxy_config_def GenerateServerPool_def target_of_def no_target_def base_generator_def)
qed

section \<open>Witnesses\<close>

definition ex_url :: "string \<Rightarrow> error + string \<times> string" where
  "ex_url u = Inr (takeWhile (\<lambda>c. c \<noteq> CHR '':'') (drop 8 u), u)"

definition ex_twemproxy :: "TargetRedisServers \<Rightarrow> TwemproxyConfig" where
  "ex_twemproxy t = \<lparr>tc_name = ''twemproxy'', tc_namespace = ''ns'',
     tc_Spec = \<lparr>tcs_SentinelURIs = Some [''redis://10.0.0.9:26379''],
       tcs_ServerPools = [\<lparr>tsp_Name = ''pool'',
         tsp_Topology = [\<lparr>srt_ShardName = ''l00'', srt_PhysicalShard = ''shard01''\<rparr>,
                         \<lparr>srt_ShardName = ''l01'', srt_PhysicalShard = ''shard01''\<rparr>],
         tsp_BindAddress = ''0.0.0.0:22121'', tsp_Timeout = 5000, tsp_TCPBacklog = 512, tsp_PreConnect = True,
         tsp_Target = Some t\<rparr>],
       tcs_ReconcileServerPools = Some True, tcs_GrafanaDashboard = None\<rparr>,
     tc_Targets = None\<rparr>"

text \<open>The world of the cluster example, with a slave that answers that it is not read-only.\<close>

definition ex_rw_world :: fake_world where
  "ex_rw_world = ex_cluster_world(''10.0.0.2:6379'' :=
     [ex_reply (ASlice [AStr ''slave'', AStr ''10.0.0.1'']), ex_reply (ASlice [AStr ''slave-read-only'', AStr ''no''])])"

definition ex_targets :: "(((error + Generator) \<times> ServerPool \<times> rw_gauge) \<times> fake_world) option \<Rightarrow>
    (error + string option \<times> string option) option" where
  "ex_targets = map_option (\<lambda>((r, p, g), w). map_sum id (\<lambda>gen.
     (map_option tw_Address (gen_masterTargets gen ''shard01''),
      map_option tw_Address (gen_slaverwTargets gen ''shard01''))) r)"

lemma ex_targets_SomeE:
  assumes "ex_targets r = Some (Inr (a, b))"
  obtains gen p g w where "r = Some ((Inr gen, p, g), w)"
    "map_option tw_Address (gen_masterTargets gen ''shard01'') = a"
    "map_option tw_Address (gen_slaverwTargets gen ''shard01'') = b"
  using assms by (auto simp: ex_targets_def elim!: map_sum_eq_InrE)

lemma ex_generators:
  "ex_targets (NewGenerator fake_lib ex_url (Inr []) id [0] (ex_twemproxy Masters) [] Map.empty ex_cluster_world)
     = Some (Inr (Some ''10.0.0.1:6379'', None))"
  "ex_targets (NewGenerator fake_lib ex_url (Inr []) id [0] (ex_twemproxy SlavesRW) [] Map.empty ex_rw_world)
     = Some (Inr (Some ''10.0.0.1:6379'', Some ''10.0.0.2:6379''))"
  by code_simp+



definition ex_gen :: Generator where
  "ex_gen = (base_generator (ex_twemproxy Masters))\<lparr>gen_masterTargets :=
     [''shard01'' \<mapsto> twemproxy_NewServer ''10.0.0.1:6379'' ''redis-0'']\<rparr>"

lemma ex_gen_pools:
  "map tsp_Name (tcs_ServerPools (gen_Spec ex_gen)) = [''pool'']"
  "\<forall>p \<in> set (tcs_ServerPools (gen_Spec ex_gen)). tsp_Target p = Some Masters \<and>
     map srt_PhysicalShard (tsp_Topology p) = [''shard01'', ''shard01''] \<and>
     map srt_ShardName (tsp_Topology p) = [''l00'', ''l01'']"
  "GetTargets ''pool'' ex_gen = Some (gen_masterTargets ex_gen)"
  "map_option tw_Address (gen_masterTargets ex_gen ''shard01'') = Some ''10.0.0.1:6379''"
  by (simp_all add: ex_gen_def base_generator_def ex_twemproxy_def GetTargets_def twemproxy_NewServer_def)

theorem twemproxy_config_correct_witness:
  "\<exists>c spc. twemproxy_config ex_gen = Some c \<and> dom c = {''health'', ''pool''} \<and> c ''pool'' = Some spc \<and>
     map tw_Name (spc_Servers spc) = [''l00'', ''l01''] \<and> tw_Address (spc_Servers spc ! 1) = ''10.0.0.1:6379''"
proof -
  obtain p where ps: "tcs_ServerPools (gen_Spec ex_gen) = [p]" and n: "tsp_Name p = ''pool''"
    using ex_gen_pools(1) by (cases "tcs_ServerPools (gen_Spec ex_gen)") auto
  have p: "tsp_Target p = Some Masters" "map srt_PhysicalShard (tsp_Topology p) = [''shard01'', ''shard01'']"
    "map srt_ShardName (tsp_Topology p) = [''l00'', ''l01'']"
    using ex_gen_pools(2) ps by simp_all
  have "distinct (map tsp_Name (tcs_ServerPools (gen_Spec ex_gen)))" by (simp add: ps)
  moreover have "\<forall>p \<in> set (tcs_ServerPools (gen_Spec ex_gen)). tsp_Target p \<noteq> None \<and> tsp_Name p \<noteq> HealthPoolName"
    by (simp add: ps p n HealthPoolName_def)
  ultimately obtain c spc targets where c: "twemproxy_config ex_gen = Some c" "dom c = {HealthPoolName, tsp_Name p}"
    "c (tsp_Name p) = Some spc" "GetTargets (tsp_Name p) ex_gen = Some targets"
    "map tw_Name (spc_Servers spc) = map srt_ShardName (tsp_Topology p)"
    "\<forall>i < length (tsp_Topology p). \<forall>t. targets (srt_PhysicalShard (tsp_Topology p ! i)) = Some t \<longrightarrow>
          tw_Address (spc_Servers spc ! i) = tw_Address t"
    using twemproxy_config_correct [of ex_gen] by (fastforce simp: ps)
  have l: "length (tsp_Topology p) = 2" using arg_cong [OF p(2), of length] by simp
  have "srt_PhysicalShard (tsp_Topology p ! 1) = ''shard01''"
    using arg_cong [OF p(2), of "\<lambda>xs. xs ! 1"] l by simp
  moreover obtain t where "targets ''shard01'' = Some t" "tw_Address t = ''10.0.0.1:6379''"
    using c(4) ex_gen_pools(3,4) n by auto
  ultimately have "tw_Address (spc_Servers spc ! 1) = ''10.0.0.1:6379''" using c(6) l by auto
  with c p n show ?thesis by (auto simp: HealthPoolName_def)
qed

end
