(* ===== verification/SentinelController.thy ===== *)
theory SentinelController
  imports SentinelStatus SentinelMetrics Twemproxy
begin

text \<open>
  The controller of the Sentinel resources: the topology and the addresses of the generator
  (\<^verbatim>\<open>internal/pkg/generators/sentinel/generator.go\<close> and \<^verbatim>\<open>services.go\<close>), the resolution of
  host names (\<^verbatim>\<open>internal/pkg/util/dns.go\<close>) and the reconciliation of
  \<^verbatim>\<open>internal/controller/sentinel_controller.go\<close>: every sentinel is told of every shard, an event
  watcher and a metrics gatherer run for every sentinel, and the discovered cluster is published
  in the status.

  The base reconciler, which creates the owned resources and stores the status, is a library: it
  is a parameter, as are \<^verbatim>\<open>url.Parse\<close> and the resolver.
\<close>

section \<open>Addresses\<close>

text \<open>
  A parsed URL is the text before its host, the host with its optional port, and the text after
  it. The methods of \<^verbatim>\<open>net/url\<close> that split the host are defined as in its sources.
\<close>

record url =
  url_pre :: string
  url_Host :: string
  url_post :: string

definition url_String :: "url \<Rightarrow> string" where
  "url_String u = url_pre u @ url_Host u @ url_post u"

definition validOptionalPort :: "string \<Rightarrow> bool" where
  "validOptionalPort port \<longleftrightarrow>
     (case port of [] \<Rightarrow> True | c # ds \<Rightarrow> c = CHR '':'' \<and> list_all (\<lambda>d. d \<in> set ''0123456789'') ds)"

definition url_splitHostPort :: "string \<Rightarrow> string \<times> string" where
  "url_splitHostPort hostPort =
     (let (host, port) =
            (case lastIndex (CHR '':'') hostPort of
               None \<Rightarrow> (hostPort, '''')
             | Some colon \<Rightarrow>
                 if validOptionalPort (drop colon hostPort) then (take colon hostPort, drop (Suc colon) hostPort)
                 else (hostPort, ''''))
      in (if prefix ''['' host \<and> suffix '']'' host then butlast (tl host) else host, port))"

definition url_Hostname :: "url \<Rightarrow> string" where
  "url_Hostname u = fst (url_splitHostPort (url_Host u))"

definition url_Port :: "url \<Rightarrow> string" where
  "url_Port u = snd (url_splitHostPort (url_Host u))"

record resolver =
  net_ParseIP :: "string \<Rightarrow> string option"
  net_LookupIP :: "string \<Rightarrow> error + string list"

text \<open>An answer without addresses indexes out of range.\<close>

definition LookupIPv4 :: "resolver \<Rightarrow> string \<Rightarrow> (error + string) option" where
  "LookupIPv4 R host =
     (case net_ParseIP R host of
        Some ip \<Rightarrow> Some (Inr ip)
      | None \<Rightarrow>
          (case net_LookupIP R host of
             Inl e \<Rightarrow> Some (Inl e)
           | Inr ips \<Rightarrow> map_option Inr (at ips 0)))"

section \<open>The topology of the generator\<close>

text \<open>The host of a connection string and the string with that host resolved.\<close>

definition resolve_server ::
    "(string \<Rightarrow> error + url) \<Rightarrow> resolver \<Rightarrow> string \<Rightarrow> (error + string \<times> string) option" where
  "resolve_server P R server =
     (case P server of
        Inl e \<Rightarrow> Some (Inl e)
      | Inr u \<Rightarrow>
          do { r \<leftarrow> LookupIPv4 R (url_Hostname u);
               case r of
                 Inl e \<Rightarrow> Some (Inl e)
               | Inr ip \<Rightarrow> Some (Inr (url_Host u, url_String (u\<lparr>url_Host := JoinHostPort ip (url_Port u)\<rparr>))) })"

fun shard_aliased ::
    "(string \<Rightarrow> error + url) \<Rightarrow> resolver \<Rightarrow> (string, string) gomap \<Rightarrow> (string, string) gomap
       \<Rightarrow> (error + (string, string) gomap) option" where
  "shard_aliased P R [] shardmap = Some (Inr shardmap)"
| "shard_aliased P R ((al, server) # rest) shardmap =
     do { r \<leftarrow> resolve_server P R server;
          case r of
            Inl e \<Rightarrow> Some (Inl e)
          | Inr (host, text) \<Rightarrow> shard_aliased P R rest (AList.update al text shardmap) }"

fun shard_listed ::
    "(string \<Rightarrow> error + url) \<Rightarrow> resolver \<Rightarrow> string list \<Rightarrow> (string, string) gomap
       \<Rightarrow> (error + (string, string) gomap) option" where
  "shard_listed P R [] shardmap = Some (Inr shardmap)"
| "shard_listed P R (server # rest) shardmap =
     do { r \<leftarrow> resolve_server P R server;
          case r of
            Inl e \<Rightarrow> Some (Inl e)
          | Inr (host, text) \<Rightarrow> shard_listed P R rest (AList.update host text shardmap) }"

type_synonym topology = "(string, (string, string) gomap) gomap"

text \<open>The outer loop of both forms: \<open>f\<close> builds the servers of one shard.\<close>

fun topology_shards :: "('a \<Rightarrow> (error + (string, string) gomap) option) \<Rightarrow> (string \<times> 'a) list \<Rightarrow> topology
    \<Rightarrow> (error + topology) option" where
  "topology_shards f [] clustermap = Some (Inr clustermap)"
| "topology_shards f ((shard, servers) # rest) clustermap =
     do { r \<leftarrow> f servers;
          case r of
            Inl e \<Rightarrow> Some (Inl e)
          | Inr shardmap \<Rightarrow> topology_shards f rest (AList.update shard shardmap clustermap) }"

definition sentinel_component :: string where "sentinel_component = ''redis-sentinel''"

definition PodServiceName :: "int \<Rightarrow> string" where
  "PodServiceName index = sentinel_component @ ''-'' @ itoa index"

text \<open>\<^verbatim>\<open>make\<close> panics for a negative number of replicas.\<close>

definition SentinelURIs :: "string \<Rightarrow> SentinelSpec \<Rightarrow> string list option" where
  "SentinelURIs ns spec =
     do { replicas \<leftarrow> sen_Replicas spec;
          if replicas < 0 then None
          else Some (map (\<lambda>idx. ''redis://'' @ PodServiceName (int idx) @ ''.'' @ ns @ ''.svc.cluster.local:'' @ itoa SentinelPort)
                 [0..<nat replicas]) }"

fun topology_uris :: "(string \<Rightarrow> error + url) \<Rightarrow> string list \<Rightarrow> (string, string) gomap \<Rightarrow> error + (string, string) gomap" where
  "topology_uris P [] m = Inr m"
| "topology_uris P (uri # uris) m =
     (case P uri of
        Inl e \<Rightarrow> Inl e
      | Inr u \<Rightarrow> topology_uris P uris (AList.update (hd (split_on (CHR ''.'') (url_Hostname u))) (url_String u) m))"

text \<open>The orders in which Go iterates over the maps.\<close>

record iterations =
  it_shards :: "topology \<Rightarrow> topology"
  it_lists :: "(string, string list) gomap \<Rightarrow> (string, string list) gomap"
  it_servers :: "(string, string) gomap \<Rightarrow> (string, string) gomap"

definition ClusterTopology ::
    "(string \<Rightarrow> error + url) \<Rightarrow> resolver \<Rightarrow> iterations \<Rightarrow> string \<Rightarrow> SentinelSpec \<Rightarrow> (error + topology) option" where
  "ClusterTopology P R I ns spec =
     do { cfg \<leftarrow> sen_Config spec;
          r \<leftarrow> (case sc_ClusterTopology cfg of
                  Some t \<Rightarrow> topology_shards (\<lambda>servers. shard_aliased P R (it_servers I servers) []) (it_shards I t) []
                | None \<Rightarrow>
                    (case sc_MonitoredShards cfg of
                       Some t \<Rightarrow> topology_shards (\<lambda>servers. shard_listed P R servers []) (it_lists I t) []
                     | None \<Rightarrow> Some (Inl (ErrorString ''either 'spec.config.clusterTopology' or 'spec.cluster.MonitoredShards' must be set''))));
          case r of
            Inl e \<Rightarrow> Some (Inl e)
          | Inr clustermap \<Rightarrow>
              do { uris \<leftarrow> SentinelURIs ns spec;
                   case topology_uris P uris [] of
                     Inl e \<Rightarrow> Some (Inl e)
                   | Inr sentinels \<Rightarrow> Some (Inr (AList.update ''sentinel'' sentinels clustermap)) } }"

section \<open>Monitoring\<close>

text \<open>
  The loop over the sentinels. A sentinel that does not know every shard is told of them, after
  a discovery of the cluster that asks the redis servers themselves.
\<close>

fun ensure_monitored ::
    "'w lib \<Rightarrow> srvref list \<Rightarrow> Cluster \<Rightarrow> ServerPool \<Rightarrow> ('w, error option \<times> Cluster \<times> ServerPool) go" where
  "ensure_monitored X [] cluster pool w = Some ((None, cluster, pool), w)"
| "ensure_monitored X (sentinel # sentinels) cluster pool w =
     do { (r, w) \<leftarrow> IsMonitoringShards X sentinel (GetShardNames cluster) w;
          case r of
            Inl e \<Rightarrow> Some ((Some e, cluster, pool), w)
          | Inr True \<Rightarrow> ensure_monitored X sentinels cluster pool w
          | Inr False \<Rightarrow>
              do { ((e, cluster, pool), w) \<leftarrow> Cluster_Discover X [] cluster pool w;
                   case e of
                     Some e \<Rightarrow> Some ((Some e, cluster, pool), w)
                   | None \<Rightarrow>
                       do { ((ch, e), w) \<leftarrow> Monitor X sentinel cluster SentinelDefaultQuorum w;
                            case e of
                              Some e \<Rightarrow> Some ((Some e, cluster, pool), w)
                            | None \<Rightarrow> ensure_monitored X sentinels cluster pool w } } }"

section \<open>The status\<close>

definition same_shards :: "MonitoredShard list \<Rightarrow> MonitoredShard list \<Rightarrow> bool" where
  "same_shards as bs \<longleftrightarrow> list_all2 (\<lambda>a b. ms_Name a = ms_Name b \<and> map_of (ms_Servers a) = map_of (ms_Servers b)) as bs"

definition status_options :: "DiscoveryOption list" where
  "status_options = [SlaveReadOnlyDiscoveryOpt, SaveConfigDiscoveryOpt, SlavePriorityDiscoveryOpt, ReplicationInfoDiscoveryOpt]"

text \<open>
  \<^verbatim>\<open>sentinelStatusReconciler\<close>: whether the status changed and the error, beside the status, the
  gauges, the cluster and the pool. The errors of single servers are logged; an error of the
  gauges as well.
\<close>

definition sentinelStatusReconciler ::
    "'w lib \<Rightarrow> nat list \<Rightarrow> string \<Rightarrow> SentinelStatus \<Rightarrow> Cluster \<Rightarrow> gauges \<Rightarrow> ServerPool
       \<Rightarrow> ('w, (bool \<times> error option) \<times> SentinelStatus \<times> gauges \<times> Cluster \<times> ServerPool) go" where
  "sentinelStatusReconciler X arrival name status cluster g pool w =
     do { ((merr, cluster, pool), w) \<leftarrow> SentinelDiscover X arrival status_options cluster pool w;
          if (case merr of None \<Rightarrow> False | Some e \<Rightarrow> errors_As is_sentinel_failure e)
          then Some (((False, merr), status, g, cluster, pool), w)
          else
            do { ((e, g, cluster, pool), w) \<leftarrow> FromShardedCluster X arrival cluster False name g pool w;
                 let new = cluster_status pool cluster;
                 if ss_Sentinels new \<noteq> ss_Sentinels status \<or> \<not> same_shards (ss_MonitoredShards new) (ss_MonitoredShards status)
                 then Some (((True, None), new, g, cluster, pool), w)
                 else Some (((False, None), status, g, cluster, pool), w) } }"

section \<open>Reconcile\<close>

fun new_gatherers ::
    "'w lib \<Rightarrow> Cluster \<Rightarrow> int option \<Rightarrow> string list \<Rightarrow> ServerPool
       \<Rightarrow> ((error + (SentinelEventWatcher list \<times> SentinelMetricsGatherer list)) \<times> ServerPool) option" where
  "new_gatherers X cluster interval [] pool = Some (Inr ([], []), pool)"
| "new_gatherers X cluster interval (uri # uris) pool =
     (case NewSentinelEventWatcher X uri (Some cluster) True pool of
        (Inl e, pool) \<Rightarrow> Some (Inl e, pool)
      | (Inr watcher, pool) \<Rightarrow>
          do { refresh \<leftarrow> interval;
               case NewSentinelMetricsGatherer X uri refresh pool of
                 (Inl e, pool) \<Rightarrow> Some (Inl e, pool)
               | (Inr gatherer, pool) \<Rightarrow>
                   do { (r, pool) \<leftarrow> new_gatherers X cluster interval uris pool;
                        case r of
                          Inl e \<Rightarrow> Some (Inl e, pool)
                        | Inr (ws, gs) \<Rightarrow> Some (Inr (watcher # ws, gatherer # gs), pool) } })"

text \<open>
  The calls of the base reconciler: \<open>se_owned\<close> reconciles the owned resources, \<open>se_status\<close> gets the
  result of \<^verbatim>\<open>sentinelStatusReconciler\<close> and stores the status. Each returns a result when the
  reconciliation has to return, a time to requeue or an error.
\<close>

record ('w, 'k) sen_env =
  se_X :: "'w lib"
  se_P :: "string \<Rightarrow> error + url"
  se_R :: resolver
  se_I :: iterations
  se_arrival :: "nat list"
  se_owned :: "SentinelSpec \<Rightarrow> 'k \<Rightarrow> (error + int) option \<times> 'k"
  se_status :: "bool \<times> error option \<Rightarrow> SentinelStatus \<Rightarrow> 'k \<Rightarrow> (error + int) option \<times> 'k"

record ('w, 'k) sen_state =
  sx_name :: string
  sx_namespace :: string
  sx_spec :: SentinelSpec
  sx_status :: SentinelStatus
  sx_events :: "SentinelEventWatcher Manager"
  sx_metrics :: "SentinelMetricsGatherer Manager"
  sx_pool :: ServerPool
  sx_gauges :: gauges
  sx_kube :: 'k
  sx_redis :: 'w

definition sen_owner :: "('w, 'k) sen_state \<Rightarrow> owner" where
  "sen_owner s = (sx_namespace s, sx_name s)"

definition sentinel_threads ::
    "('w, 'k) sen_env \<Rightarrow> Cluster \<Rightarrow> ('w, 'k) sen_state \<Rightarrow> (error option \<times> ('w, 'k) sen_state) option" where
  "sentinel_threads E cluster s =
     do { uris \<leftarrow> SentinelURIs (sx_namespace s) (sx_spec s);
          (r, pool) \<leftarrow> new_gatherers (se_X E) cluster (sen_Config (sx_spec s) \<bind> sc_MetricsRefreshInterval) uris (sx_pool s);
          let s = s\<lparr>sx_pool := pool\<rparr>;
          case r of
            Inl e \<Rightarrow> Some (Some e, s)
          | Inr (ws, gs) \<Rightarrow>
              do { (e, mgr) \<leftarrow> ReconcileThreads (watcher_ops (se_X E) (Map.empty, pool)) (sen_owner s) ws (sx_events s);
                   let s = s\<lparr>sx_events := mgr\<rparr>;
                   case e of
                     Some e \<Rightarrow> Some (Some e, s)
                   | None \<Rightarrow>
                       do { (e, mgr) \<leftarrow> ReconcileThreads (gatherer_ops (sx_gauges s)) (sen_owner s) gs (sx_metrics s);
                            Some (e, s\<lparr>sx_metrics := mgr\<rparr>) } } }"

definition sentinel_publish ::
    "('w, 'k) sen_env \<Rightarrow> Cluster \<Rightarrow> ('w, 'k) sen_state \<Rightarrow> ((error + int) \<times> ('w, 'k) sen_state) option" where
  "sentinel_publish E cluster s =
     do { ((r, status, g, cluster, pool), w) \<leftarrow> sentinelStatusReconciler (se_X E) (se_arrival E) (sx_name s) (sx_status s)
             cluster (sx_gauges s) (sx_pool s) (sx_redis s);
          let s = s\<lparr>sx_status := status, sx_gauges := g, sx_pool := pool, sx_redis := w\<rparr>;
          case se_status E r status (sx_kube s) of
            (Some res, k) \<Rightarrow> Some (res, s\<lparr>sx_kube := k\<rparr>)
          | (None, k) \<Rightarrow> Some (Inr 30000000000, s\<lparr>sx_kube := k\<rparr>) }"

text \<open>The steps before the status: the cluster of the specification, its monitoring and the threads.\<close>

definition sentinel_prepare ::
    "('w, 'k) sen_env \<Rightarrow> ('w, 'k) sen_state \<Rightarrow> ((error + Cluster) \<times> ('w, 'k) sen_state) option" where
  "sentinel_prepare E s =
     do { t \<leftarrow> ClusterTopology (se_P E) (se_R E) (se_I E) (sx_namespace s) (sx_spec s);
          case t of
            Inl e \<Rightarrow> Some (Inl e, s)
          | Inr clustermap \<Rightarrow>
              (case NewShardedClusterFromTopology (se_X E)
                      (map (\<lambda>(n, m). (n, it_servers (se_I E) m)) (it_shards (se_I E) clustermap)) (sx_pool s) of
                 (Inl e, pool) \<Rightarrow> Some (Inl e, s\<lparr>sx_pool := pool\<rparr>)
               | (Inr cluster, pool) \<Rightarrow>
                   do { ((e, cluster, pool), w) \<leftarrow> ensure_monitored (se_X E) (cl_Sentinels cluster) cluster pool (sx_redis s);
                        let s = s\<lparr>sx_pool := pool, sx_redis := w\<rparr>;
                        case e of
                          Some e \<Rightarrow> Some (Inl e, s)
                        | None \<Rightarrow>
                            do { (e, s) \<leftarrow> sentinel_threads E cluster s;
                                 Some (case e of Some e \<Rightarrow> Inl e | None \<Rightarrow> Inr cluster, s) } }) }"

definition Sentinel_Reconcile ::
    "('w, 'k) sen_env \<Rightarrow> ('w, 'k) sen_state \<Rightarrow> ((error + int) \<times> ('w, 'k) sen_state) option" where
  "Sentinel_Reconcile E s =
     (case se_owned E (sx_spec s) (sx_kube s) of
        (Some res, k) \<Rightarrow> Some (res, s\<lparr>sx_kube := k\<rparr>)
      | (None, k) \<Rightarrow>
          do { (r, s) \<leftarrow> sentinel_prepare E (s\<lparr>sx_kube := k\<rparr>);
               case r of
                 Inl e \<Rightarrow> Some (Inl e, s)
               | Inr cluster \<Rightarrow> sentinel_publish E cluster s })"

section \<open>Properties\<close>

lemma new_gatherers_uris:
  "new_gatherers X cluster interval uris pool = Some (Inr (ws, gs), pool') \<Longrightarrow>
     map sew_sentinelURI ws = uris \<and> map smg_sentinelURI gs = uris"
proof (induction uris arbitrary: pool ws gs)
  case (Cons uri uris)
  obtain w p g p1 ws1 gs1 refresh where "NewSentinelEventWatcher X uri (Some cluster) True pool = (Inr w, p)"
    "NewSentinelMetricsGatherer X uri refresh p = (Inr g, p1)"
    "new_gatherers X cluster interval uris p1 = Some (Inr (ws1, gs1), pool')" "ws = w # ws1" "gs = g # gs1"
    using Cons.prems by (auto split: prod.splits sum.splits elim!: bind_SomeE)
  moreover from this have "sew_sentinelURI w = uri" "smg_sentinelURI g = uri"
    by (auto simp: NewSentinelEventWatcher_def NewSentinelMetricsGatherer_def split: prod.splits sum.splits)
  ultimately show ?case using Cons.IH by simp
qed simp

lemma sentinel_threads_effect:
  assumes "sentinel_threads E cluster s = Some (None, s')"
    and "mgr_ok (sx_events s)" and "\<forall>cp. stoppable (watcher_ops (se_X E) cp) (sx_events s)"
    and "mgr_ok (sx_metrics s)" and "\<forall>g. stoppable (gatherer_ops g) (sx_metrics s)"
  shows "\<exists>uris. SentinelURIs (sx_namespace s) (sx_spec s) = Some uris \<and>
    (\<forall>uri \<in> set uris. (\<exists>t. GetThread uri (sen_owner s) (sx_events s') = Some t \<and> sew_started t) \<and>
       (\<exists>t. GetThread uri (sen_owner s) (sx_metrics s') = Some t \<and> smg_started t)) \<and>
    mgr_ok (sx_events s') \<and> mgr_ok (sx_metrics s') \<and>
    (\<exists>m1 m2 p. s' = s\<lparr>sx_pool := p, sx_events := m1, sx_metrics := m2\<rparr>)"
proof -
  obtain uris ws gs pool e1 m1 e2 m2 where u: "SentinelURIs (sx_namespace s) (sx_spec s) = Some uris"
    and n: "new_gatherers (se_X E) cluster (sen_Config (sx_spec s) \<bind> sc_MetricsRefreshInterval) uris (sx_pool s) = Some (Inr (ws, gs), pool)"
    and r1: "ReconcileThreads (watcher_ops (se_X E) (Map.empty, pool)) (sen_owner s) ws (sx_events s) = Some (None, m1)"
    and r2: "ReconcileThreads (gatherer_ops (sx_gauges s)) (sen_owner s) gs (sx_metrics s) = Some (None, m2)"
    and s': "s' = s\<lparr>sx_pool := pool, sx_events := m1, sx_metrics := m2\<rparr>"
    using assms(1) by (auto simp: sentinel_threads_def Let_def sen_owner_def split: sum.splits option.splits elim!: bind_SomeE)
  note t1 = ReconcileThreads_started [OF watcher_laws assms(2) spec [OF assms(3)] r1]
  note t2 = ReconcileThreads_started [OF gatherer_laws assms(4) spec [OF assms(5)] r2]
  have "(\<exists>t. GetThread uri (sen_owner s) m1 = Some t \<and> sew_started t) \<and> (\<exists>t. GetThread uri (sen_owner s) m2 = Some t \<and> smg_started t)"
    if uri: "uri \<in> set uris" for uri
  proof -
    have "uri \<in> sew_sentinelURI ` set ws" "uri \<in> smg_sentinelURI ` set gs"
      using new_gatherers_uris [OF n] uri by (metis list.set_map)+
    then obtain w g where "w \<in> set ws" "g \<in> set gs" "sew_sentinelURI w = uri" "smg_sentinelURI g = uri" by (elim imageE) simp
    then show ?thesis using t1(2) [of w] t2(2) [of g] by (simp add: watcher_ops_def gatherer_ops_def)
  qed
  moreover have "sx_events s' = m1" "sx_metrics s' = m2" by (simp_all add: s')
  ultimately show ?thesis using u s' t1(1) t2(1) by blast
qed

text \<open>A status from the API server: the servers of a shard are a map.\<close>

definition status_ok :: "SentinelStatus \<Rightarrow> bool" where
  "status_ok ss \<longleftrightarrow> (\<forall>ms \<in> set (ss_MonitoredShards ss). distinct (map fst (ms_Servers ms)))"

lemma distinct_put_servers: "distinct (map fst m) \<Longrightarrow> distinct (map fst (fold (put_server pool) srvs m))"
  by (induction srvs arbitrary: m) (simp_all add: put_server_def distinct_update)

lemma cluster_status_ok: "status_ok (cluster_status pool cluster)"
  by (auto simp: status_ok_def cluster_status_def monitored_shard_def distinct_put_servers)

lemma same_map_mset:
  assumes "distinct (map fst a)" and "distinct (map fst b)" and "map_of a = map_of b"
  shows "mset a = mset b"
proof -
  have "set a = set b" using assms by (metis map_of_eq_Some_iff prod.collapse subsetI subset_antisym)
  moreover have "distinct a" "distinct b" using assms(1,2) by (simp_all add: distinct_map)
  ultimately show ?thesis by (simp add: set_eq_iff_mset_eq_distinct)
qed

text \<open>
  A reconciliation of the status: after a failure of sentinel nothing is changed and the error
  is returned; otherwise the status shows the discovered cluster, whether or not it was written.
\<close>

lemma sentinelStatusReconciler_effect:
  assumes "sentinelStatusReconciler X arrival name status cluster g pool w = Some ((r, status', g', cluster', pool'), w')"
    and "status_ok status"
  shows "\<exists>merr. SentinelDiscover X arrival status_options cluster pool w = Some ((merr, cluster', pool'), w') \<and>
    (if (case merr of None \<Rightarrow> False | Some e \<Rightarrow> errors_As is_sentinel_failure e)
     then r = (False, merr) \<and> status' = status \<and> g' = g
     else snd r = None \<and> shows_cluster pool' status' cluster' \<and> status_ok status' \<and>
       (fst r = False \<longrightarrow> status' = status) \<and> g' = fold (publish_shard pool' name) (cl_Shards cluster') g)"
proof -
  obtain merr c p w1 where d: "SentinelDiscover X arrival status_options cluster pool w = Some ((merr, c, p), w1)"
    using assms(1) by (auto simp: sentinelStatusReconciler_def elim!: bind_SomeE)
  let ?fail = "case merr of None \<Rightarrow> False | Some e \<Rightarrow> errors_As is_sentinel_failure e"
  show ?thesis
  proof (cases ?fail)
    case True
    then show ?thesis using assms(1) d by (simp add: sentinelStatusReconciler_def)
  next
    case False
    let ?new = "cluster_status p c"
    let ?diff = "ss_Sentinels ?new \<noteq> ss_Sentinels status \<or> \<not> same_shards (ss_MonitoredShards ?new) (ss_MonitoredShards status)"
    have e: "cluster' = c" "pool' = p" "w' = w1" "g' = fold (publish_shard p name) (cl_Shards c) g"
      "(r, status') = (if ?diff then ((True, None), ?new) else ((False, None), status))"
      using assms(1) d False by (auto simp: sentinelStatusReconciler_def FromShardedCluster_def Let_def split: if_splits)
    have "shows_cluster p status c" if "\<not> ?diff"
    proof -
      have all: "length (cl_Shards c) = length (ss_MonitoredShards status)"
        "\<forall>i < length (cl_Shards c). sh_Name (cl_Shards c ! i) = ms_Name (ss_MonitoredShards status ! i) \<and>
           map_of (ms_Servers (monitored_shard p (cl_Shards c ! i))) = map_of (ms_Servers (ss_MonitoredShards status ! i))"
        using that by (auto simp: same_shards_def cluster_status_def list_all2_conv_all_nth monitored_shard_def)
      have "shows_shard p (ss_MonitoredShards status ! i) (cl_Shards c ! i)" if i: "i < length (cl_Shards c)" for i
      proof -
        have "distinct (map fst (ms_Servers (ss_MonitoredShards status ! i)))"
          using assms(2) i all(1) by (simp add: status_ok_def)
        moreover have "distinct (map fst (ms_Servers (monitored_shard p (cl_Shards c ! i))))"
          by (simp add: monitored_shard_def distinct_put_servers)
        moreover have "map_of (ms_Servers (ss_MonitoredShards status ! i)) = map_of (ms_Servers (monitored_shard p (cl_Shards c ! i)))"
          using all(2) i by simp
        ultimately have "mset (ms_Servers (ss_MonitoredShards status ! i)) = mset (ms_Servers (monitored_shard p (cl_Shards c ! i)))"
          by (rule same_map_mset)
        then show ?thesis using all(2) i by (simp add: shows_shard_def)
      qed
      then show ?thesis using that all(1)
        by (auto simp: shows_cluster_def cluster_status_def list_all2_conv_all_nth)
    qed
    moreover have "shows_cluster p ?new c" "status_ok ?new" by (rule cluster_status_shows, rule cluster_status_ok)
    ultimately have "snd r = None \<and> shows_cluster p status' c \<and> status_ok status' \<and> (fst r = False \<longrightarrow> status' = status)"
      using e(5) assms(2) by (cases ?diff) simp_all
    then show ?thesis unfolding d e(1-4) using False by simp
  qed
qed

text \<open>
  When no sentinel answers in time the error is not a failure of sentinel for
  \<^verbatim>\<open>errors.As\<close>: no error is returned and the published status is that of the cluster before
  any discovery, whatever roles it had, although the code means to discard the result then.
\<close>

lemma sentinelStatusReconciler_no_sentinel:
  assumes "GetSentinel X arrival cluster w = (None, w')" and "status_ok status"
  shows "\<exists>b status' g'. sentinelStatusReconciler X arrival name status cluster g pool w
      = Some (((b, None), status', g', cluster, pool), w') \<and> shows_cluster pool status' cluster"
proof -
  let ?e = "MultiError [ErrorString ''unable to find a healthy sentinel server'']"
  have d: "SentinelDiscover X arrival status_options cluster pool w = Some ((Some ?e, cluster, pool), w')"
    using assms(1) by (simp add: SentinelDiscover_def)
  then have "\<exists>b e status' g'. sentinelStatusReconciler X arrival name status cluster g pool w
      = Some (((b, e), status', g', cluster, pool), w')"
    by (simp add: sentinelStatusReconciler_def FromShardedCluster_def Let_def) blast
  then obtain b e status' g' where r: "sentinelStatusReconciler X arrival name status cluster g pool w
      = Some (((b, e), status', g', cluster, pool), w')" by blast
  then show ?thesis using sentinelStatusReconciler_effect [OF r assms(2)] d by simp
qed

lemma sentinel_publish_effect:
  assumes "sentinel_publish E cluster s = Some (Inr d, s')" and "status_ok (sx_status s)"
    and "\<forall>e st k. fst (se_status E (False, Some e) st k) = Some (Inl e)"
  shows "\<exists>merr cluster'. SentinelDiscover (se_X E) (se_arrival E) status_options cluster (sx_pool s) (sx_redis s)
      = Some ((merr, cluster', sx_pool s'), sx_redis s') \<and> (\<forall>e. merr = Some e \<longrightarrow> \<not> errors_As is_sentinel_failure e) \<and>
    shows_cluster (sx_pool s') (sx_status s') cluster' \<and> status_ok (sx_status s') \<and>
    sx_gauges s' = fold (publish_shard (sx_pool s') (sx_name s)) (cl_Shards cluster') (sx_gauges s) \<and>
    sx_events s' = sx_events s \<and> sx_metrics s' = sx_metrics s"
proof -
  obtain r status g c pool w where q: "sentinelStatusReconciler (se_X E) (se_arrival E) (sx_name s) (sx_status s)
      cluster (sx_gauges s) (sx_pool s) (sx_redis s) = Some ((r, status, g, c, pool), w)"
    using assms(1) by (auto simp: sentinel_publish_def elim!: bind_SomeE)
  obtain res k where k: "se_status E r status (sx_kube s) = (res, k)" by (rule prod.exhaust)
  have s': "s' = s\<lparr>sx_status := status, sx_gauges := g, sx_pool := pool, sx_redis := w, sx_kube := k\<rparr>"
    "res = None \<or> res = Some (Inr d)"
    using assms(1) q k by (auto simp: sentinel_publish_def Let_def split: option.splits)
  obtain merr where m: "SentinelDiscover (se_X E) (se_arrival E) status_options cluster (sx_pool s) (sx_redis s) = Some ((merr, c, pool), w)"
    "if (case merr of None \<Rightarrow> False | Some e \<Rightarrow> errors_As is_sentinel_failure e)
     then r = (False, merr) \<and> status = sx_status s \<and> g = sx_gauges s
     else snd r = None \<and> shows_cluster pool status c \<and> status_ok status \<and>
       (fst r = False \<longrightarrow> status = sx_status s) \<and> g = fold (publish_shard pool (sx_name s)) (cl_Shards c) (sx_gauges s)"
    using sentinelStatusReconciler_effect [OF q assms(2)] by blast
  have ok: "\<not> (case merr of None \<Rightarrow> False | Some e \<Rightarrow> errors_As is_sentinel_failure e)"
  proof
    assume f: "case merr of None \<Rightarrow> False | Some e \<Rightarrow> errors_As is_sentinel_failure e"
    then obtain e where "merr = Some e" by (cases merr) auto
    then have "fst (se_status E r status (sx_kube s)) = Some (Inl e)" using m(2) f assms(3) by simp
    then show False using k s'(2) by auto
  qed
  then have "\<forall>e. merr = Some e \<longrightarrow> \<not> errors_As is_sentinel_failure e" by auto
  with m ok show ?thesis by (auto simp: s'(1))
qed

lemma Sentinel_Reconcile_phases:
  assumes "Sentinel_Reconcile E s = Some (Inr d, s')" and "se_owned E (sx_spec s) (sx_kube s) = (None, k)"
  obtains cluster pool w s1 where
    "sentinel_threads E cluster (s\<lparr>sx_kube := k, sx_pool := pool, sx_redis := w\<rparr>) = Some (None, s1)"
    "sentinel_publish E cluster s1 = Some (Inr d, s')"
proof -
  obtain cluster s1 where p: "sentinel_prepare E (s\<lparr>sx_kube := k\<rparr>) = Some (Inr cluster, s1)"
    "sentinel_publish E cluster s1 = Some (Inr d, s')"
    using assms by (auto simp: Sentinel_Reconcile_def split: sum.splits elim!: bind_SomeE)
  then obtain pool w where "sentinel_threads E cluster (s\<lparr>sx_kube := k, sx_pool := pool, sx_redis := w\<rparr>) = Some (None, s1)"
    by (auto simp: sentinel_prepare_def Let_def split: sum.splits option.splits prod.splits elim!: bind_SomeE)
  with p(2) show thesis using that by blast
qed


section \<open>Witness\<close>

definition ex_url_parse :: "string \<Rightarrow> error + url" where
  "ex_url_parse u = Inr \<lparr>url_pre = take 8 u, url_Host = drop 8 u, url_post = ''''\<rparr>"

definition ex_config :: SentinelConfig where
  "ex_config = \<lparr>sc_MonitoredShards = Some [(''shard01'', [''redis://10.0.0.1:6379'', ''redis://10.0.0.2:6379''])],
     sc_ClusterTopology = None, sc_StorageClass = None, sc_StorageSize = None, sc_MetricsRefreshInterval = Some 30000000000\<rparr>"

definition ex_sen_spec :: SentinelSpec where
  "ex_sen_spec = \<lparr>sen_Image = None, sen_Replicas = Some 1, sen_PDB = None, sen_Resources = None, sen_LivenessProbe = None,
     sen_ReadinessProbe = None, sen_GrafanaDashboard = None, sen_Config = Some ex_config\<rparr>"

definition ex_sen_world :: fake_world where
  "ex_sen_world = (\<lambda>_. [])
     (''redis-sentinel-0.ns.svc.cluster.local:26379'' :=
        [ex_reply (ASlice [ASlice [AStr ''name'', AStr ''shard01'']]), ex_reply (ASlice []),
         ex_reply (ASlice [ASlice [AStr ''name'', AStr ''shard01'']]),
         ex_reply (AMaster ex_master), ex_reply (AStrings [''10.0.0.1'', ''6379'']),
         ex_reply (ASlice [ASlice [AStr ''name'', AStr ''10.0.0.2:6379'', AStr ''ip'', AStr ''10.0.0.2'',
           AStr ''port'', AStr ''6379'', AStr ''flags'', AStr ''slave'']])],
      ''10.0.0.1:6379'' := [ex_reply (ASlice [AStr ''master'']), ex_reply (ASlice [AStr ''save'', AStr '''']),
         ex_reply (ASlice [AStr ''slave-priority'', AStr ''100''])],
      ''10.0.0.2:6379'' := [ex_reply (ASlice [AStr ''slave'', AStr ''10.0.0.1'']), ex_reply (ASlice [AStr ''save'', AStr '''']),
         ex_reply (ASlice [AStr ''slave-read-only'', AStr ''yes'']), ex_reply (ASlice [AStr ''slave-priority'', AStr ''100'']),
         ex_reply (AStr ''master_link_status:up'')])"

definition ex_sen_env :: "(fake_world, unit) sen_env" where
  "ex_sen_env = \<lparr>se_X = fake_lib, se_P = ex_url_parse,
     se_R = \<lparr>net_ParseIP = Some, net_LookupIP = (\<lambda>h. Inr [])\<rparr>,
     se_I = \<lparr>it_shards = rev, it_lists = id, it_servers = rev\<rparr>, se_arrival = [0],
     se_owned = (\<lambda>spec k. (None, k)),
     se_status = (\<lambda>r st k. (case snd r of Some e \<Rightarrow> Some (Inl e) | None \<Rightarrow> None, k))\<rparr>"

definition ex_sen_state :: "(fake_world, unit) sen_state" where
  "ex_sen_state = \<lparr>sx_name = ''sentinel'', sx_namespace = ''ns'', sx_spec = ex_sen_spec,
     sx_status = \<lparr>ss_Sentinels = [], ss_MonitoredShards = []\<rparr>, sx_events = NewManager, sx_metrics = NewManager,
     sx_pool = [], sx_gauges = Map.empty, sx_kube = (), sx_redis = ex_sen_world\<rparr>"

text \<open>The calls of the reconciliation up to the discovery, without the start of the threads.\<close>

definition ex_sen_run :: "(error option \<times> string list list) option" where
  "ex_sen_run =
     do { t \<leftarrow> ClusterTopology ex_url_parse (se_R ex_sen_env) (se_I ex_sen_env) ''ns'' ex_sen_spec;
          clustermap \<leftarrow> (case t of Inl e \<Rightarrow> None | Inr m \<Rightarrow> Some m);
          (cluster, pool) \<leftarrow> (case NewShardedClusterFromTopology fake_lib (map (\<lambda>(n, m). (n, rev m)) (rev clustermap)) [] of
             (Inl e, p) \<Rightarrow> None | (Inr c, p) \<Rightarrow> Some (c, p));
          ((e, cluster, pool), w) \<leftarrow> ensure_monitored fake_lib (cl_Sentinels cluster) cluster pool ex_sen_world;
          uris \<leftarrow> SentinelURIs ''ns'' ex_sen_spec;
          (r, pool) \<leftarrow> new_gatherers fake_lib cluster (Some 30000000000) uris pool;
          wg \<leftarrow> (case r of Inl e \<Rightarrow> None | Inr x \<Rightarrow> Some x);
          if e \<noteq> None then None
          else do { ((e, c, p), w) \<leftarrow> SentinelDiscover fake_lib [0] status_options cluster pool w;
                    Some (e, map (\<lambda>sh. map rs_ID (sh_Servers sh)) (cl_Shards c)) } }"

lemma ex_sen_run: "ex_sen_run = Some (None, [[''10.0.0.1:6379'', ''10.0.0.2:6379'']])"
  by code_simp

lemma sentinel_threads_returns:
  assumes "SentinelURIs (sx_namespace s) (sx_spec s) = Some uris"
    and "new_gatherers (se_X E) cluster (sen_Config (sx_spec s) \<bind> sc_MetricsRefreshInterval) uris (sx_pool s) = Some (Inr (ws, gs), pool)"
    and "mgr_ok (sx_events s)" and "\<forall>cp. stoppable (watcher_ops (se_X E) cp) (sx_events s)"
    and "mgr_ok (sx_metrics s)" and "\<forall>g. stoppable (gatherer_ops g) (sx_metrics s)"
  shows "\<exists>m1 m2. sentinel_threads E cluster s = Some (None, s\<lparr>sx_pool := pool, sx_events := m1, sx_metrics := m2\<rparr>)"
proof -
  let ?T = "watcher_ops (se_X E) (Map.empty, pool)" and ?G = "gatherer_ops (sx_gauges s)"
  obtain e1 m1 where r1: "ReconcileThreads ?T (sen_owner s) ws (sx_events s) = Some (e1, m1)"
    using ReconcileThreads_returns [OF assms(3) spec [OF assms(4)]] by blast
  obtain e2 m2 where r2: "ReconcileThreads ?G (sen_owner s) gs (sx_metrics s) = Some (e2, m2)"
    using ReconcileThreads_returns [OF assms(5) spec [OF assms(6)]] by blast
  have "e1 = None" by (rule ReconcileThreads_no_error [OF _ r1]) (simp add: watcher_ops_def)
  moreover have "e2 = None" by (rule ReconcileThreads_no_error [OF _ r2]) (simp add: gatherer_ops_def)
  ultimately have "sentinel_threads E cluster s = Some (None, s\<lparr>sx_pool := pool, sx_events := m1, sx_metrics := m2\<rparr>)"
    using assms(1,2) r1 r2 by (simp add: sentinel_threads_def sen_owner_def)
  then show ?thesis by blast
qed

lemma stoppable_New: "stoppable T NewManager"
  by (simp add: stoppable_def NewManager_def)

lemma ex_sen_selectors:
  "se_X ex_sen_env = fake_lib" "se_P ex_sen_env = ex_url_parse" "se_arrival ex_sen_env = [0]"
  "it_shards (se_I ex_sen_env) = rev" "it_servers (se_I ex_sen_env) = rev" "se_owned ex_sen_env spec k = (None, k)"
  "se_status ex_sen_env r st k = (case snd r of Some e \<Rightarrow> Some (Inl e) | None \<Rightarrow> None, k)"
  "sx_namespace ex_sen_state = ''ns''" "sx_spec ex_sen_state = ex_sen_spec" "sx_pool ex_sen_state = []"
  "sx_redis ex_sen_state = ex_sen_world" "sx_events ex_sen_state = NewManager" "sx_metrics ex_sen_state = NewManager"
  "sen_Config ex_sen_spec \<bind> sc_MetricsRefreshInterval = Some 30000000000" "sx_status ex_sen_state = \<lparr>ss_Sentinels = [], ss_MonitoredShards = []\<rparr>"
  "sen_owner ex_sen_state = (''ns'', ''sentinel'')" "sx_name ex_sen_state = ''sentinel''"
  by (simp_all add: ex_sen_env_def ex_sen_state_def ex_sen_spec_def ex_config_def sen_owner_def)

lemma ex_sen_reconcile: "\<exists>s'. Sentinel_Reconcile ex_sen_env ex_sen_state = Some (Inr 30000000000, s')"
proof -
  obtain cm cl0 p0 cl p w uris ws gs p1 c2 p2 w2 where
    t: "ClusterTopology ex_url_parse (se_R ex_sen_env) (se_I ex_sen_env) ''ns'' ex_sen_spec = Some (Inr cm)"
    and n: "NewShardedClusterFromTopology fake_lib (map (\<lambda>(n, m). (n, rev m)) (rev cm)) [] = (Inr cl0, p0)"
    and m: "ensure_monitored fake_lib (cl_Sentinels cl0) cl0 p0 ex_sen_world = Some ((None, cl, p), w)"
    and u: "SentinelURIs ''ns'' ex_sen_spec = Some uris"
    and g: "new_gatherers fake_lib cl (Some 30000000000) uris p = Some (Inr (ws, gs), p1)"
    and d: "SentinelDiscover fake_lib [0] status_options cl p1 w = Some ((None, c2, p2), w2)"
    using ex_sen_run unfolding ex_sen_run_def
    by (auto split: sum.splits prod.splits if_splits elim!: bind_SomeE)
  let ?s = "ex_sen_state\<lparr>sx_kube := (), sx_pool := p, sx_redis := w\<rparr>"
  obtain m1 m2 where th: "sentinel_threads ex_sen_env cl ?s = Some (None, ?s\<lparr>sx_pool := p1, sx_events := m1, sx_metrics := m2\<rparr>)"
    using sentinel_threads_returns [of ?s uris ex_sen_env cl ws gs p1] u g
    by (auto simp: ex_sen_selectors mgr_ok_New stoppable_New)
  have "sentinel_prepare ex_sen_env (ex_sen_state\<lparr>sx_kube := ()\<rparr>) = Some (Inr cl, ?s\<lparr>sx_pool := p1, sx_events := m1, sx_metrics := m2\<rparr>)"
    using t n m th by (simp add: sentinel_prepare_def ex_sen_selectors)
  then show ?thesis using d
    by (simp add: Sentinel_Reconcile_def sentinel_publish_def sentinelStatusReconciler_def FromShardedCluster_def ex_sen_selectors Let_def)
qed


text \<open>A cluster built from the topology, none of whose sentinels answers.\<close>

definition ex_unknown :: Cluster where
  "ex_unknown = \<lparr>cl_Shards = [\<lparr>sh_Name = ''shard01'', sh_Servers = [unknown_server (''10.0.0.1'', ''6379'')]\<rparr>],
     cl_Sentinels = [ex_sentinel]\<rparr>"

end
