(* ===== verification/PodSync.thy ===== *)
theory PodSync
  imports Prelude "HOL-Library.Sublist"
begin

text \<open>
  The annotation of the twemproxy pods, \<^verbatim>\<open>reconcileSyncAnnotations\<close> and \<^verbatim>\<open>syncPod\<close> of
  \<^verbatim>\<open>internal/controller/twemproxyconfig_controller.go\<close>: one goroutine per pod patches the pod
  and sends its error, if any, on an unbuffered channel; a listener goroutine collects the errors
  until the context ends; the caller waits for the pod goroutines, cancels the context and reads
  the collected errors.
\<close>

section \<open>One pod\<close>

record pod =
  pod_Name :: string
  pod_Annotations :: "(string \<rightharpoonup> string) option"

definition TwemproxySyncAnnotationKey :: string where
  "TwemproxySyncAnnotationKey = ''saas.3scale.net/twemproxyconfig.configmap-hash''"

definition carries :: "string \<Rightarrow> pod \<Rightarrow> bool" where
  "carries hash p \<longleftrightarrow>
     (case pod_Annotations p of None \<Rightarrow> False | Some m \<Rightarrow> m TwemproxySyncAnnotationKey = Some hash)"

text \<open>The pod that \<^verbatim>\<open>syncPod\<close> sends in its patch.\<close>

definition annotate :: "string \<Rightarrow> pod \<Rightarrow> pod" where
  "annotate hash p =
     p\<lparr>pod_Annotations := Some (case pod_Annotations p of
         Some m \<Rightarrow> m(TwemproxySyncAnnotationKey \<mapsto> hash)
       | None \<Rightarrow> [TwemproxySyncAnnotationKey \<mapsto> hash])\<rparr>"

lemma names_annotate: "map pod_Name (ps[i := annotate hash (ps ! i)]) = map pod_Name ps"
  by (induction ps arbitrary: i) (auto simp: annotate_def split: nat.split)

lemma carries_annotate [simp]: "carries hash (annotate hash p)"
  by (auto simp: carries_def annotate_def split: option.split)

section \<open>The goroutines\<close>

text \<open>
  A pod goroutine runs \<^verbatim>\<open>syncPod\<close>, may block on the send of its error, and ends. The listener
  receives an error first and appends it to the list after. \<open>sy_failed\<close> is a ghost: the indices of
  the pods whose patch failed.
\<close>

datatype pod_routine = Syncing | SendingError error | Synced

datatype listener = ListenErr | GotError error | ListenerGone

datatype caller = WaitingForPods | SyncReturned "error option"

record sync_state =
  sy_pods :: "pod list"
  sy_routines :: "pod_routine list"
  sy_listener :: listener
  sy_failures :: "error list"
  sy_ctxDone :: bool
  sy_caller :: caller
  sy_failed :: "nat set"

definition sync_start :: "pod list \<Rightarrow> sync_state" where
  "sync_start pods =
     \<lparr>sy_pods = pods, sy_routines = replicate (length pods) Syncing, sy_listener = ListenErr, sy_failures = [],
      sy_ctxDone = False, sy_caller = WaitingForPods, sy_failed = {}\<rparr>"

inductive sync_step :: "string \<Rightarrow> sync_state \<Rightarrow> sync_state \<Rightarrow> bool" for hash where
  up_to_date: "i < length (sy_routines s) \<Longrightarrow> sy_routines s ! i = Syncing \<Longrightarrow> carries hash (sy_pods s ! i) \<Longrightarrow>
    sync_step hash s (s\<lparr>sy_routines := (sy_routines s)[i := Synced]\<rparr>)"
| patched: "i < length (sy_routines s) \<Longrightarrow> sy_routines s ! i = Syncing \<Longrightarrow> \<not> carries hash (sy_pods s ! i) \<Longrightarrow>
    sync_step hash s (s\<lparr>sy_routines := (sy_routines s)[i := Synced],
      sy_pods := (sy_pods s)[i := annotate hash (sy_pods s ! i)]\<rparr>)"
| patch_failed: "i < length (sy_routines s) \<Longrightarrow> sy_routines s ! i = Syncing \<Longrightarrow> \<not> carries hash (sy_pods s ! i) \<Longrightarrow>
    sync_step hash s (s\<lparr>sy_routines := (sy_routines s)[i := SendingError e], sy_failed := insert i (sy_failed s)\<rparr>)"
| error_sent: "i < length (sy_routines s) \<Longrightarrow> sy_routines s ! i = SendingError e \<Longrightarrow> sy_listener s = ListenErr \<Longrightarrow>
    sync_step hash s (s\<lparr>sy_routines := (sy_routines s)[i := Synced], sy_listener := GotError e\<rparr>)"
| error_kept: "sy_listener s = GotError e \<Longrightarrow>
    sync_step hash s (s\<lparr>sy_listener := ListenErr, sy_failures := sy_failures s @ [e]\<rparr>)"
| listener_ends: "sy_listener s = ListenErr \<Longrightarrow> sy_ctxDone s \<Longrightarrow> sync_step hash s (s\<lparr>sy_listener := ListenerGone\<rparr>)"
| context_ends: "sync_step hash s (s\<lparr>sy_ctxDone := True\<rparr>)"
| all_synced: "sy_caller s = WaitingForPods \<Longrightarrow> set (sy_routines s) \<subseteq> {Synced} \<Longrightarrow>
    sync_step hash s (s\<lparr>sy_ctxDone := True,
      sy_caller := SyncReturned (if length (sy_failures s) > 0 then Some (MultiError (sy_failures s)) else None)\<rparr>)"

inductive_cases sync_stepE [elim]: "sync_step hash s s'"

inductive sync_reach :: "string \<Rightarrow> pod list \<Rightarrow> sync_state \<Rightarrow> bool" for hash pods where
  sync_init: "sync_reach hash pods (sync_start pods)"
| sync_next: "sync_reach hash pods s \<Longrightarrow> sync_step hash s s' \<Longrightarrow> sync_reach hash pods s'"

section \<open>Which pods are annotated\<close>

definition sending :: "sync_state \<Rightarrow> nat set" where
  "sending s = {i. i < length (sy_routines s) \<and> (\<exists>e. sy_routines s ! i = SendingError e)}"

definition received :: "sync_state \<Rightarrow> nat" where
  "received s = length (sy_failures s) + (case sy_listener s of GotError _ \<Rightarrow> 1 | _ \<Rightarrow> 0)"

text \<open>
  Every finished pod carries the hash or its patch failed; the pods whose patch failed are
  those that still send their error and those whose error the listener took.
\<close>

definition sync_inv :: "string \<Rightarrow> pod list \<Rightarrow> sync_state \<Rightarrow> bool" where
  "sync_inv hash pods s \<longleftrightarrow>
     length (sy_pods s) = length pods \<and> length (sy_routines s) = length pods \<and>
     map pod_Name (sy_pods s) = map pod_Name pods \<and>
     sy_failed s \<subseteq> {..<length pods} \<and> sending s \<subseteq> sy_failed s \<and>
     (\<forall>i < length pods. sy_routines s ! i = Syncing \<longrightarrow> i \<notin> sy_failed s) \<and>
     (\<forall>i < length pods. sy_routines s ! i = Synced \<longrightarrow> carries hash (sy_pods s ! i) \<or> i \<in> sy_failed s) \<and>
     card (sy_failed s) = card (sending s) + received s \<and>
     (case sy_caller s of
        WaitingForPods \<Rightarrow> True
      | SyncReturned r \<Rightarrow> set (sy_routines s) \<subseteq> {Synced} \<and> sy_ctxDone s \<and>
          (r = None \<longrightarrow> received s \<le> 1) \<and> (\<forall>e. r = Some e \<longrightarrow> (\<exists>es. e = MultiError es \<and> es \<noteq> [])))"

lemma sending_Synced:
  "sending (s\<lparr>sy_routines := (sy_routines s)[i := Synced]\<rparr>) = sending s - {i}"
  by (cases "i < length (sy_routines s)") (auto simp: sending_def nth_list_update split: if_splits)

lemma sending_frame [simp]:
  "sending (s\<lparr>sy_pods := p\<rparr>) = sending s" "sending (s\<lparr>sy_listener := l\<rparr>) = sending s"
  "sending (s\<lparr>sy_failures := f\<rparr>) = sending s" "sending (s\<lparr>sy_ctxDone := b\<rparr>) = sending s"
  "sending (s\<lparr>sy_caller := c\<rparr>) = sending s" "sending (s\<lparr>sy_failed := d\<rparr>) = sending s"
  by (simp_all add: sending_def)

lemma finite_sending [simp]: "finite (sending s)"
  by (simp add: sending_def)

lemma received_frame [simp]:
  "received (s\<lparr>sy_pods := p\<rparr>) = received s" "received (s\<lparr>sy_routines := r\<rparr>) = received s"
  "received (s\<lparr>sy_ctxDone := b\<rparr>) = received s" "received (s\<lparr>sy_caller := c\<rparr>) = received s"
  "received (s\<lparr>sy_failed := d\<rparr>) = received s"
  by (simp_all add: received_def)

lemma returned_not_syncing:
  "sync_inv hash pods s \<Longrightarrow> i < length (sy_routines s) \<Longrightarrow> sy_routines s ! i \<noteq> Synced \<Longrightarrow>
     sy_caller s = WaitingForPods"
  by (cases "sy_caller s") (fastforce simp: sync_inv_def subset_iff dest: nth_mem)+

lemma sync_inv_step:
  assumes "sync_step hash s s'" and "sync_inv hash pods s"
  shows "sync_inv hash pods s'"
  using assms
proof (induction rule: sync_step.induct)
  case (up_to_date i s)
  have "sy_caller s = WaitingForPods"
    by (rule returned_not_syncing [OF up_to_date(4,1)]) (simp add: up_to_date(2))
  moreover have "sending s - {i} = sending s" using up_to_date(2) by (auto simp: sending_def)
  ultimately show ?case using up_to_date unfolding sync_inv_def
    by (auto simp: sending_Synced nth_list_update)
next
  case (patched i s)
  let ?s' = "s\<lparr>sy_routines := (sy_routines s)[i := Synced], sy_pods := (sy_pods s)[i := annotate hash (sy_pods s ! i)]\<rparr>"
  have "sy_caller s = WaitingForPods"
    by (rule returned_not_syncing [OF patched(4,1)]) (simp add: patched(2))
  moreover have "sending ?s' = sending s"
    using patched(2) unfolding sending_Synced sending_frame by (auto simp: sending_def nth_list_update)
  ultimately show ?case using patched names_annotate [of "sy_pods s" i hash] unfolding sync_inv_def
    by (auto simp: nth_list_update)
next
  case (patch_failed i s e)
  let ?s' = "s\<lparr>sy_routines := (sy_routines s)[i := SendingError e], sy_failed := insert i (sy_failed s)\<rparr>"
  have "sy_caller s = WaitingForPods"
    by (rule returned_not_syncing [OF patch_failed(4,1)]) (simp add: patch_failed(2))
  moreover have i: "i \<notin> sy_failed s" "i \<notin> sending s" "finite (sy_failed s)" "i < length pods"
    using patch_failed by (auto simp: sync_inv_def sending_def intro: finite_subset [of _ "{..<length pods}"])
  moreover have "sending ?s' = insert i (sending s)"
    using patch_failed(1) by (auto simp: sending_def nth_list_update)
  moreover have "card (insert i (sy_failed s)) = card (insert i (sending s)) + received s"
    using patch_failed(4) i by (simp add: sync_inv_def)
  ultimately show ?case using patch_failed(1,4) unfolding sync_inv_def
    by (auto simp: nth_list_update)
next
  case (error_sent i s e)
  let ?s' = "s\<lparr>sy_routines := (sy_routines s)[i := Synced], sy_listener := GotError e\<rparr>"
  have "sy_caller s = WaitingForPods"
    by (rule returned_not_syncing [OF error_sent(4,1)]) (simp add: error_sent(2))
  moreover have i: "i \<in> sending s" using error_sent(1,2) by (auto simp: sending_def)
  moreover have "sending ?s' = sending s - {i}"
    using error_sent(1) by (auto simp: sending_def nth_list_update split: if_splits)
  moreover have "card (sy_failed s) = card (sending s - {i}) + received ?s'"
    using error_sent(3,4) card_Suc_Diff1 [OF finite_sending i] by (simp add: sync_inv_def received_def)
  ultimately show ?case using error_sent(1,4) unfolding sync_inv_def
    by (auto simp: nth_list_update)
next
  case (error_kept s e)
  then show ?case by (simp add: sync_inv_def received_def split: caller.splits)
next
  case (listener_ends s)
  then show ?case by (simp add: sync_inv_def received_def split: caller.splits)
next
  case (context_ends s)
  then show ?case by (simp add: sync_inv_def split: caller.splits)
next
  case (all_synced s)
  have "sy_failures s = [] \<Longrightarrow> received s \<le> 1" by (simp add: received_def split: listener.split)
  with all_synced show ?case by (simp add: sync_inv_def)
qed

lemma sync_reach_inv: "sync_reach hash pods s \<Longrightarrow> sync_inv hash pods s"
proof (induction rule: sync_reach.induct)
  case sync_init
  show ?case by (auto simp: sync_inv_def sync_start_def sending_def received_def)
next
  case (sync_next s s')
  then show ?case using sync_inv_step by blast
qed

text \<open>
  C6. What a return of the pod synchronisation means, over all interleavings of the pod
  goroutines, the listener and the end of the context. The pods are the ones listed, no pod
  goroutine is left, and every pod carries the hash or is one of those whose patch failed. A
  return with an error carries at least one of the failures; a return without error means that
  at most one pod was left without the hash.
\<close>

theorem sync_returned:
  assumes "sync_reach hash pods s" and "sy_caller s = SyncReturned r"
  shows "map pod_Name (sy_pods s) = map pod_Name pods \<and> set (sy_routines s) \<subseteq> {Synced} \<and>
    {i. i < length pods \<and> \<not> carries hash (sy_pods s ! i)} \<subseteq> sy_failed s \<and>
    (r = None \<longrightarrow> card {i. i < length pods \<and> \<not> carries hash (sy_pods s ! i)} \<le> 1) \<and>
    (\<forall>e. r = Some e \<longrightarrow> (\<exists>es. e = MultiError es \<and> es \<noteq> []))"
proof -
  note inv = sync_reach_inv [OF assms(1), unfolded sync_inv_def assms(2) caller.case]
  have all: "sy_routines s ! i = Synced" if "i < length pods" for i
    using inv that nth_mem [of i "sy_routines s"] by (simp add: subset_iff)
  have sub: "{i. i < length pods \<and> \<not> carries hash (sy_pods s ! i)} \<subseteq> sy_failed s"
    using inv all by blast
  have "finite (sy_failed s)" using inv by (auto intro: finite_subset [of _ "{..<length pods}"])
  moreover have "sending s = {}" using inv all by (auto simp: sending_def)
  ultimately have "r = None \<Longrightarrow> card {i. i < length pods \<and> \<not> carries hash (sy_pods s ! i)} \<le> 1"
    using card_mono [OF _ sub] inv by simp
  with inv sub show ?thesis by blast
qed

section \<open>The two flaws of the error channel\<close>

definition sync_steps :: "string \<Rightarrow> sync_state \<Rightarrow> sync_state \<Rightarrow> bool" where
  "sync_steps hash = (sync_step hash)\<^sup>*\<^sup>*"

definition sync_stuck :: "sync_state \<Rightarrow> bool" where
  "sync_stuck s \<longleftrightarrow> sy_caller s = WaitingForPods \<and> sy_listener s = ListenerGone \<and> sending s \<noteq> {}"

lemma sync_stuck_step:
  assumes "sync_stuck s" and "sync_step hash s s'"
  shows "sync_stuck s'"
proof -
  obtain j e where j: "j < length (sy_routines s)" "sy_routines s ! j = SendingError e"
    using assms(1) by (auto simp: sync_stuck_def sending_def)
  have "SendingError e \<in> set (sy_routines s)" using j nth_mem by metis
  with assms j have "sy_caller s' = WaitingForPods \<and> sy_listener s' = ListenerGone \<and>
      j < length (sy_routines s') \<and> sy_routines s' ! j = SendingError e"
    by (elim sync_stepE) (auto simp: sync_stuck_def nth_list_update)
  then show ?thesis by (auto simp: sync_stuck_def sending_def)
qed

lemma sync_stuck_forever:
  assumes "sync_stuck s" and "sync_steps hash s s'"
  shows "sync_stuck s'"
  using assms(2,1) unfolding sync_steps_def
  by (induction rule: rtranclp_induct) (auto intro: sync_stuck_step)

lemma sync_reach_failed:
  assumes "\<not> carries hash p"
  shows "sync_reach hash [p] ((sync_start [p])\<lparr>sy_routines := [SendingError e], sy_failed := {0}\<rparr>)"
  using sync_next [OF sync_init [of hash "[p]"] patch_failed [where i = 0 and e = e]] assms by (simp add: sync_start_def)

text \<open>
  C7. The deadlock of the pod synchronisation. For a pod that has to be patched, there is a run
  in which the context of five seconds ends before the patch returns: the listener is gone when
  the pod goroutine sends its error on the unbuffered channel, the send never completes, and the
  caller never returns from the wait, whatever happens next.
\<close>

theorem sync_deadlock:
  assumes "\<not> carries hash p"
  shows "\<exists>s. sync_reach hash [p] s \<and> (\<forall>s'. sync_steps hash s s' \<longrightarrow> sy_caller s' = WaitingForPods)"
proof -
  let ?s0 = "(sync_start [p])\<lparr>sy_routines := [SendingError (ErrorString ''context deadline exceeded'')], sy_failed := {0}\<rparr>"
  let ?s1 = "?s0\<lparr>sy_ctxDone := True\<rparr>" and ?s2 = "?s0\<lparr>sy_ctxDone := True, sy_listener := ListenerGone\<rparr>"
  have "sync_reach hash [p] ?s1" by (rule sync_next [OF sync_reach_failed [OF assms] context_ends])
  then have "sync_reach hash [p] ?s2"
    using sync_next [OF _ listener_ends, of hash "[p]" ?s1] by (simp add: sync_start_def)
  moreover have "sync_stuck ?s2" by (auto simp: sync_stuck_def sync_start_def sending_def)
  ultimately show ?thesis using sync_stuck_forever sync_stuck_def by blast
qed

text \<open>
  The lost error of the pod synchronisation. There is a run in which the patch of a pod
  fails, the listener has received the error but not yet appended it when the caller looks at
  the list, and the caller returns without error while the pod does not carry the hash. So the
  bound of one pod in the previous property is reached.
\<close>

lemma sync_error_lost:
  assumes "\<not> carries hash p"
  shows "\<exists>s. sync_reach hash [p] s \<and> sy_caller s = SyncReturned None \<and> \<not> carries hash (sy_pods s ! 0)"
proof -
  let ?e = "ErrorString ''patch failed''"
  let ?s0 = "(sync_start [p])\<lparr>sy_routines := [SendingError ?e], sy_failed := {0}\<rparr>"
  let ?s1 = "?s0\<lparr>sy_routines := [Synced], sy_listener := GotError ?e\<rparr>"
  have "sync_reach hash [p] ?s1"
    using sync_next [OF sync_reach_failed [OF assms] error_sent, of 0 ?e] by (simp add: sync_start_def)
  then have "sync_reach hash [p] (?s1\<lparr>sy_ctxDone := True, sy_caller := SyncReturned None\<rparr>)"
    using sync_next [OF _ all_synced, of hash "[p]" ?s1] by (simp add: sync_start_def)
  with assms show ?thesis
    by (intro exI [of _ "?s1\<lparr>sy_ctxDone := True, sy_caller := SyncReturned None\<rparr>"]) (simp add: sync_start_def)
qed

section \<open>Witnesses\<close>

definition ex_pod :: pod where
  "ex_pod = \<lparr>pod_Name = ''twemproxy-0'', pod_Annotations = None\<rparr>"

theorem sync_returned_witness:
  "\<exists>s. sync_reach ''h'' [ex_pod] s \<and> sy_caller s = SyncReturned None \<and> carries ''h'' (sy_pods s ! 0) \<and>
     set (sy_routines s) \<subseteq> {Synced}"
proof -
  have "\<not> carries ''h'' ex_pod" by (simp add: carries_def ex_pod_def)
  then have "sync_reach ''h'' [ex_pod] ((sync_start [ex_pod])\<lparr>sy_routines := [Synced], sy_pods := [annotate ''h'' ex_pod]\<rparr>)"
    using sync_next [OF sync_init [of "''h''" "[ex_pod]"] patched [where i = 0]] by (simp add: sync_start_def)
  from sync_next [OF this all_synced]
  have "sync_reach ''h'' [ex_pod] ((sync_start [ex_pod])\<lparr>sy_routines := [Synced], sy_pods := [annotate ''h'' ex_pod],
      sy_ctxDone := True, sy_caller := SyncReturned None\<rparr>)" (is "sync_reach _ _ ?s")
    by (simp add: sync_start_def)
  moreover from sync_returned [OF this, of None] have "set (sy_routines ?s) \<subseteq> {Synced}" by simp
  ultimately show ?thesis by (intro exI [of _ ?s]) simp
qed

theorem sync_deadlock_witness:
  "\<exists>s. sync_reach ''h'' [ex_pod] s \<and> (\<forall>s'. sync_steps ''h'' s s' \<longrightarrow> sy_caller s' = WaitingForPods)"
  using sync_deadlock [of "''h''" ex_pod] by (simp add: carries_def ex_pod_def)

end
