(* ===== verification/TwemproxyController.thy ===== *)
theory TwemproxyController
  imports Twemproxy PodSync
begin

text \<open>
  The controller of the TwemproxyConfig resources,
  \<^verbatim>\<open>internal/controller/twemproxyconfig_controller.go\<close>: it writes the generated configuration to
  a ConfigMap, forces the pods to read it, keeps one event watcher per sentinel and publishes the
  selected targets in the status.

  The Kubernetes client is a parameter: a record \<open>K\<close> of calls on a world \<open>'k\<close>. The concurrent
  annotation of the pods is the step relation of theory PodSync; here it is the parameter
  \<open>te_sync\<close>, one of its outcomes, where \<^const>\<open>None\<close> is a synchronisation that never returns.
\<close>

section \<open>The Kubernetes client\<close>

text \<open>\<^verbatim>\<open>Get\<close> returns \<^term>\<open>Inr None\<close> for an error that \<^verbatim>\<open>apierrors.IsNotFound\<close> accepts.\<close>

record 'k kube =
  kc_Get :: "owner \<Rightarrow> 'k \<Rightarrow> (error + ConfigMap option) \<times> 'k"
  kc_Create :: "ConfigMap \<Rightarrow> 'k \<Rightarrow> error option \<times> 'k"
  kc_Patch :: "ConfigMap \<Rightarrow> 'k \<Rightarrow> error option \<times> 'k"
  kc_SetControllerReference :: "owner \<Rightarrow> ConfigMap \<Rightarrow> error + ConfigMap"
  kc_ListSentinels :: "string \<Rightarrow> 'k \<Rightarrow> error + string list list"
  kc_UpdateStatus :: "TwemproxyConfig \<Rightarrow> 'k \<Rightarrow> error option \<times> 'k"
  kc_GrafanaDashboard :: "Generator \<Rightarrow> 'k \<Rightarrow> error option \<times> 'k"

definition cm_key :: "ConfigMap \<Rightarrow> owner" where
  "cm_key cm = (cm_Namespace cm, cm_Name cm)"

section \<open>The steps of the reconciliation\<close>

definition reconcileConfigMap ::
    "'k kube \<Rightarrow> ((string \<rightharpoonup> string) \<Rightarrow> string) \<Rightarrow> owner \<Rightarrow> ConfigMap \<Rightarrow> bool \<Rightarrow> 'k \<Rightarrow> (error + string) \<times> 'k" where
  "reconcileConfigMap K hash own desired reconcileData k =
     (case kc_Get K (cm_key desired) k of
        (Inl e, k) \<Rightarrow> (Inl e, k)
      | (Inr None, k) \<Rightarrow>
          (case kc_SetControllerReference K own desired of
             Inl e \<Rightarrow> (Inl e, k)
           | Inr desired \<Rightarrow>
               (case kc_Create K desired k of
                  (Some e, k) \<Rightarrow> (Inl e, k)
                | (None, k) \<Rightarrow> (Inr (hash (cm_Data desired)), k)))
      | (Inr (Some current), k) \<Rightarrow>
          if reconcileData \<and> cm_Data desired \<noteq> cm_Data current then
            let current = current\<lparr>cm_Data := cm_Data desired\<rparr>
            in case kc_Patch K current k of
                 (Some e, k) \<Rightarrow> (Inl e, k)
               | (None, k) \<Rightarrow> (Inr (hash (cm_Data current)), k)
          else (Inr (hash (cm_Data current)), k))"

fun new_watchers ::
    "'w lib \<Rightarrow> string list \<Rightarrow> ServerPool \<Rightarrow> (error + SentinelEventWatcher list) \<times> ServerPool" where
  "new_watchers X [] pool = (Inr [], pool)"
| "new_watchers X (uri # uris) pool =
     (case NewSentinelEventWatcher X uri None False pool of
        (Inl e, pool) \<Rightarrow> (Inl e, pool)
      | (Inr watcher, pool) \<Rightarrow>
          (case new_watchers X uris pool of
             (Inl e, pool) \<Rightarrow> (Inl e, pool)
           | (Inr ws, pool) \<Rightarrow> (Inr (watcher # ws), pool)))"

definition target_server :: "twemproxy_Server \<Rightarrow> TargetServer" where
  "target_server srv = \<lparr>ts_ServerAlias = Some (twemproxy_Alias srv), ts_ServerAddress = tw_Address srv\<rparr>"

text \<open>
  \<^verbatim>\<open>reconcileStatus\<close>: the comparison is semantic, a nil map equals an empty one. A
  specification without pools indexes out of range and panics.
\<close>

definition reconcileStatus ::
    "'k kube \<Rightarrow> Generator \<Rightarrow> TwemproxyConfig \<Rightarrow> 'k \<Rightarrow> (error option \<times> TwemproxyConfig \<times> 'k) option" where
  "reconcileStatus K gen inst k =
     do { p \<leftarrow> at (tcs_ServerPools (gen_Spec gen)) 0;
          targets \<leftarrow> GetTargets (tsp_Name p) gen;
          let selectedTargets = map_option target_server \<circ> targets;
          if selectedTargets \<noteq> (case tc_Targets inst of None \<Rightarrow> Map.empty | Some m \<Rightarrow> m) then
            let inst = inst\<lparr>tc_Targets := Some selectedTargets\<rparr>
            in case kc_UpdateStatus K inst k of
                 (Some e, k) \<Rightarrow> Some (Some e, inst, k)
               | (None, k) \<Rightarrow> Some (None, inst, k)
          else Some (None, inst, k) }"

section \<open>Reconcile\<close>

text \<open>The libraries and the choices of the scheduler that a reconciliation depends on.\<close>

record ('w, 'k) tw_env =
  te_X :: "'w lib"
  te_U :: "string \<Rightarrow> error + string \<times> string"
  te_iter :: "(string, string) gomap \<Rightarrow> (string, string) gomap"
  te_arrival :: "nat list"
  te_marshal :: "(string \<rightharpoonup> ServerPoolConfig) \<Rightarrow> error + string"
  te_hash :: "(string \<rightharpoonup> string) \<Rightarrow> string"
  te_K :: "'k kube"
  te_sync :: "TwemproxyConfig \<Rightarrow> string \<Rightarrow> 'k \<Rightarrow> (error option \<times> 'k) option"

record ('w, 'k) tw_state =
  tx_inst :: TwemproxyConfig
  tx_mgr :: "SentinelEventWatcher Manager"
  tx_pool :: ServerPool
  tx_gauge :: rw_gauge
  tx_kube :: 'k
  tx_redis :: 'w

definition tw_owner :: "TwemproxyConfig \<Rightarrow> owner" where
  "tw_owner inst = (tc_namespace inst, tc_name inst)"

text \<open>The last steps: watchers, dashboard and status. The metrics of these watchers are off.\<close>

definition reconcile_watchers ::
    "('w, 'k) tw_env \<Rightarrow> Generator \<Rightarrow> ('w, 'k) tw_state \<Rightarrow> ((error + int) \<times> ('w, 'k) tw_state) option" where
  "reconcile_watchers E gen s =
     (case new_watchers (te_X E) (case tcs_SentinelURIs (gen_Spec gen) of None \<Rightarrow> [] | Some uris \<Rightarrow> uris) (tx_pool s) of
        (Inl e, pool) \<Rightarrow> Some (Inl e, s\<lparr>tx_pool := pool\<rparr>)
      | (Inr watchers, pool) \<Rightarrow>
          do { let s = s\<lparr>tx_pool := pool\<rparr>;
               (e, mgr) \<leftarrow> ReconcileThreads (watcher_ops (te_X E) (Map.empty, pool)) (tw_owner (tx_inst s)) watchers (tx_mgr s);
               let s = s\<lparr>tx_mgr := mgr\<rparr>;
               case e of
                 Some e \<Rightarrow> Some (Inl e, s)
               | None \<Rightarrow>
                   (case kc_GrafanaDashboard (te_K E) gen (tx_kube s) of
                      (Some e, k) \<Rightarrow> Some (Inl e, s\<lparr>tx_kube := k\<rparr>)
                    | (None, k) \<Rightarrow>
                        do { (e, inst, k) \<leftarrow> reconcileStatus (te_K E) gen (tx_inst s) k;
                             let s = s\<lparr>tx_inst := inst, tx_kube := k\<rparr>;
                             case e of
                               Some e \<Rightarrow> Some (Inl e, s)
                             | None \<Rightarrow> Some (Inr 30000000000, s) }) })"

definition TwemproxyConfig_Reconcile ::
    "('w, 'k) tw_env \<Rightarrow> ('w, 'k) tw_state \<Rightarrow> ((error + int) \<times> ('w, 'k) tw_state) option" where
  "TwemproxyConfig_Reconcile E s =
     do { ((r, pool, g), w) \<leftarrow> NewGenerator (te_X E) (te_U E) (kc_ListSentinels (te_K E) (tc_namespace (tx_inst s)) (tx_kube s))
             (te_iter E) (te_arrival E) (tx_inst s) (tx_pool s) (tx_gauge s) (tx_redis s);
          let s = s\<lparr>tx_pool := pool, tx_gauge := g, tx_redis := w\<rparr>;
          case r of
            Inl e \<Rightarrow> Some (Inl e, s)
          | Inr gen \<Rightarrow>
              do { cm \<leftarrow> configMap (te_marshal E) gen;
                   reconcileData \<leftarrow> tcs_ReconcileServerPools (tc_Spec (tx_inst s));
                   case reconcileConfigMap (te_K E) (te_hash E) (tw_owner (tx_inst s)) cm reconcileData (tx_kube s) of
                     (Inl e, k) \<Rightarrow> Some (Inl e, s\<lparr>tx_kube := k\<rparr>)
                   | (Inr hash, k) \<Rightarrow>
                       do { (e, k) \<leftarrow> te_sync E (tx_inst s) hash k;
                            let s = s\<lparr>tx_kube := k\<rparr>;
                            case e of
                              Some e \<Rightarrow> Some (Inl e, s)
                            | None \<Rightarrow> reconcile_watchers E gen s } } }"

section \<open>The contract of the client\<close>

text \<open>
  What the code relies on: \<open>cms k\<close> is the ConfigMaps the API server holds. A read returns what is
  there; a create or patch without error stores the object; the owner reference touches neither
  the name nor the data. Nothing is promised of a call that fails.
\<close>

locale kube_client =
  fixes K :: "'k kube" and cms :: "'k \<Rightarrow> owner \<rightharpoonup> ConfigMap"
  assumes get: "kc_Get K key k = (Inr v, k') \<Longrightarrow> v = cms k key \<and> cms k' = cms k"
    and get_key: "cms k key = Some cm \<Longrightarrow> cm_key cm = key"
    and create: "kc_Create K cm k = (None, k') \<Longrightarrow> cms k' = (cms k)(cm_key cm \<mapsto> cm)"
    and patch: "kc_Patch K cm k = (None, k') \<Longrightarrow> cms k' = (cms k)(cm_key cm \<mapsto> cm)"
    and setref: "kc_SetControllerReference K own cm = Inr cm' \<Longrightarrow> cm_key cm' = cm_key cm \<and> cm_Data cm' = cm_Data cm"
    and status: "cms (snd (kc_UpdateStatus K inst k)) = cms k"
    and dashboard: "cms (snd (kc_GrafanaDashboard K gen k)) = cms k"
begin

lemma reconcileConfigMap_data:
  assumes "reconcileConfigMap K hash own desired rd k = (Inr h, k')"
  shows "\<exists>cm. cms k' (cm_key desired) = Some cm \<and> h = hash (cm_Data cm) \<and>
    (rd \<or> cms k (cm_key desired) = None \<longrightarrow> cm_Data cm = cm_Data desired) \<and>
    (\<not> rd \<and> cms k (cm_key desired) \<noteq> None \<longrightarrow> cms k' = cms k) \<and>
    (\<forall>key. key \<noteq> cm_key desired \<longrightarrow> cms k' key = cms k key)"
proof -
  obtain v k1 where g: "kc_Get K (cm_key desired) k = (Inr v, k1)"
    using assms by (auto simp: reconcileConfigMap_def split: prod.splits sum.splits)
  have c: "v = cms k (cm_key desired)" "cms k1 = cms k" using get [OF g] by simp_all
  show ?thesis
  proof (cases v)
    case None
    then obtain d where d: "kc_SetControllerReference K own desired = Inr d"
      and k': "kc_Create K d k1 = (None, k')" "h = hash (cm_Data d)"
      using assms g by (auto simp: reconcileConfigMap_def split: prod.splits sum.splits option.splits)
    with create [OF k'(1)] setref [OF d] c None show ?thesis by auto
  next
    case (Some cur)
    then have cur: "cm_key cur = cm_key desired" using c get_key by metis
    show ?thesis
    proof (cases "rd \<and> cm_Data desired \<noteq> cm_Data cur")
      case True
      then have p: "kc_Patch K (cur\<lparr>cm_Data := cm_Data desired\<rparr>) k1 = (None, k')" "h = hash (cm_Data desired)"
        using assms g Some by (auto simp: reconcileConfigMap_def Let_def split: prod.splits option.splits)
      have "cm_key (cur\<lparr>cm_Data := cm_Data desired\<rparr>) = cm_key desired" using cur by (simp add: cm_key_def)
      with patch [OF p(1)] p(2) c Some True show ?thesis by auto
    next
      case False
      with assms g Some have "k' = k1" "h = hash (cm_Data cur)" by (auto simp: reconcileConfigMap_def)
      with c Some False show ?thesis by (intro exI [of _ cur]) auto
    qed
  qed
qed

text \<open>A second reconciliation of the same data writes nothing.\<close>

lemma reconcileConfigMap_stable:
  assumes "cms k (cm_key desired) = Some cm" and "cm_Data cm = cm_Data desired"
    and "kc_Get K (cm_key desired) k = (Inr v, k1)"
  shows "reconcileConfigMap K hash own desired rd k = (Inr (hash (cm_Data desired)), k1) \<and> cms k1 = cms k"
  using get [OF assms(3)] assms by (simp add: reconcileConfigMap_def)

end

text \<open>A simulated API server: a store of ConfigMaps that never fails.\<close>

definition sim_kube :: "(owner \<rightharpoonup> ConfigMap) kube" where
  "sim_kube = \<lparr>kc_Get = (\<lambda>key k. (Inr (case k key of None \<Rightarrow> None | Some cm \<Rightarrow>
        Some (cm\<lparr>cm_Namespace := fst key, cm_Name := snd key\<rparr>)), k)),
     kc_Create = (\<lambda>cm k. (None, k(cm_key cm \<mapsto> cm))),
     kc_Patch = (\<lambda>cm k. (None, k(cm_key cm \<mapsto> cm))),
     kc_SetControllerReference = (\<lambda>own cm. Inr cm),
     kc_ListSentinels = (\<lambda>ns k. Inr []),
     kc_UpdateStatus = (\<lambda>inst k. (None, k)),
     kc_GrafanaDashboard = (\<lambda>gen k. (None, k))\<rparr>"

definition sim_cms :: "(owner \<rightharpoonup> ConfigMap) \<Rightarrow> owner \<rightharpoonup> ConfigMap" where
  "sim_cms k key = map_option (\<lambda>cm. cm\<lparr>cm_Namespace := fst key, cm_Name := snd key\<rparr>) (k key)"

lemma sim_cms_put: "sim_cms (k(cm_key cm \<mapsto> cm)) = (sim_cms k)(cm_key cm \<mapsto> cm)"
  by (rule ext) (simp add: sim_cms_def cm_key_def)

interpretation sim_kube: kube_client sim_kube sim_cms
proof
  show "kc_Get sim_kube key k = (Inr v, k') \<Longrightarrow> v = sim_cms k key \<and> sim_cms k' = sim_cms k" for key k v k'
    by (auto simp: sim_kube_def sim_cms_def split: option.splits)
  show "sim_cms k key = Some cm \<Longrightarrow> cm_key cm = key" for k key cm
    by (auto simp: sim_cms_def cm_key_def)
qed (auto simp: sim_kube_def sim_cms_put)

section \<open>Properties of the controller\<close>

lemma new_watchers_uris:
  "new_watchers X uris pool = (Inr ws, pool') \<Longrightarrow> map sew_sentinelURI ws = uris"
proof (induction uris arbitrary: pool ws)
  case (Cons u uris)
  then show ?case
    by (fastforce simp: NewSentinelEventWatcher_def split: prod.splits sum.splits)
qed simp



lemma reconcileStatus_effect:
  assumes "reconcileStatus K gen inst k = Some (None, inst', k')"
  shows "\<exists>p targets. at (tcs_ServerPools (gen_Spec gen)) 0 = Some p \<and> GetTargets (tsp_Name p) gen = Some targets \<and>
    (case tc_Targets inst' of None \<Rightarrow> Map.empty | Some m \<Rightarrow> m) = map_option target_server \<circ> targets \<and>
    (k' = k \<or> k' = snd (kc_UpdateStatus K inst' k))"
  using assms
  by (auto simp: reconcileStatus_def Let_def split: if_splits prod.splits option.splits elim!: bind_SomeE)

lemma reconcile_watchers_effect:
  assumes "mgr_ok (tx_mgr s)" and "\<And>cp. stoppable (watcher_ops (te_X E) cp) (tx_mgr s)"
    and "reconcile_watchers E gen s = Some (Inr d, s')"
  shows "d = 30000000000 \<and> mgr_ok (tx_mgr s') \<and>
    (\<forall>uri \<in> set (case tcs_SentinelURIs (gen_Spec gen) of None \<Rightarrow> [] | Some uris \<Rightarrow> uris).
       \<exists>t. GetThread uri (tw_owner (tx_inst s)) (tx_mgr s') = Some t \<and> sew_started t) \<and>
    (\<exists>k1. kc_GrafanaDashboard (te_K E) gen (tx_kube s) = (None, k1) \<and>
       reconcileStatus (te_K E) gen (tx_inst s) k1 = Some (None, tx_inst s', tx_kube s'))"
proof -
  let ?uris = "case tcs_SentinelURIs (gen_Spec gen) of None \<Rightarrow> [] | Some uris \<Rightarrow> uris"
  obtain watchers pool where w: "new_watchers (te_X E) ?uris (tx_pool s) = (Inr watchers, pool)"
    using assms(3) by (auto simp: reconcile_watchers_def split: prod.splits sum.splits)
  let ?T = "watcher_ops (te_X E) (Map.empty, pool)"
  obtain e mgr where m1: "ReconcileThreads ?T (tw_owner (tx_inst s)) watchers (tx_mgr s) = Some (e, mgr)"
    using assms(3) w by (auto simp: reconcile_watchers_def Let_def elim!: bind_SomeE)
  have e: "e = None" using assms(3) w m1 by (cases e) (auto simp: reconcile_watchers_def Let_def)
  note m = m1 ReconcileThreads_started [OF watcher_laws assms(1) assms(2) m1 [unfolded e]]
  obtain k1 where k1: "kc_GrafanaDashboard (te_K E) gen (tx_kube s) = (None, k1)"
    using assms(3) w m(1) e by (auto simp: reconcile_watchers_def Let_def split: prod.splits option.splits)
  have r: "reconcileStatus (te_K E) gen (tx_inst s) k1 = Some (None, tx_inst s', tx_kube s')" "d = 30000000000" "tx_mgr s' = mgr"
    using assms(3) w m(1) e k1
    by (auto simp: reconcile_watchers_def Let_def split: option.splits elim!: bind_SomeE)
  have "\<exists>t. GetThread uri (tw_owner (tx_inst s)) mgr = Some t \<and> sew_started t" if uri: "uri \<in> set ?uris" for uri
  proof -
    have "uri \<in> sew_sentinelURI ` set watchers" using new_watchers_uris [OF w] uri by (metis set_map)
    then show ?thesis using m(3) by (auto simp: watcher_ops_def)
  qed
  with r k1 m(2) show ?thesis by blast
qed

text \<open>
  C5. A successful reconciliation of a TwemproxyConfig, for a client that keeps its contract and
  a pod synchronisation that does not touch ConfigMaps. It asks to run again in 30 seconds. The
  generator succeeded, the ConfigMap of the resource exists, and it holds the generated
  configuration when the pools are reconciled; no other ConfigMap has changed. There is a
  started watcher for every sentinel of the configuration, the thread manager is usable, and the
  status shows the alias and address of the target of every shard of the first pool.
\<close>

theorem TwemproxyConfig_Reconcile_success:
  assumes "kube_client (te_K E) cms" and "\<forall>inst h k e k'. te_sync E inst h k = Some (e, k') \<longrightarrow> cms k' = cms k"
    and "mgr_ok (tx_mgr s)" and "\<And>cp. stoppable (watcher_ops (te_X E) cp) (tx_mgr s)"
    and "TwemproxyConfig_Reconcile E s = Some (Inr d, s')"
  shows "d = 30000000000 \<and> mgr_ok (tx_mgr s') \<and>
    (\<exists>gen p' g' w' desired cm p targets.
       NewGenerator (te_X E) (te_U E) (kc_ListSentinels (te_K E) (tc_namespace (tx_inst s)) (tx_kube s)) (te_iter E)
         (te_arrival E) (tx_inst s) (tx_pool s) (tx_gauge s) (tx_redis s) = Some ((Inr gen, p', g'), w') \<and>
       configMap (te_marshal E) gen = Some desired \<and> cms (tx_kube s') (cm_key desired) = Some cm \<and>
       (tcs_ReconcileServerPools (tc_Spec (tx_inst s)) = Some True \<longrightarrow> cm_Data cm = cm_Data desired) \<and>
       (\<forall>key. key \<noteq> cm_key desired \<longrightarrow> cms (tx_kube s') key = cms (tx_kube s) key) \<and>
       (\<forall>uri \<in> set (case tcs_SentinelURIs (gen_Spec gen) of None \<Rightarrow> [] | Some uris \<Rightarrow> uris).
          \<exists>t. GetThread uri (tw_owner (tx_inst s)) (tx_mgr s') = Some t \<and> sew_started t) \<and>
       at (tcs_ServerPools (gen_Spec gen)) 0 = Some p \<and> GetTargets (tsp_Name p) gen = Some targets \<and>
       (case tc_Targets (tx_inst s') of None \<Rightarrow> Map.empty | Some m \<Rightarrow> m) = map_option target_server \<circ> targets)"
proof -
  obtain r pool g w where n: "NewGenerator (te_X E) (te_U E) (kc_ListSentinels (te_K E) (tc_namespace (tx_inst s)) (tx_kube s))
      (te_iter E) (te_arrival E) (tx_inst s) (tx_pool s) (tx_gauge s) (tx_redis s) = Some ((r, pool, g), w)"
    using assms(5) by (auto simp: TwemproxyConfig_Reconcile_def elim!: bind_SomeE)
  obtain gen where r: "r = Inr gen" using assms(5) n by (cases r) (auto simp: TwemproxyConfig_Reconcile_def Let_def)
  obtain desired rd where d: "configMap (te_marshal E) gen = Some desired"
    "tcs_ReconcileServerPools (tc_Spec (tx_inst s)) = Some rd"
    using assms(5) n r by (auto simp: TwemproxyConfig_Reconcile_def Let_def elim!: bind_SomeE)
  obtain h k1 where c: "reconcileConfigMap (te_K E) (te_hash E) (tw_owner (tx_inst s)) desired rd (tx_kube s) = (Inr h, k1)"
    using assms(5) n r d by (auto simp: TwemproxyConfig_Reconcile_def Let_def split: prod.splits sum.splits)
  obtain e k2 where sy: "te_sync E (tx_inst s) h k1 = Some (e, k2)"
    using assms(5) n r d c by (auto simp: TwemproxyConfig_Reconcile_def Let_def elim!: bind_SomeE)
  let ?s = "s\<lparr>tx_pool := pool, tx_gauge := g, tx_redis := w, tx_kube := k2\<rparr>"
  have w: "reconcile_watchers E gen ?s = Some (Inr d, s')"
    using assms(5) n r d c sy by (cases e) (auto simp: TwemproxyConfig_Reconcile_def Let_def)
  obtain cm where cm: "cms k1 (cm_key desired) = Some cm" "rd \<longrightarrow> cm_Data cm = cm_Data desired"
    "\<forall>key. key \<noteq> cm_key desired \<longrightarrow> cms k1 key = cms (tx_kube s) key"
    using kube_client.reconcileConfigMap_data [OF assms(1) c] by blast
  obtain k3 where k3: "kc_GrafanaDashboard (te_K E) gen k2 = (None, k3)"
    "reconcileStatus (te_K E) gen (tx_inst s) k3 = Some (None, tx_inst s', tx_kube s')"
    and rest: "d = 30000000000" "mgr_ok (tx_mgr s')"
    "\<forall>uri \<in> set (case tcs_SentinelURIs (gen_Spec gen) of None \<Rightarrow> [] | Some uris \<Rightarrow> uris).
       \<exists>t. GetThread uri (tw_owner (tx_inst s)) (tx_mgr s') = Some t \<and> sew_started t"
    using reconcile_watchers_effect [of ?s E gen d s'] assms(3,4) w by auto
  obtain p targets where p: "at (tcs_ServerPools (gen_Spec gen)) 0 = Some p" "GetTargets (tsp_Name p) gen = Some targets"
    "(case tc_Targets (tx_inst s') of None \<Rightarrow> Map.empty | Some m \<Rightarrow> m) = map_option target_server \<circ> targets"
    "tx_kube s' = k3 \<or> tx_kube s' = snd (kc_UpdateStatus (te_K E) (tx_inst s') k3)"
    using reconcileStatus_effect [OF k3(2)] by blast
  have "cms k3 = cms k2" using kube_client.dashboard [OF assms(1), of gen k2] k3(1) by simp
  moreover have "cms (tx_kube s') = cms k3" using kube_client.status [OF assms(1)] p(4) by metis
  ultimately have "cms (tx_kube s') = cms k1" using assms(2) sy by simp
  with cm d n r p rest show ?thesis by auto
qed

section \<open>Witnesses\<close>

definition ex_tw_env :: "(fake_world, owner \<rightharpoonup> ConfigMap) tw_env" where
  "ex_tw_env = \<lparr>te_X = fake_lib, te_U = ex_url, te_iter = id, te_arrival = [0], te_marshal = (\<lambda>_. Inr ''yaml''),
     te_hash = (\<lambda>_. ''hash''), te_K = sim_kube, te_sync = (\<lambda>_ _ k. Some (None, k))\<rparr>"

definition ex_tw_state :: "(fake_world, owner \<rightharpoonup> ConfigMap) tw_state" where
  "ex_tw_state = \<lparr>tx_inst = ex_twemproxy Masters, tx_mgr = \<lparr>mgr_locked = False, mgr_threads = [], mgr_stopped = []\<rparr>,
     tx_pool = [], tx_gauge = Map.empty, tx_kube = Map.empty, tx_redis = ex_cluster_world\<rparr>"

text \<open>
  The maps of targets are compared as functions, so the last steps are evaluated apart from the
  status.
\<close>

definition ex_tw_check :: "Generator \<Rightarrow> ServerPool \<Rightarrow> bool" where
  "ex_tw_check gen pool \<longleftrightarrow> \<not> Option.is_none (configMap (te_marshal ex_tw_env) gen) \<and>
     (case new_watchers fake_lib (case tcs_SentinelURIs (gen_Spec gen) of None \<Rightarrow> [] | Some uris \<Rightarrow> uris) pool of
        (Inl e, pool) \<Rightarrow> False
      | (Inr ws, pool) \<Rightarrow>
          map_option fst (ReconcileThreads (watcher_ops fake_lib (Map.empty, pool)) (''ns'', ''twemproxy'') ws (tx_mgr ex_tw_state))
            = Some None) \<and>
     (case at (tcs_ServerPools (gen_Spec gen)) 0 of None \<Rightarrow> False | Some p \<Rightarrow> \<not> Option.is_none (GetTargets (tsp_Name p) gen))"

lemma ex_tw_checked:
  "\<exists>gen p g w. NewGenerator fake_lib ex_url (Inr []) id [0] (ex_twemproxy Masters) [] Map.empty ex_cluster_world
     = Some ((Inr gen, p, g), w) \<and> ex_tw_check gen p"
proof -
  have "map_option (\<lambda>((r, p, g), w). map_sum (\<lambda>_. ()) (\<lambda>gen. ex_tw_check gen p) r)
      (NewGenerator fake_lib ex_url (Inr []) id [0] (ex_twemproxy Masters) [] Map.empty ex_cluster_world) = Some (Inr True)"
    by code_simp
  then show ?thesis by (auto elim!: map_sum_eq_InrE)
qed

lemma ex_tw_selectors:
  "te_X ex_tw_env = fake_lib" "te_U ex_tw_env = ex_url" "te_iter ex_tw_env = id" "te_arrival ex_tw_env = [0]"
  "te_marshal ex_tw_env = (\<lambda>_. Inr ''yaml'')" "te_sync ex_tw_env = (\<lambda>_ _ k. Some (None, k))" "te_K ex_tw_env = sim_kube"
  "tx_inst ex_tw_state = ex_twemproxy Masters" "tx_pool ex_tw_state = []" "tx_gauge ex_tw_state = Map.empty"
  "tx_redis ex_tw_state = ex_cluster_world" "tx_kube ex_tw_state = Map.empty"
  "kc_ListSentinels sim_kube ns k = Inr []" "tw_owner (ex_twemproxy Masters) = (''ns'', ''twemproxy'')"
  "tcs_ReconcileServerPools (tc_Spec (ex_twemproxy Masters)) = Some True"
  by (simp_all add: ex_tw_env_def ex_tw_state_def sim_kube_def tw_owner_def ex_twemproxy_def)

lemma ex_tw_reconcile: "\<exists>d s'. TwemproxyConfig_Reconcile ex_tw_env ex_tw_state = Some (Inr d, s')"
proof -
  obtain gen p g w where n: "NewGenerator fake_lib ex_url (Inr []) id [0] (ex_twemproxy Masters) [] Map.empty ex_cluster_world
     = Some ((Inr gen, p, g), w)" and c: "ex_tw_check gen p" using ex_tw_checked by blast
  obtain desired where d: "configMap (\<lambda>_. Inr ''yaml'') gen = Some desired"
    using c by (auto simp: ex_tw_check_def ex_tw_selectors Option.is_none_def)
  obtain ws pool mgr where w: "new_watchers fake_lib (case tcs_SentinelURIs (gen_Spec gen) of None \<Rightarrow> [] | Some uris \<Rightarrow> uris) p = (Inr ws, pool)"
    "ReconcileThreads (watcher_ops fake_lib (Map.empty, pool)) (''ns'', ''twemproxy'') ws (tx_mgr ex_tw_state) = Some (None, mgr)"
    using c by (auto simp: ex_tw_check_def split: prod.splits sum.splits)
  obtain sp targets where t: "at (tcs_ServerPools (gen_Spec gen)) 0 = Some sp" "GetTargets (tsp_Name sp) gen = Some targets"
    using c by (auto simp: ex_tw_check_def Option.is_none_def split: option.splits)
  have "reconcileConfigMap sim_kube (te_hash ex_tw_env) (''ns'', ''twemproxy'') desired True Map.empty
      = (Inr (te_hash ex_tw_env (cm_Data desired)), [cm_key desired \<mapsto> desired])"
    by (simp add: reconcileConfigMap_def sim_kube_def)
  moreover have "\<exists>inst' k'. reconcileStatus sim_kube gen inst k = Some (None, inst', k')" for inst k
    using t by (auto simp: reconcileStatus_def sim_kube_def Let_def)
  then obtain inst' k' where "reconcileStatus sim_kube gen (ex_twemproxy Masters) [cm_key desired \<mapsto> desired] = Some (None, inst', k')"
    by blast
  moreover have "kc_GrafanaDashboard sim_kube gen k = (None, k)" for k by (simp add: sim_kube_def)
  ultimately show ?thesis using n d w
    by (simp add: TwemproxyConfig_Reconcile_def reconcile_watchers_def ex_tw_selectors)
qed

lemma ex_tw_generator:
  assumes "NewGenerator fake_lib ex_url (Inr []) id [0] (ex_twemproxy Masters) [] Map.empty ex_cluster_world = Some ((Inr gen, p', g'), w')"
  shows "gen_InstanceName gen = ''twemproxy''" "gen_Namespace gen = ''ns''"
    "tcs_SentinelURIs (gen_Spec gen) = Some [''redis://10.0.0.9:26379'']"
proof -
  have "map_option (\<lambda>((r, p, g), w). map_sum (\<lambda>_. ()) (\<lambda>gen. (gen_InstanceName gen, gen_Namespace gen, tcs_SentinelURIs (gen_Spec gen))) r)
      (NewGenerator fake_lib ex_url (Inr []) id [0] (ex_twemproxy Masters) [] Map.empty ex_cluster_world)
    = Some (Inr (''twemproxy'', ''ns'', Some [''redis://10.0.0.9:26379'']))"
    by code_simp
  with assms show "gen_InstanceName gen = ''twemproxy''" "gen_Namespace gen = ''ns''"
    "tcs_SentinelURIs (gen_Spec gen) = Some [''redis://10.0.0.9:26379'']" by simp_all
qed

theorem TwemproxyConfig_Reconcile_success_witness:
  "\<exists>s' t cm. TwemproxyConfig_Reconcile ex_tw_env ex_tw_state = Some (Inr 30000000000, s') \<and>
     sim_cms (tx_kube s') (''ns'', ''twemproxy'') = Some cm \<and>
     GetThread ''redis://10.0.0.9:26379'' (''ns'', ''twemproxy'') (tx_mgr s') = Some t \<and> sew_started t"
proof -
  obtain d s' where r: "TwemproxyConfig_Reconcile ex_tw_env ex_tw_state = Some (Inr d, s')"
    using ex_tw_reconcile by blast
  have h: "mgr_ok (tx_mgr ex_tw_state)" "\<And>cp. stoppable (watcher_ops (te_X ex_tw_env) cp) (tx_mgr ex_tw_state)"
    "\<forall>inst h k e k'. te_sync ex_tw_env inst h k = Some (e, k') \<longrightarrow> sim_cms k' = sim_cms k"
    by (auto simp: ex_tw_env_def ex_tw_state_def mgr_ok_def stoppable_def)
  have K: "kube_client (te_K ex_tw_env) sim_cms" by (simp add: ex_tw_env_def sim_kube.kube_client_axioms)

  obtain gen p' g' w' desired cm where d: "d = 30000000000"
    and n: "NewGenerator fake_lib ex_url (Inr []) id [0] (ex_twemproxy Masters) [] Map.empty ex_cluster_world = Some ((Inr gen, p', g'), w')"
    and c: "configMap (\<lambda>_. Inr ''yaml'') gen = Some desired" "sim_cms (tx_kube s') (cm_key desired) = Some cm"
    and t: "\<forall>uri \<in> set (case tcs_SentinelURIs (gen_Spec gen) of None \<Rightarrow> [] | Some uris \<Rightarrow> uris).
          \<exists>t. GetThread uri (tw_owner (ex_twemproxy Masters)) (tx_mgr s') = Some t \<and> sew_started t"
    using TwemproxyConfig_Reconcile_success [OF K h(3) h(1) h(2) r] unfolding ex_tw_selectors by blast
  have "cm_key desired = (''ns'', ''twemproxy'')"
    using c(1) ex_tw_generator(1,2) [OF n] by (auto simp: configMap_def cm_key_def elim!: bind_SomeE)
  moreover have "tw_owner (ex_twemproxy Masters) = (''ns'', ''twemproxy'')" by (simp add: tw_owner_def ex_twemproxy_def)
  ultimately show ?thesis using r c(2) t ex_tw_generator(3) [OF n] d by simp
qed

end
