(* ===== verification/RedisShard.thy ===== *)
theory RedisShard
  imports Twemproxy SentinelStatus "HOL-Library.Word"
begin

text \<open>
  The RedisShard resource: its specification, defaults and status
  (\<^verbatim>\<open>api/v1alpha1/redisshard_types.go\<close>) and the objects it owns
  (\<^verbatim>\<open>internal/pkg/generators/redisshard\<close>). The index of the master and the number of slaves are
  32 bit integers, because the number of replicas is computed from the number of slaves.
\<close>

section \<open>Specification\<close>

type_synonym int32 = "32 word"

record RedisShardSpec =
  rss_Image :: "ImageSpec option"
  rss_MasterIndex :: "int32 option"
  rss_SlaveCount :: "int32 option"
  rss_Command :: "string option"

definition redisShardDefaultImage :: ImageSpec where
  "redisShardDefaultImage = \<lparr>img_Name = Some ''redis'', img_Tag = Some ''4.0.11-alpine'',
     img_PullSecretName = None, img_PullPolicy = Some ''IfNotPresent''\<rparr>"

definition redisShardDefaultMasterIndex :: int32 where "redisShardDefaultMasterIndex = 0"
definition redisShardDefaultCommand :: string where "redisShardDefaultCommand = ''redis-server /redis/redis.conf''"
definition RedisShardDefaultReplicas :: int32 where "RedisShardDefaultReplicas = 3"

definition RedisShardSpec_Default :: "RedisShardSpec \<Rightarrow> RedisShardSpec" where
  "RedisShardSpec_Default spec =
     spec\<lparr>rss_Image := Some (InitializeImageSpec (rss_Image spec) redisShardDefaultImage),
       rss_MasterIndex := orDefault (rss_MasterIndex spec) (Some redisShardDefaultMasterIndex),
       rss_SlaveCount := orDefault (rss_SlaveCount spec) (Some (RedisShardDefaultReplicas - 1)),
       rss_Command := orDefault (rss_Command spec) (Some redisShardDefaultCommand)\<rparr>"

section \<open>Status\<close>

record RedisShardNodes =
  rsn_Master :: "(string, string) gomap"
  rsn_Slaves :: "(string, string) gomap"

text \<open>
  The loops over the maps of the status run in the order that \<open>iter\<close> chooses.
\<close>

definition MasterHostPort :: "((string, string) gomap \<Rightarrow> (string, string) gomap) \<Rightarrow> RedisShardNodes \<Rightarrow> string" where
  "MasterHostPort iter rsn = (case iter (rsn_Master rsn) of [] \<Rightarrow> '''' | (als, hostport) # _ \<Rightarrow> hostport)"

definition MergeMaps :: "('a, 'b) gomap \<Rightarrow> ('a, 'b) gomap list \<Rightarrow> ('a, 'b) gomap" where
  "MergeMaps base merges = fold (\<lambda>m base. fold (\<lambda>(key, value) base. AList.update key value base) m base) merges base"

text \<open>
  The number after the last dash of an alias. The error of \<^verbatim>\<open>strconv.Atoi\<close> is dropped: the value
  is then 0, or the nearest 64 bit integer when the number is out of range.
\<close>

definition Atoi_value :: "string \<Rightarrow> int" where
  "Atoi_value s =
     (case Atoi s of
        Inr i \<Rightarrow> i
      | Inl e \<Rightarrow> if e = atoi_error s ''value out of range''
                then (if hd s = CHR ''-'' then - (2 ^ 63) else 2 ^ 63 - 1) else 0)"

definition alias_index :: "string \<Rightarrow> int" where
  "alias_index als =
     Atoi_value (case lastIndex (CHR ''-'') als of None \<Rightarrow> als | Some i \<Rightarrow> drop (i + 1) als)"

fun node_by_index :: "int \<Rightarrow> (string, string) gomap \<Rightarrow> string \<times> string" where
  "node_by_index podIndex [] = ('''', '''')"
| "node_by_index podIndex ((als, hostport) # nodes) =
     (if alias_index als = podIndex then (als, hostport) else node_by_index podIndex nodes)"

definition GetNodeByPodIndex ::
    "((string, string) gomap \<Rightarrow> (string, string) gomap) \<Rightarrow> int \<Rightarrow> RedisShardNodes \<Rightarrow> string \<times> string" where
  "GetNodeByPodIndex iter podIndex rsn =
     node_by_index podIndex (iter (MergeMaps [] [rsn_Master rsn, rsn_Slaves rsn]))"

definition GetHostPortByPodIndex ::
    "((string, string) gomap \<Rightarrow> (string, string) gomap) \<Rightarrow> int \<Rightarrow> RedisShardNodes \<Rightarrow> string" where
  "GetHostPortByPodIndex iter podIndex rsn = snd (GetNodeByPodIndex iter podIndex rsn)"

definition GetAliasByPodIndex ::
    "((string, string) gomap \<Rightarrow> (string, string) gomap) \<Rightarrow> int \<Rightarrow> RedisShardNodes \<Rightarrow> string" where
  "GetAliasByPodIndex iter podIndex rsn = fst (GetNodeByPodIndex iter podIndex rsn)"

fun index_by_hostport :: "string \<Rightarrow> (string, string) gomap \<Rightarrow> int" where
  "index_by_hostport hostport [] = - 1"
| "index_by_hostport hostport ((als, hp) # nodes) =
     (if hostport = hp then alias_index als else index_by_hostport hostport nodes)"

definition GetIndexByHostPort ::
    "((string, string) gomap \<Rightarrow> (string, string) gomap) \<Rightarrow> string \<Rightarrow> RedisShardNodes \<Rightarrow> int" where
  "GetIndexByHostPort iter hostport rsn =
     index_by_hostport hostport (iter (MergeMaps [] [rsn_Master rsn, rsn_Slaves rsn]))"

section \<open>The generated objects\<close>

record rs_Generator =
  rg_Component :: string
  rg_InstanceName :: string
  rg_Namespace :: string
  rg_Labels :: "string \<rightharpoonup> string"
  rg_Image :: ImageSpec
  rg_MasterIndex :: int32
  rg_Replicas :: int32
  rg_Command :: string

definition rs_component :: string where "rs_component = ''redis-shard''"

text \<open>A pointer of the specification that is nil panics; the defaults leave none.\<close>

definition rs_NewGenerator :: "string \<Rightarrow> string \<Rightarrow> RedisShardSpec \<Rightarrow> rs_Generator option" where
  "rs_NewGenerator instance_name namespace spec =
     do { image \<leftarrow> rss_Image spec;
          masterIndex \<leftarrow> rss_MasterIndex spec;
          slaveCount \<leftarrow> rss_SlaveCount spec;
          command \<leftarrow> rss_Command spec;
          Some \<lparr>rg_Component = rs_component, rg_InstanceName = instance_name, rg_Namespace = namespace,
                rg_Labels = [''app'' \<mapsto> rs_component, ''part-of'' \<mapsto> ''3scale-saas-testing''],
                rg_Image = image, rg_MasterIndex = masterIndex, rg_Replicas = slaveCount + 1, rg_Command = command\<rparr> }"

definition rs_GetKey :: "rs_Generator \<Rightarrow> owner" where
  "rs_GetKey gen = (rg_Namespace gen, rg_Component gen @ ''-'' @ rg_InstanceName gen)"

definition rs_GetSelector :: "rs_Generator \<Rightarrow> (string \<rightharpoonup> string)" where
  "rs_GetSelector gen = [''redis-shard'' \<mapsto> rg_InstanceName gen]"

definition rs_ServiceName :: "rs_Generator \<Rightarrow> string" where
  "rs_ServiceName gen = rg_Component gen @ ''-'' @ rg_InstanceName gen"

text \<open>The headless service; it has no ports.\<close>

record rs_Service =
  svc_Name :: string
  svc_Namespace :: string
  svc_Labels :: "string \<rightharpoonup> string"
  svc_Type :: string
  svc_ClusterIP :: string
  svc_ClusterIPs :: "string list"
  svc_Selector :: "string \<rightharpoonup> string"

definition rs_service :: "rs_Generator \<Rightarrow> rs_Service" where
  "rs_service gen =
     \<lparr>svc_Name = rs_ServiceName gen, svc_Namespace = rg_Namespace gen, svc_Labels = rg_Labels gen,
      svc_Type = ''ClusterIP'', svc_ClusterIP = ''None'', svc_ClusterIPs = [''None''],
      svc_Selector = rs_GetSelector gen\<rparr>"

text \<open>The configuration makes every server start as a replica of the loopback address.\<close>

definition redisConfigConfigMap :: "rs_Generator \<Rightarrow> ConfigMap" where
  "redisConfigConfigMap gen =
     \<lparr>cm_Name = ''redis-config-'' @ rg_InstanceName gen, cm_Namespace = rg_Namespace gen, cm_Labels = rg_Labels gen,
      cm_Data = [''redis.conf'' \<mapsto> ''slaveof 127.0.0.1 6379'' @ [CHR 0x0A] @ ''tcp-keepalive 60'' @ [CHR 0x0A]]\<rparr>"

text \<open>The lines of the readiness script, without the indentation that \<^verbatim>\<open>heredoc.Doc\<close> removes.\<close>

definition dquoted :: "string \<Rightarrow> string" where
  "dquoted s = CHR 0x22 # s @ [CHR 0x22]"

definition strip_newlines :: string where
  "strip_newlines = ''tr -d '' @ dquoted (CHR 0x5C # ''r'') @ '' | tr -d '' @ dquoted (CHR 0x5C # ''n'')"

definition ready_script :: string where
  "ready_script =
     (let tab = [CHR 0x09, CHR 0x09]; tabs = tab @ tab in
      join [CHR 0x0A]
       ['''',
        ''check_master(){'',
        tab @ ''exit 0'',
        ''}'',
        '''',
        ''check_slave(){'',
        tab @ ''in_sync=$(redis-cli info replication | grep master_sync_in_progress:1 | '' @ strip_newlines @ '')'',
        tab @ ''no_master=$(redis-cli info replication | grep master_host:127.0.0.1 | '' @ strip_newlines @ '')'',
        tab @ ''if [ -z '' @ dquoted ''$in_sync'' @ '' ] && [ -z '' @ dquoted ''$no_master'' @ '' ]; then'',
        tabs @ ''exit 0'',
        tab @ ''fi'',
        tab @ ''exit 1'',
        ''}'',
        '''',
        ''role=$(redis-cli info replication | grep role | '' @ strip_newlines @ '')'',
        '''',
        ''case $role in'',
        tab @ ''role:master)'',
        tabs @ ''check_master'',
        tabs @ '';;'',
        tab @ ''role:slave)'',
        tabs @ ''check_slave'',
        tabs @ '';;'',
        tab @ ''*)'',
        tabs @ ''echo '' @ dquoted ''unexpected'',
        tabs @ ''exit 1'',
        ''esac'',
        ''''])"

definition redisReadinessScriptConfigMap :: "rs_Generator \<Rightarrow> ConfigMap" where
  "redisReadinessScriptConfigMap gen =
     \<lparr>cm_Name = ''redis-readiness-script-'' @ rg_InstanceName gen, cm_Namespace = rg_Namespace gen,
      cm_Labels = rg_Labels gen, cm_Data = [''ready.sh'' \<mapsto> ready_script]\<rparr>"

datatype VolumeSource = ConfigMapVolume int string | EmptyDirVolume

record Probe_exec =
  px_Command :: "string list"
  px_FailureThreshold :: int
  px_InitialDelaySeconds :: int
  px_PeriodSeconds :: int
  px_SuccessThreshold :: int
  px_TimeoutSeconds :: int

record ContainerPort =
  cp_Name :: string
  cp_ContainerPort :: int
  cp_Protocol :: string

definition ContainerPortTCP :: "string \<Rightarrow> int \<Rightarrow> ContainerPort" where
  "ContainerPortTCP name port = \<lparr>cp_Name = name, cp_ContainerPort = port, cp_Protocol = ''TCP''\<rparr>"

record Container =
  co_Command :: "string list"
  co_Image :: string
  co_Name :: string
  co_Ports :: "ContainerPort list"
  co_ReadinessProbe :: Probe_exec
  co_ImagePullPolicy :: string
  co_VolumeMounts :: "(string \<times> string) list"

record PodTemplate =
  pt_Labels :: "string \<rightharpoonup> string"
  pt_ImagePullSecrets :: "string list"
  pt_RestartPolicy :: string
  pt_Containers :: "Container list"
  pt_TerminationGracePeriodSeconds :: int
  pt_Volumes :: "(string \<times> VolumeSource) list"

record StatefulSet =
  sts_Name :: string
  sts_Namespace :: string
  sts_Labels :: "string \<rightharpoonup> string"
  sts_PodManagementPolicy :: string
  sts_Replicas :: int32
  sts_RevisionHistoryLimit :: int
  sts_Selector :: "string \<rightharpoonup> string"
  sts_ServiceName :: string
  sts_Template :: PodTemplate
  sts_UpdateStrategy :: "string \<times> int"

definition redis_container :: "rs_Generator \<Rightarrow> Container option" where
  "redis_container gen =
     do { name \<leftarrow> img_Name (rg_Image gen);
          tag \<leftarrow> img_Tag (rg_Image gen);
          pullPolicy \<leftarrow> img_PullPolicy (rg_Image gen);
          Some \<lparr>co_Command = split_on (CHR '' '') (rg_Command gen), co_Image = name @ '':'' @ tag, co_Name = ''redis-server'',
            co_Ports = [ContainerPortTCP ''redis-server'' 6379],
            co_ReadinessProbe = \<lparr>px_Command = split_on (CHR '' '') ''/bin/sh /redis-readiness/ready.sh'',
              px_FailureThreshold = 3, px_InitialDelaySeconds = 10, px_PeriodSeconds = 10, px_SuccessThreshold = 1,
              px_TimeoutSeconds = 5\<rparr>,
            co_ImagePullPolicy = pullPolicy,
            co_VolumeMounts = [(''redis-config'', ''/redis''), (''redis-readiness-script'', ''/redis-readiness''), (''redis-data'', ''/data'')]\<rparr> }"

definition statefulSet :: "rs_Generator \<Rightarrow> StatefulSet option" where
  "statefulSet gen =
     do { container \<leftarrow> redis_container gen;
          Some \<lparr>sts_Name = snd (rs_GetKey gen), sts_Namespace = fst (rs_GetKey gen), sts_Labels = rg_Labels gen,
            sts_PodManagementPolicy = ''Parallel'', sts_Replicas = rg_Replicas gen, sts_RevisionHistoryLimit = 1,
            sts_Selector = rs_GetSelector gen, sts_ServiceName = rs_ServiceName gen,
            sts_Template = \<lparr>pt_Labels = rg_Labels gen ++ rs_GetSelector gen,
              pt_ImagePullSecrets = (case img_PullSecretName (rg_Image gen) of Some s \<Rightarrow> [s] | None \<Rightarrow> []),
              pt_RestartPolicy = ''Always'', pt_Containers = [container], pt_TerminationGracePeriodSeconds = 0,
              pt_Volumes =
                [(''redis-config'', ConfigMapVolume 420 (''redis-config-'' @ rg_InstanceName gen)),
                 (''redis-readiness-script'', ConfigMapVolume 484 (''redis-readiness-script-'' @ rg_InstanceName gen)),
                 (''redis-data'', EmptyDirVolume)]\<rparr>,
            sts_UpdateStrategy = (''RollingUpdate'', 0)\<rparr> }"

text \<open>The objects that the base reconciler creates, in the order of \<^verbatim>\<open>Resources\<close>.\<close>

record rs_Resources =
  res_StatefulSet :: StatefulSet
  res_Service :: rs_Service
  res_ConfigMaps :: "ConfigMap list"

definition rs_resources :: "rs_Generator \<Rightarrow> rs_Resources option" where
  "rs_resources gen =
     do { sts \<leftarrow> statefulSet gen;
          Some \<lparr>res_StatefulSet = sts, res_Service = rs_service gen,
            res_ConfigMaps = [redisConfigConfigMap gen, redisReadinessScriptConfigMap gen]\<rparr> }"

section \<open>Pods and their index\<close>

text \<open>The name that Kubernetes gives to a pod of a stateful set.\<close>

definition pod_name :: "string \<Rightarrow> int \<Rightarrow> string" where
  "pod_name serviceName i = serviceName @ ''-'' @ itoa i"

lemma dash_notin_itoa: "0 \<le> i \<Longrightarrow> CHR ''-'' \<notin> set (itoa i)"
  using set_nat_str [of "nat i"] by (auto simp: itoa_def)

lemma pod_name_inject:
  assumes "0 \<le> i" and "0 \<le> j"
  shows "pod_name svc i = pod_name svc j \<longleftrightarrow> i = j"
proof
  assume "pod_name svc i = pod_name svc j"
  then have "nat_str (nat i) = nat_str (nat j)" using assms by (simp add: pod_name_def itoa_def)
  then have "Some (nat i) = Some (nat j)" by (metis atoi_nat_nat_str)
  then show "i = j" using assms by simp
qed simp

lemma alias_index_pod_name:
  assumes "0 \<le> i" and "i < 2 ^ 63"
  shows "alias_index (pod_name svc i) = i"
proof -
  have "lastIndex (CHR ''-'') (svc @ CHR ''-'' # itoa i) = Some (length svc)"
    using dash_notin_itoa [OF assms(1)] by (rule lastIndex_append)
  moreover have "Atoi (itoa i) = Inr i" using assms by (intro Atoi_itoa) simp_all
  ultimately show ?thesis by (simp add: alias_index_def pod_name_def Atoi_value_def)
qed

section \<open>Reading the status\<close>

text \<open>
  What the status of a shard means: the master is the pod with the index \<open>mi\<close>, the slaves are the
  other pods below \<open>n\<close>, each under its name with its address.
\<close>

definition shows_pods :: "RedisShardNodes \<Rightarrow> string \<Rightarrow> int \<Rightarrow> int \<Rightarrow> (int \<Rightarrow> string) \<Rightarrow> bool" where
  "shows_pods nodes svc n mi addr \<longleftrightarrow>
     (\<forall>a hp. map_of (rsn_Master nodes) a = Some hp \<longleftrightarrow> a = pod_name svc mi \<and> hp = addr mi) \<and>
     (\<forall>a hp. map_of (rsn_Slaves nodes) a = Some hp \<longleftrightarrow>
        (\<exists>i \<in> {0..<n}. i \<noteq> mi \<and> a = pod_name svc i \<and> hp = addr i))"

definition nodes_ok :: "RedisShardNodes \<Rightarrow> bool" where
  "nodes_ok nodes \<longleftrightarrow> distinct (map fst (rsn_Master nodes)) \<and> distinct (map fst (rsn_Slaves nodes))"

lemma map_of_update_all:
  "map_of (fold (\<lambda>(key, value) base. AList.update key value base) m base) = map_of base ++ map_of (rev m)"
proof (induction m arbitrary: base)
  case (Cons kv m)
  then show ?case by (cases kv) (simp add: update_conv map_add_def fun_eq_iff split: option.splits)
qed simp

lemma distinct_update_all:
  "distinct (map fst base) \<Longrightarrow> distinct (map fst (fold (\<lambda>(key, value) base. AList.update key value base) m base))"
  by (induction m arbitrary: base) (auto simp: distinct_update)

lemma map_of_rev: "distinct (map fst m) \<Longrightarrow> map_of (rev m) = map_of m"
  by (rule map_of_inject_set [THEN iffD2]) (simp_all add: rev_map [symmetric])

lemma MergeMaps_two:
  assumes "distinct (map fst a)" and "distinct (map fst b)"
  shows "map_of (MergeMaps [] [a, b]) = map_of a ++ map_of b" "distinct (map fst (MergeMaps [] [a, b]))"
  using assms by (simp_all add: MergeMaps_def map_of_update_all map_of_rev distinct_update_all)

lemma node_by_index_unique:
  assumes "(a, hp) \<in> set nodes" and "alias_index a = i" and "\<forall>(a', hp') \<in> set nodes. alias_index a' = i \<longrightarrow> (a', hp') = (a, hp)"
  shows "node_by_index i nodes = (a, hp)"
  using assms by (induction nodes) auto

lemma index_by_hostport_unique:
  assumes "(a, hp) \<in> set nodes" and "\<forall>(a', hp') \<in> set nodes. hp' = hp \<longrightarrow> a' = a"
  shows "index_by_hostport hp nodes = alias_index a"
  using assms by (induction nodes) auto

lemma shows_pods_set:
  assumes "nodes_ok nodes" and "shows_pods nodes svc n mi addr" and "mi \<in> {0..<n}"
    and "mset (iter (MergeMaps [] [rsn_Master nodes, rsn_Slaves nodes])) = mset (MergeMaps [] [rsn_Master nodes, rsn_Slaves nodes])"
  shows "set (iter (MergeMaps [] [rsn_Master nodes, rsn_Slaves nodes])) = (\<lambda>i. (pod_name svc i, addr i)) ` {0..<n}"
proof -
  let ?m = "MergeMaps [] [rsn_Master nodes, rsn_Slaves nodes]"
  have d: "distinct (map fst ?m)" and m: "map_of ?m = map_of (rsn_Master nodes) ++ map_of (rsn_Slaves nodes)"
    using MergeMaps_two assms(1) by (auto simp: nodes_ok_def)
  have "(a, hp) \<in> set ?m \<longleftrightarrow> (\<exists>i \<in> {0..<n}. a = pod_name svc i \<and> hp = addr i)" for a hp
  proof -
    have "(a, hp) \<in> set ?m \<longleftrightarrow> map_of (rsn_Slaves nodes) a = Some hp \<or>
        map_of (rsn_Slaves nodes) a = None \<and> map_of (rsn_Master nodes) a = Some hp"
      using d by (simp add: map_of_eq_Some_iff [symmetric] m map_add_Some_iff)
    moreover have "map_of (rsn_Slaves nodes) (pod_name svc mi) = None"
    proof (rule ccontr)
      assume "map_of (rsn_Slaves nodes) (pod_name svc mi) \<noteq> None"
      then obtain i where "i \<in> {0..<n}" "i \<noteq> mi" "pod_name svc mi = pod_name svc i"
        using assms(2) by (auto simp: shows_pods_def)
      then show False using assms(3) pod_name_inject by auto
    qed
    ultimately show ?thesis using assms(2,3) unfolding shows_pods_def
      by (cases "a = pod_name svc mi") (auto simp: pod_name_inject)
  qed
  then have "set ?m = (\<lambda>i. (pod_name svc i, addr i)) ` {0..<n}" by auto
  then show ?thesis using assms(4) by (metis set_mset_mset)
qed

text \<open>
  The status reads back: in a status that shows a shard whose pods have distinct addresses, the
  pod index leads to the name and the address of the pod, the address leads back to the index, and
  the master is found, in whatever order Go iterates over the maps.
\<close>

lemma shows_pods_reads_back:
  assumes "nodes_ok nodes" and "shows_pods nodes svc n mi addr" and "mi \<in> {0..<n}" and "n < 2 ^ 31"
    and "inj_on addr {0..<n}" and "\<forall>m. mset (iter m) = mset m"
  shows "MasterHostPort iter nodes = addr mi \<and>
    (\<forall>i \<in> {0..<n}. GetAliasByPodIndex iter i nodes = pod_name svc i \<and> GetHostPortByPodIndex iter i nodes = addr i \<and>
       GetIndexByHostPort iter (addr i) nodes = i) \<and>
    (\<forall>i. i \<notin> {0..<n} \<longrightarrow> GetNodeByPodIndex iter i nodes = ('''', '''')) \<and>
    (\<forall>hp. hp \<notin> addr ` {0..<n} \<longrightarrow> GetIndexByHostPort iter hp nodes = - 1)"
proof -
  let ?m = "iter (MergeMaps [] [rsn_Master nodes, rsn_Slaves nodes])"
  have set: "set ?m = (\<lambda>i. (pod_name svc i, addr i)) ` {0..<n}"
    using shows_pods_set [OF assms(1-3)] assms(6) by blast
  have idx: "alias_index (pod_name svc i) = i" if "i \<in> {0..<n}" for i
    using that assms(4) by (intro alias_index_pod_name) auto
  have node: "GetNodeByPodIndex iter i nodes = (pod_name svc i, addr i)" if "i \<in> {0..<n}" for i
    unfolding GetNodeByPodIndex_def using that idx by (intro node_by_index_unique) (auto simp: set)
  have index: "GetIndexByHostPort iter (addr i) nodes = i" if i: "i \<in> {0..<n}" for i
  proof -
    have "index_by_hostport (addr i) ?m = alias_index (pod_name svc i)"
      using i assms(5) by (intro index_by_hostport_unique) (auto simp: set dest: inj_onD)
    then show ?thesis by (simp add: GetIndexByHostPort_def idx [OF i])
  qed
  have "node_by_index i xs = ('''', '''')" if "\<forall>(a, hp) \<in> set xs. alias_index a \<noteq> i" for i xs
    using that by (induction xs) auto
  then have none: "GetNodeByPodIndex iter i nodes = ('''', '''')" if "i \<notin> {0..<n}" for i
    using that idx by (auto simp: GetNodeByPodIndex_def set)
  have "index_by_hostport hp xs = - 1" if "hp \<notin> snd ` set xs" for hp xs
    using that by (induction xs) force+
  then have noidx: "GetIndexByHostPort iter hp nodes = - 1" if "hp \<notin> addr ` {0..<n}" for hp
    using that by (auto simp: GetIndexByHostPort_def set image_image)
  have "set (iter (rsn_Master nodes)) = {(pod_name svc mi, addr mi)}"
  proof -
    have "set (iter (rsn_Master nodes)) = set (rsn_Master nodes)" using assms(6) by (metis set_mset_mset)
    moreover have "(a, hp) \<in> set (rsn_Master nodes) \<longleftrightarrow> a = pod_name svc mi \<and> hp = addr mi" for a hp
      using assms(1,2) map_of_eq_Some_iff [of "rsn_Master nodes" a hp] by (simp add: nodes_ok_def shows_pods_def)
    ultimately show ?thesis by auto
  qed
  then have "MasterHostPort iter nodes = addr mi"
    by (cases "iter (rsn_Master nodes)") (auto simp: MasterHostPort_def)
  then show ?thesis using node index none noidx
    by (simp add: GetAliasByPodIndex_def GetHostPortByPodIndex_def)
qed

section \<open>The generated objects fit together\<close>

text \<open>The defaults leave no pointer nil: neither the generator nor the objects panic.\<close>

definition rsh_MasterIndex :: "RedisShardSpec \<Rightarrow> int32" where
  "rsh_MasterIndex spec = (case rss_MasterIndex spec of None \<Rightarrow> redisShardDefaultMasterIndex | Some i \<Rightarrow> i)"

definition rsh_SlaveCount :: "RedisShardSpec \<Rightarrow> int32" where
  "rsh_SlaveCount spec = (case rss_SlaveCount spec of None \<Rightarrow> RedisShardDefaultReplicas - 1 | Some i \<Rightarrow> i)"

lemma RedisShardSpec_Default_total:
  "rss_MasterIndex (RedisShardSpec_Default spec) = Some (rsh_MasterIndex spec)"
  "rss_SlaveCount (RedisShardSpec_Default spec) = Some (rsh_SlaveCount spec)"
  "\<exists>img cmd. rss_Image (RedisShardSpec_Default spec) = Some img \<and> rss_Command (RedisShardSpec_Default spec) = Some cmd \<and>
     img_Name img \<noteq> None \<and> img_Tag img \<noteq> None \<and> img_PullPolicy img \<noteq> None"
  by (auto simp: RedisShardSpec_Default_def orDefault_def rsh_MasterIndex_def rsh_SlaveCount_def InitializeImageSpec_def
      ImageSpec_Default_def redisShardDefaultImage_def Let_def split: option.splits)

lemma rs_NewGenerator_total:
  obtains gen res where "rs_NewGenerator nm ns (RedisShardSpec_Default spec) = Some gen" "rs_resources gen = Some res"
    "rs_ServiceName gen = ''redis-shard-'' @ nm"
proof -
  obtain img cmd name tag pp where i: "rss_Image (RedisShardSpec_Default spec) = Some img" "rss_Command (RedisShardSpec_Default spec) = Some cmd"
    "img_Name img = Some name" "img_Tag img = Some tag" "img_PullPolicy img = Some pp"
    using RedisShardSpec_Default_total(3) [of spec] by auto
  then obtain gen where gen: "rs_NewGenerator nm ns (RedisShardSpec_Default spec) = Some gen" "rg_Image gen = img"
    "rg_Component gen = ''redis-shard''" "rg_InstanceName gen = nm"
    by (simp add: rs_NewGenerator_def RedisShardSpec_Default_total(1,2) rs_component_def)
  then obtain res where "rs_resources gen = Some res"
    using i by (simp add: rs_resources_def statefulSet_def redis_container_def)
  moreover have "rs_ServiceName gen = ''redis-shard-'' @ nm" unfolding rs_ServiceName_def gen(3,4) by simp
  ultimately show thesis using gen(1) that by blast
qed

text \<open>
  The objects of a RedisShard fit together, for any specification: the stateful set and the
  service select the pods of the template and those of no other instance; the pods are those whose
  names the controller asks for, and belong to the service; every volume mount has its volume and
  every volume its ConfigMap, among which is the one that makes the servers start as replicas of
  the loopback address.
\<close>

lemma rs_resources_wired:
  assumes "rs_NewGenerator nm ns (RedisShardSpec_Default spec) = Some gen"
  shows "\<exists>r. rs_resources gen = Some r \<and>
    (let sts = res_StatefulSet r; svc = res_Service r; tmpl = sts_Template sts in
     sts_Selector sts \<subseteq>\<^sub>m pt_Labels tmpl \<and> svc_Selector svc = sts_Selector sts \<and>
     (\<forall>nm' ns' spec' gen'. nm' \<noteq> nm \<longrightarrow> rs_NewGenerator nm' ns' spec' = Some gen' \<longrightarrow> \<not> rs_GetSelector gen' \<subseteq>\<^sub>m pt_Labels tmpl) \<and>
     sts_Name sts = rs_ServiceName gen \<and> sts_ServiceName sts = svc_Name svc \<and> sts_Replicas sts = rsh_SlaveCount spec + 1 \<and>
     sts_Namespace sts = ns \<and> svc_Namespace svc = ns \<and> (\<forall>cm \<in> set (res_ConfigMaps r). cm_Namespace cm = ns) \<and>
     (\<forall>c \<in> set (pt_Containers tmpl). \<forall>(v, path) \<in> set (co_VolumeMounts c). v \<in> fst ` set (pt_Volumes tmpl)) \<and>
     (\<forall>(v, src) \<in> set (pt_Volumes tmpl). \<forall>mode name. src = ConfigMapVolume mode name \<longrightarrow> name \<in> cm_Name ` set (res_ConfigMaps r)) \<and>
     (\<exists>cm \<in> set (res_ConfigMaps r). \<exists>conf. cm_Data cm ''redis.conf'' = Some conf \<and> prefix ''slaveof 127.0.0.1 6379'' conf))"
proof -
  obtain res where res: "rs_resources gen = Some res"
    using rs_NewGenerator_total [of nm ns spec] assms by (metis option.inject)
  have gen: "rg_Component gen = rs_component" "rg_InstanceName gen = nm" "rg_Namespace gen = ns"
    "rg_Replicas gen = rsh_SlaveCount spec + 1" "rg_Labels gen = [''app'' \<mapsto> rs_component, ''part-of'' \<mapsto> ''3scale-saas-testing'']"
    using assms by (auto simp: rs_NewGenerator_def RedisShardSpec_Default_total elim!: bind_SomeE)
  have other: "\<not> rs_GetSelector gen' \<subseteq>\<^sub>m rg_Labels gen ++ rs_GetSelector gen"
    if "nm' \<noteq> nm" "rs_NewGenerator nm' ns' spec' = Some gen'" for nm' ns' spec' gen'
  proof -
    have "rg_InstanceName gen' = nm'" using that(2) by (auto simp: rs_NewGenerator_def elim!: bind_SomeE)
    then show ?thesis using that(1) gen(2) by (auto simp: rs_GetSelector_def map_le_def)
  qed
  obtain container where c: "redis_container gen = Some container"
    using res by (auto simp: rs_resources_def statefulSet_def elim!: bind_SomeE)
  have mounts: "fst ` set (co_VolumeMounts container) = {''redis-config'', ''redis-readiness-script'', ''redis-data''}"
    using c by (auto simp: redis_container_def elim!: bind_SomeE)
  obtain sts where sts: "statefulSet gen = Some sts" "res = \<lparr>res_StatefulSet = sts, res_Service = rs_service gen,
      res_ConfigMaps = [redisConfigConfigMap gen, redisReadinessScriptConfigMap gen]\<rparr>"
    using res by (auto simp: rs_resources_def elim!: bind_SomeE)
  have t: "pt_Labels (sts_Template sts) = rg_Labels gen ++ rs_GetSelector gen" "sts_Selector sts = rs_GetSelector gen"
    "sts_Name sts = rs_ServiceName gen" "sts_ServiceName sts = rs_ServiceName gen" "sts_Replicas sts = rg_Replicas gen"
    "sts_Namespace sts = rg_Namespace gen" "pt_Containers (sts_Template sts) = [container]"
    "pt_Volumes (sts_Template sts) = [(''redis-config'', ConfigMapVolume 420 (''redis-config-'' @ rg_InstanceName gen)),
       (''redis-readiness-script'', ConfigMapVolume 484 (''redis-readiness-script-'' @ rg_InstanceName gen)), (''redis-data'', EmptyDirVolume)]"
    using sts(1) c by (auto simp: statefulSet_def rs_GetKey_def rs_ServiceName_def)
  have "\<forall>(v, path) \<in> set (co_VolumeMounts container). v \<in> fst ` set (pt_Volumes (sts_Template sts))"
    using mounts by (force simp: t)
  moreover have "prefix ''slaveof 127.0.0.1 6379'' (the (cm_Data (redisConfigConfigMap gen) ''redis.conf''))"
    by (simp add: redisConfigConfigMap_def)
  moreover have "rs_GetSelector gen \<subseteq>\<^sub>m rg_Labels gen ++ rs_GetSelector gen" by (rule map_le_map_add)
  ultimately show ?thesis using other gen(2-4)
    by (intro exI [of _ res] conjI res) (simp_all add: Let_def sts(2) t rs_service_def redisConfigConfigMap_def redisReadinessScriptConfigMap_def)
qed

section \<open>Witnesses\<close>

definition ex_rs_spec :: RedisShardSpec where
  "ex_rs_spec = \<lparr>rss_Image = None, rss_MasterIndex = None, rss_SlaveCount = None, rss_Command = None\<rparr>"

definition ex_nodes :: RedisShardNodes where
  "ex_nodes = \<lparr>rsn_Master = [(''shard-1'', ''10.0.0.2:6379'')], rsn_Slaves = [(''shard-0'', ''10.0.0.1:6379'')]\<rparr>"

definition ex_addr :: "int \<Rightarrow> string" where
  "ex_addr i = (if i = 0 then ''10.0.0.1:6379'' else ''10.0.0.2:6379'')"

end
