(* ===== verification/RedisShardController.thy ===== *)
theory RedisShardController
  imports RedisShard
begin

text \<open>
  The controller of the RedisShard resources, \<^verbatim>\<open>internal/controller/redisshard_controller.go\<close>: it
  reads the addresses of the pods of the stateful set, initialises the replication of the shard and
  publishes the roles of its servers. The base reconciler and the Kubernetes client are the record
  \<open>rsh_env\<close>, what the code relies on is the locale \<open>shard_host\<close>.
\<close>

section \<open>The controller\<close>

text \<open>
  The calls of the base reconciler and of the Kubernetes client: \<open>re_owned\<close> reconciles the owned
  resources and \<open>re_status\<close> the status, each with a result when the reconciliation has to return (an
  error or a time to requeue); \<open>re_pod\<close> reads the IP address of a pod, empty while none is
  allocated; \<open>re_iter\<close> is the order of iteration over the map of the servers.
\<close>

record ('w, 'k) rsh_env =
  re_X :: "'w lib"
  re_iter :: "(string, string) gomap \<Rightarrow> (string, string) gomap"
  re_owned :: "rs_Resources \<Rightarrow> 'k \<Rightarrow> (error + int) option \<times> 'k"
  re_pod :: "owner \<Rightarrow> 'k \<Rightarrow> (error + string) \<times> 'k"
  re_status :: "bool \<times> error option \<Rightarrow> RedisShardNodes option \<Rightarrow> 'k \<Rightarrow> (error + int) option \<times> 'k"

record ('w, 'k) rsh_state =
  rx_name :: string
  rx_namespace :: string
  rx_spec :: RedisShardSpec
  rx_ShardNodes :: "RedisShardNodes option"
  rx_pool :: ServerPool
  rx_kube :: 'k
  rx_redis :: 'w

definition pod_url :: "string \<Rightarrow> string" where
  "pod_url ip = ''redis://'' @ JoinHostPort ip ''6379''"

text \<open>
  The loop over the pods. It ends early with the result to return and the name of the pod, or
  goes on to the map of the servers and the address of the master, empty when the index of the
  master is not that of a pod.
\<close>

fun pods_loop ::
    "('w, 'k) rsh_env \<Rightarrow> string \<Rightarrow> string \<Rightarrow> int32 \<Rightarrow> int list \<Rightarrow> (string, string) gomap \<Rightarrow> string \<Rightarrow> 'k
       \<Rightarrow> (string \<times> (error + int) + (string, string) gomap \<times> string) \<times> 'k" where
  "pods_loop E ns serviceName masterIndex [] redisURLs masterHostPort k = (Inr (redisURLs, masterHostPort), k)"
| "pods_loop E ns serviceName masterIndex (i # is) redisURLs masterHostPort k =
     (case re_pod E (ns, pod_name serviceName i) k of
        (Inl e, k) \<Rightarrow> (Inl (pod_name serviceName i, Inl e), k)
      | (Inr ip, k) \<Rightarrow>
          if ip = '''' then (Inl (pod_name serviceName i, Inr 5000000000), k)
          else pods_loop E ns serviceName masterIndex is
                 (AList.update (pod_name serviceName i) (pod_url ip) redisURLs)
                 (if sint masterIndex = i then JoinHostPort ip ''6379'' else masterHostPort) k)"

text \<open>
  \<^verbatim>\<open>setRedisRoles\<close>: the shard and, when the reconciliation has to return, its result. The range
  over a number of replicas that is not positive is empty.
\<close>

definition setRedisRoles ::
    "('w, 'k) rsh_env \<Rightarrow> owner \<Rightarrow> int32 \<Rightarrow> int32 \<Rightarrow> string \<Rightarrow> ServerPool \<Rightarrow> 'k
       \<Rightarrow> ('w, (Shard \<times> (error + int) option) \<times> ServerPool \<times> 'k) go" where
  "setRedisRoles E key masterIndex replicas serviceName pool k w =
     (case pods_loop E (fst key) serviceName masterIndex [0..sint replicas - 1] [] '''' k of
        (Inl (name, res), k) \<Rightarrow> Some (((\<lparr>sh_Name = name, sh_Servers = []\<rparr>, Some res), pool, k), w)
      | (Inr (redisURLs, masterHostPort), k) \<Rightarrow>
          (case NewShardFromTopology (re_X E) (snd key) (re_iter E redisURLs) pool of
             ((Some e, shard), pool) \<Rightarrow> Some (((shard, Some (Inl e)), pool, k), w)
           | ((None, shard), pool) \<Rightarrow>
               do { (((changed, e), shard), w) \<leftarrow> Shard_Init (re_X E) pool masterHostPort shard w;
                    Some (((shard, case e of Some e \<Rightarrow> Some (Inr 10000000000) | None \<Rightarrow> None), pool, k), w) }))"

definition put_node :: "ServerPool \<Rightarrow> RedisServer \<Rightarrow> RedisShardNodes \<Rightarrow> RedisShardNodes" where
  "put_node pool server nodes =
     (case rs_Role server of
        Master \<Rightarrow> nodes\<lparr>rsn_Master := AList.update (alias_of pool (rs_ref server)) (rs_ID server) (rsn_Master nodes)\<rparr>
      | Slave \<Rightarrow> nodes\<lparr>rsn_Slaves := AList.update (alias_of pool (rs_ref server)) (rs_ID server) (rsn_Slaves nodes)\<rparr>
      | Unknown \<Rightarrow> nodes)"

text \<open>The comparison is semantic: the maps are compared as maps, and a nil pointer differs from any other.\<close>

definition same_nodes :: "RedisShardNodes option \<Rightarrow> RedisShardNodes \<Rightarrow> bool" where
  "same_nodes cur new =
     (case cur of
        None \<Rightarrow> False
      | Some n \<Rightarrow> map_of (rsn_Master n) = map_of (rsn_Master new) \<and> map_of (rsn_Slaves n) = map_of (rsn_Slaves new))"

definition redisShardStatusReconciler ::
    "ServerPool \<Rightarrow> Shard \<Rightarrow> RedisShardNodes option \<Rightarrow> bool \<times> RedisShardNodes option" where
  "redisShardStatusReconciler pool shard cur =
     (let shardNodes = fold (put_node pool) (sh_Servers shard) \<lparr>rsn_Master = [], rsn_Slaves = []\<rparr>
      in if \<not> same_nodes cur shardNodes then (True, Some shardNodes) else (False, cur))"

definition RedisShard_Reconcile ::
    "('w, 'k) rsh_env \<Rightarrow> ('w, 'k) rsh_state \<Rightarrow> ((error + int) \<times> ('w, 'k) rsh_state) option" where
  "RedisShard_Reconcile E s =
     do { let spec = RedisShardSpec_Default (rx_spec s);
          gen \<leftarrow> rs_NewGenerator (rx_name s) (rx_namespace s) spec;
          resources \<leftarrow> rs_resources gen;
          case re_owned E resources (rx_kube s) of
            (Some res, k) \<Rightarrow> Some (res, s\<lparr>rx_kube := k\<rparr>)
          | (None, k) \<Rightarrow>
              do { masterIndex \<leftarrow> rss_MasterIndex spec;
                   slaveCount \<leftarrow> rss_SlaveCount spec;
                   (((shard, res), pool, k), w) \<leftarrow> setRedisRoles E (rx_namespace s, rx_name s) masterIndex (slaveCount + 1)
                      (rs_ServiceName gen) (rx_pool s) k (rx_redis s);
                   let s = s\<lparr>rx_pool := pool, rx_kube := k, rx_redis := w\<rparr>;
                   case res of
                     Some res \<Rightarrow> Some (res, s)
                   | None \<Rightarrow>
                       let (update, nodes) = redisShardStatusReconciler (rx_pool s) shard (rx_ShardNodes s);
                           s = s\<lparr>rx_ShardNodes := nodes\<rparr>
                       in case re_status E (update, None) nodes (rx_kube s) of
                            (Some res, k) \<Rightarrow> Some (res, s\<lparr>rx_kube := k\<rparr>)
                          | (None, k) \<Rightarrow> Some (Inr 0, s\<lparr>rx_kube := k\<rparr>) } }"

section \<open>The servers of the pods\<close>

text \<open>The law of \<^verbatim>\<open>redis.ParseURL\<close> on the addresses of the pods.\<close>

definition pod_urls :: "'w lib \<Rightarrow> bool" where
  "pod_urls X \<longleftrightarrow> (\<forall>ip. plain_host ip \<and> ip \<noteq> '''' \<longrightarrow>
     lib_ParseURL X (pod_url ip) = Inr (JoinHostPort ip ''6379''))"

lemma plain_6379 [simp]: "plain_port ''6379''"
  by (simp add: plain_port_def)

lemma url_ref_pod:
  "pod_urls X \<Longrightarrow> plain_host ip \<Longrightarrow> ip \<noteq> '''' \<Longrightarrow>
     url_ref X (pod_url ip) = Some (ip, ''6379'')"
  by (simp add: pod_urls_def url_ref_def SplitHostPort_JoinHostPort)

text \<open>
  The loop over a topology with distinct addresses leaves every server in the pool under the
  alias of its entry.
\<close>

lemma get_all_aliases:
  assumes X: "url_canonical X" and "pool_ok pool" and "pool_split pool" and "urls_ok X servers"
    and "distinct (map ID (refs_of X servers))" and "\<forall>(k, u) \<in> set servers. k \<noteq> u \<and> k \<noteq> ''''"
    and "get_all (GetServer X) servers pool = (r, pool')"
  shows "(\<forall>(k, u) \<in> set servers. alias_of pool' (the (url_ref X u)) = k) \<and>
    (\<forall>a. a \<notin> ID ` set (refs_of X servers) \<longrightarrow> pool_lookup pool' a = pool_lookup pool a)"
  using assms(2-7)
proof (induction servers arbitrary: pool r)
  case (Cons kv servers)
  obtain k u where kv: "kv = (k, u)" by (cases kv)
  obtain ref where ref: "url_ref X u = Some ref" using Cons.prems(3) kv by auto
  obtain s p where s: "GetServer X u (Some k) pool = (Inr s, p)" "ref_of s = ref" "pool_split p"
    using GetServer_ref [OF X Cons.prems(2) ref] .
  obtain r' where rest: "get_all (GetServer X) servers p = (r', pool')"
    using Cons.prems(5,6) s(1) by (cases "get_all (GetServer X) servers p") (auto simp: kv Let_def)
  have ok: "pool_ok p" using GetServer_keeps_pool_ok [OF X Cons.prems(1), of u "Some k"] s(1) by simp
  have IH: "\<forall>(k, u) \<in> set servers. alias_of pool' (the (url_ref X u)) = k"
    "\<forall>a. a \<notin> ID ` set (refs_of X servers) \<longrightarrow> pool_lookup pool' a = pool_lookup p a"
    using Cons.IH [OF ok s(3) _ _ _ rest] Cons.prems(3-5) by (auto simp: refs_of_def)
  have refs: "refs_of X (kv # servers) = ref # refs_of X servers" by (simp add: refs_of_def kv ref)
  have "s \<in> set p" "ID (ref_of s) = ID ref" using GetServer_returns_pooled [OF X s(1)] s(2) by simp_all
  then have "pool_lookup p (ID ref) = Some s" using pool_lookup_Some [OF ok] by simp
  moreover have "ID ref \<notin> ID ` set (refs_of X servers)" using Cons.prems(4) refs by simp
  ultimately have "pool_lookup pool' (ID ref) = Some s" using IH(2) by simp
  moreover have "GetAlias s = k" using GetServer_sets_alias [OF s(1)] Cons.prems(5) kv by simp
  ultimately have "alias_of pool' ref = k" by (simp add: alias_of_def)
  moreover have "pool_lookup p a = pool_lookup pool a" if "a \<noteq> ID ref" for a
    using GetServer_other [OF X Cons.prems(1) s(1)] that s(2) by simp
  ultimately show ?case using IH unfolding refs by (auto simp: kv ref)
qed simp

text \<open>
  The interface of the controller to its host, while the API server answers: the base reconciler
  has no reason to return, the pods have the addresses \<open>ips\<close>, which the calls do not change, and an
  iteration over a map meets every entry once.
\<close>

definition shard_host_laws :: "('w, 'k) rsh_env \<Rightarrow> ('k \<Rightarrow> owner \<rightharpoonup> string) \<Rightarrow> bool" where
  "shard_host_laws E ips \<longleftrightarrow>
     (\<forall>key k ip. ips k key = Some ip \<longrightarrow> (\<exists>k'. re_pod E key k = (Inr ip, k') \<and> ips k' = ips k)) \<and>
     (\<forall>r k. \<exists>k'. re_owned E r k = (None, k') \<and> ips k' = ips k) \<and>
     (\<forall>u n k. \<exists>k'. re_status E (u, None) n k = (None, k') \<and> ips k' = ips k) \<and>
     (\<forall>m. mset (re_iter E m) = mset m)"

abbreviation pod_addr :: "(int \<Rightarrow> string) \<Rightarrow> int \<Rightarrow> string" where
  "pod_addr ip i \<equiv> JoinHostPort (ip i) ''6379''"

definition pod_topology :: "string \<Rightarrow> (int \<Rightarrow> string) \<Rightarrow> int \<Rightarrow> (string, string) gomap" where
  "pod_topology svc ip n = map (\<lambda>i. (pod_name svc i, pod_url (ip i))) [0..n - 1]"

lemma set_pods: "set [0..n - 1] = {0..<n :: int}"
  by auto

locale shard_host =
  fixes E :: "('w, 'k) rsh_env" and ips :: "'k \<Rightarrow> owner \<rightharpoonup> string"
  assumes laws: "shard_host_laws E ips"
begin

lemma pod: obtains k' where "ips k key = Some ip \<Longrightarrow> re_pod E key k = (Inr ip, k')" "ips k' = ips k"
  using laws unfolding shard_host_laws_def by blast

lemma owned: obtains k' where "re_owned E r k = (None, k')" "ips k' = ips k"
  using laws unfolding shard_host_laws_def by blast

lemma status: obtains k' where "re_status E (u, None) n k = (None, k')" "ips k' = ips k"
  using laws unfolding shard_host_laws_def by blast

lemma iter: "mset (re_iter E m) = mset m"
  using laws by (simp add: shard_host_laws_def)

lemma pods_loop_folds:
  assumes "\<forall>i \<in> set is. ips k (ns, pod_name svc i) = Some (ip i) \<and> ip i \<noteq> ''''"
  shows "\<exists>k'. pods_loop E ns svc mi is urls hp k =
      (Inr (fold (\<lambda>i. AList.update (pod_name svc i) (pod_url (ip i))) is urls,
            if sint mi \<in> set is then pod_addr ip (sint mi) else hp), k') \<and> ips k' = ips k"
  using assms
proof (induction "is" arbitrary: urls hp k)
  case (Cons i "is")
  obtain k1 where k1: "re_pod E (ns, pod_name svc i) k = (Inr (ip i), k1)" "ips k1 = ips k"
    using pod [of k "(ns, pod_name svc i)" "ip i"] Cons.prems by auto
  with Cons.prems have "\<forall>i \<in> set is. ips k1 (ns, pod_name svc i) = Some (ip i) \<and> ip i \<noteq> ''''" by simp
  from Cons.IH [OF this, of "AList.update (pod_name svc i) (pod_url (ip i)) urls" "if sint mi = i then pod_addr ip i else hp"]
  obtain k' where "pods_loop E ns svc mi is (AList.update (pod_name svc i) (pod_url (ip i)) urls) (if sint mi = i then pod_addr ip i else hp) k1 =
      (Inr (fold (\<lambda>i. AList.update (pod_name svc i) (pod_url (ip i))) is (AList.update (pod_name svc i) (pod_url (ip i)) urls),
            if sint mi \<in> set is then pod_addr ip (sint mi) else if sint mi = i then pod_addr ip i else hp), k')" "ips k' = ips k1" by blast
  with k1 Cons.prems show ?case by auto
qed simp

text \<open>The pods from 0 up to the number of replicas, and the address of the master among them.\<close>

lemma pods_loop_runs:
  assumes "\<forall>i \<in> {0..<n}. ips k (ns, pod_name svc i) = Some (ip i) \<and> ip i \<noteq> ''''"
  shows "\<exists>k'. pods_loop E ns svc mi [0..n - 1] [] '''' k =
      (Inr (pod_topology svc ip n, if sint mi \<in> {0..<n} then pod_addr ip (sint mi) else ''''), k') \<and> ips k' = ips k"
proof -
  have "inj_on (pod_name svc) {0..<n}" using pod_name_inject by (intro inj_onI) auto
  then have "distinct (map (pod_name svc) [0..n - 1])" by (simp only: distinct_map set_pods distinct_upto simp_thms)
  then show ?thesis using pods_loop_folds [of "[0..n - 1]" k ns svc ip mi "[]" "''''"] assms
    fold_update_fresh [of "pod_name svc" "[0..n - 1]" "[]" "\<lambda>i. pod_url (ip i)"] unfolding set_pods
    by (simp add: pod_topology_def)
qed

end

context redis_lib
begin

lemma get_all_pool_ok: "pool_ok p \<Longrightarrow> pool_ok (snd (get_all (GetServer X) xs p))"
  by (rule pool.inv_get_all)

end

text \<open>The shard that is built from the pods, before its initialisation.\<close>

lemma pods_shard:
  assumes X: "url_canonical X" "pod_urls X" and pool: "pool_ok pool" "pool_split pool"
    and ip: "\<forall>i \<in> {0..<n}. plain_host (ip i) \<and> ip i \<noteq> ''''" "inj_on ip {0..<n}"
    and m: "mset m = mset (pod_topology (''redis-shard-'' @ nm) ip n)"
  obtains sh pool' where "NewShardFromTopology X name m pool = ((None, sh), pool')" "pool_ok pool'" "pool_split pool'"
    "set (sh_Servers sh) = (\<lambda>i. unknown_server (ip i, ''6379'')) ` {0..<n}" "distinct (map rs_ID (sh_Servers sh))"
    "\<forall>i \<in> {0..<n}. alias_of pool' (ip i, ''6379'') = pod_name (''redis-shard-'' @ nm) i"
proof -
  let ?svc = "''redis-shard-'' @ nm"
  let ?e = "\<lambda>i. (pod_name ?svc i, pod_url (ip i))"
  have set: "set m = ?e ` {0..<n}"
    using arg_cong [OF m, of set_mset] by (simp only: set_mset_mset pod_topology_def list.set_map set_pods)
  have ref: "url_ref X (pod_url (ip i)) = Some (ip i, ''6379'')" if "i \<in> {0..<n}" for i
    using that ip(1) X(2) by (simp add: url_ref_pod)
  have ok: "urls_ok X m" using ref by (auto simp: set)
  have "mset (refs_of X m) = mset (refs_of X (pod_topology ?svc ip n))"
    unfolding refs_of_def mset_map m ..
  also have "refs_of X (pod_topology ?svc ip n) = map (\<lambda>i. (ip i, ''6379'')) [0..n - 1]"
    using ref by (simp add: refs_of_def pod_topology_def)
  finally have refs: "mset (refs_of X m) = mset (map (\<lambda>i. (ip i, ''6379'')) [0..n - 1])" .
  have "inj_on (\<lambda>i. ID (ip i, ''6379'')) {0..<n}"
    using ip by (auto simp: inj_on_def ID_def JoinHostPort_inject)
  then have "distinct (map ID (map (\<lambda>i. (ip i, ''6379'')) [0..n - 1]))"
    by (simp only: distinct_map map_map comp_def set_pods distinct_upto simp_thms)
  then have dist: "distinct (map ID (refs_of X m))"
    using refs by (metis mset_eq_imp_distinct_iff mset_map)
  have setrefs: "set (refs_of X m) = (\<lambda>i. (ip i, ''6379'')) ` {0..<n}"
    using ref by (force simp: refs_of_def set image_image)
  obtain srvs pool' where g: "get_all (GetServer X) m pool = (([], srvs), pool')"
    "map ref_of srvs = refs_of X m" "pool_split pool'"
    using get_all_refs [OF X(1) pool(2) ok] by blast
  have "\<forall>(k, u) \<in> set m. k \<noteq> u \<and> k \<noteq> ''''" by (auto simp: set pod_name_def pod_url_def)
  from get_all_aliases [OF X(1) pool ok dist this g(1)] have al: "\<forall>i \<in> {0..<n}. alias_of pool' (ip i, ''6379'') = pod_name ?svc i"
    using ref by (auto simp: set)
  have "redis_lib X" by (rule redis_lib.intro) (rule X(1))
  then have okp: "pool_ok pool'" using redis_lib.get_all_pool_ok [OF _ pool(1), of X m] g(1) by simp
  obtain p where n: "NewShardFromTopology X name m pool = ((None, topology_shard X (name, m)), p)"
    using NewShardFromTopology_refs [OF X(1) pool(2) ok, of name] by blast
  then have "p = pool'" using g(1) by (simp add: NewShardFromTopology_def)
  moreover have "set (sh_Servers (topology_shard X (name, m))) = (\<lambda>i. unknown_server (ip i, ''6379'')) ` {0..<n}"
    by (simp add: topology_shard_def setrefs image_image)
  moreover have "distinct (map rs_ID (sh_Servers (topology_shard X (name, m))))"
    using dist by (simp add: topology_shard_def distinct_map_sort_key comp_def unknown_server_def)
  ultimately show thesis using n okp g(3) al that by blast
qed

section \<open>Publishing the roles\<close>

definition node_entry :: "ServerPool \<Rightarrow> RedisServer \<Rightarrow> string \<times> string" where
  "node_entry pool s = (alias_of pool (rs_ref s), rs_ID s)"

abbreviation no_nodes :: RedisShardNodes where
  "no_nodes \<equiv> \<lparr>rsn_Master = [], rsn_Slaves = []\<rparr>"

lemma put_nodes:
  "rsn_Master (fold (put_node pool) srvs nodes) =
     fold (\<lambda>(k, v) m. AList.update k v m) (map (node_entry pool) (filter (\<lambda>s. rs_Role s = Master) srvs)) (rsn_Master nodes)"
  "rsn_Slaves (fold (put_node pool) srvs nodes) =
     fold (\<lambda>(k, v) m. AList.update k v m) (map (node_entry pool) (filter (\<lambda>s. rs_Role s = Slave) srvs)) (rsn_Slaves nodes)"
  by (induction srvs arbitrary: nodes) (simp_all add: put_node_def node_entry_def split: Role.splits)

lemma shard_nodes_ok: "nodes_ok (fold (put_node pool) srvs no_nodes)"
  by (simp add: nodes_ok_def put_nodes distinct_update_all)

lemma map_of_entries:
  assumes "distinct (map fst (map (node_entry pool) srvs))"
  shows "map_of (fold (\<lambda>(k, v) m. AList.update k v m) (map (node_entry pool) (filter P srvs)) []) a = Some hp \<longleftrightarrow>
    (\<exists>s \<in> set srvs. P s \<and> node_entry pool s = (a, hp))"
proof -
  have "distinct (map fst (map (node_entry pool) (filter P srvs)))"
    using assms by (metis distinct_map_filter map_map)
  then have "map_of (rev (map (node_entry pool) (filter P srvs))) a = Some hp \<longleftrightarrow> (a, hp) \<in> set (map (node_entry pool) (filter P srvs))"
    by (simp only: map_of_rev map_of_eq_Some_iff)
  then show ?thesis by (simp add: map_of_update_all image_iff) (metis (no_types, lifting))
qed

text \<open>
  The status of a shard whose pods have their roles, whether it is written now or the same one is
  there already.
\<close>

lemma status_shows_pods:
  assumes "map rs_ref srvs = map rs_ref srvs0" and "set srvs0 = (\<lambda>i. unknown_server (ip i, ''6379'')) ` {0..<n}"
    and "distinct (map rs_ID srvs0)" and "\<forall>i \<in> {0..<n}. alias_of pool (ip i, ''6379'') = pod_name svc i"
    and "inj_on ip {0..<n}" and "mi \<in> {0..<n}" and "\<forall>s \<in> set srvs. rs_Role s = (if rs_ref s = (ip mi, ''6379'') then Master else Slave)"
    and "\<forall>c. cur = Some c \<longrightarrow> nodes_ok c" and "sh_Servers sh = srvs"
  shows "\<exists>nodes. snd (redisShardStatusReconciler pool sh cur) = Some nodes \<and> nodes_ok nodes \<and>
    shows_pods nodes svc n mi (pod_addr ip)"
proof -
  let ?new = "fold (put_node pool) srvs no_nodes"
  have refs: "rs_ref ` set srvs = (\<lambda>i. (ip i, ''6379'')) ` {0..<n}"
    using arg_cong [OF assms(1), of set] assms(2) by (simp add: image_image unknown_server_def)
  have "distinct (map ID (map rs_ref srvs0))" using assms(3) by (simp add: comp_def)
  then have d: "distinct (map rs_ref srvs)" unfolding assms(1) by (simp only: distinct_map [of ID])
  have inj: "inj_on (alias_of pool) (rs_ref ` set srvs)"
    unfolding refs using assms(4) pod_name_inject by (auto simp: inj_on_def)
  have "distinct (map (alias_of pool) (map rs_ref srvs))"
    using d inj by (simp only: distinct_map list.set_map simp_thms)
  then have dist: "distinct (map fst (map (node_entry pool) srvs))" by (simp add: node_entry_def comp_def)
  have ex: "(\<exists>s \<in> set srvs. Q (rs_ref s)) \<longleftrightarrow> (\<exists>i \<in> {0..<n}. Q (ip i, ''6379''))" for Q
    using refs by (metis (no_types, lifting) imageE imageI)
  have mast: "map_of (rsn_Master ?new) a = Some hp \<longleftrightarrow> a = pod_name svc mi \<and> hp = pod_addr ip mi" for a hp
  proof -
    have "map_of (rsn_Master ?new) a = Some hp \<longleftrightarrow> (\<exists>s \<in> set srvs. rs_ref s = (ip mi, ''6379'') \<and> (alias_of pool (rs_ref s), ID (rs_ref s)) = (a, hp))"
      using assms(7) by (simp add: put_nodes map_of_entries [OF dist] node_entry_def) (metis Role.distinct)
    also have "\<dots> \<longleftrightarrow> (\<exists>i \<in> {0..<n}. ip i = ip mi \<and> (alias_of pool (ip i, ''6379''), ID (ip i, ''6379'')) = (a, hp))"
      using ex [of "\<lambda>r. r = (ip mi, ''6379'') \<and> (alias_of pool r, ID r) = (a, hp)"] by simp
    also have "\<dots> \<longleftrightarrow> a = pod_name svc mi \<and> hp = pod_addr ip mi"
      using assms(4-6) by (auto simp: ID_def dest: inj_onD)
    finally show ?thesis .
  qed
  have slav: "map_of (rsn_Slaves ?new) a = Some hp \<longleftrightarrow> (\<exists>i \<in> {0..<n}. i \<noteq> mi \<and> a = pod_name svc i \<and> hp = pod_addr ip i)" for a hp
  proof -
    have "map_of (rsn_Slaves ?new) a = Some hp \<longleftrightarrow> (\<exists>s \<in> set srvs. rs_ref s \<noteq> (ip mi, ''6379'') \<and> (alias_of pool (rs_ref s), ID (rs_ref s)) = (a, hp))"
      using assms(7) by (simp add: put_nodes map_of_entries [OF dist] node_entry_def) (metis Role.distinct)
    also have "\<dots> \<longleftrightarrow> (\<exists>i \<in> {0..<n}. ip i \<noteq> ip mi \<and> (alias_of pool (ip i, ''6379''), ID (ip i, ''6379'')) = (a, hp))"
      using ex [of "\<lambda>r. r \<noteq> (ip mi, ''6379'') \<and> (alias_of pool r, ID r) = (a, hp)"] by simp
    also have "\<dots> \<longleftrightarrow> (\<exists>i \<in> {0..<n}. i \<noteq> mi \<and> a = pod_name svc i \<and> hp = pod_addr ip i)"
      using assms(4-6) by (intro bex_cong) (auto simp: ID_def dest: inj_onD)
    finally show ?thesis .
  qed
  have "shows_pods ?new svc n mi (pod_addr ip)" using mast slav by (simp add: shows_pods_def)
  moreover from this have "shows_pods c svc n mi (pod_addr ip)" if "same_nodes (Some c) ?new" for c
    using that by (simp add: shows_pods_def same_nodes_def)
  ultimately show ?thesis using assms(8,9) shard_nodes_ok
    by (cases cur) (auto simp: redisShardStatusReconciler_def Let_def same_nodes_def)
qed

lemma redisShardStatusReconciler_ok:
  assumes "\<forall>c. cur = Some c \<longrightarrow> nodes_ok c"
  shows "\<forall>c. snd (redisShardStatusReconciler pool sh cur) = Some c \<longrightarrow> nodes_ok c"
  using assms shard_nodes_ok by (auto simp: redisShardStatusReconciler_def Let_def)

section \<open>Reconciliation\<close>

text \<open>What a reconciliation of a shard starts from.\<close>

definition rsh_service :: "('w, 'k) rsh_state \<Rightarrow> string" where
  "rsh_service s = ''redis-shard-'' @ rx_name s"

definition rsh_replicas :: "('w, 'k) rsh_state \<Rightarrow> int" where
  "rsh_replicas s = sint (rsh_SlaveCount (rx_spec s) + 1)"

definition rsh_master :: "('w, 'k) rsh_state \<Rightarrow> int" where
  "rsh_master s = sint (rsh_MasterIndex (rx_spec s))"

definition rsh_ip :: "('k \<Rightarrow> owner \<rightharpoonup> string) \<Rightarrow> ('w, 'k) rsh_state \<Rightarrow> int \<Rightarrow> string" where
  "rsh_ip ips s i = (case ips (rx_kube s) (rx_namespace s, pod_name (rsh_service s) i) of None \<Rightarrow> '''' | Some ip \<Rightarrow> ip)"

definition pods_ready :: "('k \<Rightarrow> owner \<rightharpoonup> string) \<Rightarrow> ('w, 'k) rsh_state \<Rightarrow> bool" where
  "pods_ready ips s \<longleftrightarrow>
     (\<forall>i \<in> {0..<rsh_replicas s}. plain_host (rsh_ip ips s i) \<and> rsh_ip ips s i \<noteq> '''' \<and>
        rsh_ip ips s i \<noteq> ''127.0.0.1'' \<and> rsh_ip ips s i \<noteq> ''NO'') \<and>
     inj_on (rsh_ip ips s) {0..<rsh_replicas s}"

definition store_ready :: "('w, 'k) rsh_state \<Rightarrow> bool" where
  "store_ready s \<longleftrightarrow> pool_ok (rx_pool s) \<and> pool_split (rx_pool s) \<and> (\<forall>c. rx_ShardNodes s = Some c \<longrightarrow> nodes_ok c)"

context shard_host
begin

lemma Reconcile_roles:
  assumes "\<forall>k. ips k = ips (rx_kube s) \<longrightarrow> (\<exists>k'. ips k' = ips k \<and>
      setRedisRoles E (rx_namespace s, rx_name s) (rsh_MasterIndex (rx_spec s)) (rsh_SlaveCount (rx_spec s) + 1)
        (rsh_service s) (rx_pool s) k (rx_redis s) = Some (((sh, None), pool', k'), w'))"
  shows "\<exists>k'. ips k' = ips (rx_kube s) \<and> RedisShard_Reconcile E s = Some (Inr 0, s\<lparr>rx_pool := pool', rx_kube := k', rx_redis := w',
      rx_ShardNodes := snd (redisShardStatusReconciler pool' sh (rx_ShardNodes s))\<rparr>)"
proof -
  obtain gen res where g: "rs_NewGenerator (rx_name s) (rx_namespace s) (RedisShardSpec_Default (rx_spec s)) = Some gen"
    "rs_resources gen = Some res" "rs_ServiceName gen = rsh_service s"
    using rs_NewGenerator_total unfolding rsh_service_def .
  obtain k1 where k1: "re_owned E res (rx_kube s) = (None, k1)" "ips k1 = ips (rx_kube s)" using owned .
  obtain k2 where k2: "ips k2 = ips k1" "setRedisRoles E (rx_namespace s, rx_name s) (rsh_MasterIndex (rx_spec s))
      (rsh_SlaveCount (rx_spec s) + 1) (rsh_service s) (rx_pool s) k1 (rx_redis s) = Some (((sh, None), pool', k2), w')"
    using assms k1(2) by blast
  obtain u nodes where n: "redisShardStatusReconciler pool' sh (rx_ShardNodes s) = (u, nodes)" by (rule prod.exhaust)
  obtain k3 where k3: "re_status E (u, None) nodes k2 = (None, k3)" "ips k3 = ips k2" using status .
  have "RedisShard_Reconcile E s = Some (Inr 0, s\<lparr>rx_pool := pool', rx_kube := k3, rx_redis := w', rx_ShardNodes := nodes\<rparr>)"
    using g k1(1) k2(2) n k3(1) by (simp add: RedisShard_Reconcile_def RedisShardSpec_Default_total Let_def)
  then show ?thesis using k1(2) k2(1) k3(2) n by (intro exI [of _ k3]) simp
qed

lemma roles_shard:
  assumes "url_canonical (re_X E)" and "pod_urls (re_X E)" and "store_ready s" and "pods_ready ips s"
  obtains sh pool' where "pool_ok pool'" "pool_split pool'"
    "set (sh_Servers sh) = (\<lambda>i. unknown_server (rsh_ip ips s i, ''6379'')) ` {0..<rsh_replicas s}" "distinct (map rs_ID (sh_Servers sh))"
    "\<forall>i \<in> {0..<rsh_replicas s}. alias_of pool' (rsh_ip ips s i, ''6379'') = pod_name (rsh_service s) i"
    "\<forall>k. ips k = ips (rx_kube s) \<longrightarrow> (\<exists>k'. ips k' = ips k \<and>
      setRedisRoles E (rx_namespace s, rx_name s) (rsh_MasterIndex (rx_spec s)) (rsh_SlaveCount (rx_spec s) + 1)
        (rsh_service s) (rx_pool s) k (rx_redis s) =
      do { (((ch, e), sh), w) \<leftarrow> Shard_Init (re_X E) pool'
             (if rsh_master s \<in> {0..<rsh_replicas s} then pod_addr (rsh_ip ips s) (rsh_master s) else '''') sh (rx_redis s);
           Some (((sh, case e of Some e \<Rightarrow> Some (Inr 10000000000) | None \<Rightarrow> None), pool', k'), w) })"
proof -
  let ?n = "rsh_replicas s" and ?ip = "rsh_ip ips s" and ?top = "pod_topology (rsh_service s) (rsh_ip ips s) (rsh_replicas s)"
  have ip: "\<forall>i \<in> {0..<?n}. plain_host (?ip i) \<and> ?ip i \<noteq> ''''" "inj_on ?ip {0..<?n}"
    using assms(4) by (simp_all add: pods_ready_def)
  have pods: "\<forall>i \<in> {0..<?n}. ips (rx_kube s) (rx_namespace s, pod_name (rsh_service s) i) = Some (?ip i)"
    using ip(1) by (auto simp: rsh_ip_def split: option.splits)
  have pool: "pool_ok (rx_pool s)" "pool_split (rx_pool s)" using assms(3) by (simp_all add: store_ready_def)
  obtain sh pool' where n: "NewShardFromTopology (re_X E) (rx_name s) (re_iter E ?top) (rx_pool s) = ((None, sh), pool')"
    "pool_ok pool'" "pool_split pool'" "set (sh_Servers sh) = (\<lambda>i. unknown_server (?ip i, ''6379'')) ` {0..<?n}"
    "distinct (map rs_ID (sh_Servers sh))" "\<forall>i \<in> {0..<?n}. alias_of pool' (?ip i, ''6379'') = pod_name (rsh_service s) i"
    using pods_shard [OF assms(1,2) pool ip iter [of ?top, unfolded rsh_service_def], of "rx_name s"] unfolding rsh_service_def .
  show thesis
  proof (rule that [OF n(2-6)], intro allI impI)
    fix k assume k: "ips k = ips (rx_kube s)"
    obtain k' where "pods_loop E (rx_namespace s) (rsh_service s) (rsh_MasterIndex (rx_spec s)) [0..?n - 1] [] '''' k =
        (Inr (?top, if rsh_master s \<in> {0..<?n} then pod_addr ?ip (rsh_master s) else ''''), k')" "ips k' = ips k"
      using pods_loop_runs [of ?n k "rx_namespace s" "rsh_service s" ?ip "rsh_MasterIndex (rx_spec s)"] pods ip(1) k
      unfolding rsh_master_def by auto
    with n(1) show "\<exists>k'. ips k' = ips k \<and>
      setRedisRoles E (rx_namespace s, rx_name s) (rsh_MasterIndex (rx_spec s)) (rsh_SlaveCount (rx_spec s) + 1)
        (rsh_service s) (rx_pool s) k (rx_redis s) =
      do { (((ch, e), sh), w) \<leftarrow> Shard_Init (re_X E) pool'
             (if rsh_master s \<in> {0..<?n} then pod_addr ?ip (rsh_master s) else '''') sh (rx_redis s);
           Some (((sh, case e of Some e \<Rightarrow> Some (Inr 10000000000) | None \<Rightarrow> None), pool', k'), w) }"
      by (auto simp: setRedisRoles_def rsh_replicas_def)
  qed
qed

end

text \<open>A server of the shard is in place when it has its role.\<close>

definition in_place :: "('w \<Rightarrow> string \<Rightarrow> string option) \<Rightarrow> (int \<Rightarrow> string) \<Rightarrow> int \<Rightarrow> 'w \<Rightarrow> int \<Rightarrow> bool" where
  "in_place master_of ip mi w i \<longleftrightarrow> master_of w (pod_addr ip i) = (if i = mi then None else Some (ip mi))"

lemma pod_addr_inj:
  "\<forall>i \<in> S. plain_host (ip i) \<Longrightarrow> inj_on ip S \<Longrightarrow> inj_on (pod_addr ip) S"
  by (auto simp: inj_on_def JoinHostPort_inject)

lemma Init_pods:
  assumes R: "replication_laws X master_of" and ip: "\<forall>i \<in> {0..<n}. plain_host (ip i)" "inj_on ip {0..<n}"
    and mi: "mi \<in> {0..<n}" "ip mi \<noteq> ''127.0.0.1''" "ip mi \<noteq> ''NO''"
    and sh: "set (sh_Servers sh) = (\<lambda>i. unknown_server (ip i, ''6379'')) ` {0..<n}" "distinct (map rs_ID (sh_Servers sh))"
    and w: "\<forall>i \<in> {0..<n}. master_of w (pod_addr ip i) = Some ''127.0.0.1'' \<or> in_place master_of ip mi w i"
  shows "\<exists>ch sh' w'. Shard_Init X pool (pod_addr ip mi) sh w = Some (((ch, None), sh'), w') \<and>
    (\<forall>i \<in> {0..<n}. in_place master_of ip mi w' i) \<and> (\<forall>a. a \<notin> pod_addr ip ` {0..<n} \<longrightarrow> master_of w' a = master_of w a) \<and>
    ((\<forall>i \<in> {0..<n}. in_place master_of ip mi w i) \<longrightarrow> w' = w \<and> map rs_ref (sh_Servers sh') = map rs_ref (sh_Servers sh) \<and>
      (\<forall>s \<in> set (sh_Servers sh'). rs_Role s = (if rs_ref s = (ip mi, ''6379'') then Master else Slave)))"
proof -
  let ?hp = "pod_addr ip mi" and ?m = "unknown_server (ip mi, ''6379'')"
  let ?lo = "Some ''127.0.0.1''"
  have inj: "pod_addr ip i = ?hp \<longleftrightarrow> i = mi" if "i \<in> {0..<n}" for i
    using inj_on_eq_iff [OF pod_addr_inj [OF ip] that mi(1)] .
  have id: "rs_ID (unknown_server (ip i, ''6379'')) = pod_addr ip i" "GetHost (rs_ref (unknown_server (ip i, ''6379''))) = ip i" for i
    by (simp_all add: unknown_server_def ID_def GetHost_def)
  have ids: "rs_ID ` set (sh_Servers sh) = pod_addr ip ` {0..<n}" by (simp add: sh(1) image_image id)
  let ?up = "\<lambda>s. if master_of w (rs_ID s) = ?lo then s else s\<lparr>rs_Role := if rs_ID s = ?hp then Master else Slave\<rparr>"
  have rep: "replication X master_of" by (rule replication.intro) (rule R)
  have m: "?m \<in> set (sh_Servers sh)" "rs_ID ?m = ?hp" "GetHost (rs_ref ?m) \<noteq> ''127.0.0.1''" "GetHost (rs_ref ?m) \<noteq> ''NO''"
    using mi by (simp_all add: sh(1) id)
  have h1: "master_of w ?hp = None \<or> master_of w ?hp = ?lo"
    using w mi(1) by (auto simp: in_place_def)
  have h2: "\<forall>s \<in> set (sh_Servers sh). rs_ID s \<noteq> ?hp \<longrightarrow> master_of w (rs_ID s) = ?lo \<or> master_of w (rs_ID s) = Some (GetHost (rs_ref ?m))"
    using w inj unfolding sh(1) id by (auto simp: id in_place_def)
  obtain ch w' where r: "Shard_Init X pool ?hp sh w = Some (((ch, None), sh\<lparr>sh_Servers := map ?up (sh_Servers sh)\<rparr>), w')"
    "\<forall>a. master_of w' a = (if a = ?hp then None else if a \<in> rs_ID ` set (sh_Servers sh) then Some (GetHost (rs_ref ?m)) else master_of w a)"
    "master_of w ?hp = None \<and> (\<forall>s \<in> set (sh_Servers sh). rs_ID s \<noteq> ?hp \<longrightarrow> master_of w (rs_ID s) = Some (GetHost (rs_ref ?m))) \<longrightarrow> w' = w"
    using replication.Shard_Init_runs [OF rep sh(2) m h1 h2, of pool] by (elim exE conjE) (rule that)
  have place: "\<forall>i \<in> {0..<n}. in_place master_of ip mi w' i"
    using r(2) inj unfolding ids id by (auto simp: in_place_def)
  have roles: "w' = w \<and> (\<forall>s \<in> set (map ?up (sh_Servers sh)). rs_Role s = (if rs_ref s = (ip mi, ''6379'') then Master else Slave))"
    if all: "\<forall>i \<in> {0..<n}. in_place master_of ip mi w i"
  proof
    show "w' = w" using r(3) all mi(1) inj unfolding sh(1) by (auto simp: id in_place_def)
    have "master_of w (pod_addr ip i) \<noteq> ?lo" if "i \<in> {0..<n}" for i using all that mi(2) by (auto simp: in_place_def)
    moreover have "(ip i, ''6379'') = (ip mi, ''6379'') \<longleftrightarrow> i = mi" if "i \<in> {0..<n}" for i
      using ip(2) mi(1) that by (auto dest: inj_onD)
    ultimately show "\<forall>s \<in> set (map ?up (sh_Servers sh)). rs_Role s = (if rs_ref s = (ip mi, ''6379'') then Master else Slave)"
      using inj by (auto simp: sh(1) id) (simp_all add: unknown_server_def ID_def)
  qed
  have refs: "map rs_ref (map ?up (sh_Servers sh)) = map rs_ref (sh_Servers sh)" by simp
  have frame: "\<forall>a. a \<notin> pod_addr ip ` {0..<n} \<longrightarrow> master_of w' a = master_of w a"
    using r(2) mi(1) unfolding ids by auto
  obtain sh' where sh': "sh' = sh\<lparr>sh_Servers := map ?up (sh_Servers sh)\<rparr>" by blast
  then have srvs: "sh_Servers sh' = map ?up (sh_Servers sh)" by simp
  from r(1) [folded sh'] place frame roles [folded srvs] refs [folded srvs] show ?thesis by blast
qed

definition roles_pending :: "('w \<Rightarrow> string \<Rightarrow> string option) \<Rightarrow> ('k \<Rightarrow> owner \<rightharpoonup> string) \<Rightarrow> ('w, 'k) rsh_state \<Rightarrow> bool" where
  "roles_pending master_of ips s \<longleftrightarrow> (\<forall>i \<in> {0..<rsh_replicas s}.
     master_of (rx_redis s) (pod_addr (rsh_ip ips s) i) = Some ''127.0.0.1'' \<or>
     in_place master_of (rsh_ip ips s) (rsh_master s) (rx_redis s) i)"

definition roles_set :: "('w \<Rightarrow> string \<Rightarrow> string option) \<Rightarrow> ('k \<Rightarrow> owner \<rightharpoonup> string) \<Rightarrow> ('w, 'k) rsh_state \<Rightarrow> bool" where
  "roles_set master_of ips s \<longleftrightarrow> (\<forall>i \<in> {0..<rsh_replicas s}. in_place master_of (rsh_ip ips s) (rsh_master s) (rx_redis s) i)"

text \<open>What a reconciliation keeps of the resource.\<close>

definition same_shard :: "('k \<Rightarrow> owner \<rightharpoonup> string) \<Rightarrow> ('w, 'k) rsh_state \<Rightarrow> ('w, 'k) rsh_state \<Rightarrow> bool" where
  "same_shard ips s s' \<longleftrightarrow> rx_name s' = rx_name s \<and> rx_namespace s' = rx_namespace s \<and> rx_spec s' = rx_spec s \<and>
     ips (rx_kube s') = ips (rx_kube s)"

lemma same_shard_reads:
  assumes "same_shard ips s s'"
  shows "rsh_replicas s' = rsh_replicas s" "rsh_master s' = rsh_master s" "rsh_service s' = rsh_service s" "rsh_ip ips s' = rsh_ip ips s"
  using assms by (auto simp: same_shard_def rsh_replicas_def rsh_master_def rsh_service_def rsh_ip_def)

lemma RedisShard_Reconcile_once:
  assumes "replication_laws (re_X E) master_of" and "url_canonical (re_X E)" and "pod_urls (re_X E)" and "shard_host_laws E ips"
    and "store_ready s" and "pods_ready ips s" and "rsh_master s \<in> {0..<rsh_replicas s}" and "roles_pending master_of ips s"
  shows "\<exists>s'. RedisShard_Reconcile E s = Some (Inr 0, s') \<and> same_shard ips s s' \<and> store_ready s' \<and> roles_set master_of ips s' \<and>
    (\<forall>a. a \<notin> pod_addr (rsh_ip ips s) ` {0..<rsh_replicas s} \<longrightarrow> master_of (rx_redis s') a = master_of (rx_redis s) a) \<and>
    (roles_set master_of ips s \<longrightarrow> rx_redis s' = rx_redis s \<and>
      (\<exists>nodes. rx_ShardNodes s' = Some nodes \<and> shows_pods nodes (rsh_service s) (rsh_replicas s) (rsh_master s) (pod_addr (rsh_ip ips s))))"
proof -
  let ?n = "rsh_replicas s" and ?ip = "rsh_ip ips s" and ?mi = "rsh_master s"
  have host: "shard_host E ips" by (rule shard_host.intro) (rule assms(4))
  have ip: "\<forall>i \<in> {0..<?n}. plain_host (?ip i)" "inj_on ?ip {0..<?n}" "?ip ?mi \<noteq> ''127.0.0.1''" "?ip ?mi \<noteq> ''NO''"
    using assms(6,7) by (simp_all add: pods_ready_def)
  obtain sh pool' where sh: "pool_ok pool'" "pool_split pool'"
    "set (sh_Servers sh) = (\<lambda>i. unknown_server (?ip i, ''6379'')) ` {0..<?n}" "distinct (map rs_ID (sh_Servers sh))"
    "\<forall>i \<in> {0..<?n}. alias_of pool' (?ip i, ''6379'') = pod_name (rsh_service s) i"
    "\<forall>k. ips k = ips (rx_kube s) \<longrightarrow> (\<exists>k'. ips k' = ips k \<and>
      setRedisRoles E (rx_namespace s, rx_name s) (rsh_MasterIndex (rx_spec s)) (rsh_SlaveCount (rx_spec s) + 1)
        (rsh_service s) (rx_pool s) k (rx_redis s) =
      do { (((ch, e), sh), w) \<leftarrow> Shard_Init (re_X E) pool'
             (if ?mi \<in> {0..<?n} then pod_addr ?ip ?mi else '''') sh (rx_redis s);
           Some (((sh, case e of Some e \<Rightarrow> Some (Inr 10000000000) | None \<Rightarrow> None), pool', k'), w) })"
    using shard_host.roles_shard [OF host assms(2,3,5,6)] .
  obtain ch sh' w' where i: "Shard_Init (re_X E) pool' (pod_addr ?ip ?mi) sh (rx_redis s) = Some (((ch, None), sh'), w')"
    "\<forall>i \<in> {0..<?n}. in_place master_of ?ip ?mi w' i"
    "\<forall>a. a \<notin> pod_addr ?ip ` {0..<?n} \<longrightarrow> master_of w' a = master_of (rx_redis s) a"
    "roles_set master_of ips s \<longrightarrow> w' = rx_redis s \<and> map rs_ref (sh_Servers sh') = map rs_ref (sh_Servers sh) \<and>
      (\<forall>s \<in> set (sh_Servers sh'). rs_Role s = (if rs_ref s = (?ip ?mi, ''6379'') then Master else Slave))"
    using Init_pods [OF assms(1) ip(1,2) assms(7) ip(3,4) sh(3,4) assms(8) [unfolded roles_pending_def], of pool']
    by (elim exE conjE) (rule that, assumption+, unfold roles_set_def, assumption)
  let ?nodes = "snd (redisShardStatusReconciler pool' sh' (rx_ShardNodes s))"
  have roles: "\<forall>k. ips k = ips (rx_kube s) \<longrightarrow> (\<exists>k'. ips k' = ips k \<and> setRedisRoles E (rx_namespace s, rx_name s) (rsh_MasterIndex (rx_spec s))
      (rsh_SlaveCount (rx_spec s) + 1) (rsh_service s) (rx_pool s) k (rx_redis s) = Some (((sh', None), pool', k'), w'))"
    using sh(6) assms(7) i(1) by simp
  obtain k' where r: "ips k' = ips (rx_kube s)" "RedisShard_Reconcile E s = Some (Inr 0, s\<lparr>rx_pool := pool', rx_kube := k', rx_redis := w', rx_ShardNodes := ?nodes\<rparr>)"
    using shard_host.Reconcile_roles [OF host roles] by blast
  let ?s = "s\<lparr>rx_pool := pool', rx_kube := k', rx_redis := w', rx_ShardNodes := ?nodes\<rparr>"
  have same: "same_shard ips s ?s" using r(1) by (simp add: same_shard_def)
  have cur: "\<forall>c. rx_ShardNodes s = Some c \<longrightarrow> nodes_ok c" using assms(5) by (simp add: store_ready_def)
  have "store_ready ?s" using sh(1,2) redisShardStatusReconciler_ok [OF cur] by (simp add: store_ready_def)
  moreover have "roles_set master_of ips ?s" using i(2) by (simp add: roles_set_def same_shard_reads [OF same])
  moreover have "w' = rx_redis s \<and> (\<exists>nodes. ?nodes = Some nodes \<and> shows_pods nodes (rsh_service s) ?n ?mi (pod_addr ?ip))"
    if "roles_set master_of ips s"
  proof -
    have "map rs_ref (sh_Servers sh') = map rs_ref (sh_Servers sh)" "w' = rx_redis s"
      "\<forall>s \<in> set (sh_Servers sh'). rs_Role s = (if rs_ref s = (?ip ?mi, ''6379'') then Master else Slave)"
      using i(4) that by simp_all
    with status_shows_pods [OF this(1) sh(3,4,5) ip(2) assms(7) this(3) cur refl] show ?thesis by blast
  qed
  ultimately show ?thesis using r(2) same i(3) by (intro exI [of _ ?s]) simp
qed

text \<open>
  C38. A RedisShard converges: when the pods have distinct addresses, the index of the master is that
  of a pod and every server is uninitialised or in place, one reconciliation succeeds and gives
  every server its role, leaving all other servers alone; the next one writes nothing to redis and
  publishes exactly that: the status leads from the index of every pod to its address and back, and
  to the address of the master.
\<close>

theorem RedisShard_Reconcile_converges:
  assumes "replication_laws (re_X E) master_of" and "url_canonical (re_X E)" and "pod_urls (re_X E)" and "shard_host_laws E ips"
    and "store_ready s" and "pods_ready ips s" and "rsh_master s \<in> {0..<rsh_replicas s}" and "roles_pending master_of ips s"
  shows "\<exists>s1 s2 nodes. RedisShard_Reconcile E s = Some (Inr 0, s1) \<and> RedisShard_Reconcile E s1 = Some (Inr 0, s2) \<and>
    (\<forall>i \<in> {0..<rsh_replicas s}. master_of (rx_redis s1) (pod_addr (rsh_ip ips s) i) =
       (if i = rsh_master s then None else Some (rsh_ip ips s (rsh_master s)))) \<and>
    (\<forall>a. a \<notin> pod_addr (rsh_ip ips s) ` {0..<rsh_replicas s} \<longrightarrow> master_of (rx_redis s1) a = master_of (rx_redis s) a) \<and>
    rx_redis s2 = rx_redis s1 \<and> rx_ShardNodes s2 = Some nodes \<and> nodes_ok nodes \<and>
    shows_pods nodes (rsh_service s) (rsh_replicas s) (rsh_master s) (pod_addr (rsh_ip ips s))"
proof -
  obtain s1 where s1: "RedisShard_Reconcile E s = Some (Inr 0, s1)" "same_shard ips s s1" "store_ready s1" "roles_set master_of ips s1"
    "\<forall>a. a \<notin> pod_addr (rsh_ip ips s) ` {0..<rsh_replicas s} \<longrightarrow> master_of (rx_redis s1) a = master_of (rx_redis s) a"
    using RedisShard_Reconcile_once [OF assms] by blast
  note same = same_shard_reads [OF s1(2)]
  have "pods_ready ips s1" using assms(6) by (simp add: pods_ready_def same)
  moreover have "roles_pending master_of ips s1" using s1(4) by (simp add: roles_pending_def roles_set_def)
  ultimately obtain s2 nodes where s2: "RedisShard_Reconcile E s1 = Some (Inr 0, s2)" "store_ready s2" "rx_redis s2 = rx_redis s1"
    "rx_ShardNodes s2 = Some nodes" "shows_pods nodes (rsh_service s1) (rsh_replicas s1) (rsh_master s1) (pod_addr (rsh_ip ips s1))"
    using RedisShard_Reconcile_once [OF assms(1-4) s1(3)] assms(7) s1(4) unfolding same by blast
  moreover have "nodes_ok nodes" using s2(2,4) by (simp add: store_ready_def)
  moreover have "\<forall>i \<in> {0..<rsh_replicas s}. master_of (rx_redis s1) (pod_addr (rsh_ip ips s) i) =
       (if i = rsh_master s then None else Some (rsh_ip ips s (rsh_master s)))"
    using s1(4) by (simp add: roles_set_def in_place_def same)
  ultimately show ?thesis using s1(1,5) unfolding same by blast
qed

context replication
begin

lemma init_slaves_no_master:
  "s \<in> set ss \<Longrightarrow> rs_ID s \<noteq> hp \<Longrightarrow> master_of w (rs_ID s) = Some ''127.0.0.1'' \<Longrightarrow> init_slaves X pool hp None ss w = None"
proof (induction ss)
  case (Cons t ss)
  show ?case
  proof (cases "master_of w (rs_ID t) = Some ''127.0.0.1'' \<and> rs_ID t \<noteq> hp")
    case True
    then show ?thesis by (simp add: InitSlave_def role)
  next
    case False
    then have "t \<noteq> s" using Cons.prems by blast
    then have "init_slaves X pool hp None ss w = None" using Cons by simp
    moreover have "rs_ID t \<noteq> hp \<Longrightarrow> \<exists>r. InitSlave X pool None t w = Some (r, w)"
      using False by (auto simp: InitSlave_def role split: option.splits)
    ultimately show ?thesis by (cases "rs_ID t = hp") auto
  qed
qed simp

end

text \<open>
  C40. An index of the master that is not that of a pod is not rejected: the address of the master
  stays empty, and as long as one server is uninitialised the reconciliation panics on the nil
  master.
\<close>

theorem RedisShard_master_index_panics:
  assumes "replication_laws (re_X E) master_of" and "url_canonical (re_X E)" and "pod_urls (re_X E)" and "shard_host_laws E ips"
    and "store_ready s" and "pods_ready ips s" and "rsh_master s \<notin> {0..<rsh_replicas s}"
    and "\<exists>i \<in> {0..<rsh_replicas s}. master_of (rx_redis s) (pod_addr (rsh_ip ips s) i) = Some ''127.0.0.1''"
  shows "RedisShard_Reconcile E s = None"
proof -
  let ?n = "rsh_replicas s" and ?ip = "rsh_ip ips s"
  have host: "shard_host E ips" by (rule shard_host.intro) (rule assms(4))
  have rep: "replication (re_X E) master_of" by (rule replication.intro) (rule assms(1))
  obtain sh pool' where sh: "set (sh_Servers sh) = (\<lambda>i. unknown_server (?ip i, ''6379'')) ` {0..<?n}"
    "\<forall>k. ips k = ips (rx_kube s) \<longrightarrow> (\<exists>k'. ips k' = ips k \<and>
      setRedisRoles E (rx_namespace s, rx_name s) (rsh_MasterIndex (rx_spec s)) (rsh_SlaveCount (rx_spec s) + 1)
        (rsh_service s) (rx_pool s) k (rx_redis s) =
      do { (((ch, e), sh), w) \<leftarrow> Shard_Init (re_X E) pool'
             (if rsh_master s \<in> {0..<?n} then pod_addr ?ip (rsh_master s) else '''') sh (rx_redis s);
           Some (((sh, case e of Some e \<Rightarrow> Some (Inr 10000000000) | None \<Rightarrow> None), pool', k'), w) })"
    using shard_host.roles_shard [OF host assms(2,3,5,6)] .
  have nonempty: "rs_ID t \<noteq> ''''" for t by (simp add: ID_def JoinHostPort_def)
  obtain i where i: "i \<in> {0..<?n}" "master_of (rx_redis s) (pod_addr ?ip i) = Some ''127.0.0.1''" using assms(8) by blast
  let ?t = "unknown_server (?ip i, ''6379'')"
  have "?t \<in> set (sh_Servers sh)" "master_of (rx_redis s) (rs_ID ?t) = Some ''127.0.0.1''"
    using i by (simp_all add: sh(1) unknown_server_def ID_def)
  then have "init_slaves (re_X E) pool' '''' None (sh_Servers sh) (rx_redis s) = None"
    using replication.init_slaves_no_master [OF rep _ nonempty] by blast
  moreover have "'''' \<notin> rs_ID ` set (sh_Servers sh)" using nonempty by (metis imageE)
  ultimately have "Shard_Init (re_X E) pool' '''' sh (rx_redis s) = None"
    by (simp add: Shard_Init_def replication.init_masters_none [OF rep])
  with sh(2) assms(7) have roles: "setRedisRoles E (rx_namespace s, rx_name s) (rsh_MasterIndex (rx_spec s)) (rsh_SlaveCount (rx_spec s) + 1)
        (rsh_service s) (rx_pool s) k (rx_redis s) = None" if "ips k = ips (rx_kube s)" for k
    using that by auto
  obtain gen res where g: "rs_NewGenerator (rx_name s) (rx_namespace s) (RedisShardSpec_Default (rx_spec s)) = Some gen"
    "rs_resources gen = Some res" "rs_ServiceName gen = rsh_service s"
    using rs_NewGenerator_total unfolding rsh_service_def .
  obtain k1 where "re_owned E res (rx_kube s) = (None, k1)" "ips k1 = ips (rx_kube s)" using shard_host.owned [OF host] .
  with g roles show ?thesis by (simp add: RedisShard_Reconcile_def RedisShardSpec_Default_total Let_def)
qed


section \<open>Witness\<close>

text \<open>A shard of three pods, none of them initialised, on a host whose pods never change.\<close>

definition ex_ips :: "unit \<Rightarrow> owner \<rightharpoonup> string" where
  "ex_ips k = map_of [((''ns'', ''redis-shard-a-0''), ''10.0.0.1''), ((''ns'', ''redis-shard-a-1''), ''10.0.0.2''),
     ((''ns'', ''redis-shard-a-2''), ''10.0.0.3'')]"

definition ex_rsh_env :: "(string \<Rightarrow> string option, unit) rsh_env" where
  "ex_rsh_env = \<lparr>re_X = replica_lib, re_iter = rev, re_owned = (\<lambda>r k. (None, k)),
     re_pod = (\<lambda>key k. (case ex_ips k key of None \<Rightarrow> Inl (ErrorString ''not found'') | Some ip \<Rightarrow> Inr ip, k)),
     re_status = (\<lambda>r n k. (case snd r of Some e \<Rightarrow> Some (Inl e) | None \<Rightarrow> None, k))\<rparr>"

definition ex_rsh_state :: "int32 option \<Rightarrow> int32 option \<Rightarrow> (string \<Rightarrow> string option, unit) rsh_state" where
  "ex_rsh_state index slaves = \<lparr>rx_name = ''a'', rx_namespace = ''ns'',
     rx_spec = \<lparr>rss_Image = None, rss_MasterIndex = index, rss_SlaveCount = slaves, rss_Command = None\<rparr>,
     rx_ShardNodes = None, rx_pool = [], rx_kube = (), rx_redis = (\<lambda>a. Some ''127.0.0.1'')\<rparr>"

interpretation ex_host: shard_host ex_rsh_env ex_ips
  by unfold_locales (auto simp: shard_host_laws_def ex_rsh_env_def)

lemma replica_lib_canonical: "url_canonical replica_lib"
  using fake_lib_canonical by (simp add: url_canonical_def replica_lib_def fake_lib_def Let_def)

lemma replica_lib_pod_urls: "pod_urls replica_lib"
  by (simp add: pod_urls_def pod_url_def replica_lib_def parse_redis_url_def SplitHostPort_JoinHostPort Let_def)

lemma ex_rsh_reads:
  "rsh_replicas (ex_rsh_state index None) = 3" "rsh_master (ex_rsh_state (Some 1) slaves) = 1" "rsh_master (ex_rsh_state (Some 3) slaves) = 3"
  "rsh_replicas (ex_rsh_state index (Some 2147483647)) = - (2 ^ 31)"
  "rsh_service (ex_rsh_state index slaves) = ''redis-shard-a''"
  "rsh_ip ex_ips (ex_rsh_state index slaves) 0 = ''10.0.0.1''" "rsh_ip ex_ips (ex_rsh_state index slaves) 1 = ''10.0.0.2''"
  "rsh_ip ex_ips (ex_rsh_state index slaves) 2 = ''10.0.0.3''"
  by (simp_all add: rsh_replicas_def rsh_master_def rsh_SlaveCount_def rsh_MasterIndex_def RedisShardDefaultReplicas_def ex_rsh_state_def
      rsh_service_def rsh_ip_def ex_ips_def pod_name_def itoa_def nat_str.simps digit_def)

lemma three_pods: "{0..<3 :: int} = {0, 1, 2}"
  by auto

lemma ex_rsh_ready:
  "store_ready (ex_rsh_state index slaves)" "pods_ready ex_ips (ex_rsh_state index None)"
  "roles_pending (\<lambda>w. w) ex_ips (ex_rsh_state index None)" "rx_redis (ex_rsh_state index slaves) = (\<lambda>a. Some ''127.0.0.1'')"
  by (simp_all add: store_ready_def pods_ready_def roles_pending_def ex_rsh_reads three_pods inj_on_def plain_host_def pool_ok_def pool_split_def)
    (simp_all add: ex_rsh_state_def)

lemmas ex_rsh_laws = simulated.laws replica_lib_canonical replica_lib_pod_urls ex_host.laws ex_rsh_ready(1)

lemma ex_rsh_lib: "re_X ex_rsh_env = replica_lib"
  by (simp add: ex_rsh_env_def)

theorem RedisShard_Reconcile_converges_witness:
  "\<exists>s1 s2 nodes. RedisShard_Reconcile ex_rsh_env (ex_rsh_state (Some 1) None) = Some (Inr 0, s1) \<and>
     RedisShard_Reconcile ex_rsh_env s1 = Some (Inr 0, s2) \<and> rx_ShardNodes s2 = Some nodes \<and>
     map_of (rsn_Master nodes) ''redis-shard-a-1'' = Some ''10.0.0.2:6379''"
proof -
  let ?s = "ex_rsh_state (Some 1) None"
  have "rsh_master ?s \<in> {0..<rsh_replicas ?s}" by (simp add: ex_rsh_reads)
  from RedisShard_Reconcile_converges [of ex_rsh_env "\<lambda>w. w", unfolded ex_rsh_lib, OF ex_rsh_laws ex_rsh_ready(2) this ex_rsh_ready(3)]
  obtain s1 s2 nodes where r: "RedisShard_Reconcile ex_rsh_env ?s = Some (Inr 0, s1)" "RedisShard_Reconcile ex_rsh_env s1 = Some (Inr 0, s2)"
    "rx_ShardNodes s2 = Some nodes" "shows_pods nodes (rsh_service ?s) (rsh_replicas ?s) (rsh_master ?s) (pod_addr (rsh_ip ex_ips ?s))"
    by blast
  have "pod_name ''redis-shard-a'' 1 = ''redis-shard-a-1''" "JoinHostPort ''10.0.0.2'' ''6379'' = ''10.0.0.2:6379''" by code_simp+
  with r(4) have "map_of (rsn_Master nodes) ''redis-shard-a-1'' = Some ''10.0.0.2:6379''"
    unfolding shows_pods_def ex_rsh_reads by simp
  with r(1-3) show ?thesis by blast
qed

theorem RedisShard_master_index_panics_witness:
  "RedisShard_Reconcile ex_rsh_env (ex_rsh_state (Some 3) None) = None"
proof -
  let ?s = "ex_rsh_state (Some 3) None"
  have "rsh_master ?s \<notin> {0..<rsh_replicas ?s}"
    "\<exists>i \<in> {0..<rsh_replicas ?s}. rx_redis ?s (pod_addr (rsh_ip ex_ips ?s) i) = Some ''127.0.0.1''"
    by (auto simp: ex_rsh_reads three_pods ex_rsh_ready(4))
  then show ?thesis
    by (rule RedisShard_master_index_panics [of ex_rsh_env "\<lambda>w. w", unfolded ex_rsh_lib, OF ex_rsh_laws ex_rsh_ready(2)])
qed


end
