(* ===== verification/Publishing.thy ===== *)
theory Publishing
  imports CommonTypes "HOL-Library.AList"
begin

text \<open>
  How the endpoints of a workload are published: the types and defaults of
  \<^verbatim>\<open>api/v1alpha1/publishing_strategy_types.go\<close>, the merge of the user's strategies with those of the
  workload (\<^verbatim>\<open>internal/pkg/resource_builders/service/merge.go\<close>), the service that implements a
  strategy (\<^verbatim>\<open>descriptor.go\<close>, \<^verbatim>\<open>util.go\<close>) and the annotations of the Marin3r sidecar
  (\<^verbatim>\<open>marin3r.go\<close>).

  A strategy, a mode and a service type are the strings of the API. Where the code tells a nil
  slice or map from an empty one, it is an option. A quantity is its text.
\<close>

section \<open>Types and defaults\<close>

type_synonym Strategy = string
type_synonym ServiceType = string

definition PublishingStrategiesReconcileModeMerge :: string where
  "PublishingStrategiesReconcileModeMerge = ''Merge''"
definition PublishingStrategiesReconcileModeReplace :: string where
  "PublishingStrategiesReconcileModeReplace = ''Replace''"
definition SimpleStrategy :: Strategy where "SimpleStrategy = ''Simple''"
definition Marin3rSidecarStrategy :: Strategy where "Marin3rSidecarStrategy = ''Marin3rSidecar''"
definition ServiceTypeClusterIP :: ServiceType where "ServiceTypeClusterIP = ''ClusterIP''"
definition ServiceTypeNLB :: ServiceType where "ServiceTypeNLB = ''NLB''"
definition ServiceTypeELB :: ServiceType where "ServiceTypeELB = ''ELB''"

datatype IntOrString = FromInt int | FromString string

record ServicePort =
  sp_Name :: string
  sp_Protocol :: string
  sp_Port :: int
  sp_TargetPort :: IntOrString

definition TCPPort :: "string \<Rightarrow> int \<Rightarrow> IntOrString \<Rightarrow> ServicePort" where
  "TCPPort name port targetPort = \<lparr>sp_Name = name, sp_Protocol = ''TCP'', sp_Port = port, sp_TargetPort = targetPort\<rparr>"

record Simple =
  si_ServiceType :: "ServiceType option"
  si_ExternalDnsHostnames :: "string list"
  si_ServiceNameOverride :: "string option"
  si_ServicePortsOverride :: "ServicePort list"
  si_ElasticLoadBalancerConfig :: "ElasticLoadBalancerSpec option"
  si_NetworkLoadBalancerConfig :: "NetworkLoadBalancerSpec option"

definition Simple_Default :: "Simple \<Rightarrow> Simple" where
  "Simple_Default s = (if si_ServiceType s = None then s\<lparr>si_ServiceType := Some ServiceTypeClusterIP\<rparr> else s)"

record SidecarPort =
  scp_Name :: string
  scp_Port :: int

subsection \<open>Dynamic configuration of Envoy\<close>

text \<open>Raw values and durations are data that the operator only copies: they are kept as text.\<close>

record RateLimitOptions =
  rl_Domain :: string
  rl_FailureModeDeny :: "bool option"
  rl_Timeout :: string
  rl_RateLimitCluster :: string

record ListenerHttp =
  lh_Port :: int
  lh_ProxyProtocol :: "bool option"
  lh_RouteConfigName :: string
  lh_CertificateSecretName :: "string option"
  lh_RateLimitOptions :: "RateLimitOptions option"
  lh_DefaultHostForHttp10 :: "string option"
  lh_EnableHttp2 :: "bool option"
  lh_AllowHeadersWithUnderscores :: "bool option"
  lh_MaxConnectionDuration :: "string option"
  lh_MaxRequestHeadersKb :: "int option"

record EnvoyCluster =
  ec_Host :: string
  ec_Port :: int
  ec_IsHttp2 :: "bool option"

record RouteConfiguration =
  rc_VirtualHosts :: "string list"

record EnvoyRuntime =
  er_ListenerNames :: "string list"

record RawConfig =
  raw_Type :: string
  raw_Value :: string

record EnvoyDynamicConfig =
  dc_Name :: string
  dc_GeneratorVersion :: "string option"
  dc_ListenerHttp :: "ListenerHttp option"
  dc_RouteConfiguration :: "RouteConfiguration option"
  dc_Cluster :: "EnvoyCluster option"
  dc_Runtime :: "EnvoyRuntime option"
  dc_RawConfig :: "RawConfig option"

definition AsEnvoyDynamicConfigDescriptor :: "string \<Rightarrow> EnvoyDynamicConfig \<Rightarrow> EnvoyDynamicConfig" where
  "AsEnvoyDynamicConfigDescriptor name config = config\<lparr>dc_Name := name\<rparr>"

text \<open>The list in the order of iteration that \<open>iter\<close> chooses, then sorted by name.\<close>

definition AsList ::
    "((string, EnvoyDynamicConfig) gomap \<Rightarrow> (string, EnvoyDynamicConfig) gomap) \<Rightarrow> (string, EnvoyDynamicConfig) gomap
       \<Rightarrow> EnvoyDynamicConfig list" where
  "AsList iter mapofconfs = sort_key dc_Name (map (\<lambda>(name, conf). AsEnvoyDynamicConfigDescriptor name conf) (iter mapofconfs))"

text \<open>\<^verbatim>\<open>GetOptions\<close> returns the first of the pointers that is not nil.\<close>

datatype EnvoyOptions =
    OptListenerHttp ListenerHttp
  | OptRouteConfiguration RouteConfiguration
  | OptCluster EnvoyCluster
  | OptRuntime EnvoyRuntime
  | OptRawConfig RawConfig

definition GetOptions :: "EnvoyDynamicConfig \<Rightarrow> EnvoyOptions option" where
  "GetOptions config =
     (case dc_ListenerHttp config of Some x \<Rightarrow> Some (OptListenerHttp x) | None \<Rightarrow>
      case dc_RouteConfiguration config of Some x \<Rightarrow> Some (OptRouteConfiguration x) | None \<Rightarrow>
      case dc_Cluster config of Some x \<Rightarrow> Some (OptCluster x) | None \<Rightarrow>
      case dc_Runtime config of Some x \<Rightarrow> Some (OptRuntime x) | None \<Rightarrow>
      map_option OptRawConfig (dc_RawConfig config))"

subsection \<open>Marin3r sidecar\<close>

type_synonym Resources = "(string, unit) ResourceRequirementsSpec"

record Marin3rSidecarSpec =
  m3_Simple :: "Simple option"
  m3_NodeID :: "string option"
  m3_EnvoyAPIVersion :: "string option"
  m3_EnvoyImage :: "string option"
  m3_Ports :: "SidecarPort list option"
  m3_Resources :: "Resources option"
  m3_ShutdownManagerPort :: "int option"
  m3_ShutdownManagerExtraLifecycleHooks :: "string list option"
  m3_ExtraPodAnnotations :: "(string, string) gomap option"
  m3_EnvoyDynamicConfig :: "(string, EnvoyDynamicConfig) gomap option"

definition no_Marin3rSidecarSpec :: Marin3rSidecarSpec where
  "no_Marin3rSidecarSpec = \<lparr>m3_Simple = None, m3_NodeID = None, m3_EnvoyAPIVersion = None, m3_EnvoyImage = None,
     m3_Ports = None, m3_Resources = None, m3_ShutdownManagerPort = None, m3_ShutdownManagerExtraLifecycleHooks = None,
     m3_ExtraPodAnnotations = None, m3_EnvoyDynamicConfig = None\<rparr>"

record defaultMarin3rSidecarSpec =
  dm_Ports :: "SidecarPort list option"
  dm_Resources :: Resources
  dm_ExtraPodAnnotations :: "(string, string) gomap option"

definition Marin3rSidecarSpec_Default :: "defaultMarin3rSidecarSpec \<Rightarrow> Marin3rSidecarSpec \<Rightarrow> Marin3rSidecarSpec" where
  "Marin3rSidecarSpec_Default d spec =
     (let spec = (if m3_Ports spec = None then spec\<lparr>m3_Ports := dm_Ports d\<rparr> else spec);
          spec = (case m3_Resources spec of
                    None \<Rightarrow> if dm_Resources d \<noteq> no_ResourceRequirementsSpec
                            then spec\<lparr>m3_Resources := Some (ResourceRequirementsSpec_Default (dm_Resources d) no_ResourceRequirementsSpec)\<rparr>
                            else spec
                  | Some r \<Rightarrow> spec\<lparr>m3_Resources := Some (ResourceRequirementsSpec_Default (dm_Resources d) r)\<rparr>)
      in if m3_ExtraPodAnnotations spec = None then spec\<lparr>m3_ExtraPodAnnotations := dm_ExtraPodAnnotations d\<rparr> else spec)"

definition Marin3rSidecarSpec_IsDeactivated :: "Marin3rSidecarSpec \<Rightarrow> bool" where
  "Marin3rSidecarSpec_IsDeactivated spec \<longleftrightarrow> spec = no_Marin3rSidecarSpec"

definition InitializeMarin3rSidecarSpec ::
    "Marin3rSidecarSpec option \<Rightarrow> defaultMarin3rSidecarSpec \<Rightarrow> Marin3rSidecarSpec" where
  "InitializeMarin3rSidecarSpec spec d =
     (case spec of
        None \<Rightarrow> Marin3rSidecarSpec_Default d no_Marin3rSidecarSpec
      | Some s \<Rightarrow> if \<not> Marin3rSidecarSpec_IsDeactivated s then Marin3rSidecarSpec_Default d s else s)"

subsection \<open>Publishing strategies\<close>

record PublishingStrategy =
  ps_Strategy :: Strategy
  ps_EndpointName :: string
  ps_Simple :: "Simple option"
  ps_Marin3rSidecar :: "Marin3rSidecarSpec option"
  ps_Create :: "bool option"

record PublishingStrategies =
  pss_Mode :: "string option"
  pss_Endpoints :: "PublishingStrategy list"

definition PublishingStrategies_Default :: "PublishingStrategies \<Rightarrow> PublishingStrategies" where
  "PublishingStrategies_Default ps =
     (if pss_Mode ps = None then ps\<lparr>pss_Mode := Some PublishingStrategiesReconcileModeMerge\<rparr> else ps)"

definition InitializePublishingStrategies :: "PublishingStrategies option \<Rightarrow> PublishingStrategies" where
  "InitializePublishingStrategies spec =
     (case spec of
        None \<Rightarrow> PublishingStrategies_Default \<lparr>pss_Mode = None, pss_Endpoints = []\<rparr>
      | Some s \<Rightarrow> PublishingStrategies_Default s)"

section \<open>Merging with the default strategies\<close>

record ServiceDescriptor =
  sd_PortDefinitions :: "ServicePort list"
  sd_PublishingStrategy :: PublishingStrategy

abbreviation sd_EndpointName :: "ServiceDescriptor \<Rightarrow> string" where
  "sd_EndpointName sd \<equiv> ps_EndpointName (sd_PublishingStrategy sd)"

text \<open>
  \<^verbatim>\<open>mergo.Merge\<close> with \<^verbatim>\<open>WithOverride\<close> and \<^verbatim>\<open>nullTransformer\<close> on these types: a string or a slice of the
  source that is not empty replaces that of the destination, a pointer to anything but a struct
  replaces it when it is not nil, structs behind pointers are merged field by field, and maps are
  united, the entries of the source winning. It returns no error on two values of one type.
\<close>

definition merge_string :: "string \<Rightarrow> string \<Rightarrow> string" where
  "merge_string dst src = (if src = '''' then dst else src)"

definition merge_slice :: "'a list \<Rightarrow> 'a list \<Rightarrow> 'a list" where
  "merge_slice dst src = (if src = [] then dst else src)"

definition merge_slice_nil :: "'a list option \<Rightarrow> 'a list option \<Rightarrow> 'a list option" where
  "merge_slice_nil dst src = (case src of Some (x # xs) \<Rightarrow> src | _ \<Rightarrow> dst)"

definition merge_ptr :: "'a option \<Rightarrow> 'a option \<Rightarrow> 'a option" where
  "merge_ptr dst src = (case src of None \<Rightarrow> dst | Some _ \<Rightarrow> src)"

definition merge_struct :: "('a \<Rightarrow> 'a \<Rightarrow> 'a) \<Rightarrow> 'a option \<Rightarrow> 'a option \<Rightarrow> 'a option" where
  "merge_struct f dst src =
     (case src of None \<Rightarrow> dst | Some s \<Rightarrow> (case dst of None \<Rightarrow> Some s | Some d \<Rightarrow> Some (f d s)))"

definition merge_gomap :: "('k, 'v) gomap option \<Rightarrow> ('k, 'v) gomap option \<Rightarrow> ('k, 'v) gomap option" where
  "merge_gomap dst src =
     (case src of
        None \<Rightarrow> dst
      | Some s \<Rightarrow> Some (fold (\<lambda>(k, v). AList.update k v) s (case dst of None \<Rightarrow> [] | Some d \<Rightarrow> d)))"

definition merge_elb :: "ElasticLoadBalancerSpec \<Rightarrow> ElasticLoadBalancerSpec \<Rightarrow> ElasticLoadBalancerSpec" where
  "merge_elb d s =
     \<lparr>elb_ProxyProtocol = merge_ptr (elb_ProxyProtocol d) (elb_ProxyProtocol s),
      elb_CrossZoneLoadBalancingEnabled = merge_ptr (elb_CrossZoneLoadBalancingEnabled d) (elb_CrossZoneLoadBalancingEnabled s),
      elb_ConnectionDrainingEnabled = merge_ptr (elb_ConnectionDrainingEnabled d) (elb_ConnectionDrainingEnabled s),
      elb_ConnectionDrainingTimeout = merge_ptr (elb_ConnectionDrainingTimeout d) (elb_ConnectionDrainingTimeout s),
      elb_HealthcheckHealthyThreshold = merge_ptr (elb_HealthcheckHealthyThreshold d) (elb_HealthcheckHealthyThreshold s),
      elb_HealthcheckUnhealthyThreshold = merge_ptr (elb_HealthcheckUnhealthyThreshold d) (elb_HealthcheckUnhealthyThreshold s),
      elb_HealthcheckInterval = merge_ptr (elb_HealthcheckInterval d) (elb_HealthcheckInterval s),
      elb_HealthcheckTimeout = merge_ptr (elb_HealthcheckTimeout d) (elb_HealthcheckTimeout s)\<rparr>"

definition merge_nlb :: "NetworkLoadBalancerSpec \<Rightarrow> NetworkLoadBalancerSpec \<Rightarrow> NetworkLoadBalancerSpec" where
  "merge_nlb d s =
     \<lparr>nlb_ProxyProtocol = merge_ptr (nlb_ProxyProtocol d) (nlb_ProxyProtocol s),
      nlb_CrossZoneLoadBalancingEnabled = merge_ptr (nlb_CrossZoneLoadBalancingEnabled d) (nlb_CrossZoneLoadBalancingEnabled s),
      nlb_EIPAllocations = merge_slice (nlb_EIPAllocations d) (nlb_EIPAllocations s),
      nlb_LoadBalancerName = merge_ptr (nlb_LoadBalancerName d) (nlb_LoadBalancerName s),
      nlb_DeletionProtection = merge_ptr (nlb_DeletionProtection d) (nlb_DeletionProtection s)\<rparr>"

definition merge_simple :: "Simple \<Rightarrow> Simple \<Rightarrow> Simple" where
  "merge_simple d s =
     \<lparr>si_ServiceType = merge_ptr (si_ServiceType d) (si_ServiceType s),
      si_ExternalDnsHostnames = merge_slice (si_ExternalDnsHostnames d) (si_ExternalDnsHostnames s),
      si_ServiceNameOverride = merge_ptr (si_ServiceNameOverride d) (si_ServiceNameOverride s),
      si_ServicePortsOverride = merge_slice (si_ServicePortsOverride d) (si_ServicePortsOverride s),
      si_ElasticLoadBalancerConfig = merge_struct merge_elb (si_ElasticLoadBalancerConfig d) (si_ElasticLoadBalancerConfig s),
      si_NetworkLoadBalancerConfig = merge_struct merge_nlb (si_NetworkLoadBalancerConfig d) (si_NetworkLoadBalancerConfig s)\<rparr>"

definition merge_resources :: "Resources \<Rightarrow> Resources \<Rightarrow> Resources" where
  "merge_resources d s =
     \<lparr>rr_Limits = merge_gomap (rr_Limits d) (rr_Limits s), rr_Requests = merge_gomap (rr_Requests d) (rr_Requests s),
      rr_Claims = merge_slice_nil (rr_Claims d) (rr_Claims s)\<rparr>"

definition merge_marin3r :: "Marin3rSidecarSpec \<Rightarrow> Marin3rSidecarSpec \<Rightarrow> Marin3rSidecarSpec" where
  "merge_marin3r d s =
     \<lparr>m3_Simple = merge_struct merge_simple (m3_Simple d) (m3_Simple s),
      m3_NodeID = merge_ptr (m3_NodeID d) (m3_NodeID s),
      m3_EnvoyAPIVersion = merge_ptr (m3_EnvoyAPIVersion d) (m3_EnvoyAPIVersion s),
      m3_EnvoyImage = merge_ptr (m3_EnvoyImage d) (m3_EnvoyImage s),
      m3_Ports = merge_slice_nil (m3_Ports d) (m3_Ports s),
      m3_Resources = merge_struct merge_resources (m3_Resources d) (m3_Resources s),
      m3_ShutdownManagerPort = merge_ptr (m3_ShutdownManagerPort d) (m3_ShutdownManagerPort s),
      m3_ShutdownManagerExtraLifecycleHooks =
        merge_slice_nil (m3_ShutdownManagerExtraLifecycleHooks d) (m3_ShutdownManagerExtraLifecycleHooks s),
      m3_ExtraPodAnnotations = merge_gomap (m3_ExtraPodAnnotations d) (m3_ExtraPodAnnotations s),
      m3_EnvoyDynamicConfig = merge_gomap (m3_EnvoyDynamicConfig d) (m3_EnvoyDynamicConfig s)\<rparr>"

definition merge_strategy :: "PublishingStrategy \<Rightarrow> PublishingStrategy \<Rightarrow> PublishingStrategy" where
  "merge_strategy d s =
     \<lparr>ps_Strategy = merge_string (ps_Strategy d) (ps_Strategy s),
      ps_EndpointName = merge_string (ps_EndpointName d) (ps_EndpointName s),
      ps_Simple = merge_struct merge_simple (ps_Simple d) (ps_Simple s),
      ps_Marin3rSidecar = merge_struct merge_marin3r (ps_Marin3rSidecar d) (ps_Marin3rSidecar s),
      ps_Create = merge_ptr (ps_Create d) (ps_Create s)\<rparr>"

definition unknown_endpoint :: "string \<Rightarrow> error" where
  "unknown_endpoint name = ErrorString (''workload has no endpoint named '' @ name @ '', set '' @ quoted ''create=true''
     @ '' if you want to add a new endpoint'')"

definition creates :: "PublishingStrategy \<Rightarrow> bool" where
  "creates ps \<longleftrightarrow> ps_Create ps = Some True"

fun find_endpoint :: "string \<Rightarrow> ServiceDescriptor list \<Rightarrow> nat option" where
  "find_endpoint name [] = None"
| "find_endpoint name (d # ds) = (if name = sd_EndpointName d then Some 0 else map_option Suc (find_endpoint name ds))"

text \<open>Mode \<^verbatim>\<open>Replace\<close>: the errors and the list.\<close>

fun replace_loop :: "ServiceDescriptor list \<Rightarrow> PublishingStrategy list \<Rightarrow> error list \<times> ServiceDescriptor list" where
  "replace_loop defaults [] = ([], [])"
| "replace_loop defaults (item # items) =
     (case replace_loop defaults items of
        (merr, out) \<Rightarrow>
          (case find_endpoint (ps_EndpointName item) defaults of
             Some i \<Rightarrow> (merr, \<lparr>sd_PortDefinitions = sd_PortDefinitions (defaults ! i), sd_PublishingStrategy = item\<rparr> # out)
           | None \<Rightarrow> ((if creates item then [] else [unknown_endpoint (ps_EndpointName item)]) @ merr,
                      \<lparr>sd_PortDefinitions = [], sd_PublishingStrategy = item\<rparr> # out)))"

text \<open>
  Mode \<^verbatim>\<open>Merge\<close>. The slice \<^verbatim>\<open>out\<close> starts as an alias of \<^verbatim>\<open>defaults\<close>, a literal without spare capacity, so
  an assignment to an element of \<^verbatim>\<open>out\<close> is seen in \<^verbatim>\<open>defaults\<close> until the first append copies the
  array (\<open>shared\<close>). After that \<^verbatim>\<open>defaults\<close> still sees what the merge writes through the pointers that
  the copy of the element shares with it.
\<close>

definition merged_in_place :: "ServiceDescriptor \<Rightarrow> ServiceDescriptor \<Rightarrow> ServiceDescriptor" where
  "merged_in_place d d' =
     (let old = sd_PublishingStrategy d; new = sd_PublishingStrategy d' in
      d\<lparr>sd_PublishingStrategy := old\<lparr>
          ps_Simple := (if ps_Simple old = None then None else ps_Simple new),
          ps_Marin3rSidecar := (if ps_Marin3rSidecar old = None then None else ps_Marin3rSidecar new)\<rparr>\<rparr>)"

fun merge_loop ::
    "bool \<Rightarrow> ServiceDescriptor list \<Rightarrow> ServiceDescriptor list \<Rightarrow> PublishingStrategy list \<Rightarrow> error + ServiceDescriptor list" where
  "merge_loop shared defaults out [] = Inr out"
| "merge_loop shared defaults out (indesc # endpoints) =
     (case find_endpoint (ps_EndpointName indesc) defaults of
        Some i \<Rightarrow>
          let d = defaults ! i;
              d' = d\<lparr>sd_PublishingStrategy := merge_strategy (sd_PublishingStrategy d) indesc\<rparr>
          in merge_loop shared (defaults[i := if shared then d' else merged_in_place d d']) (out[i := d']) endpoints
      | None \<Rightarrow>
          if creates indesc
          then merge_loop False defaults (out @ [\<lparr>sd_PortDefinitions = [], sd_PublishingStrategy = indesc\<rparr>]) endpoints
          else Inl (unknown_endpoint (ps_EndpointName indesc)))"

definition cleanup :: "ServiceDescriptor \<Rightarrow> ServiceDescriptor" where
  "cleanup i =
     (let ps = sd_PublishingStrategy i in
      if ps_Strategy ps = SimpleStrategy then i\<lparr>sd_PublishingStrategy := ps\<lparr>ps_Marin3rSidecar := None\<rparr>\<rparr>
      else if ps_Strategy ps = Marin3rSidecarStrategy then i\<lparr>sd_PublishingStrategy := ps\<lparr>ps_Simple := None\<rparr>\<rparr>
      else i)"

definition MergeWithDefaultPublishingStrategy ::
    "ServiceDescriptor list \<Rightarrow> PublishingStrategies option \<Rightarrow> error + ServiceDescriptor list" where
  "MergeWithDefaultPublishingStrategy defaults in_ps =
     (case in_ps of
        None \<Rightarrow> Inr defaults
      | Some ps \<Rightarrow>
          let mode = (case pss_Mode ps of Some m \<Rightarrow> m | None \<Rightarrow> PublishingStrategiesReconcileModeMerge) in
          if mode = PublishingStrategiesReconcileModeReplace then
            (case replace_loop defaults (pss_Endpoints ps) of
               (merr, out) \<Rightarrow> if merr \<noteq> [] then Inl (MultiError merr) else Inr out)
          else if mode = PublishingStrategiesReconcileModeMerge then
            (case merge_loop True defaults defaults (pss_Endpoints ps) of
               Inl e \<Rightarrow> Inl e
             | Inr out \<Rightarrow> Inr (map cleanup out))
          else Inr [])"

section \<open>The service of a strategy\<close>

record Service =
  sv_Name :: string
  sv_Namespace :: string
  sv_Labels :: "string \<rightharpoonup> string"
  sv_Annotations :: "string \<rightharpoonup> string"
  sv_Type :: string
  sv_Ports :: "ServicePort list"
  sv_Selector :: "string \<rightharpoonup> string"

text \<open>\<^verbatim>\<open>strings.ToLower\<close> on the ASCII letters of an endpoint name.\<close>

definition toLower :: "char \<Rightarrow> char" where
  "toLower c = (let n = of_char c :: nat in if 65 \<le> n \<and> n \<le> 90 then char_of (n + 32) else c)"

definition ToLower :: "string \<Rightarrow> string" where
  "ToLower s = map toLower s"

definition aws :: "string \<Rightarrow> string" where
  "aws s = ''service.beta.kubernetes.io/aws-load-balancer-'' @ s"

definition dns_annotation :: string where
  "dns_annotation = ''external-dns.alpha.kubernetes.io/hostname''"

text \<open>A nil pointer of the load balancer specification panics.\<close>

definition ELBServiceAnnotations :: "ElasticLoadBalancerSpec \<Rightarrow> string list \<Rightarrow> (string \<rightharpoonup> string) option" where
  "ELBServiceAnnotations cfg hostnames =
     do { crossZone \<leftarrow> elb_CrossZoneLoadBalancingEnabled cfg;
          draining \<leftarrow> elb_ConnectionDrainingEnabled cfg;
          drainingTimeout \<leftarrow> elb_ConnectionDrainingTimeout cfg;
          healthy \<leftarrow> elb_HealthcheckHealthyThreshold cfg;
          unhealthy \<leftarrow> elb_HealthcheckUnhealthyThreshold cfg;
          interval \<leftarrow> elb_HealthcheckInterval cfg;
          timeout \<leftarrow> elb_HealthcheckTimeout cfg;
          proxy \<leftarrow> elb_ProxyProtocol cfg;
          let annotations = [dns_annotation \<mapsto> join '','' hostnames,
            aws ''cross-zone-load-balancing-enabled'' \<mapsto> formatBool crossZone,
            aws ''connection-draining-enabled'' \<mapsto> formatBool draining,
            aws ''connection-draining-timeout'' \<mapsto> itoa drainingTimeout,
            aws ''healthcheck-healthy-threshold'' \<mapsto> itoa healthy,
            aws ''healthcheck-unhealthy-threshold'' \<mapsto> itoa unhealthy,
            aws ''healthcheck-interval'' \<mapsto> itoa interval,
            aws ''healthcheck-timeout'' \<mapsto> itoa timeout];
          Some (if proxy then annotations(aws ''proxy-protocol'' \<mapsto> ''*'') else annotations) }"

definition NLBServiceAnnotations :: "NetworkLoadBalancerSpec \<Rightarrow> string list \<Rightarrow> (string \<rightharpoonup> string) option" where
  "NLBServiceAnnotations cfg hostnames =
     do { proxy \<leftarrow> nlb_ProxyProtocol cfg;
          crossZone \<leftarrow> nlb_CrossZoneLoadBalancingEnabled cfg;
          protection \<leftarrow> nlb_DeletionProtection cfg;
          let annotations = [dns_annotation \<mapsto> join '','' hostnames,
            aws ''type'' \<mapsto> ''external'', aws ''nlb-target-type'' \<mapsto> ''instance'', aws ''scheme'' \<mapsto> ''internet-facing''];
          let annotations = (if proxy then annotations(aws ''proxy-protocol'' \<mapsto> ''*'') else annotations);
          let annotations = (if nlb_EIPAllocations cfg \<noteq> []
            then annotations(aws ''eip-allocations'' \<mapsto> join '','' (nlb_EIPAllocations cfg)) else annotations);
          let annotations = (case nlb_LoadBalancerName cfg of
            Some name \<Rightarrow> annotations(aws ''name'' \<mapsto> name) | None \<Rightarrow> annotations);
          let attributes =
            [''load_balancing.cross_zone.enabled='' @ formatBool crossZone, ''deletion_protection.enabled='' @ formatBool protection];
          Some (annotations(aws ''attributes'' \<mapsto> join '','' attributes)) }"

text \<open>
  The options of the service: name, annotations and type, beside the specification, whose load
  balancer the code initialises in place.
\<close>

definition service_options ::
    "string \<Rightarrow> string \<Rightarrow> string \<Rightarrow> Simple \<Rightarrow> ((string \<times> (string \<rightharpoonup> string) \<times> string) \<times> Simple) option" where
  "service_options pre suf endpoint spec =
     do { serviceType \<leftarrow> si_ServiceType spec;
          let name = pre @ ''-'' @ ToLower endpoint @ ''-'' @ suf;
          if serviceType = ServiceTypeClusterIP then Some ((name, Map.empty, ''ClusterIP''), spec)
          else if serviceType = ServiceTypeELB then
            let cfg = InitializeElasticLoadBalancerSpec (si_ElasticLoadBalancerConfig spec) DefaultElasticLoadBalancerSpec in
            do { annotations \<leftarrow> ELBServiceAnnotations cfg (si_ExternalDnsHostnames spec);
                 Some ((name @ ''-elb'', annotations, ''LoadBalancer''), spec\<lparr>si_ElasticLoadBalancerConfig := Some cfg\<rparr>) }
          else if serviceType = ServiceTypeNLB then
            let cfg = InitializeNetworkLoadBalancerSpec (si_NetworkLoadBalancerConfig spec) DefaultNetworkLoadBalancerSpec in
            do { annotations \<leftarrow> NLBServiceAnnotations cfg (si_ExternalDnsHostnames spec);
                 Some ((name @ ''-nlb'', annotations, ''LoadBalancer''), spec\<lparr>si_NetworkLoadBalancerConfig := Some cfg\<rparr>) }
          else Some (('''', Map.empty, ''''), spec) }"

definition simple_service ::
    "ServicePort list \<Rightarrow> string \<Rightarrow> string \<Rightarrow> string \<Rightarrow> Simple \<Rightarrow> (Service \<times> Simple) option" where
  "simple_service ports pre suf endpoint spec =
     do { ((name, annotations, type), spec) \<leftarrow> service_options pre suf endpoint spec;
          Some (\<lparr>sv_Name = (case si_ServiceNameOverride spec of Some n \<Rightarrow> n | None \<Rightarrow> name), sv_Namespace = '''',
                 sv_Labels = Map.empty, sv_Annotations = annotations, sv_Type = type,
                 sv_Ports = (if si_ServicePortsOverride spec \<noteq> [] then si_ServicePortsOverride spec else ports),
                 sv_Selector = Map.empty\<rparr>, spec) }"

definition empty_service :: Service where
  "empty_service = \<lparr>sv_Name = '''', sv_Namespace = '''', sv_Labels = Map.empty, sv_Annotations = Map.empty,
     sv_Type = '''', sv_Ports = [], sv_Selector = Map.empty\<rparr>"

definition ServiceDescriptor_Service ::
    "string \<Rightarrow> string \<Rightarrow> ServiceDescriptor \<Rightarrow> (Service \<times> ServiceDescriptor) option" where
  "ServiceDescriptor_Service pre suf sd =
     (let ps = sd_PublishingStrategy sd; make = simple_service (sd_PortDefinitions sd) pre suf (ps_EndpointName ps) in
      if ps_Strategy ps = SimpleStrategy then
        do { spec \<leftarrow> ps_Simple ps;
             (svc, spec) \<leftarrow> make spec;
             Some (svc, sd\<lparr>sd_PublishingStrategy := ps\<lparr>ps_Simple := Some spec\<rparr>\<rparr>) }
      else if ps_Strategy ps = Marin3rSidecarStrategy then
        do { m3 \<leftarrow> ps_Marin3rSidecar ps;
             spec \<leftarrow> m3_Simple m3;
             (svc, spec) \<leftarrow> make spec;
             Some (svc, sd\<lparr>sd_PublishingStrategy := ps\<lparr>ps_Marin3rSidecar := Some (m3\<lparr>m3_Simple := Some spec\<rparr>)\<rparr>\<rparr>) }
      else Some (empty_service, sd))"

section \<open>The Marin3r sidecar\<close>

text \<open>
  The part of a deployment that the operator's builders touch: \<open>'p\<close> is the rest of its
  specification. A nil map of the template is \<^term>\<open>None\<close>; where the code only reads it, it reads as
  the empty map.
\<close>

type_synonym labels = "string \<rightharpoonup> string"

record 'p Deployment =
  dep_Name :: string
  dep_Namespace :: string
  dep_Labels :: labels
  dep_Selector :: labels
  dep_PodLabels :: "labels option"
  dep_PodAnnotations :: "labels option"
  dep_Spec :: 'p

definition orEmpty :: "('a \<rightharpoonup> 'b) option \<Rightarrow> ('a \<rightharpoonup> 'b)" where
  "orEmpty m = (case m of None \<Rightarrow> Map.empty | Some m \<Rightarrow> m)"

text \<open>\<^verbatim>\<open>util.MergeMaps\<close>, on maps: the later ones win.\<close>

definition mergeMaps :: "('a \<rightharpoonup> 'b) \<Rightarrow> ('a \<rightharpoonup> 'b) list \<Rightarrow> ('a \<rightharpoonup> 'b)" where
  "mergeMaps base merges = foldl (++) base merges"

definition marin3r :: "string \<Rightarrow> string" where
  "marin3r s = ''marin3r.3scale.net'' @ s"

definition sidecarEnabledLabelKey :: string where
  "sidecarEnabledLabelKey = marin3r ''/status''"

definition sidecarEnabledLabelValue :: string where
  "sidecarEnabledLabelValue = ''enabled''"

definition defaultAnnotations :: labels where
  "defaultAnnotations = [marin3r ''/shutdown-manager.enabled'' \<mapsto> ''true'']"

definition nodeIDAnnotation :: "string \<Rightarrow> string option \<Rightarrow> labels" where
  "nodeIDAnnotation name nodeID = [marin3r ''/node-id'' \<mapsto> (case nodeID of Some n \<Rightarrow> n | None \<Rightarrow> name)]"

definition imageAnnotation :: "string option \<Rightarrow> labels" where
  "imageAnnotation img = (case img of Some i \<Rightarrow> [marin3r ''/envoy-image'' \<mapsto> i] | None \<Rightarrow> Map.empty)"

definition apiVersionAnnotation :: "string option \<Rightarrow> labels" where
  "apiVersionAnnotation version = (case version of Some v \<Rightarrow> [marin3r ''/envoy-api-version'' \<mapsto> v] | None \<Rightarrow> Map.empty)"

definition shtdnmgrPortAnnotation :: "int option \<Rightarrow> labels" where
  "shtdnmgrPortAnnotation port = (case port of Some p \<Rightarrow> [marin3r ''/shutdown-manager.port'' \<mapsto> itoa p] | None \<Rightarrow> Map.empty)"

definition shtdnmgrExtraLifecycleHooksAnnotation :: "string list option \<Rightarrow> labels" where
  "shtdnmgrExtraLifecycleHooksAnnotation hooks =
     (case hooks of
        Some (h # hs) \<Rightarrow> [marin3r ''/shutdown-manager.extra-lifecycle-hooks'' \<mapsto> join '','' (h # hs)]
      | _ \<Rightarrow> Map.empty)"

definition quantity_annotation :: "string \<Rightarrow> string \<Rightarrow> (string, string) gomap option \<Rightarrow> labels \<Rightarrow> labels" where
  "quantity_annotation key name quantities annotations =
     (case quantities of
        None \<Rightarrow> annotations
      | Some q \<Rightarrow> (case map_of q name of Some v \<Rightarrow> annotations(key \<mapsto> v) | None \<Rightarrow> annotations))"

definition resourcesAnnotations :: "Resources option \<Rightarrow> labels" where
  "resourcesAnnotations resources =
     (case resources of
        None \<Rightarrow> Map.empty
      | Some r \<Rightarrow>
          quantity_annotation (marin3r ''/resources.limits.memory'') ''memory'' (rr_Limits r)
            (quantity_annotation (marin3r ''/resources.limits.cpu'') ''cpu'' (rr_Limits r)
              (quantity_annotation (marin3r ''/resources.requests.memory'') ''memory'' (rr_Requests r)
                (quantity_annotation (marin3r ''/resources.requests.cpu'') ''cpu'' (rr_Requests r) Map.empty))))"

definition portsAnnotation :: "SidecarPort list option \<Rightarrow> labels" where
  "portsAnnotation ports =
     (case ports of
        Some (p # ps) \<Rightarrow>
          [marin3r ''/ports'' \<mapsto> join '','' (map (\<lambda>port. join '':'' [scp_Name port, itoa (scp_Port port)]) (p # ps))]
      | _ \<Rightarrow> Map.empty)"

definition AddMarin3rSidecar :: "'p Deployment \<Rightarrow> Marin3rSidecarSpec \<Rightarrow> 'p Deployment" where
  "AddMarin3rSidecar dep spec =
     (let labels = orEmpty (dep_PodLabels dep);
          annotations = orEmpty (dep_PodAnnotations dep)
      in dep\<lparr>dep_PodLabels := Some (labels(sidecarEnabledLabelKey \<mapsto> sidecarEnabledLabelValue)),
             dep_PodAnnotations := Some (mergeMaps annotations
               [nodeIDAnnotation (dep_Name dep) (m3_NodeID spec),
                imageAnnotation (m3_EnvoyImage spec),
                apiVersionAnnotation (m3_EnvoyAPIVersion spec),
                shtdnmgrPortAnnotation (m3_ShutdownManagerPort spec),
                shtdnmgrExtraLifecycleHooksAnnotation (m3_ShutdownManagerExtraLifecycleHooks spec),
                resourcesAnnotations (m3_Resources spec),
                portsAnnotation (m3_Ports spec),
                defaultAnnotations,
                map_of (case m3_ExtraPodAnnotations spec of Some a \<Rightarrow> a | None \<Rightarrow> [])])\<rparr>)"

section \<open>What the merge computes\<close>

text \<open>
  The specification of the mode \<^verbatim>\<open>Merge\<close> has no aliases and no indices: every default endpoint is
  merged with the user's strategy of the same name, if there is one, and the user's other strategies
  follow.
\<close>

definition updated :: "ServiceDescriptor \<Rightarrow> PublishingStrategy \<Rightarrow> ServiceDescriptor" where
  "updated d e = d\<lparr>sd_PublishingStrategy := merge_strategy (sd_PublishingStrategy d) e\<rparr>"

definition created :: "PublishingStrategy \<Rightarrow> ServiceDescriptor" where
  "created e = \<lparr>sd_PortDefinitions = [], sd_PublishingStrategy = e\<rparr>"

definition updated_by :: "PublishingStrategy list \<Rightarrow> ServiceDescriptor \<Rightarrow> ServiceDescriptor" where
  "updated_by es d = (case find (\<lambda>e. ps_EndpointName e = sd_EndpointName d) es of None \<Rightarrow> d | Some e \<Rightarrow> updated d e)"

definition names_of :: "ServiceDescriptor list \<Rightarrow> string list" where
  "names_of ds = map (\<lambda>d. sd_EndpointName d) ds"

definition new_in :: "ServiceDescriptor list \<Rightarrow> PublishingStrategy \<Rightarrow> bool" where
  "new_in ds e \<longleftrightarrow> ps_EndpointName e \<notin> set (names_of ds)"

definition rejected :: "ServiceDescriptor list \<Rightarrow> PublishingStrategy \<Rightarrow> bool" where
  "rejected ds e \<longleftrightarrow> new_in ds e \<and> \<not> creates e"

definition merge_spec :: "ServiceDescriptor list \<Rightarrow> PublishingStrategy list \<Rightarrow> error + ServiceDescriptor list" where
  "merge_spec ds es =
     (case find (rejected ds) es of
        Some e \<Rightarrow> Inl (unknown_endpoint (ps_EndpointName e))
      | None \<Rightarrow> Inr (map cleanup (map (updated_by es) ds @ map created (filter (new_in ds) es))))"

lemma names_of_simps [simp]:
  "names_of [] = []" "names_of (d # ds) = sd_EndpointName d # names_of ds" "length (names_of ds) = length ds"
  "names_of (ds @ es) = names_of ds @ names_of es" "names_of (ds[i := d]) = (names_of ds)[i := sd_EndpointName d]"
  by (simp_all add: names_of_def map_update)

lemma nth_names_of [simp]: "i < length ds \<Longrightarrow> names_of ds ! i = sd_EndpointName (ds ! i)"
  by (simp add: names_of_def)

lemma find_endpoint_None_iff: "find_endpoint name ds = None \<longleftrightarrow> name \<notin> set (names_of ds)"
  by (induction ds) auto

lemma find_endpoint_Some:
  "find_endpoint name ds = Some i \<Longrightarrow> i < length ds \<and> sd_EndpointName (ds ! i) = name"
  by (induction ds arbitrary: i) (auto split: if_splits)

lemma merge_string_same [simp]: "merge_string s s = s"
  by (simp add: merge_string_def)

lemma endpoint_of_updated [simp]:
  "sd_EndpointName (updated d e) = merge_string (sd_EndpointName d) (ps_EndpointName e)"
  by (simp add: updated_def merge_strategy_def)

lemma endpoint_of_merged_in_place [simp]: "sd_EndpointName (merged_in_place d d') = sd_EndpointName d"
  by (simp add: merged_in_place_def Let_def)

lemma updated_by_Nil [simp]: "updated_by [] d = d"
  by (simp add: updated_by_def)

lemma updated_by_Cons:
  "updated_by (e # es) d = (if ps_EndpointName e = sd_EndpointName d then updated d e else updated_by es d)"
  by (simp add: updated_by_def)

lemma updated_by_absent: "sd_EndpointName d \<notin> ps_EndpointName ` set es \<Longrightarrow> updated_by es d = d"
  by (induction es) (auto simp: updated_by_Cons)

lemma updated_by_new: "new_in os e \<Longrightarrow> map (updated_by (e # es)) os = map (updated_by es) os"
  by (auto simp: updated_by_Cons new_in_def names_of_def)

lemma updated_by_step:
  assumes "distinct (names_of os)" "i < length os" "sd_EndpointName (os ! i) = ps_EndpointName e"
    and "ps_EndpointName e \<notin> ps_EndpointName ` set es"
  shows "map (updated_by es) (os[i := updated (os ! i) e]) = map (updated_by (e # es)) os"
proof (rule nth_equalityI)
  fix j assume j: "j < length (map (updated_by es) (os[i := updated (os ! i) e]))"
  have "j \<noteq> i \<Longrightarrow> sd_EndpointName (os ! j) \<noteq> ps_EndpointName e"
    using assms(1-3) j nth_eq_iff_index_eq [of "names_of os" i j] by auto
  then show "map (updated_by es) (os[i := updated (os ! i) e]) ! j = map (updated_by (e # es)) os ! j"
    using assms j by (cases "j = i") (auto simp: updated_by_Cons updated_by_absent)
qed simp

text \<open>
  The loop, from a state in which the default array and the first part of the output have the same
  names and agree on the endpoints still to be merged.
\<close>

lemma merge_loop_spec:
  assumes "distinct (map ps_EndpointName es)" "distinct (names_of ds)" "names_of os = names_of ds"
    and "\<forall>i<length ds. sd_EndpointName (ds ! i) \<in> ps_EndpointName ` set es \<longrightarrow> os ! i = ds ! i"
  shows "merge_loop shared ds (os @ extra) es =
    (case find (rejected ds) es of
       Some e \<Rightarrow> Inl (unknown_endpoint (ps_EndpointName e))
     | None \<Rightarrow> Inr (map (updated_by es) os @ extra @ map created (filter (new_in ds) es)))"
  using assms
proof (induction es arbitrary: shared ds os extra)
  case (Cons e es)
  have len: "length os = length ds"
    using Cons.prems(3) by (metis names_of_simps(3))
  show ?case
  proof (cases "find_endpoint (ps_EndpointName e) ds")
    case None
    then have "new_in ds e"
      by (simp add: find_endpoint_None_iff new_in_def)
    moreover from this have "map (updated_by (e # es)) os = map (updated_by es) os"
      using Cons.prems(3) by (intro updated_by_new) (simp add: new_in_def)
    moreover have "merge_loop False ds (os @ extra @ [created e]) es =
      (case find (rejected ds) es of
         Some e \<Rightarrow> Inl (unknown_endpoint (ps_EndpointName e))
       | None \<Rightarrow> Inr (map (updated_by es) os @ (extra @ [created e]) @ map created (filter (new_in ds) es)))"
      using Cons.prems by (intro Cons.IH) auto
    ultimately show ?thesis
      using None by (simp add: rejected_def [of ds e] flip: created_def split: option.splits)
  next
    case (Some i)
    let ?d = "ds ! i"
    let ?d' = "updated ?d e"
    define ds' where "ds' = ds[i := if shared then ?d' else merged_in_place ?d ?d']"
    have i: "i < length ds" "sd_EndpointName ?d = ps_EndpointName e"
      using find_endpoint_Some [OF Some] by auto
    have "(names_of ds)[i := ps_EndpointName e] = names_of ds"
      using i by (metis list_update_id nth_names_of)
    then have names: "names_of ds' = names_of ds" "names_of (os[i := ?d']) = names_of ds"
      using i Cons.prems(3) by (simp_all add: ds'_def)
    have "\<not> new_in ds e"
      using Some by (metis find_endpoint_None_iff new_in_def option.distinct(1))
    moreover have "new_in ds' = new_in ds" "rejected ds' = rejected ds"
      using names(1) by (simp_all only: fun_eq_iff new_in_def rejected_def) simp_all
    moreover have "os ! i = ?d"
      using Cons.prems(4) i by auto
    moreover have "map (updated_by es) (os[i := ?d']) = map (updated_by (e # es)) os"
      using updated_by_step [of os i e es] Cons.prems(1-3) i len \<open>os ! i = ?d\<close> by auto
    moreover have "merge_loop shared ds' (os[i := ?d'] @ extra) es =
      (case find (rejected ds') es of
         Some e \<Rightarrow> Inl (unknown_endpoint (ps_EndpointName e))
       | None \<Rightarrow> Inr (map (updated_by es) (os[i := ?d']) @ extra @ map created (filter (new_in ds') es)))"
      using Cons.prems i len names by (intro Cons.IH) (auto simp: nth_list_update ds'_def)
    ultimately show ?thesis
      using Some i len by (simp add: list_update_append rejected_def [of ds e] Let_def flip: updated_def ds'_def split: option.splits)
  qed
qed (simp add: map_idI)

definition mode_of :: "PublishingStrategies \<Rightarrow> string" where
  "mode_of ps = (case pss_Mode ps of Some m \<Rightarrow> m | None \<Rightarrow> PublishingStrategiesReconcileModeMerge)"

lemma merge_mode:
  assumes "mode_of ps = PublishingStrategiesReconcileModeMerge"
    and "distinct (map ps_EndpointName (pss_Endpoints ps))" "distinct (names_of defaults)"
  shows "MergeWithDefaultPublishingStrategy defaults (Some ps) = merge_spec defaults (pss_Endpoints ps)"
  using assms merge_loop_spec [of "pss_Endpoints ps" defaults defaults True "[]"]
  by (simp add: MergeWithDefaultPublishingStrategy_def mode_of_def PublishingStrategiesReconcileModeMerge_def
      PublishingStrategiesReconcileModeReplace_def merge_spec_def Let_def split: option.splits)

lemma replace_loop_spec:
  "replace_loop defaults es =
     (map (\<lambda>e. unknown_endpoint (ps_EndpointName e)) (filter (rejected defaults) es),
      map (\<lambda>e. \<lparr>sd_PortDefinitions = (case find (\<lambda>d. ps_EndpointName e = sd_EndpointName d) defaults of
                   Some d \<Rightarrow> sd_PortDefinitions d | None \<Rightarrow> []), sd_PublishingStrategy = e\<rparr>) es)"
proof -
  have nth: "find_endpoint name ds = Some i \<Longrightarrow> find (\<lambda>d. name = sd_EndpointName d) ds = Some (ds ! i)" for name ds i
    by (induction ds arbitrary: i) (auto split: if_splits)
  have none: "find_endpoint name ds = None \<Longrightarrow> find (\<lambda>d. name = sd_EndpointName d) ds = None" for name ds
    by (induction ds) (auto split: if_splits)
  have new: "new_in defaults e \<longleftrightarrow> find_endpoint (ps_EndpointName e) defaults = None" for e
    by (simp add: find_endpoint_None_iff new_in_def)
  show ?thesis
    by (induction es) (auto simp: rejected_def new nth none split: option.splits)
qed

text \<open>A service can be built exactly from a strategy that says of which type it is.\<close>

definition typed :: "Simple option \<Rightarrow> bool" where
  "typed spec \<longleftrightarrow> (case spec of None \<Rightarrow> False | Some s \<Rightarrow> si_ServiceType s \<noteq> None)"

definition publishable :: "PublishingStrategy \<Rightarrow> bool" where
  "publishable ps \<longleftrightarrow>
     (if ps_Strategy ps = SimpleStrategy then typed (ps_Simple ps)
      else if ps_Strategy ps = Marin3rSidecarStrategy
      then (case ps_Marin3rSidecar ps of None \<Rightarrow> False | Some m3 \<Rightarrow> typed (m3_Simple m3))
      else True)"

lemma orDefault_None_iff [simp]: "orDefault v d = None \<longleftrightarrow> v = None \<and> d = None"
  by (cases v) (simp_all add: orDefault_def)

lemma ELBServiceAnnotations_None_iff:
  "ELBServiceAnnotations cfg hostnames = None \<longleftrightarrow>
     elb_CrossZoneLoadBalancingEnabled cfg = None \<or> elb_ConnectionDrainingEnabled cfg = None \<or>
     elb_ConnectionDrainingTimeout cfg = None \<or> elb_HealthcheckHealthyThreshold cfg = None \<or>
     elb_HealthcheckUnhealthyThreshold cfg = None \<or> elb_HealthcheckInterval cfg = None \<or>
     elb_HealthcheckTimeout cfg = None \<or> elb_ProxyProtocol cfg = None"
  unfolding ELBServiceAnnotations_def by (simp only: bind_eq_None_conv Let_def option.simps simp_thms)

lemma NLBServiceAnnotations_None_iff:
  "NLBServiceAnnotations cfg hostnames = None \<longleftrightarrow>
     nlb_ProxyProtocol cfg = None \<or> nlb_CrossZoneLoadBalancingEnabled cfg = None \<or> nlb_DeletionProtection cfg = None"
  unfolding NLBServiceAnnotations_def by (simp only: bind_eq_None_conv Let_def option.simps simp_thms)

lemma initialized_ELB [simp]:
  "elb_CrossZoneLoadBalancingEnabled (InitializeElasticLoadBalancerSpec c DefaultElasticLoadBalancerSpec) \<noteq> None"
  "elb_ConnectionDrainingEnabled (InitializeElasticLoadBalancerSpec c DefaultElasticLoadBalancerSpec) \<noteq> None"
  "elb_ConnectionDrainingTimeout (InitializeElasticLoadBalancerSpec c DefaultElasticLoadBalancerSpec) \<noteq> None"
  "elb_HealthcheckHealthyThreshold (InitializeElasticLoadBalancerSpec c DefaultElasticLoadBalancerSpec) \<noteq> None"
  "elb_HealthcheckUnhealthyThreshold (InitializeElasticLoadBalancerSpec c DefaultElasticLoadBalancerSpec) \<noteq> None"
  "elb_HealthcheckInterval (InitializeElasticLoadBalancerSpec c DefaultElasticLoadBalancerSpec) \<noteq> None"
  "elb_HealthcheckTimeout (InitializeElasticLoadBalancerSpec c DefaultElasticLoadBalancerSpec) \<noteq> None"
  "elb_ProxyProtocol (InitializeElasticLoadBalancerSpec c DefaultElasticLoadBalancerSpec) \<noteq> None"
  by (cases c; simp add: InitializeElasticLoadBalancerSpec_def ElasticLoadBalancerSpec_Default_def
      DefaultElasticLoadBalancerSpec_def)+

lemma initialized_NLB [simp]:
  "nlb_ProxyProtocol (InitializeNetworkLoadBalancerSpec c DefaultNetworkLoadBalancerSpec) \<noteq> None"
  "nlb_CrossZoneLoadBalancingEnabled (InitializeNetworkLoadBalancerSpec c DefaultNetworkLoadBalancerSpec) \<noteq> None"
  "nlb_DeletionProtection (InitializeNetworkLoadBalancerSpec c DefaultNetworkLoadBalancerSpec) \<noteq> None"
  by (cases c; simp add: InitializeNetworkLoadBalancerSpec_def NetworkLoadBalancerSpec_Default_def
      DefaultNetworkLoadBalancerSpec_def)+

lemma orDefault_again [simp]: "orDefault (orDefault v d) d = orDefault v d"
  by (simp add: orDefault_def)

lemma initialized_again [simp]:
  "InitializeElasticLoadBalancerSpec (Some (InitializeElasticLoadBalancerSpec c d)) d = InitializeElasticLoadBalancerSpec c d"
  "InitializeNetworkLoadBalancerSpec (Some (InitializeNetworkLoadBalancerSpec c' d')) d' = InitializeNetworkLoadBalancerSpec c' d'"
  by (cases c; simp add: InitializeElasticLoadBalancerSpec_def ElasticLoadBalancerSpec_Default_def)
     (cases c'; simp add: InitializeNetworkLoadBalancerSpec_def NetworkLoadBalancerSpec_Default_def)

lemma service_options_None_iff: "service_options pre suf name spec = None \<longleftrightarrow> si_ServiceType spec = None"
  by (cases "si_ServiceType spec") (simp_all add: service_options_def Let_def ELBServiceAnnotations_None_iff
      NLBServiceAnnotations_None_iff bind_eq_None_conv del: not_None_eq)

lemma service_options_again:
  assumes "service_options pre suf name spec = Some (opts, spec')"
  shows "service_options pre suf name spec' = Some (opts, spec')"
    and "si_ServiceNameOverride spec' = si_ServiceNameOverride spec"
    and "si_ServicePortsOverride spec' = si_ServicePortsOverride spec"
proof -
  obtain ty where ty: "si_ServiceType spec = Some ty"
    using assms service_options_None_iff [of pre suf name spec] by auto
  have "service_options pre suf name spec' = Some (opts, spec') \<and>
    si_ServiceNameOverride spec' = si_ServiceNameOverride spec \<and> si_ServicePortsOverride spec' = si_ServicePortsOverride spec"
  proof (cases "ty = ServiceTypeClusterIP \<or> ty \<noteq> ServiceTypeELB \<and> ty \<noteq> ServiceTypeNLB")
    case True
    then have "spec' = spec"
      using assms ty by (auto simp: service_options_def Let_def split: if_split_asm)
    with assms show ?thesis by simp
  next
    case False
    let ?elb = "InitializeElasticLoadBalancerSpec (si_ElasticLoadBalancerConfig spec) DefaultElasticLoadBalancerSpec"
    let ?nlb = "InitializeNetworkLoadBalancerSpec (si_NetworkLoadBalancerConfig spec) DefaultNetworkLoadBalancerSpec"
    from False show ?thesis
      using assms ty
      by (cases "ty = ServiceTypeELB"; cases "ELBServiceAnnotations ?elb (si_ExternalDnsHostnames spec)";
          cases "NLBServiceAnnotations ?nlb (si_ExternalDnsHostnames spec)")
         (auto simp: service_options_def Let_def)
  qed
  then show "service_options pre suf name spec' = Some (opts, spec')"
    and "si_ServiceNameOverride spec' = si_ServiceNameOverride spec"
    and "si_ServicePortsOverride spec' = si_ServicePortsOverride spec" by simp_all
qed

lemma simple_service_None_iff: "simple_service ports pre suf name spec = None \<longleftrightarrow> si_ServiceType spec = None"
  unfolding simple_service_def bind_eq_None_conv by (simp add: service_options_None_iff split: prod.splits)

lemma simple_service_again:
  assumes "simple_service ports pre suf name spec = Some (svc, spec')"
  shows "simple_service ports pre suf name spec' = Some (svc, spec')"
proof -
  obtain opts where "service_options pre suf name spec = Some (opts, spec')"
    using assms by (auto simp: simple_service_def bind_eq_Some_conv)
  with assms service_options_again [OF this] show ?thesis
    by (simp add: simple_service_def split: prod.splits)
qed

lemma Service_None_iff:
  "ServiceDescriptor_Service pre suf sd = None \<longleftrightarrow> \<not> publishable (sd_PublishingStrategy sd)"
  by (auto simp: ServiceDescriptor_Service_def publishable_def typed_def Let_def bind_eq_None_conv
      simple_service_None_iff split: option.splits prod.splits simp del: not_None_eq)

lemma Service_again:
  assumes "ServiceDescriptor_Service pre suf sd = Some (svc, sd')"
  shows "ServiceDescriptor_Service pre suf sd' = Some (svc, sd')"
proof -
  let ?ps = "sd_PublishingStrategy sd"
  consider (simple) spec spec' where "ps_Strategy ?ps = SimpleStrategy" "ps_Simple ?ps = Some spec"
      "simple_service (sd_PortDefinitions sd) pre suf (ps_EndpointName ?ps) spec = Some (svc, spec')"
      "sd' = sd\<lparr>sd_PublishingStrategy := ?ps\<lparr>ps_Simple := Some spec'\<rparr>\<rparr>"
    | (marin3r) m3 spec spec' where "ps_Strategy ?ps \<noteq> SimpleStrategy" "ps_Strategy ?ps = Marin3rSidecarStrategy"
      "ps_Marin3rSidecar ?ps = Some m3" "m3_Simple m3 = Some spec"
      "simple_service (sd_PortDefinitions sd) pre suf (ps_EndpointName ?ps) spec = Some (svc, spec')"
      "sd' = sd\<lparr>sd_PublishingStrategy := ?ps\<lparr>ps_Marin3rSidecar := Some (m3\<lparr>m3_Simple := Some spec'\<rparr>)\<rparr>\<rparr>"
    | (other) "ps_Strategy ?ps \<noteq> SimpleStrategy" "ps_Strategy ?ps \<noteq> Marin3rSidecarStrategy" "sd' = sd"
    using assms by (auto simp: ServiceDescriptor_Service_def Let_def bind_eq_Some_conv split: if_split_asm)
  then show ?thesis
  proof cases
    case simple
    with simple_service_again [OF simple(3)] show ?thesis
      by (simp add: ServiceDescriptor_Service_def Let_def)
  next
    case marin3r
    with simple_service_again [OF marin3r(5)] show ?thesis
      by (simp add: ServiceDescriptor_Service_def Let_def)
  next
    case other
    with assms show ?thesis by simp
  qed
qed

lemma typed_merge: "typed dst \<Longrightarrow> typed (merge_struct merge_simple dst src)"
  by (auto simp: typed_def merge_struct_def merge_simple_def merge_ptr_def split: option.splits)

lemma cleanup_simps [simp]:
  "sd_EndpointName (cleanup d) = sd_EndpointName d" "ps_Strategy (sd_PublishingStrategy (cleanup d)) = ps_Strategy (sd_PublishingStrategy d)"
  "sd_PortDefinitions (cleanup d) = sd_PortDefinitions d" "publishable (sd_PublishingStrategy (cleanup d)) = publishable (sd_PublishingStrategy d)"
  by (simp_all add: cleanup_def publishable_def Let_def SimpleStrategy_def Marin3rSidecarStrategy_def)

text \<open>An endpoint with a service of type \<^verbatim>\<open>ClusterIP\<close> and one that the user moves to a network load balancer.\<close>

definition no_Simple :: Simple where
  "no_Simple = \<lparr>si_ServiceType = None, si_ExternalDnsHostnames = [], si_ServiceNameOverride = None,
     si_ServicePortsOverride = [], si_ElasticLoadBalancerConfig = None, si_NetworkLoadBalancerConfig = None\<rparr>"

definition simple_endpoint :: "string \<Rightarrow> ServicePort list \<Rightarrow> ServiceDescriptor" where
  "simple_endpoint name ports = \<lparr>sd_PortDefinitions = ports, sd_PublishingStrategy =
     \<lparr>ps_Strategy = SimpleStrategy, ps_EndpointName = name,
      ps_Simple = Some (no_Simple\<lparr>si_ServiceType := Some ServiceTypeClusterIP\<rparr>), ps_Marin3rSidecar = None, ps_Create = None\<rparr>\<rparr>"

definition to_nlb :: "string \<Rightarrow> PublishingStrategy" where
  "to_nlb name = \<lparr>ps_Strategy = SimpleStrategy, ps_EndpointName = name,
     ps_Simple = Some (no_Simple\<lparr>si_ServiceType := Some ServiceTypeNLB\<rparr>), ps_Marin3rSidecar = None, ps_Create = Some True\<rparr>"

lemmas endpoint_eval = simple_endpoint_def to_nlb_def no_Simple_def merge_spec_def rejected_def new_in_def creates_def
  names_of_def updated_by_def updated_def created_def merge_strategy_def merge_struct_def merge_simple_def merge_ptr_def
  merge_slice_def merge_string_def cleanup_def Let_def mode_of_def

section \<open>Properties\<close>



text \<open>
  In the mode \<^verbatim>\<open>Replace\<close> the workload has one endpoint for each of the user's, in order, with the
  user's strategy unchanged and the ports of the default of that name, none for a created endpoint;
  the result is an error exactly when an endpoint is neither a default nor to be created, and it
  lists all of them.
\<close>

lemma MergeWithDefaultPublishingStrategy_replace:
  "MergeWithDefaultPublishingStrategy defaults (Some \<lparr>pss_Mode = Some PublishingStrategiesReconcileModeReplace, pss_Endpoints = es\<rparr>) =
     (if filter (rejected defaults) es \<noteq> []
      then Inl (MultiError (map (\<lambda>e. unknown_endpoint (ps_EndpointName e)) (filter (rejected defaults) es)))
      else Inr (map (\<lambda>e. \<lparr>sd_PortDefinitions = (case find (\<lambda>d. ps_EndpointName e = sd_EndpointName d) defaults of
                              Some d \<Rightarrow> sd_PortDefinitions d | None \<Rightarrow> []), sd_PublishingStrategy = e\<rparr>) es))"
  by (simp add: MergeWithDefaultPublishingStrategy_def replace_loop_spec)

text \<open>
  The service of an endpoint is built exactly when the section that its strategy uses is present
  and says the service type; otherwise the code dereferences a nil pointer. Building it again from
  the descriptor that the first call initialised gives the same service.
\<close>

lemma Service_panics_iff:
  "(ServiceDescriptor_Service pre suf sd = None \<longleftrightarrow> \<not> publishable (sd_PublishingStrategy sd)) \<and>
   (ServiceDescriptor_Service pre suf sd = Some (svc, sd') \<longrightarrow> ServiceDescriptor_Service pre suf sd' = Some (svc, sd'))"
  using Service_None_iff Service_again by blast

end
