(* ===== verification/EnvoyConfig.thy ===== *)
theory EnvoyConfig
  imports Publishing
begin

text \<open>
  The Envoy configuration of a Marin3r sidecar:
  \<^verbatim>\<open>internal/pkg/resource_builders/envoyconfig/\<close> with the templates of the protocol buffer messages
  (\<^verbatim>\<open>templates/\<close>), the factory that chooses a template by the type of the options and the version of
  the generator (\<^verbatim>\<open>factory/\<close>), the secrets that the listeners refer to (\<^verbatim>\<open>auto/secrets.go\<close>) and the
  \<^verbatim>\<open>EnvoyConfig\<close> resource (\<^verbatim>\<open>resource.go\<close>).

  A message is a record of the fields that the templates set; \<open>Other\<close> fields keep what else a message
  written by the user may have. The result of a template is \<^term>\<open>None\<close> when the code panics, and
  otherwise an error or a message. Durations are in seconds, or the text of the API.
\<close>

section \<open>Messages\<close>

record Address =
  ad_Address :: string
  ad_PortValue :: int

definition Address_v1 :: "string \<Rightarrow> int \<Rightarrow> Address" where
  "Address_v1 host port = \<lparr>ad_Address = host, ad_PortValue = port\<rparr>"

datatype ListenerFilter = TlsInspector | ProxyProtocolFilter | OtherListenerFilter string

record RateLimit =
  rf_Domain :: string
  rf_Timeout :: string
  rf_FailureModeDeny :: bool
  rf_ClusterName :: string

datatype HttpFilter = RateLimitFilter RateLimit | Router

datatype UnderscoresAction = ALLOW | REJECT_REQUEST

record HttpConnectionManager =
  cm_AccessLog :: "string \<rightharpoonup> string"
  cm_IdleTimeout :: int
  cm_MaxConnectionDuration :: "string option"
  cm_HeadersWithUnderscoresAction :: UnderscoresAction
  cm_HttpFilters :: "HttpFilter list"
  cm_Http10DefaultHost :: "string option"
  cm_MaxConcurrentStreams :: int
  cm_InitialStreamWindowSize :: int
  cm_InitialConnectionWindowSize :: int
  cm_RequestTimeout :: int
  cm_RouteConfigName :: string
  cm_StatPrefix :: string
  cm_StreamIdleTimeout :: int
  cm_UseRemoteAddress :: bool
  cm_MaxRequestHeadersKb :: "int option"

datatype NetworkFilter = HttpConnectionManagerFilter HttpConnectionManager | OtherNetworkFilter string

datatype TlsVersion = TLSv1_2 | TLSv1_3

record DownstreamTlsContext =
  tls_SdsSecretConfigs :: "string list"
  tls_MinimumVersion :: "TlsVersion option"
  tls_MaximumVersion :: "TlsVersion option"
  tls_AlpnProtocols :: "string list"

text \<open>A transport socket by what decoding its configuration gives: a TLS context, another message or an error.\<close>

datatype TransportSocket = TlsContext DownstreamTlsContext | OtherTransportSocket string | UndecodableSocket error

record FilterChain =
  fc_Filters :: "NetworkFilter list"
  fc_TransportSocket :: "TransportSocket option"

record Listener =
  ls_Name :: string
  ls_Address :: Address
  ls_ListenerFilters :: "ListenerFilter list"
  ls_FilterChains :: "FilterChain list"
  ls_PerConnectionBufferLimitBytes :: "int option"
  ls_Other :: string

record EnvoyClusterMessage =
  cl_Name :: string
  cl_ConnectTimeout :: int
  cl_Type :: string
  cl_DnsLookupFamily :: string
  cl_LbPolicy :: string
  cl_LoadAssignmentName :: string
  cl_Endpoints :: "Address list"
  cl_Http2WindowSizes :: "(int \<times> int) option"
  cl_Other :: string

record RouteConfigurationMessage =
  rt_Name :: string
  rt_VirtualHosts :: "string list"
  rt_Other :: string

record RuntimeMessage =
  rn_Name :: string
  rn_ConnectionLimits :: "string \<rightharpoonup> int"
  rn_MaxConnections :: "int option"
  rn_Other :: string

datatype proto =
    PListener Listener
  | PCluster EnvoyClusterMessage
  | PRoute RouteConfigurationMessage
  | PRuntime RuntimeMessage

text \<open>
  The serialiser of Marin3r and the conversion to YAML. A template can return no message and no
  error, so the serialiser may be given none.
\<close>

record envoy_lib =
  ev_virtual_host :: "string \<Rightarrow> error + string"
  ev_listener :: "string \<Rightarrow> error + Listener"
  ev_route :: "string \<Rightarrow> error + RouteConfigurationMessage"
  ev_cluster :: "string \<Rightarrow> error + EnvoyClusterMessage"
  ev_runtime :: "string \<Rightarrow> error + RuntimeMessage"
  ev_marshal :: "proto option \<Rightarrow> error + string"
  ev_JSONToYAML :: "string \<Rightarrow> error + string"

section \<open>Templates\<close>

type_synonym 'a result = "(error + 'a) option"

definition ListenerFilters_v1 :: "bool \<Rightarrow> bool \<Rightarrow> ListenerFilter list" where
  "ListenerFilters_v1 tls proxyProtocol = (if tls then [TlsInspector] else []) @ (if proxyProtocol then [ProxyProtocolFilter] else [])"

definition HttpFilterRateLimit_v1 :: "RateLimitOptions \<Rightarrow> HttpFilter option" where
  "HttpFilterRateLimit_v1 opts =
     do { deny \<leftarrow> rl_FailureModeDeny opts;
          Some (RateLimitFilter \<lparr>rf_Domain = rl_Domain opts, rf_Timeout = rl_Timeout opts, rf_FailureModeDeny = deny,
                  rf_ClusterName = rl_RateLimitCluster opts\<rparr>) }"

definition HttpFilters_v1 :: "RateLimitOptions option \<Rightarrow> HttpFilter list option" where
  "HttpFilters_v1 rlOpts =
     (case rlOpts of
        None \<Rightarrow> Some [Router]
      | Some opts \<Rightarrow> do { f \<leftarrow> HttpFilterRateLimit_v1 opts; Some [f, Router] })"

definition AccessLogConfig_v1 :: "string \<Rightarrow> bool \<Rightarrow> (string \<rightharpoonup> string)" where
  "AccessLogConfig_v1 name tls =
     (let m = [''authority'' \<mapsto> ''%REQ(:AUTHORITY)%'', ''bytes_received'' \<mapsto> ''%BYTES_RECEIVED%'',
               ''bytes_sent'' \<mapsto> ''%BYTES_SENT%'', ''duration'' \<mapsto> ''%DURATION%'', ''method'' \<mapsto> ''%REQ(:METHOD)%'',
               ''path'' \<mapsto> ''%REQ(X-ENVOY-ORIGINAL-PATH?:PATH)%'', ''protocol'' \<mapsto> ''%PROTOCOL%'',
               ''response_code'' \<mapsto> ''%RESPONSE_CODE%'', ''response_code_details'' \<mapsto> ''%RESPONSE_CODE_DETAILS%'',
               ''response_flags'' \<mapsto> ''%RESPONSE_FLAGS%'', ''listener'' \<mapsto> name,
               ''upstream_cluster'' \<mapsto> ''%UPSTREAM_CLUSTER%'',
               ''upstream_service_time'' \<mapsto> ''%RESP(X-ENVOY-UPSTREAM-SERVICE-TIME)%'',
               ''user_agent'' \<mapsto> ''%REQ(USER-AGENT)%'', ''client_ip'' \<mapsto> ''%DOWNSTREAM_REMOTE_ADDRESS_WITHOUT_PORT%'']
      in if tls then m(''downstream_tls_cipher'' \<mapsto> ''%DOWNSTREAM_TLS_CIPHER%'', ''downstream_tls_version'' \<mapsto> ''%DOWNSTREAM_TLS_VERSION%'')
         else m)"

definition TransportSocket_v1 :: "string \<Rightarrow> bool \<Rightarrow> TransportSocket" where
  "TransportSocket_v1 secretName http2 =
     TlsContext \<lparr>tls_SdsSecretConfigs = [secretName], tls_MinimumVersion = Some TLSv1_2, tls_MaximumVersion = Some TLSv1_3,
       tls_AlpnProtocols = (if http2 then [''h2,http/1.1''] else [''http/1.1''])\<rparr>"

definition connection_manager :: "string \<Rightarrow> ListenerHttp \<Rightarrow> HttpConnectionManager option" where
  "connection_manager name o1 =
     do { filters \<leftarrow> HttpFilters_v1 (lh_RateLimitOptions o1);
          proxyProtocol \<leftarrow> lh_ProxyProtocol o1;
          Some \<lparr>cm_AccessLog = AccessLogConfig_v1 name (lh_CertificateSecretName o1 \<noteq> None),
                cm_IdleTimeout = 3600, cm_MaxConnectionDuration = lh_MaxConnectionDuration o1,
                cm_HeadersWithUnderscoresAction =
                  (if lh_AllowHeadersWithUnderscores o1 = Some True then ALLOW else REJECT_REQUEST),
                cm_HttpFilters = filters, cm_Http10DefaultHost = lh_DefaultHostForHttp10 o1,
                cm_MaxConcurrentStreams = 100, cm_InitialStreamWindowSize = 65536, cm_InitialConnectionWindowSize = 1048576,
                cm_RequestTimeout = 300, cm_RouteConfigName = lh_RouteConfigName o1, cm_StatPrefix = name,
                cm_StreamIdleTimeout = 300, cm_UseRemoteAddress = proxyProtocol,
                cm_MaxRequestHeadersKb = lh_MaxRequestHeadersKb o1\<rparr> }"

text \<open>A template given the options of another type panics in its type assertion.\<close>

definition ListenerHTTP_v1 :: "string \<Rightarrow> EnvoyOptions \<Rightarrow> proto option result" where
  "ListenerHTTP_v1 name opts =
     (case opts of
        OptListenerHttp o1 \<Rightarrow>
          do { proxyProtocol \<leftarrow> lh_ProxyProtocol o1;
               manager \<leftarrow> connection_manager name o1;
               socket \<leftarrow> (case lh_CertificateSecretName o1 of
                            None \<Rightarrow> Some None
                          | Some secret \<Rightarrow> do { http2 \<leftarrow> lh_EnableHttp2 o1; Some (Some (TransportSocket_v1 secret http2)) });
               Some (Inr (Some (PListener \<lparr>ls_Name = name, ls_Address = Address_v1 ''0.0.0.0'' (lh_Port o1),
                 ls_ListenerFilters = ListenerFilters_v1 (lh_CertificateSecretName o1 \<noteq> None) proxyProtocol,
                 ls_FilterChains = [\<lparr>fc_Filters = [HttpConnectionManagerFilter manager], fc_TransportSocket = socket\<rparr>],
                 ls_PerConnectionBufferLimitBytes = Some 32768, ls_Other = ''''\<rparr>))) }
      | _ \<Rightarrow> None)"

definition Cluster_v1 :: "string \<Rightarrow> EnvoyOptions \<Rightarrow> proto option result" where
  "Cluster_v1 name opts =
     (case opts of
        OptCluster o1 \<Rightarrow>
          do { http2 \<leftarrow> ec_IsHttp2 o1;
               Some (Inr (Some (PCluster \<lparr>cl_Name = name, cl_ConnectTimeout = 1, cl_Type = ''STRICT_DNS'',
                 cl_DnsLookupFamily = ''V4_ONLY'', cl_LbPolicy = ''ROUND_ROBIN'', cl_LoadAssignmentName = name,
                 cl_Endpoints = [Address_v1 (ec_Host o1) (ec_Port o1)],
                 cl_Http2WindowSizes = (if http2 then Some (65536, 1048576) else None), cl_Other = ''''\<rparr>))) }
      | _ \<Rightarrow> None)"

fun virtual_hosts :: "envoy_lib \<Rightarrow> string list \<Rightarrow> error list \<times> string list" where
  "virtual_hosts L [] = ([], [])"
| "virtual_hosts L (vhost # vhosts) =
     (case virtual_hosts L vhosts of
        (merr, vhs) \<Rightarrow>
          (case ev_virtual_host L vhost of
             Inl e \<Rightarrow> (e # merr, vhs)
           | Inr vh \<Rightarrow> (merr, vh # vhs)))"

definition RouteConfiguration_v1 :: "envoy_lib \<Rightarrow> string \<Rightarrow> EnvoyOptions \<Rightarrow> proto option result" where
  "RouteConfiguration_v1 L name opts =
     (case opts of
        OptRouteConfiguration o1 \<Rightarrow>
          (case virtual_hosts L (rc_VirtualHosts o1) of
             (merr, vhs) \<Rightarrow>
               if merr \<noteq> [] then Some (Inl (MultiError merr))
               else Some (Inr (Some (PRoute \<lparr>rt_Name = name, rt_VirtualHosts = vhs, rt_Other = ''''\<rparr>))))
      | _ \<Rightarrow> None)"

text \<open>The names of listeners are text, for which building the layer of the runtime does not fail.\<close>

definition Runtime_v1 :: "string \<Rightarrow> EnvoyOptions \<Rightarrow> proto option result" where
  "Runtime_v1 name opts =
     (case opts of
        OptRuntime o1 \<Rightarrow>
          Some (Inr (Some (PRuntime \<lparr>rn_Name = name,
            rn_ConnectionLimits = fold (\<lambda>listener m. m(listener \<mapsto> 10000)) (er_ListenerNames o1) Map.empty,
            rn_MaxConnections = Some 50000, rn_Other = ''''\<rparr>)))
      | _ \<Rightarrow> None)"

definition RawConfig_v1 :: "envoy_lib \<Rightarrow> string \<Rightarrow> EnvoyOptions \<Rightarrow> proto option result" where
  "RawConfig_v1 L name opts =
     (case opts of
        OptRawConfig o1 \<Rightarrow>
          Some (if raw_Type o1 = ''listener'' then map_sum id (\<lambda>m. Some (PListener m)) (ev_listener L (raw_Value o1))
                else if raw_Type o1 = ''routeConfiguration'' then map_sum id (\<lambda>m. Some (PRoute m)) (ev_route L (raw_Value o1))
                else if raw_Type o1 = ''cluster'' then map_sum id (\<lambda>m. Some (PCluster m)) (ev_cluster L (raw_Value o1))
                else if raw_Type o1 = ''runtime'' then map_sum id (\<lambda>m. Some (PRuntime m)) (ev_runtime L (raw_Value o1))
                else Inr None)
      | _ \<Rightarrow> None)"

section \<open>The factory\<close>

type_synonym template_fn = "string \<Rightarrow> EnvoyOptions \<Rightarrow> proto option result"

definition factory_Default :: "envoy_lib \<Rightarrow> (string \<rightharpoonup> template_fn)" where
  "factory_Default L =
     [''ListenerHttp_v1'' \<mapsto> ListenerHTTP_v1, ''Cluster_v1'' \<mapsto> Cluster_v1,
      ''RouteConfiguration_v1'' \<mapsto> RouteConfiguration_v1 L, ''Runtime_v1'' \<mapsto> Runtime_v1, ''RawConfig_v1'' \<mapsto> RawConfig_v1 L]"

fun type_name :: "EnvoyOptions \<Rightarrow> string" where
  "type_name (OptListenerHttp _) = ''ListenerHttp''"
| "type_name (OptRouteConfiguration _) = ''RouteConfiguration''"
| "type_name (OptCluster _) = ''Cluster''"
| "type_name (OptRuntime _) = ''Runtime''"
| "type_name (OptRawConfig _) = ''RawConfig''"

definition GetClass :: "(string \<rightharpoonup> template_fn) \<Rightarrow> EnvoyDynamicConfig \<Rightarrow> template_fn result" where
  "GetClass factory v =
     do { opts \<leftarrow> GetOptions v;
          version \<leftarrow> dc_GeneratorVersion v;
          let name = type_name opts @ ''_'' @ version;
          Some (case factory name of
                  None \<Rightarrow> Inl (ErrorString (''unregistered function for '' @ quoted name))
                | Some f \<Rightarrow> Inr f) }"

definition NewResource :: "(string \<rightharpoonup> template_fn) \<Rightarrow> EnvoyDynamicConfig \<Rightarrow> proto option result" where
  "NewResource factory desc =
     do { c \<leftarrow> GetClass factory desc;
          case c of
            Inl e \<Rightarrow> Some (Inl e)
          | Inr f \<Rightarrow> do { opts \<leftarrow> GetOptions desc; f (dc_Name desc) opts } }"

section \<open>Secrets\<close>

text \<open>Only the first filter chain is looked at; a listener without one panics, as does another transport socket.\<close>

definition secretRefsFromListener :: "Listener \<Rightarrow> string list result" where
  "secretRefsFromListener listener =
     (case ls_FilterChains listener of
        [] \<Rightarrow> None
      | chain # _ \<Rightarrow>
          (case fc_TransportSocket chain of
             None \<Rightarrow> Some (Inr [])
           | Some (UndecodableSocket e) \<Rightarrow> Some (Inl e)
           | Some (OtherTransportSocket _) \<Rightarrow> None
           | Some (TlsContext tls) \<Rightarrow> Some (Inr (Uniq (tls_SdsSecretConfigs tls)))))"

fun secret_refs :: "proto option list \<Rightarrow> string list result" where
  "secret_refs [] = Some (Inr [])"
| "secret_refs (Some (PListener l) # resources) =
     do { refs \<leftarrow> secretRefsFromListener l;
          case refs of
            Inl e \<Rightarrow> Some (Inl e)
          | Inr secrets \<Rightarrow> do { rest \<leftarrow> secret_refs resources; Some (map_sum id ((@) secrets) rest) } }"
| "secret_refs (_ # resources) = secret_refs resources"

definition GenerateSecrets :: "proto option list \<Rightarrow> string list result" where
  "GenerateSecrets resources = map_option (map_sum id Uniq) (secret_refs resources)"

section \<open>The EnvoyConfig resource\<close>

record EnvoyConfig =
  ec_Name :: string
  ec_Namespace :: string
  ec_Labels :: labels
  ec_NodeID :: string
  ec_Clusters :: "string list"
  ec_Routes :: "string list"
  ec_Listeners :: "string list"
  ec_Runtimes :: "string list"
  ec_Secrets :: "string list"

definition add_resource :: "proto option \<Rightarrow> string \<Rightarrow> EnvoyConfig \<Rightarrow> error + EnvoyConfig" where
  "add_resource res y ec =
     (case res of
        Some (PCluster _) \<Rightarrow> Inr (ec\<lparr>ec_Clusters := ec_Clusters ec @ [y]\<rparr>)
      | Some (PRoute _) \<Rightarrow> Inr (ec\<lparr>ec_Routes := ec_Routes ec @ [y]\<rparr>)
      | Some (PListener _) \<Rightarrow> Inr (ec\<lparr>ec_Listeners := ec_Listeners ec @ [y]\<rparr>)
      | Some (PRuntime _) \<Rightarrow> Inr (ec\<lparr>ec_Runtimes := ec_Runtimes ec @ [y]\<rparr>)
      | None \<Rightarrow> Inl (ErrorString ''unknown dynamic configuration type''))"

fun add_resources :: "envoy_lib \<Rightarrow> proto option list \<Rightarrow> EnvoyConfig \<Rightarrow> error + EnvoyConfig" where
  "add_resources L [] ec = Inr ec"
| "add_resources L (res # resources) ec =
     (case ev_marshal L res of
        Inl e \<Rightarrow> Inl e
      | Inr j \<Rightarrow>
          (case ev_JSONToYAML L j of
             Inl e \<Rightarrow> Inl e
           | Inr y \<Rightarrow>
               (case add_resource res y ec of
                  Inl e \<Rightarrow> Inl e
                | Inr ec \<Rightarrow> add_resources L resources ec)))"

definition newFromProtos :: "envoy_lib \<Rightarrow> string \<times> string \<Rightarrow> string \<Rightarrow> proto option list \<Rightarrow> EnvoyConfig result" where
  "newFromProtos L key nodeID resources =
     do { secrets \<leftarrow> GenerateSecrets resources;
          Some (case secrets of
                  Inl e \<Rightarrow> Inl e
                | Inr s \<Rightarrow>
                    add_resources L resources
                      \<lparr>ec_Name = fst key, ec_Namespace = snd key, ec_Labels = Map.empty, ec_NodeID = nodeID, ec_Clusters = [],
                       ec_Routes = [], ec_Listeners = [], ec_Runtimes = [], ec_Secrets = s\<rparr>) }"

fun new_resources :: "(string \<rightharpoonup> template_fn) \<Rightarrow> EnvoyDynamicConfig list \<Rightarrow> proto option list result" where
  "new_resources factory [] = Some (Inr [])"
| "new_resources factory (res # resources) =
     do { p \<leftarrow> NewResource factory res;
          case p of
            Inl e \<Rightarrow> Some (Inl e)
          | Inr p \<Rightarrow> do { ps \<leftarrow> new_resources factory resources; Some (map_sum id ((#) p) ps) } }"

definition EnvoyConfig_New ::
    "envoy_lib \<Rightarrow> string \<times> string \<Rightarrow> string \<Rightarrow> (string \<rightharpoonup> template_fn) \<Rightarrow> EnvoyDynamicConfig list \<Rightarrow> EnvoyConfig result" where
  "EnvoyConfig_New L key nodeID factory resources =
     do { protos \<leftarrow> new_resources factory resources;
          case protos of
            Inl e \<Rightarrow> Some (Inl e)
          | Inr ps \<Rightarrow> newFromProtos L key nodeID ps }"

section \<open>Which configurations panic\<close>

text \<open>The pointers that the template of the options dereferences are set.\<close>

definition options_set :: "EnvoyOptions \<Rightarrow> bool" where
  "options_set opts =
     (case opts of
        OptListenerHttp l \<Rightarrow>
          lh_ProxyProtocol l \<noteq> None \<and> (if lh_CertificateSecretName l = None then True else lh_EnableHttp2 l \<noteq> None) \<and>
          (case lh_RateLimitOptions l of None \<Rightarrow> True | Some rl \<Rightarrow> rl_FailureModeDeny rl \<noteq> None)
      | OptCluster c \<Rightarrow> ec_IsHttp2 c \<noteq> None
      | _ \<Rightarrow> True)"

definition template_of :: "envoy_lib \<Rightarrow> EnvoyOptions \<Rightarrow> template_fn" where
  "template_of L opts =
     (case opts of
        OptListenerHttp _ \<Rightarrow> ListenerHTTP_v1
      | OptCluster _ \<Rightarrow> Cluster_v1
      | OptRouteConfiguration _ \<Rightarrow> RouteConfiguration_v1 L
      | OptRuntime _ \<Rightarrow> Runtime_v1
      | OptRawConfig _ \<Rightarrow> RawConfig_v1 L)"

lemma factory_lookup:
  "factory_Default L (type_name opts @ ''_'' @ version) = (if version = ''v1'' then Some (template_of L opts) else None)"
  by (cases opts) (simp_all add: factory_Default_def template_of_def)

lemma NewResource_eq:
  "NewResource (factory_Default L) c =
     (case (GetOptions c, dc_GeneratorVersion c) of
        (Some opts, Some version) \<Rightarrow>
          if version = ''v1'' then template_of L opts (dc_Name c) opts
          else Some (Inl (ErrorString (''unregistered function for '' @ quoted (type_name opts @ ''_'' @ version))))
      | _ \<Rightarrow> None)"
  by (cases "GetOptions c"; cases "dc_GeneratorVersion c") (simp_all only: NewResource_def GetClass_def factory_lookup Let_def
      bind.simps option.case prod.case if_split sum.case split: if_splits, simp_all)

lemma template_panics_iff: "template_of L opts name opts = None \<longleftrightarrow> \<not> options_set opts"
proof (cases opts)
  case (OptListenerHttp l)
  then show ?thesis
    by (auto simp: template_of_def options_set_def ListenerHTTP_v1_def connection_manager_def HttpFilters_v1_def
        HttpFilterRateLimit_v1_def bind_eq_None_conv split: option.splits simp del: not_None_eq)
qed (auto simp: template_of_def options_set_def Cluster_v1_def RouteConfiguration_v1_def Runtime_v1_def RawConfig_v1_def
      bind_eq_None_conv split: prod.splits)

lemma template_no_error:
  assumes "template_of L opts name opts = Some (Inl e)"
  shows "(\<exists>o1. opts = OptRawConfig o1) \<or> (\<exists>o1. opts = OptRouteConfiguration o1)"
  using assms by (cases opts) (auto simp: template_of_def ListenerHTTP_v1_def Cluster_v1_def Runtime_v1_def bind_eq_Some_conv
      split: option.splits)

section \<open>What the resource holds\<close>

definition message :: "envoy_lib \<Rightarrow> EnvoyDynamicConfig \<Rightarrow> proto option" where
  "message L c = (case NewResource (factory_Default L) c of Some (Inr p) \<Rightarrow> p | _ \<Rightarrow> None)"

definition yaml :: "envoy_lib \<Rightarrow> proto option \<Rightarrow> error + string" where
  "yaml L p = (case ev_marshal L p of Inl e \<Rightarrow> Inl e | Inr j \<Rightarrow> ev_JSONToYAML L j)"

definition text_of :: "envoy_lib \<Rightarrow> EnvoyDynamicConfig \<Rightarrow> string" where
  "text_of L c = (case yaml L (message L c) of Inr y \<Rightarrow> y | Inl _ \<Rightarrow> '''')"

text \<open>
  A configuration whose template is one of the operator's, with its pointers set, as the defaults of
  the API leave them; its virtual hosts, if any, decode, and its message serialises.
\<close>

definition generated :: "envoy_lib \<Rightarrow> EnvoyDynamicConfig \<Rightarrow> bool" where
  "generated L c \<longleftrightarrow>
     dc_GeneratorVersion c = Some ''v1'' \<and>
     (case GetOptions c of
        None \<Rightarrow> False
      | Some (OptRawConfig _) \<Rightarrow> False
      | Some (OptRouteConfiguration r) \<Rightarrow> fst (virtual_hosts L (rc_VirtualHosts r)) = []
      | Some opts \<Rightarrow> options_set opts)"

definition serializes :: "envoy_lib \<Rightarrow> EnvoyDynamicConfig \<Rightarrow> bool" where
  "serializes L c = (case yaml L (message L c) of Inr _ \<Rightarrow> True | Inl _ \<Rightarrow> False)"

definition options_are :: "string \<Rightarrow> EnvoyDynamicConfig \<Rightarrow> bool" where
  "options_are kind c = (case GetOptions c of Some opts \<Rightarrow> type_name opts = kind | None \<Rightarrow> False)"

definition certificate :: "EnvoyDynamicConfig \<Rightarrow> string list" where
  "certificate c =
     (case GetOptions c of
        Some (OptListenerHttp l) \<Rightarrow> (case lh_CertificateSecretName l of Some s \<Rightarrow> [s] | None \<Rightarrow> [])
      | _ \<Rightarrow> [])"

fun kind_of :: "proto \<Rightarrow> string" where
  "kind_of (PListener _) = ''ListenerHttp''"
| "kind_of (PRoute _) = ''RouteConfiguration''"
| "kind_of (PCluster _) = ''Cluster''"
| "kind_of (PRuntime _) = ''Runtime''"

lemma generated_message:
  assumes "generated L c"
  obtains p where "NewResource (factory_Default L) c = Some (Inr (Some p))" "message L c = Some p"
    "options_are k c \<longleftrightarrow> kind_of p = k" "secret_refs (Some p # ps) = map_option (map_sum id ((@) (certificate c))) (secret_refs ps)"
proof -
  obtain opts where opts: "GetOptions c = Some opts" "dc_GeneratorVersion c = Some ''v1''" "options_set opts"
    using assms by (auto simp: generated_def options_set_def split: option.splits EnvoyOptions.splits)
  have refs: "secretRefsFromListener l = Some (Inr (certificate c))" if "opts = OptListenerHttp o1"
      "template_of L opts (dc_Name c) opts = Some (Inr (Some (PListener l)))" for o1 l
    using that opts(1)
    by (auto simp: template_of_def ListenerHTTP_v1_def bind_eq_Some_conv secretRefsFromListener_def certificate_def
        TransportSocket_v1_def split: option.splits)
  have "\<exists>p. template_of L opts (dc_Name c) opts = Some (Inr (Some p)) \<and> kind_of p = type_name opts"
  proof (cases opts)
    case (OptListenerHttp l)
    then show ?thesis
      using template_panics_iff [of L opts "dc_Name c"] opts(3)
      by (auto simp: template_of_def ListenerHTTP_v1_def bind_eq_None_conv bind_eq_Some_conv)
  next
    case (OptRawConfig r)
    then show ?thesis using assms opts(1) by (simp add: generated_def)
  qed (use assms opts in \<open>auto simp: generated_def template_of_def Cluster_v1_def RouteConfiguration_v1_def Runtime_v1_def
        options_set_def split: prod.splits\<close>)
  then obtain p where p: "template_of L opts (dc_Name c) opts = Some (Inr (Some p))" "kind_of p = type_name opts" by blast
  have new: "NewResource (factory_Default L) c = Some (Inr (Some p))"
    using p(1) opts(1,2) by (simp add: NewResource_eq)
  have sr: "secret_refs (Some p # ps) = map_option (map_sum id ((@) (certificate c))) (secret_refs ps)"
  proof (cases "\<exists>m. p = PListener m")
    case True
    then obtain m l where "p = PListener m" "opts = OptListenerHttp l"
      using p(2) by (cases opts) auto
    with refs p(1) show ?thesis
      by (cases "secret_refs ps") auto
  next
    case False
    then have "secret_refs (Some p # ps) = secret_refs ps" "certificate c = []"
      using p(2) opts(1) by (cases p; cases opts; simp add: certificate_def)+
    moreover have "(@) [] = (id :: string list \<Rightarrow> string list)"
      by (simp add: fun_eq_iff)
    ultimately show ?thesis
      by (simp add: option.map_id sum.map_id0)
  qed
  show thesis
    using that [of p] new p(2) opts(1) sr by (auto simp: message_def options_are_def)
qed

lemma new_resources_generated:
  assumes "\<forall>c\<in>set cs. generated L c"
  shows "new_resources (factory_Default L) cs = Some (Inr (map (message L) cs)) \<and>
    secret_refs (map (message L) cs) = Some (Inr (concat (map certificate cs)))"
  using assms
proof (induction cs)
  case (Cons c cs)
  from Cons.prems have "generated L c" by simp
  then obtain p where "NewResource (factory_Default L) c = Some (Inr (Some p))" "message L c = Some p"
      "secret_refs (Some p # map (message L) cs) =
         map_option (map_sum id ((@) (certificate c))) (secret_refs (map (message L) cs))"
    using generated_message [where ps = "map (message L) cs"] by metis
  with Cons show ?case by simp
qed simp

text \<open>The texts of the messages of one kind, in order.\<close>

definition texts :: "envoy_lib \<Rightarrow> string \<Rightarrow> EnvoyDynamicConfig list \<Rightarrow> string list" where
  "texts L kind cs = map (text_of L) (filter (options_are kind) cs)"

lemma texts_simps:
  "texts L kind [] = []" "texts L kind (c # cs) = (if options_are kind c then [text_of L c] else []) @ texts L kind cs"
  by (simp_all add: texts_def)

lemma add_resources_generated:
  assumes "\<forall>c\<in>set cs. generated L c \<and> serializes L c"
  shows "add_resources L (map (message L) cs) ec = Inr (ec\<lparr>
    ec_Clusters := ec_Clusters ec @ texts L ''Cluster'' cs, ec_Routes := ec_Routes ec @ texts L ''RouteConfiguration'' cs,
    ec_Listeners := ec_Listeners ec @ texts L ''ListenerHttp'' cs, ec_Runtimes := ec_Runtimes ec @ texts L ''Runtime'' cs\<rparr>)"
  using assms
proof (induction cs arbitrary: ec)
  case (Cons c cs)
  then have c: "generated L c" "serializes L c" by auto
  obtain p where p: "message L c = Some p"
    using generated_message [OF c(1)] by metis
  have kind: "options_are k c \<longleftrightarrow> kind_of p = k" for k
    using generated_message [OF c(1), of k] p by (metis option.inject)
  obtain j y where "ev_marshal L (Some p) = Inr j" "ev_JSONToYAML L j = Inr y" "text_of L c = y"
    using c(2) p by (auto simp: serializes_def yaml_def text_of_def split: sum.splits)
  then show ?case
    using Cons.IH [of "case add_resource (Some p) y ec of Inr ec' \<Rightarrow> ec'"] Cons.prems p
    by (cases p) (simp_all add: add_resource_def texts_simps kind)
qed (simp add: texts_simps)

lemma EnvoyConfig_New_generated:
  assumes "\<forall>c\<in>set cs. generated L c \<and> serializes L c"
  shows "EnvoyConfig_New L key nodeID (factory_Default L) cs = Some (Inr
    \<lparr>ec_Name = fst key, ec_Namespace = snd key, ec_Labels = Map.empty, ec_NodeID = nodeID,
     ec_Clusters = texts L ''Cluster'' cs, ec_Routes = texts L ''RouteConfiguration'' cs,
     ec_Listeners = texts L ''ListenerHttp'' cs, ec_Runtimes = texts L ''Runtime'' cs,
     ec_Secrets = Uniq (concat (map certificate cs))\<rparr>)"
  using assms new_resources_generated [of cs L]
  by (simp add: EnvoyConfig_New_def newFromProtos_def GenerateSecrets_def add_resources_generated)

text \<open>A listener written by the user, as its decoder gives it.\<close>

definition raw_listener :: "envoy_lib \<Rightarrow> EnvoyDynamicConfig \<Rightarrow> Listener option" where
  "raw_listener L c =
     (case GetOptions c of
        Some (OptRawConfig r) \<Rightarrow>
          if dc_GeneratorVersion c = Some ''v1'' \<and> raw_Type r = ''listener''
          then (case ev_listener L (raw_Value r) of Inr l \<Rightarrow> Some l | Inl _ \<Rightarrow> None) else None
      | _ \<Rightarrow> None)"

lemma NewResource_raw_listener:
  "raw_listener L c = Some l \<Longrightarrow> NewResource (factory_Default L) c = Some (Inr (Some (PListener l)))"
  by (auto simp: raw_listener_def NewResource_eq template_of_def RawConfig_v1_def
      split: option.splits EnvoyOptions.splits if_splits sum.splits)

text \<open>An HTTPS listener, a cluster, and a serialiser that writes names.\<close>

definition no_config :: EnvoyDynamicConfig where
  "no_config = \<lparr>dc_Name = '''', dc_GeneratorVersion = Some ''v1'', dc_ListenerHttp = None, dc_RouteConfiguration = None,
     dc_Cluster = None, dc_Runtime = None, dc_RawConfig = None\<rparr>"

definition https_config :: EnvoyDynamicConfig where
  "https_config = no_config\<lparr>dc_Name := ''https'', dc_ListenerHttp := Some \<lparr>lh_Port = 8443, lh_ProxyProtocol = Some True,
     lh_RouteConfigName = ''routes'', lh_CertificateSecretName = Some ''cert'', lh_RateLimitOptions = None,
     lh_DefaultHostForHttp10 = None, lh_EnableHttp2 = Some False, lh_AllowHeadersWithUnderscores = None,
     lh_MaxConnectionDuration = None, lh_MaxRequestHeadersKb = None\<rparr>\<rparr>"

definition cluster_config :: EnvoyDynamicConfig where
  "cluster_config = no_config\<lparr>dc_Name := ''backend'',
     dc_Cluster := Some \<lparr>ec_Host = ''127.0.0.1'', ec_Port = 8080, ec_IsHttp2 = Some True\<rparr>\<rparr>"

definition raw_config :: EnvoyDynamicConfig where
  "raw_config = no_config\<lparr>dc_Name := ''udp'', dc_RawConfig := Some \<lparr>raw_Type = ''listener'', raw_Value = ''dns''\<rparr>\<rparr>"

fun name_of :: "proto option \<Rightarrow> string" where
  "name_of (Some (PListener l)) = ls_Name l"
| "name_of (Some (PCluster c)) = cl_Name c"
| "name_of (Some (PRoute r)) = rt_Name r"
| "name_of (Some (PRuntime r)) = rn_Name r"
| "name_of None = ''''"

definition bare_listener :: "string \<Rightarrow> Listener" where
  "bare_listener name = \<lparr>ls_Name = name, ls_Address = Address_v1 '''' 53, ls_ListenerFilters = [], ls_FilterChains = [],
     ls_PerConnectionBufferLimitBytes = None, ls_Other = ''''\<rparr>"

definition name_lib :: envoy_lib where
  "name_lib = \<lparr>ev_virtual_host = Inr, ev_listener = (\<lambda>s. Inr (bare_listener s)),
     ev_route = (\<lambda>_. Inl (ErrorString '''')), ev_cluster = (\<lambda>_. Inl (ErrorString '''')), ev_runtime = (\<lambda>_. Inl (ErrorString '''')),
     ev_marshal = (\<lambda>p. Inr (name_of p)), ev_JSONToYAML = Inr\<rparr>"

lemmas config_eval = no_config_def https_config_def cluster_config_def raw_config_def name_lib_def generated_def GetOptions_def
  options_set_def

lemma name_lib_configs:
  "generated name_lib https_config" "generated name_lib cluster_config"
  "serializes name_lib https_config" "serializes name_lib cluster_config"
  "raw_listener name_lib raw_config = Some (bare_listener ''dns'')"
  by (simp_all add: config_eval serializes_def yaml_def raw_listener_def)

section \<open>Properties\<close>

text \<open>
  C20. From the configurations of a sidecar that use the operator's templates, with the defaults of the
  API in place and messages that serialise, the \<^verbatim>\<open>EnvoyConfig\<close> resource is built, without error and
  without panic: it has the text of every message, in the section of its kind and in the order of the
  configurations, and its secrets are, each once, exactly the certificates of the HTTPS listeners.
\<close>

theorem EnvoyConfig_New_spec:
  assumes "\<forall>c\<in>set cs. generated L c \<and> serializes L c"
  shows "\<exists>ec. EnvoyConfig_New L key nodeID (factory_Default L) cs = Some (Inr ec) \<and>
    ec_Listeners ec = map (text_of L) (filter (options_are ''ListenerHttp'') cs) \<and>
    ec_Clusters ec = map (text_of L) (filter (options_are ''Cluster'') cs) \<and>
    ec_Routes ec = map (text_of L) (filter (options_are ''RouteConfiguration'') cs) \<and>
    ec_Runtimes ec = map (text_of L) (filter (options_are ''Runtime'') cs) \<and>
    distinct (ec_Secrets ec) \<and> set (ec_Secrets ec) = (\<Union>c\<in>set cs. set (certificate c))"
  using EnvoyConfig_New_generated [OF assms, of key nodeID] by (simp add: texts_def)

theorem EnvoyConfig_New_spec_witness:
  "\<exists>ec. EnvoyConfig_New name_lib ('''', '''') '''' (factory_Default name_lib) [https_config, cluster_config] = Some (Inr ec) \<and>
     length (ec_Listeners ec) = 1 \<and> length (ec_Clusters ec) = 1 \<and> set (ec_Secrets ec) = {''cert''}"
proof -
  obtain ec where "EnvoyConfig_New name_lib ('''', '''') '''' (factory_Default name_lib) [https_config, cluster_config] = Some (Inr ec)"
    "ec_Listeners ec = map (text_of name_lib) (filter (options_are ''ListenerHttp'') [https_config, cluster_config])"
    "ec_Clusters ec = map (text_of name_lib) (filter (options_are ''Cluster'') [https_config, cluster_config])"
    "set (ec_Secrets ec) = (\<Union>c\<in>set [https_config, cluster_config]. set (certificate c))"
    using EnvoyConfig_New_spec [of "[https_config, cluster_config]" name_lib "('''', '''')" "''''"] name_lib_configs
    by (metis empty_iff insert_iff list.set(1) list.set(2))
  then show ?thesis
    by (intro exI [of _ ec]) (simp add: options_are_def certificate_def config_eval)
qed

text \<open>
  Generating a message panics exactly when the configuration has no options, no generator version,
  or options of the registered version in which a pointer that the template dereferences is nil. A
  listener that the user writes without filter chains panics the builder of the whole resource,
  whatever configurations follow it, and of a listener with several filter chains only the secrets
  of the first are generated.
\<close>

lemma EnvoyConfig_panics:
  "(NewResource (factory_Default L) c = None \<longleftrightarrow>
     (case (GetOptions c, dc_GeneratorVersion c) of
        (Some opts, Some version) \<Rightarrow> version = ''v1'' \<and> \<not> options_set opts
      | _ \<Rightarrow> True)) \<and>
   (raw_listener L c = Some l \<and> ls_FilterChains l = [] \<and> (\<forall>d\<in>set cs. generated L d) \<longrightarrow>
      EnvoyConfig_New L key nodeID (factory_Default L) (c # cs) = None) \<and>
   (ls_FilterChains l = chain # rest \<longrightarrow>
      secretRefsFromListener l = secretRefsFromListener (l\<lparr>ls_FilterChains := [chain]\<rparr>))"
proof (intro conjI impI)
  show "NewResource (factory_Default L) c = None \<longleftrightarrow>
     (case (GetOptions c, dc_GeneratorVersion c) of
        (Some opts, Some version) \<Rightarrow> version = ''v1'' \<and> \<not> options_set opts
      | _ \<Rightarrow> True)"
    by (simp add: NewResource_eq template_panics_iff split: option.splits)
  assume "raw_listener L c = Some l \<and> ls_FilterChains l = [] \<and> (\<forall>d\<in>set cs. generated L d)"
  then show "EnvoyConfig_New L key nodeID (factory_Default L) (c # cs) = None"
    using new_resources_generated [of cs L] NewResource_raw_listener [of L c l]
    by (simp add: EnvoyConfig_New_def newFromProtos_def GenerateSecrets_def secretRefsFromListener_def)
qed (simp add: secretRefsFromListener_def)

end
