(* ===== verification/Workload.thy ===== *)
theory Workload
  imports EnvoyConfig
begin

text \<open>
  Workloads that run as deployments: \<^verbatim>\<open>internal/pkg/workloads/deployment/deployment_based_workload.go\<close>
  and its \<^verbatim>\<open>interfaces.go\<close>, with the builders of the autoscaler, the disruption budget and the pod
  monitor (\<^verbatim>\<open>internal/pkg/resource_builders/{hpa,pdb,podmonitor}/resource.go\<close>). The services of a
  workload and of its canary, the sidecars and the Envoy configuration come from
  \<open>Publishing\<close> and \<open>EnvoyConfig\<close>.

  A template is whether its resource is enabled and what its builder returns: an object, an error, or
  \<^term>\<open>None\<close> when it panics. The mutations of a template copy values from the live object when it is
  reconciled; they are no part of what the workload decides.
\<close>

section \<open>Resource builders\<close>

record PodMetricsEndpoint =
  pe_Interval :: string
  pe_Path :: string
  pe_Port :: string
  pe_Scheme :: string

definition PodMetricsEndpoint :: "string \<Rightarrow> string \<Rightarrow> int \<Rightarrow> PodMetricsEndpoint" where
  "PodMetricsEndpoint path port interval =
     \<lparr>pe_Interval = itoa interval @ ''s'', pe_Path = path, pe_Port = port, pe_Scheme = ''http''\<rparr>"

record ObjectMeta =
  om_Name :: string
  om_Namespace :: string
  om_Labels :: labels

record CrossVersionObjectReference =
  cv_Kind :: string
  cv_Name :: string
  cv_APIVersion :: string

record 'b HPA =
  hp_Meta :: ObjectMeta
  hp_ScaleTargetRef :: CrossVersionObjectReference
  hp_MinReplicas :: "int option"
  hp_MaxReplicas :: int
  hp_Metrics :: "(string \<times> int option) list"
  hp_Behavior :: "'b option"

type_synonym key = "string \<times> string"

definition hpa_New :: "key \<Rightarrow> labels \<Rightarrow> 'b HorizontalPodAutoscalerSpec \<Rightarrow> 'b HPA" where
  "hpa_New k ls cfg =
     \<lparr>hp_Meta = \<lparr>om_Name = fst k, om_Namespace = snd k, om_Labels = ls\<rparr>,
      hp_ScaleTargetRef = \<lparr>cv_Kind = ''Deployment'', cv_Name = fst k, cv_APIVersion = ''apps/v1''\<rparr>,
      hp_MinReplicas = hpa_MinReplicas cfg,
      hp_MaxReplicas = (case hpa_MaxReplicas cfg of Some m \<Rightarrow> m | None \<Rightarrow> 0),
      hp_Metrics = (case hpa_ResourceName cfg of Some r \<Rightarrow> [(r, hpa_ResourceUtilization cfg)] | None \<Rightarrow> []),
      hp_Behavior = hpa_Behavior cfg\<rparr>"

record PDB =
  pd_Meta :: ObjectMeta
  pd_Selector :: labels
  pd_MinAvailable :: "IntOrString option"
  pd_MaxUnavailable :: "IntOrString option"

definition pdb_New :: "key \<Rightarrow> labels \<Rightarrow> labels \<Rightarrow> IntOrString PodDisruptionBudgetSpec \<Rightarrow> PDB" where
  "pdb_New k ls sel cfg =
     \<lparr>pd_Meta = \<lparr>om_Name = fst k, om_Namespace = snd k, om_Labels = ls\<rparr>, pd_Selector = sel,
      pd_MinAvailable = pdb_MinAvailable cfg,
      pd_MaxUnavailable = (if pdb_MinAvailable cfg \<noteq> None then None else pdb_MaxUnavailable cfg)\<rparr>"

record PodMonitor =
  pm_Meta :: ObjectMeta
  pm_Endpoints :: "PodMetricsEndpoint list"
  pm_Selector :: labels

definition podmonitor_New :: "key \<Rightarrow> labels \<Rightarrow> labels \<Rightarrow> PodMetricsEndpoint list \<Rightarrow> PodMonitor" where
  "podmonitor_New k ls sel endpoints =
     \<lparr>pm_Meta = \<lparr>om_Name = fst k, om_Namespace = snd k, om_Labels = ls\<rparr>, pm_Endpoints = endpoints, pm_Selector = sel\<rparr>"

section \<open>Workloads\<close>

text \<open>
  A workload by what its methods return: \<open>w_HPASpec\<close> and \<open>w_PDBSpec\<close> are pointers, \<open>w_Canary\<close> is
  whether it sends traffic and its traffic selector, for a workload that implements \<^verbatim>\<open>WithCanary\<close>, and
  \<open>w_PublishingStrategies\<close> the result of that method, for one that implements the interface.
\<close>

record ('p, 'b) workload =
  w_Key :: key
  w_Labels :: labels
  w_Selector :: labels
  w_MonitoredEndpoints :: "PodMetricsEndpoint list"
  w_HPASpec :: "'b HorizontalPodAutoscalerSpec option"
  w_PDBSpec :: "IntOrString PodDisruptionBudgetSpec option"
  w_Deployment :: "'p Deployment option"
  w_Canary :: "(bool \<times> labels) option"
  w_PublishingStrategies :: "(error + ServiceDescriptor list) option"

datatype ('p, 'b) object =
    ODeployment "'p Deployment"
  | OPDB PDB
  | OHPA "'b HPA"
  | OPodMonitor PodMonitor
  | OEnvoyConfig EnvoyConfig
  | OService Service

record ('p, 'b) template =
  tp_Enabled :: bool
  tp_Build :: "('p, 'b) object result"

text \<open>\<^verbatim>\<open>Template.Apply\<close>: the function runs on what the builder returned, unless that is an error.\<close>

definition tp_Apply :: "(('p, 'b) object \<Rightarrow> ('p, 'b) object) \<Rightarrow> ('p, 'b) template \<Rightarrow> ('p, 'b) template" where
  "tp_Apply f t = t\<lparr>tp_Build := map_option (map_sum id f) (tp_Build t)\<rparr>"

definition NewTemplate :: "('p, 'b) object result \<Rightarrow> ('p, 'b) template" where
  "NewTemplate o1 = \<lparr>tp_Enabled = True, tp_Build = o1\<rparr>"

definition EmptyKey :: key where "EmptyKey = ('''', '''')"

text \<open>\<^verbatim>\<open>meta\<close> sets the name of everything but a service, the namespace and the labels.\<close>

definition meta_labels :: "labels \<Rightarrow> ('p, 'b) workload \<Rightarrow> labels" where
  "meta_labels ls w = mergeMaps Map.empty [ls, w_Labels w]"

definition meta_of :: "ObjectMeta \<Rightarrow> ('p, 'b) workload \<Rightarrow> ObjectMeta" where
  "meta_of m w = \<lparr>om_Name = fst (w_Key w), om_Namespace = snd (w_Key w), om_Labels = meta_labels (om_Labels m) w\<rparr>"

fun meta :: "('p, 'b) workload \<Rightarrow> ('p, 'b) object \<Rightarrow> ('p, 'b) object" where
  "meta w (OService s) = OService (s\<lparr>sv_Namespace := snd (w_Key w), sv_Labels := meta_labels (sv_Labels s) w\<rparr>)"
| "meta w (ODeployment d) = ODeployment (d\<lparr>dep_Name := fst (w_Key w), dep_Namespace := snd (w_Key w),
     dep_Labels := meta_labels (dep_Labels d) w\<rparr>)"
| "meta w (OPDB p) = OPDB (p\<lparr>pd_Meta := meta_of (pd_Meta p) w\<rparr>)"
| "meta w (OHPA h) = OHPA (h\<lparr>hp_Meta := meta_of (hp_Meta h) w\<rparr>)"
| "meta w (OPodMonitor p) = OPodMonitor (p\<lparr>pm_Meta := meta_of (pm_Meta p) w\<rparr>)"
| "meta w (OEnvoyConfig e) = OEnvoyConfig (e\<lparr>ec_Name := fst (w_Key w), ec_Namespace := snd (w_Key w),
     ec_Labels := meta_labels (ec_Labels e) w\<rparr>)"

fun selector :: "('p, 'b) workload \<Rightarrow> ('p, 'b) object \<Rightarrow> ('p, 'b) object" where
  "selector w (ODeployment d) = ODeployment (d\<lparr>dep_Selector := w_Selector w,
     dep_PodLabels := Some (mergeMaps Map.empty [orEmpty (dep_PodLabels d), w_Labels w, w_Selector w])\<rparr>)"
| "selector w (OPDB p) = OPDB (p\<lparr>pd_Selector := w_Selector w\<rparr>)"
| "selector w (OPodMonitor p) = OPodMonitor (p\<lparr>pm_Selector := w_Selector w\<rparr>)"
| "selector w o1 = o1"

fun trafficSelectorToDeployment :: "('p, 'b) workload \<Rightarrow> ('p, 'b) object \<Rightarrow> ('p, 'b) object" where
  "trafficSelectorToDeployment w (ODeployment d) =
     (case w_Canary w of
        None \<Rightarrow> ODeployment d
      | Some (_, t) \<Rightarrow> ODeployment (d\<lparr>dep_PodLabels := Some (mergeMaps Map.empty [orEmpty (dep_PodLabels d), t])\<rparr>))"
| "trafficSelectorToDeployment w o1 = o1"

fun scaleTargetRefToHPA :: "('p, 'b) workload \<Rightarrow> ('p, 'b) object \<Rightarrow> ('p, 'b) object" where
  "scaleTargetRefToHPA w (OHPA h) =
     OHPA (h\<lparr>hp_ScaleTargetRef := \<lparr>cv_Kind = ''Deployment'', cv_Name = fst (w_Key w), cv_APIVersion = ''apps/v1''\<rparr>\<rparr>)"
| "scaleTargetRefToHPA w o1 = o1"

fun marin3rSidecarToDeployment :: "Marin3rSidecarSpec \<Rightarrow> ('p, 'b) object \<Rightarrow> ('p, 'b) object" where
  "marin3rSidecarToDeployment m3 (ODeployment d) = ODeployment (AddMarin3rSidecar d m3)"
| "marin3rSidecarToDeployment m3 o1 = o1"

fun nodeIdToEnvoyConfig :: "Marin3rSidecarSpec \<Rightarrow> ('p, 'b) object \<Rightarrow> ('p, 'b) object" where
  "nodeIdToEnvoyConfig m3 (OEnvoyConfig e) =
     OEnvoyConfig (e\<lparr>ec_NodeID := (case m3_NodeID m3 of Some n \<Rightarrow> n | None \<Rightarrow> ec_Name e)\<rparr>)"
| "nodeIdToEnvoyConfig m3 o1 = o1"

definition workloadResources :: "('p, 'b) workload \<Rightarrow> ('p, 'b) template list option" where
  "workloadResources w =
     do { pdb \<leftarrow> w_PDBSpec w;
          hpa \<leftarrow> w_HPASpec w;
          Some
           [tp_Apply (trafficSelectorToDeployment w) (tp_Apply (selector w) (tp_Apply (meta w)
              (NewTemplate (map_option (\<lambda>d. Inr (ODeployment d)) (w_Deployment w))))),
            tp_Apply (selector w) (tp_Apply (meta w)
              (NewTemplate (Some (Inr (OPDB (pdb_New EmptyKey Map.empty Map.empty pdb)))))
                \<lparr>tp_Enabled := \<not> PodDisruptionBudgetSpec_IsDeactivated pdb\<rparr>),
            tp_Apply (scaleTargetRefToHPA w) (tp_Apply (meta w)
              (NewTemplate (Some (Inr (OHPA (hpa_New EmptyKey Map.empty hpa)))))
                \<lparr>tp_Enabled := \<not> HorizontalPodAutoscalerSpec_IsDeactivated hpa\<rparr>),
            tp_Apply (selector w) (tp_Apply (meta w)
              (NewTemplate (Some (Inr (OPodMonitor (podmonitor_New EmptyKey Map.empty Map.empty (w_MonitoredEndpoints w))))))
                \<lparr>tp_Enabled := w_MonitoredEndpoints w \<noteq> []\<rparr>)] }"

section \<open>Traffic\<close>

text \<open>A workload with traffic, as the switcher sees it: whether it sends traffic, its selector and its traffic selector.\<close>

definition enabled_selectors :: "('p, 'b) workload option list \<Rightarrow> labels list" where
  "enabled_selectors ws =
     concat (map (\<lambda>w. case w of
                        None \<Rightarrow> []
                      | Some w \<Rightarrow> (case w_Canary w of Some (True, _) \<Rightarrow> [w_Selector w] | _ \<Rightarrow> [])) ws)"

definition trafficSwitcher :: "('p, 'b) workload \<Rightarrow> labels \<Rightarrow> ('p, 'b) workload option \<Rightarrow> labels" where
  "trafficSwitcher main mainTraffic canary =
     (case enabled_selectors [Some main, canary] of
        [] \<Rightarrow> Map.empty
      | [s] \<Rightarrow> mergeMaps Map.empty [s, mainTraffic]
      | _ \<Rightarrow> mergeMaps Map.empty [mainTraffic])"

text \<open>The type assertions to \<^verbatim>\<open>WithCanary\<close> panic on a workload that is not one.\<close>

definition service_selector :: "('p, 'b) workload \<Rightarrow> ('p, 'b) workload option \<Rightarrow> labels option" where
  "service_selector main canary =
     do { (_, t) \<leftarrow> w_Canary main;
          if (case canary of None \<Rightarrow> False | Some c \<Rightarrow> w_Canary c = None) then None
          else Some (trafficSwitcher main t canary) }"

fun trafficSelectorToService :: "labels \<Rightarrow> ('p, 'b) object \<Rightarrow> ('p, 'b) object" where
  "trafficSelectorToService sel (OService s) = OService (s\<lparr>sv_Selector := sel\<rparr>)"
| "trafficSelectorToService sel o1 = o1"

section \<open>All the resources\<close>

definition missing_sidecar_spec :: error where
  "missing_sidecar_spec = ErrorString (''Marin3rSidecarSpec is missing, can'' @ [CHR 0x27] @ ''t implement strategy without it'')"

definition service_template :: "('p, 'b) workload \<Rightarrow> string \<Rightarrow> ServiceDescriptor \<Rightarrow> ('p, 'b) template" where
  "service_template main suf descriptor =
     NewTemplate (map_option (\<lambda>(svc, _). Inr (OService svc)) (ServiceDescriptor_Service (fst (w_Key main)) suf descriptor))"

definition is_deployment :: "('p, 'b) template \<Rightarrow> bool" where
  "is_deployment t \<longleftrightarrow> (case tp_Build t of Some (Inr (ODeployment _)) \<Rightarrow> True | _ \<Rightarrow> False)"

type_synonym config_iter = "(string, EnvoyDynamicConfig) gomap \<Rightarrow> (string, EnvoyDynamicConfig) gomap"

definition dynamicConfigurations :: "config_iter \<Rightarrow> Marin3rSidecarSpec \<Rightarrow> EnvoyDynamicConfig list" where
  "dynamicConfigurations iter m3 = AsList iter (case m3_EnvoyDynamicConfig m3 of Some m \<Rightarrow> m | None \<Rightarrow> [])"

definition envoyconfig_template ::
    "envoy_lib \<Rightarrow> config_iter \<Rightarrow> ('p, 'b) workload \<Rightarrow> Marin3rSidecarSpec \<Rightarrow> ('p, 'b) template" where
  "envoyconfig_template L iter main m3 =
     (let configs = dynamicConfigurations iter m3 in
      tp_Apply (nodeIdToEnvoyConfig m3) (tp_Apply (meta main)
        (NewTemplate (map_option (map_sum id OEnvoyConfig) (EnvoyConfig_New L EmptyKey (fst EmptyKey) (factory_Default L) configs))
           \<lparr>tp_Enabled := configs \<noteq> []\<rparr>)))"

text \<open>The loop over the strategies: the resources, with the sidecars added to the deployments, and the services.\<close>

fun publish_loop ::
    "envoy_lib \<Rightarrow> config_iter \<Rightarrow> ('p, 'b) workload \<Rightarrow> ServiceDescriptor list \<Rightarrow> ('p, 'b) template list \<times> ('p, 'b) template list
       \<Rightarrow> error + ('p, 'b) template list \<times> ('p, 'b) template list" where
  "publish_loop L iter main [] (resources, services) = Inr (resources, services)"
| "publish_loop L iter main (descriptor # strategies) (resources, services) =
     (let ps = sd_PublishingStrategy descriptor in
      if ps_Strategy ps = SimpleStrategy then
        publish_loop L iter main strategies (resources, services @ [service_template main ''svc'' descriptor])
      else if ps_Strategy ps = Marin3rSidecarStrategy then
        (case ps_Marin3rSidecar ps of
           None \<Rightarrow> Inl missing_sidecar_spec
         | Some m3 \<Rightarrow>
             publish_loop L iter main strategies
               (map (\<lambda>t. if is_deployment t then tp_Apply (marin3rSidecarToDeployment m3) t else t) resources
                  @ [envoyconfig_template L iter main m3],
                services @ [service_template main ''marin3r'' descriptor]))
      else publish_loop L iter main strategies (resources, services))"

definition route_services ::
    "('p, 'b) workload \<Rightarrow> ('p, 'b) workload option \<Rightarrow> ('p, 'b) template list \<Rightarrow> ('p, 'b) template list option" where
  "route_services main canary services =
     (if services = [] then Some []
      else do { sel \<leftarrow> service_selector main canary;
                Some (map (\<lambda>t. tp_Apply (trafficSelectorToService sel) (tp_Apply (meta main) t)) services) })"

definition Workload_New ::
    "envoy_lib \<Rightarrow> config_iter \<Rightarrow> ('p, 'b) workload \<Rightarrow> ('p, 'b) workload option \<Rightarrow> ('p, 'b) template list result" where
  "Workload_New L iter main canary =
     do { resources \<leftarrow> workloadResources main;
          more \<leftarrow> (case canary of None \<Rightarrow> Some [] | Some c \<Rightarrow> workloadResources c);
          case (case w_PublishingStrategies main of
                  None \<Rightarrow> Inr (resources @ more, [])
                | Some (Inl e) \<Rightarrow> Inl e
                | Some (Inr strategies) \<Rightarrow> publish_loop L iter main strategies (resources @ more, [])) of
            Inl e \<Rightarrow> Some (Inl e)
          | Inr (resources, services) \<Rightarrow>
              do { routed \<leftarrow> route_services main canary services;
                   Some (Inr (resources @ routed)) } }"

section \<open>The resources in closed form\<close>

definition lacks_sidecar_spec :: "ServiceDescriptor \<Rightarrow> bool" where
  "lacks_sidecar_spec d \<longleftrightarrow>
     ps_Strategy (sd_PublishingStrategy d) = Marin3rSidecarStrategy \<and> ps_Marin3rSidecar (sd_PublishingStrategy d) = None"

definition sidecar_specs :: "ServiceDescriptor list \<Rightarrow> Marin3rSidecarSpec list" where
  "sidecar_specs ds =
     concat (map (\<lambda>d. if ps_Strategy (sd_PublishingStrategy d) = Marin3rSidecarStrategy
                      then (case ps_Marin3rSidecar (sd_PublishingStrategy d) of Some m3 \<Rightarrow> [m3] | None \<Rightarrow> []) else []) ds)"

definition service_templates :: "('p, 'b) workload \<Rightarrow> ServiceDescriptor list \<Rightarrow> ('p, 'b) template list" where
  "service_templates main ds =
     concat (map (\<lambda>d. if ps_Strategy (sd_PublishingStrategy d) = SimpleStrategy then [service_template main ''svc'' d]
                      else if ps_Strategy (sd_PublishingStrategy d) = Marin3rSidecarStrategy then [service_template main ''marin3r'' d]
                      else []) ds)"

definition add_sidecars :: "Marin3rSidecarSpec list \<Rightarrow> ('p, 'b) template \<Rightarrow> ('p, 'b) template" where
  "add_sidecars specs t = (if is_deployment t then tp_Apply (fold marin3rSidecarToDeployment specs) t else t)"

lemma tp_Apply_simps [simp]:
  "tp_Enabled (tp_Apply f t) = tp_Enabled t" "tp_Build (tp_Apply f t) = map_option (map_sum id f) (tp_Build t)"
  "tp_Apply f (tp_Apply g t) = tp_Apply (f \<circ> g) t"
  by (simp_all add: tp_Apply_def option.map_comp sum.map_comp comp_def id_def)

lemma tp_Apply_id: "tp_Apply id t = t"
  by (simp add: tp_Apply_def option.map_id sum.map_id0)

lemma is_deployment_sidecar [simp]: "is_deployment (tp_Apply (marin3rSidecarToDeployment m3) t) = is_deployment t"
proof -
  have "(case marin3rSidecarToDeployment m3 x of ODeployment _ \<Rightarrow> True | _ \<Rightarrow> False) = (case x of ODeployment _ \<Rightarrow> True | _ \<Rightarrow> False)"
    for x :: "('p, 'b) object" by (cases x) simp_all
  then show ?thesis
    by (auto simp: is_deployment_def split: option.splits sum.splits)
qed

lemma add_sidecars_Nil [simp]: "add_sidecars [] t = t"
  by (simp add: add_sidecars_def tp_Apply_id)

lemma add_sidecars_Cons:
  "add_sidecars (m3 # specs) t =
     add_sidecars specs (if is_deployment t then tp_Apply (marin3rSidecarToDeployment m3) t else t)"
  by (simp add: add_sidecars_def)

lemma envoyconfig_not_deployment [simp]: "\<not> is_deployment (envoyconfig_template L iter main m3)"
  by (auto simp: is_deployment_def envoyconfig_template_def NewTemplate_def Let_def map_sum_def split: option.splits sum.splits)

lemma publish_loop_eq:
  "publish_loop L iter main ds (resources, services) =
     (if \<exists>d\<in>set ds. lacks_sidecar_spec d then Inl missing_sidecar_spec
      else Inr (map (add_sidecars (sidecar_specs ds)) resources @ map (envoyconfig_template L iter main) (sidecar_specs ds),
                services @ service_templates main ds))"
proof (induction ds arbitrary: resources services)
  case (Cons d ds)
  then show ?case
    by (auto simp: lacks_sidecar_spec_def sidecar_specs_def service_templates_def SimpleStrategy_def Marin3rSidecarStrategy_def Let_def
        add_sidecars_def [of _ "envoyconfig_template L iter main _"] add_sidecars_Cons [abs_def]
        split: option.splits)
qed (simp add: sidecar_specs_def service_templates_def map_idI)

text \<open>The pods of a workload: the labels of its template, without and with the sidecars.\<close>

definition traffic_of :: "('p, 'b) workload \<Rightarrow> labels" where
  "traffic_of w = (case w_Canary w of Some (_, t) \<Rightarrow> t | None \<Rightarrow> Map.empty)"

definition sends_traffic :: "('p, 'b) workload \<Rightarrow> bool" where
  "sends_traffic w = (case w_Canary w of Some (s, _) \<Rightarrow> s | None \<Rightarrow> False)"

definition base_deployment :: "('p, 'b) workload \<Rightarrow> 'p Deployment \<Rightarrow> 'p Deployment" where
  "base_deployment w d = d\<lparr>dep_Name := fst (w_Key w), dep_Namespace := snd (w_Key w),
     dep_Labels := dep_Labels d ++ w_Labels w, dep_Selector := w_Selector w,
     dep_PodLabels := Some (orEmpty (dep_PodLabels d) ++ w_Labels w ++ w_Selector w ++ traffic_of w)\<rparr>"

definition deployment_of :: "Marin3rSidecarSpec list \<Rightarrow> ('p, 'b) workload \<Rightarrow> 'p Deployment \<Rightarrow> 'p Deployment" where
  "deployment_of specs w d = fold (\<lambda>m3 d. AddMarin3rSidecar d m3) specs (base_deployment w d)"

lemma fold_sidecars: "fold marin3rSidecarToDeployment specs (ODeployment d) = ODeployment (fold (\<lambda>m3 d. AddMarin3rSidecar d m3) specs d)"
  by (induction specs arbitrary: d) simp_all

lemma mergeMaps_simps [simp]:
  "mergeMaps m [] = m" "mergeMaps m (n # ns) = mergeMaps (m ++ n) ns"
  by (simp_all add: mergeMaps_def)

lemma orEmpty_simps [simp]: "orEmpty (Some m) = m" "orEmpty None = Map.empty"
  by (simp_all add: orEmpty_def)

text \<open>The four resources of one workload, with the sidecars on its deployment.\<close>

definition resources_of ::
    "Marin3rSidecarSpec list \<Rightarrow> ('p, 'b) workload \<Rightarrow> IntOrString PodDisruptionBudgetSpec \<Rightarrow> 'b HorizontalPodAutoscalerSpec
       \<Rightarrow> ('p, 'b) template list" where
  "resources_of specs w pdb hpa =
     (let om = \<lparr>om_Name = fst (w_Key w), om_Namespace = snd (w_Key w), om_Labels = w_Labels w\<rparr> in
      [\<lparr>tp_Enabled = True, tp_Build = map_option (\<lambda>d. Inr (ODeployment (deployment_of specs w d))) (w_Deployment w)\<rparr>,
       \<lparr>tp_Enabled = (pdb \<noteq> no_PodDisruptionBudgetSpec), tp_Build = Some (Inr (OPDB \<lparr>pd_Meta = om, pd_Selector = w_Selector w,
          pd_MinAvailable = pdb_MinAvailable pdb,
          pd_MaxUnavailable = (if pdb_MinAvailable pdb \<noteq> None then None else pdb_MaxUnavailable pdb)\<rparr>))\<rparr>,
       \<lparr>tp_Enabled = (hpa \<noteq> no_HorizontalPodAutoscalerSpec), tp_Build = Some (Inr (OHPA \<lparr>hp_Meta = om,
          hp_ScaleTargetRef = \<lparr>cv_Kind = ''Deployment'', cv_Name = fst (w_Key w), cv_APIVersion = ''apps/v1''\<rparr>,
          hp_MinReplicas = hpa_MinReplicas hpa, hp_MaxReplicas = (case hpa_MaxReplicas hpa of Some m \<Rightarrow> m | None \<Rightarrow> 0),
          hp_Metrics = (case hpa_ResourceName hpa of Some r \<Rightarrow> [(r, hpa_ResourceUtilization hpa)] | None \<Rightarrow> []),
          hp_Behavior = hpa_Behavior hpa\<rparr>))\<rparr>,
       \<lparr>tp_Enabled = (w_MonitoredEndpoints w \<noteq> []), tp_Build = Some (Inr (OPodMonitor \<lparr>pm_Meta = om,
          pm_Endpoints = w_MonitoredEndpoints w, pm_Selector = w_Selector w\<rparr>))\<rparr>])"

lemma workloadResources_eq:
  "workloadResources w =
     (case (w_PDBSpec w, w_HPASpec w) of
        (Some pdb, Some hpa) \<Rightarrow> Some (resources_of [] w pdb hpa)
      | _ \<Rightarrow> None)"
  by (cases "w_Deployment w") (auto simp: workloadResources_def resources_of_def NewTemplate_def tp_Apply_def Let_def deployment_of_def base_deployment_def
      traffic_of_def meta_of_def meta_labels_def pdb_New_def hpa_New_def podmonitor_New_def PodDisruptionBudgetSpec_IsDeactivated_def
      HorizontalPodAutoscalerSpec_IsDeactivated_def split: option.splits)

lemma add_sidecars_resources [simp]: "map (add_sidecars specs) (resources_of [] w pdb hpa) = resources_of specs w pdb hpa"
  by (cases "w_Deployment w")
     (simp_all add: resources_of_def add_sidecars_def is_deployment_def tp_Apply_def Let_def fold_sidecars deployment_of_def)

definition strategies_of :: "('p, 'b) workload \<Rightarrow> ServiceDescriptor list" where
  "strategies_of w = (case w_PublishingStrategies w of Some (Inr ds) \<Rightarrow> ds | _ \<Rightarrow> [])"

definition sidecars_of :: "('p, 'b) workload \<Rightarrow> Marin3rSidecarSpec list" where
  "sidecars_of w = sidecar_specs (strategies_of w)"

definition has_specs :: "('p, 'b) workload \<Rightarrow> bool" where
  "has_specs w \<longleftrightarrow> w_PDBSpec w \<noteq> None \<and> w_HPASpec w \<noteq> None"

definition own_resources :: "Marin3rSidecarSpec list \<Rightarrow> ('p, 'b) workload \<Rightarrow> ('p, 'b) template list" where
  "own_resources specs w =
     (case (w_PDBSpec w, w_HPASpec w) of (Some pdb, Some hpa) \<Rightarrow> resources_of specs w pdb hpa | _ \<Rightarrow> [])"

definition workloads :: "('p, 'b) workload \<Rightarrow> ('p, 'b) workload option \<Rightarrow> ('p, 'b) workload list" where
  "workloads main canary = main # (case canary of None \<Rightarrow> [] | Some c \<Rightarrow> [c])"

definition routed_services :: "('p, 'b) workload \<Rightarrow> labels \<Rightarrow> ('p, 'b) template list" where
  "routed_services main sel =
     map (tp_Apply (trafficSelectorToService sel \<circ> meta main)) (service_templates main (strategies_of main))"

text \<open>What the workload and its canary become, for every outcome.\<close>

definition workload_spec ::
    "envoy_lib \<Rightarrow> config_iter \<Rightarrow> ('p, 'b) workload \<Rightarrow> ('p, 'b) workload option \<Rightarrow> ('p, 'b) template list result" where
  "workload_spec L iter main canary =
     (if \<not> list_all has_specs (workloads main canary) then None
      else case w_PublishingStrategies main of
        Some (Inl e) \<Rightarrow> Some (Inl e)
      | _ \<Rightarrow>
          if list_ex lacks_sidecar_spec (strategies_of main) then Some (Inl missing_sidecar_spec)
          else
            let own = concat (map (own_resources (sidecars_of main)) (workloads main canary))
                      @ map (envoyconfig_template L iter main) (sidecars_of main)
            in if service_templates main (strategies_of main) = [] then Some (Inr own)
               else map_option (\<lambda>sel. Inr (own @ routed_services main sel)) (service_selector main canary))"

lemma workloadResources_own: "workloadResources w = (if has_specs w then Some (own_resources [] w) else None)"
  by (auto simp: workloadResources_eq has_specs_def own_resources_def split: option.splits)

lemma add_sidecars_own [simp]: "map (add_sidecars specs) (own_resources [] w) = own_resources specs w"
  by (auto simp: own_resources_def split: option.splits)

lemma no_services [simp]: "sidecar_specs [] = []" "service_templates main [] = []"
  by (simp_all add: sidecar_specs_def service_templates_def)

lemma route_services_eq:
  "route_services main canary (service_templates main ds) =
     (if service_templates main ds = [] then Some []
      else map_option (\<lambda>sel. map (tp_Apply (trafficSelectorToService sel \<circ> meta main)) (service_templates main ds))
             (service_selector main canary))"
  by (cases "service_selector main canary") (simp_all add: route_services_def)

lemma Workload_New_eq: "Workload_New L iter main canary = workload_spec L iter main canary"
proof (cases "list_all has_specs (workloads main canary)")
  case True
  then have own: "workloadResources main = Some (own_resources [] main)"
    "(case canary of None \<Rightarrow> Some [] | Some c \<Rightarrow> workloadResources c) = Some (case canary of None \<Rightarrow> [] | Some c \<Rightarrow> own_resources [] c)"
    by (auto simp: workloads_def workloadResources_own split: option.splits)
  have all: "map (add_sidecars specs) (own_resources [] main @ (case canary of None \<Rightarrow> [] | Some c \<Rightarrow> own_resources [] c)) =
      concat (map (own_resources specs) (workloads main canary))" for specs
    by (simp add: workloads_def split: option.splits)
  have none: "own_resources [] main @ (case canary of None \<Rightarrow> [] | Some c \<Rightarrow> own_resources [] c) =
      concat (map (own_resources []) (workloads main canary))"
    by (simp add: workloads_def split: option.splits)
  show ?thesis
  proof (cases "w_PublishingStrategies main")
    case None
    then show ?thesis
      using True by (simp add: Workload_New_def own none workload_spec_def strategies_of_def sidecars_of_def route_services_def Let_def)
  next
    case (Some r)
    then show ?thesis
      using True
      by (cases r; cases "service_selector main canary")
         (simp_all only: Workload_New_def own publish_loop_eq all bind.simps option.case sum.case prod.case append_Nil route_services_eq
           workload_spec_def strategies_of_def sidecars_of_def routed_services_def Let_def list_ex_iff, auto simp: route_services_def)
  qed
next
  case False
  then show ?thesis
    by (cases canary) (auto simp: workload_spec_def Workload_New_def workloadResources_own workloads_def)
qed

section \<open>Where traffic goes\<close>

text \<open>A service selects the pods whose labels extend its selector; one without selector selects none.\<close>

definition selects :: "labels \<Rightarrow> labels \<Rightarrow> bool" where
  "selects sel ls \<longleftrightarrow> sel \<noteq> Map.empty \<and> sel \<subseteq>\<^sub>m ls"

definition pod_labels :: "'p Deployment \<Rightarrow> labels" where
  "pod_labels d = orEmpty (dep_PodLabels d)"

lemma AddMarin3rSidecar_simps [simp]:
  "dep_Name (AddMarin3rSidecar d m3) = dep_Name d" "dep_Selector (AddMarin3rSidecar d m3) = dep_Selector d"
  "pod_labels (AddMarin3rSidecar d m3) = (pod_labels d)(sidecarEnabledLabelKey \<mapsto> sidecarEnabledLabelValue)"
  by (simp_all add: AddMarin3rSidecar_def pod_labels_def Let_def)

lemma deployment_of_simps [simp]:
  "dep_Name (deployment_of specs w d0) = fst (w_Key w)" "dep_Selector (deployment_of specs w d0) = w_Selector w"
proof -
  have "dep_Name (fold (\<lambda>m3 d. AddMarin3rSidecar d m3) specs d) = dep_Name d \<and>
    dep_Selector (fold (\<lambda>m3 d. AddMarin3rSidecar d m3) specs d) = dep_Selector d" for d :: "'a Deployment"
    by (induction specs arbitrary: d) simp_all
  then show "dep_Name (deployment_of specs w d0) = fst (w_Key w)" "dep_Selector (deployment_of specs w d0) = w_Selector w"
    by (simp_all add: deployment_of_def base_deployment_def)
qed

lemma pod_labels_deployment:
  "pod_labels (deployment_of specs w d0) =
     (let ls = orEmpty (dep_PodLabels d0) ++ w_Labels w ++ w_Selector w ++ traffic_of w
      in if specs = [] then ls else ls(sidecarEnabledLabelKey \<mapsto> sidecarEnabledLabelValue))"
proof -
  have "pod_labels (fold (\<lambda>m3 d. AddMarin3rSidecar d m3) specs d) =
    (if specs = [] then pod_labels d else (pod_labels d)(sidecarEnabledLabelKey \<mapsto> sidecarEnabledLabelValue))" for d :: "'a Deployment"
    by (induction specs arbitrary: d) auto
  then show ?thesis
    by (simp add: deployment_of_def Let_def) (simp add: base_deployment_def pod_labels_def)
qed

text \<open>The labels by which a workload's pods are found: no other label or sidecar hides them.\<close>

definition identifiable :: "('p, 'b) workload \<Rightarrow> bool" where
  "identifiable w \<longleftrightarrow>
     dom (traffic_of w) \<inter> dom (w_Selector w) = {} \<and> sidecarEnabledLabelKey \<notin> dom (traffic_of w) \<union> dom (w_Selector w)"

lemma pod_labels_contain:
  assumes "identifiable w"
  shows "w_Selector w ++ traffic_of w \<subseteq>\<^sub>m pod_labels (deployment_of specs w d0)"
    and "w_Selector w \<subseteq>\<^sub>m pod_labels (deployment_of specs w d0)" "traffic_of w \<subseteq>\<^sub>m pod_labels (deployment_of specs w d0)"
  using assms by (auto simp: identifiable_def pod_labels_deployment Let_def map_le_def map_add_def dom_def split: option.splits)

lemma selects_iff:
  assumes "identifiable w" "traffic_of w \<noteq> Map.empty"
  shows "selects (w_Selector w ++ traffic_of w) (pod_labels (deployment_of specs w d0))"
    and "selects (traffic_of w) (pod_labels (deployment_of specs w d0))"
    and "\<not> selects Map.empty ls"
  using assms pod_labels_contain [OF assms(1)] by (auto simp: selects_def)

lemma not_selects:
  assumes "identifiable w" "sel k = Some v" "w_Selector w k = Some v'" "v \<noteq> v'"
  shows "\<not> selects sel (pod_labels (deployment_of specs w d0))"
proof
  assume "selects sel (pod_labels (deployment_of specs w d0))"
  then have "pod_labels (deployment_of specs w d0) k = Some v"
    using assms(2) by (metis domI map_le_def selects_def)
  moreover have "pod_labels (deployment_of specs w d0) k = Some v'"
    using pod_labels_contain(2) [OF assms(1)] assms(3) by (metis domI map_le_def)
  ultimately show False
    using assms(4) by simp
qed

text \<open>
  The contract between a workload and its canary: one traffic selector for both, on which the pods are
  found, and selectors that tell them apart.
\<close>

locale routed_pair =
  fixes main canary :: "('p, 'b) workload"
  assumes with_canary: "w_Canary main \<noteq> None" "w_Canary canary \<noteq> None"
    and shared: "traffic_of canary = traffic_of main" "traffic_of main \<noteq> Map.empty"
    and found: "identifiable main" "identifiable canary"
    and apart: "\<exists>k v v'. w_Selector main k = Some v \<and> w_Selector canary k = Some v' \<and> v \<noteq> v' \<and> traffic_of main k = None"
begin

lemma selector_routes:
  assumes "service_selector main (Some canary) = Some sel"
  shows "selects sel (pod_labels (deployment_of specs main d0)) \<longleftrightarrow> sends_traffic main"
    and "selects sel (pod_labels (deployment_of specs canary d0)) \<longleftrightarrow> sends_traffic canary"
proof -
  obtain sm t sc where c: "w_Canary main = Some (sm, t)" "w_Canary canary = Some (sc, t)"
    using with_canary shared(1) by (auto simp: traffic_of_def split: option.splits)
  obtain k v v' where k: "w_Selector main k = Some v" "w_Selector canary k = Some v'" "v \<noteq> v'" "traffic_of main k = None"
    using apart by blast
  have t: "traffic_of main = t" "traffic_of canary = t"
    using c by (simp_all add: traffic_of_def)
  have sel: "sel = (if sm \<and> sc then t else if sm then w_Selector main ++ t else if sc then w_Selector canary ++ t else Map.empty)"
    using assms c by (auto simp: service_selector_def trafficSwitcher_def enabled_selectors_def split: bool.splits)
  have "(w_Selector main ++ t) k = Some v" "(w_Selector canary ++ t) k = Some v'"
    using k t by (simp_all add: map_add_def)
  then have other: "\<not> selects (w_Selector main ++ t) (pod_labels (deployment_of specs canary d0))"
      "\<not> selects (w_Selector canary ++ t) (pod_labels (deployment_of specs main d0))"
    using not_selects [OF found(2) _ k(2), of "w_Selector main ++ t" v] not_selects [OF found(1) _ k(1), of "w_Selector canary ++ t" v'] k(3)
    by auto
  note own = selects_iff [OF found(1) shared(2)] selects_iff [OF found(2), unfolded shared(1), OF shared(2)]
  show "selects sel (pod_labels (deployment_of specs main d0)) \<longleftrightarrow> sends_traffic main"
    "selects sel (pod_labels (deployment_of specs canary d0)) \<longleftrightarrow> sends_traffic canary"
    unfolding sel using other own c by (auto simp: sends_traffic_def t)
qed

end

section \<open>What the templates build\<close>

definition built :: "('p, 'b) template list \<Rightarrow> ('p, 'b) object set" where
  "built ts = {o1. \<exists>t\<in>set ts. tp_Build t = Some (Inr o1)}"

lemma built_simps [simp]:
  "built [] = {}" "built (ts @ us) = built ts \<union> built us"
  "built (t # ts) = (case tp_Build t of Some (Inr o1) \<Rightarrow> {o1} | _ \<Rightarrow> {}) \<union> built ts"
  by (auto simp: built_def split: option.splits sum.splits)

lemma built_own:
  assumes "has_specs w"
  shows "ODeployment d \<in> built (own_resources specs w) \<longleftrightarrow> (\<exists>d0. w_Deployment w = Some d0 \<and> d = deployment_of specs w d0)"
    and "OPDB p \<in> built (own_resources specs w) \<Longrightarrow> om_Name (pd_Meta p) = fst (w_Key w) \<and> pd_Selector p = w_Selector w"
    and "OHPA h \<in> built (own_resources specs w) \<Longrightarrow>
      om_Name (hp_Meta h) = fst (w_Key w) \<and> cv_Name (hp_ScaleTargetRef h) = fst (w_Key w)"
    and "OPodMonitor m \<in> built (own_resources specs w) \<Longrightarrow> om_Name (pm_Meta m) = fst (w_Key w) \<and> pm_Selector m = w_Selector w"
    and "OService s \<notin> built (own_resources specs w)" "OEnvoyConfig e \<notin> built (own_resources specs w)"
  using assms by (auto simp: has_specs_def own_resources_def resources_of_def Let_def split: option.splits)

lemma map_result_Inr: "map_option (map_sum id f) r = Some (Inr y) \<longleftrightarrow> (\<exists>x. r = Some (Inr x) \<and> f x = y)"
proof (cases r)
  case (Some s)
  then show ?thesis by (cases s) auto
qed simp

lemma built_envoyconfig: "built (map (envoyconfig_template L iter main) specs) \<subseteq> range OEnvoyConfig"
  by (auto simp: built_def envoyconfig_template_def NewTemplate_def Let_def map_result_Inr simp del: map_option_eq_Some)

lemma built_routed: "built (routed_services main sel) \<subseteq> {OService s | s. sv_Selector s = sel \<and> sv_Namespace s = snd (w_Key main)}"
  unfolding built_def routed_services_def
  by (auto simp: map_result_Inr service_templates_def service_template_def NewTemplate_def split: if_splits)

lemma New_Inr:
  assumes "Workload_New L iter main canary = Some (Inr ts)"
  obtains routed where "list_all has_specs (workloads main canary)"
    "ts = concat (map (own_resources (sidecars_of main)) (workloads main canary))
       @ map (envoyconfig_template L iter main) (sidecars_of main) @ routed"
    "routed = [] \<or> (\<exists>sel. service_selector main canary = Some sel \<and> routed = routed_services main sel)"
  using assms unfolding Workload_New_eq workload_spec_def Let_def
  by (fastforce split: if_splits option.splits sum.splits)

lemma built_New:
  assumes "Workload_New L iter main canary = Some (Inr ts)"
  shows "ODeployment d \<in> built ts \<longleftrightarrow> (\<exists>w\<in>set (workloads main canary). \<exists>d0. w_Deployment w = Some d0 \<and> d = deployment_of (sidecars_of main) w d0)"
    and "OPDB p \<in> built ts \<Longrightarrow> \<exists>w\<in>set (workloads main canary). om_Name (pd_Meta p) = fst (w_Key w) \<and> pd_Selector p = w_Selector w"
    and "OHPA h \<in> built ts \<Longrightarrow> \<exists>w\<in>set (workloads main canary). om_Name (hp_Meta h) = fst (w_Key w) \<and>
      cv_Name (hp_ScaleTargetRef h) = fst (w_Key w)"
    and "OPodMonitor m \<in> built ts \<Longrightarrow> \<exists>w\<in>set (workloads main canary). om_Name (pm_Meta m) = fst (w_Key w) \<and> pm_Selector m = w_Selector w"
    and "OService s \<in> built ts \<Longrightarrow> service_selector main canary = Some (sv_Selector s)"
proof -
  obtain routed where specs: "list_all has_specs (workloads main canary)"
    and ts: "ts = concat (map (own_resources (sidecars_of main)) (workloads main canary))
       @ map (envoyconfig_template L iter main) (sidecars_of main) @ routed"
    and routed: "routed = [] \<or> (\<exists>sel. service_selector main canary = Some sel \<and> routed = routed_services main sel)"
    using New_Inr [OF assms] .
  have concat: "built (concat (map f ws)) = (\<Union>w\<in>set ws. built (f w))" for f :: "('a, 'b) workload \<Rightarrow> _" and ws
    by (induction ws) auto
  have envoy: "built (map (envoyconfig_template L iter main) (sidecars_of main)) \<subseteq> range OEnvoyConfig"
    by (rule built_envoyconfig)
  have svc: "built routed \<subseteq> {OService s | s. service_selector main canary = Some (sv_Selector s)}"
    using routed built_routed [of main] by fastforce
  have own: "has_specs w" if "w \<in> set (workloads main canary)" for w
    using specs that by (simp add: list_all_iff)
  have in_ts: "o1 \<in> built ts \<longleftrightarrow> (\<exists>w\<in>set (workloads main canary). o1 \<in> built (own_resources (sidecars_of main) w)) \<or>
      o1 \<in> built (map (envoyconfig_template L iter main) (sidecars_of main)) \<or> o1 \<in> built routed" for o1
    unfolding ts by (simp add: concat)
  show "ODeployment d \<in> built ts \<longleftrightarrow> (\<exists>w\<in>set (workloads main canary). \<exists>d0. w_Deployment w = Some d0 \<and> d = deployment_of (sidecars_of main) w d0)"
    unfolding in_ts using envoy svc built_own(1) [OF own] by blast
  show "\<exists>w\<in>set (workloads main canary). om_Name (pd_Meta p) = fst (w_Key w) \<and> pd_Selector p = w_Selector w" if "OPDB p \<in> built ts"
    using that envoy svc built_own(2) [OF own] unfolding in_ts by blast
  show "\<exists>w\<in>set (workloads main canary). om_Name (hp_Meta h) = fst (w_Key w) \<and> cv_Name (hp_ScaleTargetRef h) = fst (w_Key w)"
    if "OHPA h \<in> built ts"
    using that envoy svc built_own(3) [OF own] unfolding in_ts by blast
  show "\<exists>w\<in>set (workloads main canary). om_Name (pm_Meta m) = fst (w_Key w) \<and> pm_Selector m = w_Selector w" if "OPodMonitor m \<in> built ts"
    using that envoy svc built_own(4) [OF own] unfolding in_ts by blast
  show "service_selector main canary = Some (sv_Selector s)" if "OService s \<in> built ts"
    using that envoy svc built_own(5) [OF own] unfolding in_ts by blast
qed

context routed_pair
begin

lemma New_routes:
  assumes "Workload_New L iter main (Some canary) = Some (Inr ts)" "OService s \<in> built ts"
  shows "selects (sv_Selector s) (pod_labels (deployment_of specs main d0)) \<longleftrightarrow> sends_traffic main"
    and "selects (sv_Selector s) (pod_labels (deployment_of specs canary d0)) \<longleftrightarrow> sends_traffic canary"
  using selector_routes [OF built_New(5) [OF assms]] by blast+

lemma New_routes_by_name:
  assumes "Workload_New L iter main (Some canary) = Some (Inr ts)" "fst (w_Key main) \<noteq> fst (w_Key canary)"
    and "OService s \<in> built ts" "ODeployment d \<in> built ts"
  shows "selects (sv_Selector s) (pod_labels d) \<longleftrightarrow>
    dep_Name d = fst (w_Key main) \<and> sends_traffic main \<or> dep_Name d = fst (w_Key canary) \<and> sends_traffic canary"
proof -
  obtain w d0 where "w = main \<or> w = canary" "d = deployment_of (sidecars_of main) w d0"
    using assms(4) by (auto simp: built_New(1) [OF assms(1)] workloads_def)
  then show ?thesis
    using New_routes [OF assms(1,3)] assms(2) by (elim disjE) simp_all
qed

end

text \<open>Sidecars find their configuration by the identifier of the node.\<close>

definition node_id :: "'p Deployment \<Rightarrow> string option" where
  "node_id d = orEmpty (dep_PodAnnotations d) (marin3r ''/node-id'')"

definition named_node :: "Marin3rSidecarSpec \<Rightarrow> string \<Rightarrow> string" where
  "named_node m3 name = (case m3_NodeID m3 of Some n \<Rightarrow> n | None \<Rightarrow> name)"

definition keeps_node_id :: "Marin3rSidecarSpec \<Rightarrow> bool" where
  "keeps_node_id m3 \<longleftrightarrow> map_of (case m3_ExtraPodAnnotations m3 of Some a \<Rightarrow> a | None \<Rightarrow> []) (marin3r ''/node-id'') = None"

lemma quantity_annotation_other: "key \<noteq> k \<Longrightarrow> quantity_annotation key name q m k = m k"
  by (auto simp: quantity_annotation_def split: option.splits)

lemma node_id_annotations:
  "imageAnnotation a (marin3r ''/node-id'') = None" "apiVersionAnnotation b (marin3r ''/node-id'') = None"
  "shtdnmgrPortAnnotation c (marin3r ''/node-id'') = None" "shtdnmgrExtraLifecycleHooksAnnotation d (marin3r ''/node-id'') = None"
  "resourcesAnnotations e (marin3r ''/node-id'') = None" "portsAnnotation f (marin3r ''/node-id'') = None"
  "defaultAnnotations (marin3r ''/node-id'') = None"
  by (simp_all add: imageAnnotation_def apiVersionAnnotation_def shtdnmgrPortAnnotation_def shtdnmgrExtraLifecycleHooksAnnotation_def
      resourcesAnnotations_def portsAnnotation_def defaultAnnotations_def quantity_annotation_other marin3r_def
      split: option.split list.split)

lemma node_id_sidecar: "keeps_node_id m3 \<Longrightarrow> node_id (AddMarin3rSidecar d m3) = Some (named_node m3 (dep_Name d))"
  by (simp add: node_id_def AddMarin3rSidecar_def Let_def map_add_def node_id_annotations keeps_node_id_def
      nodeIDAnnotation_def named_node_def)

lemma built_EnvoyConfig:
  "OEnvoyConfig e \<in> built (map (envoyconfig_template L iter main) specs) \<Longrightarrow> \<exists>m3\<in>set specs. ec_NodeID e = named_node m3 (fst (w_Key main))"
  by (auto simp: built_def envoyconfig_template_def NewTemplate_def Let_def map_result_Inr named_node_def simp del: map_option_eq_Some
      cong: option.case_cong) blast

lemma built_New_EnvoyConfig:
  assumes "Workload_New L iter main canary = Some (Inr ts)" "OEnvoyConfig e \<in> built ts"
  shows "\<exists>m3\<in>set (sidecars_of main). ec_NodeID e = named_node m3 (fst (w_Key main))"
proof -
  obtain routed where specs: "list_all has_specs (workloads main canary)"
    and ts: "ts = concat (map (own_resources (sidecars_of main)) (workloads main canary))
       @ map (envoyconfig_template L iter main) (sidecars_of main) @ routed"
    and routed: "routed = [] \<or> (\<exists>sel. service_selector main canary = Some sel \<and> routed = routed_services main sel)"
    using New_Inr [OF assms(1)] .
  have "OEnvoyConfig e \<notin> built (concat (map (own_resources (sidecars_of main)) (workloads main canary)))"
    using specs built_own(6) by (cases canary) (auto simp: workloads_def)
  moreover have "OEnvoyConfig e \<notin> built routed"
    using routed built_routed [of main] by fastforce
  ultimately show ?thesis
    using assms(2) built_EnvoyConfig unfolding ts by auto
qed

section \<open>A workload to run the model on\<close>

definition demo_workload :: "string \<Rightarrow> bool \<Rightarrow> ServiceDescriptor list \<Rightarrow> (unit, unit) workload" where
  "demo_workload name sends ds = \<lparr>w_Key = (name, ''ns''), w_Labels = [''app'' \<mapsto> ''demo''], w_Selector = [''deployment'' \<mapsto> name],
     w_MonitoredEndpoints = [], w_HPASpec = Some no_HorizontalPodAutoscalerSpec, w_PDBSpec = Some no_PodDisruptionBudgetSpec,
     w_Deployment = Some \<lparr>dep_Name = '''', dep_Namespace = '''', dep_Labels = Map.empty, dep_Selector = Map.empty, dep_PodLabels = None,
       dep_PodAnnotations = None, dep_Spec = ()\<rparr>,
     w_Canary = Some (sends, [''saas.3scale.net/traffic'' \<mapsto> ''demo'']), w_PublishingStrategies = Some (Inr ds)\<rparr>"

definition demo_sidecar :: ServiceDescriptor where
  "demo_sidecar = \<lparr>sd_PortDefinitions = [], sd_PublishingStrategy = \<lparr>ps_Strategy = Marin3rSidecarStrategy, ps_EndpointName = ''HTTP'',
     ps_Simple = None, ps_Marin3rSidecar = Some no_Marin3rSidecarSpec, ps_Create = None\<rparr>\<rparr>"

definition demo_resources :: "(unit, unit) template list" where
  "demo_resources =
     (case Workload_New name_lib id (demo_workload ''main'' True [demo_sidecar]) (Some (demo_workload ''canary'' False [])) of
        Some (Inr ts) \<Rightarrow> ts
      | _ \<Rightarrow> [])"

lemma demo_workload_simps [simp]:
  "w_Key (demo_workload name sends ds) = (name, ''ns'')" "w_Selector (demo_workload name sends ds) = [''deployment'' \<mapsto> name]"
  "w_Canary (demo_workload name sends ds) = Some (sends, [''saas.3scale.net/traffic'' \<mapsto> ''demo''])" "has_specs (demo_workload name sends ds)"
  "strategies_of (demo_workload name sends ds) = ds" "w_PublishingStrategies (demo_workload name sends ds) = Some (Inr ds)"
  "\<exists>d. w_Deployment (demo_workload name sends ds) = Some d"
  by (simp_all add: demo_workload_def has_specs_def strategies_of_def)

lemma demo_identifiable: "identifiable (demo_workload name sends ds)"
  by (simp add: identifiable_def traffic_of_def sidecarEnabledLabelKey_def marin3r_def)

lemma demo_sidecars: "sidecars_of (demo_workload name sends [demo_sidecar]) = [no_Marin3rSidecarSpec]"
  by (simp add: sidecars_of_def sidecar_specs_def demo_sidecar_def)

lemma demo_New:
  "Workload_New name_lib id (demo_workload ''main'' True [demo_sidecar]) (Some (demo_workload ''canary'' False [])) = Some (Inr demo_resources)"
proof -
  have "\<exists>ts. Workload_New name_lib id (demo_workload ''main'' True [demo_sidecar]) (Some (demo_workload ''canary'' False [])) = Some (Inr ts)"
    by (simp add: Workload_New_eq workload_spec_def workloads_def demo_sidecar_def lacks_sidecar_spec_def Let_def service_selector_def)
  then show ?thesis
    by (auto simp: demo_resources_def)
qed

section \<open>Properties\<close>



text \<open>
  Building the resources of a workload and its canary gives an error exactly when the strategies
  are in error or one of them is a Marin3r sidecar without its section, and panics exactly when a
  pointer to the specification of a budget or an autoscaler is nil, or there are services to route
  and a workload has no traffic selector.
\<close>

lemma Workload_New_outcome:
  "(Workload_New L iter main canary = None \<longleftrightarrow>
      (if list_all has_specs (workloads main canary) then
         (\<forall>e. w_PublishingStrategies main \<noteq> Some (Inl e)) \<and> \<not> list_ex lacks_sidecar_spec (strategies_of main) \<and>
         service_templates main (strategies_of main) \<noteq> [] \<and> list_ex (\<lambda>w. w_Canary w = None) (workloads main canary)
       else True)) \<and>
   (Workload_New L iter main canary = Some (Inl e) \<longleftrightarrow>
      list_all has_specs (workloads main canary) \<and>
      (w_PublishingStrategies main = Some (Inl e) \<or>
       (\<forall>e. w_PublishingStrategies main \<noteq> Some (Inl e)) \<and> list_ex lacks_sidecar_spec (strategies_of main) \<and> e = missing_sidecar_spec))"
proof -
  have "service_selector main canary = None \<longleftrightarrow> list_ex (\<lambda>w. w_Canary w = None) (workloads main canary)"
    by (cases "w_Canary main") (auto simp: service_selector_def workloads_def split: option.splits if_splits)
  then show ?thesis
    unfolding Workload_New_eq workload_spec_def by (auto simp: Let_def split: option.splits sum.splits)
qed

text \<open>
  With one Marin3r sidecar, the pods of the workload and of its canary are labelled for injection and
  name their Envoy node after the specification or, without one, after their own deployment, while
  the configuration is only published for the node of the workload. So a canary that takes its name
  from its deployment finds no configuration.
\<close>

lemma canary_sidecar_unconfigured:
  assumes "Workload_New L iter main (Some canary) = Some (Inr ts)" "sidecars_of main = [m3]" "keeps_node_id m3"
  shows "(\<forall>d. ODeployment d \<in> built ts \<longrightarrow>
      pod_labels d sidecarEnabledLabelKey = Some sidecarEnabledLabelValue \<and> node_id d = Some (named_node m3 (dep_Name d))) \<and>
    (\<forall>e. OEnvoyConfig e \<in> built ts \<longrightarrow> ec_NodeID e = named_node m3 (fst (w_Key main))) \<and>
    (m3_NodeID m3 = None \<and> fst (w_Key canary) \<noteq> fst (w_Key main) \<and> w_Deployment canary \<noteq> None \<longrightarrow>
      (\<exists>d. ODeployment d \<in> built ts \<and> dep_Name d = fst (w_Key canary) \<and>
        (\<forall>e. OEnvoyConfig e \<in> built ts \<longrightarrow> node_id d \<noteq> Some (ec_NodeID e))))"
proof -
  have d: "pod_labels d sidecarEnabledLabelKey = Some sidecarEnabledLabelValue \<and> node_id d = Some (named_node m3 (dep_Name d))"
    if d: "ODeployment d \<in> built ts" for d
  proof -
    obtain w d0 where w: "w \<in> set (workloads main (Some canary))" "d = deployment_of [m3] w d0"
      using d built_New(1) [OF assms(1)] assms(2) by auto
    then have "node_id d = Some (named_node m3 (dep_Name (base_deployment w d0)))"
      using node_id_sidecar [OF assms(3), of "base_deployment w d0"] by (simp add: deployment_of_def)
    then show ?thesis
      by (simp add: w pod_labels_deployment Let_def base_deployment_def)
  qed
  have e: "ec_NodeID e = named_node m3 (fst (w_Key main))" if "OEnvoyConfig e \<in> built ts" for e
    using built_New_EnvoyConfig [OF assms(1) that] assms(2) by simp
  have "\<exists>d. ODeployment d \<in> built ts \<and> dep_Name d = fst (w_Key canary)" if "w_Deployment canary \<noteq> None"
  proof -
    from that obtain d0 where "w_Deployment canary = Some d0" by auto
    then have "ODeployment (deployment_of [m3] canary d0) \<in> built ts"
      using assms(2) by (auto simp: built_New(1) [OF assms(1)] workloads_def)
    then show ?thesis
      by (intro exI [of _ "deployment_of [m3] canary d0"]) simp
  qed
  moreover have "node_id d \<noteq> Some (ec_NodeID x)"
    if "m3_NodeID m3 = None" "fst (w_Key canary) \<noteq> fst (w_Key main)" "ODeployment d \<in> built ts" "dep_Name d = fst (w_Key canary)"
      "OEnvoyConfig x \<in> built ts" for d x
    using d e that by (simp add: named_node_def)
  ultimately show ?thesis
    using d e by (intro conjI allI impI) blast+
qed

end
