(* ===== verification/PodEnvironment.thy ===== *)
theory PodEnvironment
  imports CommonTypes
begin

text \<open>
  The environment of a pod and the secrets it reads:
  \<^verbatim>\<open>internal/pkg/resource_builders/pod/environment.go\<close> and
  \<^verbatim>\<open>internal/pkg/resource_builders/externalsecret/resource.go\<close>.

  The list of options holds pointers that the chained methods of an option change in place; here a
  method is a function on options and an option enters the list in its final state. What is unpacked
  is a nil pointer, a value by its formatted text, or a reference to a secret. The source of a variable is
  a key of a secret, a field of the pod, with the version of its API, or another, which is opaque.
\<close>

section \<open>Options\<close>

datatype EnvVarSource = SecretKeyRef (skr_Key: string) (skr_Name: string) | FieldRef string string | OtherSource string

record Option =
  op_value :: "string option"
  op_valueFrom :: "EnvVarSource option"
  op_envVariable :: string
  op_secretName :: string
  op_seedKey :: string
  op_vaultKey :: string
  op_vaultPath :: string
  op_isSet :: bool
  op_isEmpty :: bool

type_synonym Options = "Option list"

definition new_option :: "string \<Rightarrow> Option" where
  "new_option e = \<lparr>op_value = None, op_valueFrom = None, op_envVariable = e, op_secretName = '''', op_seedKey = '''',
     op_vaultKey = '''', op_vaultPath = '''', op_isSet = False, op_isEmpty = False\<rparr>"

definition IntoEnvvar :: "string \<Rightarrow> Option \<Rightarrow> Option" where
  "IntoEnvvar e o1 = o1\<lparr>op_envVariable := e\<rparr>"

definition AsSecretRef :: "string \<Rightarrow> Option \<Rightarrow> Option" where
  "AsSecretRef s o1 = o1\<lparr>op_secretName := s\<rparr>"

definition WithSeedKey :: "string \<Rightarrow> Option \<Rightarrow> Option" where
  "WithSeedKey key o1 = o1\<lparr>op_seedKey := key\<rparr>"

definition EmptyIf :: "bool \<Rightarrow> Option \<Rightarrow> Option" where
  "EmptyIf cond o1 = (if cond then o1\<lparr>op_isEmpty := True\<rparr> else o1)"

datatype unpackable = NilPointer | Text string | Secret SecretReference

definition DefaultSeedSecret :: string where
  "DefaultSeedSecret = ''saas-seed''"

text \<open>The option as it stays in the list; the messages of the panics are dropped.\<close>

definition Unpack :: "unpackable \<Rightarrow> Option \<Rightarrow> Option option" where
  "Unpack v opt =
     (if op_isEmpty opt then Some (opt\<lparr>op_isSet := True, op_value := Some ''''\<rparr>)
      else case v of
        NilPointer \<Rightarrow> Some opt
      | Text s \<Rightarrow> Some (opt\<lparr>op_isSet := True, op_value := Some s\<rparr>)
      | Secret ref \<Rightarrow>
          if op_envVariable opt = '''' then None
          else
            let opt = opt\<lparr>op_isSet := True\<rparr> in
            (case sr_Override ref of
               Some s \<Rightarrow> Some (opt\<lparr>op_value := Some s\<rparr>)
             | None \<Rightarrow>
                 (case sr_FromVault ref of
                    Some (path, key) \<Rightarrow>
                      if op_secretName opt = '''' then None
                      else Some (opt\<lparr>op_vaultKey := key, op_vaultPath := path,
                                    op_valueFrom := Some (SecretKeyRef (op_envVariable opt) (op_secretName opt))\<rparr>)
                  | None \<Rightarrow>
                      (case sr_FromSeed ref of
                         Some _ \<Rightarrow>
                           if op_seedKey opt = '''' then None
                           else Some (opt\<lparr>op_valueFrom := Some (SecretKeyRef (op_seedKey opt) DefaultSeedSecret)\<rparr>)
                       | None \<Rightarrow> Some opt))))"

section \<open>Lists of options\<close>

text \<open>\<open>AddEnvvar\<close> appends a new option, which the rest of the statement configures and unpacks.\<close>

definition AddEnvvar :: "string \<Rightarrow> (Option \<Rightarrow> Option) \<Rightarrow> unpackable \<Rightarrow> Options \<Rightarrow> Options option" where
  "AddEnvvar e configure v options = map_option (\<lambda>o1. options @ [o1]) (Unpack v (configure (new_option e)))"

definition is_secret :: "Option \<Rightarrow> bool" where
  "is_secret o1 = (case op_valueFrom o1 of Some (SecretKeyRef _ _) \<Rightarrow> True | _ \<Rightarrow> False)"

definition FilterSecretOptions :: "Options \<Rightarrow> Options" where
  "FilterSecretOptions options = filter is_secret options"

definition FilterFromVaultOptions :: "Options \<Rightarrow> Options" where
  "FilterFromVaultOptions options = filter (\<lambda>o1. op_vaultKey o1 \<noteq> '''' \<and> op_vaultPath o1 \<noteq> '''') options"

definition ListSecretResourceNames :: "Options \<Rightarrow> string list" where
  "ListSecretResourceNames options =
     Uniq (map (\<lambda>o1. case op_valueFrom o1 of Some src \<Rightarrow> skr_Name src | None \<Rightarrow> '''') (FilterSecretOptions options))"

text \<open>A trigger is the name of the secret whose hash it adds to the pods.\<close>

definition GenerateRolloutTriggers :: "string list \<Rightarrow> Options \<Rightarrow> string list" where
  "GenerateRolloutTriggers additionalSecrets options = ListSecretResourceNames options @ additionalSecrets"

record EnvVar =
  env_Name :: string
  env_Value :: string
  env_ValueFrom :: "EnvVarSource option"

fun override_first :: "EnvVar \<Rightarrow> Options \<Rightarrow> Options option" where
  "override_first envvar [] = None"
| "override_first envvar (o1 # os) =
     (if op_envVariable o1 = env_Name envvar
      then Some (o1\<lparr>op_value := Some (env_Value envvar), op_valueFrom := env_ValueFrom envvar, op_isSet := True,
                    op_secretName := ''''\<rparr> # os)
      else map_option (\<lambda>os. o1 # os) (override_first envvar os))"

definition extra_option :: "EnvVar \<Rightarrow> Option" where
  "extra_option envvar = (new_option (env_Name envvar))
     \<lparr>op_value := (if env_Value envvar \<noteq> '''' then Some (env_Value envvar) else None),
      op_valueFrom := env_ValueFrom envvar, op_isSet := True\<rparr>"

fun WithExtraEnv :: "EnvVar list \<Rightarrow> Options \<Rightarrow> Options" where
  "WithExtraEnv [] out = out"
| "WithExtraEnv (envvar # extra) out =
     (case override_first envvar out of
        Some out \<Rightarrow> WithExtraEnv extra out
      | None \<Rightarrow> WithExtraEnv extra (out @ [extra_option envvar]))"

definition env_of :: "Option \<Rightarrow> EnvVar list" where
  "env_of opt =
     (if \<not> op_isSet opt then []
      else case op_value opt of
        Some v \<Rightarrow> [\<lparr>env_Name = op_envVariable opt, env_Value = v, env_ValueFrom = None\<rparr>]
      | None \<Rightarrow>
          (case op_valueFrom opt of
             Some src \<Rightarrow> [\<lparr>env_Name = op_envVariable opt, env_Value = '''', env_ValueFrom = Some src\<rparr>]
           | None \<Rightarrow> []))"

definition BuildEnvironment :: "Options \<Rightarrow> EnvVar list" where
  "BuildEnvironment opts = concat (map env_of opts)"

definition Options_Union :: "Options list \<Rightarrow> Options" where
  "Options_Union xss = UniqBy op_envVariable (concat xss)"

section \<open>External secrets\<close>

record ExternalSecretData =
  esd_SecretKey :: string
  esd_RemoteKey :: string
  esd_Property :: string

record ExternalSecretResource =
  esr_Name :: string
  esr_Namespace :: string
  esr_Labels :: "string \<rightharpoonup> string"
  esr_SecretStoreRef :: "string \<times> string"
  esr_TargetName :: string
  esr_RefreshInterval :: int
  esr_Data :: "ExternalSecretData list"

definition ExternalSecret_New ::
    "string \<Rightarrow> string \<Rightarrow> (string \<rightharpoonup> string) \<Rightarrow> string \<Rightarrow> string \<Rightarrow> int \<Rightarrow> ExternalSecretData list \<Rightarrow> ExternalSecretResource" where
  "ExternalSecret_New name namespace labels secretStoreName secretStoreKind refreshInterval data =
     \<lparr>esr_Name = name, esr_Namespace = namespace, esr_Labels = labels, esr_SecretStoreRef = (secretStoreName, secretStoreKind),
      esr_TargetName = name, esr_RefreshInterval = refreshInterval, esr_Data = data\<rparr>"

definition TrimPrefix :: "string \<Rightarrow> string \<Rightarrow> string" where
  "TrimPrefix s pre = (if take (length pre) s = pre then drop (length pre) s else s)"

definition secret_data :: "Option \<Rightarrow> ExternalSecretData" where
  "secret_data opt = \<lparr>esd_SecretKey = op_envVariable opt, esd_RemoteKey = TrimPrefix (op_vaultPath opt) ''secret/data/'',
     esd_Property = op_vaultKey opt\<rparr>"

definition GenerateExternalSecrets ::
    "string \<Rightarrow> (string \<rightharpoonup> string) \<Rightarrow> string \<Rightarrow> string \<Rightarrow> int \<Rightarrow> Options \<Rightarrow> ExternalSecretResource list" where
  "GenerateExternalSecrets namespace labels secretStoreName secretStoreKind refreshInterval opts =
     map (\<lambda>group. ExternalSecret_New (op_secretName (hd group)) namespace labels secretStoreName secretStoreKind refreshInterval
            (map secret_data group))
       (PartitionBy op_secretName (FilterFromVaultOptions opts))"

section \<open>The invariant of an option\<close>

text \<open>
  What an option built by these methods keeps: an option that is not set has no source, and one that
  reads a secret reads either the seed or the key of its own variable in its own secret, from Vault.
\<close>

definition option_ok :: "Option \<Rightarrow> bool" where
  "option_ok o1 \<longleftrightarrow>
     (case op_valueFrom o1 of
        None \<Rightarrow> op_vaultKey o1 = '''' \<and> op_vaultPath o1 = ''''
      | Some src \<Rightarrow>
          op_isSet o1 \<and> op_value o1 = None \<and>
          (src = SecretKeyRef (op_envVariable o1) (op_secretName o1) \<and> op_secretName o1 \<noteq> '''' \<or>
           src = SecretKeyRef (op_seedKey o1) DefaultSeedSecret \<and> op_vaultKey o1 = '''' \<and> op_vaultPath o1 = ''''))"

definition fresh :: "Option \<Rightarrow> bool" where
  "fresh o1 \<longleftrightarrow> op_value o1 = None \<and> op_valueFrom o1 = None \<and> op_vaultKey o1 = '''' \<and> op_vaultPath o1 = '''' \<and> \<not> op_isSet o1"

lemma fresh_new [simp]:
  "fresh (new_option e)" "fresh (AsSecretRef s o1) = fresh o1" "fresh (WithSeedKey k o1) = fresh o1" "fresh (EmptyIf b o1) = fresh o1"
  "fresh (IntoEnvvar e o1) = fresh o1"
  by (simp_all add: fresh_def new_option_def AsSecretRef_def WithSeedKey_def EmptyIf_def IntoEnvvar_def)

lemma Unpack_ok: "fresh opt \<Longrightarrow> Unpack v opt = Some o1 \<Longrightarrow> option_ok o1"
  by (auto simp: Unpack_def fresh_def option_ok_def Let_def split: if_splits unpackable.splits option.splits prod.splits)

lemma env_of_secret:
  assumes "env \<in> set (BuildEnvironment opts)" "env_ValueFrom env = Some src"
  obtains o1 where "o1 \<in> set opts" "op_valueFrom o1 = Some src" "op_envVariable o1 = env_Name env" "op_value o1 = None" "op_isSet o1"
  using assms by (auto simp: BuildEnvironment_def env_of_def split: if_splits option.splits)

lemma set_PartitionBy: "g \<in> set (PartitionBy f xs) \<longleftrightarrow> (\<exists>x\<in>set xs. g = filter (\<lambda>y. f y = f x) xs)"
  by (auto simp: PartitionBy_def)

lemma hd_filter: "x \<in> set xs \<Longrightarrow> P x \<Longrightarrow> P (hd (filter P xs))"
  by (induction xs) auto

lemma external_secret_of:
  assumes "o1 \<in> set opts" "op_vaultKey o1 \<noteq> ''''" "op_vaultPath o1 \<noteq> ''''"
  shows "\<exists>es\<in>set (GenerateExternalSecrets ns labels store kind refresh opts).
    esr_TargetName es = op_secretName o1 \<and> secret_data o1 \<in> set (esr_Data es)"
proof -
  let ?vault = "FilterFromVaultOptions opts"
  let ?group = "filter (\<lambda>y. op_secretName y = op_secretName o1) ?vault"
  have o1: "o1 \<in> set ?vault"
    using assms by (simp add: FilterFromVaultOptions_def)
  then have "?group \<in> set (PartitionBy op_secretName ?vault)"
    by (auto simp: set_PartitionBy)
  moreover have "op_secretName (hd ?group) = op_secretName o1"
    using hd_filter [OF o1, where P = "\<lambda>y. op_secretName y = op_secretName o1"] by simp
  ultimately show ?thesis
    using o1 by (auto simp: GenerateExternalSecrets_def ExternalSecret_New_def intro!: bexI [of _ ?group])
qed

lemma override_first_None_iff: "override_first e os = None \<longleftrightarrow> env_Name e \<notin> op_envVariable ` set os"
  by (induction os) auto

lemma env_of_name: "v \<in> set (env_of o1) \<Longrightarrow> env_Name v = op_envVariable o1"
  by (auto simp: env_of_def split: if_splits option.splits)

definition vars_named :: "string \<Rightarrow> EnvVar list \<Rightarrow> EnvVar list" where
  "vars_named n env = filter (\<lambda>v. env_Name v = n) env"

lemma vars_named_simps [simp]: "vars_named n [] = []" "vars_named n (a @ b) = vars_named n a @ vars_named n b"
  by (simp_all add: vars_named_def)

lemma vars_named_env_of: "vars_named n (env_of o1) = (if op_envVariable o1 = n then env_of o1 else [])"
  unfolding vars_named_def by (auto intro!: filter_True filter_False dest: env_of_name)

lemma vars_named_absent: "n \<notin> op_envVariable ` set os \<Longrightarrow> vars_named n (BuildEnvironment os) = []"
  by (induction os) (auto simp: BuildEnvironment_def vars_named_env_of)

lemma BuildEnvironment_append [simp]: "BuildEnvironment (a @ b) = BuildEnvironment a @ BuildEnvironment b"
  by (simp add: BuildEnvironment_def)

lemma override_first_env:
  "override_first e os = Some os' \<Longrightarrow> distinct (map op_envVariable os) \<Longrightarrow>
     vars_named n (BuildEnvironment os') =
       (if n = env_Name e then [\<lparr>env_Name = env_Name e, env_Value = env_Value e, env_ValueFrom = None\<rparr>]
        else vars_named n (BuildEnvironment os))"
proof (induction os arbitrary: os')
  case (Cons o1 os)
  show ?case
  proof (cases "op_envVariable o1 = env_Name e")
    case True
    then have "vars_named (env_Name e) (BuildEnvironment os) = []"
      using Cons.prems(2) by (intro vars_named_absent) auto
    with True Cons.prems show ?thesis
      by (auto simp: BuildEnvironment_def vars_named_env_of) (auto simp: env_of_def)
  next
    case False
    with Cons show ?thesis
      by (auto simp: BuildEnvironment_def vars_named_env_of)
  qed
qed simp

text \<open>
  Every secret that the environment of a component reads, other than the seed, is produced: for
  components whose options the methods of this package built, that read the same secret variable the
  same way and whose Vault references are complete, the external secrets of the union of their options
  have a secret of that name with that key, and a change of that secret rolls the component out.
\<close>

lemma secrets_generated:
  assumes "\<forall>o1\<in>set (concat xss). option_ok o1"
    and "\<forall>o1\<in>set (concat xss). \<forall>o2\<in>set (concat xss). op_valueFrom o1 \<noteq> None \<and> op_envVariable o1 = op_envVariable o2 \<longrightarrow> o1 = o2"
    and "\<forall>o1\<in>set (concat xss). op_valueFrom o1 = Some (SecretKeyRef (op_envVariable o1) (op_secretName o1)) \<longrightarrow>
      op_vaultKey o1 \<noteq> '''' \<and> op_vaultPath o1 \<noteq> ''''"
    and "opts \<in> set xss" "env \<in> set (BuildEnvironment opts)" "env_ValueFrom env = Some (SecretKeyRef key name)"
    and "name \<noteq> DefaultSeedSecret"
  shows "(\<exists>es\<in>set (GenerateExternalSecrets ns labels store kind refresh (Options_Union xss)).
      esr_TargetName es = name \<and> key \<in> esd_SecretKey ` set (esr_Data es)) \<and>
    name \<in> set (GenerateRolloutTriggers [] opts)"
proof -
  obtain o1 where o1: "o1 \<in> set opts" "op_valueFrom o1 = Some (SecretKeyRef key name)"
    using env_of_secret [OF assms(5,6)] by blast
  then have all: "o1 \<in> set (concat xss)"
    using assms(4) by auto
  have "option_ok o1"
    using assms(1) all by blast
  then have src: "key = op_envVariable o1" "name = op_secretName o1"
    using assms(7) o1(2) by (auto simp: option_ok_def)
  have vault: "op_vaultKey o1 \<noteq> ''''" "op_vaultPath o1 \<noteq> ''''"
    using assms(3) all o1(2) src by blast+
  have "op_envVariable o1 \<in> op_envVariable ` set (Options_Union xss)"
    unfolding Options_Union_def image_UniqBy using all by blast
  then obtain o2 where o2: "o2 \<in> set (Options_Union xss)" "op_envVariable o2 = op_envVariable o1"
    by auto
  then have "o2 = o1"
    using assms(2) all o1(2) UniqBy_subset [of op_envVariable "concat xss"] unfolding Options_Union_def by (metis option.distinct(1) subsetD)
  then obtain es where "es \<in> set (GenerateExternalSecrets ns labels store kind refresh (Options_Union xss))"
      "esr_TargetName es = name" "secret_data o1 \<in> set (esr_Data es)"
    using external_secret_of [OF o2(1)] vault src(2) by blast
  moreover have "esd_SecretKey (secret_data o1) = key"
    using src by (simp add: secret_data_def)
  moreover have "name \<in> set (GenerateRolloutTriggers [] opts)"
    using o1 by (force simp: GenerateRolloutTriggers_def ListSecretResourceNames_def FilterSecretOptions_def is_secret_def)
  ultimately show ?thesis
    by (metis imageI)
qed

text \<open>The secrets a component reads, and those that are produced, as pairs of a secret and a key.\<close>

definition reads_secret :: "Options \<Rightarrow> string \<Rightarrow> string \<Rightarrow> bool" where
  "reads_secret opts name key \<longleftrightarrow> (\<exists>env\<in>set (BuildEnvironment opts). env_ValueFrom env = Some (SecretKeyRef key name))"

definition secret_keys :: "ExternalSecretResource list \<Rightarrow> (string \<times> string) set" where
  "secret_keys ess = {(esr_TargetName es, esd_SecretKey d) | es d. es \<in> set ess \<and> d \<in> set (esr_Data es)}"

lemma secret_keys_from:
  assumes "(name, key) \<in> secret_keys (GenerateExternalSecrets ns labels store kind refresh opts)"
  obtains o1 where "o1 \<in> set opts" "op_vaultKey o1 \<noteq> ''''" "op_vaultPath o1 \<noteq> ''''" "op_secretName o1 = name" "op_envVariable o1 = key"
proof -
  let ?vault = "FilterFromVaultOptions opts"
  obtain g o1 where g: "g \<in> set (PartitionBy op_secretName ?vault)" "o1 \<in> set g" "name = op_secretName (hd g)" "key = op_envVariable o1"
    using assms by (auto simp: secret_keys_def GenerateExternalSecrets_def ExternalSecret_New_def secret_data_def)
  then obtain x where x: "x \<in> set ?vault" "g = filter (\<lambda>y. op_secretName y = op_secretName x) ?vault"
    by (auto simp: set_PartitionBy)
  then have "op_secretName (hd g) = op_secretName x"
    using hd_filter [OF x(1), where P = "\<lambda>y. op_secretName y = op_secretName x"] by simp
  with that g x show thesis
    by (auto simp: FilterFromVaultOptions_def)
qed

lemma vault_option_read:
  assumes "option_ok o1" "op_vaultKey o1 \<noteq> ''''" "o1 \<in> set opts"
  shows "reads_secret opts (op_secretName o1) (op_envVariable o1)"
proof -
  have "op_isSet o1" "op_value o1 = None" "op_valueFrom o1 = Some (SecretKeyRef (op_envVariable o1) (op_secretName o1))"
    using assms(1,2) by (auto simp: option_ok_def split: option.splits)
  then have "env_of o1 = [\<lparr>env_Name = op_envVariable o1, env_Value = '''', env_ValueFrom = Some (SecretKeyRef (op_envVariable o1) (op_secretName o1))\<rparr>]"
    by (simp add: env_of_def)
  then show ?thesis
    using assms(3) by (force simp: reads_secret_def BuildEnvironment_def)
qed

lemma secrets_exact:
  assumes ok: "\<forall>o1\<in>set (concat xss). option_ok o1 \<and> op_secretName o1 \<noteq> DefaultSeedSecret"
    and same: "\<forall>o1\<in>set (concat xss). \<forall>o2\<in>set (concat xss). op_valueFrom o1 \<noteq> None \<and> op_envVariable o1 = op_envVariable o2 \<longrightarrow> o1 = o2"
    and vault: "\<forall>o1\<in>set (concat xss). op_valueFrom o1 = Some (SecretKeyRef (op_envVariable o1) (op_secretName o1)) \<longrightarrow>
      op_vaultKey o1 \<noteq> '''' \<and> op_vaultPath o1 \<noteq> ''''"
  shows "secret_keys (GenerateExternalSecrets ns labels store kind refresh (Options_Union xss)) =
    {(name, key). name \<noteq> DefaultSeedSecret \<and> (\<exists>opts\<in>set xss. reads_secret opts name key)}"
proof (intro subset_antisym subsetI)
  fix p
  assume p: "p \<in> secret_keys (GenerateExternalSecrets ns labels store kind refresh (Options_Union xss))"
  obtain o1 where o1: "o1 \<in> set (Options_Union xss)" "op_vaultKey o1 \<noteq> ''''" "op_secretName o1 = fst p" "op_envVariable o1 = snd p"
    using secret_keys_from [of "fst p" "snd p"] p by (metis prod.collapse)
  then have "o1 \<in> set (concat xss)"
    using UniqBy_subset unfolding Options_Union_def by (metis subsetD)
  then obtain opts where "opts \<in> set xss" "o1 \<in> set opts" "option_ok o1" "op_secretName o1 \<noteq> DefaultSeedSecret"
    using ok by auto
  with o1 vault_option_read [of o1 opts] show "p \<in> {(name, key). name \<noteq> DefaultSeedSecret \<and> (\<exists>opts\<in>set xss. reads_secret opts name key)}"
    by (cases p) auto
next
  fix p
  assume "p \<in> {(name, key). name \<noteq> DefaultSeedSecret \<and> (\<exists>opts\<in>set xss. reads_secret opts name key)}"
  then obtain opts env where p: "fst p \<noteq> DefaultSeedSecret" "opts \<in> set xss" "env \<in> set (BuildEnvironment opts)"
      "env_ValueFrom env = Some (SecretKeyRef (snd p) (fst p))"
    by (auto simp: reads_secret_def)
  obtain es where "es \<in> set (GenerateExternalSecrets ns labels store kind refresh (Options_Union xss))"
      "esr_TargetName es = fst p" "snd p \<in> esd_SecretKey ` set (esr_Data es)"
    using secrets_generated [OF _ same vault p(2-4,1)] ok by blast
  then show "p \<in> secret_keys (GenerateExternalSecrets ns labels store kind refresh (Options_Union xss))"
    by (cases p) (auto simp: secret_keys_def)
qed

text \<open>A sequence of statements that each add a variable, by its name, its configuration and its value.\<close>

definition add_options :: "(string \<times> (Option \<Rightarrow> Option) \<times> unpackable) list \<Rightarrow> Options option" where
  "add_options rows = fold (\<lambda>(e, configure, v) os. os \<bind> AddEnvvar e configure v) rows (Some [])"

lemma fold_rows_None [simp]: "fold (\<lambda>(e, configure, v) os. os \<bind> AddEnvvar e configure v) rows None = None"
  by (induction rows) auto

lemma fold_rows:
  "fold (\<lambda>(e, configure, v) os. os \<bind> AddEnvvar e configure v) rows (Some opts) =
     map_option (\<lambda>os. opts @ os) (those (map (\<lambda>(e, configure, v). Unpack v (configure (new_option e))) rows))"
proof (induction rows arbitrary: opts)
  case (Cons r rows)
  obtain e c v where r: "r = (e, c, v)" by (cases r)
  show ?case
  proof (cases "Unpack v (c (new_option e))")
    case None
    then have "AddEnvvar e c v opts = None" by (simp add: AddEnvvar_def)
    with None show ?thesis by (simp add: r)
  next
    case (Some o1)
    then have "AddEnvvar e c v opts = Some (opts @ [o1])" by (simp add: AddEnvvar_def)
    with Some Cons.IH [of "opts @ [o1]"] show ?thesis
      by (simp add: r option.map_comp comp_def)
  qed
qed simp

lemma add_options_eq: "add_options rows = those (map (\<lambda>(e, configure, v). Unpack v (configure (new_option e))) rows)"
  by (simp add: add_options_def fold_rows option.map_ident)

lemma set_those: "those ys = Some xs \<Longrightarrow> set ys = Some ` set xs"
proof (induction ys arbitrary: xs)
  case (Cons y ys)
  then show ?case by (cases y) auto
qed simp

lemma those_total: "(\<forall>y\<in>set ys. y \<noteq> None) \<Longrightarrow> those ys \<noteq> None"
  by (induction ys) auto

lemma add_options_member:
  assumes "add_options rows = Some opts" "o1 \<in> set opts"
  obtains e configure v where "(e, configure, v) \<in> set rows" "Unpack v (configure (new_option e)) = Some o1"
proof -
  have "Some o1 \<in> set (map (\<lambda>(e, configure, v). Unpack v (configure (new_option e))) rows)"
    using assms set_those by (metis add_options_eq imageI)
  with that show thesis by auto
qed

lemma Unpack_names:
  assumes "Unpack v opt = Some o1"
  shows "op_envVariable o1 = op_envVariable opt" "op_secretName o1 = op_secretName opt"
  using assms by (auto simp: Unpack_def Let_def split: if_splits unpackable.splits option.splits prod.splits)

text \<open>References with a complete path when they name Vault.\<close>

definition complete_ref :: "SecretReference \<Rightarrow> bool" where
  "complete_ref r \<longleftrightarrow> (case sr_FromVault r of None \<Rightarrow> True | Some (path, key) \<Rightarrow> path \<noteq> '''' \<and> key \<noteq> '''')"

definition row_ok :: "string \<times> (Option \<Rightarrow> Option) \<times> unpackable \<Rightarrow> bool" where
  "row_ok = (\<lambda>(e, configure, v). fresh (configure (new_option e)) \<and> op_envVariable (configure (new_option e)) = e \<and>
     op_secretName (configure (new_option e)) \<noteq> DefaultSeedSecret \<and> (case v of Secret r \<Rightarrow> complete_ref r | _ \<Rightarrow> True))"

definition same_secrets :: "(string \<times> (Option \<Rightarrow> Option) \<times> unpackable) list \<Rightarrow> bool" where
  "same_secrets rows \<longleftrightarrow> (\<forall>(e, c, v)\<in>set rows. case v of Secret r \<Rightarrow> (\<forall>(e', c', v')\<in>set rows. e' = e \<longrightarrow> c' = c \<and> v' = Secret r) | _ \<Rightarrow> True)"

lemma Unpack_source:
  assumes "Unpack v opt = Some o1" "fresh opt" "op_valueFrom o1 \<noteq> None"
  obtains r where "v = Secret r"
    "op_valueFrom o1 = Some (SecretKeyRef (op_envVariable o1) (op_secretName o1)) \<Longrightarrow> op_secretName o1 \<noteq> DefaultSeedSecret \<Longrightarrow>
       sr_FromVault r = Some (op_vaultPath o1, op_vaultKey o1)"
  using assms
  by (cases v) (auto simp: Unpack_def fresh_def Let_def split: if_splits option.splits prod.splits)

text \<open>The same for components whose environments come from rows.\<close>

lemma rows_secrets_exact:
  assumes rows: "\<forall>r\<in>set (concat rss). row_ok r" and same: "same_secrets (concat rss)"
    and opts: "map add_options rss = map Some xss"
  shows "secret_keys (GenerateExternalSecrets ns labels store kind refresh (Options_Union xss)) =
    {(name, key). name \<noteq> DefaultSeedSecret \<and> (\<exists>opts\<in>set xss. reads_secret opts name key)}"
proof (rule secrets_exact)
  have row: "\<exists>e c v. (e, c, v) \<in> set (concat rss) \<and> Unpack v (c (new_option e)) = Some o1" if o1: "o1 \<in> set (concat xss)" for o1
  proof -
    obtain ys where "ys \<in> set xss" "o1 \<in> set ys"
      using o1 by auto
    moreover from this(1) have "Some ys \<in> set (map add_options rss)"
      unfolding opts by simp
    ultimately obtain rows where rs: "rows \<in> set rss" "add_options rows = Some ys" "o1 \<in> set ys"
      by auto
    obtain e c v where "(e, c, v) \<in> set rows" "Unpack v (c (new_option e)) = Some o1"
      by (rule add_options_member [OF rs(2,3)])
    with rs(1) show ?thesis
      by (intro exI conjI) auto
  qed
  show "\<forall>o1\<in>set (concat xss). option_ok o1 \<and> op_secretName o1 \<noteq> DefaultSeedSecret"
    using row rows Unpack_ok Unpack_names(2) by (fastforce simp: row_ok_def)
  show "\<forall>o1\<in>set (concat xss). \<forall>o2\<in>set (concat xss). op_valueFrom o1 \<noteq> None \<and> op_envVariable o1 = op_envVariable o2 \<longrightarrow> o1 = o2"
  proof (intro ballI impI, elim conjE)
    fix o1 o2
    assume o: "o1 \<in> set (concat xss)" "o2 \<in> set (concat xss)" "op_valueFrom o1 \<noteq> None" "op_envVariable o1 = op_envVariable o2"
    obtain e c v where r1: "(e, c, v) \<in> set (concat rss)" "Unpack v (c (new_option e)) = Some o1" using row [OF o(1)] by blast
    obtain e' c' v' where r2: "(e', c', v') \<in> set (concat rss)" "Unpack v' (c' (new_option e')) = Some o2" using row [OF o(2)] by blast
    have "e' = e"
      using bspec [OF rows r1(1)] bspec [OF rows r2(1)] Unpack_names(1) [OF r1(2)] Unpack_names(1) [OF r2(2)] o(4) by (simp add: row_ok_def)
    have fresh: "fresh (c (new_option e))"
      using bspec [OF rows r1(1)] by (simp add: row_ok_def)
    obtain r where "v = Secret r"
      by (rule Unpack_source [OF r1(2) fresh o(3)])
    with \<open>e' = e\<close> have "c' = c \<and> v' = v"
      using bspec [OF same [unfolded same_secrets_def] r1(1)] r2(1) by auto
    with r1(2) r2(2) \<open>e' = e\<close> show "o1 = o2" by simp
  qed
  show "\<forall>o1\<in>set (concat xss). op_valueFrom o1 = Some (SecretKeyRef (op_envVariable o1) (op_secretName o1)) \<longrightarrow>
      op_vaultKey o1 \<noteq> '''' \<and> op_vaultPath o1 \<noteq> ''''"
  proof (intro ballI impI)
    fix o1
    assume o: "o1 \<in> set (concat xss)" "op_valueFrom o1 = Some (SecretKeyRef (op_envVariable o1) (op_secretName o1))"
    obtain e c v where r1: "(e, c, v) \<in> set (concat rss)" "Unpack v (c (new_option e)) = Some o1" using row [OF o(1)] by blast
    note ok = bspec [OF rows r1(1), unfolded row_ok_def, simplified]
    have "op_secretName o1 \<noteq> DefaultSeedSecret"
      using ok Unpack_names(2) [OF r1(2)] by simp
    moreover have "fresh (c (new_option e))" "op_valueFrom o1 \<noteq> None"
      using ok o(2) by simp_all
    ultimately obtain r where "v = Secret r" "sr_FromVault r = Some (op_vaultPath o1, op_vaultKey o1)"
      using Unpack_source [OF r1(2)] o(2) by metis
    then show "op_vaultKey o1 \<noteq> '''' \<and> op_vaultPath o1 \<noteq> ''''"
      using ok by (simp add: complete_ref_def)
  qed
qed

lemma reads_rolls_out: "reads_secret opts name key \<Longrightarrow> name \<in> set (GenerateRolloutTriggers [] opts)"
  unfolding reads_secret_def
  by (force elim!: env_of_secret simp: GenerateRolloutTriggers_def ListSecretResourceNames_def FilterSecretOptions_def is_secret_def)

section \<open>Properties\<close>

text \<open>
  An extra variable changes no other variable. For a name that the options do not have it is added
  with its value or, without one, with its source; for a name that they have, the variable becomes its
  literal value even when the extra variable has a source and no value, so the source is lost and the
  variable is the empty string.
\<close>

lemma WithExtraEnv_loses_source:
  assumes "distinct (map op_envVariable opts)"
  shows "vars_named n (BuildEnvironment (WithExtraEnv [e] opts)) =
    (if n \<noteq> env_Name e then vars_named n (BuildEnvironment opts)
     else if n \<in> op_envVariable ` set opts then [\<lparr>env_Name = n, env_Value = env_Value e, env_ValueFrom = None\<rparr>]
     else if env_Value e \<noteq> '''' then [\<lparr>env_Name = n, env_Value = env_Value e, env_ValueFrom = None\<rparr>]
     else (case env_ValueFrom e of None \<Rightarrow> [] | Some src \<Rightarrow> [\<lparr>env_Name = n, env_Value = '''', env_ValueFrom = Some src\<rparr>]))"
proof (cases "override_first e opts")
  case None
  then have "env_Name e \<notin> op_envVariable ` set opts"
    by (simp add: override_first_None_iff)
  with None vars_named_absent [OF this] show ?thesis
    by (auto simp: BuildEnvironment_def [of "[_]"] vars_named_env_of)
       (auto simp: extra_option_def new_option_def env_of_def split: option.splits)
next
  case (Some os)
  then have "env_Name e \<in> op_envVariable ` set opts"
    using override_first_None_iff [of e opts] by auto
  with override_first_env [OF Some assms, of n] Some show ?thesis by simp
qed

end
