(* ===== verification/Generators.thy ===== *)
theory Generators
  imports Workload PodEnvironment
begin

text \<open>
  What the generators of the applications share: the options of a generator
  (\<^verbatim>\<open>internal/pkg/generators/base_options.go\<close>), the parts of a pod
  (\<^verbatim>\<open>internal/pkg/resource_builders/pod/util.go\<close>) and the default publishing strategies of the
  applications (\<^verbatim>\<open>internal/pkg/generators/*/config/\<close>).

  The node affinity and the tolerations are data of Kubernetes that the operator only copies.
\<close>

type_synonym HPASpec = "string HorizontalPodAutoscalerSpec"
type_synonym PDBSpec = "IntOrString PodDisruptionBudgetSpec"

section \<open>Base options\<close>

record BaseOptionsV2 =
  bo_Component :: string
  bo_InstanceName :: string
  bo_Namespace :: string
  bo_Labels :: labels

definition PodSelectorKey :: string where
  "PodSelectorKey = ''deployment''"

definition GetLabels :: "BaseOptionsV2 \<Rightarrow> labels" where
  "GetLabels bo = mergeMaps Map.empty [bo_Labels bo]"

definition GetKey :: "BaseOptionsV2 \<Rightarrow> key" where
  "GetKey bo = (bo_Component bo, bo_Namespace bo)"

definition GetSelector :: "BaseOptionsV2 \<Rightarrow> labels" where
  "GetSelector bo = [PodSelectorKey \<mapsto> bo_Component bo]"

definition traffic_key :: string where
  "traffic_key = ''saas.3scale.net'' @ ''/traffic''"

text \<open>A dashboard is whether it is enabled, its name and namespace, its labels and the name of its template.\<close>

definition dashboard_of :: "BaseOptionsV2 \<Rightarrow> string \<Rightarrow> GrafanaDashboardSpec \<Rightarrow> string \<Rightarrow> bool \<times> key \<times> labels \<times> string" where
  "dashboard_of base name cfg asset =
     (\<not> GrafanaDashboardSpec_IsDeactivated cfg, (name, bo_Namespace base),
      (case (gd_SelectorKey cfg, gd_SelectorValue cfg) of
         (Some k, Some v) \<Rightarrow> (GetLabels base)(k \<mapsto> v)
       | _ \<Rightarrow> GetLabels base), asset)"

text \<open>The external secrets of some options.\<close>

definition external_secrets_of :: "BaseOptionsV2 \<Rightarrow> ExternalSecret \<Rightarrow> Options \<Rightarrow> ExternalSecretResource list option" where
  "external_secrets_of base es opts =
     do { store \<leftarrow> es_SecretStoreRef es;
          name \<leftarrow> ss_Name store;
          kind \<leftarrow> ss_Kind store;
          refresh \<leftarrow> es_RefreshInterval es;
          Some (GenerateExternalSecrets (snd (GetKey base)) (GetLabels base) name kind refresh opts) }"

section \<open>Parts of a pod\<close>

datatype ProbeHandler =
    HTTPGet string IntOrString string "(string \<times> string) list"
  | TCPSocket IntOrString
  | Exec "string list"

record Probe =
  pb_Handler :: ProbeHandler
  pb_InitialDelaySeconds :: int
  pb_TimeoutSeconds :: int
  pb_PeriodSeconds :: int
  pb_SuccessThreshold :: int
  pb_FailureThreshold :: int

text \<open>No probe when it is deactivated; a nil pointer in a probe that is not panics.\<close>

definition probe_of :: "ProbeHandler \<Rightarrow> ProbeSpec \<Rightarrow> Probe option option" where
  "probe_of handler cfg =
     (if ProbeSpec_IsDeactivated cfg then Some None
      else do { delay \<leftarrow> pr_InitialDelaySeconds cfg;
                timeout \<leftarrow> pr_TimeoutSeconds cfg;
                period \<leftarrow> pr_PeriodSeconds cfg;
                success \<leftarrow> pr_SuccessThreshold cfg;
                failure \<leftarrow> pr_FailureThreshold cfg;
                Some (Some \<lparr>pb_Handler = handler, pb_InitialDelaySeconds = delay, pb_TimeoutSeconds = timeout,
                  pb_PeriodSeconds = period, pb_SuccessThreshold = success, pb_FailureThreshold = failure\<rparr>) })"

definition HTTPProbe :: "string \<Rightarrow> IntOrString \<Rightarrow> string \<Rightarrow> ProbeSpec \<Rightarrow> Probe option option" where
  "HTTPProbe path port scheme cfg = probe_of (HTTPGet path port scheme []) cfg"

definition HTTPProbeWithHeaders ::
    "string \<Rightarrow> IntOrString \<Rightarrow> string \<Rightarrow> ProbeSpec \<Rightarrow> (string \<times> string) list \<Rightarrow> Probe option option" where
  "HTTPProbeWithHeaders path port scheme cfg headers =
     map_option (map_option (\<lambda>probe. case pb_Handler probe of
         HTTPGet p port s hs \<Rightarrow> probe\<lparr>pb_Handler := HTTPGet p port s (hs @ headers)\<rparr>
       | _ \<Rightarrow> probe)) (HTTPProbe path port scheme cfg)"

definition TCPProbe :: "IntOrString \<Rightarrow> ProbeSpec \<Rightarrow> Probe option option" where
  "TCPProbe port cfg = probe_of (TCPSocket port) cfg"

definition ExecProbe :: "string \<Rightarrow> ProbeSpec \<Rightarrow> Probe option option" where
  "ExecProbe command cfg = probe_of (Exec (split_on (CHR '' '') command)) cfg"

record Affinity =
  af_NodeAffinity :: "string option"
  af_PodAntiAffinity :: "(int \<times> string \<times> labels) list"

definition Affinity :: "labels \<Rightarrow> string option \<Rightarrow> Affinity" where
  "Affinity podAntiAffinitySelector nodeAffinity =
     \<lparr>af_NodeAffinity = nodeAffinity,
      af_PodAntiAffinity = [(100, ''kubernetes.io/hostname'', podAntiAffinitySelector),
        (99, ''topology.kubernetes.io/zone'', podAntiAffinitySelector)]\<rparr>"

definition Image :: "ImageSpec \<Rightarrow> string option" where
  "Image img = do { name \<leftarrow> img_Name img; tag \<leftarrow> img_Tag img; Some (name @ '':'' @ tag) }"

definition ImagePullSecrets :: "string option \<Rightarrow> string list" where
  "ImagePullSecrets ips = (case ips of Some s \<Rightarrow> [s] | None \<Rightarrow> [])"

definition ptr_text :: "string option \<Rightarrow> unpackable" where
  "ptr_text v = (case v of None \<Rightarrow> NilPointer | Some s \<Rightarrow> Text s)"

definition ptr_int :: "int option \<Rightarrow> unpackable" where
  "ptr_int v = (case v of None \<Rightarrow> NilPointer | Some i \<Rightarrow> Text (itoa i))"

definition ptr_bool :: "bool option \<Rightarrow> unpackable" where
  "ptr_bool v = (case v of None \<Rightarrow> NilPointer | Some b \<Rightarrow> Text (if b then ''true'' else ''false''))"

definition ptr_secret :: "SecretReference option \<Rightarrow> unpackable" where
  "ptr_secret v = (case v of None \<Rightarrow> NilPointer | Some r \<Rightarrow> Secret r)"

definition secret_ref :: "string \<Rightarrow> string \<Rightarrow> Option \<Rightarrow> Option" where
  "secret_ref secret seed o1 = WithSeedKey seed (AsSecretRef secret o1)"

type_synonym rows = "(string \<times> (Option \<Rightarrow> Option) \<times> unpackable) list"

text \<open>A volume is mounted by its name at a path, possibly read only.\<close>

record AppContainer =
  ac_Name :: string
  ac_Image :: string
  ac_Command :: "string list"
  ac_Args :: "string list"
  ac_Ports :: "(string \<times> int) list"
  ac_Env :: "EnvVar list"
  ac_Resources :: Resources
  ac_LivenessProbe :: "Probe option"
  ac_ReadinessProbe :: "Probe option"
  ac_ImagePullPolicy :: string
  ac_PreStop :: "string list"
  ac_VolumeMounts :: "(string \<times> string \<times> bool) list"

definition plain_container :: "string \<Rightarrow> string \<Rightarrow> string list \<Rightarrow> (string \<times> int) list \<Rightarrow> EnvVar list \<Rightarrow> Resources \<Rightarrow> string \<Rightarrow> AppContainer" where
  "plain_container name img args ports env resources pullPolicy =
     \<lparr>ac_Name = name, ac_Image = img, ac_Command = [], ac_Args = args, ac_Ports = ports, ac_Env = env, ac_Resources = resources,
      ac_LivenessProbe = None, ac_ReadinessProbe = None, ac_ImagePullPolicy = pullPolicy, ac_PreStop = [], ac_VolumeMounts = []\<rparr>"

text \<open>A volume with the files of a config map or of a secret, with their mode, or an empty one, of a medium.\<close>

datatype Volume = ConfigMapVolume string string int | SecretVolume string string int | EmptyDirVolume string string

record PodSpec =
  pod_ImagePullSecrets :: "string list"
  pod_InitContainers :: "AppContainer list"
  pod_Containers :: "AppContainer list"
  pod_Affinity :: "Affinity option"
  pod_Tolerations :: "string list"
  pod_TerminationGracePeriodSeconds :: "int option"
  pod_Volumes :: "Volume list"

record DeploymentSpec =
  dsp_Replicas :: "int option"
  dsp_Strategy :: "IntOrString DeploymentStrategySpec"
  dsp_Pod :: PodSpec

definition deployment_with :: "int option \<Rightarrow> IntOrString DeploymentStrategySpec \<Rightarrow> PodSpec \<Rightarrow> DeploymentSpec Deployment" where
  "deployment_with replicas strategy p =
     \<lparr>dep_Name = '''', dep_Namespace = '''', dep_Labels = Map.empty, dep_Selector = Map.empty, dep_PodLabels = None,
      dep_PodAnnotations = None, dep_Spec = \<lparr>dsp_Replicas = replicas, dsp_Strategy = strategy, dsp_Pod = p\<rparr>\<rparr>"

definition rolling_deployment ::
    "int option \<Rightarrow> string list \<Rightarrow> AppContainer list \<Rightarrow> Affinity \<Rightarrow> string list \<Rightarrow> DeploymentSpec Deployment" where
  "rolling_deployment replicas pullSecrets containers affinity tolerations =
     deployment_with replicas
       \<lparr>ds_Type = ''RollingUpdate'', ds_RollingUpdate = Some (Some (FromInt 1), Some (FromInt 0))\<rparr>
       \<lparr>pod_ImagePullSecrets = pullSecrets, pod_InitContainers = [], pod_Containers = containers, pod_Affinity = Some affinity,
        pod_Tolerations = tolerations, pod_TerminationGracePeriodSeconds = Some 30, pod_Volumes = []\<rparr>"

text \<open>A volume claim is its name, the size of the storage and its class.\<close>

record AppStatefulSet =
  sss_Name :: string
  sss_Namespace :: string
  sss_Labels :: labels
  sss_Replicas :: int
  sss_Selector :: labels
  sss_PodManagementPolicy :: string
  sss_PodLabels :: "labels option"
  sss_Pod :: PodSpec
  sss_VolumeClaims :: "(string \<times> string \<times> string option) list"

definition app_statefulset :: "BaseOptionsV2 \<Rightarrow> string \<Rightarrow> PodSpec \<Rightarrow> (string \<times> string \<times> string option) list \<Rightarrow> AppStatefulSet" where
  "app_statefulset base policy p claims =
     \<lparr>sss_Name = bo_Component base, sss_Namespace = bo_Namespace base, sss_Labels = GetLabels base, sss_Replicas = 1,
      sss_Selector = GetSelector base, sss_PodManagementPolicy = policy,
      sss_PodLabels = Some (mergeMaps Map.empty [GetLabels base, GetSelector base]), sss_Pod = p, sss_VolumeClaims = claims\<rparr>"

section \<open>Default publishing strategies\<close>

definition simple_default :: "string \<Rightarrow> ServicePort list \<Rightarrow> ServiceDescriptor" where
  "simple_default endpoint ports =
     \<lparr>sd_PortDefinitions = ports,
      sd_PublishingStrategy = \<lparr>ps_Strategy = SimpleStrategy, ps_EndpointName = endpoint,
        ps_Simple = Some \<lparr>si_ServiceType = Some ServiceTypeClusterIP, si_ExternalDnsHostnames = [], si_ServiceNameOverride = None,
          si_ServicePortsOverride = [], si_ElasticLoadBalancerConfig = None, si_NetworkLoadBalancerConfig = None\<rparr>,
        ps_Marin3rSidecar = None, ps_Create = None\<rparr>\<rparr>"

definition apicast_DefaultPublishingStrategy :: "ServiceDescriptor list" where
  "apicast_DefaultPublishingStrategy =
     [simple_default ''Gateway'' [TCPPort ''gateway'' 80 (FromString ''gateway'')],
      simple_default ''Management'' [TCPPort ''management'' 8090 (FromString ''management'')]]"

definition backend_DefaultListenerPublishingStrategy :: "ServiceDescriptor list" where
  "backend_DefaultListenerPublishingStrategy = [simple_default ''HTTP'' [TCPPort ''http'' 80 (FromString ''http'')]]"

definition autossl_DefaultPublishingStrategy :: "ServiceDescriptor list" where
  "autossl_DefaultPublishingStrategy =
     [simple_default ''Proxy'' [TCPPort ''http'' 80 (FromString ''http''), TCPPort ''https'' 443 (FromString ''https'')]]"

definition corsproxy_DefaultPublishingStrategy :: "ServiceDescriptor list" where
  "corsproxy_DefaultPublishingStrategy = [simple_default ''HTTP'' [TCPPort ''http'' 80 (FromString ''http'')]]"

definition echoapi_DefaultPublishingStrategy :: "ServiceDescriptor list" where
  "echoapi_DefaultPublishingStrategy = [simple_default ''HTTP'' [TCPPort ''http'' 80 (FromString ''http'')]]"

definition mappingservice_DefaultPublishingStrategy :: "ServiceDescriptor list" where
  "mappingservice_DefaultPublishingStrategy =
     [simple_default ''HTTP'' [TCPPort ''mapping'' 80 (FromString ''mapping''), TCPPort ''management'' 8090 (FromString ''management'')]]"

definition system_DefaultAppPublishingStrategy :: "ServiceDescriptor list" where
  "system_DefaultAppPublishingStrategy = [simple_default ''HTTP'' [TCPPort ''http'' 3000 (FromString ''ui-api'')]]"

definition zync_DefaultApiPublishingStrategy :: "ServiceDescriptor list" where
  "zync_DefaultApiPublishingStrategy = [simple_default ''HTTP'' [TCPPort ''http'' 8080 (FromString ''http'')]]"

section \<open>Lemmas on the shared parts\<close>

lemma HTTPProbeWithHeaders_eq: "HTTPProbeWithHeaders path port scheme cfg headers = probe_of (HTTPGet path port scheme headers) cfg"
  by (simp add: HTTPProbeWithHeaders_def HTTPProbe_def probe_of_def map_option_bind comp_def)

lemma keys_differ [simp]: "traffic_key \<noteq> PodSelectorKey" "sidecarEnabledLabelKey \<noteq> traffic_key" "sidecarEnabledLabelKey \<noteq> PodSelectorKey"
  "PodSelectorKey \<noteq> traffic_key" "traffic_key \<noteq> sidecarEnabledLabelKey" "PodSelectorKey \<noteq> sidecarEnabledLabelKey"
  by (simp_all add: traffic_key_def PodSelectorKey_def sidecarEnabledLabelKey_def marin3r_def)

lemma probe_initialized:
  assumes "pr_InitialDelaySeconds d \<noteq> None" "pr_TimeoutSeconds d \<noteq> None" "pr_PeriodSeconds d \<noteq> None"
    "pr_SuccessThreshold d \<noteq> None" "pr_FailureThreshold d \<noteq> None"
  shows "probe_of h (InitializeProbeSpec spec d) \<noteq> None"
proof -
  have set: "probe_of h (ProbeSpec_Default d s) \<noteq> None" for s
    using assms by (simp add: probe_of_def ProbeSpec_Default_def bind_eq_None_conv del: not_None_eq)
  have "probe_of h s \<noteq> None" if "ProbeSpec_IsDeactivated s" for s
    using that by (simp add: probe_of_def)
  with set show ?thesis
    by (simp add: InitializeProbeSpec_def split: option.split del: not_None_eq)
qed

lemma simple_default_service:
  "ServiceDescriptor_Service pre suf (simple_default ep ports) =
     Some (\<lparr>sv_Name = pre @ ''-'' @ ToLower ep @ ''-'' @ suf, sv_Namespace = '''', sv_Labels = Map.empty, sv_Annotations = Map.empty,
        sv_Type = ''ClusterIP'', sv_Ports = ports, sv_Selector = Map.empty\<rparr>, simple_default ep ports)"
  by (simp add: ServiceDescriptor_Service_def simple_default_def simple_service_def service_options_def Let_def)

definition simple_defaults :: "(string \<times> ServicePort list) list \<Rightarrow> ServiceDescriptor list" where
  "simple_defaults eps = map (\<lambda>(ep, ports). simple_default ep ports) eps"

lemma simple_defaults_simps:
  "sidecar_specs (simple_defaults eps) = []" "\<not> list_ex lacks_sidecar_spec (simple_defaults eps)"
  "service_templates w (simple_defaults eps) = map (\<lambda>(ep, ports). service_template w ''svc'' (simple_default ep ports)) eps"
  by (induction eps)
     (auto simp: simple_defaults_def sidecar_specs_def lacks_sidecar_spec_def service_templates_def simple_default_def SimpleStrategy_def
       Marin3rSidecarStrategy_def)

lemma default_strategies:
  "MergeWithDefaultPublishingStrategy (simple_defaults eps) (Some (InitializePublishingStrategies None)) = Inr (simple_defaults eps)"
proof -
  have "map cleanup (simple_defaults eps) = simple_defaults eps"
    by (induction eps) (auto simp: simple_defaults_def cleanup_def simple_default_def)
  then show ?thesis
    by (simp add: MergeWithDefaultPublishingStrategy_def InitializePublishingStrategies_def PublishingStrategies_Default_def Let_def
        PublishingStrategiesReconcileModeMerge_def PublishingStrategiesReconcileModeReplace_def)
qed

text \<open>With the default strategies, a workload whose deployment is built has all its resources, its services included.\<close>

lemma default_New:
  assumes all: "\<forall>w\<in>set (workloads main canary). has_specs w \<and> w_Deployment w \<noteq> None"
    and ps: "\<forall>e. w_PublishingStrategies main \<noteq> Some (Inl e)" "strategies_of main = simple_defaults eps"
    and sel: "eps = [] \<or> service_selector main canary \<noteq> None"
  obtains ts where "Workload_New L iter main canary = Some (Inr ts)" "\<forall>t\<in>set ts. \<exists>o1. tp_Build t = Some (Inr o1)"
    "sv_Name ` {s. OService s \<in> built ts} = (\<lambda>(ep, _). fst (w_Key main) @ ''-'' @ ToLower ep @ ''-svc'') ` set eps"
proof -
  let ?own = "concat (map (own_resources []) (workloads main canary))"
  define routed where "routed = (if eps = [] then [] else routed_services main (the (service_selector main canary)))"
  have none: "sidecars_of main = []" "\<not> list_ex lacks_sidecar_spec (strategies_of main)"
    by (simp_all add: sidecars_of_def ps(2) simple_defaults_simps)
  have "list_all has_specs (workloads main canary)"
    using all by (simp add: list_all_iff)
  then have New: "Workload_New L iter main canary = Some (Inr (?own @ routed))"
    using ps none sel
    by (auto simp: Workload_New_eq workload_spec_def Let_def routed_def simple_defaults_simps split: option.splits sum.splits)
  have own: "\<exists>o1. tp_Build t = Some (Inr o1)" if w: "w \<in> set (workloads main canary)" "t \<in> set (own_resources [] w)" for w t
    using bspec [OF all w(1)] w(2) by (auto simp: has_specs_def own_resources_def resources_of_def Let_def)
  have routed: "\<forall>t\<in>set routed. \<exists>s. tp_Build t = Some (Inr (OService s))"
    "sv_Name ` {s. OService s \<in> built routed} = (\<lambda>(ep, _). fst (w_Key main) @ ''-'' @ ToLower ep @ ''-svc'') ` set eps"
  proof -
    have "(\<forall>t\<in>set ts. \<exists>s. tp_Build t = Some (Inr (OService s))) \<and>
        sv_Name ` {s. OService s \<in> built ts} = (\<lambda>(ep, _). fst (w_Key main) @ ''-'' @ ToLower ep @ ''-svc'') ` set eps'"
      if "ts = map (tp_Apply (trafficSelectorToService x \<circ> meta main)) (service_templates main (simple_defaults eps'))" for ts x eps'
      using that
      by (induction eps' arbitrary: ts)
         (auto simp: simple_defaults_simps service_template_def NewTemplate_def simple_default_service Collect_disj_eq)
    then show "\<forall>t\<in>set routed. \<exists>s. tp_Build t = Some (Inr (OService s))"
      "sv_Name ` {s. OService s \<in> built routed} = (\<lambda>(ep, _). fst (w_Key main) @ ''-'' @ ToLower ep @ ''-svc'') ` set eps"
      by (auto simp: routed_def routed_services_def ps(2))
  qed
  have "OService s \<notin> built ?own" for s
    using built_own(5) all by (auto simp: built_def)
  then have "{s. OService s \<in> built (?own @ routed)} = {s. OService s \<in> built routed}"
    by simp
  moreover have "\<forall>t\<in>set (?own @ routed). \<exists>o1. tp_Build t = Some (Inr o1)"
    using own routed(1) by auto
  ultimately show thesis
    using that [OF New] routed(2) by metis
qed

text \<open>What the defaults give, and the rows of an environment.\<close>

lemma image_of_default:
  assumes "img_Name d \<noteq> None" "img_Tag d \<noteq> None" "img_PullPolicy d \<noteq> None"
  shows "Image (InitializeImageSpec s d) \<noteq> None" "img_PullPolicy (InitializeImageSpec s d) \<noteq> None"
  using assms
  by (cases s; simp add: InitializeImageSpec_def ImageSpec_Default_def Image_def orDefault_def bind_eq_None_conv del: not_None_eq)+

lemma Text_total: "Unpack (Text s) opt \<noteq> None" "Unpack NilPointer opt \<noteq> None" "Unpack (ptr_text v) opt \<noteq> None" "Unpack (ptr_int i) opt \<noteq> None"
  by (simp_all add: Unpack_def ptr_text_def ptr_int_def split: option.splits)

lemma add_options_None: "add_options rows = None \<longleftrightarrow> (\<exists>(e, configure, v)\<in>set rows. Unpack v (configure (new_option e)) = None)"
proof -
  have "those ys = None \<longleftrightarrow> None \<in> set ys" for ys :: "Option option list"
    by (induction ys) (auto split: option.splits)
  then show ?thesis
    by (force simp: add_options_eq)
qed

lemma secret_ref_simps [simp]:
  "fresh (secret_ref s k o1) = fresh o1" "op_envVariable (secret_ref s k o1) = op_envVariable o1" "op_secretName (secret_ref s k o1) = s"
  by (simp_all add: secret_ref_def WithSeedKey_def AsSecretRef_def fresh_def)

lemma new_option_simps [simp]: "op_envVariable (new_option e) = e" "op_secretName (new_option e) = ''''"
  by (simp_all add: new_option_def)

lemma row_ok_simps:
  "row_ok (e, id, Text s)" "row_ok (e, id, ptr_text t)" "row_ok (e, id, ptr_int i)" "row_ok (e, id, ptr_bool b)"
  "s \<noteq> DefaultSeedSecret \<Longrightarrow> complete_ref r \<Longrightarrow> row_ok (e, secret_ref s k, Secret r)"
  "s \<noteq> DefaultSeedSecret \<Longrightarrow> \<forall>r\<in>set_option o1. complete_ref r \<Longrightarrow> row_ok (e, secret_ref s k, ptr_secret o1)"
  by (simp_all add: row_ok_def DefaultSeedSecret_def ptr_text_def ptr_int_def ptr_bool_def ptr_secret_def split: option.split)

lemma Secret_total:
  assumes "e \<noteq> ''''" "s \<noteq> ''''" "k \<noteq> ''''"
  shows "Unpack (Secret r) (secret_ref s k (new_option e)) \<noteq> None" "Unpack (ptr_secret o1) (secret_ref s k (new_option e)) \<noteq> None"
  using assms
  by (simp_all add: Unpack_def secret_ref_def WithSeedKey_def AsSecretRef_def new_option_def ptr_secret_def Let_def
      split: option.split prod.split del: not_None_eq)

lemma bool_total: "Unpack (ptr_bool b) opt \<noteq> None"
  by (simp add: Unpack_def ptr_bool_def split: option.split)

lemma lower_http: "ToLower ''HTTP'' = ''http''"
  by code_simp

text \<open>A complete set of defaults.\<close>

definition complete_probe :: "ProbeSpec \<Rightarrow> bool" where
  "complete_probe d \<longleftrightarrow> pr_InitialDelaySeconds d \<noteq> None \<and> pr_TimeoutSeconds d \<noteq> None \<and> pr_PeriodSeconds d \<noteq> None \<and>
     pr_SuccessThreshold d \<noteq> None \<and> pr_FailureThreshold d \<noteq> None"

definition complete_image :: "ImageSpec \<Rightarrow> bool" where
  "complete_image d \<longleftrightarrow> img_Name d \<noteq> None \<and> img_Tag d \<noteq> None \<and> img_PullPolicy d \<noteq> None"

lemma complete_init:
  "complete_probe d \<Longrightarrow> probe_of h (InitializeProbeSpec s d) \<noteq> None"
  "complete_image i \<Longrightarrow> Image (InitializeImageSpec t i) \<noteq> None"
  "complete_image i \<Longrightarrow> img_PullPolicy (InitializeImageSpec t i) \<noteq> None"
  by (simp_all add: complete_probe_def complete_image_def probe_initialized image_of_default del: not_None_eq)

lemma probes_eta: "TCPProbe port = probe_of (TCPSocket port)" "HTTPProbe path port scheme = probe_of (HTTPGet path port scheme [])"
  by (simp_all add: TCPProbe_def HTTPProbe_def fun_eq_iff)

text \<open>The secrets of one workload.\<close>

lemma UniqBy_distinct: "distinct (map f xs) \<Longrightarrow> UniqBy f xs = xs"
proof (induction xs)
  case (Cons x xs)
  then have "f x \<notin> f ` set xs" by simp
  then have "filter (\<lambda>y. f y \<noteq> f x) xs = xs" by (intro filter_True) (metis imageI)
  with Cons show ?case by simp
qed simp

lemma add_options_names:
  assumes "add_options rows = Some opts" "\<forall>r\<in>set rows. row_ok r"
  shows "map op_envVariable opts = map fst rows"
proof -
  have "those (map (\<lambda>(e, configure, v). Unpack v (configure (new_option e))) rows) = Some opts"
    using assms(1) by (simp add: add_options_eq)
  then show ?thesis using assms(2)
  proof (induction rows arbitrary: opts)
    case (Cons r rows)
    obtain e c v where r: "r = (e, c, v)" by (cases r)
    obtain o1 os where "Unpack v (c (new_option e)) = Some o1" "opts = o1 # os"
        "those (map (\<lambda>(e, configure, v). Unpack v (configure (new_option e))) rows) = Some os"
      using Cons.prems(1) by (auto simp: r split: option.splits)
    with Cons.IH [of os] Cons.prems(2) Unpack_names(1) show ?case by (fastforce simp: r row_ok_def)
  qed simp
qed

lemma single_secrets_exact:
  assumes "add_options rows = Some opts" "\<forall>r\<in>set rows. row_ok r" "distinct (map fst rows)"
  shows "secret_keys (GenerateExternalSecrets ns labels store kind refresh opts) =
    {(name, key). name \<noteq> DefaultSeedSecret \<and> reads_secret opts name key}"
proof -
  have "same_secrets rows"
    unfolding same_secrets_def using eq_key_imp_eq_value [OF assms(3)] by (auto split: unpackable.splits)
  moreover have "Options_Union [opts] = opts"
    using assms(3) add_options_names [OF assms(1,2)] by (simp add: Options_Union_def UniqBy_distinct)
  ultimately show ?thesis
    using rows_secrets_exact [of "[rows]" "[opts]"] assms(1,2) by simp
qed

lemma external_secrets_default: "external_secrets_of base (ExternalSecret_Default es) opts \<noteq> None"
  by (simp add: external_secrets_of_def ExternalSecret_Default_def InitializeExternalSecretSecretStoreReferenceSpec_def
      SecretStoreReference_Default_def defaultExternalSecretSecretStoreReference_def orDefault_def bind_eq_None_conv
      split: option.split del: not_None_eq)

text \<open>The services of a workload without a canary select its pods.\<close>

lemma alone_routes:
  assumes "Workload_New L iter w None = Some (Inr ts)" "w_Canary w = Some (True, t)" "t \<noteq> Map.empty" "identifiable w"
    and "OService s \<in> built ts" "ODeployment d \<in> built ts"
  shows "selects (sv_Selector s) (pod_labels d)"
proof -
  have "service_selector w None = Some (sv_Selector s)" using built_New(5) [OF assms(1,5)] .
  then have "sv_Selector s = w_Selector w ++ t"
    using assms(2) by (simp add: service_selector_def trafficSwitcher_def enabled_selectors_def)
  moreover obtain d0 where "d = deployment_of (sidecars_of w) w d0"
    using assms(6) by (auto simp: built_New(1) [OF assms(1)] workloads_def)
  moreover have "traffic_of w = t" using assms(2) by (simp add: traffic_of_def)
  ultimately show ?thesis
    using selects_iff(1) [OF assms(4), of "sidecars_of w" d0] assms(2,3) by auto
qed

text \<open>The pods of a workload without traffic do not carry the traffic label.\<close>

lemma plain_workload_pods:
  assumes "w_Canary w = None" "w_Labels w traffic_key = None" "w_Selector w traffic_key = None" "orEmpty (dep_PodLabels d0) traffic_key = None"
  shows "pod_labels (deployment_of specs w d0) traffic_key = None"
  using assms by (simp add: pod_labels_deployment Let_def traffic_of_def map_add_def)

text \<open>A row whose variable is empty under a condition.\<close>

lemma bugsnag_row:
  "s \<noteq> DefaultSeedSecret \<Longrightarrow> complete_ref r \<Longrightarrow> row_ok (e, \<lambda>o1. EmptyIf b (secret_ref s k o1), Secret r)"
  "e \<noteq> '''' \<Longrightarrow> s \<noteq> '''' \<Longrightarrow> k \<noteq> '''' \<Longrightarrow> Unpack (Secret r) (EmptyIf b (secret_ref s k (new_option e))) \<noteq> None"
proof -
  show "s \<noteq> DefaultSeedSecret \<Longrightarrow> complete_ref r \<Longrightarrow> row_ok (e, \<lambda>o1. EmptyIf b (secret_ref s k o1), Secret r)"
    by (auto simp: row_ok_def EmptyIf_def fresh_def secret_ref_def WithSeedKey_def AsSecretRef_def new_option_def)
  show "e \<noteq> '''' \<Longrightarrow> s \<noteq> '''' \<Longrightarrow> k \<noteq> '''' \<Longrightarrow> Unpack (Secret r) (EmptyIf b (secret_ref s k (new_option e))) \<noteq> None"
    using Secret_total(1) [of e s k r] by (cases b) (simp_all add: EmptyIf_def Unpack_def del: not_None_eq)
qed

lemma external_secrets_generated:
  "external_secrets_of base es opts = Some secrets \<Longrightarrow>
     \<exists>ns labels store kind refresh. secrets = GenerateExternalSecrets ns labels store kind refresh opts"
  by (force simp: external_secrets_of_def bind_eq_Some_conv)

lemma init_complete: "complete_image d \<Longrightarrow> complete_image (InitializeImageSpec i d)"
  by (auto simp: complete_image_def InitializeImageSpec_def ImageSpec_Default_def orDefault_def split: option.splits)

lemma complete_Image: "complete_image img \<Longrightarrow> Image img \<noteq> None" "complete_image img \<Longrightarrow> img_PullPolicy img \<noteq> None"
  by (auto simp: complete_image_def Image_def)

text \<open>The pods of a workload carry its name.\<close>

lemma pod_label_name:
  assumes "w_Selector w = GetSelector base" "w_Key w = GetKey base" "traffic_of w PodSelectorKey = None"
  shows "pod_labels (deployment_of specs w d0) PodSelectorKey = Some (fst (w_Key w))"
  using assms by (simp add: pod_labels_deployment Let_def GetSelector_def GetKey_def map_add_def)

text \<open>A workload without a canary whose resources are built: they have one deployment.\<close>

definition builds :: "envoy_lib \<Rightarrow> config_iter \<Rightarrow> (DeploymentSpec, string) workload \<Rightarrow> (DeploymentSpec, string) template list \<Rightarrow> bool" where
  "builds L iter w ts \<longleftrightarrow> Workload_New L iter w None = Some (Inr ts) \<and> (\<forall>t\<in>set ts. \<exists>o1. tp_Build t = Some (Inr o1)) \<and>
     dep_Name ` {d. ODeployment d \<in> built ts} = {fst (w_Key w)}"

lemma buildsI:
  assumes "Workload_New L iter w None = Some (Inr ts)" "\<forall>t\<in>set ts. \<exists>o1. tp_Build t = Some (Inr o1)" "w_Deployment w \<noteq> None"
  shows "builds L iter w ts"
proof -
  obtain d0 where d0: "w_Deployment w = Some d0" using assms(3) by blast
  have "{d. ODeployment d \<in> built ts} = {deployment_of (sidecars_of w) w d0}"
    by (auto simp: built_New(1) [OF assms(1)] workloads_def d0)
  with assms show ?thesis by (simp add: builds_def)
qed

end
