(* ===== verification/Apicast.thy ===== *)
theory Apicast
  imports Generators
begin

text \<open>
  Apicast: the specification with its defaults and canaries (\<^verbatim>\<open>api/v1alpha1/apicast_types.go\<close>) and the
  generator of its resources (\<^verbatim>\<open>internal/pkg/generators/apicast/\<close>), one workload with a possible canary
  for each of the two environments.
\<close>

section \<open>The specification\<close>

definition apicastDefaultReplicas :: int where "apicastDefaultReplicas = 2"

definition apicastDefaultImage :: ImageSpec where
  "apicastDefaultImage = \<lparr>img_Name = Some ''quay.io/3scale/apicast-cloud-hosted'', img_Tag = Some ''latest'',
     img_PullSecretName = None, img_PullPolicy = Some ''IfNotPresent''\<rparr>"

definition apicastDefaultResources :: Resources where
  "apicastDefaultResources = \<lparr>rr_Limits = Some [(''cpu'', ''1''), (''memory'', ''128Mi'')],
     rr_Requests = Some [(''cpu'', ''500m''), (''memory'', ''64Mi'')], rr_Claims = None\<rparr>"

definition apicastDefaultHPA :: HPASpec where
  "apicastDefaultHPA = \<lparr>hpa_MinReplicas = Some 2, hpa_MaxReplicas = Some 4, hpa_ResourceName = Some ''cpu'',
     hpa_ResourceUtilization = Some 90, hpa_Behavior = None\<rparr>"

definition apicastDefaultLivenessProbe :: ProbeSpec where
  "apicastDefaultLivenessProbe = \<lparr>pr_InitialDelaySeconds = Some 5, pr_TimeoutSeconds = Some 5, pr_PeriodSeconds = Some 10,
     pr_SuccessThreshold = Some 1, pr_FailureThreshold = Some 3\<rparr>"

definition apicastDefaultReadinessProbe :: ProbeSpec where
  "apicastDefaultReadinessProbe = \<lparr>pr_InitialDelaySeconds = Some 5, pr_TimeoutSeconds = Some 5, pr_PeriodSeconds = Some 30,
     pr_SuccessThreshold = Some 1, pr_FailureThreshold = Some 3\<rparr>"

definition apicastDefaultPDB :: PDBSpec where
  "apicastDefaultPDB = \<lparr>pdb_MinAvailable = None, pdb_MaxUnavailable = Some (FromInt 1)\<rparr>"

definition apicastDefaultGrafanaDashboard :: GrafanaDashboardSpec where
  "apicastDefaultGrafanaDashboard = \<lparr>gd_SelectorKey = Some ''monitoring-key'', gd_SelectorValue = Some ''middleware''\<rparr>"

definition apicastDefaultMarin3rSpec :: defaultMarin3rSidecarSpec where
  "apicastDefaultMarin3rSpec = \<lparr>dm_Ports = None, dm_Resources = no_ResourceRequirementsSpec, dm_ExtraPodAnnotations = None\<rparr>"

record ApicastConfig =
  acf_ConfigurationCache :: int
  acf_ThreescalePortalEndpoint :: string
  acf_LogLevel :: "string option"
  acf_OIDCLogLevel :: "string option"

definition ApicastConfig_Default :: "ApicastConfig \<Rightarrow> ApicastConfig" where
  "ApicastConfig_Default cfg = cfg\<lparr>acf_LogLevel := orDefault (acf_LogLevel cfg) (Some ''warn''),
     acf_OIDCLogLevel := orDefault (acf_OIDCLogLevel cfg) (Some ''warn'')\<rparr>"

record ApicastEnvironmentSpec =
  aes_Image :: "ImageSpec option"
  aes_PDB :: "PDBSpec option"
  aes_HPA :: "HPASpec option"
  aes_Replicas :: "int option"
  aes_Resources :: "Resources option"
  aes_LivenessProbe :: "ProbeSpec option"
  aes_ReadinessProbe :: "ProbeSpec option"
  aes_Config :: ApicastConfig
  aes_NodeAffinity :: "string option"
  aes_Tolerations :: "string list"
  aes_Canary :: "Canary option"
  aes_PublishingStrategies :: "PublishingStrategies option"
  aes_Endpoint :: "string list option"
  aes_Marin3r :: "Marin3rSidecarSpec option"
  aes_LoadBalancer :: "ElasticLoadBalancerSpec option"

definition ApicastEnvironmentSpec_Default :: "ApicastEnvironmentSpec \<Rightarrow> ApicastEnvironmentSpec" where
  "ApicastEnvironmentSpec_Default spec = spec\<lparr>
     aes_Image := Some (InitializeImageSpec (aes_Image spec) apicastDefaultImage),
     aes_HPA := Some (InitializeHorizontalPodAutoscalerSpec (aes_HPA spec) apicastDefaultHPA),
     aes_Replicas := orDefault (aes_Replicas spec) (Some apicastDefaultReplicas),
     aes_PDB := Some (InitializePodDisruptionBudgetSpec (aes_PDB spec) apicastDefaultPDB),
     aes_Resources := Some (InitializeResourceRequirementsSpec (aes_Resources spec) apicastDefaultResources),
     aes_LivenessProbe := Some (InitializeProbeSpec (aes_LivenessProbe spec) apicastDefaultLivenessProbe),
     aes_ReadinessProbe := Some (InitializeProbeSpec (aes_ReadinessProbe spec) apicastDefaultReadinessProbe),
     aes_LoadBalancer := Some (InitializeElasticLoadBalancerSpec (aes_LoadBalancer spec) DefaultElasticLoadBalancerSpec),
     aes_Marin3r := Some (InitializeMarin3rSidecarSpec (aes_Marin3r spec) apicastDefaultMarin3rSpec),
     aes_PublishingStrategies := Some (InitializePublishingStrategies (aes_PublishingStrategies spec)),
     aes_Config := ApicastConfig_Default (aes_Config spec)\<rparr>"

record ApicastSpec =
  as_Staging :: ApicastEnvironmentSpec
  as_Production :: ApicastEnvironmentSpec
  as_GrafanaDashboard :: "GrafanaDashboardSpec option"

definition ApicastSpec_Default :: "ApicastSpec \<Rightarrow> ApicastSpec" where
  "ApicastSpec_Default spec =
     \<lparr>as_Staging = ApicastEnvironmentSpec_Default (as_Staging spec),
      as_Production = ApicastEnvironmentSpec_Default (as_Production spec),
      as_GrafanaDashboard = Some (InitializeGrafanaDashboardSpec (as_GrafanaDashboard spec) apicastDefaultGrafanaDashboard)\<rparr>"

text \<open>Setting a field of the image panics when there is no image.\<close>

definition set_image :: "(ImageSpec \<Rightarrow> ImageSpec) \<Rightarrow> ApicastSpec \<Rightarrow> ApicastSpec option" where
  "set_image f spec =
     do { s \<leftarrow> aes_Image (as_Staging spec);
          p \<leftarrow> aes_Image (as_Production spec);
          Some (spec\<lparr>as_Staging := (as_Staging spec)\<lparr>aes_Image := Some (f s)\<rparr>,
                     as_Production := (as_Production spec)\<lparr>aes_Image := Some (f p)\<rparr>\<rparr>) }"

definition ApicastSpec_ResolveCanarySpec ::
    "(ApicastSpec, 'doc, 'patch) json_lib \<Rightarrow> ApicastSpec \<Rightarrow> Canary \<Rightarrow> ApicastSpec result" where
  "ApicastSpec_ResolveCanarySpec J spec canary =
     (case Canary_PatchSpec J canary spec of
        Inl e \<Rightarrow> Some (Inl e)
      | Inr canarySpec \<Rightarrow>
          do { canarySpec \<leftarrow> (case can_ImageName canary of
                 None \<Rightarrow> Some canarySpec | Some n \<Rightarrow> set_image (\<lambda>i. i\<lparr>img_Name := Some n\<rparr>) canarySpec);
               canarySpec \<leftarrow> (case can_ImageTag canary of
                 None \<Rightarrow> Some canarySpec | Some t \<Rightarrow> set_image (\<lambda>i. i\<lparr>img_Tag := Some t\<rparr>) canarySpec);
               Some (Inr (ApicastSpec_Default (canarySpec\<lparr>
                 as_Staging := (as_Staging canarySpec)\<lparr>aes_Replicas := can_Replicas canary\<rparr>,
                 as_Production := (as_Production canarySpec)\<lparr>aes_Replicas := can_Replicas canary\<rparr>\<rparr>))) })"

section \<open>The workload of an environment\<close>

definition NewEnvOptions :: "ApicastEnvironmentSpec \<Rightarrow> string \<Rightarrow> Options option" where
  "NewEnvOptions spec env =
     Some [] \<bind> AddEnvvar ''APICAST_CONFIGURATION_LOADER'' id (Text ''lazy'')
       \<bind> AddEnvvar ''APICAST_CONFIGURATION_CACHE'' id (Text (itoa (acf_ConfigurationCache (aes_Config spec))))
       \<bind> AddEnvvar ''APICAST_EXTENDED_METRICS'' id (Text ''true'')
       \<bind> AddEnvvar ''THREESCALE_DEPLOYMENT_ENV'' id (Text env)
       \<bind> AddEnvvar ''THREESCALE_PORTAL_ENDPOINT'' id (Text (acf_ThreescalePortalEndpoint (aes_Config spec)))
       \<bind> AddEnvvar ''APICAST_LOG_LEVEL'' id (ptr_text (acf_LogLevel (aes_Config spec)))
       \<bind> AddEnvvar ''APICAST_OIDC_LOG_LEVEL'' id (ptr_text (acf_OIDCLogLevel (aes_Config spec)))
       \<bind> AddEnvvar ''APICAST_RESPONSE_CODES'' id (Text ''true'')"

record EnvGenerator =
  eg_Base :: BaseOptionsV2
  eg_Spec :: ApicastEnvironmentSpec
  eg_Options :: Options
  eg_Traffic :: bool

definition EnvGenerator_deployment :: "EnvGenerator \<Rightarrow> DeploymentSpec Deployment option" where
  "EnvGenerator_deployment gen =
     (let spec = eg_Spec gen in
      do { img \<leftarrow> aes_Image spec;
           image \<leftarrow> Image img;
           resources \<leftarrow> aes_Resources spec;
           livenessSpec \<leftarrow> aes_LivenessProbe spec;
           liveness \<leftarrow> TCPProbe (FromString ''gateway'') livenessSpec;
           readinessSpec \<leftarrow> aes_ReadinessProbe spec;
           readiness \<leftarrow> HTTPProbe ''/status/ready'' (FromString ''management'') ''HTTP'' readinessSpec;
           pullPolicy \<leftarrow> img_PullPolicy img;
           Some (rolling_deployment (aes_Replicas spec) (ImagePullSecrets (img_PullSecretName img))
             [(plain_container ''apicast'' image [] [(''gateway'', 8080), (''management'', 8090), (''metrics'', 9421)]
                 (BuildEnvironment (eg_Options gen)) resources pullPolicy)
                \<lparr>ac_LivenessProbe := liveness, ac_ReadinessProbe := readiness\<rparr>]
             (Affinity (GetSelector (eg_Base gen)) (aes_NodeAffinity spec)) (aes_Tolerations spec)) })"

definition EnvGenerator_TrafficSelector :: "EnvGenerator \<Rightarrow> labels" where
  "EnvGenerator_TrafficSelector gen = [traffic_key \<mapsto> bo_Component (eg_Base gen)]"

definition EnvGenerator_MonitoredEndpoints :: "PodMetricsEndpoint list" where
  "EnvGenerator_MonitoredEndpoints =
     [PodMetricsEndpoint ''/metrics'' ''metrics'' 30, PodMetricsEndpoint ''/stats/prometheus'' ''envoy-metrics'' 60]"

definition EnvGenerator_PublishingStrategies :: "EnvGenerator \<Rightarrow> error + ServiceDescriptor list" where
  "EnvGenerator_PublishingStrategies gen =
     MergeWithDefaultPublishingStrategy apicast_DefaultPublishingStrategy (aes_PublishingStrategies (eg_Spec gen))"

definition EnvGenerator_workload :: "EnvGenerator \<Rightarrow> (DeploymentSpec, string) workload" where
  "EnvGenerator_workload gen =
     \<lparr>w_Key = GetKey (eg_Base gen), w_Labels = GetLabels (eg_Base gen), w_Selector = GetSelector (eg_Base gen),
      w_MonitoredEndpoints = EnvGenerator_MonitoredEndpoints, w_HPASpec = aes_HPA (eg_Spec gen), w_PDBSpec = aes_PDB (eg_Spec gen),
      w_Deployment = EnvGenerator_deployment gen, w_Canary = Some (eg_Traffic gen, EnvGenerator_TrafficSelector gen),
      w_PublishingStrategies = Some (EnvGenerator_PublishingStrategies gen)\<rparr>"

section \<open>The generator\<close>

record ApicastGenerator =
  ag_Base :: BaseOptionsV2
  ag_Staging :: EnvGenerator
  ag_CanaryStaging :: "EnvGenerator option"
  ag_Production :: EnvGenerator
  ag_CanaryProduction :: "EnvGenerator option"
  ag_GrafanaDashboardSpec :: GrafanaDashboardSpec

definition env_base :: "string \<Rightarrow> string \<Rightarrow> string \<Rightarrow> BaseOptionsV2" where
  "env_base instance namespace component =
     \<lparr>bo_Component = component, bo_InstanceName = instance, bo_Namespace = namespace,
      bo_Labels = [''app'' \<mapsto> ''3scale-api-management'', ''threescale_component'' \<mapsto> component,
        ''threescale_component_element'' \<mapsto> ''gateway'']\<rparr>"

definition main_env :: "BaseOptionsV2 \<Rightarrow> ApicastEnvironmentSpec \<Rightarrow> string \<Rightarrow> EnvGenerator option" where
  "main_env base spec env =
     map_option (\<lambda>opts. \<lparr>eg_Base = base, eg_Spec = spec, eg_Options = opts, eg_Traffic = True\<rparr>) (NewEnvOptions spec env)"

text \<open>
  The canary of one environment, from the patched specification: its traffic is that of the canary
  in the patched specification, whose removal by a patch panics; its budget and autoscaler are off.
\<close>

definition canary_env ::
    "(ApicastSpec, 'doc, 'patch) json_lib \<Rightarrow> ApicastSpec \<Rightarrow> (ApicastSpec \<Rightarrow> ApicastEnvironmentSpec) \<Rightarrow> BaseOptionsV2 \<Rightarrow> string
       \<Rightarrow> EnvGenerator option result" where
  "canary_env J spec sel base env =
     (case aes_Canary (sel spec) of
        None \<Rightarrow> Some (Inr None)
      | Some canary \<Rightarrow>
          do { r \<leftarrow> ApicastSpec_ResolveCanarySpec J spec canary;
               case r of
                 Inl e \<Rightarrow> Some (Inl e)
               | Inr canarySpec \<Rightarrow>
                   do { opts \<leftarrow> NewEnvOptions (sel canarySpec) env;
                        c \<leftarrow> aes_Canary (sel canarySpec);
                        Some (Inr (Some \<lparr>eg_Base = base,
                          eg_Spec = (sel canarySpec)\<lparr>aes_HPA := Some no_HorizontalPodAutoscalerSpec, aes_PDB := Some no_PodDisruptionBudgetSpec\<rparr>,
                          eg_Options = opts, eg_Traffic = can_SendTraffic c\<rparr>)) } })"

definition Apicast_NewGenerator ::
    "(ApicastSpec, 'doc, 'patch) json_lib \<Rightarrow> string \<Rightarrow> string \<Rightarrow> ApicastSpec \<Rightarrow> ApicastGenerator result" where
  "Apicast_NewGenerator J instance namespace spec =
     do { staging \<leftarrow> main_env (env_base instance namespace ''apicast-staging'') (as_Staging spec) ''staging'';
          production \<leftarrow> main_env (env_base instance namespace ''apicast-production'') (as_Production spec) ''production'';
          dashboard \<leftarrow> as_GrafanaDashboard spec;
          cs \<leftarrow> canary_env J spec as_Staging (env_base instance namespace ''apicast-staging-canary'') ''staging'';
          case cs of
            Inl e \<Rightarrow> Some (Inl e)
          | Inr canaryStaging \<Rightarrow>
              do { cp \<leftarrow> canary_env J spec as_Production (env_base instance namespace ''apicast-production-canary'') ''production'';
                   Some (map_sum id (\<lambda>canaryProduction.
                     \<lparr>ag_Base = \<lparr>bo_Component = ''apicast'', bo_InstanceName = instance, bo_Namespace = namespace,
                        bo_Labels = [''app'' \<mapsto> ''3scale-api-management'', ''threescale_component'' \<mapsto> ''apicast'']\<rparr>,
                      ag_Staging = staging, ag_CanaryStaging = canaryStaging, ag_Production = production,
                      ag_CanaryProduction = canaryProduction, ag_GrafanaDashboardSpec = dashboard\<rparr>) cp) } }"

definition Apicast_Resources ::
    "envoy_lib \<Rightarrow> config_iter \<Rightarrow> ApicastGenerator
       \<Rightarrow> ((DeploymentSpec, string) template list \<times> (bool \<times> key \<times> labels \<times> string) list) result" where
  "Apicast_Resources L iter gen =
     do { s \<leftarrow> Workload_New L iter (EnvGenerator_workload (ag_Staging gen)) (map_option EnvGenerator_workload (ag_CanaryStaging gen));
          case s of
            Inl e \<Rightarrow> Some (Inl e)
          | Inr staging \<Rightarrow>
              do { p \<leftarrow> Workload_New L iter (EnvGenerator_workload (ag_Production gen)) (map_option EnvGenerator_workload (ag_CanaryProduction gen));
                   Some (map_sum id (\<lambda>production.
                     (staging @ production,
                      [dashboard_of (ag_Base gen) (bo_Component (ag_Base gen)) (ag_GrafanaDashboardSpec gen) ''dashboards/apicast.json.gtpl'',
                       dashboard_of (ag_Base gen) (bo_Component (ag_Base gen) @ ''-services'') (ag_GrafanaDashboardSpec gen)
                         ''dashboards/apicast-services.json.gtpl''])) p) } }"

section \<open>Traffic\<close>

lemma workload_simps [simp]:
  "w_Key (EnvGenerator_workload gen) = GetKey (eg_Base gen)" "w_Selector (EnvGenerator_workload gen) = GetSelector (eg_Base gen)"
  "w_Canary (EnvGenerator_workload gen) = Some (eg_Traffic gen, EnvGenerator_TrafficSelector gen)"
  "traffic_of (EnvGenerator_workload gen) = [traffic_key \<mapsto> bo_Component (eg_Base gen)]"
  by (simp_all add: EnvGenerator_workload_def traffic_of_def EnvGenerator_TrafficSelector_def)

lemma env_identifiable: "identifiable (EnvGenerator_workload gen)"
  by (simp add: identifiable_def GetSelector_def)

lemma env_pods:
  "pod_labels (deployment_of specs (EnvGenerator_workload gen) d0) traffic_key = Some (bo_Component (eg_Base gen))"
  "pod_labels (deployment_of specs (EnvGenerator_workload gen) d0) PodSelectorKey = Some (bo_Component (eg_Base gen))"
  by (simp_all add: pod_labels_deployment Let_def GetSelector_def)

text \<open>A workload that sends traffic: whatever its canary says, the services select the pods of the workload only.\<close>

lemma env_routes:
  assumes "service_selector (EnvGenerator_workload main) (Some (EnvGenerator_workload canary)) = Some sel"
    and "eg_Traffic main" "bo_Component (eg_Base canary) \<noteq> bo_Component (eg_Base main)"
  shows "selects sel (pod_labels (deployment_of specs (EnvGenerator_workload main) d0))"
    and "\<not> selects sel (pod_labels (deployment_of specs (EnvGenerator_workload canary) d0))"
proof -
  let ?t = "[traffic_key \<mapsto> bo_Component (eg_Base main)]"
  have sel: "sel = (if eg_Traffic canary then ?t else GetSelector (eg_Base main) ++ ?t)"
    using assms(1,2)
    by (auto simp: service_selector_def trafficSwitcher_def enabled_selectors_def EnvGenerator_TrafficSelector_def split: bool.splits)
  show "selects sel (pod_labels (deployment_of specs (EnvGenerator_workload main) d0))"
    using selects_iff(1,2) [OF env_identifiable [of main], of specs d0] unfolding sel by auto
  have "sel traffic_key = Some (bo_Component (eg_Base main))"
    by (simp add: sel)
  then show "\<not> selects sel (pod_labels (deployment_of specs (EnvGenerator_workload canary) d0))"
    using env_pods(1) [of specs canary d0] assms(3) by (auto simp: selects_def map_le_def dom_def)
qed

lemma env_New_routes:
  assumes "Workload_New L iter (EnvGenerator_workload main) (Some (EnvGenerator_workload canary)) = Some (Inr ts)"
    and "eg_Traffic main" "bo_Component (eg_Base canary) \<noteq> bo_Component (eg_Base main)"
    and "OService s \<in> built ts" "ODeployment d \<in> built ts"
  shows "selects (sv_Selector s) (pod_labels d) \<longleftrightarrow> dep_Name d = bo_Component (eg_Base main)"
proof -
  let ?specs = "sidecars_of (EnvGenerator_workload main)"
  have sel: "service_selector (EnvGenerator_workload main) (Some (EnvGenerator_workload canary)) = Some (sv_Selector s)"
    using built_New(5) [OF assms(1,4)] .
  from assms(5) obtain d0 gen where "gen = main \<or> gen = canary" "d = deployment_of ?specs (EnvGenerator_workload gen) d0"
    by (auto simp: built_New(1) [OF assms(1)] workloads_def)
  then show ?thesis
    using env_routes [OF sel assms(2,3), of ?specs d0] assms(3) by (auto simp: GetKey_def)
qed

lemma canary_env_base:
  assumes "canary_env J spec sel base env = Some (Inr (Some c))"
  shows "eg_Base c = base"
proof (cases "aes_Canary (sel spec)")
  case (Some k)
  with assms obtain r where r: "ApicastSpec_ResolveCanarySpec J spec k = Some r"
    by (auto simp: canary_env_def bind_eq_Some_conv)
  with assms Some show ?thesis
    by (cases r) (auto simp: canary_env_def bind_eq_Some_conv)
qed (use assms in \<open>simp add: canary_env_def\<close>)

lemma NewGenerator_envs:
  assumes "Apicast_NewGenerator J instance namespace spec = Some (Inr gen)"
  shows "eg_Traffic (ag_Staging gen)" "eg_Traffic (ag_Production gen)"
    and "bo_Component (eg_Base (ag_Staging gen)) = ''apicast-staging''" "bo_Component (eg_Base (ag_Production gen)) = ''apicast-production''"
    and "ag_CanaryStaging gen = Some c \<Longrightarrow> bo_Component (eg_Base c) = ''apicast-staging-canary''"
    and "ag_CanaryProduction gen = Some c \<Longrightarrow> bo_Component (eg_Base c) = ''apicast-production-canary''"
proof -
  note canary = canary_env_base
  have main: "main_env base s env = Some g \<Longrightarrow> eg_Base g = base \<and> eg_Traffic g" for base s env g
    by (auto simp: main_env_def)
  obtain st pr cs cp where g: "main_env (env_base instance namespace ''apicast-staging'') (as_Staging spec) ''staging'' = Some st"
      "main_env (env_base instance namespace ''apicast-production'') (as_Production spec) ''production'' = Some pr"
      "canary_env J spec as_Staging (env_base instance namespace ''apicast-staging-canary'') ''staging'' = Some (Inr cs)"
      "canary_env J spec as_Production (env_base instance namespace ''apicast-production-canary'') ''production'' = Some (Inr cp)"
      "ag_Staging gen = st" "ag_Production gen = pr" "ag_CanaryStaging gen = cs" "ag_CanaryProduction gen = cp"
  proof -
    obtain st pr db r where A: "main_env (env_base instance namespace ''apicast-staging'') (as_Staging spec) ''staging'' = Some st"
        "main_env (env_base instance namespace ''apicast-production'') (as_Production spec) ''production'' = Some pr"
        "as_GrafanaDashboard spec = Some db"
        "canary_env J spec as_Staging (env_base instance namespace ''apicast-staging-canary'') ''staging'' = Some r"
      using assms unfolding Apicast_NewGenerator_def bind_eq_Some_conv by blast
    then obtain cs where cs: "r = Inr cs"
      using assms by (cases r) (simp_all add: Apicast_NewGenerator_def)
    with A obtain r' where r': "canary_env J spec as_Production (env_base instance namespace ''apicast-production-canary'') ''production'' = Some r'"
      using assms by (auto simp: Apicast_NewGenerator_def bind_eq_Some_conv)
    then obtain cp where "r' = Inr cp"
      using assms A cs by (cases r') (simp_all add: Apicast_NewGenerator_def)
    with that assms A cs r' show thesis
      by (auto simp: Apicast_NewGenerator_def)
  qed
  then show "eg_Traffic (ag_Staging gen)" "eg_Traffic (ag_Production gen)"
    "bo_Component (eg_Base (ag_Staging gen)) = ''apicast-staging''" "bo_Component (eg_Base (ag_Production gen)) = ''apicast-production''"
    "ag_CanaryStaging gen = Some c \<Longrightarrow> bo_Component (eg_Base c) = ''apicast-staging-canary''"
    "ag_CanaryProduction gen = Some c \<Longrightarrow> bo_Component (eg_Base c) = ''apicast-production-canary''"
    by (auto dest!: main canary simp: env_base_def)
qed

section \<open>Defaults suffice\<close>

lemma image_initialized:
  "img_Name (InitializeImageSpec s apicastDefaultImage) \<noteq> None" "img_Tag (InitializeImageSpec s apicastDefaultImage) \<noteq> None"
  "img_PullPolicy (InitializeImageSpec s apicastDefaultImage) \<noteq> None"
  by (cases s; simp add: InitializeImageSpec_def ImageSpec_Default_def apicastDefaultImage_def del: not_None_eq)+

lemma defaulted_deployment: "EnvGenerator_deployment (gen\<lparr>eg_Spec := ApicastEnvironmentSpec_Default spec\<rparr>) \<noteq> None"
proof -
  have probes: "TCPProbe p (InitializeProbeSpec l apicastDefaultLivenessProbe) \<noteq> None"
      "HTTPProbe q p sch (InitializeProbeSpec l apicastDefaultReadinessProbe) \<noteq> None" for p q sch l
    unfolding TCPProbe_def HTTPProbe_def
    by (rule probe_initialized; simp add: apicastDefaultLivenessProbe_def apicastDefaultReadinessProbe_def)+
  show ?thesis
    using image_initialized probes
    by (simp add: EnvGenerator_deployment_def ApicastEnvironmentSpec_Default_def Image_def Let_def bind_eq_None_conv del: not_None_eq)
qed

lemma NewEnvOptions_total: "NewEnvOptions spec env \<noteq> None"
proof -
  have "AddEnvvar e id (Text s) opts \<noteq> None" "AddEnvvar e id (ptr_text v) opts \<noteq> None" for e s v opts
    by (simp_all add: AddEnvvar_def Unpack_def new_option_def ptr_text_def split: option.splits)
  then show ?thesis
    by (simp add: NewEnvOptions_def bind_eq_None_conv del: not_None_eq)
qed

lemma lower_names: "ToLower ''Gateway'' = ''gateway''" "ToLower ''Management'' = ''management''"
  by code_simp+

lemma apicast_defaults:
  "apicast_DefaultPublishingStrategy =
     simple_defaults [(''Gateway'', [TCPPort ''gateway'' 80 (FromString ''gateway'')]), (''Management'', [TCPPort ''management'' 8090 (FromString ''management'')])]"
  by (simp add: apicast_DefaultPublishingStrategy_def simple_defaults_def)

text \<open>An environment with the defaults, without canary and with the default strategies.\<close>

definition default_env :: "EnvGenerator \<Rightarrow> bool" where
  "default_env gen \<longleftrightarrow> (\<exists>spec. eg_Spec gen = ApicastEnvironmentSpec_Default spec \<and> aes_PublishingStrategies spec = None)"

definition env_services :: "EnvGenerator \<Rightarrow> string set" where
  "env_services gen = {bo_Component (eg_Base gen) @ ''-gateway-svc'', bo_Component (eg_Base gen) @ ''-management-svc''}"

lemma default_env_New:
  assumes "default_env gen" "\<forall>c. canary = Some c \<longrightarrow> has_specs (EnvGenerator_workload c) \<and> EnvGenerator_deployment c \<noteq> None"
  obtains ts where "Workload_New L iter (EnvGenerator_workload gen) (map_option EnvGenerator_workload canary) = Some (Inr ts)"
    "\<forall>t\<in>set ts. \<exists>o1. tp_Build t = Some (Inr o1)" "sv_Name ` {s. OService s \<in> built ts} = env_services gen"
proof -
  let ?w = "EnvGenerator_workload gen"
  obtain spec where spec: "eg_Spec gen = ApicastEnvironmentSpec_Default spec" "aes_PublishingStrategies spec = None"
    using assms(1) by (auto simp: default_env_def)
  have ps: "w_PublishingStrategies ?w = Some (Inr apicast_DefaultPublishingStrategy)" "strategies_of ?w = apicast_DefaultPublishingStrategy"
    using spec default_strategies unfolding apicast_defaults
    by (simp_all add: EnvGenerator_workload_def EnvGenerator_PublishingStrategies_def apicast_defaults ApicastEnvironmentSpec_Default_def strategies_of_def)
  have "has_specs ?w"
    using spec(1) by (simp add: has_specs_def EnvGenerator_workload_def ApicastEnvironmentSpec_Default_def)
  moreover have "w_Deployment ?w \<noteq> None"
    using defaulted_deployment [of spec gen] by (simp add: EnvGenerator_workload_def flip: spec(1))
  moreover have "w_Deployment (EnvGenerator_workload c) = EnvGenerator_deployment c" for c
    by (simp add: EnvGenerator_workload_def)
  ultimately have all: "\<forall>w\<in>set (workloads ?w (map_option EnvGenerator_workload canary)). has_specs w \<and> w_Deployment w \<noteq> None"
    using assms(2) by (cases canary) (simp_all add: workloads_def del: not_None_eq)
  have "service_selector ?w (map_option EnvGenerator_workload canary) \<noteq> None"
    by (cases canary) (simp_all add: service_selector_def)
  with all ps show thesis
    by (rule_tac default_New [of ?w "map_option EnvGenerator_workload canary", OF all _ ps(2) [unfolded apicast_defaults]])
       (auto intro!: that simp: env_services_def GetKey_def lower_names)
qed

section \<open>A specification to run the model on\<close>

definition demo_env :: "Canary option \<Rightarrow> ApicastEnvironmentSpec" where
  "demo_env canary = \<lparr>aes_Image = None, aes_PDB = None, aes_HPA = None, aes_Replicas = None, aes_Resources = None, aes_LivenessProbe = None,
     aes_ReadinessProbe = None, aes_Config = \<lparr>acf_ConfigurationCache = 30, acf_ThreescalePortalEndpoint = ''http://system'',
       acf_LogLevel = None, acf_OIDCLogLevel = None\<rparr>, aes_NodeAffinity = None, aes_Tolerations = [], aes_Canary = canary,
     aes_PublishingStrategies = None, aes_Endpoint = None, aes_Marin3r = None, aes_LoadBalancer = None\<rparr>"

definition demo_spec :: "Canary option \<Rightarrow> ApicastSpec" where
  "demo_spec canary = \<lparr>as_Staging = demo_env canary, as_Production = demo_env None, as_GrafanaDashboard = None\<rparr>"

definition demo_canary :: Canary where
  "demo_canary = \<lparr>can_SendTraffic = True, can_ImageName = None, can_ImageTag = None, can_Replicas = None, can_Patches = []\<rparr>"

text \<open>The documents are the specifications themselves.\<close>

definition demo_json :: "(ApicastSpec, ApicastSpec, unit) json_lib" where
  "demo_json = \<lparr>js_Marshal = Inr, js_Unmarshal = Inr, js_DecodePatch = (\<lambda>_. Inr ()), js_Apply = (\<lambda>_. Inr)\<rparr>"

lemma canary_env_of_demo:
  "\<exists>c. canary_env demo_json (ApicastSpec_Default (demo_spec (Some demo_canary))) as_Staging base ''staging'' = Some (Inr (Some c)) \<and>
     eg_Traffic c \<and> has_specs (EnvGenerator_workload c) \<and> EnvGenerator_deployment c \<noteq> None"
proof -
  let ?spec = "ApicastSpec_Default (demo_spec (Some demo_canary))"
  let ?canary = "ApicastSpec_Default (?spec\<lparr>as_Staging := (as_Staging ?spec)\<lparr>aes_Replicas := None\<rparr>,
    as_Production := (as_Production ?spec)\<lparr>aes_Replicas := None\<rparr>\<rparr>)"
  obtain opts where opts: "NewEnvOptions (as_Staging ?canary) ''staging'' = Some opts"
    using NewEnvOptions_total by blast
  define c where "c = \<lparr>eg_Base = base,
    eg_Spec = (as_Staging ?canary)\<lparr>aes_HPA := Some no_HorizontalPodAutoscalerSpec, aes_PDB := Some no_PodDisruptionBudgetSpec\<rparr>,
    eg_Options = opts, eg_Traffic = True\<rparr>"
  have "ApicastSpec_ResolveCanarySpec demo_json ?spec demo_canary = Some (Inr ?canary)"
    by (simp add: ApicastSpec_ResolveCanarySpec_def Canary_PatchSpec_def demo_json_def demo_canary_def)
  moreover have "aes_Canary (as_Staging ?spec) = Some demo_canary" "aes_Canary (as_Staging ?canary) = Some demo_canary"
    by (simp_all add: ApicastSpec_Default_def ApicastEnvironmentSpec_Default_def demo_spec_def demo_env_def)
  ultimately have "canary_env demo_json ?spec as_Staging base ''staging'' = Some (Inr (Some c))"
    using opts by (simp add: canary_env_def c_def) (simp add: demo_canary_def)
  moreover have "EnvGenerator_deployment c = EnvGenerator_deployment (c\<lparr>eg_Spec := as_Staging ?canary\<rparr>)"
    by (simp add: EnvGenerator_deployment_def c_def Let_def)
  moreover have "EnvGenerator_deployment (c\<lparr>eg_Spec := as_Staging ?canary\<rparr>) \<noteq> None"
    using defaulted_deployment by (simp add: ApicastSpec_Default_def [of "_ \<lparr>as_Production := _\<rparr>"])
  ultimately show ?thesis
    by (simp add: c_def has_specs_def EnvGenerator_workload_def)
qed

text \<open>The generator of a defaulted specification.\<close>

lemma main_env_total: "\<exists>opts. main_env base spec env = Some \<lparr>eg_Base = base, eg_Spec = spec, eg_Options = opts, eg_Traffic = True\<rparr>"
  using NewEnvOptions_total [of spec env] by (auto simp: main_env_def)

lemma NewGenerator_defaulted:
  assumes "canary_env J (ApicastSpec_Default spec) as_Staging (env_base instance namespace ''apicast-staging-canary'') ''staging'' = Some (Inr cs)"
    and "canary_env J (ApicastSpec_Default spec) as_Production (env_base instance namespace ''apicast-production-canary'') ''production'' = Some (Inr cp)"
    and "aes_PublishingStrategies (as_Staging spec) = None" "aes_PublishingStrategies (as_Production spec) = None"
  obtains gen where "Apicast_NewGenerator J instance namespace (ApicastSpec_Default spec) = Some (Inr gen)"
    "default_env (ag_Staging gen)" "default_env (ag_Production gen)" "ag_CanaryStaging gen = cs" "ag_CanaryProduction gen = cp"
    "bo_Component (eg_Base (ag_Staging gen)) = ''apicast-staging''" "bo_Component (eg_Base (ag_Production gen)) = ''apicast-production''"
proof -
  let ?spec = "ApicastSpec_Default spec"
  obtain so po where m: "main_env (env_base instance namespace ''apicast-staging'') (as_Staging ?spec) ''staging'' =
        Some \<lparr>eg_Base = env_base instance namespace ''apicast-staging'', eg_Spec = as_Staging ?spec, eg_Options = so, eg_Traffic = True\<rparr>"
      "main_env (env_base instance namespace ''apicast-production'') (as_Production ?spec) ''production'' =
        Some \<lparr>eg_Base = env_base instance namespace ''apicast-production'', eg_Spec = as_Production ?spec, eg_Options = po, eg_Traffic = True\<rparr>"
    using main_env_total by meson
  have "as_Staging ?spec = ApicastEnvironmentSpec_Default (as_Staging spec)" "as_Production ?spec = ApicastEnvironmentSpec_Default (as_Production spec)"
    by (simp_all add: ApicastSpec_Default_def)
  then have env: "\<exists>s. as_Staging ?spec = ApicastEnvironmentSpec_Default s \<and> aes_PublishingStrategies s = None"
      "\<exists>s. as_Production ?spec = ApicastEnvironmentSpec_Default s \<and> aes_PublishingStrategies s = None"
    using assms(3,4) by blast+
  obtain db where "as_GrafanaDashboard ?spec = Some db"
    by (simp add: ApicastSpec_Default_def)
  with m assms(1,2) env that show thesis
    by (simp add: Apicast_NewGenerator_def default_env_def env_base_def [of _ _ "''apicast-staging''"] env_base_def [of _ _ "''apicast-production''"])
qed

section \<open>Properties\<close>

text \<open>
  C26. The canary of an Apicast environment never receives traffic: each service of the environment selects
  the pods of the main deployment and of no other, also when the canary is set to send traffic,
  because the traffic label of the canary's pods is the name of the canary and not the shared one.
\<close>

theorem Apicast_canary_gets_no_traffic:
  assumes "Apicast_NewGenerator J instance namespace spec = Some (Inr gen)"
    and "Workload_New L iter (EnvGenerator_workload main) (Some (EnvGenerator_workload canary)) = Some (Inr ts)"
    and "(main, Some canary) \<in> {(ag_Staging gen, ag_CanaryStaging gen), (ag_Production gen, ag_CanaryProduction gen)}"
    and "OService s \<in> built ts" "ODeployment d \<in> built ts"
  shows "selects (sv_Selector s) (pod_labels d) \<longleftrightarrow> dep_Name d = bo_Component (eg_Base main)"
proof -
  note envs = NewGenerator_envs [OF assms(1)]
  have "eg_Traffic main" "bo_Component (eg_Base canary) \<noteq> bo_Component (eg_Base main)"
    using assms(3) envs by auto
  then show ?thesis
    using env_New_routes [OF assms(2) _ _ assms(4,5)] by blast
qed

theorem Apicast_canary_gets_no_traffic_witness:
  "\<exists>gen canary ts s d. Apicast_NewGenerator demo_json ''cr'' ''ns'' (ApicastSpec_Default (demo_spec (Some demo_canary))) = Some (Inr gen) \<and>
     ag_CanaryStaging gen = Some canary \<and> eg_Traffic canary \<and>
     Workload_New name_lib id (EnvGenerator_workload (ag_Staging gen)) (Some (EnvGenerator_workload canary)) = Some (Inr ts) \<and>
     OService s \<in> built ts \<and> ODeployment d \<in> built ts \<and> \<not> selects (sv_Selector s) (pod_labels d)"
proof -
  let ?spec = "demo_spec (Some demo_canary)"
  obtain c where c: "canary_env demo_json (ApicastSpec_Default ?spec) as_Staging (env_base ''cr'' ''ns'' ''apicast-staging-canary'') ''staging'' = Some (Inr (Some c))"
      "eg_Traffic c" "has_specs (EnvGenerator_workload c)" "EnvGenerator_deployment c \<noteq> None"
    using canary_env_of_demo by blast
  have "canary_env demo_json (ApicastSpec_Default ?spec) as_Production (env_base ''cr'' ''ns'' ''apicast-production-canary'') ''production'' = Some (Inr None)"
    by (simp add: canary_env_def ApicastSpec_Default_def ApicastEnvironmentSpec_Default_def demo_spec_def demo_env_def)
  moreover have "aes_PublishingStrategies (as_Staging ?spec) = None" "aes_PublishingStrategies (as_Production ?spec) = None"
    by (simp_all add: demo_spec_def demo_env_def)
  ultimately obtain gen where gen: "Apicast_NewGenerator demo_json ''cr'' ''ns'' (ApicastSpec_Default ?spec) = Some (Inr gen)"
      "default_env (ag_Staging gen)" "ag_CanaryStaging gen = Some c"
    using NewGenerator_defaulted [OF c(1)] by metis
  obtain ts where ts: "Workload_New name_lib id (EnvGenerator_workload (ag_Staging gen)) (Some (EnvGenerator_workload c)) = Some (Inr ts)"
      "sv_Name ` {s. OService s \<in> built ts} = env_services (ag_Staging gen)"
  proof -
    have "\<forall>c'. Some c = Some c' \<longrightarrow> has_specs (EnvGenerator_workload c') \<and> EnvGenerator_deployment c' \<noteq> None"
      using c(3,4) by blast
    then show thesis
      using that default_env_New [OF gen(2), of "Some c" name_lib id] by (metis option.simps(9))
  qed
  obtain s where s: "OService s \<in> built ts"
    using ts(2) by (auto simp: env_services_def)
  obtain d0 where "EnvGenerator_deployment c = Some d0"
    using c(4) by auto
  then have "ODeployment (deployment_of (sidecars_of (EnvGenerator_workload (ag_Staging gen))) (EnvGenerator_workload c) d0) \<in> built ts"
    unfolding built_New(1) [OF ts(1)] workloads_def by (auto simp: EnvGenerator_workload_def)
  then obtain d where d: "ODeployment d \<in> built ts" "dep_Name d = fst (w_Key (EnvGenerator_workload c))"
    using deployment_of_simps by blast
  then have name: "dep_Name d = bo_Component (eg_Base c)"
    by (simp add: EnvGenerator_workload_def GetKey_def)
  have "dep_Name d \<noteq> bo_Component (eg_Base (ag_Staging gen))"
    using NewGenerator_envs(3,5) [OF gen(1)] gen(3) name by simp
  then have "\<not> selects (sv_Selector s) (pod_labels d)"
    using Apicast_canary_gets_no_traffic [OF gen(1) ts(1) _ s d(1)] gen(3) by simp
  then show ?thesis
    using gen c(2) ts(1) s d(1) by blast
qed

text \<open>
  The defaults are enough: for every specification without canaries and without publishing strategies, once
  defaulted, the generator and all its resources are built without error and without panic, and
  each environment has its two services, named after it.
\<close>

lemma Apicast_defaults_build:
  assumes "aes_Canary (as_Staging spec) = None" "aes_Canary (as_Production spec) = None"
    and "aes_PublishingStrategies (as_Staging spec) = None" "aes_PublishingStrategies (as_Production spec) = None"
  shows "\<exists>gen ts dashboards. Apicast_NewGenerator J instance namespace (ApicastSpec_Default spec) = Some (Inr gen) \<and>
    Apicast_Resources L iter gen = Some (Inr (ts, dashboards)) \<and> (\<forall>t\<in>set ts. \<exists>o1. tp_Build t = Some (Inr o1)) \<and>
    sv_Name ` {s. OService s \<in> built ts} =
      {''apicast-staging-gateway-svc'', ''apicast-staging-management-svc'', ''apicast-production-gateway-svc'', ''apicast-production-management-svc''}"
proof -
  have "aes_Canary (sel (ApicastSpec_Default spec)) = None" if "sel = as_Staging \<or> sel = as_Production" for sel
    using that assms(1,2) by (auto simp: ApicastSpec_Default_def ApicastEnvironmentSpec_Default_def)
  then have no_canary: "canary_env J (ApicastSpec_Default spec) sel base env = Some (Inr None)" if "sel = as_Staging \<or> sel = as_Production" for sel base env
    using that by (simp add: canary_env_def)
  obtain gen where gen: "Apicast_NewGenerator J instance namespace (ApicastSpec_Default spec) = Some (Inr gen)"
      "default_env (ag_Staging gen)" "default_env (ag_Production gen)" "ag_CanaryStaging gen = None" "ag_CanaryProduction gen = None"
      "bo_Component (eg_Base (ag_Staging gen)) = ''apicast-staging''" "bo_Component (eg_Base (ag_Production gen)) = ''apicast-production''"
    using NewGenerator_defaulted [OF no_canary no_canary assms(3,4)] by blast
  obtain st where st: "Workload_New L iter (EnvGenerator_workload (ag_Staging gen)) None = Some (Inr st)"
      "\<forall>t\<in>set st. \<exists>o1. tp_Build t = Some (Inr o1)" "sv_Name ` {s. OService s \<in> built st} = env_services (ag_Staging gen)"
    using default_env_New [OF gen(2), of None L iter] by (metis option.distinct(1) option.simps(8))
  obtain pr where pr: "Workload_New L iter (EnvGenerator_workload (ag_Production gen)) None = Some (Inr pr)"
      "\<forall>t\<in>set pr. \<exists>o1. tp_Build t = Some (Inr o1)" "sv_Name ` {s. OService s \<in> built pr} = env_services (ag_Production gen)"
    using default_env_New [OF gen(3), of None L iter] by (metis option.distinct(1) option.simps(8))
  have "sv_Name ` {s. OService s \<in> built (st @ pr)} = env_services (ag_Staging gen) \<union> env_services (ag_Production gen)"
    using st(3) pr(3) by (simp add: Collect_disj_eq image_Un)
  also have "\<dots> = {''apicast-staging-gateway-svc'', ''apicast-staging-management-svc'',
      ''apicast-production-gateway-svc'', ''apicast-production-management-svc''}"
    by (simp only: env_services_def gen(6,7) append.simps Un_insert_left Un_empty_left)
  finally have names: "sv_Name ` {s. OService s \<in> built (st @ pr)} = \<dots>" .
  obtain dashboards where res: "Apicast_Resources L iter gen = Some (Inr (st @ pr, dashboards))"
    using st(1) pr(1) gen(4,5) by (simp add: Apicast_Resources_def)
  have "\<forall>t\<in>set (st @ pr). \<exists>o1. tp_Build t = Some (Inr o1)"
    using st(2) pr(2) by (simp add: ball_Un)
  with gen(1) res names show ?thesis by (intro exI conjI)
qed

end
