(* ===== verification/TwemproxySidecar.thy ===== *)
theory TwemproxySidecar
  imports Generators
begin

text \<open>
  The Twemproxy sidecar of the applications that reach a sharded Redis:
  \<^verbatim>\<open>api/v1alpha1/twemproxy_types.go\<close> and
  \<^verbatim>\<open>internal/pkg/resource_builders/twemproxy/{options,util}.go\<close>.
  Durations are in nanoseconds.
\<close>

section \<open>The specification\<close>

definition defaultTwemproxyProbe :: ProbeSpec where
  "defaultTwemproxyProbe = \<lparr>pr_InitialDelaySeconds = Some 0, pr_TimeoutSeconds = Some 1, pr_PeriodSeconds = Some 5,
     pr_SuccessThreshold = Some 1, pr_FailureThreshold = Some 3\<rparr>"

definition defaultTwemproxyImage :: ImageSpec where
  "defaultTwemproxyImage = \<lparr>img_Name = Some ''quay.io/3scale/twemproxy'', img_Tag = Some ''v0.5.0'',
     img_PullSecretName = None, img_PullPolicy = Some ''IfNotPresent''\<rparr>"

record TwemproxyOptions =
  to_LogLevel :: "int option"
  to_MetricsPort :: "int option"
  to_StatsInterval :: "int option"

definition TwemproxyOptions_Default :: "TwemproxyOptions \<Rightarrow> TwemproxyOptions" where
  "TwemproxyOptions_Default opts = \<lparr>to_LogLevel = orDefault (to_LogLevel opts) (Some 6),
     to_MetricsPort = orDefault (to_MetricsPort opts) (Some 9151),
     to_StatsInterval = (case to_StatsInterval opts of None \<Rightarrow> Some 10000000000 | Some i \<Rightarrow> Some i)\<rparr>"

record TwemproxySpec =
  tw_Image :: "ImageSpec option"
  tw_Resources :: "Resources option"
  tw_LivenessProbe :: "ProbeSpec option"
  tw_ReadinessProbe :: "ProbeSpec option"
  tw_TwemproxyConfigRef :: string
  tw_Options :: "TwemproxyOptions option"

definition TwemproxySpec_Default :: "TwemproxySpec \<Rightarrow> TwemproxySpec" where
  "TwemproxySpec_Default spec = spec\<lparr>
     tw_Image := Some (InitializeImageSpec (tw_Image spec) defaultTwemproxyImage),
     tw_Resources := Some (InitializeResourceRequirementsSpec (tw_Resources spec) no_ResourceRequirementsSpec),
     tw_LivenessProbe := Some (InitializeProbeSpec (tw_LivenessProbe spec) defaultTwemproxyProbe),
     tw_ReadinessProbe := Some (InitializeProbeSpec (tw_ReadinessProbe spec) defaultTwemproxyProbe),
     tw_Options := Some (TwemproxyOptions_Default (case tw_Options spec of
       None \<Rightarrow> \<lparr>to_LogLevel = None, to_MetricsPort = None, to_StatsInterval = None\<rparr> | Some o1 \<Rightarrow> o1))\<rparr>"

section \<open>The sidecar\<close>

definition TwemproxyConfigFile :: string where
  "TwemproxyConfigFile = ''/etc/twemproxy/nutcracker.yml''"

text \<open>Milliseconds, rounded towards zero.\<close>

definition Milliseconds :: "int \<Rightarrow> int" where
  "Milliseconds d = sgn d * (\<bar>d\<bar> div 1000000)"

definition twemproxy_NewOptions :: "TwemproxySpec \<Rightarrow> Options option" where
  "twemproxy_NewOptions spec =
     do { opts \<leftarrow> tw_Options spec;
          interval \<leftarrow> to_StatsInterval opts;
          add_options
           [(''TWEMPROXY_CONFIG_FILE'', id, Text TwemproxyConfigFile),
            (''TWEMPROXY_METRICS_ADDRESS'', id, case to_MetricsPort opts of None \<Rightarrow> NilPointer | Some p \<Rightarrow> Text ('':'' @ itoa p)),
            (''TWEMPROXY_STATS_INTERVAL'', id, Text (itoa (Milliseconds interval))),
            (''TWEMPROXY_LOG_LEVEL'', id, ptr_int (to_LogLevel opts))] }"

definition TwemproxyContainer :: "TwemproxySpec \<Rightarrow> AppContainer option" where
  "TwemproxyContainer spec =
     do { opts \<leftarrow> twemproxy_NewOptions spec;
          img \<leftarrow> tw_Image spec;
          image \<leftarrow> Image img;
          options \<leftarrow> tw_Options spec;
          port \<leftarrow> to_MetricsPort options;
          resources \<leftarrow> tw_Resources spec;
          pullPolicy \<leftarrow> img_PullPolicy img;
          livenessSpec \<leftarrow> tw_LivenessProbe spec;
          liveness \<leftarrow> ExecProbe ''health'' livenessSpec;
          readinessSpec \<leftarrow> tw_ReadinessProbe spec;
          readiness \<leftarrow> ExecProbe ''health'' readinessSpec;
          Some ((plain_container ''twemproxy'' image [] [(''twemproxy'', 22121), (''twem-metrics'', port)]
                   (BuildEnvironment opts) resources pullPolicy)
            \<lparr>ac_LivenessProbe := liveness, ac_ReadinessProbe := readiness, ac_PreStop := [''pre-stop'', TwemproxyConfigFile],
             ac_VolumeMounts := [(''twemproxy-config'', ''/etc/twemproxy'', False)]\<rparr>) }"

definition TwemproxyContainerVolume :: "TwemproxySpec \<Rightarrow> Volume" where
  "TwemproxyContainerVolume spec = ConfigMapVolume ''twemproxy-config'' (tw_TwemproxyConfigRef spec) 420"

definition TwemproxyPodSyncLabelKey :: string where
  "TwemproxyPodSyncLabelKey = ''saas.3scale.net'' @ ''/twemproxyconfig.sync''"

text \<open>The template of a pod is its labels and its specification.\<close>

definition AddTwemproxySidecar :: "labels option \<times> PodSpec \<Rightarrow> TwemproxySpec \<Rightarrow> (labels option \<times> PodSpec) option" where
  "AddTwemproxySidecar template spec =
     (case template of (labels, p) \<Rightarrow>
        do { container \<leftarrow> TwemproxyContainer spec;
             Some (Some (mergeMaps Map.empty [orEmpty labels, [TwemproxyPodSyncLabelKey \<mapsto> tw_TwemproxyConfigRef spec]]),
                   p\<lparr>pod_Containers := pod_Containers p @ [container], pod_Volumes := pod_Volumes p @ [TwemproxyContainerVolume spec]\<rparr>) })"

text \<open>The applications add the sidecar when the specification has one.\<close>

definition with_twemproxy :: "TwemproxySpec option \<Rightarrow> DeploymentSpec Deployment \<Rightarrow> DeploymentSpec Deployment option" where
  "with_twemproxy tw d =
     (case tw of
        None \<Rightarrow> Some d
      | Some spec \<Rightarrow>
          map_option (\<lambda>(labels, p). d\<lparr>dep_PodLabels := labels, dep_Spec := (dep_Spec d)\<lparr>dsp_Pod := p\<rparr>\<rparr>)
            (AddTwemproxySidecar (dep_PodLabels d, dsp_Pod (dep_Spec d)) spec))"

text \<open>
  A Tekton task: its parameters with description and default, the image and the environment of its
  steps, the steps, the sidecars and the volumes. A Tekton sidecar has the fields of the container it is
  made from.
\<close>

record Step =
  st_Name :: string
  st_Command :: "string list"
  st_Args :: "string list"
  st_ComputeResources :: Resources
  st_VolumeMounts :: "(string \<times> string \<times> bool) list"
  st_Timeout :: "int option"

record TaskSpec =
  tks_DisplayName :: string
  tks_Description :: string
  tks_Params :: "(string \<times> string \<times> string) list"
  tks_StepImage :: string
  tks_StepEnv :: "EnvVar list"
  tks_Steps :: "Step list"
  tks_Volumes :: "Volume list"
  tks_Sidecars :: "AppContainer list"

definition AddTwemproxyTaskSidecar :: "TaskSpec \<Rightarrow> TwemproxySpec \<Rightarrow> TaskSpec option" where
  "AddTwemproxyTaskSidecar taskSpec spec =
     do { container \<leftarrow> TwemproxyContainer spec;
          Some (taskSpec\<lparr>tks_Sidecars := tks_Sidecars taskSpec @ [container],
                  tks_Volumes := tks_Volumes taskSpec @ [TwemproxyContainerVolume spec]\<rparr>) }"

section \<open>What the defaults give\<close>

lemma TwemproxyContainer_defaulted: "TwemproxyContainer (TwemproxySpec_Default spec) \<noteq> None"
proof -
  let ?spec = "TwemproxySpec_Default spec"
  have opts: "to_MetricsPort (TwemproxyOptions_Default o1) \<noteq> None" "to_StatsInterval (TwemproxyOptions_Default o1) \<noteq> None" for o1
    by (simp_all add: TwemproxyOptions_Default_def orDefault_def split: option.split del: not_None_eq)
  have env: "twemproxy_NewOptions ?spec \<noteq> None"
    using opts
    by (simp add: twemproxy_NewOptions_def TwemproxySpec_Default_def bind_eq_None_conv add_options_None Text_total del: not_None_eq
        split: option.split)
  have probe: "ExecProbe ''health'' (InitializeProbeSpec p defaultTwemproxyProbe) \<noteq> None" for p
    unfolding ExecProbe_def by (rule probe_initialized) (simp_all add: defaultTwemproxyProbe_def)
  have img: "Image (InitializeImageSpec s defaultTwemproxyImage) \<noteq> None" "img_PullPolicy (InitializeImageSpec s defaultTwemproxyImage) \<noteq> None" for s
    by (rule image_of_default; simp add: defaultTwemproxyImage_def)+
  show ?thesis
    using env opts probe img unfolding TwemproxyContainer_def
    by (simp add: bind_eq_None_conv del: not_None_eq) (simp add: TwemproxySpec_Default_def del: not_None_eq)
qed

lemma with_twemproxy_defaulted: "with_twemproxy (map_option TwemproxySpec_Default tw) d \<noteq> None"
proof (cases tw)
  case (Some spec)
  then show ?thesis
    using TwemproxyContainer_defaulted [of spec] by (auto simp: with_twemproxy_def AddTwemproxySidecar_def)
qed (simp add: with_twemproxy_def)

text \<open>
  A pod with the sidecar mounts the config map of the TwemproxyConfig it names and carries the label
  by which the controller of that TwemproxyConfig finds it.
\<close>

lemma with_twemproxy_labels:
  assumes "with_twemproxy tw d = Some d'"
  shows "orEmpty (dep_PodLabels d') =
    (case tw of None \<Rightarrow> orEmpty (dep_PodLabels d)
     | Some spec \<Rightarrow> (orEmpty (dep_PodLabels d))(TwemproxyPodSyncLabelKey \<mapsto> tw_TwemproxyConfigRef spec))"
  using assms by (cases tw) (auto simp: with_twemproxy_def AddTwemproxySidecar_def bind_eq_Some_conv orEmpty_def)

lemma with_twemproxy_volume:
  assumes "with_twemproxy (Some spec) d = Some d'"
  shows "ConfigMapVolume ''twemproxy-config'' (tw_TwemproxyConfigRef spec) 420 \<in> set (pod_Volumes (dsp_Pod (dep_Spec d')))"
  using assms by (auto simp: with_twemproxy_def AddTwemproxySidecar_def bind_eq_Some_conv TwemproxyContainerVolume_def)

lemma twemproxy_no_traffic:
  assumes "with_twemproxy tw (deployment_with r s p) = Some d0"
  shows "orEmpty (dep_PodLabels d0) traffic_key = None"
proof -
  have "TwemproxyPodSyncLabelKey \<noteq> traffic_key"
    by (simp add: TwemproxyPodSyncLabelKey_def traffic_key_def)
  then show ?thesis
    using with_twemproxy_labels [OF assms] by (auto simp: deployment_with_def orEmpty_def split: option.splits)
qed

lemma rolling_no_traffic:
  "with_twemproxy tw (rolling_deployment r p cs a t) = Some d0 \<Longrightarrow> orEmpty (dep_PodLabels d0) traffic_key = None"
  unfolding rolling_deployment_def by (rule twemproxy_no_traffic)

end
