(* ===== verification/Backend.thy ===== *)
theory Backend
  imports TwemproxySidecar
begin

text \<open>
  Backend: the specification with its defaults and canaries (\<^verbatim>\<open>api/v1alpha1/backend_types.go\<close>), the
  environment of its components (\<^verbatim>\<open>internal/pkg/generators/backend/config/\<close>) and the generator of its
  resources (\<^verbatim>\<open>internal/pkg/generators/backend/\<close>): the listener, the worker and the cron, the first two
  with a possible canary, and the external secrets they read.
\<close>

section \<open>The specification\<close>

definition backendDefaultImage :: ImageSpec where
  "backendDefaultImage = \<lparr>img_Name = Some ''quay.io/3scale/apisonator'', img_Tag = Some ''nightly'',
     img_PullSecretName = None, img_PullPolicy = Some ''IfNotPresent''\<rparr>"

definition backendDefaultGrafanaDashboard :: GrafanaDashboardSpec where
  "backendDefaultGrafanaDashboard = \<lparr>gd_SelectorKey = Some ''monitoring-key'', gd_SelectorValue = Some ''middleware''\<rparr>"

text \<open>The defaults of the autoscaler and of the disruption budget are those of the listener and of the worker.\<close>

definition backendDefaultHPA :: HPASpec where
  "backendDefaultHPA = \<lparr>hpa_MinReplicas = Some 2, hpa_MaxReplicas = Some 4, hpa_ResourceName = Some ''cpu'',
     hpa_ResourceUtilization = Some 90, hpa_Behavior = None\<rparr>"

definition backendDefaultPDB :: PDBSpec where
  "backendDefaultPDB = \<lparr>pdb_MinAvailable = None, pdb_MaxUnavailable = Some (FromInt 1)\<rparr>"

definition backendDefaultListenerResources :: Resources where
  "backendDefaultListenerResources = \<lparr>rr_Limits = Some [(''cpu'', ''1''), (''memory'', ''700Mi'')],
     rr_Requests = Some [(''cpu'', ''500m''), (''memory'', ''550Mi'')], rr_Claims = None\<rparr>"

definition backendDefaultListenerLivenessProbe :: ProbeSpec where
  "backendDefaultListenerLivenessProbe = \<lparr>pr_InitialDelaySeconds = Some 30, pr_TimeoutSeconds = Some 1, pr_PeriodSeconds = Some 10,
     pr_SuccessThreshold = Some 1, pr_FailureThreshold = Some 3\<rparr>"

definition backendDefaultListenerReadinessProbe :: ProbeSpec where
  "backendDefaultListenerReadinessProbe = \<lparr>pr_InitialDelaySeconds = Some 30, pr_TimeoutSeconds = Some 5, pr_PeriodSeconds = Some 10,
     pr_SuccessThreshold = Some 1, pr_FailureThreshold = Some 3\<rparr>"

definition backendDefaultListenerMarin3rSpec :: defaultMarin3rSidecarSpec where
  "backendDefaultListenerMarin3rSpec = \<lparr>dm_Ports = None, dm_Resources = no_ResourceRequirementsSpec, dm_ExtraPodAnnotations = None\<rparr>"

definition backendDefaultWorkerResources :: Resources where
  "backendDefaultWorkerResources = \<lparr>rr_Limits = Some [(''cpu'', ''1''), (''memory'', ''300Mi'')],
     rr_Requests = Some [(''cpu'', ''150m''), (''memory'', ''50Mi'')], rr_Claims = None\<rparr>"

definition backendDefaultWorkerLivenessProbe :: ProbeSpec where
  "backendDefaultWorkerLivenessProbe = \<lparr>pr_InitialDelaySeconds = Some 10, pr_TimeoutSeconds = Some 3, pr_PeriodSeconds = Some 15,
     pr_SuccessThreshold = Some 1, pr_FailureThreshold = Some 3\<rparr>"

definition backendDefaultWorkerReadinessProbe :: ProbeSpec where
  "backendDefaultWorkerReadinessProbe = \<lparr>pr_InitialDelaySeconds = Some 10, pr_TimeoutSeconds = Some 5, pr_PeriodSeconds = Some 30,
     pr_SuccessThreshold = Some 1, pr_FailureThreshold = Some 3\<rparr>"

definition backendDefaultCronResources :: Resources where
  "backendDefaultCronResources = \<lparr>rr_Limits = Some [(''cpu'', ''150m''), (''memory'', ''150Mi'')],
     rr_Requests = Some [(''cpu'', ''50m''), (''memory'', ''50Mi'')], rr_Claims = None\<rparr>"

record ListenerConfig =
  lc_LogFormat :: "string option"
  lc_RedisAsync :: "bool option"
  lc_ListenerWorkers :: "int option"
  lc_LegacyReferrerFilters :: "bool option"

definition ListenerConfig_Default :: "ListenerConfig \<Rightarrow> ListenerConfig" where
  "ListenerConfig_Default cfg = \<lparr>lc_LogFormat = orDefault (lc_LogFormat cfg) (Some ''json''),
     lc_RedisAsync = orDefault (lc_RedisAsync cfg) (Some False), lc_ListenerWorkers = orDefault (lc_ListenerWorkers cfg) (Some 16),
     lc_LegacyReferrerFilters = orDefault (lc_LegacyReferrerFilters cfg) (Some True)\<rparr>"

record WorkerConfig =
  wc_LogFormat :: "string option"
  wc_RedisAsync :: "bool option"

definition WorkerConfig_Default :: "WorkerConfig \<Rightarrow> WorkerConfig" where
  "WorkerConfig_Default cfg = \<lparr>wc_LogFormat = orDefault (wc_LogFormat cfg) (Some ''json''),
     wc_RedisAsync = orDefault (wc_RedisAsync cfg) (Some False)\<rparr>"

record ListenerSpec =
  ls_Config :: "ListenerConfig option"
  ls_PDB :: "PDBSpec option"
  ls_HPA :: "HPASpec option"
  ls_Replicas :: "int option"
  ls_Resources :: "Resources option"
  ls_LivenessProbe :: "ProbeSpec option"
  ls_ReadinessProbe :: "ProbeSpec option"
  ls_NodeAffinity :: "string option"
  ls_Tolerations :: "string list"
  ls_Canary :: "Canary option"
  ls_PublishingStrategies :: "PublishingStrategies option"
  ls_Endpoint :: "string list option"
  ls_Marin3r :: "Marin3rSidecarSpec option"
  ls_LoadBalancer :: "NetworkLoadBalancerSpec option"

definition ListenerSpec_Default :: "ListenerSpec \<Rightarrow> ListenerSpec" where
  "ListenerSpec_Default spec = spec\<lparr>
     ls_HPA := Some (InitializeHorizontalPodAutoscalerSpec (ls_HPA spec) backendDefaultHPA),
     ls_Replicas := orDefault (ls_Replicas spec) (Some 2),
     ls_PDB := Some (InitializePodDisruptionBudgetSpec (ls_PDB spec) backendDefaultPDB),
     ls_Resources := Some (InitializeResourceRequirementsSpec (ls_Resources spec) backendDefaultListenerResources),
     ls_LivenessProbe := Some (InitializeProbeSpec (ls_LivenessProbe spec) backendDefaultListenerLivenessProbe),
     ls_ReadinessProbe := Some (InitializeProbeSpec (ls_ReadinessProbe spec) backendDefaultListenerReadinessProbe),
     ls_LoadBalancer := Some (InitializeNetworkLoadBalancerSpec (ls_LoadBalancer spec) DefaultNetworkLoadBalancerSpec),
     ls_Marin3r := Some (InitializeMarin3rSidecarSpec (ls_Marin3r spec) backendDefaultListenerMarin3rSpec),
     ls_PublishingStrategies := Some (InitializePublishingStrategies (ls_PublishingStrategies spec)),
     ls_Config := Some (ListenerConfig_Default (case ls_Config spec of
       None \<Rightarrow> \<lparr>lc_LogFormat = None, lc_RedisAsync = None, lc_ListenerWorkers = None, lc_LegacyReferrerFilters = None\<rparr>
     | Some c \<Rightarrow> c))\<rparr>"

record WorkerSpec =
  ws_Config :: "WorkerConfig option"
  ws_PDB :: "PDBSpec option"
  ws_HPA :: "HPASpec option"
  ws_Replicas :: "int option"
  ws_Resources :: "Resources option"
  ws_LivenessProbe :: "ProbeSpec option"
  ws_ReadinessProbe :: "ProbeSpec option"
  ws_NodeAffinity :: "string option"
  ws_Tolerations :: "string list"
  ws_Canary :: "Canary option"

definition no_WorkerSpec :: WorkerSpec where
  "no_WorkerSpec = \<lparr>ws_Config = None, ws_PDB = None, ws_HPA = None, ws_Replicas = None, ws_Resources = None,
     ws_LivenessProbe = None, ws_ReadinessProbe = None, ws_NodeAffinity = None, ws_Tolerations = [], ws_Canary = None\<rparr>"

definition WorkerSpec_Default :: "WorkerSpec \<Rightarrow> WorkerSpec" where
  "WorkerSpec_Default spec = spec\<lparr>
     ws_HPA := Some (InitializeHorizontalPodAutoscalerSpec (ws_HPA spec) backendDefaultHPA),
     ws_Replicas := orDefault (ws_Replicas spec) (Some 2),
     ws_PDB := Some (InitializePodDisruptionBudgetSpec (ws_PDB spec) backendDefaultPDB),
     ws_Resources := Some (InitializeResourceRequirementsSpec (ws_Resources spec) backendDefaultWorkerResources),
     ws_LivenessProbe := Some (InitializeProbeSpec (ws_LivenessProbe spec) backendDefaultWorkerLivenessProbe),
     ws_ReadinessProbe := Some (InitializeProbeSpec (ws_ReadinessProbe spec) backendDefaultWorkerReadinessProbe),
     ws_Config := Some (WorkerConfig_Default (case ws_Config spec of
       None \<Rightarrow> \<lparr>wc_LogFormat = None, wc_RedisAsync = None\<rparr> | Some c \<Rightarrow> c))\<rparr>"

record CronSpec =
  crs_Replicas :: "int option"
  crs_Resources :: "Resources option"
  crs_NodeAffinity :: "string option"
  crs_Tolerations :: "string list"

definition no_CronSpec :: CronSpec where
  "no_CronSpec = \<lparr>crs_Replicas = None, crs_Resources = None, crs_NodeAffinity = None, crs_Tolerations = []\<rparr>"

definition CronSpec_Default :: "CronSpec \<Rightarrow> CronSpec" where
  "CronSpec_Default spec = spec\<lparr>crs_Replicas := orDefault (crs_Replicas spec) (Some 1),
     crs_Resources := Some (InitializeResourceRequirementsSpec (crs_Resources spec) backendDefaultCronResources)\<rparr>"

record BackendConfig =
  bcf_RackEnv :: "string option"
  bcf_MasterServiceID :: "int option"
  bcf_RedisStorageDSN :: string
  bcf_RedisQueuesDSN :: string
  bcf_ExternalSecret :: ExternalSecret
  bcf_SystemEventsHookURL :: SecretReference
  bcf_SystemEventsHookPassword :: SecretReference
  bcf_InternalAPIUser :: SecretReference
  bcf_InternalAPIPassword :: SecretReference
  bcf_ErrorMonitoringService :: "SecretReference option"
  bcf_ErrorMonitoringKey :: "SecretReference option"

definition BackendConfig_Default :: "BackendConfig \<Rightarrow> BackendConfig" where
  "BackendConfig_Default cfg = cfg\<lparr>bcf_RackEnv := orDefault (bcf_RackEnv cfg) (Some ''dev''),
     bcf_MasterServiceID := orDefault (bcf_MasterServiceID cfg) (Some 6),
     bcf_ExternalSecret := ExternalSecret_Default (bcf_ExternalSecret cfg)\<rparr>"

record BackendSpec =
  bs_Image :: "ImageSpec option"
  bs_Config :: BackendConfig
  bs_GrafanaDashboard :: "GrafanaDashboardSpec option"
  bs_Listener :: ListenerSpec
  bs_Worker :: "WorkerSpec option"
  bs_Cron :: "CronSpec option"
  bs_Twemproxy :: "TwemproxySpec option"

definition BackendSpec_Default :: "BackendSpec \<Rightarrow> BackendSpec" where
  "BackendSpec_Default spec =
     \<lparr>bs_Image = Some (InitializeImageSpec (bs_Image spec) backendDefaultImage),
      bs_Config = BackendConfig_Default (bs_Config spec),
      bs_GrafanaDashboard = Some (InitializeGrafanaDashboardSpec (bs_GrafanaDashboard spec) backendDefaultGrafanaDashboard),
      bs_Listener = ListenerSpec_Default (bs_Listener spec),
      bs_Worker = Some (WorkerSpec_Default (case bs_Worker spec of None \<Rightarrow> no_WorkerSpec | Some w \<Rightarrow> w)),
      bs_Cron = Some (CronSpec_Default (case bs_Cron spec of None \<Rightarrow> no_CronSpec | Some c \<Rightarrow> c)),
      bs_Twemproxy = map_option TwemproxySpec_Default (bs_Twemproxy spec)\<rparr>"

text \<open>Setting a field of the image, the worker or the cron panics when it is nil.\<close>

definition set_backend_image :: "(ImageSpec \<Rightarrow> ImageSpec) \<Rightarrow> BackendSpec \<Rightarrow> BackendSpec option" where
  "set_backend_image f spec = map_option (\<lambda>i. spec\<lparr>bs_Image := Some (f i)\<rparr>) (bs_Image spec)"

definition BackendSpec_ResolveCanarySpec ::
    "(BackendSpec, 'doc, 'patch) json_lib \<Rightarrow> BackendSpec \<Rightarrow> Canary \<Rightarrow> BackendSpec result" where
  "BackendSpec_ResolveCanarySpec J spec canary =
     (case Canary_PatchSpec J canary spec of
        Inl e \<Rightarrow> Some (Inl e)
      | Inr canarySpec \<Rightarrow>
          do { canarySpec \<leftarrow> (case can_ImageName canary of
                 None \<Rightarrow> Some canarySpec | Some n \<Rightarrow> set_backend_image (\<lambda>i. i\<lparr>img_Name := Some n\<rparr>) canarySpec);
               canarySpec \<leftarrow> (case can_ImageTag canary of
                 None \<Rightarrow> Some canarySpec | Some t \<Rightarrow> set_backend_image (\<lambda>i. i\<lparr>img_Tag := Some t\<rparr>) canarySpec);
               worker \<leftarrow> bs_Worker canarySpec;
               cron \<leftarrow> bs_Cron canarySpec;
               Some (Inr (BackendSpec_Default (canarySpec\<lparr>
                 bs_Listener := (bs_Listener canarySpec)\<lparr>ls_Replicas := can_Replicas canary\<rparr>,
                 bs_Worker := Some (worker\<lparr>ws_Replicas := can_Replicas canary\<rparr>),
                 bs_Cron := Some (cron\<lparr>crs_Replicas := can_Replicas canary\<rparr>)\<rparr>))) })"

section \<open>The environment of the components\<close>

definition BackendInternalApiSecret :: string where "BackendInternalApiSecret = ''backend-internal-api''"

definition BackendErrorMonitoringSecret :: string where "BackendErrorMonitoringSecret = ''backend-error-monitoring''"

definition BackendSystemEventsSecret :: string where "BackendSystemEventsSecret = ''backend-system-events-hook''"

text \<open>The statements of the three functions, one row for each; a nil configuration of the component panics.\<close>

definition common_rows :: "BackendConfig \<Rightarrow> rows" where
  "common_rows cfg =
     [(''RACK_ENV'', id, ptr_text (bcf_RackEnv cfg)),
      (''CONFIG_REDIS_PROXY'', id, Text (bcf_RedisStorageDSN cfg)),
      (''CONFIG_REDIS_SENTINEL_HOSTS'', id, Text ''''),
      (''CONFIG_REDIS_SENTINEL_ROLE'', id, Text ''''),
      (''CONFIG_QUEUES_MASTER_NAME'', id, Text (bcf_RedisQueuesDSN cfg)),
      (''CONFIG_QUEUES_SENTINEL_HOSTS'', id, Text ''''),
      (''CONFIG_QUEUES_SENTINEL_ROLE'', id, Text '''')]"

definition error_monitoring_rows :: "BackendConfig \<Rightarrow> rows" where
  "error_monitoring_rows cfg =
     [(''CONFIG_HOPTOAD_SERVICE'', secret_ref BackendErrorMonitoringSecret ''backend-error-monitoring-service'',
        ptr_secret (bcf_ErrorMonitoringService cfg)),
      (''CONFIG_HOPTOAD_API_KEY'', secret_ref BackendErrorMonitoringSecret ''backend-error-monitoring-api-key'',
        ptr_secret (bcf_ErrorMonitoringKey cfg))]"

definition listener_rows :: "BackendConfig \<Rightarrow> ListenerConfig \<Rightarrow> rows" where
  "listener_rows cfg lc = common_rows cfg @
     [(''CONFIG_MASTER_SERVICE_ID'', id, ptr_int (bcf_MasterServiceID cfg)),
      (''CONFIG_REQUEST_LOGGERS'', id, ptr_text (lc_LogFormat lc)),
      (''CONFIG_REDIS_ASYNC'', id, ptr_bool (lc_RedisAsync lc)),
      (''LISTENER_WORKERS'', id, ptr_int (lc_ListenerWorkers lc)),
      (''CONFIG_LEGACY_REFERRER_FILTERS'', id, ptr_bool (lc_LegacyReferrerFilters lc)),
      (''CONFIG_LISTENER_PROMETHEUS_METRICS_ENABLED'', id, Text ''true''),
      (''CONFIG_INTERNAL_API_USER'', secret_ref BackendInternalApiSecret ''backend-internal-api-user'', Secret (bcf_InternalAPIUser cfg)),
      (''CONFIG_INTERNAL_API_PASSWORD'', secret_ref BackendInternalApiSecret ''backend-internal-api-password'',
        Secret (bcf_InternalAPIPassword cfg))] @ error_monitoring_rows cfg"

definition worker_rows :: "BackendConfig \<Rightarrow> WorkerConfig \<Rightarrow> rows" where
  "worker_rows cfg wc = common_rows cfg @
     [(''CONFIG_MASTER_SERVICE_ID'', id, ptr_int (bcf_MasterServiceID cfg)),
      (''CONFIG_REDIS_ASYNC'', id, ptr_bool (wc_RedisAsync wc)),
      (''CONFIG_WORKERS_LOGGER_FORMATTER'', id, ptr_text (wc_LogFormat wc)),
      (''CONFIG_WORKER_PROMETHEUS_METRICS_ENABLED'', id, Text ''true''),
      (''CONFIG_WORKER_PROMETHEUS_METRICS_PORT'', id, Text ''9421''),
      (''CONFIG_EVENTS_HOOK'', secret_ref BackendSystemEventsSecret ''system-events-url'', Secret (bcf_SystemEventsHookURL cfg)),
      (''CONFIG_EVENTS_HOOK_SHARED_SECRET'', secret_ref BackendSystemEventsSecret ''system-events-shared-secret'',
        Secret (bcf_SystemEventsHookPassword cfg))] @ error_monitoring_rows cfg"

definition NewListenerOptions :: "BackendSpec \<Rightarrow> Options option" where
  "NewListenerOptions spec =
     do { lc \<leftarrow> ls_Config (bs_Listener spec);
          add_options (listener_rows (bs_Config spec) lc) }"

definition NewWorkerOptions :: "BackendSpec \<Rightarrow> Options option" where
  "NewWorkerOptions spec =
     do { worker \<leftarrow> bs_Worker spec;
          wc \<leftarrow> ws_Config worker;
          add_options (worker_rows (bs_Config spec) wc) }"

definition NewCronOptions :: "BackendSpec \<Rightarrow> Options option" where
  "NewCronOptions spec = add_options (common_rows (bs_Config spec) @ error_monitoring_rows (bs_Config spec))"

section \<open>The workloads\<close>

record ListenerGenerator =
  lg_Base :: BaseOptionsV2
  lg_Image :: ImageSpec
  lg_ListenerSpec :: ListenerSpec
  lg_Options :: Options
  lg_Traffic :: bool
  lg_TwemproxySpec :: "TwemproxySpec option"

definition listener_args :: "bool \<Rightarrow> string list" where
  "listener_args redisAsync =
     (if redisAsync then [''bin/3scale_backend'', ''-s'', ''falcon'', ''start''] else [''bin/3scale_backend'', ''start''])
       @ [''-e'', ''production'', ''-p'', ''3000'', ''-x'', ''/dev/stdout'']"

definition ListenerGenerator_deployment :: "ListenerGenerator \<Rightarrow> DeploymentSpec Deployment option" where
  "ListenerGenerator_deployment gen =
     (let spec = lg_ListenerSpec gen; img = lg_Image gen in
      do { name \<leftarrow> Image img;
           lc \<leftarrow> ls_Config spec;
           redisAsync \<leftarrow> lc_RedisAsync lc;
           resources \<leftarrow> ls_Resources spec;
           pullPolicy \<leftarrow> img_PullPolicy img;
           livenessSpec \<leftarrow> ls_LivenessProbe spec;
           liveness \<leftarrow> TCPProbe (FromString ''http'') livenessSpec;
           readinessSpec \<leftarrow> ls_ReadinessProbe spec;
           readiness \<leftarrow> HTTPProbe ''/status'' (FromString ''http'') ''HTTP'' readinessSpec;
           with_twemproxy (lg_TwemproxySpec gen)
             (rolling_deployment (ls_Replicas spec) (ImagePullSecrets (img_PullSecretName img))
                [(plain_container ''backend-listener'' name (listener_args redisAsync) [(''http'', 3000), (''metrics'', 9394)]
                    (BuildEnvironment (lg_Options gen)) resources pullPolicy)
                   \<lparr>ac_LivenessProbe := liveness, ac_ReadinessProbe := readiness\<rparr>]
                (Affinity (GetSelector (lg_Base gen)) (ls_NodeAffinity spec)) (ls_Tolerations spec)) })"

definition twemproxy_endpoint :: "TwemproxySpec option \<Rightarrow> PodMetricsEndpoint list" where
  "twemproxy_endpoint tw = (case tw of None \<Rightarrow> [] | Some _ \<Rightarrow> [PodMetricsEndpoint ''/metrics'' ''twem-metrics'' 30])"

definition ListenerGenerator_MonitoredEndpoints :: "ListenerGenerator \<Rightarrow> PodMetricsEndpoint list" where
  "ListenerGenerator_MonitoredEndpoints gen =
     [PodMetricsEndpoint ''/metrics'' ''metrics'' 30, PodMetricsEndpoint ''/stats/prometheus'' ''envoy-metrics'' 60]
       @ twemproxy_endpoint (lg_TwemproxySpec gen)"

definition ListenerGenerator_TrafficSelector :: labels where
  "ListenerGenerator_TrafficSelector = [traffic_key \<mapsto> ''backend-listener'']"

definition ListenerGenerator_PublishingStrategies :: "ListenerGenerator \<Rightarrow> error + ServiceDescriptor list" where
  "ListenerGenerator_PublishingStrategies gen =
     MergeWithDefaultPublishingStrategy backend_DefaultListenerPublishingStrategy (ls_PublishingStrategies (lg_ListenerSpec gen))"

definition ListenerGenerator_workload :: "ListenerGenerator \<Rightarrow> (DeploymentSpec, string) workload" where
  "ListenerGenerator_workload gen =
     \<lparr>w_Key = GetKey (lg_Base gen), w_Labels = GetLabels (lg_Base gen), w_Selector = GetSelector (lg_Base gen),
      w_MonitoredEndpoints = ListenerGenerator_MonitoredEndpoints gen, w_HPASpec = ls_HPA (lg_ListenerSpec gen),
      w_PDBSpec = ls_PDB (lg_ListenerSpec gen), w_Deployment = ListenerGenerator_deployment gen,
      w_Canary = Some (lg_Traffic gen, ListenerGenerator_TrafficSelector),
      w_PublishingStrategies = Some (ListenerGenerator_PublishingStrategies gen)\<rparr>"

record WorkerGenerator =
  wg_Base :: BaseOptionsV2
  wg_Image :: ImageSpec
  wg_WorkerSpec :: WorkerSpec
  wg_Options :: Options
  wg_TwemproxySpec :: "TwemproxySpec option"

definition WorkerGenerator_deployment :: "WorkerGenerator \<Rightarrow> DeploymentSpec Deployment option" where
  "WorkerGenerator_deployment gen =
     (let spec = wg_WorkerSpec gen; img = wg_Image gen in
      do { name \<leftarrow> Image img;
           resources \<leftarrow> ws_Resources spec;
           pullPolicy \<leftarrow> img_PullPolicy img;
           livenessSpec \<leftarrow> ws_LivenessProbe spec;
           liveness \<leftarrow> HTTPProbe ''/metrics'' (FromString ''metrics'') ''HTTP'' livenessSpec;
           readinessSpec \<leftarrow> ws_ReadinessProbe spec;
           readiness \<leftarrow> HTTPProbe ''/metrics'' (FromString ''metrics'') ''HTTP'' readinessSpec;
           with_twemproxy (wg_TwemproxySpec gen)
             (rolling_deployment (ws_Replicas spec) (ImagePullSecrets (img_PullSecretName img))
                [(plain_container ''backend-worker'' name [''bin/3scale_backend_worker'', ''run''] [(''metrics'', 9421)]
                    (BuildEnvironment (wg_Options gen)) resources pullPolicy)
                   \<lparr>ac_LivenessProbe := liveness, ac_ReadinessProbe := readiness\<rparr>]
                (Affinity (GetSelector (wg_Base gen)) (ws_NodeAffinity spec)) (ws_Tolerations spec)) })"

definition WorkerGenerator_workload :: "WorkerGenerator \<Rightarrow> (DeploymentSpec, string) workload" where
  "WorkerGenerator_workload gen =
     \<lparr>w_Key = GetKey (wg_Base gen), w_Labels = GetLabels (wg_Base gen), w_Selector = GetSelector (wg_Base gen),
      w_MonitoredEndpoints = PodMetricsEndpoint ''/metrics'' ''metrics'' 30 # twemproxy_endpoint (wg_TwemproxySpec gen),
      w_HPASpec = ws_HPA (wg_WorkerSpec gen), w_PDBSpec = ws_PDB (wg_WorkerSpec gen), w_Deployment = WorkerGenerator_deployment gen,
      w_Canary = None, w_PublishingStrategies = None\<rparr>"

record CronGenerator =
  cg_Base :: BaseOptionsV2
  cg_Image :: ImageSpec
  cg_CronSpec :: CronSpec
  cg_Options :: Options

definition CronGenerator_deployment :: "CronGenerator \<Rightarrow> DeploymentSpec Deployment option" where
  "CronGenerator_deployment gen =
     (let spec = cg_CronSpec gen; img = cg_Image gen in
      do { name \<leftarrow> Image img;
           resources \<leftarrow> crs_Resources spec;
           pullPolicy \<leftarrow> img_PullPolicy img;
           Some (rolling_deployment (crs_Replicas spec) (ImagePullSecrets (img_PullSecretName img))
             [plain_container ''backend-cron'' name [''backend-cron''] [] (BuildEnvironment (cg_Options gen)) resources pullPolicy]
             (Affinity (GetSelector (cg_Base gen)) (crs_NodeAffinity spec)) (crs_Tolerations spec)) })"

definition CronGenerator_workload :: "CronGenerator \<Rightarrow> (DeploymentSpec, string) workload" where
  "CronGenerator_workload gen =
     \<lparr>w_Key = GetKey (cg_Base gen), w_Labels = GetLabels (cg_Base gen), w_Selector = GetSelector (cg_Base gen),
      w_MonitoredEndpoints = [], w_HPASpec = Some no_HorizontalPodAutoscalerSpec, w_PDBSpec = Some no_PodDisruptionBudgetSpec,
      w_Deployment = CronGenerator_deployment gen, w_Canary = None, w_PublishingStrategies = None\<rparr>"

section \<open>The generator\<close>

record BackendGenerator =
  bg_Base :: BaseOptionsV2
  bg_Listener :: ListenerGenerator
  bg_CanaryListener :: "ListenerGenerator option"
  bg_Worker :: WorkerGenerator
  bg_CanaryWorker :: "WorkerGenerator option"
  bg_Cron :: CronGenerator
  bg_GrafanaDashboardSpec :: GrafanaDashboardSpec
  bg_Config :: BackendConfig

definition backend_base :: "string \<Rightarrow> string \<Rightarrow> string \<Rightarrow> string \<Rightarrow> BaseOptionsV2" where
  "backend_base instance namespace component element =
     \<lparr>bo_Component = component, bo_InstanceName = instance, bo_Namespace = namespace,
      bo_Labels = [''app'' \<mapsto> ''3scale-api-management'', ''threescale_component'' \<mapsto> ''backend'',
        ''threescale_component_element'' \<mapsto> element]\<rparr>"

definition main_listener :: "string \<Rightarrow> string \<Rightarrow> BackendSpec \<Rightarrow> ImageSpec \<Rightarrow> Options \<Rightarrow> ListenerGenerator" where
  "main_listener instance namespace spec img opts =
     \<lparr>lg_Base = backend_base instance namespace ''backend-listener'' ''listener'', lg_Image = img, lg_ListenerSpec = bs_Listener spec,
      lg_Options = opts, lg_Traffic = True, lg_TwemproxySpec = bs_Twemproxy spec\<rparr>"

definition canary_listener :: "string \<Rightarrow> string \<Rightarrow> BackendSpec \<Rightarrow> ImageSpec \<Rightarrow> Options \<Rightarrow> bool \<Rightarrow> ListenerGenerator" where
  "canary_listener instance namespace canarySpec img opts sendTraffic =
     \<lparr>lg_Base = backend_base instance namespace ''backend-listener-canary'' ''canary-listener'', lg_Image = img,
      lg_ListenerSpec = (bs_Listener canarySpec)\<lparr>ls_HPA := Some no_HorizontalPodAutoscalerSpec, ls_PDB := Some no_PodDisruptionBudgetSpec\<rparr>,
      lg_Options = opts, lg_Traffic = sendTraffic, lg_TwemproxySpec = bs_Twemproxy canarySpec\<rparr>"

definition resolve_listener_canary ::
    "(BackendSpec, 'doc, 'patch) json_lib \<Rightarrow> string \<Rightarrow> string \<Rightarrow> BackendSpec \<Rightarrow> ListenerGenerator option result" where
  "resolve_listener_canary J instance namespace spec =
     (case ls_Canary (bs_Listener spec) of
        None \<Rightarrow> Some (Inr None)
      | Some canary \<Rightarrow>
          do { r \<leftarrow> BackendSpec_ResolveCanarySpec J spec canary;
               case r of
                 Inl e \<Rightarrow> Some (Inl e)
               | Inr canarySpec \<Rightarrow>
                   do { img \<leftarrow> bs_Image canarySpec;
                        opts \<leftarrow> NewListenerOptions canarySpec;
                        Some (Inr (Some (canary_listener instance namespace canarySpec img opts (can_SendTraffic canary)))) } })"

definition resolve_worker_canary ::
    "(BackendSpec, 'doc, 'patch) json_lib \<Rightarrow> string \<Rightarrow> string \<Rightarrow> BackendSpec \<Rightarrow> WorkerSpec \<Rightarrow> WorkerGenerator option result" where
  "resolve_worker_canary J instance namespace spec worker =
     (case ws_Canary worker of
        None \<Rightarrow> Some (Inr None)
      | Some canary \<Rightarrow>
          do { r \<leftarrow> BackendSpec_ResolveCanarySpec J spec canary;
               case r of
                 Inl e \<Rightarrow> Some (Inl e)
               | Inr canarySpec \<Rightarrow>
                   do { img \<leftarrow> bs_Image canarySpec;
                        canaryWorker \<leftarrow> bs_Worker canarySpec;
                        opts \<leftarrow> NewWorkerOptions canarySpec;
                        Some (Inr (Some
                          \<lparr>wg_Base = backend_base instance namespace ''backend-worker-canary'' ''canary-worker'', wg_Image = img,
                           wg_WorkerSpec = canaryWorker\<lparr>ws_HPA := Some no_HorizontalPodAutoscalerSpec, ws_PDB := Some no_PodDisruptionBudgetSpec\<rparr>,
                           wg_Options = opts, wg_TwemproxySpec = bs_Twemproxy canarySpec\<rparr>)) } })"

definition Backend_NewGenerator ::
    "(BackendSpec, 'doc, 'patch) json_lib \<Rightarrow> string \<Rightarrow> string \<Rightarrow> BackendSpec \<Rightarrow> BackendGenerator result" where
  "Backend_NewGenerator J instance namespace spec =
     do { img \<leftarrow> bs_Image spec;
          listenerOpts \<leftarrow> NewListenerOptions spec;
          worker \<leftarrow> bs_Worker spec;
          workerOpts \<leftarrow> NewWorkerOptions spec;
          cron \<leftarrow> bs_Cron spec;
          cronOpts \<leftarrow> NewCronOptions spec;
          dashboard \<leftarrow> bs_GrafanaDashboard spec;
          l \<leftarrow> resolve_listener_canary J instance namespace spec;
          case l of
            Inl e \<Rightarrow> Some (Inl e)
          | Inr canaryListener \<Rightarrow>
              do { w \<leftarrow> resolve_worker_canary J instance namespace spec worker;
                   Some (map_sum id (\<lambda>canaryWorker.
                     \<lparr>bg_Base = \<lparr>bo_Component = ''backend'', bo_InstanceName = instance, bo_Namespace = namespace,
                        bo_Labels = [''app'' \<mapsto> ''3scale-api-management'', ''threescale_component'' \<mapsto> ''backend'']\<rparr>,
                      bg_Listener = main_listener instance namespace spec img listenerOpts,
                      bg_CanaryListener = canaryListener,
                      bg_Worker = \<lparr>wg_Base = backend_base instance namespace ''backend-worker'' ''worker'', wg_Image = img,
                        wg_WorkerSpec = worker, wg_Options = workerOpts, wg_TwemproxySpec = bs_Twemproxy spec\<rparr>,
                      bg_CanaryWorker = canaryWorker,
                      bg_Cron = \<lparr>cg_Base = backend_base instance namespace ''backend-cron'' ''cron'', cg_Image = img,
                        cg_CronSpec = cron, cg_Options = cronOpts\<rparr>,
                      bg_GrafanaDashboardSpec = dashboard, bg_Config = bs_Config spec\<rparr>) w) } }"

definition backend_external_secrets :: "BackendGenerator \<Rightarrow> ExternalSecretResource list option" where
  "backend_external_secrets gen =
     do { store \<leftarrow> es_SecretStoreRef (bcf_ExternalSecret (bg_Config gen));
          name \<leftarrow> ss_Name store;
          kind \<leftarrow> ss_Kind store;
          refresh \<leftarrow> es_RefreshInterval (bcf_ExternalSecret (bg_Config gen));
          Some (GenerateExternalSecrets (bo_Namespace (bg_Base gen)) (GetLabels (bg_Base gen)) name kind refresh
            (Options_Union [lg_Options (bg_Listener gen), wg_Options (bg_Worker gen), cg_Options (bg_Cron gen)])) }"

definition Backend_Resources ::
    "envoy_lib \<Rightarrow> config_iter \<Rightarrow> BackendGenerator
       \<Rightarrow> ((DeploymentSpec, string) template list \<times> ExternalSecretResource list \<times> bool \<times> key \<times> labels \<times> string) result" where
  "Backend_Resources L iter gen =
     do { l \<leftarrow> Workload_New L iter (ListenerGenerator_workload (bg_Listener gen))
                 (map_option ListenerGenerator_workload (bg_CanaryListener gen));
          case l of
            Inl e \<Rightarrow> Some (Inl e)
          | Inr listener \<Rightarrow>
              do { w \<leftarrow> Workload_New L iter (WorkerGenerator_workload (bg_Worker gen))
                          (map_option WorkerGenerator_workload (bg_CanaryWorker gen));
                   case w of
                     Inl e \<Rightarrow> Some (Inl e)
                   | Inr worker \<Rightarrow>
                       do { c \<leftarrow> Workload_New L iter (CronGenerator_workload (bg_Cron gen)) None;
                            case c of
                              Inl e \<Rightarrow> Some (Inl e)
                            | Inr cron \<Rightarrow>
                                do { secrets \<leftarrow> backend_external_secrets gen;
                                     Some (Inr (listener @ worker @ cron, secrets,
                                       dashboard_of (bg_Base gen) (bo_Component (bg_Base gen)) (bg_GrafanaDashboardSpec gen)
                                         ''dashboards/backend.json.gtpl'')) } } } }"

section \<open>Traffic\<close>

lemma listener_simps [simp]:
  "w_Key (ListenerGenerator_workload gen) = GetKey (lg_Base gen)" "w_Selector (ListenerGenerator_workload gen) = GetSelector (lg_Base gen)"
  "w_Canary (ListenerGenerator_workload gen) = Some (lg_Traffic gen, ListenerGenerator_TrafficSelector)"
  "traffic_of (ListenerGenerator_workload gen) = [traffic_key \<mapsto> ''backend-listener'']"
  "sends_traffic (ListenerGenerator_workload gen) = lg_Traffic gen"
  by (simp_all add: ListenerGenerator_workload_def traffic_of_def ListenerGenerator_TrafficSelector_def sends_traffic_def)

lemma listener_identifiable: "identifiable (ListenerGenerator_workload gen)"
  by (simp add: identifiable_def GetSelector_def)

text \<open>The listener and its canary share the traffic selector and are told apart by the name of the deployment.\<close>

interpretation listener_pair:
  routed_pair "ListenerGenerator_workload (main_listener instance namespace spec img opts)"
    "ListenerGenerator_workload (canary_listener instance namespace canarySpec canaryImg canaryOpts sendTraffic)"
  for "instance" namespace spec img opts canarySpec canaryImg canaryOpts sendTraffic
proof
  have "GetSelector (lg_Base (main_listener instance namespace spec img opts)) PodSelectorKey = Some ''backend-listener''"
    "GetSelector (lg_Base (canary_listener instance namespace canarySpec canaryImg canaryOpts sendTraffic)) PodSelectorKey =
       Some ''backend-listener-canary''"
    by (simp_all add: GetSelector_def main_listener_def canary_listener_def backend_base_def)
  then show "\<exists>k v v'. w_Selector (ListenerGenerator_workload (main_listener instance namespace spec img opts)) k = Some v \<and>
      w_Selector (ListenerGenerator_workload (canary_listener instance namespace canarySpec canaryImg canaryOpts sendTraffic)) k = Some v' \<and>
      v \<noteq> v' \<and> traffic_of (ListenerGenerator_workload (main_listener instance namespace spec img opts)) k = None"
    by - (rule exI [of _ PodSelectorKey], simp)
qed (simp_all add: listener_identifiable)

text \<open>What the generator makes of a specification.\<close>

lemma resolve_listener_canary_Some:
  assumes "resolve_listener_canary J instance namespace spec = Some (Inr (Some g))"
  obtains canary canarySpec img opts where "ls_Canary (bs_Listener spec) = Some canary"
    "g = canary_listener instance namespace canarySpec img opts (can_SendTraffic canary)"
proof -
  obtain canary where c: "ls_Canary (bs_Listener spec) = Some canary"
    using assms by (auto simp: resolve_listener_canary_def split: option.splits)
  with assms obtain r where r: "BackendSpec_ResolveCanarySpec J spec canary = Some r"
    by (auto simp: resolve_listener_canary_def bind_eq_Some_conv)
  with assms c that show thesis
    by (cases r) (auto simp: resolve_listener_canary_def bind_eq_Some_conv)
qed

lemma resolve_worker_canary_Some:
  assumes "resolve_worker_canary J instance namespace spec worker = Some (Inr (Some g))"
  shows "wg_Base g = backend_base instance namespace ''backend-worker-canary'' ''canary-worker''"
proof -
  obtain canary where c: "ws_Canary worker = Some canary"
    using assms by (auto simp: resolve_worker_canary_def split: option.splits)
  with assms obtain r where r: "BackendSpec_ResolveCanarySpec J spec canary = Some r"
    by (auto simp: resolve_worker_canary_def bind_eq_Some_conv)
  with assms c show ?thesis
    by (cases r) (auto simp: resolve_worker_canary_def bind_eq_Some_conv)
qed

lemma NewGenerator_parts:
  assumes "Backend_NewGenerator J instance namespace spec = Some (Inr gen)"
  obtains img opts worker cron where "bs_Image spec = Some img" "NewListenerOptions spec = Some opts"
    "bg_Listener gen = main_listener instance namespace spec img opts"
    "resolve_listener_canary J instance namespace spec = Some (Inr (bg_CanaryListener gen))"
    "bs_Worker spec = Some worker" "NewWorkerOptions spec = Some (wg_Options (bg_Worker gen))"
    "wg_Base (bg_Worker gen) = backend_base instance namespace ''backend-worker'' ''worker''"
    "resolve_worker_canary J instance namespace spec worker = Some (Inr (bg_CanaryWorker gen))"
    "NewCronOptions spec = Some (cg_Options (bg_Cron gen))"
    "cg_Base (bg_Cron gen) = backend_base instance namespace ''backend-cron'' ''cron''"
    "bg_Config gen = bs_Config spec"
proof -
  obtain img lo worker wo cron co db l where A: "bs_Image spec = Some img" "NewListenerOptions spec = Some lo" "bs_Worker spec = Some worker"
      "NewWorkerOptions spec = Some wo" "bs_Cron spec = Some cron" "NewCronOptions spec = Some co" "bs_GrafanaDashboard spec = Some db"
      "resolve_listener_canary J instance namespace spec = Some l"
    using assms unfolding Backend_NewGenerator_def bind_eq_Some_conv by blast
  then obtain cl where cl: "l = Inr cl"
    using assms by (cases l) (simp_all add: Backend_NewGenerator_def)
  with A obtain w where w: "resolve_worker_canary J instance namespace spec worker = Some w"
    using assms by (auto simp: Backend_NewGenerator_def bind_eq_Some_conv)
  then obtain cw where "w = Inr cw"
    using assms A cl by (cases w) (simp_all add: Backend_NewGenerator_def)
  with that [of img lo worker] assms A cl w show thesis
    by (auto simp: Backend_NewGenerator_def)
qed

lemma Resources_parts:
  assumes "Backend_Resources L iter gen = Some (Inr (ts, secrets, dashboard))"
  obtains l w c where "ts = l @ w @ c" "backend_external_secrets gen = Some secrets"
    "Workload_New L iter (ListenerGenerator_workload (bg_Listener gen)) (map_option ListenerGenerator_workload (bg_CanaryListener gen)) = Some (Inr l)"
    "Workload_New L iter (WorkerGenerator_workload (bg_Worker gen)) (map_option WorkerGenerator_workload (bg_CanaryWorker gen)) = Some (Inr w)"
    "Workload_New L iter (CronGenerator_workload (bg_Cron gen)) None = Some (Inr c)"
proof -
  obtain lr where l: "Workload_New L iter (ListenerGenerator_workload (bg_Listener gen))
      (map_option ListenerGenerator_workload (bg_CanaryListener gen)) = Some lr"
    using assms by (auto simp: Backend_Resources_def bind_eq_Some_conv)
  then obtain l' where l': "lr = Inr l'"
    using assms by (cases lr) (simp_all add: Backend_Resources_def)
  with l obtain wr where w: "Workload_New L iter (WorkerGenerator_workload (bg_Worker gen))
      (map_option WorkerGenerator_workload (bg_CanaryWorker gen)) = Some wr"
    using assms by (auto simp: Backend_Resources_def bind_eq_Some_conv)
  then obtain w' where w': "wr = Inr w'"
    using assms l l' by (cases wr) (simp_all add: Backend_Resources_def)
  with l l' w obtain cr where c: "Workload_New L iter (CronGenerator_workload (bg_Cron gen)) None = Some cr"
    using assms by (auto simp: Backend_Resources_def bind_eq_Some_conv)
  then obtain c' where "cr = Inr c'"
    using assms l l' w w' by (cases cr) (simp_all add: Backend_Resources_def)
  with that [of l' w' c'] assms l l' w w' c show thesis
    by (auto simp: Backend_Resources_def bind_eq_Some_conv)
qed

text \<open>The pods of the worker and of the cron have no traffic label, and no service.\<close>

lemma plain_pods:
  assumes "w_Canary w = None" "w_Labels w = GetLabels (backend_base instance namespace component element)"
    and "w_Selector w = GetSelector (backend_base instance namespace component element)"
    and "orEmpty (dep_PodLabels d0) traffic_key = None"
  shows "pod_labels (deployment_of specs w d0) traffic_key = None"
  using assms
  by (intro plain_workload_pods) (simp_all add: GetLabels_def GetSelector_def backend_base_def traffic_key_def PodSelectorKey_def)

lemma worker_deployment_labels: "WorkerGenerator_deployment gen = Some d0 \<Longrightarrow> orEmpty (dep_PodLabels d0) traffic_key = None"
  by (auto simp: WorkerGenerator_deployment_def Let_def bind_eq_Some_conv dest: rolling_no_traffic)

lemma cron_deployment_labels: "CronGenerator_deployment gen = Some d0 \<Longrightarrow> orEmpty (dep_PodLabels d0) traffic_key = None"
  by (auto simp: CronGenerator_deployment_def Let_def bind_eq_Some_conv rolling_deployment_def deployment_with_def orEmpty_def)

text \<open>The selector of the services of the listener names the traffic label.\<close>

lemma listener_service_selector:
  assumes "service_selector (ListenerGenerator_workload g) (map_option ListenerGenerator_workload c) = Some sel" "lg_Traffic g"
  shows "sel traffic_key = Some ''backend-listener''"
  using assms
  by (cases c) (auto simp: service_selector_def trafficSwitcher_def enabled_selectors_def ListenerGenerator_TrafficSelector_def split: bool.splits)

definition listener_receives :: "BackendSpec \<Rightarrow> string \<Rightarrow> bool" where
  "listener_receives spec name \<longleftrightarrow> name = ''backend-listener'' \<or>
     name = ''backend-listener-canary'' \<and> (\<exists>canary. ls_Canary (bs_Listener spec) = Some canary \<and> can_SendTraffic canary)"

lemma listener_routes:
  assumes "Backend_NewGenerator J instance namespace spec = Some (Inr gen)"
    and "Workload_New L iter (ListenerGenerator_workload (bg_Listener gen)) (map_option ListenerGenerator_workload (bg_CanaryListener gen)) = Some (Inr ts)"
    and "OService s \<in> built ts" "ODeployment d \<in> built ts"
  shows "selects (sv_Selector s) (pod_labels d) \<longleftrightarrow> listener_receives spec (dep_Name d)"
proof -
  obtain img opts where main: "bg_Listener gen = main_listener instance namespace spec img opts"
    and canary: "resolve_listener_canary J instance namespace spec = Some (Inr (bg_CanaryListener gen))"
    by (rule NewGenerator_parts [OF assms(1)])
  let ?w = "ListenerGenerator_workload (bg_Listener gen)"
  let ?specs = "sidecars_of ?w"
  have sends: "lg_Traffic (bg_Listener gen)" and name: "fst (w_Key ?w) = ''backend-listener''"
    by (simp_all add: main main_listener_def backend_base_def GetKey_def)
  show ?thesis
  proof (cases "bg_CanaryListener gen")
    case None
    have "service_selector ?w None = Some (sv_Selector s)"
      using built_New(5) [OF assms(2,3)] None by simp
    then have "sv_Selector s = GetSelector (lg_Base (bg_Listener gen)) ++ traffic_of ?w"
      using sends by (auto simp: service_selector_def trafficSwitcher_def enabled_selectors_def ListenerGenerator_TrafficSelector_def)
    moreover obtain d0 where "d = deployment_of ?specs ?w d0"
      using assms(4) None by (auto simp: built_New(1) [OF assms(2)] workloads_def)
    ultimately show ?thesis
      using selects_iff(1) [OF listener_identifiable, of "bg_Listener gen" ?specs d0] name by (simp add: listener_receives_def)
  next
    case (Some g)
    then obtain c canarySpec canaryImg canaryOpts where c: "ls_Canary (bs_Listener spec) = Some c"
      and g: "g = canary_listener instance namespace canarySpec canaryImg canaryOpts (can_SendTraffic c)"
      using resolve_listener_canary_Some canary by metis
    have New: "Workload_New L iter ?w (Some (ListenerGenerator_workload g)) = Some (Inr ts)"
      using assms(2) Some by simp
    have gname: "fst (w_Key (ListenerGenerator_workload g)) = ''backend-listener-canary''" and gsends: "lg_Traffic g = can_SendTraffic c"
      by (simp_all add: g canary_listener_def backend_base_def GetKey_def)
    note routes = listener_pair.New_routes [OF New [unfolded main g] assms(3), folded main g]
    obtain w d0 where "w = ?w \<or> w = ListenerGenerator_workload g" "d = deployment_of ?specs w d0"
      using assms(4) by (auto simp: built_New(1) [OF New] workloads_def)
    then show ?thesis
    proof (elim disjE)
      assume "w = ?w" "d = deployment_of ?specs w d0"
      then show ?thesis
        using routes(1) [of ?specs d0] name sends by (simp add: listener_receives_def)
    next
      assume "w = ListenerGenerator_workload g" "d = deployment_of ?specs w d0"
      then show ?thesis
        using routes(2) [of ?specs d0] gname gsends c by (simp add: listener_receives_def)
    qed
  qed
qed

lemma plain_workloads:
  assumes "Backend_NewGenerator J instance namespace spec = Some (Inr gen)"
    and "Workload_New L iter (WorkerGenerator_workload (bg_Worker gen)) (map_option WorkerGenerator_workload (bg_CanaryWorker gen)) = Some (Inr w)"
    and "Workload_New L iter (CronGenerator_workload (bg_Cron gen)) None = Some (Inr c)"
  shows "OService s \<notin> built w \<union> built c"
    and "ODeployment d \<in> built w \<union> built c \<Longrightarrow> pod_labels d traffic_key = None \<and> \<not> listener_receives spec (dep_Name d)"
proof -
  obtain worker where base: "wg_Base (bg_Worker gen) = backend_base instance namespace ''backend-worker'' ''worker''"
      "cg_Base (bg_Cron gen) = backend_base instance namespace ''backend-cron'' ''cron''"
    and canary: "resolve_worker_canary J instance namespace spec worker = Some (Inr (bg_CanaryWorker gen))"
    by (rule NewGenerator_parts [OF assms(1)])
  have none: "service_selector (WorkerGenerator_workload g) x = None" "service_selector (CronGenerator_workload g') x = None" for g g' x
    by (simp_all add: service_selector_def WorkerGenerator_workload_def CronGenerator_workload_def)
  show "OService s \<notin> built w \<union> built c"
    using built_New(5) [OF assms(2)] built_New(5) [OF assms(3)] none by auto
  have W: "pod_labels (deployment_of specs (WorkerGenerator_workload g) d0) traffic_key = None \<and>
      \<not> listener_receives spec (fst (w_Key (WorkerGenerator_workload g)))"
    if g: "wg_Base g = backend_base instance namespace n e" "n = ''backend-worker'' \<or> n = ''backend-worker-canary''"
      and d0: "w_Deployment (WorkerGenerator_workload g) = Some d0" for g n e specs d0
  proof
    show "pod_labels (deployment_of specs (WorkerGenerator_workload g) d0) traffic_key = None"
      using g(1) d0 worker_deployment_labels by (intro plain_pods [of _ "instance" namespace n e]) (simp_all add: WorkerGenerator_workload_def)
    show "\<not> listener_receives spec (fst (w_Key (WorkerGenerator_workload g)))"
      using g by (auto simp: listener_receives_def WorkerGenerator_workload_def GetKey_def backend_base_def)
  qed
  have C: "pod_labels (deployment_of specs (CronGenerator_workload (bg_Cron gen)) d0) traffic_key = None \<and>
      \<not> listener_receives spec (fst (w_Key (CronGenerator_workload (bg_Cron gen))))"
    if d0: "w_Deployment (CronGenerator_workload (bg_Cron gen)) = Some d0" for specs d0
  proof
    show "pod_labels (deployment_of specs (CronGenerator_workload (bg_Cron gen)) d0) traffic_key = None"
      using base(2) d0 cron_deployment_labels
      by (intro plain_pods [of _ "instance" namespace "''backend-cron''" "''cron''"]) (simp_all add: CronGenerator_workload_def)
    show "\<not> listener_receives spec (fst (w_Key (CronGenerator_workload (bg_Cron gen))))"
      using base(2) by (simp add: listener_receives_def CronGenerator_workload_def GetKey_def backend_base_def)
  qed
  show "pod_labels d traffic_key = None \<and> \<not> listener_receives spec (dep_Name d)" if "ODeployment d \<in> built w \<union> built c"
    using that
  proof
    assume "ODeployment d \<in> built w"
    then obtain w0 d0 where w0: "w0 \<in> set (workloads (WorkerGenerator_workload (bg_Worker gen)) (map_option WorkerGenerator_workload (bg_CanaryWorker gen)))"
        "w_Deployment w0 = Some d0" "d = deployment_of (sidecars_of (WorkerGenerator_workload (bg_Worker gen))) w0 d0"
      unfolding built_New(1) [OF assms(2)] by blast
    from w0(1) have "w0 = WorkerGenerator_workload (bg_Worker gen) \<or> (\<exists>g. bg_CanaryWorker gen = Some g \<and> w0 = WorkerGenerator_workload g)"
      by (cases "bg_CanaryWorker gen") (simp_all add: workloads_def)
    then show ?thesis
    proof (elim disjE exE conjE)
      assume "w0 = WorkerGenerator_workload (bg_Worker gen)"
      then show ?thesis
        using W [OF base(1) disjI1 [OF refl]] w0(2,3) by (simp only: deployment_of_simps simp_thms)
    next
      fix g
      assume "bg_CanaryWorker gen = Some g" "w0 = WorkerGenerator_workload g"
      then show ?thesis
        using W [OF resolve_worker_canary_Some disjI2 [OF refl]] canary w0(2,3) by (simp only: deployment_of_simps simp_thms)
    qed
  next
    assume "ODeployment d \<in> built c"
    then show ?thesis
      using C by (auto simp: built_New(1) [OF assms(3)] workloads_def)
  qed
qed

lemma Backend_routes:
  assumes "Backend_NewGenerator J instance namespace spec = Some (Inr gen)"
    and "Backend_Resources L iter gen = Some (Inr (ts, secrets, dashboard))"
    and "OService s \<in> built ts" "ODeployment d \<in> built ts"
  shows "selects (sv_Selector s) (pod_labels d) \<longleftrightarrow> listener_receives spec (dep_Name d)"
proof -
  obtain l w c where ts: "ts = l @ w @ c"
    and New: "Workload_New L iter (ListenerGenerator_workload (bg_Listener gen)) (map_option ListenerGenerator_workload (bg_CanaryListener gen)) = Some (Inr l)"
      "Workload_New L iter (WorkerGenerator_workload (bg_Worker gen)) (map_option WorkerGenerator_workload (bg_CanaryWorker gen)) = Some (Inr w)"
      "Workload_New L iter (CronGenerator_workload (bg_Cron gen)) None = Some (Inr c)"
    by (rule Resources_parts [OF assms(2)])
  note plain = plain_workloads [OF assms(1) New(2,3)]
  have s: "OService s \<in> built l"
    using assms(3) plain(1) [of s] by (simp add: ts)
  have "lg_Traffic (bg_Listener gen)"
    by (rule NewGenerator_parts [OF assms(1)]) (simp add: main_listener_def)
  then have "sv_Selector s traffic_key = Some ''backend-listener''"
    using listener_service_selector built_New(5) [OF New(1) s] by blast
  then have other: "\<not> selects (sv_Selector s) (pod_labels d)" if "pod_labels d traffic_key = None"
    using that by (auto simp: selects_def map_le_def dom_def)
  consider "ODeployment d \<in> built l" | "ODeployment d \<in> built w \<union> built c"
    using assms(4) by (auto simp: ts)
  then show ?thesis
  proof cases
    case 1
    then show ?thesis by (rule listener_routes [OF assms(1) New(1) s])
  next
    case 2
    show ?thesis using plain(2) [OF 2] other by (simp only: simp_thms)
  qed
qed

section \<open>Secrets\<close>

definition config_refs :: "BackendConfig \<Rightarrow> SecretReference set" where
  "config_refs cfg = {bcf_SystemEventsHookURL cfg, bcf_SystemEventsHookPassword cfg, bcf_InternalAPIUser cfg, bcf_InternalAPIPassword cfg}
     \<union> set_option (bcf_ErrorMonitoringService cfg) \<union> set_option (bcf_ErrorMonitoringKey cfg)"

lemma secret_names [simp]:
  "BackendInternalApiSecret \<noteq> DefaultSeedSecret" "BackendErrorMonitoringSecret \<noteq> DefaultSeedSecret" "BackendSystemEventsSecret \<noteq> DefaultSeedSecret"
  by (simp_all add: BackendInternalApiSecret_def BackendErrorMonitoringSecret_def BackendSystemEventsSecret_def DefaultSeedSecret_def)

definition backend_rows :: "BackendConfig \<Rightarrow> ListenerConfig \<Rightarrow> WorkerConfig \<Rightarrow> rows list" where
  "backend_rows cfg lc wc = [listener_rows cfg lc, worker_rows cfg wc, common_rows cfg @ error_monitoring_rows cfg]"

lemma backend_rows_ok: "\<forall>r\<in>config_refs cfg. complete_ref r \<Longrightarrow> \<forall>row\<in>set (concat (backend_rows cfg lc wc)). row_ok row"
  by (simp add: backend_rows_def listener_rows_def worker_rows_def common_rows_def error_monitoring_rows_def config_refs_def row_ok_simps)

definition plain_value :: "unpackable \<Rightarrow> bool" where
  "plain_value v \<longleftrightarrow> (case v of Secret _ \<Rightarrow> False | _ \<Rightarrow> True)"

lemma plain_values [simp]:
  "plain_value (Text s)" "plain_value (ptr_text t)" "plain_value (ptr_int i)" "plain_value (ptr_bool b)"
  by (simp_all add: plain_value_def ptr_text_def ptr_int_def ptr_bool_def split: option.split)

definition secret_rows :: "BackendConfig \<Rightarrow> rows" where
  "secret_rows cfg =
     [(''CONFIG_INTERNAL_API_USER'', secret_ref BackendInternalApiSecret ''backend-internal-api-user'', Secret (bcf_InternalAPIUser cfg)),
      (''CONFIG_INTERNAL_API_PASSWORD'', secret_ref BackendInternalApiSecret ''backend-internal-api-password'',
        Secret (bcf_InternalAPIPassword cfg)),
      (''CONFIG_EVENTS_HOOK'', secret_ref BackendSystemEventsSecret ''system-events-url'', Secret (bcf_SystemEventsHookURL cfg)),
      (''CONFIG_EVENTS_HOOK_SHARED_SECRET'', secret_ref BackendSystemEventsSecret ''system-events-shared-secret'',
        Secret (bcf_SystemEventsHookPassword cfg))] @ error_monitoring_rows cfg"

lemma backend_same_secrets: "same_secrets (concat (backend_rows cfg lc wc))"
proof -
  let ?rows = "concat (backend_rows cfg lc wc)"
  have "\<forall>row\<in>set ?rows. plain_value (snd (snd row)) \<or> row \<in> set (secret_rows cfg)"
    by (simp add: backend_rows_def listener_rows_def worker_rows_def common_rows_def error_monitoring_rows_def secret_rows_def)
  then have secret: "(e, c, v) \<in> set (secret_rows cfg)" if "(e, c, v) \<in> set ?rows" "\<not> plain_value v" for e c v
    using bspec [of _ _ "(e, c, v)"] that by (metis snd_conv)
  have "\<forall>x\<in>set (secret_rows cfg). \<forall>y\<in>set ?rows. fst y = fst x \<longrightarrow> y = x"
    by (simp add: secret_rows_def backend_rows_def listener_rows_def worker_rows_def common_rows_def error_monitoring_rows_def)
  then have all: "c' = c \<and> v' = v" if "(e, c, v) \<in> set (secret_rows cfg)" "(e, c', v') \<in> set ?rows" for e c v c' v'
    using that by (metis fst_conv prod.inject)
  show ?thesis
    unfolding same_secrets_def
  proof (intro ballI, clarsimp split: unpackable.splits)
    fix e c r rows e' c' v'
    show "c' = c \<and> v' = Secret r"
      if "rows \<in> set (backend_rows cfg lc wc)" "(e, c, Secret r) \<in> set rows" "rows' \<in> set (backend_rows cfg lc wc)" "(e, c', v') \<in> set rows'" for rows'
    proof (rule all)
      show "(e, c, Secret r) \<in> set (secret_rows cfg)"
        using that(1,2) by (intro secret) (auto simp: plain_value_def)
      show "(e, c', v') \<in> set ?rows"
        using that(3,4) by auto
    qed
  qed
qed

section \<open>Defaults suffice\<close>

lemma rows_total:
  "add_options (listener_rows cfg lc) \<noteq> None" "add_options (worker_rows cfg wc) \<noteq> None"
  "add_options (common_rows cfg @ error_monitoring_rows cfg) \<noteq> None"
  by (simp_all add: add_options_None listener_rows_def worker_rows_def common_rows_def error_monitoring_rows_def Text_total Secret_total bool_total
      BackendInternalApiSecret_def BackendErrorMonitoringSecret_def BackendSystemEventsSecret_def del: not_None_eq)

lemma Options_defaulted:
  "NewListenerOptions (BackendSpec_Default spec) \<noteq> None" "NewWorkerOptions (BackendSpec_Default spec) \<noteq> None"
  "NewCronOptions (BackendSpec_Default spec) \<noteq> None"
  using rows_total
  by (simp_all add: NewListenerOptions_def NewWorkerOptions_def NewCronOptions_def BackendSpec_Default_def ListenerSpec_Default_def
      WorkerSpec_Default_def del: not_None_eq)

lemma backend_image:
  "Image (InitializeImageSpec s backendDefaultImage) \<noteq> None" "img_PullPolicy (InitializeImageSpec s backendDefaultImage) \<noteq> None"
  by (rule image_of_default; simp add: backendDefaultImage_def)+

lemma listener_deployment_defaulted:
  assumes "lg_Image gen = InitializeImageSpec i backendDefaultImage" "lg_TwemproxySpec gen = map_option TwemproxySpec_Default tw"
    and "lg_ListenerSpec gen = (ListenerSpec_Default s)\<lparr>ls_HPA := h, ls_PDB := p\<rparr>"
  shows "ListenerGenerator_deployment gen \<noteq> None"
proof -
  have probes: "TCPProbe q (InitializeProbeSpec l backendDefaultListenerLivenessProbe) \<noteq> None"
      "HTTPProbe path q sch (InitializeProbeSpec l backendDefaultListenerReadinessProbe) \<noteq> None" for q path sch l
    unfolding TCPProbe_def HTTPProbe_def
    by (rule probe_initialized; simp add: backendDefaultListenerLivenessProbe_def backendDefaultListenerReadinessProbe_def)+
  have "lc_RedisAsync (ListenerConfig_Default c) \<noteq> None" for c
    by (simp add: ListenerConfig_Default_def orDefault_def del: not_None_eq)
  with probes backend_image with_twemproxy_defaulted assms show ?thesis
    by (simp add: ListenerGenerator_deployment_def ListenerSpec_Default_def Let_def bind_eq_None_conv del: not_None_eq)
qed

lemma worker_deployment_defaulted:
  assumes "wg_Image gen = InitializeImageSpec i backendDefaultImage" "wg_TwemproxySpec gen = map_option TwemproxySpec_Default tw"
    and "wg_WorkerSpec gen = (WorkerSpec_Default s)\<lparr>ws_HPA := h, ws_PDB := p\<rparr>"
  shows "WorkerGenerator_deployment gen \<noteq> None"
proof -
  have probes: "HTTPProbe path q sch (InitializeProbeSpec l backendDefaultWorkerLivenessProbe) \<noteq> None"
      "HTTPProbe path q sch (InitializeProbeSpec l backendDefaultWorkerReadinessProbe) \<noteq> None" for q path sch l
    unfolding TCPProbe_def HTTPProbe_def
    by (rule probe_initialized; simp add: backendDefaultWorkerLivenessProbe_def backendDefaultWorkerReadinessProbe_def)+
  with backend_image with_twemproxy_defaulted assms show ?thesis
    by (simp add: WorkerGenerator_deployment_def WorkerSpec_Default_def Let_def bind_eq_None_conv del: not_None_eq)
qed

lemma cron_deployment_defaulted:
  assumes "cg_Image gen = InitializeImageSpec i backendDefaultImage" "cg_CronSpec gen = CronSpec_Default s"
  shows "CronGenerator_deployment gen \<noteq> None"
  using assms backend_image
  by (simp add: CronGenerator_deployment_def CronSpec_Default_def Let_def bind_eq_None_conv del: not_None_eq)

text \<open>The generator of a defaulted specification, with or without canaries.\<close>

definition defaulted_generator :: "BackendGenerator \<Rightarrow> bool" where
  "defaulted_generator gen \<longleftrightarrow>
     (\<forall>g\<in>{bg_Listener gen} \<union> set_option (bg_CanaryListener gen).
        has_specs (ListenerGenerator_workload g) \<and> ListenerGenerator_deployment g \<noteq> None) \<and>
     (\<forall>g\<in>{bg_Worker gen} \<union> set_option (bg_CanaryWorker gen).
        has_specs (WorkerGenerator_workload g) \<and> WorkerGenerator_deployment g \<noteq> None) \<and>
     CronGenerator_deployment (bg_Cron gen) \<noteq> None \<and> backend_external_secrets gen \<noteq> None"

lemma backend_defaults:
  "backend_DefaultListenerPublishingStrategy = simple_defaults [(''HTTP'', [TCPPort ''http'' 80 (FromString ''http'')])]"
  by (simp add: backend_DefaultListenerPublishingStrategy_def simple_defaults_def)

lemma defaulted_Resources:
  assumes "defaulted_generator gen" "ListenerGenerator_PublishingStrategies (bg_Listener gen) = Inr backend_DefaultListenerPublishingStrategy"
  obtains ts secrets dashboard where "Backend_Resources L iter gen = Some (Inr (ts, secrets, dashboard))"
    "\<forall>t\<in>set ts. \<exists>o1. tp_Build t = Some (Inr o1)"
    "sv_Name ` {s. OService s \<in> built ts} = {bo_Component (lg_Base (bg_Listener gen)) @ ''-http-svc''}"
proof -
  let ?l = "ListenerGenerator_workload (bg_Listener gen)" and ?lc = "map_option ListenerGenerator_workload (bg_CanaryListener gen)"
  let ?w = "WorkerGenerator_workload (bg_Worker gen)" and ?wc = "map_option WorkerGenerator_workload (bg_CanaryWorker gen)"
  let ?c = "CronGenerator_workload (bg_Cron gen)"
  have dep: "w_Deployment (ListenerGenerator_workload g) = ListenerGenerator_deployment g"
    "w_Deployment (WorkerGenerator_workload g') = WorkerGenerator_deployment g'"
    "w_Deployment (CronGenerator_workload g'') = CronGenerator_deployment g''" for g g' g''
    by (simp_all add: ListenerGenerator_workload_def WorkerGenerator_workload_def CronGenerator_workload_def)
  have L: "\<forall>w\<in>set (workloads ?l ?lc). has_specs w \<and> w_Deployment w \<noteq> None"
    using assms(1) by (cases "bg_CanaryListener gen") (simp_all add: workloads_def dep defaulted_generator_def del: not_None_eq)
  have W: "\<forall>w\<in>set (workloads ?w ?wc). has_specs w \<and> w_Deployment w \<noteq> None"
    using assms(1) by (cases "bg_CanaryWorker gen") (simp_all add: workloads_def dep defaulted_generator_def del: not_None_eq)
  have C: "\<forall>w\<in>set (workloads ?c None). has_specs w \<and> w_Deployment w \<noteq> None"
    using assms(1) by (simp add: workloads_def dep defaulted_generator_def has_specs_def CronGenerator_workload_def [of "bg_Cron gen"] del: not_None_eq)
  have lps: "\<forall>e. w_PublishingStrategies ?l \<noteq> Some (Inl e)" "strategies_of ?l = simple_defaults [(''HTTP'', [TCPPort ''http'' 80 (FromString ''http'')])]"
    using assms(2) by (simp_all add: ListenerGenerator_workload_def strategies_of_def backend_defaults)
  have wps: "\<forall>e. w_PublishingStrategies ?w \<noteq> Some (Inl e)" "strategies_of ?w = simple_defaults []"
    "\<forall>e. w_PublishingStrategies ?c \<noteq> Some (Inl e)" "strategies_of ?c = simple_defaults []"
    by (simp_all add: WorkerGenerator_workload_def CronGenerator_workload_def strategies_of_def simple_defaults_def)
  have sel: "service_selector ?l ?lc \<noteq> None"
    by (cases "bg_CanaryListener gen") (simp_all add: service_selector_def)
  obtain l where l: "Workload_New L iter ?l ?lc = Some (Inr l)" "\<forall>t\<in>set l. \<exists>o1. tp_Build t = Some (Inr o1)"
      "sv_Name ` {s. OService s \<in> built l} = {bo_Component (lg_Base (bg_Listener gen)) @ ''-http-svc''}"
    by (rule default_New [OF L lps disjI2 [OF sel], of L iter]) (simp add: GetKey_def lower_http)
  obtain w where w: "Workload_New L iter ?w ?wc = Some (Inr w)" "\<forall>t\<in>set w. \<exists>o1. tp_Build t = Some (Inr o1)" "{s. OService s \<in> built w} = {}"
    by (rule default_New [OF W wps(1,2) disjI1 [OF refl], of L iter]) simp
  obtain c where c: "Workload_New L iter ?c None = Some (Inr c)" "\<forall>t\<in>set c. \<exists>o1. tp_Build t = Some (Inr o1)" "{s. OService s \<in> built c} = {}"
    by (rule default_New [OF C wps(3,4) disjI1 [OF refl], of L iter]) simp
  obtain secrets where secrets: "backend_external_secrets gen = Some secrets"
    using assms(1) by (auto simp: defaulted_generator_def)
  obtain dashboard where R: "Backend_Resources L iter gen = Some (Inr (l @ w @ c, secrets, dashboard))"
    by (simp add: Backend_Resources_def l(1) w(1) c(1) secrets)
  show thesis
  proof (rule that [OF R])
    show "\<forall>t\<in>set (l @ w @ c). \<exists>o1. tp_Build t = Some (Inr o1)"
      using l(2) w(2) c(2) by (simp add: ball_Un)
    have "{s. OService s \<in> built (l @ w @ c)} = {s. OService s \<in> built l}"
      using w(3) c(3) by auto
    then show "sv_Name ` {s. OService s \<in> built (l @ w @ c)} = {bo_Component (lg_Base (bg_Listener gen)) @ ''-http-svc''}"
      using l(3) by simp
  qed
qed

lemma Backend_NewGenerator_defaulted:
  assumes l: "resolve_listener_canary J instance namespace (BackendSpec_Default spec) = Some (Inr cl)"
    and w: "\<And>worker. bs_Worker (BackendSpec_Default spec) = Some worker \<Longrightarrow>
      resolve_worker_canary J instance namespace (BackendSpec_Default spec) worker = Some (Inr None)"
    and cl: "\<forall>g\<in>set_option cl. has_specs (ListenerGenerator_workload g) \<and> ListenerGenerator_deployment g \<noteq> None"
    and ps: "ls_PublishingStrategies (bs_Listener spec) = None"
  obtains gen where "Backend_NewGenerator J instance namespace (BackendSpec_Default spec) = Some (Inr gen)" "defaulted_generator gen"
    "ListenerGenerator_PublishingStrategies (bg_Listener gen) = Inr backend_DefaultListenerPublishingStrategy"
    "bo_Component (lg_Base (bg_Listener gen)) = ''backend-listener''" "bg_CanaryListener gen = cl"
proof -
  let ?spec = "BackendSpec_Default spec"
  obtain lo wo co where opts: "NewListenerOptions ?spec = Some lo" "NewWorkerOptions ?spec = Some wo" "NewCronOptions ?spec = Some co"
    using Options_defaulted by blast
  obtain worker cron db where parts: "bs_Image ?spec = Some (InitializeImageSpec (bs_Image spec) backendDefaultImage)"
      "bs_Worker ?spec = Some (WorkerSpec_Default worker)" "bs_Cron ?spec = Some (CronSpec_Default cron)" "bs_GrafanaDashboard ?spec = Some db"
      "bs_Twemproxy ?spec = map_option TwemproxySpec_Default (bs_Twemproxy spec)" "bs_Listener ?spec = ListenerSpec_Default (bs_Listener spec)"
    by (simp add: BackendSpec_Default_def)
  obtain gen where gen: "Backend_NewGenerator J instance namespace ?spec = Some (Inr gen)"
    and g: "bg_Listener gen = main_listener instance namespace ?spec (InitializeImageSpec (bs_Image spec) backendDefaultImage) lo"
      "bg_CanaryListener gen = cl" "bg_CanaryWorker gen = None" "bg_Config gen = bs_Config ?spec"
      "wg_Image (bg_Worker gen) = InitializeImageSpec (bs_Image spec) backendDefaultImage" "wg_WorkerSpec (bg_Worker gen) = WorkerSpec_Default worker"
      "wg_TwemproxySpec (bg_Worker gen) = map_option TwemproxySpec_Default (bs_Twemproxy spec)"
      "cg_Image (bg_Cron gen) = InitializeImageSpec (bs_Image spec) backendDefaultImage" "cg_CronSpec (bg_Cron gen) = CronSpec_Default cron"
    using opts parts l w [OF parts(2)] by (simp add: Backend_NewGenerator_def)
  have main: "lg_ListenerSpec (bg_Listener gen) = ListenerSpec_Default (bs_Listener spec)"
    by (simp add: g main_listener_def parts)
  have "ListenerGenerator_deployment (bg_Listener gen) \<noteq> None"
  proof (rule listener_deployment_defaulted)
    show "lg_ListenerSpec (bg_Listener gen) = (ListenerSpec_Default (bs_Listener spec))
        \<lparr>ls_HPA := ls_HPA (ListenerSpec_Default (bs_Listener spec)), ls_PDB := ls_PDB (ListenerSpec_Default (bs_Listener spec))\<rparr>"
      by (simp add: main)
  qed (simp_all add: g main_listener_def parts)
  moreover have "WorkerGenerator_deployment (bg_Worker gen) \<noteq> None"
  proof (rule worker_deployment_defaulted)
    show "wg_WorkerSpec (bg_Worker gen) = (WorkerSpec_Default worker)
        \<lparr>ws_HPA := ws_HPA (WorkerSpec_Default worker), ws_PDB := ws_PDB (WorkerSpec_Default worker)\<rparr>"
      by (simp add: g)
  qed (simp_all add: g)
  moreover have "CronGenerator_deployment (bg_Cron gen) \<noteq> None"
    by (rule cron_deployment_defaulted [OF g(8,9)])
  moreover have "has_specs (ListenerGenerator_workload (bg_Listener gen))" "has_specs (WorkerGenerator_workload (bg_Worker gen))"
    using main by (simp_all add: has_specs_def ListenerGenerator_workload_def WorkerGenerator_workload_def g(6) ListenerSpec_Default_def WorkerSpec_Default_def)
  moreover have "backend_external_secrets gen \<noteq> None"
    by (simp add: backend_external_secrets_def g BackendSpec_Default_def BackendConfig_Default_def ExternalSecret_Default_def
        InitializeExternalSecretSecretStoreReferenceSpec_def SecretStoreReference_Default_def defaultExternalSecretSecretStoreReference_def
        orDefault_def bind_eq_None_conv split: option.split del: not_None_eq)
  ultimately have "defaulted_generator gen"
    using cl g(2,3) by (simp add: defaulted_generator_def del: not_None_eq)
  moreover have "ListenerGenerator_PublishingStrategies (bg_Listener gen) = Inr backend_DefaultListenerPublishingStrategy"
    using ps default_strategies by (simp add: ListenerGenerator_PublishingStrategies_def main ListenerSpec_Default_def backend_defaults)
  moreover have "bo_Component (lg_Base (bg_Listener gen)) = ''backend-listener''"
    by (simp add: g main_listener_def backend_base_def)
  ultimately show thesis
    using that [OF gen] g(2) by (simp only:)
qed

section \<open>A specification to run the model on\<close>

definition vault_ref :: "string \<Rightarrow> SecretReference" where
  "vault_ref key = \<lparr>sr_FromVault = Some (''secret/data/backend'', key), sr_Override = None, sr_FromSeed = None\<rparr>"

definition demo_backend :: "Canary option \<Rightarrow> BackendSpec" where
  "demo_backend canary =
     \<lparr>bs_Image = None,
      bs_Config = \<lparr>bcf_RackEnv = None, bcf_MasterServiceID = None, bcf_RedisStorageDSN = ''storage'', bcf_RedisQueuesDSN = ''queues'',
        bcf_ExternalSecret = \<lparr>es_SecretStoreRef = None, es_RefreshInterval = None\<rparr>, bcf_SystemEventsHookURL = vault_ref ''url'',
        bcf_SystemEventsHookPassword = vault_ref ''password'', bcf_InternalAPIUser = vault_ref ''user'',
        bcf_InternalAPIPassword = vault_ref ''pass'', bcf_ErrorMonitoringService = None, bcf_ErrorMonitoringKey = None\<rparr>,
      bs_GrafanaDashboard = None,
      bs_Listener = \<lparr>ls_Config = None, ls_PDB = None, ls_HPA = None, ls_Replicas = None, ls_Resources = None, ls_LivenessProbe = None,
        ls_ReadinessProbe = None, ls_NodeAffinity = None, ls_Tolerations = [], ls_Canary = canary, ls_PublishingStrategies = None,
        ls_Endpoint = None, ls_Marin3r = None, ls_LoadBalancer = None\<rparr>,
      bs_Worker = None, bs_Cron = None, bs_Twemproxy = None\<rparr>"

definition backend_canary :: Canary where
  "backend_canary = \<lparr>can_SendTraffic = True, can_ImageName = None, can_ImageTag = None, can_Replicas = None, can_Patches = []\<rparr>"

definition backend_json :: "(BackendSpec, BackendSpec, unit) json_lib" where
  "backend_json = \<lparr>js_Marshal = Inr, js_Unmarshal = Inr, js_DecodePatch = (\<lambda>_. Inr ()), js_Apply = (\<lambda>_. Inr)\<rparr>"

lemma demo_listener_canary:
  obtains g where "resolve_listener_canary backend_json ''cr'' ''ns'' (BackendSpec_Default (demo_backend (Some backend_canary))) = Some (Inr (Some g))"
    "has_specs (ListenerGenerator_workload g)" "ListenerGenerator_deployment g \<noteq> None"
    "bo_Component (lg_Base g) = ''backend-listener-canary''"
proof -
  let ?spec = "BackendSpec_Default (demo_backend (Some backend_canary))"
  have canary: "ls_Canary (bs_Listener ?spec) = Some backend_canary"
    by (simp add: BackendSpec_Default_def ListenerSpec_Default_def demo_backend_def)
  obtain worker cron where "bs_Worker ?spec = Some worker" "bs_Cron ?spec = Some cron"
    by (simp add: BackendSpec_Default_def)
  then obtain base where base: "BackendSpec_ResolveCanarySpec backend_json ?spec backend_canary = Some (Inr (BackendSpec_Default base))"
    by (simp add: BackendSpec_ResolveCanarySpec_def Canary_PatchSpec_def backend_json_def backend_canary_def)
  obtain opts where opts: "NewListenerOptions (BackendSpec_Default base) = Some opts"
    using Options_defaulted(1) by blast
  define g where "g = canary_listener ''cr'' ''ns'' (BackendSpec_Default base) (InitializeImageSpec (bs_Image base) backendDefaultImage) opts True"
  have "bs_Image (BackendSpec_Default base) = Some (InitializeImageSpec (bs_Image base) backendDefaultImage)"
    by (simp add: BackendSpec_Default_def)
  then have "resolve_listener_canary backend_json ''cr'' ''ns'' ?spec = Some (Inr (Some g))"
    using canary base opts by (simp add: resolve_listener_canary_def g_def) (simp add: backend_canary_def)
  moreover have "ListenerGenerator_deployment g \<noteq> None"
  proof (rule listener_deployment_defaulted)
    show "lg_ListenerSpec g = (ListenerSpec_Default (bs_Listener base))
        \<lparr>ls_HPA := Some no_HorizontalPodAutoscalerSpec, ls_PDB := Some no_PodDisruptionBudgetSpec\<rparr>"
      by (simp add: g_def canary_listener_def BackendSpec_Default_def)
  qed (simp_all add: g_def canary_listener_def BackendSpec_Default_def)
  ultimately show thesis
    using that by (simp add: g_def has_specs_def ListenerGenerator_workload_def canary_listener_def backend_base_def)
qed

lemma demo_worker: "bs_Worker (BackendSpec_Default (demo_backend c)) = Some worker \<Longrightarrow>
    resolve_worker_canary J instance namespace (BackendSpec_Default (demo_backend c)) worker = Some (Inr None)"
  by (auto simp: BackendSpec_Default_def demo_backend_def WorkerSpec_Default_def no_WorkerSpec_def resolve_worker_canary_def)

section \<open>Properties\<close>

text \<open>
  C14. Traffic of Backend: among all the deployments that the generator makes (listener, worker, cron and
  canaries), a service selects the pods of the listener, and those of its canary exactly when the
  canary is set to send traffic; it selects no other pods.
\<close>

theorem Backend_traffic:
  assumes "Backend_NewGenerator J instance namespace spec = Some (Inr gen)"
    and "Backend_Resources L iter gen = Some (Inr (ts, secrets, dashboard))"
    and "OService s \<in> built ts" "ODeployment d \<in> built ts"
  shows "selects (sv_Selector s) (pod_labels d) \<longleftrightarrow>
    dep_Name d = ''backend-listener'' \<or>
    dep_Name d = ''backend-listener-canary'' \<and> (\<exists>canary. ls_Canary (bs_Listener spec) = Some canary \<and> can_SendTraffic canary)"
  using Backend_routes [OF assms] unfolding listener_receives_def .

theorem Backend_traffic_witness:
  "\<exists>gen ts rest s d. Backend_NewGenerator backend_json ''cr'' ''ns'' (BackendSpec_Default (demo_backend (Some backend_canary))) = Some (Inr gen) \<and>
     Backend_Resources name_lib id gen = Some (Inr (ts, rest)) \<and> OService s \<in> built ts \<and> ODeployment d \<in> built ts \<and>
     dep_Name d = ''backend-listener-canary'' \<and> selects (sv_Selector s) (pod_labels d)"
proof -
  let ?spec = "BackendSpec_Default (demo_backend (Some backend_canary))"
  obtain g where g: "resolve_listener_canary backend_json ''cr'' ''ns'' ?spec = Some (Inr (Some g))"
      "has_specs (ListenerGenerator_workload g)" "ListenerGenerator_deployment g \<noteq> None" "bo_Component (lg_Base g) = ''backend-listener-canary''"
    by (rule demo_listener_canary)
  have ps: "ls_PublishingStrategies (bs_Listener (demo_backend (Some backend_canary))) = None"
    by (simp add: demo_backend_def)
  have cl: "\<forall>x\<in>set_option (Some g). has_specs (ListenerGenerator_workload x) \<and> ListenerGenerator_deployment x \<noteq> None"
    using g(2,3) by simp
  obtain gen where gen: "Backend_NewGenerator backend_json ''cr'' ''ns'' ?spec = Some (Inr gen)" "defaulted_generator gen"
      "ListenerGenerator_PublishingStrategies (bg_Listener gen) = Inr backend_DefaultListenerPublishingStrategy"
      "bg_CanaryListener gen = Some g"
    using Backend_NewGenerator_defaulted [OF g(1) demo_worker cl ps] by metis
  obtain ts secrets dashboard where R: "Backend_Resources name_lib id gen = Some (Inr (ts, secrets, dashboard))"
      "sv_Name ` {s. OService s \<in> built ts} = {bo_Component (lg_Base (bg_Listener gen)) @ ''-http-svc''}"
    by (rule defaulted_Resources [OF gen(2,3)])
  have "{s. OService s \<in> built ts} \<noteq> {}"
    using R(2) by (metis image_empty insert_not_empty)
  then obtain s where s: "OService s \<in> built ts" by blast
  obtain l w c where ts: "ts = l @ w @ c"
    and l: "Workload_New name_lib id (ListenerGenerator_workload (bg_Listener gen)) (map_option ListenerGenerator_workload (bg_CanaryListener gen)) = Some (Inr l)"
    by (rule Resources_parts [OF R(1)])
  obtain d0 where "w_Deployment (ListenerGenerator_workload g) = Some d0"
    using g(3) by (auto simp: ListenerGenerator_workload_def)
  then obtain d where d: "ODeployment d \<in> built l" "dep_Name d = fst (w_Key (ListenerGenerator_workload g))"
    using gen(4) by (auto simp: built_New(1) [OF l] workloads_def intro: that [OF _ deployment_of_simps(1)])
  have dn: "dep_Name d = ''backend-listener-canary''"
    using d(2) g(4) by (simp add: GetKey_def)
  have canary: "ls_Canary (bs_Listener ?spec) = Some backend_canary" "can_SendTraffic backend_canary"
    by (simp_all add: BackendSpec_Default_def ListenerSpec_Default_def demo_backend_def backend_canary_def)
  have dts: "ODeployment d \<in> built ts"
    using d(1) by (simp add: ts)
  then have "selects (sv_Selector s) (pod_labels d)"
    using Backend_traffic [OF gen(1) R(1) s] dn canary by (simp only: simp_thms ex_simps option.inject)
  with gen(1) R(1) s dts dn show ?thesis by (intro exI conjI)
qed



text \<open>
  The defaults are enough: for every specification of Backend without canaries and without publishing
  strategies, once defaulted, the generator and all its resources are built without error and without
  panic, and the only service is that of the listener.
\<close>

lemma Backend_defaults_build:
  assumes "ls_Canary (bs_Listener spec) = None" "\<forall>w\<in>set_option (bs_Worker spec). ws_Canary w = None"
    and "ls_PublishingStrategies (bs_Listener spec) = None"
  shows "\<exists>gen ts secrets dashboard. Backend_NewGenerator J instance namespace (BackendSpec_Default spec) = Some (Inr gen) \<and>
    Backend_Resources L iter gen = Some (Inr (ts, secrets, dashboard)) \<and> (\<forall>t\<in>set ts. \<exists>o1. tp_Build t = Some (Inr o1)) \<and>
    sv_Name ` {s. OService s \<in> built ts} = {''backend-listener-http-svc''}"
proof -
  have l: "resolve_listener_canary J instance namespace (BackendSpec_Default spec) = Some (Inr None)"
    using assms(1) by (simp add: resolve_listener_canary_def BackendSpec_Default_def ListenerSpec_Default_def)
  have w: "resolve_worker_canary J instance namespace (BackendSpec_Default spec) worker = Some (Inr None)"
    if "bs_Worker (BackendSpec_Default spec) = Some worker" for worker
    using that assms(2)
    by (auto simp: resolve_worker_canary_def BackendSpec_Default_def WorkerSpec_Default_def no_WorkerSpec_def split: option.splits)
  obtain gen where gen: "Backend_NewGenerator J instance namespace (BackendSpec_Default spec) = Some (Inr gen)" "defaulted_generator gen"
      "ListenerGenerator_PublishingStrategies (bg_Listener gen) = Inr backend_DefaultListenerPublishingStrategy"
      "bo_Component (lg_Base (bg_Listener gen)) = ''backend-listener''"
    using Backend_NewGenerator_defaulted [OF l w _ assms(3)] by (metis empty_iff option.simps(14))
  obtain ts secrets dashboard where R: "Backend_Resources L iter gen = Some (Inr (ts, secrets, dashboard))"
      "\<forall>t\<in>set ts. \<exists>o1. tp_Build t = Some (Inr o1)"
      "sv_Name ` {s. OService s \<in> built ts} = {bo_Component (lg_Base (bg_Listener gen)) @ ''-http-svc''}"
    by (rule defaulted_Resources [OF gen(2,3)])
  have "sv_Name ` {s. OService s \<in> built ts} = {''backend-listener-http-svc''}"
    using R(3) gen(4) by (simp only: append.simps)
  with gen(1) R(1,2) show ?thesis by (intro exI conjI)
qed

end
