(* ===== verification/SimpleApps.thy ===== *)
theory SimpleApps
  imports Generators
begin

text \<open>
  Four applications that are one workload each: EchoAPI, CORSProxy, MappingService and AutoSSL, whose
  workload may have a canary (\<^verbatim>\<open>api/v1alpha1/\<close> and \<^verbatim>\<open>internal/pkg/generators/\<close> of each). Their
  specifications extend a common record, and their generators share a deployment and a workload;
  what an application sets is in its own definitions.

  Any specification, once defaulted, builds all its resources; the secrets that are generated are
  those the pods read; the traffic of AutoSSL goes to the canary exactly when the canary asks for it.
\<close>

section \<open>What the applications share\<close>

record AppSpec =
  ap_Image :: "ImageSpec option"
  ap_PDB :: "PDBSpec option"
  ap_HPA :: "HPASpec option"
  ap_Replicas :: "int option"
  ap_Resources :: "Resources option"
  ap_LivenessProbe :: "ProbeSpec option"
  ap_ReadinessProbe :: "ProbeSpec option"
  ap_NodeAffinity :: "string option"
  ap_Tolerations :: "string list"
  ap_PublishingStrategies :: "PublishingStrategies option"

definition app_Default ::
    "ImageSpec \<Rightarrow> HPASpec \<Rightarrow> int \<Rightarrow> PDBSpec \<Rightarrow> Resources \<Rightarrow> ProbeSpec \<Rightarrow> ProbeSpec \<Rightarrow> 'a AppSpec_scheme \<Rightarrow> 'a AppSpec_scheme" where
  "app_Default img hpa replicas pdb resources liveness readiness spec = spec\<lparr>
     ap_Image := Some (InitializeImageSpec (ap_Image spec) img),
     ap_HPA := Some (InitializeHorizontalPodAutoscalerSpec (ap_HPA spec) hpa),
     ap_Replicas := orDefault (ap_Replicas spec) (Some replicas),
     ap_PDB := Some (InitializePodDisruptionBudgetSpec (ap_PDB spec) pdb),
     ap_Resources := Some (InitializeResourceRequirementsSpec (ap_Resources spec) resources),
     ap_LivenessProbe := Some (InitializeProbeSpec (ap_LivenessProbe spec) liveness),
     ap_ReadinessProbe := Some (InitializeProbeSpec (ap_ReadinessProbe spec) readiness)\<rparr>"

record 'spec AppGenerator =
  gen_Base :: BaseOptionsV2
  gen_Spec :: 'spec
  gen_Options :: Options
  gen_Traffic :: bool

definition app_deployment ::
    "string \<Rightarrow> (string \<times> int) list \<Rightarrow> EnvVar list \<Rightarrow> (ProbeSpec \<Rightarrow> Probe option option) \<Rightarrow> (ProbeSpec \<Rightarrow> Probe option option)
       \<Rightarrow> (string \<times> string \<times> bool) list \<Rightarrow> Volume list \<Rightarrow> 'a AppSpec_scheme AppGenerator \<Rightarrow> DeploymentSpec Deployment option" where
  "app_deployment name ports env livenessProbe readinessProbe mounts volumes gen =
     (let spec = gen_Spec gen in
      do { img \<leftarrow> ap_Image spec;
           image \<leftarrow> Image img;
           resources \<leftarrow> ap_Resources spec;
           pullPolicy \<leftarrow> img_PullPolicy img;
           livenessSpec \<leftarrow> ap_LivenessProbe spec;
           liveness \<leftarrow> livenessProbe livenessSpec;
           readinessSpec \<leftarrow> ap_ReadinessProbe spec;
           readiness \<leftarrow> readinessProbe readinessSpec;
           let d = rolling_deployment (ap_Replicas spec) (ImagePullSecrets (img_PullSecretName img))
             [(plain_container name image [] ports env resources pullPolicy)
                \<lparr>ac_LivenessProbe := liveness, ac_ReadinessProbe := readiness, ac_VolumeMounts := mounts\<rparr>]
             (Affinity (GetSelector (gen_Base gen)) (ap_NodeAffinity spec)) (ap_Tolerations spec)
           in Some (d\<lparr>dep_Spec := (dep_Spec d)\<lparr>dsp_Pod := (dsp_Pod (dep_Spec d))\<lparr>pod_Volumes := volumes\<rparr>\<rparr>\<rparr>) })"

definition app_workload ::
    "string \<Rightarrow> PodMetricsEndpoint list \<Rightarrow> ServiceDescriptor list \<Rightarrow> ('a AppSpec_scheme AppGenerator \<Rightarrow> DeploymentSpec Deployment option)
       \<Rightarrow> 'a AppSpec_scheme AppGenerator \<Rightarrow> (DeploymentSpec, string) workload" where
  "app_workload component endpoints strategies deployment gen =
     \<lparr>w_Key = GetKey (gen_Base gen), w_Labels = GetLabels (gen_Base gen), w_Selector = GetSelector (gen_Base gen),
      w_MonitoredEndpoints = endpoints, w_HPASpec = ap_HPA (gen_Spec gen), w_PDBSpec = ap_PDB (gen_Spec gen),
      w_Deployment = deployment gen, w_Canary = Some (gen_Traffic gen, [traffic_key \<mapsto> component]),
      w_PublishingStrategies = Some (MergeWithDefaultPublishingStrategy strategies (ap_PublishingStrategies (gen_Spec gen)))\<rparr>"

definition app_base :: "string \<Rightarrow> string \<Rightarrow> string \<Rightarrow> BaseOptionsV2" where
  "app_base component instance namespace =
     \<lparr>bo_Component = component, bo_InstanceName = instance, bo_Namespace = namespace,
      bo_Labels = [''app'' \<mapsto> component, ''part-of'' \<mapsto> ''3scale-saas'']\<rparr>"

type_synonym dashboard = "bool \<times> key \<times> labels \<times> string"

definition app_secrets :: "ExternalSecret \<Rightarrow> 'spec AppGenerator \<Rightarrow> ExternalSecretResource list option" where
  "app_secrets es gen = external_secrets_of (gen_Base gen) es (gen_Options gen)"

definition app_dashboard :: "GrafanaDashboardSpec option \<Rightarrow> string \<Rightarrow> 'spec AppGenerator \<Rightarrow> dashboard option" where
  "app_dashboard cfg asset gen =
     map_option (\<lambda>cfg. dashboard_of (gen_Base gen) (fst (GetKey (gen_Base gen))) cfg asset) cfg"

section \<open>EchoAPI\<close>

definition echoapiDefaultImage :: ImageSpec where
  "echoapiDefaultImage = \<lparr>img_Name = Some ''quay.io/3scale/echoapi'', img_Tag = Some ''v1.0.3'', img_PullSecretName = None,
     img_PullPolicy = Some ''IfNotPresent''\<rparr>"

definition echoapiDefaultHPA :: HPASpec where
  "echoapiDefaultHPA = \<lparr>hpa_MinReplicas = Some 2, hpa_MaxReplicas = Some 4, hpa_ResourceName = Some ''cpu'',
     hpa_ResourceUtilization = Some 90, hpa_Behavior = None\<rparr>"

definition echoapiDefaultPDB :: PDBSpec where
  "echoapiDefaultPDB = \<lparr>pdb_MinAvailable = None, pdb_MaxUnavailable = Some (FromInt 1)\<rparr>"

definition echoapiDefaultResources :: Resources where
  "echoapiDefaultResources = \<lparr>rr_Limits = Some [(''cpu'', ''150m''), (''memory'', ''128Mi'')],
     rr_Requests = Some [(''cpu'', ''75m''), (''memory'', ''64Mi'')], rr_Claims = None\<rparr>"

definition echoapiDefaultLivenessProbe :: ProbeSpec where
  "echoapiDefaultLivenessProbe = \<lparr>pr_InitialDelaySeconds = Some 25, pr_TimeoutSeconds = Some 2, pr_PeriodSeconds = Some 20,
     pr_SuccessThreshold = Some 1, pr_FailureThreshold = Some 5\<rparr>"

definition echoapiDefaultReadinessProbe :: ProbeSpec where
  "echoapiDefaultReadinessProbe = \<lparr>pr_InitialDelaySeconds = Some 25, pr_TimeoutSeconds = Some 2, pr_PeriodSeconds = Some 20,
     pr_SuccessThreshold = Some 1, pr_FailureThreshold = Some 5\<rparr>"

definition echoapiDefaultMarin3rSpec :: defaultMarin3rSidecarSpec where
  "echoapiDefaultMarin3rSpec = \<lparr>dm_Ports = None, dm_Resources = no_ResourceRequirementsSpec, dm_ExtraPodAnnotations = None\<rparr>"

record EchoAPISpec = AppSpec +
  ec_Endpoint :: "string list option"
  ec_Marin3r :: "Marin3rSidecarSpec option"
  ec_LoadBalancer :: "NetworkLoadBalancerSpec option"

definition EchoAPISpec_Default :: "EchoAPISpec \<Rightarrow> EchoAPISpec" where
  "EchoAPISpec_Default spec =
     (app_Default echoapiDefaultImage echoapiDefaultHPA 2 echoapiDefaultPDB echoapiDefaultResources echoapiDefaultLivenessProbe
        echoapiDefaultReadinessProbe spec)
     \<lparr>ec_Marin3r := Some (InitializeMarin3rSidecarSpec (ec_Marin3r spec) echoapiDefaultMarin3rSpec),
      ec_LoadBalancer := Some (InitializeNetworkLoadBalancerSpec (ec_LoadBalancer spec) DefaultNetworkLoadBalancerSpec),
      ap_PublishingStrategies := Some (InitializePublishingStrategies (ap_PublishingStrategies spec))\<rparr>"

text \<open>EchoAPI has no environment.\<close>

definition EchoAPI_NewGenerator :: "string \<Rightarrow> string \<Rightarrow> EchoAPISpec \<Rightarrow> EchoAPISpec AppGenerator" where
  "EchoAPI_NewGenerator instance namespace spec =
     \<lparr>gen_Base = app_base ''echo-api'' instance namespace, gen_Spec = spec, gen_Options = [], gen_Traffic = True\<rparr>"

definition EchoAPI_deployment :: "EchoAPISpec AppGenerator \<Rightarrow> DeploymentSpec Deployment option" where
  "EchoAPI_deployment = app_deployment ''echo-api'' [(''http'', 9292)] [] (TCPProbe (FromInt 9292))
     (HTTPProbe ''/'' (FromInt 9292) ''HTTP'') [] []"

definition EchoAPI_workload :: "EchoAPISpec AppGenerator \<Rightarrow> (DeploymentSpec, string) workload" where
  "EchoAPI_workload = app_workload ''echo-api'' [PodMetricsEndpoint ''/stats/prometheus'' ''envoy-metrics'' 60]
     echoapi_DefaultPublishingStrategy EchoAPI_deployment"

definition EchoAPI_Resources ::
    "envoy_lib \<Rightarrow> config_iter \<Rightarrow> EchoAPISpec AppGenerator \<Rightarrow> (DeploymentSpec, string) template list result" where
  "EchoAPI_Resources L iter gen = Workload_New L iter (EchoAPI_workload gen) None"

section \<open>CORSProxy\<close>

definition corsproxyDefaultImage :: ImageSpec where
  "corsproxyDefaultImage = \<lparr>img_Name = Some ''quay.io/3scale/cors-proxy'', img_Tag = Some ''latest'', img_PullSecretName = None,
     img_PullPolicy = Some ''IfNotPresent''\<rparr>"

definition corsproxyDefaultResources :: Resources where
  "corsproxyDefaultResources = \<lparr>rr_Limits = Some [(''cpu'', ''150m''), (''memory'', ''128Mi'')],
     rr_Requests = Some [(''cpu'', ''75m''), (''memory'', ''64Mi'')], rr_Claims = None\<rparr>"

definition corsproxyDefaultHPA :: HPASpec where
  "corsproxyDefaultHPA = \<lparr>hpa_MinReplicas = Some 2, hpa_MaxReplicas = Some 4, hpa_ResourceName = Some ''cpu'',
     hpa_ResourceUtilization = Some 90, hpa_Behavior = None\<rparr>"

definition corsproxyDefaultProbe :: ProbeSpec where
  "corsproxyDefaultProbe = \<lparr>pr_InitialDelaySeconds = Some 3, pr_TimeoutSeconds = Some 1, pr_PeriodSeconds = Some 10,
     pr_SuccessThreshold = Some 1, pr_FailureThreshold = Some 3\<rparr>"

definition corsproxyDefaultPDB :: PDBSpec where
  "corsproxyDefaultPDB = \<lparr>pdb_MinAvailable = None, pdb_MaxUnavailable = Some (FromInt 1)\<rparr>"

definition corsproxyDefaultGrafanaDashboard :: GrafanaDashboardSpec where
  "corsproxyDefaultGrafanaDashboard = \<lparr>gd_SelectorKey = Some ''monitoring-key'', gd_SelectorValue = Some ''middleware''\<rparr>"

record CORSProxyConfig =
  cpc_ExternalSecret :: ExternalSecret
  cpc_SystemDatabaseDSN :: SecretReference

definition CORSProxyConfig_Default :: "CORSProxyConfig \<Rightarrow> CORSProxyConfig" where
  "CORSProxyConfig_Default cfg = cfg\<lparr>cpc_ExternalSecret := ExternalSecret_Default (cpc_ExternalSecret cfg)\<rparr>"

record CORSProxySpec = AppSpec +
  cps_GrafanaDashboard :: "GrafanaDashboardSpec option"
  cps_Config :: CORSProxyConfig

definition CORSProxySpec_Default :: "CORSProxySpec \<Rightarrow> CORSProxySpec" where
  "CORSProxySpec_Default spec =
     (app_Default corsproxyDefaultImage corsproxyDefaultHPA 2 corsproxyDefaultPDB corsproxyDefaultResources corsproxyDefaultProbe
        corsproxyDefaultProbe spec)
     \<lparr>cps_GrafanaDashboard := Some (InitializeGrafanaDashboardSpec (cps_GrafanaDashboard spec) corsproxyDefaultGrafanaDashboard),
      cps_Config := CORSProxyConfig_Default (cps_Config spec)\<rparr>"

definition corsproxy_rows :: "CORSProxySpec \<Rightarrow> rows" where
  "corsproxy_rows spec =
     [(''DATABASE_URL'', secret_ref ''cors-proxy-system-database'' ''system-database-dsn'', Secret (cpc_SystemDatabaseDSN (cps_Config spec)))]"

definition corsproxy_NewOptions :: "CORSProxySpec \<Rightarrow> Options option" where
  "corsproxy_NewOptions spec = add_options (corsproxy_rows spec)"

definition CORSProxy_NewGenerator :: "string \<Rightarrow> string \<Rightarrow> CORSProxySpec \<Rightarrow> CORSProxySpec AppGenerator option" where
  "CORSProxy_NewGenerator instance namespace spec =
     map_option (\<lambda>opts. \<lparr>gen_Base = app_base ''cors-proxy'' instance namespace, gen_Spec = spec, gen_Options = opts, gen_Traffic = True\<rparr>)
       (corsproxy_NewOptions spec)"

definition CORSProxy_deployment :: "CORSProxySpec AppGenerator \<Rightarrow> DeploymentSpec Deployment option" where
  "CORSProxy_deployment gen = app_deployment ''cors-proxy'' [(''http'', 8080), (''metrics'', 9145)] (BuildEnvironment (gen_Options gen))
     (HTTPProbe ''/healthz'' (FromString ''metrics'') ''HTTP'') (HTTPProbe ''/healthz'' (FromString ''metrics'') ''HTTP'') [] [] gen"

definition CORSProxy_workload :: "CORSProxySpec AppGenerator \<Rightarrow> (DeploymentSpec, string) workload" where
  "CORSProxy_workload = app_workload ''cors-proxy'' [PodMetricsEndpoint ''/metrics'' ''metrics'' 30]
     corsproxy_DefaultPublishingStrategy CORSProxy_deployment"

definition CORSProxy_Resources ::
    "envoy_lib \<Rightarrow> config_iter \<Rightarrow> CORSProxySpec AppGenerator
       \<Rightarrow> ((DeploymentSpec, string) template list \<times> ExternalSecretResource list \<times> dashboard) result" where
  "CORSProxy_Resources L iter gen =
     do { w \<leftarrow> Workload_New L iter (CORSProxy_workload gen) None;
          case w of
            Inl e \<Rightarrow> Some (Inl e)
          | Inr workload \<Rightarrow>
              do { secrets \<leftarrow> app_secrets (cpc_ExternalSecret (cps_Config (gen_Spec gen))) gen;
                   dashboard \<leftarrow> app_dashboard (cps_GrafanaDashboard (gen_Spec gen)) ''dashboards/cors-proxy.json.gtpl'' gen;
                   Some (Inr (workload, secrets, dashboard)) } }"

section \<open>MappingService\<close>

definition mappingserviceDefaultImage :: ImageSpec where
  "mappingserviceDefaultImage = \<lparr>img_Name = Some ''quay.io/3scale/apicast-cloud-hosted'', img_Tag = Some ''latest'',
     img_PullSecretName = None, img_PullPolicy = Some ''IfNotPresent''\<rparr>"

definition mappingserviceDefaultResources :: Resources where
  "mappingserviceDefaultResources = \<lparr>rr_Limits = Some [(''cpu'', ''1''), (''memory'', ''128Mi'')],
     rr_Requests = Some [(''cpu'', ''500m''), (''memory'', ''64Mi'')], rr_Claims = None\<rparr>"

definition mappingserviceDefaultHPA :: HPASpec where
  "mappingserviceDefaultHPA = \<lparr>hpa_MinReplicas = Some 2, hpa_MaxReplicas = Some 4, hpa_ResourceName = Some ''cpu'',
     hpa_ResourceUtilization = Some 90, hpa_Behavior = None\<rparr>"

definition mappingserviceLivenessDefaultProbe :: ProbeSpec where
  "mappingserviceLivenessDefaultProbe = \<lparr>pr_InitialDelaySeconds = Some 5, pr_TimeoutSeconds = Some 5, pr_PeriodSeconds = Some 10,
     pr_SuccessThreshold = Some 1, pr_FailureThreshold = Some 3\<rparr>"

definition mappingserviceReadinessDefaultProbe :: ProbeSpec where
  "mappingserviceReadinessDefaultProbe = \<lparr>pr_InitialDelaySeconds = Some 5, pr_TimeoutSeconds = Some 5, pr_PeriodSeconds = Some 30,
     pr_SuccessThreshold = Some 1, pr_FailureThreshold = Some 3\<rparr>"

definition mappingserviceDefaultPDB :: PDBSpec where
  "mappingserviceDefaultPDB = \<lparr>pdb_MinAvailable = None, pdb_MaxUnavailable = Some (FromInt 1)\<rparr>"

definition mappingserviceDefaultGrafanaDashboard :: GrafanaDashboardSpec where
  "mappingserviceDefaultGrafanaDashboard = \<lparr>gd_SelectorKey = Some ''monitoring-key'', gd_SelectorValue = Some ''middleware''\<rparr>"

record MappingServiceConfig =
  msc_APIHost :: string
  msc_PreviewBaseDomain :: "string option"
  msc_LogLevel :: "string option"
  msc_ExternalSecret :: ExternalSecret
  msc_SystemAdminToken :: SecretReference

definition MappingServiceConfig_Default :: "MappingServiceConfig \<Rightarrow> MappingServiceConfig" where
  "MappingServiceConfig_Default cfg = cfg\<lparr>msc_LogLevel := orDefault (msc_LogLevel cfg) (Some ''warn''),
     msc_ExternalSecret := ExternalSecret_Default (msc_ExternalSecret cfg)\<rparr>"

record MappingServiceSpec = AppSpec +
  mss_GrafanaDashboard :: "GrafanaDashboardSpec option"
  mss_Config :: MappingServiceConfig

definition MappingServiceSpec_Default :: "MappingServiceSpec \<Rightarrow> MappingServiceSpec" where
  "MappingServiceSpec_Default spec =
     (app_Default mappingserviceDefaultImage mappingserviceDefaultHPA 2 mappingserviceDefaultPDB mappingserviceDefaultResources
        mappingserviceLivenessDefaultProbe mappingserviceReadinessDefaultProbe spec)
     \<lparr>mss_GrafanaDashboard := Some (InitializeGrafanaDashboardSpec (mss_GrafanaDashboard spec) mappingserviceDefaultGrafanaDashboard),
      mss_Config := MappingServiceConfig_Default (mss_Config spec)\<rparr>"

definition mappingservice_rows :: "MappingServiceSpec \<Rightarrow> rows" where
  "mappingservice_rows spec =
     [(''MASTER_ACCESS_TOKEN'', secret_ref ''mapping-service-system-master-access-token'' ''system-apicast-access-token'',
         Secret (msc_SystemAdminToken (mss_Config spec))),
      (''API_HOST'', id, Text (msc_APIHost (mss_Config spec))),
      (''APICAST_CONFIGURATION_LOADER'', id, Text ''lazy''),
      (''APICAST_LOG_LEVEL'', id, ptr_text (msc_LogLevel (mss_Config spec))),
      (''PREVIEW_BASE_DOMAIN'', id, ptr_text (msc_PreviewBaseDomain (mss_Config spec)))]"

definition mappingservice_NewOptions :: "MappingServiceSpec \<Rightarrow> Options option" where
  "mappingservice_NewOptions spec = add_options (mappingservice_rows spec)"

definition MappingService_NewGenerator :: "string \<Rightarrow> string \<Rightarrow> MappingServiceSpec \<Rightarrow> MappingServiceSpec AppGenerator option" where
  "MappingService_NewGenerator instance namespace spec =
     map_option (\<lambda>opts. \<lparr>gen_Base = app_base ''mapping-service'' instance namespace, gen_Spec = spec, gen_Options = opts, gen_Traffic = True\<rparr>)
       (mappingservice_NewOptions spec)"

definition MappingService_deployment :: "MappingServiceSpec AppGenerator \<Rightarrow> DeploymentSpec Deployment option" where
  "MappingService_deployment gen =
     app_deployment ''mapping-service'' [(''mapping'', 8093), (''management'', 8090), (''metrics'', 9421)] (BuildEnvironment (gen_Options gen))
       (TCPProbe (FromString ''mapping'')) (HTTPProbe ''/status/ready'' (FromString ''management'') ''HTTP'') [] [] gen"

definition MappingService_workload :: "MappingServiceSpec AppGenerator \<Rightarrow> (DeploymentSpec, string) workload" where
  "MappingService_workload = app_workload ''mapping-service'' [PodMetricsEndpoint ''/metrics'' ''metrics'' 30]
     mappingservice_DefaultPublishingStrategy MappingService_deployment"

definition MappingService_Resources ::
    "envoy_lib \<Rightarrow> config_iter \<Rightarrow> MappingServiceSpec AppGenerator
       \<Rightarrow> ((DeploymentSpec, string) template list \<times> ExternalSecretResource list \<times> dashboard) result" where
  "MappingService_Resources L iter gen =
     do { w \<leftarrow> Workload_New L iter (MappingService_workload gen) None;
          case w of
            Inl e \<Rightarrow> Some (Inl e)
          | Inr workload \<Rightarrow>
              do { secrets \<leftarrow> app_secrets (msc_ExternalSecret (mss_Config (gen_Spec gen))) gen;
                   dashboard \<leftarrow> app_dashboard (mss_GrafanaDashboard (gen_Spec gen)) ''dashboards/mapping-service.json.gtpl'' gen;
                   Some (Inr (workload, secrets, dashboard)) } }"

section \<open>AutoSSL\<close>

definition autosslDefaultImage :: ImageSpec where
  "autosslDefaultImage = \<lparr>img_Name = Some ''quay.io/3scale/autossl'', img_Tag = Some ''latest'', img_PullSecretName = None,
     img_PullPolicy = Some ''IfNotPresent''\<rparr>"

definition autosslDefaultResources :: Resources where
  "autosslDefaultResources = \<lparr>rr_Limits = Some [(''cpu'', ''150m''), (''memory'', ''128Mi'')],
     rr_Requests = Some [(''cpu'', ''75m''), (''memory'', ''64Mi'')], rr_Claims = None\<rparr>"

definition autosslDefaultHPA :: HPASpec where
  "autosslDefaultHPA = \<lparr>hpa_MinReplicas = Some 2, hpa_MaxReplicas = Some 4, hpa_ResourceName = Some ''cpu'',
     hpa_ResourceUtilization = Some 90, hpa_Behavior = None\<rparr>"

definition autosslDefaultProbe :: ProbeSpec where
  "autosslDefaultProbe = \<lparr>pr_InitialDelaySeconds = Some 25, pr_TimeoutSeconds = Some 1, pr_PeriodSeconds = Some 10,
     pr_SuccessThreshold = Some 1, pr_FailureThreshold = Some 3\<rparr>"

definition autosslDefaultPDB :: PDBSpec where
  "autosslDefaultPDB = \<lparr>pdb_MinAvailable = None, pdb_MaxUnavailable = Some (FromInt 1)\<rparr>"

definition autosslDefaultGrafanaDashboard :: GrafanaDashboardSpec where
  "autosslDefaultGrafanaDashboard = \<lparr>gd_SelectorKey = Some ''monitoring-key'', gd_SelectorValue = Some ''middleware''\<rparr>"

text \<open>A nil list of domains is not an empty one before the defaults.\<close>

record AutoSSLConfig =
  asc_LogLevel :: "string option"
  asc_ACMEStaging :: "bool option"
  asc_ContactEmail :: string
  asc_ProxyEndpoint :: string
  asc_VerificationEndpoint :: string
  asc_DomainWhitelist :: "string list option"
  asc_DomainBlacklist :: "string list option"
  asc_RedisHost :: string
  asc_RedisPort :: "int option"

definition AutoSSLConfig_Default :: "AutoSSLConfig \<Rightarrow> AutoSSLConfig" where
  "AutoSSLConfig_Default cfg = cfg\<lparr>
     asc_ACMEStaging := orDefault (asc_ACMEStaging cfg) (Some False),
     asc_RedisPort := orDefault (asc_RedisPort cfg) (Some 6379),
     asc_LogLevel := orDefault (asc_LogLevel cfg) (Some ''warn''),
     asc_DomainWhitelist := (case asc_DomainWhitelist cfg of None \<Rightarrow> Some [] | Some ds \<Rightarrow> Some ds),
     asc_DomainBlacklist := (case asc_DomainBlacklist cfg of None \<Rightarrow> Some [] | Some ds \<Rightarrow> Some ds)\<rparr>"

record AutoSSLSpec = AppSpec +
  ass_GrafanaDashboard :: "GrafanaDashboardSpec option"
  ass_Config :: AutoSSLConfig
  ass_Canary :: "Canary option"
  ass_Endpoint :: "string list option"
  ass_LoadBalancer :: "ElasticLoadBalancerSpec option"

definition AutoSSLSpec_Default :: "AutoSSLSpec \<Rightarrow> AutoSSLSpec" where
  "AutoSSLSpec_Default spec =
     (app_Default autosslDefaultImage autosslDefaultHPA 2 autosslDefaultPDB autosslDefaultResources autosslDefaultProbe
        autosslDefaultProbe spec)
     \<lparr>ass_LoadBalancer := Some (InitializeElasticLoadBalancerSpec (ass_LoadBalancer spec) DefaultElasticLoadBalancerSpec),
      ass_GrafanaDashboard := Some (InitializeGrafanaDashboardSpec (ass_GrafanaDashboard spec) autosslDefaultGrafanaDashboard),
      ap_PublishingStrategies := Some (InitializePublishingStrategies (ap_PublishingStrategies spec)),
      ass_Config := AutoSSLConfig_Default (ass_Config spec)\<rparr>"

text \<open>Setting a field of the image panics when there is no image.\<close>

definition set_app_image :: "(ImageSpec \<Rightarrow> ImageSpec) \<Rightarrow> 'a AppSpec_scheme \<Rightarrow> 'a AppSpec_scheme option" where
  "set_app_image f spec = map_option (\<lambda>img. spec\<lparr>ap_Image := Some (f img)\<rparr>) (ap_Image spec)"

definition AutoSSLSpec_ResolveCanarySpec ::
    "(AutoSSLSpec, 'doc, 'patch) json_lib \<Rightarrow> AutoSSLSpec \<Rightarrow> Canary \<Rightarrow> AutoSSLSpec result" where
  "AutoSSLSpec_ResolveCanarySpec J spec canary =
     (case Canary_PatchSpec J canary spec of
        Inl e \<Rightarrow> Some (Inl e)
      | Inr canarySpec \<Rightarrow>
          do { canarySpec \<leftarrow> (case can_ImageName canary of
                 None \<Rightarrow> Some canarySpec | Some n \<Rightarrow> set_app_image (\<lambda>i. i\<lparr>img_Name := Some n\<rparr>) canarySpec);
               canarySpec \<leftarrow> (case can_ImageTag canary of
                 None \<Rightarrow> Some canarySpec | Some t \<Rightarrow> set_app_image (\<lambda>i. i\<lparr>img_Tag := Some t\<rparr>) canarySpec);
               Some (Inr (AutoSSLSpec_Default (canarySpec\<lparr>ap_Replicas := can_Replicas canary\<rparr>))) })"

definition leACMEStagingEndpoint :: string where
  "leACMEStagingEndpoint = ''https://acme-staging-v02.api.letsencrypt.org/directory''"

definition domain_text :: "string list option \<Rightarrow> string" where
  "domain_text ds = join '','' (case ds of None \<Rightarrow> [] | Some ds \<Rightarrow> ds)"

definition autossl_NewOptions :: "AutoSSLSpec \<Rightarrow> Options option" where
  "autossl_NewOptions spec =
     (let cfg = ass_Config spec in
      do { staging \<leftarrow> asc_ACMEStaging cfg;
           add_options
            [(''ACME_STAGING'', id, Text (if staging then leACMEStagingEndpoint else '''')),
             (''CONTACT_EMAIL'', id, Text (asc_ContactEmail cfg)),
             (''PROXY_ENDPOINT'', id, Text (asc_ProxyEndpoint cfg)),
             (''STORAGE_ADAPTER'', id, Text ''redis''),
             (''REDIS_HOST'', id, Text (asc_RedisHost cfg)),
             (''REDIS_PORT'', id, ptr_int (asc_RedisPort cfg)),
             (''VERIFICATION_ENDPOINT'', id, Text (asc_VerificationEndpoint cfg)),
             (''LOG_LEVEL'', id, ptr_text (asc_LogLevel cfg)),
             (''DOMAIN_WHITELIST'', id, Text (domain_text (asc_DomainWhitelist cfg))),
             (''DOMAIN_BLACKLIST'', id, Text (domain_text (asc_DomainBlacklist cfg)))] })"

definition autossl_main :: "string \<Rightarrow> string \<Rightarrow> AutoSSLSpec \<Rightarrow> Options \<Rightarrow> AutoSSLSpec AppGenerator" where
  "autossl_main instance namespace spec opts =
     \<lparr>gen_Base = app_base ''autossl'' instance namespace, gen_Spec = spec, gen_Options = opts, gen_Traffic = True\<rparr>"

definition autossl_canary :: "string \<Rightarrow> string \<Rightarrow> AutoSSLSpec \<Rightarrow> Options \<Rightarrow> bool \<Rightarrow> AutoSSLSpec AppGenerator" where
  "autossl_canary instance namespace canarySpec opts sendTraffic =
     \<lparr>gen_Base = \<lparr>bo_Component = ''autossl-canary'', bo_InstanceName = instance, bo_Namespace = namespace,
        bo_Labels = [''app'' \<mapsto> ''3scale-api-management'', ''threescale_component'' \<mapsto> ''autossl'', ''threescale_component_element'' \<mapsto> ''canary'']\<rparr>,
      gen_Spec = canarySpec\<lparr>ap_HPA := Some no_HorizontalPodAutoscalerSpec, ap_PDB := Some no_PodDisruptionBudgetSpec\<rparr>,
      gen_Options = opts, gen_Traffic = sendTraffic\<rparr>"

text \<open>The generator and that of its canary.\<close>

definition AutoSSL_NewGenerator ::
    "(AutoSSLSpec, 'doc, 'patch) json_lib \<Rightarrow> string \<Rightarrow> string \<Rightarrow> AutoSSLSpec
       \<Rightarrow> (AutoSSLSpec AppGenerator \<times> AutoSSLSpec AppGenerator option) result" where
  "AutoSSL_NewGenerator J instance namespace spec =
     do { opts \<leftarrow> autossl_NewOptions spec;
          let gen = autossl_main instance namespace spec opts in
          case ass_Canary spec of
            None \<Rightarrow> Some (Inr (gen, None))
          | Some canary \<Rightarrow>
              do { r \<leftarrow> AutoSSLSpec_ResolveCanarySpec J spec canary;
                   case r of
                     Inl e \<Rightarrow> Some (Inl e)
                   | Inr canarySpec \<Rightarrow>
                       do { canaryOpts \<leftarrow> autossl_NewOptions canarySpec;
                            Some (Inr (gen, Some (autossl_canary instance namespace canarySpec canaryOpts (can_SendTraffic canary)))) } } }"

definition AutoSSL_deployment :: "AutoSSLSpec AppGenerator \<Rightarrow> DeploymentSpec Deployment option" where
  "AutoSSL_deployment gen =
     app_deployment ''autossl''
       [(''http'', 8081), (''https'', 8444), (''http-no-pp'', 8080), (''https-no-pp'', 8443), (''metrics'', 9145)]
       (BuildEnvironment (gen_Options gen)) (HTTPProbe ''/healthz'' (FromInt 9145) ''HTTP'') (HTTPProbe ''/healthz'' (FromInt 9145) ''HTTP'')
       [(''autossl-cache'', ''/etc/resty-auto-ssl/'', False), (''nginx-cache'', ''/var/lib/nginx'', False)]
       [EmptyDirVolume ''autossl-cache'' '''', EmptyDirVolume ''nginx-cache'' ''''] gen"

definition AutoSSL_workload :: "AutoSSLSpec AppGenerator \<Rightarrow> (DeploymentSpec, string) workload" where
  "AutoSSL_workload = app_workload ''autossl'' [PodMetricsEndpoint ''/metrics'' ''metrics'' 30]
     autossl_DefaultPublishingStrategy AutoSSL_deployment"

definition AutoSSL_Resources ::
    "envoy_lib \<Rightarrow> config_iter \<Rightarrow> AutoSSLSpec AppGenerator \<Rightarrow> AutoSSLSpec AppGenerator option
       \<Rightarrow> ((DeploymentSpec, string) template list \<times> dashboard) result" where
  "AutoSSL_Resources L iter gen canary =
     do { w \<leftarrow> Workload_New L iter (AutoSSL_workload gen) (map_option AutoSSL_workload canary);
          case w of
            Inl e \<Rightarrow> Some (Inl e)
          | Inr workload \<Rightarrow>
              do { dashboard \<leftarrow> app_dashboard (ass_GrafanaDashboard (gen_Spec gen)) ''dashboards/autossl.json.gtpl'' gen;
                   Some (Inr (workload, dashboard)) } }"

section \<open>Defaults suffice\<close>

lemma app_Default_fields:
  "ap_HPA (app_Default img hpa replicas pdb resources liveness readiness spec) \<noteq> None"
  "ap_PDB (app_Default img hpa replicas pdb resources liveness readiness spec) \<noteq> None"
  by (simp_all add: app_Default_def)

text \<open>A specification that has its defaults.\<close>

definition buildable :: "'a AppSpec_scheme \<Rightarrow> bool" where
  "buildable spec \<longleftrightarrow> ap_HPA spec \<noteq> None \<and> ap_PDB spec \<noteq> None \<and> ap_Resources spec \<noteq> None \<and>
     (\<exists>img. ap_Image spec = Some img \<and> Image img \<noteq> None \<and> img_PullPolicy img \<noteq> None) \<and>
     (\<exists>p. ap_LivenessProbe spec = Some p \<and> (\<forall>h. probe_of h p \<noteq> None)) \<and>
     (\<exists>p. ap_ReadinessProbe spec = Some p \<and> (\<forall>h. probe_of h p \<noteq> None))"

lemma app_Default_buildable:
  assumes "complete_image img" "complete_probe liveness" "complete_probe readiness"
  shows "buildable (app_Default img hpa replicas pdb resources liveness readiness spec)"
proof -
  have "Image (InitializeImageSpec s img) \<noteq> None" "img_PullPolicy (InitializeImageSpec s img) \<noteq> None" for s
    using assms(1) image_of_default [of img s] unfolding complete_image_def by blast+
  moreover have "probe_of h (InitializeProbeSpec s liveness) \<noteq> None" "probe_of h (InitializeProbeSpec s readiness) \<noteq> None" for h s
    using assms(2,3) probe_initialized unfolding complete_probe_def by blast+
  ultimately show ?thesis by (simp add: buildable_def app_Default_def del: not_None_eq)
qed

lemma app_deployment_built:
  assumes "buildable (gen_Spec gen)"
  shows "app_deployment name ports env (probe_of h) (probe_of h') mounts volumes gen \<noteq> None"
proof -
  obtain img p q where s: "ap_Image (gen_Spec gen) = Some img" "Image img \<noteq> None" "img_PullPolicy img \<noteq> None"
      "ap_LivenessProbe (gen_Spec gen) = Some p" "probe_of h p \<noteq> None"
      "ap_ReadinessProbe (gen_Spec gen) = Some q" "probe_of h' q \<noteq> None" "ap_Resources (gen_Spec gen) \<noteq> None"
    using assms(1) unfolding buildable_def by blast
  then show ?thesis
    by (simp add: app_deployment_def Let_def bind_eq_None_conv del: not_None_eq)
qed

lemma buildable_update [simp]:
  "buildable (EchoAPISpec.ec_Marin3r_update f e) = buildable e" "buildable (ec_LoadBalancer_update g e) = buildable e"
  "buildable (cps_GrafanaDashboard_update h c) = buildable c" "buildable (cps_Config_update i c) = buildable c"
  "buildable (mss_GrafanaDashboard_update h m) = buildable m" "buildable (mss_Config_update j m) = buildable m"
  "buildable (ass_LoadBalancer_update k a) = buildable a" "buildable (ass_GrafanaDashboard_update h a) = buildable a"
  "buildable (ass_Config_update l a) = buildable a"
  by (simp_all add: buildable_def)

lemma buildable_strategies [simp]: "buildable (ap_PublishingStrategies_update f s) = buildable s"
  by (simp add: buildable_def)

definition app_services :: "string \<Rightarrow> (string \<times> ServicePort list) list \<Rightarrow> string set" where
  "app_services component eps = (\<lambda>(ep, _). component @ ''-'' @ ToLower ep @ ''-svc'') ` set eps"

lemma app_New_built:
  fixes gen :: "'a AppSpec_scheme AppGenerator" and component :: string and endpoints :: "PodMetricsEndpoint list"
    and eps :: "(string \<times> ServicePort list) list"
  defines "W \<equiv> app_workload component endpoints (simple_defaults eps)"
  assumes main: "buildable (gen_Spec gen)" "deployment gen \<noteq> None"
    and ps: "ap_PublishingStrategies (gen_Spec gen) \<in> {None, Some (InitializePublishingStrategies None)}"
    and canary: "\<forall>c\<in>set_option canary. ap_HPA (gen_Spec c) \<noteq> None \<and> ap_PDB (gen_Spec c) \<noteq> None \<and> deployment c \<noteq> None"
  obtains ts where "Workload_New L iter (W deployment gen) (map_option (W deployment) canary) = Some (Inr ts)"
    "\<forall>t\<in>set ts. \<exists>o1. tp_Build t = Some (Inr o1)"
    "sv_Name ` {s. OService s \<in> built ts} = app_services (bo_Component (gen_Base gen)) eps"
proof -
  let ?w = "W deployment gen" and ?c = "map_option (W deployment) canary"
  have m: "MergeWithDefaultPublishingStrategy (simple_defaults eps) (ap_PublishingStrategies (gen_Spec gen)) = Inr (simple_defaults eps)"
  proof (cases "ap_PublishingStrategies (gen_Spec gen) = None")
    case True
    then show ?thesis by (simp add: MergeWithDefaultPublishingStrategy_def)
  next
    case False
    then have "ap_PublishingStrategies (gen_Spec gen) = Some (InitializePublishingStrategies None)"
      using ps by (simp del: not_None_eq)
    then show ?thesis by (simp only: default_strategies)
  qed
  have s: "\<forall>e. w_PublishingStrategies ?w \<noteq> Some (Inl e)" "strategies_of ?w = simple_defaults eps"
    using m by (simp_all add: W_def app_workload_def strategies_of_def)
  have "has_specs (W deployment c) \<and> w_Deployment (W deployment c) \<noteq> None"
    if "ap_HPA (gen_Spec c) \<noteq> None" "ap_PDB (gen_Spec c) \<noteq> None" "deployment c \<noteq> None" for c
    using that by (simp add: W_def has_specs_def app_workload_def)
  then have all: "\<forall>w\<in>set (workloads ?w ?c). has_specs w \<and> w_Deployment w \<noteq> None"
    using main canary by (cases canary) (auto simp: workloads_def buildable_def simp del: not_None_eq)
  have sel: "service_selector ?w ?c \<noteq> None"
    by (cases canary) (simp_all add: service_selector_def W_def app_workload_def)
  show thesis
    by (rule default_New [OF all s disjI2 [OF sel], of L iter], rule that)
       (simp_all add: app_services_def W_def app_workload_def GetKey_def)
qed

lemma app_New_alone:
  assumes "buildable (gen_Spec gen)" "deployment gen \<noteq> None"
    and "ap_PublishingStrategies (gen_Spec gen) \<in> {None, Some (InitializePublishingStrategies None)}"
  shows "\<exists>ts. Workload_New L iter (app_workload component endpoints (simple_defaults eps) deployment gen) None = Some (Inr ts) \<and>
    (\<forall>t\<in>set ts. \<exists>o1. tp_Build t = Some (Inr o1)) \<and>
    sv_Name ` {s. OService s \<in> built ts} = app_services (bo_Component (gen_Base gen)) eps"
proof -
  obtain ts where ts: "Workload_New L iter (app_workload component endpoints (simple_defaults eps) deployment gen)
        (map_option (app_workload component endpoints (simple_defaults eps) deployment) None) = Some (Inr ts)"
      "\<forall>t\<in>set ts. \<exists>o1. tp_Build t = Some (Inr o1)"
      "sv_Name ` {s. OService s \<in> built ts} = app_services (bo_Component (gen_Base gen)) eps"
    by (rule app_New_built [where deployment = deployment and gen = gen and canary = None, OF assms]) simp
  then show ?thesis unfolding option.map by blast
qed

lemma app_services_one: "app_services component [(ep, ports)] = {component @ ''-'' @ ToLower ep @ ''-svc''}"
  by (simp add: app_services_def)

lemma app_secrets_default: "app_secrets (ExternalSecret_Default es) gen \<noteq> None"
  unfolding app_secrets_def by (rule external_secrets_default)

lemma complete_defaults [simp]:
  "complete_image echoapiDefaultImage" "complete_image corsproxyDefaultImage" "complete_image mappingserviceDefaultImage"
  "complete_image autosslDefaultImage" "complete_probe echoapiDefaultLivenessProbe" "complete_probe echoapiDefaultReadinessProbe"
  "complete_probe corsproxyDefaultProbe" "complete_probe mappingserviceLivenessDefaultProbe"
  "complete_probe mappingserviceReadinessDefaultProbe" "complete_probe autosslDefaultProbe"
  by (simp_all add: complete_image_def complete_probe_def echoapiDefaultImage_def corsproxyDefaultImage_def mappingserviceDefaultImage_def
      autosslDefaultImage_def echoapiDefaultLivenessProbe_def echoapiDefaultReadinessProbe_def corsproxyDefaultProbe_def
      mappingserviceLivenessDefaultProbe_def mappingserviceReadinessDefaultProbe_def autosslDefaultProbe_def)

lemma Default_buildable [simp]:
  "buildable (EchoAPISpec_Default e)" "buildable (CORSProxySpec_Default c)" "buildable (MappingServiceSpec_Default m)"
  "buildable (AutoSSLSpec_Default a)"
  by (simp_all add: EchoAPISpec_Default_def CORSProxySpec_Default_def MappingServiceSpec_Default_def AutoSSLSpec_Default_def
      app_Default_buildable)

lemma deployments_built:
  "buildable (gen_Spec e) \<Longrightarrow> EchoAPI_deployment e \<noteq> None" "buildable (gen_Spec c) \<Longrightarrow> CORSProxy_deployment c \<noteq> None"
  "buildable (gen_Spec m) \<Longrightarrow> MappingService_deployment m \<noteq> None" "buildable (gen_Spec a) \<Longrightarrow> AutoSSL_deployment a \<noteq> None"
  unfolding EchoAPI_deployment_def CORSProxy_deployment_def MappingService_deployment_def AutoSSL_deployment_def probes_eta
  by (simp_all only: app_deployment_built not_False_eq_True)

lemma options_total:
  "corsproxy_NewOptions c \<noteq> None" "mappingservice_NewOptions m \<noteq> None" "autossl_NewOptions (AutoSSLSpec_Default a) \<noteq> None"
  by (simp_all add: corsproxy_NewOptions_def corsproxy_rows_def mappingservice_NewOptions_def mappingservice_rows_def autossl_NewOptions_def
      AutoSSLSpec_Default_def AutoSSLConfig_Default_def orDefault_def add_options_None Text_total Secret_total Let_def bind_eq_None_conv
      del: not_None_eq split: option.split)

lemmas strategy_defs = echoapi_DefaultPublishingStrategy_def corsproxy_DefaultPublishingStrategy_def
  mappingservice_DefaultPublishingStrategy_def autossl_DefaultPublishingStrategy_def

lemma strategies_simple:
  "echoapi_DefaultPublishingStrategy = simple_defaults [(''HTTP'', [TCPPort ''http'' 80 (FromString ''http'')])]"
  "corsproxy_DefaultPublishingStrategy = simple_defaults [(''HTTP'', [TCPPort ''http'' 80 (FromString ''http'')])]"
  "mappingservice_DefaultPublishingStrategy =
     simple_defaults [(''HTTP'', [TCPPort ''mapping'' 80 (FromString ''mapping''), TCPPort ''management'' 8090 (FromString ''management'')])]"
  "autossl_DefaultPublishingStrategy =
     simple_defaults [(''Proxy'', [TCPPort ''http'' 80 (FromString ''http''), TCPPort ''https'' 443 (FromString ''https'')])]"
  by (simp_all add: strategy_defs simple_defaults_def)

lemma lower_proxy: "ToLower ''Proxy'' = ''proxy''"
  by code_simp

section \<open>Traffic of AutoSSL\<close>

lemma autossl_simps [simp]:
  "w_Key (AutoSSL_workload gen) = GetKey (gen_Base gen)" "w_Selector (AutoSSL_workload gen) = GetSelector (gen_Base gen)"
  "w_Canary (AutoSSL_workload gen) = Some (gen_Traffic gen, [traffic_key \<mapsto> ''autossl''])"
  "traffic_of (AutoSSL_workload gen) = [traffic_key \<mapsto> ''autossl'']" "sends_traffic (AutoSSL_workload gen) = gen_Traffic gen"
  by (simp_all add: AutoSSL_workload_def app_workload_def traffic_of_def sends_traffic_def)

interpretation autossl_pair:
  routed_pair "AutoSSL_workload (autossl_main instance namespace spec opts)"
    "AutoSSL_workload (autossl_canary instance namespace canarySpec canaryOpts sendTraffic)"
  for "instance" namespace spec opts canarySpec canaryOpts sendTraffic
proof
  have "GetSelector (gen_Base (autossl_main instance namespace spec opts)) PodSelectorKey = Some ''autossl''"
    "GetSelector (gen_Base (autossl_canary instance namespace canarySpec canaryOpts sendTraffic)) PodSelectorKey = Some ''autossl-canary''"
    by (simp_all add: GetSelector_def autossl_main_def autossl_canary_def app_base_def)
  then show "\<exists>k v v'. w_Selector (AutoSSL_workload (autossl_main instance namespace spec opts)) k = Some v \<and>
      w_Selector (AutoSSL_workload (autossl_canary instance namespace canarySpec canaryOpts sendTraffic)) k = Some v' \<and>
      v \<noteq> v' \<and> traffic_of (AutoSSL_workload (autossl_main instance namespace spec opts)) k = None"
    by - (rule exI [of _ PodSelectorKey], simp)
qed (simp_all add: identifiable_def GetSelector_def)

lemma AutoSSL_NewGeneratorE:
  assumes "AutoSSL_NewGenerator J instance namespace spec = Some (Inr (gen, canary))"
  obtains (alone) opts where "gen = autossl_main instance namespace spec opts" "canary = None" "ass_Canary spec = None"
  | (pair) opts c canarySpec canaryOpts where "gen = autossl_main instance namespace spec opts" "ass_Canary spec = Some c"
      "canary = Some (autossl_canary instance namespace canarySpec canaryOpts (can_SendTraffic c))"
proof -
  obtain opts where o: "autossl_NewOptions spec = Some opts"
    using assms by (auto simp: AutoSSL_NewGenerator_def elim!: bind_SomeE)
  show thesis
  proof (cases "ass_Canary spec")
    case None
    with assms o show thesis by (intro alone) (auto simp: AutoSSL_NewGenerator_def)
  next
    case (Some c)
    obtain r where r: "AutoSSLSpec_ResolveCanarySpec J spec c = Some r"
      using assms o Some by (auto simp: AutoSSL_NewGenerator_def elim!: bind_SomeE)
    show thesis
    proof (cases r)
      case (Inl e)
      with assms o Some r show thesis by (simp add: AutoSSL_NewGenerator_def)
    next
      case (Inr canarySpec)
      then obtain canaryOpts where "autossl_NewOptions canarySpec = Some canaryOpts"
        using assms o Some r by (auto simp: AutoSSL_NewGenerator_def elim!: bind_SomeE)
      with Inr assms o Some r show thesis by (intro pair [of opts c canarySpec canaryOpts]) (simp_all add: AutoSSL_NewGenerator_def)
    qed
  qed
qed

section \<open>Properties\<close>

text \<open>
  Traffic of AutoSSL: a service selects the pods of the deployment, and those of its canary exactly
  when the canary is set to send traffic. The canary carries the traffic label of the application, not
  one of its own.
\<close>

lemma AutoSSL_traffic:
  assumes "AutoSSL_NewGenerator J instance namespace spec = Some (Inr (gen, canary))"
    and "AutoSSL_Resources L iter gen canary = Some (Inr (ts, dashboard))"
    and "OService s \<in> built ts" "ODeployment d \<in> built ts"
  shows "selects (sv_Selector s) (pod_labels d) \<longleftrightarrow>
    dep_Name d = ''autossl'' \<or> dep_Name d = ''autossl-canary'' \<and> (\<exists>c. ass_Canary spec = Some c \<and> can_SendTraffic c)"
proof -
  have New: "Workload_New L iter (AutoSSL_workload gen) (map_option AutoSSL_workload canary) = Some (Inr ts)"
    using assms(2) by (auto simp: AutoSSL_Resources_def elim!: bind_SomeE split: sum.splits)
  from assms(4) obtain w d0 where w: "w \<in> set (workloads (AutoSSL_workload gen) (map_option AutoSSL_workload canary))"
      "d = deployment_of (sidecars_of (AutoSSL_workload gen)) w d0"
    by (auto simp: built_New(1) [OF New])
  have name: "dep_Name d = fst (w_Key w)" unfolding w(2) by (rule deployment_of_simps)
  from assms(1) show ?thesis
  proof (cases rule: AutoSSL_NewGeneratorE)
    case (alone opts)
    have "selects (sv_Selector s) (pod_labels d)"
      using alone_routes [OF _ _ _ _ assms(3,4), of L iter "AutoSSL_workload gen" "[traffic_key \<mapsto> ''autossl'']"] New alone
      by (simp add: identifiable_def GetSelector_def autossl_main_def)
    moreover have "dep_Name d = ''autossl''"
      using name w(1) alone by (simp add: workloads_def GetKey_def autossl_main_def app_base_def)
    ultimately show ?thesis by simp
  next
    case (pair opts c canarySpec canaryOpts)
    have N: "Workload_New L iter (AutoSSL_workload (autossl_main instance namespace spec opts))
        (Some (AutoSSL_workload (autossl_canary instance namespace canarySpec canaryOpts (can_SendTraffic c)))) = Some (Inr ts)"
      using New pair by simp
    have names: "bo_Component (gen_Base (autossl_main instance namespace spec opts)) = ''autossl''"
      "bo_Component (gen_Base (autossl_canary instance namespace canarySpec canaryOpts (can_SendTraffic c))) = ''autossl-canary''"
      "gen_Traffic (autossl_main instance namespace spec opts)"
      "gen_Traffic (autossl_canary instance namespace canarySpec canaryOpts (can_SendTraffic c)) = can_SendTraffic c"
      by (simp_all add: autossl_main_def autossl_canary_def app_base_def)
    note routes = autossl_pair.New_routes [OF N assms(3), of "sidecars_of (AutoSSL_workload gen)" d0, unfolded autossl_simps names]
    consider "w = AutoSSL_workload (autossl_main instance namespace spec opts)"
      | "w = AutoSSL_workload (autossl_canary instance namespace canarySpec canaryOpts (can_SendTraffic c))"
      using w(1) pair by (auto simp: workloads_def)
    then show ?thesis
    proof cases
      case 1
      then show ?thesis using routes(1) name names(1,3) w(2) by (simp add: GetKey_def)
    next
      case 2
      then show ?thesis using routes(2) name names(2) w(2) pair(2) by (simp add: GetKey_def)
    qed
  qed
qed

text \<open>
  The external secrets of CORSProxy and MappingService are exactly those their pods read, the seed
  apart, when the references to Vault are complete, and each of them is a trigger that rolls the
  deployment out when it changes.
\<close>

lemma simple_apps_secrets_exact:
  assumes "CORSProxy_NewGenerator instance namespace cspec = Some cgen"
    and "CORSProxy_Resources L iter cgen = Some (Inr (cts, csecrets, cdashboard))"
    and "complete_ref (cpc_SystemDatabaseDSN (cps_Config cspec))"
    and "MappingService_NewGenerator instance namespace mspec = Some mgen"
    and "MappingService_Resources L iter mgen = Some (Inr (mts, msecrets, mdashboard))"
    and "complete_ref (msc_SystemAdminToken (mss_Config mspec))"
  shows "secret_keys csecrets = {(name, key). name \<noteq> DefaultSeedSecret \<and> reads_secret (gen_Options cgen) name key} \<and>
    secret_keys msecrets = {(name, key). name \<noteq> DefaultSeedSecret \<and> reads_secret (gen_Options mgen) name key} \<and>
    (\<forall>opts\<in>{gen_Options cgen, gen_Options mgen}. \<forall>name key. reads_secret opts name key \<longrightarrow> name \<in> set (GenerateRolloutTriggers [] opts))"
proof -
  have names: "''cors-proxy-system-database'' \<noteq> DefaultSeedSecret" "''mapping-service-system-master-access-token'' \<noteq> DefaultSeedSecret"
    by (simp_all add: DefaultSeedSecret_def)
  have "secret_keys csecrets = {(name, key). name \<noteq> DefaultSeedSecret \<and> reads_secret (gen_Options cgen) name key}"
  proof -
    have o: "add_options (corsproxy_rows cspec) = Some (gen_Options cgen)"
      using assms(1) by (auto simp: CORSProxy_NewGenerator_def corsproxy_NewOptions_def)
    have r: "\<forall>r\<in>set (corsproxy_rows cspec). row_ok r" "distinct (map fst (corsproxy_rows cspec))"
      using assms(3) names by (simp_all add: corsproxy_rows_def row_ok_simps)
    obtain ns labels store kind refresh where e:
      "csecrets = GenerateExternalSecrets ns labels store kind refresh (gen_Options cgen)"
      using assms(2) by (auto simp: CORSProxy_Resources_def app_secrets_def external_secrets_of_def elim!: bind_SomeE split: sum.splits)
    show ?thesis unfolding e by (rule single_secrets_exact [OF o r])
  qed
  moreover have "secret_keys msecrets = {(name, key). name \<noteq> DefaultSeedSecret \<and> reads_secret (gen_Options mgen) name key}"
  proof -
    have o: "add_options (mappingservice_rows mspec) = Some (gen_Options mgen)"
      using assms(4) by (auto simp: MappingService_NewGenerator_def mappingservice_NewOptions_def)
    have r: "\<forall>r\<in>set (mappingservice_rows mspec). row_ok r" "distinct (map fst (mappingservice_rows mspec))"
      using assms(6) names by (simp_all add: mappingservice_rows_def row_ok_simps)
    obtain ns labels store kind refresh where e:
      "msecrets = GenerateExternalSecrets ns labels store kind refresh (gen_Options mgen)"
      using assms(5) by (auto simp: MappingService_Resources_def app_secrets_def external_secrets_of_def elim!: bind_SomeE split: sum.splits)
    show ?thesis unfolding e by (rule single_secrets_exact [OF o r])
  qed
  moreover have "\<forall>opts\<in>{gen_Options cgen, gen_Options mgen}. \<forall>name key. reads_secret opts name key \<longrightarrow>
      name \<in> set (GenerateRolloutTriggers [] opts)"
    using reads_rolls_out by blast
  ultimately show ?thesis by blast
qed

text \<open>The generator of a defaulted application: its workload, and that of its canary, are built.\<close>

lemma EchoAPI_built:
  assumes "ap_PublishingStrategies spec = None"
  obtains ts where "EchoAPI_Resources L iter (EchoAPI_NewGenerator instance namespace (EchoAPISpec_Default spec)) = Some (Inr ts)"
    "\<forall>t\<in>set ts. \<exists>o1. tp_Build t = Some (Inr o1)" "sv_Name ` {s. OService s \<in> built ts} = {''echo-api-http-svc''}"
proof -
  let ?gen = "EchoAPI_NewGenerator instance namespace (EchoAPISpec_Default spec)"
  have g: "buildable (gen_Spec ?gen)" "ap_PublishingStrategies (gen_Spec ?gen) \<in> {None, Some (InitializePublishingStrategies None)}"
    "bo_Component (gen_Base ?gen) = ''echo-api''"
    using assms by (simp_all add: EchoAPI_NewGenerator_def EchoAPISpec_Default_def [of spec] app_base_def app_Default_buildable)
  let ?eps = "[(''HTTP'', [TCPPort ''http'' 80 (FromString ''http'')])]"
  have "\<exists>ts. EchoAPI_Resources L iter ?gen = Some (Inr ts) \<and> (\<forall>t\<in>set ts. \<exists>o1. tp_Build t = Some (Inr o1)) \<and>
      sv_Name ` {s. OService s \<in> built ts} = app_services (bo_Component (gen_Base ?gen)) ?eps"
    unfolding EchoAPI_Resources_def EchoAPI_workload_def strategies_simple by (rule app_New_alone [where deployment = EchoAPI_deployment, OF g(1) deployments_built(1) [OF g(1)] g(2)])
  moreover have "app_services (bo_Component (gen_Base ?gen)) ?eps = {''echo-api-http-svc''}"
    by (simp add: app_services_one lower_http g(3))
  ultimately show thesis using that by (elim exE conjE) simp
qed

lemma CORSProxy_built:
  assumes "ap_PublishingStrategies spec = None"
  obtains gen ts secrets dashboard where "CORSProxy_NewGenerator instance namespace (CORSProxySpec_Default spec) = Some gen"
    "CORSProxy_Resources L iter gen = Some (Inr (ts, secrets, dashboard))" "\<forall>t\<in>set ts. \<exists>o1. tp_Build t = Some (Inr o1)"
    "sv_Name ` {s. OService s \<in> built ts} = {''cors-proxy-http-svc''}"
proof -
  let ?spec = "CORSProxySpec_Default spec"
  obtain gen where gen: "CORSProxy_NewGenerator instance namespace ?spec = Some gen"
      "gen_Spec gen = ?spec" "bo_Component (gen_Base gen) = ''cors-proxy''"
    using options_total(1) [of ?spec] by (auto simp: CORSProxy_NewGenerator_def app_base_def)
  have g: "buildable (gen_Spec gen)" "ap_PublishingStrategies (gen_Spec gen) \<in> {None, Some (InitializePublishingStrategies None)}"
    using assms by (simp_all add: gen(2) CORSProxySpec_Default_def [of spec] app_Default_buildable) (simp add: app_Default_def)
  obtain ts where ts: "Workload_New L iter (CORSProxy_workload gen) None = Some (Inr ts)" "\<forall>t\<in>set ts. \<exists>o1. tp_Build t = Some (Inr o1)"
      "sv_Name ` {s. OService s \<in> built ts} = {''cors-proxy-http-svc''}"
  proof -
    let ?eps = "[(''HTTP'', [TCPPort ''http'' 80 (FromString ''http'')])]"
    have "\<exists>ts. Workload_New L iter (CORSProxy_workload gen) None = Some (Inr ts) \<and> (\<forall>t\<in>set ts. \<exists>o1. tp_Build t = Some (Inr o1)) \<and>
        sv_Name ` {s. OService s \<in> built ts} = app_services (bo_Component (gen_Base gen)) ?eps"
      unfolding CORSProxy_workload_def strategies_simple by (rule app_New_alone [where deployment = CORSProxy_deployment, OF g(1) deployments_built(2) [OF g(1)] g(2)])
    moreover have "app_services (bo_Component (gen_Base gen)) ?eps = {''cors-proxy-http-svc''}"
      by (simp add: app_services_one lower_http gen(3))
    ultimately show thesis using that by (elim exE conjE) simp
  qed
  obtain secrets where "app_secrets (cpc_ExternalSecret (cps_Config (gen_Spec gen))) gen = Some secrets"
    using app_secrets_default [of _ gen] by (auto simp: gen(2) CORSProxySpec_Default_def CORSProxyConfig_Default_def)
  with ts obtain dashboard where "CORSProxy_Resources L iter gen = Some (Inr (ts, secrets, dashboard))"
    by (simp add: CORSProxy_Resources_def app_dashboard_def gen(2) CORSProxySpec_Default_def)
  with that gen(1) ts show thesis by blast
qed

lemma MappingService_built:
  assumes "ap_PublishingStrategies spec = None"
  obtains gen ts secrets dashboard where "MappingService_NewGenerator instance namespace (MappingServiceSpec_Default spec) = Some gen"
    "MappingService_Resources L iter gen = Some (Inr (ts, secrets, dashboard))" "\<forall>t\<in>set ts. \<exists>o1. tp_Build t = Some (Inr o1)"
    "sv_Name ` {s. OService s \<in> built ts} = {''mapping-service-http-svc''}"
proof -
  let ?spec = "MappingServiceSpec_Default spec"
  obtain gen where gen: "MappingService_NewGenerator instance namespace ?spec = Some gen"
      "gen_Spec gen = ?spec" "bo_Component (gen_Base gen) = ''mapping-service''"
    using options_total(2) [of ?spec] by (auto simp: MappingService_NewGenerator_def app_base_def)
  have g: "buildable (gen_Spec gen)" "ap_PublishingStrategies (gen_Spec gen) \<in> {None, Some (InitializePublishingStrategies None)}"
    using assms by (simp_all add: gen(2) MappingServiceSpec_Default_def [of spec] app_Default_buildable) (simp add: app_Default_def)
  obtain ts where ts: "Workload_New L iter (MappingService_workload gen) None = Some (Inr ts)" "\<forall>t\<in>set ts. \<exists>o1. tp_Build t = Some (Inr o1)"
      "sv_Name ` {s. OService s \<in> built ts} = {''mapping-service-http-svc''}"
  proof -
    let ?eps = "[(''HTTP'', [TCPPort ''mapping'' 80 (FromString ''mapping''), TCPPort ''management'' 8090 (FromString ''management'')])]"
    have "\<exists>ts. Workload_New L iter (MappingService_workload gen) None = Some (Inr ts) \<and> (\<forall>t\<in>set ts. \<exists>o1. tp_Build t = Some (Inr o1)) \<and>
        sv_Name ` {s. OService s \<in> built ts} = app_services (bo_Component (gen_Base gen)) ?eps"
      unfolding MappingService_workload_def strategies_simple by (rule app_New_alone [where deployment = MappingService_deployment, OF g(1) deployments_built(3) [OF g(1)] g(2)])
    moreover have "app_services (bo_Component (gen_Base gen)) ?eps = {''mapping-service-http-svc''}"
      by (simp add: app_services_one lower_http gen(3))
    ultimately show thesis using that by (elim exE conjE) simp
  qed
  obtain secrets where "app_secrets (msc_ExternalSecret (mss_Config (gen_Spec gen))) gen = Some secrets"
    using app_secrets_default [of _ gen] by (auto simp: gen(2) MappingServiceSpec_Default_def MappingServiceConfig_Default_def)
  with ts obtain dashboard where "MappingService_Resources L iter gen = Some (Inr (ts, secrets, dashboard))"
    by (simp add: MappingService_Resources_def app_dashboard_def gen(2) MappingServiceSpec_Default_def)
  with that gen(1) ts show thesis by blast
qed

text \<open>A canary whose patches are applied without error, to a specification that keeps an image.\<close>

lemma AutoSSL_built:
  assumes "ap_PublishingStrategies spec = None"
    and "\<forall>c\<in>set_option (ass_Canary spec). \<exists>s. AutoSSLSpec_ResolveCanarySpec J (AutoSSLSpec_Default spec) c = Some (Inr (AutoSSLSpec_Default s))"
  obtains gen canary ts dashboard where "AutoSSL_NewGenerator J instance namespace (AutoSSLSpec_Default spec) = Some (Inr (gen, canary))"
    "AutoSSL_Resources L iter gen canary = Some (Inr (ts, dashboard))" "\<forall>t\<in>set ts. \<exists>o1. tp_Build t = Some (Inr o1)"
    "sv_Name ` {s. OService s \<in> built ts} = {''autossl-proxy-svc''}" "\<forall>x\<in>set_option canary. AutoSSL_deployment x \<noteq> None"
proof -
  let ?spec = "AutoSSLSpec_Default spec"
  have c: "ass_Canary ?spec = ass_Canary spec" by (simp add: AutoSSLSpec_Default_def app_Default_def)
  obtain opts where opts: "autossl_NewOptions ?spec = Some opts" using options_total(3) by blast
  define gen where "gen = autossl_main instance namespace ?spec opts"
  obtain canary where new: "AutoSSL_NewGenerator J instance namespace ?spec = Some (Inr (gen, canary))"
    and canary: "\<forall>x\<in>set_option canary. ap_HPA (gen_Spec x) \<noteq> None \<and> ap_PDB (gen_Spec x) \<noteq> None \<and> AutoSSL_deployment x \<noteq> None"
  proof (cases "ass_Canary spec")
    case None
    show thesis by (rule that [of None]) (simp_all add: AutoSSL_NewGenerator_def opts c None gen_def)
  next
    case (Some k)
    obtain s where s: "AutoSSLSpec_ResolveCanarySpec J ?spec k = Some (Inr (AutoSSLSpec_Default s))" using assms(2) Some by auto
    obtain co where co: "autossl_NewOptions (AutoSSLSpec_Default s) = Some co" using options_total(3) by blast
    let ?c = "autossl_canary instance namespace (AutoSSLSpec_Default s) co (can_SendTraffic k)"
    have "buildable (gen_Spec ?c)"
      using Default_buildable(4) [of s] by (simp add: autossl_canary_def buildable_def)
    then have "ap_HPA (gen_Spec ?c) \<noteq> None \<and> ap_PDB (gen_Spec ?c) \<noteq> None \<and> AutoSSL_deployment ?c \<noteq> None"
      using deployments_built(4) unfolding buildable_def by blast
    then show thesis by (intro that [of "Some ?c"]) (simp_all add: AutoSSL_NewGenerator_def opts c Some s co gen_def)
  qed
  have g: "buildable (gen_Spec gen)" "ap_PublishingStrategies (gen_Spec gen) \<in> {None, Some (InitializePublishingStrategies None)}"
    "bo_Component (gen_Base gen) = ''autossl''"
    using assms(1) by (simp_all add: gen_def autossl_main_def AutoSSLSpec_Default_def [of spec] app_base_def app_Default_buildable)
  obtain ts where ts: "Workload_New L iter (AutoSSL_workload gen) (map_option AutoSSL_workload canary) = Some (Inr ts)"
      "\<forall>t\<in>set ts. \<exists>o1. tp_Build t = Some (Inr o1)" "sv_Name ` {s. OService s \<in> built ts} = {''autossl-proxy-svc''}"
    by (rule app_New_built [where deployment = AutoSSL_deployment and component = "''autossl''", OF g(1) deployments_built(4) [OF g(1)] g(2) canary,
          of L iter "[PodMetricsEndpoint ''/metrics'' ''metrics'' 30]"
            "[(''Proxy'', [TCPPort ''http'' 80 (FromString ''http''), TCPPort ''https'' 443 (FromString ''https'')])]"])
       (simp add: AutoSSL_workload_def strategies_simple app_services_one lower_proxy g(3))
  then obtain dashboard where "AutoSSL_Resources L iter gen canary = Some (Inr (ts, dashboard))"
    by (simp add: AutoSSL_Resources_def app_dashboard_def gen_def autossl_main_def AutoSSLSpec_Default_def)
  with that new ts canary show thesis by blast
qed


section \<open>Witnesses\<close>

definition demo_echoapi :: EchoAPISpec where
  "demo_echoapi = \<lparr>ap_Image = None, ap_PDB = None, ap_HPA = None, ap_Replicas = None, ap_Resources = None, ap_LivenessProbe = None,
     ap_ReadinessProbe = None, ap_NodeAffinity = None, ap_Tolerations = [], ap_PublishingStrategies = None,
     ec_Endpoint = None, ec_Marin3r = None, ec_LoadBalancer = None\<rparr>"

definition demo_ref :: SecretReference where
  "demo_ref = \<lparr>sr_FromVault = Some (''secret/data/app'', ''key''), sr_Override = None, sr_FromSeed = None\<rparr>"

definition demo_corsproxy :: CORSProxySpec where
  "demo_corsproxy = \<lparr>ap_Image = None, ap_PDB = None, ap_HPA = None, ap_Replicas = None, ap_Resources = None, ap_LivenessProbe = None,
     ap_ReadinessProbe = None, ap_NodeAffinity = None, ap_Tolerations = [], ap_PublishingStrategies = None,
     cps_GrafanaDashboard = None,
     cps_Config = \<lparr>cpc_ExternalSecret = \<lparr>es_SecretStoreRef = None, es_RefreshInterval = None\<rparr>, cpc_SystemDatabaseDSN = demo_ref\<rparr>\<rparr>"

definition demo_mappingservice :: MappingServiceSpec where
  "demo_mappingservice = \<lparr>ap_Image = None, ap_PDB = None, ap_HPA = None, ap_Replicas = None, ap_Resources = None, ap_LivenessProbe = None,
     ap_ReadinessProbe = None, ap_NodeAffinity = None, ap_Tolerations = [], ap_PublishingStrategies = None,
     mss_GrafanaDashboard = None,
     mss_Config = \<lparr>msc_APIHost = ''host'', msc_PreviewBaseDomain = None, msc_LogLevel = None,
       msc_ExternalSecret = \<lparr>es_SecretStoreRef = None, es_RefreshInterval = None\<rparr>, msc_SystemAdminToken = demo_ref\<rparr>\<rparr>"

definition demo_autossl :: AutoSSLSpec where
  "demo_autossl = \<lparr>ap_Image = None, ap_PDB = None, ap_HPA = None, ap_Replicas = None, ap_Resources = None, ap_LivenessProbe = None,
     ap_ReadinessProbe = None, ap_NodeAffinity = None, ap_Tolerations = [], ap_PublishingStrategies = None,
     ass_GrafanaDashboard = None,
     ass_Config = \<lparr>asc_LogLevel = None, asc_ACMEStaging = None, asc_ContactEmail = ''a@b'', asc_ProxyEndpoint = ''proxy'',
       asc_VerificationEndpoint = ''verify'', asc_DomainWhitelist = None, asc_DomainBlacklist = None, asc_RedisHost = ''redis'',
       asc_RedisPort = None\<rparr>,
     ass_Canary = Some \<lparr>can_SendTraffic = True, can_ImageName = None, can_ImageTag = None, can_Replicas = None, can_Patches = []\<rparr>,
     ass_Endpoint = None, ass_LoadBalancer = None\<rparr>"

text \<open>The documents are the specifications themselves.\<close>

definition autossl_json :: "(AutoSSLSpec, AutoSSLSpec, unit) json_lib" where
  "autossl_json = \<lparr>js_Marshal = Inr, js_Unmarshal = Inr, js_DecodePatch = (\<lambda>_. Inr ()), js_Apply = (\<lambda>_. Inr)\<rparr>"

lemma demo_strategies:
  "ap_PublishingStrategies demo_echoapi = None" "ap_PublishingStrategies demo_corsproxy = None"
  "ap_PublishingStrategies demo_mappingservice = None" "ap_PublishingStrategies demo_autossl = None"
  by (simp_all add: demo_echoapi_def demo_corsproxy_def demo_mappingservice_def demo_autossl_def)

lemma demo_autossl_canary:
  "\<forall>c\<in>set_option (ass_Canary demo_autossl). \<exists>s.
     AutoSSLSpec_ResolveCanarySpec autossl_json (AutoSSLSpec_Default demo_autossl) c = Some (Inr (AutoSSLSpec_Default s))"
proof -
  have "AutoSSLSpec_ResolveCanarySpec autossl_json (AutoSSLSpec_Default demo_autossl) c =
      Some (Inr (AutoSSLSpec_Default ((AutoSSLSpec_Default demo_autossl)\<lparr>ap_Replicas := can_Replicas c\<rparr>)))"
    if "c \<in> set_option (ass_Canary demo_autossl)" for c
    using that by (auto simp: demo_autossl_def AutoSSLSpec_ResolveCanarySpec_def Canary_PatchSpec_def autossl_json_def)
  then show ?thesis by blast
qed


end
