(* ===== verification/SystemTypes.thy ===== *)
theory SystemTypes
  imports TwemproxySidecar
begin

text \<open>
  The specification of System (\<^verbatim>\<open>api/v1alpha1/system_types.go\<close>): the configuration, the application, the
  three sidekiqs, the search daemon, the console and the Tekton tasks, with their defaults.

  The configurations of the default tasks are package variables. A task that the user does not name
  points to the configuration of the variable, and defaulting writes through that pointer: the
  configurations of the variables are a state that defaulting takes and returns, and a task holds a
  configuration of its own or the index of a shared one.
\<close>

section \<open>Defaults\<close>

definition systemDefaultImage :: ImageSpec where
  "systemDefaultImage = \<lparr>img_Name = Some ''quay.io/3scale/porta'', img_Tag = Some ''nightly'', img_PullSecretName = None,
     img_PullPolicy = Some ''IfNotPresent''\<rparr>"

definition systemDefaultGrafanaDashboard :: GrafanaDashboardSpec where
  "systemDefaultGrafanaDashboard = \<lparr>gd_SelectorKey = Some ''monitoring-key'', gd_SelectorValue = Some ''middleware''\<rparr>"

definition systemDefaultBugsnagSpec :: BugsnagSpec where
  "systemDefaultBugsnagSpec = \<lparr>bs_ReleaseStage = None, bs_APIKey = no_SecretReference\<rparr>"

definition systemDefaultTerminationGracePeriodSeconds :: "int option" where
  "systemDefaultTerminationGracePeriodSeconds = Some 60"

definition systemDefaultAppResources :: Resources where
  "systemDefaultAppResources = \<lparr>rr_Limits = Some [(''cpu'', ''400m''), (''memory'', ''2Gi'')],
     rr_Requests = Some [(''cpu'', ''200m''), (''memory'', ''1Gi'')], rr_Claims = None\<rparr>"

definition systemDefaultAppDeploymentStrategy :: "IntOrString option \<times> IntOrString option" where
  "systemDefaultAppDeploymentStrategy = (Some (FromInt 0), Some (FromString ''10%''))"

definition systemDefaultAppHPA :: HPASpec where
  "systemDefaultAppHPA = \<lparr>hpa_MinReplicas = Some 2, hpa_MaxReplicas = Some 4, hpa_ResourceName = Some ''cpu'',
     hpa_ResourceUtilization = Some 90, hpa_Behavior = None\<rparr>"

definition systemDefaultAppLivenessProbe :: ProbeSpec where
  "systemDefaultAppLivenessProbe = \<lparr>pr_InitialDelaySeconds = Some 30, pr_TimeoutSeconds = Some 1, pr_PeriodSeconds = Some 10,
     pr_SuccessThreshold = Some 1, pr_FailureThreshold = Some 3\<rparr>"

definition systemDefaultAppReadinessProbe :: ProbeSpec where
  "systemDefaultAppReadinessProbe = \<lparr>pr_InitialDelaySeconds = Some 30, pr_TimeoutSeconds = Some 5, pr_PeriodSeconds = Some 10,
     pr_SuccessThreshold = Some 1, pr_FailureThreshold = Some 3\<rparr>"

definition systemDefaultAppPDB :: PDBSpec where
  "systemDefaultAppPDB = \<lparr>pdb_MinAvailable = None, pdb_MaxUnavailable = Some (FromInt 1)\<rparr>"

definition systemDefaultSidekiqResources :: Resources where
  "systemDefaultSidekiqResources = \<lparr>rr_Limits = Some [(''cpu'', ''1''), (''memory'', ''2Gi'')],
     rr_Requests = Some [(''cpu'', ''500m''), (''memory'', ''1Gi'')], rr_Claims = None\<rparr>"

definition systemDefaultSidekiqDeploymentStrategy :: "IntOrString option \<times> IntOrString option" where
  "systemDefaultSidekiqDeploymentStrategy = (Some (FromInt 0), Some (FromInt 1))"

definition systemDefaultSidekiqHPA :: HPASpec where
  "systemDefaultSidekiqHPA = \<lparr>hpa_MinReplicas = Some 2, hpa_MaxReplicas = Some 4, hpa_ResourceName = Some ''cpu'',
     hpa_ResourceUtilization = Some 90, hpa_Behavior = None\<rparr>"

definition systemDefaultSidekiqLivenessProbe :: ProbeSpec where
  "systemDefaultSidekiqLivenessProbe = \<lparr>pr_InitialDelaySeconds = Some 10, pr_TimeoutSeconds = Some 3, pr_PeriodSeconds = Some 15,
     pr_SuccessThreshold = Some 1, pr_FailureThreshold = Some 5\<rparr>"

definition systemDefaultSidekiqReadinessProbe :: ProbeSpec where
  "systemDefaultSidekiqReadinessProbe = \<lparr>pr_InitialDelaySeconds = Some 10, pr_TimeoutSeconds = Some 5, pr_PeriodSeconds = Some 30,
     pr_SuccessThreshold = Some 1, pr_FailureThreshold = Some 5\<rparr>"

definition systemDefaultSidekiqPDB :: PDBSpec where
  "systemDefaultSidekiqPDB = \<lparr>pdb_MinAvailable = None, pdb_MaxUnavailable = Some (FromInt 1)\<rparr>"

definition systemDefaultSearchdImage :: ImageSpec where
  "systemDefaultSearchdImage = \<lparr>img_Name = Some ''quay.io/3scale/searchd'', img_Tag = Some ''latest'', img_PullSecretName = None,
     img_PullPolicy = Some ''IfNotPresent''\<rparr>"

definition systemDefaultSearchdResources :: Resources where
  "systemDefaultSearchdResources = \<lparr>rr_Limits = Some [(''cpu'', ''750m''), (''memory'', ''5Gi'')],
     rr_Requests = Some [(''cpu'', ''250m''), (''memory'', ''4Gi'')], rr_Claims = None\<rparr>"

definition systemDefaultSearchdLivenessProbe :: ProbeSpec where
  "systemDefaultSearchdLivenessProbe = \<lparr>pr_InitialDelaySeconds = Some 60, pr_TimeoutSeconds = Some 3, pr_PeriodSeconds = Some 15,
     pr_SuccessThreshold = Some 1, pr_FailureThreshold = Some 5\<rparr>"

definition systemDefaultSearchdReadinessProbe :: ProbeSpec where
  "systemDefaultSearchdReadinessProbe = \<lparr>pr_InitialDelaySeconds = Some 60, pr_TimeoutSeconds = Some 5, pr_PeriodSeconds = Some 30,
     pr_SuccessThreshold = Some 1, pr_FailureThreshold = Some 5\<rparr>"

definition systemDefaultRailsConsoleResources :: Resources where
  "systemDefaultRailsConsoleResources = \<lparr>rr_Limits = Some [(''cpu'', ''400m''), (''memory'', ''2Gi'')],
     rr_Requests = Some [(''cpu'', ''200m''), (''memory'', ''1Gi'')], rr_Claims = None\<rparr>"

definition systemDefaultSystemTektonTaskResources :: Resources where
  "systemDefaultSystemTektonTaskResources = \<lparr>rr_Limits = Some [(''cpu'', ''400m''), (''memory'', ''2Gi'')],
     rr_Requests = Some [(''cpu'', ''200m''), (''memory'', ''1Gi'')], rr_Claims = None\<rparr>"

text \<open>Three hours, in nanoseconds.\<close>

definition systemDefaultSystemTektonTasksTimeout :: int where
  "systemDefaultSystemTektonTasksTimeout = 10800000000000"

section \<open>Tekton tasks\<close>

record SystemTektonTaskConfig =
  ttc_Image :: "ImageSpec option"
  ttc_Command :: "string list"
  ttc_Args :: "string list"
  ttc_ExtraEnv :: "EnvVar list"
  ttc_Timeout :: "int option"

definition no_SystemTektonTaskConfig :: SystemTektonTaskConfig where
  "no_SystemTektonTaskConfig = \<lparr>ttc_Image = None, ttc_Command = [], ttc_Args = [], ttc_ExtraEnv = [], ttc_Timeout = None\<rparr>"

text \<open>A pointer to a configuration: nil, to one that nothing else points to, or into the package variable.\<close>

datatype ConfigRef = NilConfig | Own SystemTektonTaskConfig | Global nat

record SystemTektonTaskSpec =
  tts_Enabled :: "bool option"
  tts_Name :: "string option"
  tts_Description :: "string option"
  tts_Config :: ConfigRef
  tts_Resources :: "Resources option"
  tts_NodeAffinity :: "string option"
  tts_Tolerations :: "string list"
  tts_TerminationGracePeriodSeconds :: "int option"

type_synonym globals = "SystemTektonTaskConfig list"

definition default_task :: "string \<Rightarrow> string \<Rightarrow> nat \<Rightarrow> SystemTektonTaskSpec" where
  "default_task name description i =
     \<lparr>tts_Enabled = None, tts_Name = Some name, tts_Description = Some description, tts_Config = Global i, tts_Resources = None,
      tts_NodeAffinity = None, tts_Tolerations = [], tts_TerminationGracePeriodSeconds = None\<rparr>"

definition systemDefaultSystemTektonTasks :: "SystemTektonTaskSpec list" where
  "systemDefaultSystemTektonTasks =
     [default_task ''system-backend-sync'' ''Runs the Backend Synchronization task'' 0,
      default_task ''system-db-migrate'' ''Runs the Database Migration task'' 1,
      default_task ''system-searchd-reindex'' ''Runs the Searchd Rendexation task'' 2]"

text \<open>The configurations when the process starts.\<close>

definition initial_globals :: globals where
  "initial_globals =
     (let c = no_SystemTektonTaskConfig\<lparr>ttc_Command := [''container-entrypoint'']\<rparr> in
      [c\<lparr>ttc_Args := [''bundle'', ''exec'', ''rails'', ''backend:storage:enqueue_rewrite'']\<rparr>,
       c\<lparr>ttc_Args := [''bundle'', ''exec'', ''rails'', ''db:migrate'']\<rparr>,
       c\<lparr>ttc_Args := [''bundle'', ''exec'', ''rake'', ''searchd:optimal_index''],
         ttc_ExtraEnv := [\<lparr>env_Name = ''THINKING_SPHINX_BATCH_SIZE'', env_Value = ''20'', env_ValueFrom = None\<rparr>]\<rparr>])"

definition deref :: "globals \<Rightarrow> ConfigRef \<Rightarrow> SystemTektonTaskConfig option" where
  "deref g ref =
     (case ref of
        NilConfig \<Rightarrow> None
      | Own c \<Rightarrow> Some c
      | Global i \<Rightarrow> if i < length g then Some (g ! i) else None)"

text \<open>A method called on a pointer writes where it points; on a nil pointer the write is lost.\<close>

definition write_config :: "(SystemTektonTaskConfig \<Rightarrow> SystemTektonTaskConfig) \<Rightarrow> globals \<Rightarrow> ConfigRef \<Rightarrow> globals \<times> ConfigRef" where
  "write_config f g ref =
     (case ref of
        NilConfig \<Rightarrow> (g, NilConfig)
      | Own c \<Rightarrow> (g, Own (f c))
      | Global i \<Rightarrow> (if i < length g then g[i := f (g ! i)] else g, Global i))"

definition SystemTektonTaskConfig_Default :: "ImageSpec \<Rightarrow> SystemTektonTaskConfig \<Rightarrow> SystemTektonTaskConfig" where
  "SystemTektonTaskConfig_Default img cfg =
     \<lparr>ttc_Image = Some (InitializeImageSpec (ttc_Image cfg) img),
      ttc_Command = stringSliceOrDefault (ttc_Command cfg) [''echo''],
      ttc_Args = stringSliceOrDefault (ttc_Args cfg) [''Step command not set.''],
      ttc_ExtraEnv = ttc_ExtraEnv cfg,
      ttc_Timeout = orDefault (ttc_Timeout cfg) (Some systemDefaultSystemTektonTasksTimeout)\<rparr>"

fun add_missing :: "EnvVar list \<Rightarrow> EnvVar list \<Rightarrow> EnvVar list" where
  "add_missing [] env = env"
| "add_missing (d # ds) env = add_missing ds (if list_ex (\<lambda>e. env_Name d = env_Name e) env then env else env @ [d])"

text \<open>The merge into a configuration that exists; into a nil one it works on a variable of its own.\<close>

definition SystemTektonTaskConfig_Merge :: "SystemTektonTaskConfig \<Rightarrow> SystemTektonTaskConfig \<Rightarrow> SystemTektonTaskConfig" where
  "SystemTektonTaskConfig_Merge d cfg = cfg\<lparr>
     ttc_Command := stringSliceOrDefault (ttc_Command cfg) (ttc_Command d),
     ttc_Args := stringSliceOrDefault (ttc_Args cfg) (ttc_Args d),
     ttc_ExtraEnv := add_missing (ttc_ExtraEnv d) (if length (ttc_ExtraEnv cfg) = 0 then ttc_ExtraEnv d else ttc_ExtraEnv cfg)\<rparr>"

definition SystemTektonTaskSpec_Default :: "ImageSpec \<Rightarrow> globals \<Rightarrow> SystemTektonTaskSpec \<Rightarrow> globals \<times> SystemTektonTaskSpec" where
  "SystemTektonTaskSpec_Default img g spec =
     (let ref = (case tts_Config spec of NilConfig \<Rightarrow> Own no_SystemTektonTaskConfig | r \<Rightarrow> r);
          (g, ref) = write_config (SystemTektonTaskConfig_Default img) g ref
      in (g, spec\<lparr>tts_Config := ref,
            tts_Description := orDefault (tts_Description spec) (tts_Name spec),
            tts_Enabled := orDefault (tts_Enabled spec) (Some True),
            tts_Resources := Some (InitializeResourceRequirementsSpec (tts_Resources spec) systemDefaultSystemTektonTaskResources),
            tts_TerminationGracePeriodSeconds :=
              orDefault (tts_TerminationGracePeriodSeconds spec) systemDefaultTerminationGracePeriodSeconds\<rparr>))"

text \<open>
  The loops of \<^verbatim>\<open>SystemSpec.Default\<close> over the tasks: the tasks of the name of a default task are
  completed from it, a default task without one is appended, and every task is defaulted. A task
  without a name panics.
\<close>

fun merge_tasks :: "SystemTektonTaskSpec \<Rightarrow> globals \<Rightarrow> SystemTektonTaskSpec list \<Rightarrow> (bool \<times> globals \<times> SystemTektonTaskSpec list) option" where
  "merge_tasks d g [] = Some (False, g, [])"
| "merge_tasks d g (t # ts) =
     do { name \<leftarrow> tts_Name t;
          defaultName \<leftarrow> tts_Name d;
          if name = defaultName
          then do { defaultConfig \<leftarrow> deref g (tts_Config d);
                    let (g, ref) = write_config (SystemTektonTaskConfig_Merge defaultConfig) g (tts_Config t);
                        t = t\<lparr>tts_Description := orDefault (tts_Description t) (tts_Description d),
                              tts_Enabled := orDefault (tts_Enabled t) (tts_Enabled d), tts_Config := ref\<rparr>
                    in do { (_, g, ts) \<leftarrow> merge_tasks d g ts; Some (True, g, t # ts) } }
          else do { (found, g, ts) \<leftarrow> merge_tasks d g ts; Some (found, g, t # ts) } }"

fun default_tasks :: "SystemTektonTaskSpec list \<Rightarrow> globals \<Rightarrow> SystemTektonTaskSpec list \<Rightarrow> (globals \<times> SystemTektonTaskSpec list) option" where
  "default_tasks [] g ts = Some (g, ts)"
| "default_tasks (d # ds) g ts =
     do { (found, g, ts) \<leftarrow> merge_tasks d g ts;
          default_tasks ds g (if found then ts else ts @ [d]) }"

fun init_tasks :: "ImageSpec \<Rightarrow> globals \<Rightarrow> SystemTektonTaskSpec list \<Rightarrow> globals \<times> SystemTektonTaskSpec list" where
  "init_tasks img g [] = (g, [])"
| "init_tasks img g (t # ts) =
     (let (g, t) = SystemTektonTaskSpec_Default img g t; (g, ts) = init_tasks img g ts in (g, t # ts))"

definition SystemTasks_Default :: "ImageSpec \<Rightarrow> globals \<Rightarrow> SystemTektonTaskSpec list \<Rightarrow> (globals \<times> SystemTektonTaskSpec list) option" where
  "SystemTasks_Default img g tasks =
     do { (g, tasks) \<leftarrow> default_tasks systemDefaultSystemTektonTasks g tasks;
          Some (init_tasks img g tasks) }"

section \<open>The configuration\<close>

record SystemRailsSpec =
  srs_Console :: "bool option"
  srs_Environment :: "string option"
  srs_LogLevel :: "string option"

definition SystemRailsSpec_Default :: "SystemRailsSpec \<Rightarrow> SystemRailsSpec" where
  "SystemRailsSpec_Default srs = \<lparr>srs_Console = orDefault (srs_Console srs) (Some False),
     srs_Environment = orDefault (srs_Environment srs) (Some ''preview''), srs_LogLevel = orDefault (srs_LogLevel srs) (Some ''info'')\<rparr>"

record SearchServerSpec =
  ses_Host :: "string option"
  ses_Port :: "int option"
  ses_BatchSize :: "int option"

definition systemDefaultSearchServer :: SearchServerSpec where
  "systemDefaultSearchServer = \<lparr>ses_Host = Some ''system-searchd'', ses_Port = Some 9306, ses_BatchSize = Some 100\<rparr>"

record SystemRecaptchaSpec =
  rec_PublicKey :: SecretReference
  rec_PrivateKey :: SecretReference

record SegmentSpec =
  seg_DeletionWorkspace :: string
  seg_DeletionToken :: SecretReference
  seg_WriteKey :: SecretReference

record GithubSpec =
  gh_ClientID :: SecretReference
  gh_ClientSecret :: SecretReference

record RedHatCustomerPortalSpec =
  rh_ClientID :: SecretReference
  rh_ClientSecret :: SecretReference
  rh_Realm :: "string option"

record SMTPSpec =
  smtp_Address :: string
  smtp_User :: SecretReference
  smtp_Password :: SecretReference
  smtp_Port :: int
  smtp_AuthProtocol :: string
  smtp_OpenSSLVerifyMode :: string
  smtp_STARTTLS :: "bool option"
  smtp_STARTTLSAuto :: "bool option"

record SystemZyncSpec =
  szy_AuthToken :: SecretReference
  szy_Endpoint :: string

record SystemBackendSpec =
  sbe_ExternalEndpoint :: string
  sbe_InternalEndpoint :: string
  sbe_InternalAPIUser :: SecretReference
  sbe_InternalAPIPassword :: SecretReference
  sbe_RedisDSN :: string

record AssetsSpec =
  as_Bucket :: string
  as_Region :: string
  as_AccessKey :: SecretReference
  as_SecretKey :: SecretReference
  as_Host :: "string option"
  as_S3Endpoint :: "string option"

record SystemApicastEndpointsSpec =
  sae_StagingDomain :: string
  sae_ProductionDomain :: string
  sae_CloudHostedRegistryURL :: string
  sae_SelfManagedRegistryURL :: string

record SystemConfig =
  scf_Rails :: "SystemRailsSpec option"
  scf_SandboxProxyOpensslVerifyMode :: "string option"
  scf_ForceSSL :: "bool option"
  scf_SSLCertsDir :: "string option"
  scf_SearchServer :: SearchServerSpec
  scf_ThreescaleProviderPlan :: "string option"
  scf_ThreescaleSuperdomain :: "string option"
  scf_ConfigFilesSecret :: "string option"
  scf_ExternalSecret :: ExternalSecret
  scf_DatabaseDSN :: SecretReference
  scf_EventsSharedSecret :: SecretReference
  scf_Recaptcha :: SystemRecaptchaSpec
  scf_SecretKeyBase :: SecretReference
  scf_AccessCode :: "SecretReference option"
  scf_Segment :: SegmentSpec
  scf_Github :: GithubSpec
  scf_RedHatCustomerPortal :: RedHatCustomerPortalSpec
  scf_Bugsnag :: "BugsnagSpec option"
  scf_DatabaseSecret :: SecretReference
  scf_MemcachedServers :: string
  scf_RedisQueuesDSN :: string
  scf_SMTP :: SMTPSpec
  scf_MappingServiceAccessToken :: SecretReference
  scf_Zync :: SystemZyncSpec
  scf_Backend :: SystemBackendSpec
  scf_Assets :: AssetsSpec
  scf_Apicast :: "SystemApicastEndpointsSpec option"

definition SystemConfig_Default :: "SystemConfig \<Rightarrow> SystemConfig" where
  "SystemConfig_Default sc = sc\<lparr>
     scf_Rails := Some (SystemRailsSpec_Default (case scf_Rails sc of
       None \<Rightarrow> \<lparr>srs_Console = None, srs_Environment = None, srs_LogLevel = None\<rparr> | Some r \<Rightarrow> r)),
     scf_ConfigFilesSecret := orDefault (scf_ConfigFilesSecret sc) (Some ''system-config''),
     scf_Bugsnag := (case scf_Bugsnag sc of None \<Rightarrow> Some systemDefaultBugsnagSpec | Some b \<Rightarrow> Some b),
     scf_SandboxProxyOpensslVerifyMode := orDefault (scf_SandboxProxyOpensslVerifyMode sc) (Some ''VERIFY_NONE''),
     scf_ForceSSL := orDefault (scf_ForceSSL sc) (Some True),
     scf_SSLCertsDir := orDefault (scf_SSLCertsDir sc) (Some ''/etc/pki/tls/certs''),
     scf_ThreescaleProviderPlan := orDefault (scf_ThreescaleProviderPlan sc) (Some ''enterprise''),
     scf_ThreescaleSuperdomain := orDefault (scf_ThreescaleSuperdomain sc) (Some ''localhost''),
     scf_ExternalSecret := ExternalSecret_Default (scf_ExternalSecret sc),
     scf_SearchServer := \<lparr>ses_Host = orDefault (ses_Host (scf_SearchServer sc)) (ses_Host systemDefaultSearchServer),
       ses_Port = orDefault (ses_Port (scf_SearchServer sc)) (ses_Port systemDefaultSearchServer),
       ses_BatchSize = orDefault (ses_BatchSize (scf_SearchServer sc)) (ses_BatchSize systemDefaultSearchServer)\<rparr>\<rparr>"

section \<open>The components\<close>

record SystemAppSpec =
  sas_DeploymentStrategy :: "IntOrString DeploymentStrategySpec option"
  sas_PDB :: "PDBSpec option"
  sas_HPA :: "HPASpec option"
  sas_Replicas :: "int option"
  sas_Resources :: "Resources option"
  sas_LivenessProbe :: "ProbeSpec option"
  sas_ReadinessProbe :: "ProbeSpec option"
  sas_NodeAffinity :: "string option"
  sas_Tolerations :: "string list"
  sas_TerminationGracePeriodSeconds :: "int option"
  sas_Canary :: "Canary option"
  sas_PublishingStrategies :: "PublishingStrategies option"

definition no_SystemAppSpec :: SystemAppSpec where
  "no_SystemAppSpec = \<lparr>sas_DeploymentStrategy = None, sas_PDB = None, sas_HPA = None, sas_Replicas = None, sas_Resources = None,
     sas_LivenessProbe = None, sas_ReadinessProbe = None, sas_NodeAffinity = None, sas_Tolerations = [],
     sas_TerminationGracePeriodSeconds = None, sas_Canary = None, sas_PublishingStrategies = None\<rparr>"

definition SystemAppSpec_Default :: "SystemAppSpec \<Rightarrow> SystemAppSpec" where
  "SystemAppSpec_Default spec = spec\<lparr>
     sas_DeploymentStrategy := Some (InitializeDeploymentStrategySpec (sas_DeploymentStrategy spec)
       (fst systemDefaultAppDeploymentStrategy) (snd systemDefaultAppDeploymentStrategy)),
     sas_HPA := Some (InitializeHorizontalPodAutoscalerSpec (sas_HPA spec) systemDefaultAppHPA),
     sas_Replicas := orDefault (sas_Replicas spec) (Some 2),
     sas_PDB := Some (InitializePodDisruptionBudgetSpec (sas_PDB spec) systemDefaultAppPDB),
     sas_Resources := Some (InitializeResourceRequirementsSpec (sas_Resources spec) systemDefaultAppResources),
     sas_LivenessProbe := Some (InitializeProbeSpec (sas_LivenessProbe spec) systemDefaultAppLivenessProbe),
     sas_ReadinessProbe := Some (InitializeProbeSpec (sas_ReadinessProbe spec) systemDefaultAppReadinessProbe),
     sas_TerminationGracePeriodSeconds := orDefault (sas_TerminationGracePeriodSeconds spec) systemDefaultTerminationGracePeriodSeconds,
     sas_PublishingStrategies := Some (InitializePublishingStrategies (sas_PublishingStrategies spec))\<rparr>"

datatype systemSidekiqType = DefaultQueues | Billing | Low

record SidekiqConfig =
  skc_Queues :: "string list option"
  skc_MaxThreads :: "int option"

definition systemDefaultSidekiqConfig :: "systemSidekiqType \<Rightarrow> string list \<times> int" where
  "systemDefaultSidekiqConfig t =
     (case t of
        DefaultQueues \<Rightarrow> ([''critical'', ''backend_sync'', ''events'', ''zync,40'', ''priority,25'', ''default,15'', ''web_hooks,10'', ''deletion,5''], 15)
      | Billing \<Rightarrow> ([''billing''], 15)
      | Low \<Rightarrow> ([''mailers'', ''low'', ''bulk_indexing''], 15))"

definition SidekiqConfig_Default :: "string list \<times> int \<Rightarrow> SidekiqConfig \<Rightarrow> SidekiqConfig" where
  "SidekiqConfig_Default d cfg = \<lparr>skc_Queues = (case skc_Queues cfg of None \<Rightarrow> Some (fst d) | Some q \<Rightarrow> Some q),
     skc_MaxThreads = orDefault (skc_MaxThreads cfg) (Some (snd d))\<rparr>"

record SystemSidekiqSpec =
  sks_DeploymentStrategy :: "IntOrString DeploymentStrategySpec option"
  sks_Config :: "SidekiqConfig option"
  sks_PDB :: "PDBSpec option"
  sks_HPA :: "HPASpec option"
  sks_Replicas :: "int option"
  sks_Resources :: "Resources option"
  sks_LivenessProbe :: "ProbeSpec option"
  sks_ReadinessProbe :: "ProbeSpec option"
  sks_NodeAffinity :: "string option"
  sks_Tolerations :: "string list"
  sks_Canary :: "Canary option"
  sks_TerminationGracePeriodSeconds :: "int option"

definition no_SystemSidekiqSpec :: SystemSidekiqSpec where
  "no_SystemSidekiqSpec = \<lparr>sks_DeploymentStrategy = None, sks_Config = None, sks_PDB = None, sks_HPA = None, sks_Replicas = None,
     sks_Resources = None, sks_LivenessProbe = None, sks_ReadinessProbe = None, sks_NodeAffinity = None, sks_Tolerations = [],
     sks_Canary = None, sks_TerminationGracePeriodSeconds = None\<rparr>"

definition SystemSidekiqSpec_Default :: "systemSidekiqType \<Rightarrow> SystemSidekiqSpec \<Rightarrow> SystemSidekiqSpec" where
  "SystemSidekiqSpec_Default sidekiqType spec = spec\<lparr>
     sks_DeploymentStrategy := Some (InitializeDeploymentStrategySpec (sks_DeploymentStrategy spec)
       (fst systemDefaultSidekiqDeploymentStrategy) (snd systemDefaultSidekiqDeploymentStrategy)),
     sks_HPA := Some (InitializeHorizontalPodAutoscalerSpec (sks_HPA spec) systemDefaultSidekiqHPA),
     sks_Replicas := orDefault (sks_Replicas spec) (Some 2),
     sks_PDB := Some (InitializePodDisruptionBudgetSpec (sks_PDB spec) systemDefaultSidekiqPDB),
     sks_Resources := Some (InitializeResourceRequirementsSpec (sks_Resources spec) systemDefaultSidekiqResources),
     sks_LivenessProbe := Some (InitializeProbeSpec (sks_LivenessProbe spec) systemDefaultSidekiqLivenessProbe),
     sks_ReadinessProbe := Some (InitializeProbeSpec (sks_ReadinessProbe spec) systemDefaultSidekiqReadinessProbe),
     sks_TerminationGracePeriodSeconds := orDefault (sks_TerminationGracePeriodSeconds spec) systemDefaultTerminationGracePeriodSeconds,
     sks_Config := Some (SidekiqConfig_Default (systemDefaultSidekiqConfig sidekiqType)
       (case sks_Config spec of None \<Rightarrow> \<lparr>skc_Queues = None, skc_MaxThreads = None\<rparr> | Some c \<Rightarrow> c))\<rparr>"

record SearchdConfig =
  sdc_ServiceName :: "string option"
  sdc_Port :: "int option"
  sdc_DatabasePath :: "string option"
  sdc_DatabaseStorageSize :: "string option"
  sdc_DatabaseStorageClass :: "string option"

definition SearchdConfig_Default :: "SearchdConfig \<Rightarrow> SearchdConfig" where
  "SearchdConfig_Default sc = sc\<lparr>sdc_ServiceName := orDefault (sdc_ServiceName sc) (Some ''system-searchd''),
     sdc_Port := orDefault (sdc_Port sc) (Some 9306), sdc_DatabasePath := orDefault (sdc_DatabasePath sc) (Some ''/var/lib/searchd''),
     sdc_DatabaseStorageSize := (case sdc_DatabaseStorageSize sc of None \<Rightarrow> Some ''30Gi'' | Some q \<Rightarrow> Some q)\<rparr>"

record SystemSearchdSpec =
  ssd_Enabled :: "bool option"
  ssd_Image :: "ImageSpec option"
  ssd_Config :: "SearchdConfig option"
  ssd_Resources :: "Resources option"
  ssd_LivenessProbe :: "ProbeSpec option"
  ssd_ReadinessProbe :: "ProbeSpec option"
  ssd_NodeAffinity :: "string option"
  ssd_Tolerations :: "string list"
  ssd_TerminationGracePeriodSeconds :: "int option"

definition no_SystemSearchdSpec :: SystemSearchdSpec where
  "no_SystemSearchdSpec = \<lparr>ssd_Enabled = None, ssd_Image = None, ssd_Config = None, ssd_Resources = None, ssd_LivenessProbe = None,
     ssd_ReadinessProbe = None, ssd_NodeAffinity = None, ssd_Tolerations = [], ssd_TerminationGracePeriodSeconds = None\<rparr>"

definition SystemSearchdSpec_Default :: "SystemSearchdSpec \<Rightarrow> SystemSearchdSpec" where
  "SystemSearchdSpec_Default spec = spec\<lparr>
     ssd_Enabled := orDefault (ssd_Enabled spec) (Some True),
     ssd_Image := Some (InitializeImageSpec (ssd_Image spec) systemDefaultSearchdImage),
     ssd_Resources := Some (InitializeResourceRequirementsSpec (ssd_Resources spec) systemDefaultSearchdResources),
     ssd_LivenessProbe := Some (InitializeProbeSpec (ssd_LivenessProbe spec) systemDefaultSearchdLivenessProbe),
     ssd_ReadinessProbe := Some (InitializeProbeSpec (ssd_ReadinessProbe spec) systemDefaultSearchdReadinessProbe),
     ssd_Config := Some (SearchdConfig_Default (case ssd_Config spec of
       None \<Rightarrow> \<lparr>sdc_ServiceName = None, sdc_Port = None, sdc_DatabasePath = None, sdc_DatabaseStorageSize = None,
         sdc_DatabaseStorageClass = None\<rparr>
     | Some c \<Rightarrow> c)),
     ssd_TerminationGracePeriodSeconds := orDefault (ssd_TerminationGracePeriodSeconds spec) systemDefaultTerminationGracePeriodSeconds\<rparr>"

record SystemRailsConsoleSpec =
  sco_Image :: "ImageSpec option"
  sco_Resources :: "Resources option"
  sco_NodeAffinity :: "string option"
  sco_Tolerations :: "string list"

definition no_SystemRailsConsoleSpec :: SystemRailsConsoleSpec where
  "no_SystemRailsConsoleSpec = \<lparr>sco_Image = None, sco_Resources = None, sco_NodeAffinity = None, sco_Tolerations = []\<rparr>"

definition SystemRailsConsoleSpec_Default :: "ImageSpec \<Rightarrow> SystemRailsConsoleSpec \<Rightarrow> SystemRailsConsoleSpec" where
  "SystemRailsConsoleSpec_Default img spec = spec\<lparr>
     sco_Image := Some (InitializeImageSpec (sco_Image spec) img),
     sco_Resources := Some (InitializeResourceRequirementsSpec (sco_Resources spec) systemDefaultRailsConsoleResources)\<rparr>"

section \<open>The specification\<close>

record SystemSpec =
  sys_Config :: SystemConfig
  sys_Image :: "ImageSpec option"
  sys_App :: "SystemAppSpec option"
  sys_SidekiqDefault :: "SystemSidekiqSpec option"
  sys_SidekiqBilling :: "SystemSidekiqSpec option"
  sys_SidekiqLow :: "SystemSidekiqSpec option"
  sys_Searchd :: "SystemSearchdSpec option"
  sys_Console :: "SystemRailsConsoleSpec option"
  sys_Tasks :: "SystemTektonTaskSpec list"
  sys_GrafanaDashboard :: "GrafanaDashboardSpec option"
  sys_Twemproxy :: "TwemproxySpec option"

definition or_else :: "'a option \<Rightarrow> 'a \<Rightarrow> 'a" where
  "or_else v d = (case v of None \<Rightarrow> d | Some x \<Rightarrow> x)"

text \<open>The components of the defaulted specification other than the tasks, which do not depend on them.\<close>

definition SystemSpec_Default_components :: "SystemSpec \<Rightarrow> SystemSpec" where
  "SystemSpec_Default_components spec =
     (let img = InitializeImageSpec (sys_Image spec) systemDefaultImage in spec\<lparr>
       sys_Config := SystemConfig_Default (sys_Config spec),
       sys_Image := Some img,
       sys_GrafanaDashboard := Some (InitializeGrafanaDashboardSpec (sys_GrafanaDashboard spec) systemDefaultGrafanaDashboard),
       sys_App := Some (SystemAppSpec_Default (or_else (sys_App spec) no_SystemAppSpec)),
       sys_SidekiqDefault := Some (SystemSidekiqSpec_Default DefaultQueues (or_else (sys_SidekiqDefault spec) no_SystemSidekiqSpec)),
       sys_SidekiqBilling := Some (SystemSidekiqSpec_Default Billing (or_else (sys_SidekiqBilling spec) no_SystemSidekiqSpec)),
       sys_SidekiqLow := Some (SystemSidekiqSpec_Default Low (or_else (sys_SidekiqLow spec) no_SystemSidekiqSpec)),
       sys_Searchd := Some (SystemSearchdSpec_Default (or_else (sys_Searchd spec) no_SystemSearchdSpec)),
       sys_Console := Some (SystemRailsConsoleSpec_Default img (or_else (sys_Console spec) no_SystemRailsConsoleSpec)),
       sys_Twemproxy := map_option TwemproxySpec_Default (sys_Twemproxy spec)\<rparr>)"

definition SystemSpec_Default :: "globals \<Rightarrow> SystemSpec \<Rightarrow> (globals \<times> SystemSpec) option" where
  "SystemSpec_Default g spec =
     (let spec = SystemSpec_Default_components spec in
      do { img \<leftarrow> sys_Image spec;
           (g, tasks) \<leftarrow> SystemTasks_Default img g (sys_Tasks spec);
           Some (g, spec\<lparr>sys_Tasks := tasks\<rparr>) })"

text \<open>
  A canary. The marshalled specification holds the configurations that the tasks point to, and the
  unmarshalled one has its own.
\<close>

definition own_config :: "globals \<Rightarrow> SystemTektonTaskSpec \<Rightarrow> SystemTektonTaskSpec" where
  "own_config g t = t\<lparr>tts_Config := (case deref g (tts_Config t) of None \<Rightarrow> NilConfig | Some c \<Rightarrow> Own c)\<rparr>"

definition set_system_image :: "(ImageSpec \<Rightarrow> ImageSpec) \<Rightarrow> SystemSpec \<Rightarrow> SystemSpec option" where
  "set_system_image f spec = map_option (\<lambda>i. spec\<lparr>sys_Image := Some (f i)\<rparr>) (sys_Image spec)"

definition SystemSpec_ResolveCanarySpec ::
    "(SystemSpec, 'doc, 'patch) json_lib \<Rightarrow> globals \<Rightarrow> SystemSpec \<Rightarrow> Canary \<Rightarrow> (globals \<times> SystemSpec) result" where
  "SystemSpec_ResolveCanarySpec J g spec canary =
     (case Canary_PatchSpec J canary (spec\<lparr>sys_Tasks := map (own_config g) (sys_Tasks spec)\<rparr>) of
        Inl e \<Rightarrow> Some (Inl e)
      | Inr canarySpec \<Rightarrow>
          do { canarySpec \<leftarrow> (case can_ImageName canary of
                 None \<Rightarrow> Some canarySpec | Some n \<Rightarrow> set_system_image (\<lambda>i. i\<lparr>img_Name := Some n\<rparr>) canarySpec);
               canarySpec \<leftarrow> (case can_ImageTag canary of
                 None \<Rightarrow> Some canarySpec | Some t \<Rightarrow> set_system_image (\<lambda>i. i\<lparr>img_Tag := Some t\<rparr>) canarySpec);
               app \<leftarrow> sys_App canarySpec;
               sidekiqDefault \<leftarrow> sys_SidekiqDefault canarySpec;
               sidekiqLow \<leftarrow> sys_SidekiqLow canarySpec;
               sidekiqBilling \<leftarrow> sys_SidekiqBilling canarySpec;
               r \<leftarrow> SystemSpec_Default g (canarySpec\<lparr>
                 sys_App := Some (app\<lparr>sas_Replicas := can_Replicas canary\<rparr>),
                 sys_SidekiqDefault := Some (sidekiqDefault\<lparr>sks_Replicas := can_Replicas canary\<rparr>),
                 sys_SidekiqLow := Some (sidekiqLow\<lparr>sks_Replicas := can_Replicas canary\<rparr>),
                 sys_SidekiqBilling := Some (sidekiqBilling\<lparr>sks_Replicas := can_Replicas canary\<rparr>)\<rparr>);
               Some (Inr r) })"

section \<open>What defaulting makes of the tasks\<close>

definition own_task :: "SystemTektonTaskSpec \<Rightarrow> bool" where
  "own_task t \<longleftrightarrow> (case tts_Config t of Global _ \<Rightarrow> False | _ \<Rightarrow> True)"

text \<open>The completion of a task of the user from a default task, without the pointers.\<close>

definition complete_from :: "SystemTektonTaskSpec \<Rightarrow> SystemTektonTaskConfig \<Rightarrow> SystemTektonTaskSpec \<Rightarrow> SystemTektonTaskSpec" where
  "complete_from d dc t =
     (if tts_Name t \<noteq> tts_Name d then t
      else t\<lparr>tts_Description := orDefault (tts_Description t) (tts_Description d), tts_Enabled := orDefault (tts_Enabled t) (tts_Enabled d),
             tts_Config := (case tts_Config t of Own c \<Rightarrow> Own (SystemTektonTaskConfig_Merge dc c) | r \<Rightarrow> r)\<rparr>)"

lemma complete_from_simps [simp]: "tts_Name (complete_from d dc t) = tts_Name t" "own_task (complete_from d dc t) = own_task t"
  by (auto simp: complete_from_def own_task_def split: ConfigRef.splits)

lemma merge_tasks_eq:
  assumes "tts_Name d = Some n" "deref g (tts_Config d) = Some dc" "\<forall>t\<in>set ts. tts_Name t \<noteq> None"
    and "\<forall>t\<in>set ts. tts_Name t = Some n \<longrightarrow> own_task t"
  shows "merge_tasks d g ts = Some (Some n \<in> tts_Name ` set ts, g, map (complete_from d dc) ts)"
  using assms(3,4)
proof (induction ts)
  case (Cons t ts)
  then obtain m where "tts_Name t = Some m" by auto
  with Cons assms(1,2) show ?case
    by (auto simp: complete_from_def own_task_def write_config_def split: ConfigRef.splits)
qed simp

lemma merge_tasks_unnamed: "t \<in> set ts \<Longrightarrow> tts_Name t = None \<Longrightarrow> merge_tasks d g ts = None"
proof (induction ts arbitrary: g)
  case (Cons u ts)
  then have ih: "t \<in> set ts \<Longrightarrow> merge_tasks d h ts = None" for h by blast
  show ?case
  proof (cases "t \<in> set ts")
    case True
    then show ?thesis using ih by (simp add: bind_eq_None_conv split: prod.split)
  next
    case False
    then show ?thesis using Cons.prems by simp
  qed
qed simp

definition completed :: "SystemTektonTaskSpec list \<Rightarrow> globals \<Rightarrow> SystemTektonTaskSpec \<Rightarrow> SystemTektonTaskSpec" where
  "completed ds g t = fold (\<lambda>d. complete_from d (the (deref g (tts_Config d)))) ds t"

lemma completed_simps [simp]:
  "completed [] g = id" "completed (d # ds) g t = completed ds g (complete_from d (the (deref g (tts_Config d))) t)"
  by (simp_all add: completed_def fun_eq_iff)

lemma completed_other: "tts_Name t \<notin> tts_Name ` set ds \<Longrightarrow> completed ds g t = t"
  by (induction ds) (auto simp: complete_from_def)

lemma completed_named:
  assumes "distinct (map tts_Name ds)" "d \<in> set ds" "tts_Name t = tts_Name d"
  shows "completed ds g t = complete_from d (the (deref g (tts_Config d))) t"
  using assms
proof (induction ds)
  case (Cons e ds)
  show ?case
  proof (cases "tts_Name t = tts_Name e")
    case True
    with Cons.prems have "d = e" by auto
    moreover have "tts_Name t \<notin> tts_Name ` set ds" using Cons.prems(1) True by auto
    ultimately show ?thesis by (simp add: completed_other)
  next
    case False
    then show ?thesis using Cons by (auto simp: complete_from_def)
  qed
qed simp

lemma default_tasks_eq:
  assumes "distinct (map tts_Name ds)" "\<forall>d\<in>set ds. tts_Name d \<noteq> None \<and> deref g (tts_Config d) \<noteq> None"
    and "\<forall>t\<in>set ts. tts_Name t \<noteq> None" "\<forall>t\<in>set ts. tts_Name t \<in> tts_Name ` set ds \<longrightarrow> own_task t"
  shows "default_tasks ds g ts = Some (g, map (completed ds g) ts @ filter (\<lambda>d. tts_Name d \<notin> tts_Name ` set ts) ds)"
  using assms
proof (induction ds arbitrary: ts)
  case (Cons d ds)
  obtain n dc where d: "tts_Name d = Some n" "deref g (tts_Config d) = Some dc" using Cons.prems(2) by auto
  have merge: "merge_tasks d g ts = Some (Some n \<in> tts_Name ` set ts, g, map (complete_from d dc) ts)"
    using Cons.prems(3,4) d by (intro merge_tasks_eq) auto
  define us where "us = map (complete_from d dc) ts @ (if Some n \<in> tts_Name ` set ts then [] else [d])"
  have names: "tts_Name ` set us = insert (Some n) (tts_Name ` set ts)"
    using d by (auto simp: us_def image_image)
  have "default_tasks ds g us = Some (g, map (completed ds g) us @ filter (\<lambda>d. tts_Name d \<notin> tts_Name ` set us) ds)"
    using Cons.prems d by (intro Cons.IH) (auto simp: us_def)
  moreover have "filter (\<lambda>e. tts_Name e \<notin> tts_Name ` set us) ds = filter (\<lambda>e. tts_Name e \<notin> tts_Name ` set ts) ds"
    using Cons.prems(1) d unfolding names by (intro filter_cong) (auto simp: image_iff)
  moreover have "completed ds g d = d"
    using Cons.prems(1) by (intro completed_other) simp
  moreover have "default_tasks (d # ds) g ts = default_tasks ds g us"
    by (simp add: merge us_def)
  ultimately show ?case
    by (simp add: us_def d)
qed simp

definition task_value :: "globals \<Rightarrow> SystemTektonTaskSpec \<Rightarrow> SystemTektonTaskConfig" where
  "task_value g t = or_else (deref g (tts_Config t)) no_SystemTektonTaskConfig"

definition shared :: "SystemTektonTaskSpec list \<Rightarrow> nat set" where
  "shared ts = {i. Global i \<in> tts_Config ` set ts}"

definition defaulted_task :: "ImageSpec \<Rightarrow> globals \<Rightarrow> globals \<Rightarrow> SystemTektonTaskSpec \<Rightarrow> SystemTektonTaskSpec \<Rightarrow> bool" where
  "defaulted_task img g g' t t' \<longleftrightarrow> tts_Name t' = tts_Name t \<and> tts_Enabled t' \<noteq> None \<and> tts_Resources t' \<noteq> None \<and>
     (tts_Name t \<noteq> None \<longrightarrow> tts_Description t' \<noteq> None) \<and> (\<forall>i. tts_Config t = Global i \<longrightarrow> tts_Config t' = Global i) \<and>
     deref g' (tts_Config t') = Some (SystemTektonTaskConfig_Default img (task_value g t))"

text \<open>The tasks of one specification point to different places, so the defaults of one are not seen by another.\<close>

lemma init_tasks_eq:
  assumes "distinct (filter (\<lambda>r. \<exists>i. r = Global i) (map tts_Config ts))" "\<forall>i\<in>shared ts. i < length g"
    and "init_tasks img g ts = (g', ts')"
  shows "list_all2 (defaulted_task img g g') ts ts' \<and>
    length g' = length g \<and> (\<forall>i. i \<notin> shared ts \<longrightarrow> g' ! i = g ! i)"
  using assms
proof (induction ts arbitrary: g g' ts')
  case (Cons t ts)
  obtain g1 t1 where t1: "SystemTektonTaskSpec_Default img g t = (g1, t1)" by fastforce
  obtain ts1 where ts1: "init_tasks img g1 ts = (g', ts1)" "ts' = t1 # ts1"
    using Cons.prems(3) t1 by (auto split: prod.splits)
  have one: "defaulted_task img g g1 t t1" "length g1 = length g" "i \<notin> shared [t] \<Longrightarrow> g1 ! i = g ! i" for i
    using t1 Cons.prems(2)
    by (auto simp: defaulted_task_def SystemTektonTaskSpec_Default_def write_config_def task_value_def deref_def or_else_def shared_def
        orDefault_def split: ConfigRef.splits)
  have new: "i \<notin> shared ts" if "tts_Config t = Global i" for i
    using Cons.prems(1) that by (auto simp: shared_def image_iff)
  have same: "deref g1 (tts_Config u) = deref g (tts_Config u)" if "u \<in> set ts" for u
    using new one(2,3) that by (force simp: deref_def shared_def image_iff split: ConfigRef.splits)
  have ih: "list_all2 (defaulted_task img g1 g') ts ts1 \<and>
    length g' = length g1 \<and> (\<forall>i. i \<notin> shared ts \<longrightarrow> g' ! i = g1 ! i)"
    using Cons.prems(1,2) one(2) by (intro Cons.IH [OF _ _ ts1(1)]) (auto simp: shared_def split: if_splits)
  have "deref g' (tts_Config t1) = deref g1 (tts_Config t1)"
  proof (cases "tts_Config t1")
    case (Global i)
    then have "tts_Config t = Global i"
      using t1 by (auto simp: SystemTektonTaskSpec_Default_def write_config_def split: ConfigRef.splits)
    then show ?thesis using ih new Global by (simp add: deref_def)
  qed (simp_all add: deref_def)
  moreover have "task_value g1 u = task_value g u" if "u \<in> set ts" for u
    using same that by (simp add: task_value_def)
  ultimately show ?case
    using ih one unfolding ts1(2) list.rel_inject
    by (auto simp: shared_def defaulted_task_def elim!: list.rel_mono_strong)
qed (simp add: shared_def)

text \<open>The shared configurations keep what they run; defaulting adds the image and the timeout to them.\<close>

definition body :: "SystemTektonTaskConfig \<Rightarrow> string list \<times> string list \<times> EnvVar list" where
  "body c = (ttc_Command c, ttc_Args c, ttc_ExtraEnv c)"

definition globals_ok :: "globals \<Rightarrow> bool" where
  "globals_ok g \<longleftrightarrow> map body g = map body initial_globals"

lemma globals_ok_initial: "globals_ok initial_globals"
  by (simp add: globals_ok_def)

lemma globals_ok_length: "globals_ok g \<Longrightarrow> length g = 3"
  using length_map [of body g] by (simp add: globals_ok_def initial_globals_def Let_def)

lemma globals_ok_nonempty: "globals_ok g \<Longrightarrow> c \<in> set g \<Longrightarrow> ttc_Command c \<noteq> [] \<and> ttc_Args c \<noteq> []"
proof -
  assume g: "globals_ok g" "c \<in> set g"
  have "\<forall>c\<in>set initial_globals. ttc_Command c \<noteq> [] \<and> ttc_Args c \<noteq> []"
    by (simp add: initial_globals_def Let_def)
  then have "\<forall>b\<in>set (map body initial_globals). fst b \<noteq> [] \<and> fst (snd b) \<noteq> []"
    by (simp add: body_def)
  moreover have "body c \<in> set (map body g)"
    using g(2) by simp
  ultimately show ?thesis
    using g(1) unfolding globals_ok_def by (metis body_def fst_conv snd_conv)
qed

lemma write_config_ok:
  assumes "globals_ok g" "\<forall>c\<in>set g. body (f c) = body c"
  shows "globals_ok (fst (write_config f g ref))"
proof (cases ref)
  case (Global i)
  have "map body (g[i := f (g ! i)]) = map body g" if "i < length g"
    using assms(2) that by (simp add: map_update) (metis list_update_id nth_map nth_mem)
  then show ?thesis using assms(1) Global by (simp add: write_config_def globals_ok_def)
qed (use assms in \<open>simp_all add: write_config_def\<close>)

lemma SystemTektonTaskSpec_Default_ok: "globals_ok g \<Longrightarrow> globals_ok (fst (SystemTektonTaskSpec_Default img g t))"
  unfolding SystemTektonTaskSpec_Default_def Let_def split_def fst_conv
  by (rule write_config_ok)
     (auto simp: body_def SystemTektonTaskConfig_Default_def stringSliceOrDefault_def dest: globals_ok_nonempty)

lemma init_tasks_ok: "globals_ok g \<Longrightarrow> globals_ok (fst (init_tasks img g ts))"
proof (induction ts arbitrary: g)
  case (Cons t ts)
  have "fst (init_tasks img g (t # ts)) = fst (init_tasks img (fst (SystemTektonTaskSpec_Default img g t)) ts)"
    by (simp add: Let_def split_def)
  then show ?case using Cons SystemTektonTaskSpec_Default_ok by simp
qed simp

lemma default_names [simp]: "distinct (map tts_Name systemDefaultSystemTektonTasks)"
  by (simp add: systemDefaultSystemTektonTasks_def default_task_def)

lemma default_derefs: "globals_ok g \<Longrightarrow> \<forall>d\<in>set systemDefaultSystemTektonTasks. tts_Name d \<noteq> None \<and> deref g (tts_Config d) \<noteq> None"
  by (auto simp: systemDefaultSystemTektonTasks_def default_task_def deref_def dest!: globals_ok_length)

text \<open>The tasks that result: those of the user completed, then the default tasks that they do not name.\<close>

definition missing_defaults :: "SystemTektonTaskSpec list \<Rightarrow> SystemTektonTaskSpec list" where
  "missing_defaults ts = filter (\<lambda>d. tts_Name d \<notin> tts_Name ` set ts) systemDefaultSystemTektonTasks"

definition expected_tasks :: "globals \<Rightarrow> SystemTektonTaskSpec list \<Rightarrow> SystemTektonTaskSpec list" where
  "expected_tasks g ts = map (completed systemDefaultSystemTektonTasks g) ts @ missing_defaults ts"

lemma completed_own [simp]: "own_task (completed ds g t) = own_task t" "tts_Name (completed ds g t) = tts_Name t"
  by (induction ds arbitrary: t) simp_all

lemma expected_tasks_shared:
  assumes "globals_ok g" "\<forall>t\<in>set ts. own_task t"
  shows "distinct (filter (\<lambda>r. \<exists>i. r = Global i) (map tts_Config (expected_tasks g ts)))" "\<forall>i\<in>shared (expected_tasks g ts). i < length g"
    "shared (expected_tasks g ts) = shared (missing_defaults ts)"
proof -
  have own: "\<nexists>i. tts_Config (completed ds g t) = Global i" if "t \<in> set ts" for t ds
    using bspec [OF assms(2) that] completed_own(1) [of ds g t] by (auto simp: own_task_def)
  have "filter (\<lambda>r. \<exists>i. r = Global i) (map tts_Config (map (completed systemDefaultSystemTektonTasks g) ts)) = []"
    using own by (auto simp: filter_empty_conv)
  moreover have "distinct (map tts_Config (missing_defaults ts))"
    by (simp add: missing_defaults_def systemDefaultSystemTektonTasks_def default_task_def)
  ultimately show "distinct (filter (\<lambda>r. \<exists>i. r = Global i) (map tts_Config (expected_tasks g ts)))"
    by (simp add: expected_tasks_def distinct_filter)
  have "shared (expected_tasks g ts) \<subseteq> shared (missing_defaults ts)"
    using own by (auto simp: shared_def expected_tasks_def image_iff) metis
  moreover have "shared (missing_defaults ts) \<subseteq> shared (expected_tasks g ts)"
    by (force simp: shared_def expected_tasks_def)
  ultimately show eq: "shared (expected_tasks g ts) = shared (missing_defaults ts)" by blast
  have "shared (missing_defaults ts) \<subseteq> shared systemDefaultSystemTektonTasks"
    by (auto simp: shared_def missing_defaults_def)
  also have "shared systemDefaultSystemTektonTasks \<subseteq> {0, 1, 2}"
    by (auto simp: shared_def systemDefaultSystemTektonTasks_def default_task_def)
  finally show "\<forall>i\<in>shared (expected_tasks g ts). i < length g"
    using globals_ok_length [OF assms(1)] by (auto simp: eq)
qed

lemma SystemTasks_Default_eq:
  assumes "globals_ok g" "\<forall>t\<in>set ts. own_task t" "\<forall>t\<in>set ts. tts_Name t \<noteq> None"
  obtains g' ts' where "SystemTasks_Default img g ts = Some (g', ts')" "globals_ok g'"
    "list_all2 (defaulted_task img g g') (expected_tasks g ts) ts'"
    "\<forall>i. i \<notin> shared (missing_defaults ts) \<longrightarrow> g' ! i = g ! i"
proof -
  obtain g' ts' where init: "init_tasks img g (expected_tasks g ts) = (g', ts')" by fastforce
  have "default_tasks systemDefaultSystemTektonTasks g ts = Some (g, expected_tasks g ts)"
    unfolding expected_tasks_def missing_defaults_def using assms default_derefs by (intro default_tasks_eq) auto
  then have "SystemTasks_Default img g ts = Some (g', ts')"
    by (simp add: SystemTasks_Default_def init)
  moreover have "globals_ok g'"
    using init_tasks_ok [OF assms(1), of img "expected_tasks g ts"] init by simp
  ultimately show thesis
    using that init_tasks_eq [OF expected_tasks_shared(1,2) [OF assms(1,2)] init] expected_tasks_shared(3) [OF assms(1,2)] by blast
qed

lemma SystemTasks_Default_unnamed:
  assumes "t \<in> set ts" "tts_Name t = None"
  shows "SystemTasks_Default img g ts = None"
proof -
  have "merge_tasks d h ts = None" for d h
    by (rule merge_tasks_unnamed [OF assms])
  then show ?thesis
    by (simp add: SystemTasks_Default_def systemDefaultSystemTektonTasks_def)
qed

lemma SystemSpec_Default_parts:
  assumes "SystemSpec_Default g spec = Some (g', spec')"
  obtains img tasks where "img = InitializeImageSpec (sys_Image spec) systemDefaultImage" "sys_Image spec' = Some img"
    "SystemTasks_Default img g (sys_Tasks spec) = Some (g', tasks)" "spec' = (SystemSpec_Default_components spec)\<lparr>sys_Tasks := tasks\<rparr>"
  using assms by (auto simp: SystemSpec_Default_def Let_def bind_eq_Some_conv SystemSpec_Default_components_def)

definition default_body :: "string \<Rightarrow> (string list \<times> string list \<times> EnvVar list) option" where
  "default_body n = map_of (map (\<lambda>d. (the (tts_Name d), body (the (deref initial_globals (tts_Config d))))) systemDefaultSystemTektonTasks) n"

lemma default_body_some:
  assumes "globals_ok g" "default_body n = Some b"
  obtains d where "d \<in> set systemDefaultSystemTektonTasks" "tts_Name d = Some n" "body (the (deref g (tts_Config d))) = b"
proof -
  have len: "length g = 3" "length initial_globals = 3"
    using globals_ok_length assms(1) globals_ok_initial by blast+
  then have same: "body (g ! i) = body (initial_globals ! i)" if "i < 3" for i
    using assms(1) that unfolding globals_ok_def by (metis nth_map)
  have "\<forall>d\<in>set systemDefaultSystemTektonTasks. \<exists>i n. tts_Config d = Global i \<and> i < 3 \<and> tts_Name d = Some n"
    by (simp add: systemDefaultSystemTektonTasks_def default_task_def)
  then have eq: "body (the (deref g (tts_Config d))) = body (the (deref initial_globals (tts_Config d))) \<and> tts_Name d \<noteq> None"
    if "d \<in> set systemDefaultSystemTektonTasks" for d
    using same len that by (fastforce simp: deref_def)
  obtain d where "d \<in> set systemDefaultSystemTektonTasks" "n = the (tts_Name d)" "b = body (the (deref initial_globals (tts_Config d)))"
    using map_of_SomeD [OF assms(2) [unfolded default_body_def]] by auto
  with that eq show thesis by auto
qed

lemma add_missing_sets: "set env \<subseteq> set (add_missing ds env)" "env_Name ` set ds \<subseteq> env_Name ` set (add_missing ds env)"
proof -
  have env: "set env \<subseteq> set (add_missing ds env)" for ds env
  proof (induction ds arbitrary: env)
    case (Cons d ds)
    have "set env \<subseteq> set (if b then env else env @ [d])" for b by auto
    then show ?case unfolding add_missing.simps using Cons.IH by (rule subset_trans)
  qed simp
  then show "set env \<subseteq> set (add_missing ds env)" .
  show "env_Name ` set ds \<subseteq> env_Name ` set (add_missing ds env)"
  proof (induction ds arbitrary: env)
    case (Cons d ds)
    let ?env = "if list_ex (\<lambda>e. env_Name d = env_Name e) env then env else env @ [d]"
    have "env_Name d \<in> env_Name ` set ?env" by (auto simp: list_ex_iff)
    then have "env_Name d \<in> env_Name ` set (add_missing ds ?env)"
      by (rule subsetD [OF image_mono [OF env]])
    with Cons.IH [of ?env] show ?case by simp
  qed simp
qed

text \<open>What the user gets for a task: its own command and variables where it has them, those of the default task where not.\<close>

definition completes :: "globals \<Rightarrow> SystemTektonTaskSpec \<Rightarrow> SystemTektonTaskSpec \<Rightarrow> bool" where
  "completes g' t t' \<longleftrightarrow> tts_Name t' = tts_Name t \<and>
     (\<exists>c'. deref g' (tts_Config t') = Some c' \<and>
       (case tts_Config t of
          NilConfig \<Rightarrow> ttc_Command c' = [''echo''] \<and> ttc_Args c' = [''Step command not set.''] \<and> ttc_ExtraEnv c' = []
        | Own c \<Rightarrow>
            (ttc_Command c \<noteq> [] \<longrightarrow> ttc_Command c' = ttc_Command c) \<and> (ttc_Args c \<noteq> [] \<longrightarrow> ttc_Args c' = ttc_Args c) \<and>
            set (ttc_ExtraEnv c) \<subseteq> set (ttc_ExtraEnv c') \<and>
            (case tts_Name t \<bind> default_body of
               None \<Rightarrow> True
             | Some (command, args, env) \<Rightarrow>
                 (ttc_Command c = [] \<longrightarrow> ttc_Command c' = command) \<and> (ttc_Args c = [] \<longrightarrow> ttc_Args c' = args) \<and>
                 env_Name ` set env \<subseteq> env_Name ` set (ttc_ExtraEnv c'))
        | Global _ \<Rightarrow> False))"

lemma Merge_sets:
  "set (ttc_ExtraEnv c) \<subseteq> set (ttc_ExtraEnv (SystemTektonTaskConfig_Merge d c))"
  "env_Name ` set (ttc_ExtraEnv d) \<subseteq> env_Name ` set (ttc_ExtraEnv (SystemTektonTaskConfig_Merge d c))"
proof -
  let ?env = "if length (ttc_ExtraEnv c) = 0 then ttc_ExtraEnv d else ttc_ExtraEnv c"
  have "set (ttc_ExtraEnv c) \<subseteq> set ?env" by simp
  then show "set (ttc_ExtraEnv c) \<subseteq> set (ttc_ExtraEnv (SystemTektonTaskConfig_Merge d c))"
    using add_missing_sets(1) [of ?env "ttc_ExtraEnv d"] by (simp add: SystemTektonTaskConfig_Merge_def)
  show "env_Name ` set (ttc_ExtraEnv d) \<subseteq> env_Name ` set (ttc_ExtraEnv (SystemTektonTaskConfig_Merge d c))"
    using add_missing_sets(2) [of "ttc_ExtraEnv d" ?env] by (simp add: SystemTektonTaskConfig_Merge_def)
qed

lemma Merge_commands:
  "ttc_Command (SystemTektonTaskConfig_Default img (SystemTektonTaskConfig_Merge d c)) =
     (if ttc_Command c \<noteq> [] then ttc_Command c else if ttc_Command d \<noteq> [] then ttc_Command d else [''echo''])"
  "ttc_Args (SystemTektonTaskConfig_Default img (SystemTektonTaskConfig_Merge d c)) =
     (if ttc_Args c \<noteq> [] then ttc_Args c else if ttc_Args d \<noteq> [] then ttc_Args d else [''Step command not set.''])"
  by (simp_all add: SystemTektonTaskConfig_Default_def SystemTektonTaskConfig_Merge_def stringSliceOrDefault_def)

lemma completes_expected:
  assumes "globals_ok g" "own_task t" "tts_Name t' = tts_Name t"
    and "deref g' (tts_Config t') = Some (SystemTektonTaskConfig_Default img (task_value g (completed systemDefaultSystemTektonTasks g t)))"
  shows "completes g' t t'"
proof (cases "tts_Config t")
  case NilConfig
  moreover have "tts_Config (completed ds g t) = NilConfig" for ds
    using NilConfig by (induction ds arbitrary: t) (simp_all add: complete_from_def)
  ultimately show ?thesis
    using assms(3,4)
    by (simp add: completes_def task_value_def deref_def or_else_def SystemTektonTaskConfig_Default_def stringSliceOrDefault_def
        no_SystemTektonTaskConfig_def)
next
  case (Own c)
  show ?thesis
  proof (cases "tts_Name t \<bind> default_body")
    case None
    have "tts_Config (completed systemDefaultSystemTektonTasks g t) = Own c \<or>
        (\<exists>d\<in>set systemDefaultSystemTektonTasks. tts_Config (completed systemDefaultSystemTektonTasks g t) =
           Own (SystemTektonTaskConfig_Merge (the (deref g (tts_Config d))) c))"
      using completed_other [of t systemDefaultSystemTektonTasks g] completed_named [OF default_names, of _ t g] Own
      by (cases "tts_Name t \<in> tts_Name ` set systemDefaultSystemTektonTasks") (auto simp: complete_from_def)
    then show ?thesis
      using assms(3,4) Own None Merge_sets(1) Merge_commands
      by (auto simp: completes_def task_value_def deref_def or_else_def) (auto simp: SystemTektonTaskConfig_Default_def stringSliceOrDefault_def)
  next
    case (Some b)
    then obtain n where n: "tts_Name t = Some n" "default_body n = Some b" by (auto simp: bind_eq_Some_conv)
    obtain d where d: "d \<in> set systemDefaultSystemTektonTasks" "tts_Name d = Some n" "body (the (deref g (tts_Config d))) = b"
      by (rule default_body_some [OF assms(1) n(2)])
    let ?dc = "the (deref g (tts_Config d))"
    have "tts_Config (completed systemDefaultSystemTektonTasks g t) = Own (SystemTektonTaskConfig_Merge ?dc c)"
      using completed_named [OF default_names d(1), of t g] n(1) d(2) Own by (simp add: complete_from_def)
    moreover have "?dc \<in> set g"
      using d(1) globals_ok_length [OF assms(1)] by (auto simp: systemDefaultSystemTektonTasks_def default_task_def deref_def)
    then have "ttc_Command ?dc \<noteq> []" "ttc_Args ?dc \<noteq> []"
      using globals_ok_nonempty [OF assms(1)] by blast+
    moreover have "b = (ttc_Command ?dc, ttc_Args ?dc, ttc_ExtraEnv ?dc)"
      using d(3) by (simp add: body_def)
    moreover have "ttc_ExtraEnv (SystemTektonTaskConfig_Default img x) = ttc_ExtraEnv x" for x
      by (simp add: SystemTektonTaskConfig_Default_def)
    ultimately show ?thesis
      using assms(3,4) Own Some Merge_sets(1) [of c ?dc] Merge_sets(2) [of ?dc c] Merge_commands [of img ?dc c]
      unfolding completes_def task_value_def or_else_def deref_def [of g "tts_Config (completed _ _ _)"]
      by (simp del: One_nat_def)
  qed
qed (use assms(2) in \<open>simp add: own_task_def\<close>)

lemma default_task_stored:
  assumes "globals_ok g" "\<forall>t\<in>set ts. own_task t" "SystemTasks_Default img g ts = Some (g', ts')"
    and "d \<in> set systemDefaultSystemTektonTasks" "tts_Name d \<notin> tts_Name ` set ts" "tts_Config d = Global k"
  shows "globals_ok g'" "g' ! k = SystemTektonTaskConfig_Default img (g ! k)"
    "\<exists>t'\<in>set ts'. tts_Name t' = tts_Name d \<and> tts_Config t' = Global k"
proof -
  have named: "\<forall>t\<in>set ts. tts_Name t \<noteq> None" using SystemTasks_Default_unnamed assms(3) by fastforce
  have R: "globals_ok g' \<and> list_all2 (defaulted_task img g g') (expected_tasks g ts) ts'"
    using assms(3) by (rule_tac SystemTasks_Default_eq [OF assms(1,2) named, of img]) simp
  then show ok: "globals_ok g'" by blast
  have k: "k < 3" using assms(4,6) by (auto simp: systemDefaultSystemTektonTasks_def default_task_def)
  have "d \<in> set (expected_tasks g ts)" using assms(4,5) by (simp add: expected_tasks_def missing_defaults_def)
  then obtain j where j: "j < length (expected_tasks g ts)" "expected_tasks g ts ! j = d" by (metis in_set_conv_nth)
  then have t': "defaulted_task img g g' d (ts' ! j)" "ts' ! j \<in> set ts'"
    using R list_all2_nthD list_all2_lengthD by (metis, metis nth_mem)
  have "task_value g d = g ! k" using assms(6) k globals_ok_length [OF assms(1)] by (simp add: task_value_def deref_def or_else_def)
  with t'(1) assms(6) k globals_ok_length [OF ok] show "g' ! k = SystemTektonTaskConfig_Default img (g ! k)"
    by (auto simp: defaulted_task_def deref_def)
  show "\<exists>t'\<in>set ts'. tts_Name t' = tts_Name d \<and> tts_Config t' = Global k"
    using t' assms(6) by (intro bexI [of _ "ts' ! j"]) (simp_all add: defaulted_task_def)
qed

section \<open>Properties of the tasks\<close>

text \<open>
  Defaulting a specification panics exactly when one of its tasks has no name, which the API declares
  optional.
\<close>

lemma System_Default_panics_iff:
  assumes "globals_ok g" "\<forall>t\<in>set (sys_Tasks spec). own_task t"
  shows "SystemSpec_Default g spec = None \<longleftrightarrow> (\<exists>t\<in>set (sys_Tasks spec). tts_Name t = None)"
proof (cases "\<exists>t\<in>set (sys_Tasks spec). tts_Name t = None")
  case True
  then have "SystemTasks_Default img g (sys_Tasks spec) = None" for img
    using SystemTasks_Default_unnamed by blast
  then show ?thesis
    using True by (simp add: SystemSpec_Default_def SystemSpec_Default_components_def Let_def)
next
  case False
  then have "\<forall>t\<in>set (sys_Tasks spec). tts_Name t \<noteq> None" by metis
  then obtain g' ts' where "SystemTasks_Default (InitializeImageSpec (sys_Image spec) systemDefaultImage) g (sys_Tasks spec) = Some (g', ts')"
    by (rule SystemTasks_Default_eq [OF assms])
  then show ?thesis
    using False by (simp add: SystemSpec_Default_def SystemSpec_Default_components_def Let_def)
qed


text \<open>
  C24. The image of a default task is that of the first System the process defaulted: after a first
  specification, a second one that does not name the task either gets it with the name and tag of the
  image of the first, because the image was written into the package variable. The image of the second
  specification, be it of another resource or a later version of the same one, is ignored.
\<close>

theorem System_default_tasks_stale:
  assumes "\<forall>t\<in>set (sys_Tasks spec1). own_task t" "\<forall>t\<in>set (sys_Tasks spec2). own_task t"
    and "d \<in> set systemDefaultSystemTektonTasks" "tts_Name d \<notin> tts_Name ` set (sys_Tasks spec1)" "tts_Name d \<notin> tts_Name ` set (sys_Tasks spec2)"
    and "SystemSpec_Default initial_globals spec1 = Some (g1, s1)" "SystemSpec_Default g1 spec2 = Some (g2, s2)"
  shows "\<exists>t img c img1. t \<in> set (sys_Tasks s2) \<and> tts_Name t = tts_Name d \<and> deref g2 (tts_Config t) = Some c \<and>
    ttc_Image c = Some img \<and> sys_Image s1 = Some img1 \<and> img_Name img = img_Name img1 \<and> img_Tag img = img_Tag img1"
proof -
  obtain i1 t1 where p1: "i1 = InitializeImageSpec (sys_Image spec1) systemDefaultImage" "sys_Image s1 = Some i1"
      "SystemTasks_Default i1 initial_globals (sys_Tasks spec1) = Some (g1, t1)"
    by (rule SystemSpec_Default_parts [OF assms(6)])
  obtain i2 t2 where p2: "SystemTasks_Default i2 g1 (sys_Tasks spec2) = Some (g2, t2)" "s2 = (SystemSpec_Default_components spec2)\<lparr>sys_Tasks := t2\<rparr>"
    by (rule SystemSpec_Default_parts [OF assms(7)])
  obtain k where d: "tts_Config d = Global k" "k < 3" "ttc_Image (initial_globals ! k) = None"
    using assms(3) by (auto simp: systemDefaultSystemTektonTasks_def default_task_def initial_globals_def no_SystemTektonTaskConfig_def)
  note first = default_task_stored [OF globals_ok_initial assms(1) p1(3) assms(3,4) d(1)]
  note second = default_task_stored [OF first(1) assms(2) p2(1) assms(3,5) d(1)]
  obtain t where t: "t \<in> set t2" "tts_Name t = tts_Name d" "tts_Config t = Global k" using second(3) by blast
  have c: "deref g2 (tts_Config t) = Some (SystemTektonTaskConfig_Default i2 (SystemTektonTaskConfig_Default i1 (initial_globals ! k)))"
    using t(3) second(2) first(2) globals_ok_length [OF second(1)] d(2) by (simp add: deref_def)
  have set: "img_Name i1 \<noteq> None" "img_Tag i1 \<noteq> None"
    by (auto simp: p1(1) InitializeImageSpec_def ImageSpec_Default_def systemDefaultImage_def orDefault_def split: option.splits)
  let ?img = "InitializeImageSpec (Some (InitializeImageSpec None i1)) i2"
  have "img_Name ?img = img_Name i1 \<and> img_Tag ?img = img_Tag i1"
    using set by (auto simp: InitializeImageSpec_def ImageSpec_Default_def orDefault_def no_ImageSpec_def split: option.splits)
  moreover have "ttc_Image (SystemTektonTaskConfig_Default i2 (SystemTektonTaskConfig_Default i1 (initial_globals ! k))) = Some ?img"
    by (simp add: SystemTektonTaskConfig_Default_def d(3))
  ultimately show ?thesis
    using t(1,2) c p1(2) p2(2)
    by (intro exI [of _ t] exI [of _ ?img] exI [of _ "SystemTektonTaskConfig_Default i2 (SystemTektonTaskConfig_Default i1 (initial_globals ! k))"]
        exI [of _ i1]) simp
qed

section \<open>A specification to run the model on\<close>

definition system_ref :: "string \<Rightarrow> SecretReference" where
  "system_ref key = \<lparr>sr_FromVault = Some (''secret/data/system'', key), sr_Override = None, sr_FromSeed = None\<rparr>"

definition demo_system :: "string \<Rightarrow> Canary option \<Rightarrow> SystemTektonTaskSpec list \<Rightarrow> SystemSpec" where
  "demo_system tag canary tasks =
     \<lparr>sys_Config = \<lparr>scf_Rails = None, scf_SandboxProxyOpensslVerifyMode = None, scf_ForceSSL = None, scf_SSLCertsDir = None,
        scf_SearchServer = \<lparr>ses_Host = None, ses_Port = None, ses_BatchSize = None\<rparr>, scf_ThreescaleProviderPlan = None,
        scf_ThreescaleSuperdomain = None, scf_ConfigFilesSecret = None,
        scf_ExternalSecret = \<lparr>es_SecretStoreRef = None, es_RefreshInterval = None\<rparr>, scf_DatabaseDSN = system_ref ''dsn'',
        scf_EventsSharedSecret = system_ref ''events'', scf_Recaptcha = \<lparr>rec_PublicKey = system_ref ''public'', rec_PrivateKey = system_ref ''private''\<rparr>,
        scf_SecretKeyBase = system_ref ''base'', scf_AccessCode = None,
        scf_Segment = \<lparr>seg_DeletionWorkspace = ''workspace'', seg_DeletionToken = system_ref ''token'', seg_WriteKey = system_ref ''write''\<rparr>,
        scf_Github = \<lparr>gh_ClientID = system_ref ''gid'', gh_ClientSecret = system_ref ''gsecret''\<rparr>,
        scf_RedHatCustomerPortal = \<lparr>rh_ClientID = system_ref ''rid'', rh_ClientSecret = system_ref ''rsecret'', rh_Realm = None\<rparr>,
        scf_Bugsnag = None, scf_DatabaseSecret = system_ref ''database'', scf_MemcachedServers = ''memcached'', scf_RedisQueuesDSN = ''redis'',
        scf_SMTP = \<lparr>smtp_Address = ''smtp'', smtp_User = system_ref ''user'', smtp_Password = system_ref ''password'', smtp_Port = 25,
          smtp_AuthProtocol = ''plain'', smtp_OpenSSLVerifyMode = ''none'', smtp_STARTTLS = None, smtp_STARTTLSAuto = None\<rparr>,
        scf_MappingServiceAccessToken = system_ref ''mapping'',
        scf_Zync = \<lparr>szy_AuthToken = system_ref ''zync'', szy_Endpoint = ''zync''\<rparr>,
        scf_Backend = \<lparr>sbe_ExternalEndpoint = ''external'', sbe_InternalEndpoint = ''internal'', sbe_InternalAPIUser = system_ref ''apiuser'',
          sbe_InternalAPIPassword = system_ref ''apipass'', sbe_RedisDSN = ''redis''\<rparr>,
        scf_Assets = \<lparr>as_Bucket = ''bucket'', as_Region = ''region'', as_AccessKey = system_ref ''access'', as_SecretKey = system_ref ''secret'',
          as_Host = None, as_S3Endpoint = None\<rparr>, scf_Apicast = None\<rparr>,
      sys_Image = Some (no_ImageSpec\<lparr>img_Tag := Some tag\<rparr>),
      sys_App = Some (no_SystemAppSpec\<lparr>sas_Canary := canary\<rparr>), sys_SidekiqDefault = None, sys_SidekiqBilling = None,
      sys_SidekiqLow = None, sys_Searchd = None, sys_Console = None, sys_Tasks = tasks, sys_GrafanaDashboard = None, sys_Twemproxy = None\<rparr>"

definition migrate_task :: SystemTektonTaskSpec where
  "migrate_task = (default_task ''system-db-migrate'' ''migrates'' 1)\<lparr>tts_Config := NilConfig\<rparr>"

lemma demo_system_simps [simp]: "sys_Tasks (demo_system tag canary tasks) = tasks"
  by (simp add: demo_system_def)

lemma demo_defaulted:
  assumes "globals_ok g"
  obtains g' spec' where "SystemSpec_Default g (demo_system tag canary []) = Some (g', spec')"
  using System_Default_panics_iff [OF assms, of "demo_system tag canary []"] by auto


theorem System_default_tasks_stale_witness:
  "\<exists>g1 s1 g2 s2 t c img. SystemSpec_Default initial_globals (demo_system ''v1'' None []) = Some (g1, s1) \<and>
     SystemSpec_Default g1 (demo_system ''v2'' None []) = Some (g2, s2) \<and> t \<in> set (sys_Tasks s2) \<and>
     deref g2 (tts_Config t) = Some c \<and> ttc_Image c = Some img \<and> img_Tag img = Some ''v1''"
proof -
  obtain g1 s1 where d1: "SystemSpec_Default initial_globals (demo_system ''v1'' None []) = Some (g1, s1)"
    by (rule demo_defaulted [OF globals_ok_initial])
  obtain img tasks where p: "SystemTasks_Default img initial_globals [] = Some (g1, tasks)" "img_Tag img = Some ''v1''" "sys_Image s1 = Some img"
    by (rule SystemSpec_Default_parts [OF d1])
       (simp add: demo_system_def InitializeImageSpec_def ImageSpec_Default_def orDefault_def no_ImageSpec_def)
  have "globals_ok g1"
    by (rule SystemTasks_Default_eq [OF globals_ok_initial, of "[]" img]) (simp_all add: p(1))
  then obtain g2 s2 where d2: "SystemSpec_Default g1 (demo_system ''v2'' None []) = Some (g2, s2)"
    by (rule demo_defaulted)
  have "default_task ''system-db-migrate'' ''Runs the Database Migration task'' 1 \<in> set systemDefaultSystemTektonTasks"
    by (simp add: systemDefaultSystemTektonTasks_def)
  from System_default_tasks_stale [OF _ _ this _ _ d1 d2] obtain t i c img1 where
      "t \<in> set (sys_Tasks s2)" "deref g2 (tts_Config t) = Some c" "ttc_Image c = Some i" "sys_Image s1 = Some img1" "img_Tag i = img_Tag img1"
    by auto
  moreover from this have "img_Tag i = Some ''v1''"
    using p(2,3) by simp
  ultimately show ?thesis
    using d1 d2 by (intro exI [of _ g1] exI [of _ s1] exI [of _ g2] exI [of _ s2] exI [of _ t] exI [of _ c] exI [of _ i] conjI)
qed

end
