(* ===== verification/SystemApp.thy ===== *)
theory SystemApp
  imports SystemTypes
begin

text \<open>
  The generator of System (\<^verbatim>\<open>internal/pkg/generators/system/\<close>): the environment its components share,
  the application and the three sidekiqs with their canaries, the search daemon with its service, the
  console, and the Tekton tasks with their pipelines.

  The templates that are not part of a workload are built when the resources are reconciled: such a
  template is whether it is enabled and what it builds, \<^const>\<open>None\<close> when building panics.
\<close>

section \<open>The environment\<close>

definition SystemDatabaseSecret :: string where "SystemDatabaseSecret = ''system-database''"
definition SystemRecaptchaSecret :: string where "SystemRecaptchaSecret = ''system-recaptcha''"
definition SystemEventsHookSecret :: string where "SystemEventsHookSecret = ''system-events-hook''"
definition SystemSmptSecret :: string where "SystemSmptSecret = ''system-smtp''"
definition SystemMasterApicastSecret :: string where "SystemMasterApicastSecret = ''system-master-apicast''"
definition SystemZyncSecret :: string where "SystemZyncSecret = ''system-zync''"
definition SystemBackendSecret :: string where "SystemBackendSecret = ''system-backend''"
definition SystemMultitenantAssetsS3Secret :: string where "SystemMultitenantAssetsS3Secret = ''system-multitenant-assets-s3''"
definition SystemAppSecret :: string where "SystemAppSecret = ''system-app''"

lemmas system_secrets = SystemDatabaseSecret_def SystemRecaptchaSecret_def SystemEventsHookSecret_def SystemSmptSecret_def
  SystemMasterApicastSecret_def SystemZyncSecret_def SystemBackendSecret_def SystemMultitenantAssetsS3Secret_def SystemAppSecret_def

text \<open>The statements of the function, in order; a nil rails or Bugsnag configuration panics.\<close>

definition system_rows :: "SystemConfig \<Rightarrow> SystemRailsSpec \<Rightarrow> BugsnagSpec \<Rightarrow> rows" where
  "system_rows cfg rails bugsnag =
     [(''FORCE_SSL'', id, ptr_bool (scf_ForceSSL cfg)),
      (''PROVIDER_PLAN'', id, ptr_text (scf_ThreescaleProviderPlan cfg)),
      (''SSL_CERT_DIR'', id, ptr_text (scf_SSLCertsDir cfg)),
      (''THREESCALE_SANDBOX_PROXY_OPENSSL_VERIFY_MODE'', id, ptr_text (scf_SandboxProxyOpensslVerifyMode cfg)),
      (''THREESCALE_SUPERDOMAIN'', id, ptr_text (scf_ThreescaleSuperdomain cfg)),
      (''RAILS_ENV'', id, ptr_text (srs_Environment rails)),
      (''RAILS_LOG_LEVEL'', id, ptr_text (srs_LogLevel rails)),
      (''RAILS_LOG_TO_STDOUT'', id, Text ''true''),
      (''THINKING_SPHINX_ADDRESS'', id, ptr_text (ses_Host (scf_SearchServer cfg))),
      (''THINKING_SPHINX_PORT'', id, ptr_int (ses_Port (scf_SearchServer cfg))),
      (''THINKING_SPHINX_BATCH_SIZE'', id, ptr_int (ses_BatchSize (scf_SearchServer cfg))),
      (''DATABASE_URL'', secret_ref SystemDatabaseSecret ''system-database-dsn'', Secret (scf_DatabaseDSN cfg)),
      (''MEMCACHE_SERVERS'', id, Text (scf_MemcachedServers cfg)),
      (''RECAPTCHA_PUBLIC_KEY'', secret_ref SystemRecaptchaSecret ''system-recaptcha-public-key'', Secret (rec_PublicKey (scf_Recaptcha cfg))),
      (''RECAPTCHA_PRIVATE_KEY'', secret_ref SystemRecaptchaSecret ''system-recaptcha-private-key'', Secret (rec_PrivateKey (scf_Recaptcha cfg))),
      (''EVENTS_SHARED_SECRET'', secret_ref SystemEventsHookSecret ''system-events-shared-secret'', Secret (scf_EventsSharedSecret cfg)),
      (''REDIS_URL'', id, Text (scf_RedisQueuesDSN cfg)),
      (''REDIS_NAMESPACE'', id, Text ''''),
      (''REDIS_SENTINEL_HOSTS'', id, Text ''''),
      (''REDIS_SENTINEL_ROLE'', id, Text ''''),
      (''SMTP_ADDRESS'', id, Text (smtp_Address (scf_SMTP cfg))),
      (''SMTP_USER_NAME'', secret_ref SystemSmptSecret ''system-smpt-user'', Secret (smtp_User (scf_SMTP cfg))),
      (''SMTP_PASSWORD'', secret_ref SystemSmptSecret ''system-smpt-password'', Secret (smtp_Password (scf_SMTP cfg))),
      (''SMTP_PORT'', id, Text (itoa (smtp_Port (scf_SMTP cfg)))),
      (''SMTP_AUTHENTICATION'', id, Text (smtp_AuthProtocol (scf_SMTP cfg))),
      (''SMTP_OPENSSL_VERIFY_MODE'', id, Text (smtp_OpenSSLVerifyMode (scf_SMTP cfg))),
      (''SMTP_STARTTLS'', id, ptr_bool (smtp_STARTTLS (scf_SMTP cfg))),
      (''SMTP_STARTTLS_AUTO'', id, ptr_bool (smtp_STARTTLSAuto (scf_SMTP cfg))),
      (''APICAST_ACCESS_TOKEN'', secret_ref SystemMasterApicastSecret ''system-apicast-access-token'', Secret (scf_MappingServiceAccessToken cfg)),
      (''ZYNC_ENDPOINT'', id, Text (szy_Endpoint (scf_Zync cfg))),
      (''ZYNC_AUTHENTICATION_TOKEN'', secret_ref SystemZyncSecret ''zync-auth-token'', Secret (szy_AuthToken (scf_Zync cfg))),
      (''BACKEND_REDIS_URL'', id, Text (sbe_RedisDSN (scf_Backend cfg))),
      (''BACKEND_REDIS_SENTINEL_HOSTS'', id, Text ''''),
      (''BACKEND_REDIS_SENTINEL_ROLE'', id, Text ''''),
      (''BACKEND_URL'', id, Text (sbe_InternalEndpoint (scf_Backend cfg))),
      (''BACKEND_PUBLIC_URL'', id, Text (sbe_ExternalEndpoint (scf_Backend cfg))),
      (''CONFIG_INTERNAL_API_USER'', secret_ref SystemBackendSecret ''backend-internal-api-user'', Secret (sbe_InternalAPIUser (scf_Backend cfg))),
      (''CONFIG_INTERNAL_API_PASSWORD'', secret_ref SystemBackendSecret ''backend-internal-api-password'',
        Secret (sbe_InternalAPIPassword (scf_Backend cfg))),
      (''AWS_ACCESS_KEY_ID'', secret_ref SystemMultitenantAssetsS3Secret ''system-assets-s3-aws-access-key'', Secret (as_AccessKey (scf_Assets cfg))),
      (''AWS_SECRET_ACCESS_KEY'', secret_ref SystemMultitenantAssetsS3Secret ''system-assets-s3-aws-secret-key'',
        Secret (as_SecretKey (scf_Assets cfg))),
      (''AWS_BUCKET'', id, Text (as_Bucket (scf_Assets cfg))),
      (''AWS_REGION'', id, Text (as_Region (scf_Assets cfg))),
      (''AWS_S3_HOSTNAME'', id, ptr_text (as_S3Endpoint (scf_Assets cfg))),
      (''RAILS_ASSET_HOST'', id, ptr_text (as_Host (scf_Assets cfg))),
      (''SECRET_KEY_BASE'', secret_ref SystemAppSecret ''system-secret-key-base'', Secret (scf_SecretKeyBase cfg)),
      (''ACCESS_CODE'', secret_ref SystemAppSecret ''system-access-code'', ptr_secret (scf_AccessCode cfg)),
      (''SEGMENT_DELETION_TOKEN'', secret_ref SystemAppSecret ''system-segment-deletion-token'', Secret (seg_DeletionToken (scf_Segment cfg))),
      (''SEGMENT_DELETION_WORKSPACE'', id, Text (seg_DeletionWorkspace (scf_Segment cfg))),
      (''SEGMENT_WRITE_KEY'', secret_ref SystemAppSecret ''system-segment-write-key'', Secret (seg_WriteKey (scf_Segment cfg))),
      (''GITHUB_CLIENT_ID'', secret_ref SystemAppSecret ''system-github-client-id'', Secret (gh_ClientID (scf_Github cfg))),
      (''GITHUB_CLIENT_SECRET'', secret_ref SystemAppSecret ''system-github-client-secret'', Secret (gh_ClientSecret (scf_Github cfg))),
      (''RH_CUSTOMER_PORTAL_CLIENT_ID'', secret_ref SystemAppSecret ''system-rh-customer-portal-client-id'',
        Secret (rh_ClientID (scf_RedHatCustomerPortal cfg))),
      (''RH_CUSTOMER_PORTAL_CLIENT_SECRET'', secret_ref SystemAppSecret ''system-rh-customer-portal-client-secret'',
        Secret (rh_ClientSecret (scf_RedHatCustomerPortal cfg))),
      (''RH_CUSTOMER_PORTAL_REALM'', id, ptr_text (rh_Realm (scf_RedHatCustomerPortal cfg))),
      (''BUGSNAG_API_KEY'', \<lambda>o1. EmptyIf (\<not> BugsnagSpec_Enabled bugsnag) (secret_ref SystemAppSecret ''system-bugsnag-api-key'' o1),
        Secret (bs_APIKey bugsnag)),
      (''BUGSNAG_RELEASE_STAGE'', id, ptr_text (bs_ReleaseStage bugsnag)),
      (''DB_SECRET'', secret_ref SystemAppSecret ''system-database-secret'', Secret (scf_DatabaseSecret cfg))]"

definition apicast_endpoint_rows :: "SystemApicastEndpointsSpec \<Rightarrow> rows" where
  "apicast_endpoint_rows a =
     [(''APICAST_STAGING_DOMAIN'', id, Text (sae_StagingDomain a)),
      (''APICAST_PRODUCTION_DOMAIN'', id, Text (sae_ProductionDomain a)),
      (''APICAST_CLOUD_HOSTED_REGISTRY_URL'', id, Text (sae_CloudHostedRegistryURL a)),
      (''APICAST_SELF_MANAGED_REGISTRY_URL'', id, Text (sae_SelfManagedRegistryURL a))]"

definition all_rows :: "SystemConfig \<Rightarrow> SystemRailsSpec \<Rightarrow> BugsnagSpec \<Rightarrow> rows" where
  "all_rows cfg rails bugsnag = system_rows cfg rails bugsnag @
     (case scf_Apicast cfg of None \<Rightarrow> [] | Some a \<Rightarrow> apicast_endpoint_rows a)"

definition system_NewOptions :: "SystemSpec \<Rightarrow> Options option" where
  "system_NewOptions spec =
     do { rails \<leftarrow> scf_Rails (sys_Config spec);
          bugsnag \<leftarrow> scf_Bugsnag (sys_Config spec);
          add_options (all_rows (sys_Config spec) rails bugsnag) }"

section \<open>The application\<close>

record SystemAppGenerator =
  sag_Base :: BaseOptionsV2
  sag_Spec :: SystemAppSpec
  sag_Options :: Options
  sag_Image :: ImageSpec
  sag_ConfigFilesSecret :: string
  sag_Traffic :: bool
  sag_TwemproxySpec :: "TwemproxySpec option"

definition config_volume :: "string \<Rightarrow> Volume" where
  "config_volume secret = SecretVolume ''system-config'' secret 420"

definition config_mount :: "string \<times> string \<times> bool" where
  "config_mount = (''system-config'', ''/opt/system-extra-configs'', True)"

definition app_args :: "string list" where
  "app_args = [''env'', ''PORT=3000'', ''container-entrypoint'', ''bundle'', ''exec'', ''unicorn'', ''-c'', ''config/unicorn.rb'']"

definition SystemApp_deployment :: "SystemAppGenerator \<Rightarrow> DeploymentSpec Deployment option" where
  "SystemApp_deployment gen =
     (let spec = sag_Spec gen; img = sag_Image gen; env = BuildEnvironment (sag_Options gen) in
      do { strategy \<leftarrow> sas_DeploymentStrategy spec;
           image \<leftarrow> Image img;
           pullPolicy \<leftarrow> img_PullPolicy img;
           resources \<leftarrow> sas_Resources spec;
           livenessSpec \<leftarrow> sas_LivenessProbe spec;
           liveness \<leftarrow> TCPProbe (FromString ''ui-api'') livenessSpec;
           readinessSpec \<leftarrow> sas_ReadinessProbe spec;
           readiness \<leftarrow> HTTPProbeWithHeaders ''/check.txt'' (FromString ''ui-api'') ''HTTP'' readinessSpec [(''X-Forwarded-Proto'', ''https'')];
           with_twemproxy (sag_TwemproxySpec gen) (deployment_with (sas_Replicas spec) strategy
             \<lparr>pod_ImagePullSecrets = ImagePullSecrets (img_PullSecretName img),
              pod_InitContainers = [plain_container (bo_Component (sag_Base gen) @ ''-k8s-deploy'') image
                [''bundle'', ''exec'', ''rake'', ''k8s:deploy''] [] env no_ResourceRequirementsSpec pullPolicy],
              pod_Containers = [(plain_container ''system-app'' image app_args [(''ui-api'', 3000), (''metrics'', 9394)] env resources pullPolicy)
                \<lparr>ac_LivenessProbe := liveness, ac_ReadinessProbe := readiness, ac_VolumeMounts := [config_mount]\<rparr>],
              pod_Affinity = Some (Affinity (GetSelector (sag_Base gen)) (sas_NodeAffinity spec)),
              pod_Tolerations = sas_Tolerations spec, pod_TerminationGracePeriodSeconds = sas_TerminationGracePeriodSeconds spec,
              pod_Volumes = [config_volume (sag_ConfigFilesSecret gen)]\<rparr>) })"

definition system_endpoints :: "TwemproxySpec option \<Rightarrow> PodMetricsEndpoint list" where
  "system_endpoints tw = PodMetricsEndpoint ''/metrics'' ''metrics'' 30 #
     (case tw of None \<Rightarrow> [] | Some _ \<Rightarrow> [PodMetricsEndpoint ''/metrics'' ''twem-metrics'' 30])"

definition SystemApp_workload :: "SystemAppGenerator \<Rightarrow> (DeploymentSpec, string) workload" where
  "SystemApp_workload gen =
     \<lparr>w_Key = GetKey (sag_Base gen), w_Labels = GetLabels (sag_Base gen), w_Selector = GetSelector (sag_Base gen),
      w_MonitoredEndpoints = system_endpoints (sag_TwemproxySpec gen), w_HPASpec = sas_HPA (sag_Spec gen), w_PDBSpec = sas_PDB (sag_Spec gen),
      w_Deployment = SystemApp_deployment gen, w_Canary = Some (sag_Traffic gen, [traffic_key \<mapsto> ''system-app'']),
      w_PublishingStrategies =
        Some (MergeWithDefaultPublishingStrategy system_DefaultAppPublishingStrategy (sas_PublishingStrategies (sag_Spec gen)))\<rparr>"

section \<open>The sidekiqs\<close>

record SidekiqGenerator =
  skg_Base :: BaseOptionsV2
  skg_Spec :: SystemSidekiqSpec
  skg_Options :: Options
  skg_Image :: ImageSpec
  skg_ConfigFilesSecret :: string
  skg_TwemproxySpec :: "TwemproxySpec option"

definition sidekiq_args :: "string list option \<Rightarrow> string list" where
  "sidekiq_args queues = ''sidekiq'' # concat (map (\<lambda>q. [''--queue'', q]) (or_else queues []))"

text \<open>The readiness probe is that of the liveness, as in the code.\<close>

definition Sidekiq_deployment :: "SidekiqGenerator \<Rightarrow> DeploymentSpec Deployment option" where
  "Sidekiq_deployment gen =
     (let spec = skg_Spec gen; img = skg_Image gen in
      do { strategy \<leftarrow> sks_DeploymentStrategy spec;
           image \<leftarrow> Image img;
           config \<leftarrow> sks_Config spec;
           maxThreads \<leftarrow> skc_MaxThreads config;
           resources \<leftarrow> sks_Resources spec;
           livenessSpec \<leftarrow> sks_LivenessProbe spec;
           liveness \<leftarrow> HTTPProbe ''/metrics'' (FromString ''metrics'') ''HTTP'' livenessSpec;
           readiness \<leftarrow> HTTPProbe ''/metrics'' (FromString ''metrics'') ''HTTP'' livenessSpec;
           pullPolicy \<leftarrow> img_PullPolicy img;
           with_twemproxy (skg_TwemproxySpec gen) (deployment_with (sks_Replicas spec) strategy
             \<lparr>pod_ImagePullSecrets = ImagePullSecrets (img_PullSecretName img), pod_InitContainers = [],
              pod_Containers = [(plain_container ''system-sidekiq'' image (sidekiq_args (skc_Queues config)) [(''metrics'', 9394)]
                  (BuildEnvironment (WithExtraEnv [\<lparr>env_Name = ''RAILS_MAX_THREADS'', env_Value = itoa maxThreads, env_ValueFrom = None\<rparr>]
                    (skg_Options gen))) resources pullPolicy)
                \<lparr>ac_LivenessProbe := liveness, ac_ReadinessProbe := readiness, ac_VolumeMounts := [(''system-tmp'', ''/tmp'', False), config_mount]\<rparr>],
              pod_Affinity = Some (Affinity (GetSelector (skg_Base gen)) (sks_NodeAffinity spec)),
              pod_Tolerations = sks_Tolerations spec, pod_TerminationGracePeriodSeconds = sks_TerminationGracePeriodSeconds spec,
              pod_Volumes = [EmptyDirVolume ''system-tmp'' ''Memory'', config_volume (skg_ConfigFilesSecret gen)]\<rparr>) })"

definition Sidekiq_workload :: "SidekiqGenerator \<Rightarrow> (DeploymentSpec, string) workload" where
  "Sidekiq_workload gen =
     \<lparr>w_Key = GetKey (skg_Base gen), w_Labels = GetLabels (skg_Base gen), w_Selector = GetSelector (skg_Base gen),
      w_MonitoredEndpoints = system_endpoints (skg_TwemproxySpec gen), w_HPASpec = sks_HPA (skg_Spec gen), w_PDBSpec = sks_PDB (skg_Spec gen),
      w_Deployment = Sidekiq_deployment gen, w_Canary = None, w_PublishingStrategies = None\<rparr>"

section \<open>The search daemon and the console\<close>

record SearchdGenerator =
  sdg_Base :: BaseOptionsV2
  sdg_Spec :: SystemSearchdSpec
  sdg_Image :: ImageSpec
  sdg_DatabasePort :: int
  sdg_DatabasePath :: string
  sdg_DatabaseStorageSize :: string
  sdg_DatabaseStorageClass :: "string option"
  sdg_Enabled :: bool

definition Searchd_statefulset :: "SearchdGenerator \<Rightarrow> AppStatefulSet option" where
  "Searchd_statefulset gen =
     (let spec = sdg_Spec gen; img = sdg_Image gen in
      do { image \<leftarrow> Image img;
           resources \<leftarrow> ssd_Resources spec;
           livenessSpec \<leftarrow> ssd_LivenessProbe spec;
           liveness \<leftarrow> TCPProbe (FromString ''searchd'') livenessSpec;
           readinessSpec \<leftarrow> ssd_ReadinessProbe spec;
           readiness \<leftarrow> TCPProbe (FromString ''searchd'') readinessSpec;
           pullPolicy \<leftarrow> img_PullPolicy img;
           Some (app_statefulset (sdg_Base gen) ''OrderedReady''
             \<lparr>pod_ImagePullSecrets = ImagePullSecrets (img_PullSecretName img), pod_InitContainers = [],
              pod_Containers = [(plain_container ''system-searchd'' image [] [(''searchd'', sdg_DatabasePort gen)] [] resources pullPolicy)
                \<lparr>ac_LivenessProbe := liveness, ac_ReadinessProbe := readiness,
                 ac_VolumeMounts := [(''system-searchd-database'', sdg_DatabasePath gen, False)]\<rparr>],
              pod_Affinity = Some (Affinity (GetSelector (sdg_Base gen)) (ssd_NodeAffinity spec)), pod_Tolerations = ssd_Tolerations spec,
              pod_TerminationGracePeriodSeconds = ssd_TerminationGracePeriodSeconds spec, pod_Volumes = []\<rparr>
             [(''system-searchd-database'', sdg_DatabaseStorageSize gen, sdg_DatabaseStorageClass gen)]) })"

definition Searchd_service :: "SearchdGenerator \<Rightarrow> Service option" where
  "Searchd_service gen =
     do { config \<leftarrow> ssd_Config (sdg_Spec gen);
          name \<leftarrow> sdc_ServiceName config;
          Some \<lparr>sv_Name = name, sv_Namespace = bo_Namespace (sdg_Base gen), sv_Labels = Map.empty, sv_Annotations = Map.empty,
            sv_Type = ''ClusterIP'', sv_Ports = [TCPPort ''searchd'' (sdg_DatabasePort gen) (FromString ''searchd'')],
            sv_Selector = GetSelector (sdg_Base gen)\<rparr> }"

definition StatefulSetWithTraffic :: "SearchdGenerator \<Rightarrow> (bool \<times> AppStatefulSet option) \<times> (bool \<times> Service option)" where
  "StatefulSetWithTraffic gen = ((sdg_Enabled gen, Searchd_statefulset gen), (sdg_Enabled gen, Searchd_service gen))"

record ConsoleGenerator =
  scg_Base :: BaseOptionsV2
  scg_Spec :: SystemRailsConsoleSpec
  scg_Options :: Options
  scg_Image :: ImageSpec
  scg_ConfigFilesSecret :: string
  scg_Enabled :: bool
  scg_TwemproxySpec :: "TwemproxySpec option"

definition Console_statefulset :: "ConsoleGenerator \<Rightarrow> AppStatefulSet option" where
  "Console_statefulset gen =
     (let spec = scg_Spec gen; img = scg_Image gen in
      do { image \<leftarrow> Image img;
           resources \<leftarrow> sco_Resources spec;
           pullPolicy \<leftarrow> img_PullPolicy img;
           let sts = app_statefulset (scg_Base gen) ''Parallel''
             \<lparr>pod_ImagePullSecrets = ImagePullSecrets (img_PullSecretName img), pod_InitContainers = [],
              pod_Containers = [(plain_container ''system-console'' image [''sleep'', ''infinity''] [] (BuildEnvironment (scg_Options gen))
                resources pullPolicy)\<lparr>ac_VolumeMounts := [config_mount]\<rparr>],
              pod_Affinity = None, pod_Tolerations = sco_Tolerations spec, pod_TerminationGracePeriodSeconds = Some 30,
              pod_Volumes = [config_volume (scg_ConfigFilesSecret gen)]\<rparr> [] in
           (case scg_TwemproxySpec gen of
              None \<Rightarrow> Some sts
            | Some tw \<Rightarrow>
                map_option (\<lambda>(labels, p). sts\<lparr>sss_PodLabels := labels, sss_Pod := p\<rparr>) (AddTwemproxySidecar (sss_PodLabels sts, sss_Pod sts) tw)) })"

definition Console_StatefulSet :: "ConsoleGenerator \<Rightarrow> bool \<times> AppStatefulSet option" where
  "Console_StatefulSet gen = (scg_Enabled gen, Console_statefulset gen)"

section \<open>Tekton\<close>

record SystemTektonGenerator =
  tkg_Base :: BaseOptionsV2
  tkg_Spec :: SystemTektonTaskSpec
  tkg_Options :: Options
  tkg_Image :: ImageSpec
  tkg_ConfigFilesSecret :: string
  tkg_TwemproxySpec :: "TwemproxySpec option"
  tkg_Enabled :: bool

record TektonTask =
  tk_Name :: string
  tk_Namespace :: string
  tk_Labels :: labels
  tk_Spec :: TaskSpec

text \<open>A task of a pipeline is its name, its parameters and the task it refers to.\<close>

record Pipeline =
  pl_Name :: string
  pl_Namespace :: string
  pl_Labels :: labels
  pl_DisplayName :: string
  pl_Description :: string
  pl_Params :: "(string \<times> string \<times> string) list"
  pl_Tasks :: "(string \<times> (string \<times> string) list \<times> string) list"

definition image_params :: "ImageSpec \<Rightarrow> (string \<times> string \<times> string) list option" where
  "image_params img =
     do { name \<leftarrow> img_Name img;
          tag \<leftarrow> img_Tag img;
          Some [(''container-image'', ''Container image for the task'', name), (''container-tag'', ''Container tag for the task'', tag)] }"

definition Tekton_task :: "globals \<Rightarrow> SystemTektonGenerator \<Rightarrow> TektonTask option" where
  "Tekton_task g gen =
     do { description \<leftarrow> tts_Description (tkg_Spec gen);
          params \<leftarrow> image_params (tkg_Image gen);
          config \<leftarrow> deref g (tts_Config (tkg_Spec gen));
          resources \<leftarrow> tts_Resources (tkg_Spec gen);
          let spec =
            \<lparr>tks_DisplayName = bo_Component (tkg_Base gen), tks_Description = description, tks_Params = params,
             tks_StepImage = ''$(params.container-image):$(params.container-tag)'',
             tks_StepEnv = BuildEnvironment (WithExtraEnv (ttc_ExtraEnv config) (tkg_Options gen)),
             tks_Steps = [\<lparr>st_Name = ''task-command'', st_Command = ttc_Command config, st_Args = ttc_Args config,
               st_ComputeResources = resources, st_VolumeMounts = [config_mount], st_Timeout = ttc_Timeout config\<rparr>],
             tks_Volumes = [config_volume (tkg_ConfigFilesSecret gen)], tks_Sidecars = []\<rparr>
          in do { spec \<leftarrow> (case tkg_TwemproxySpec gen of None \<Rightarrow> Some spec | Some tw \<Rightarrow> AddTwemproxyTaskSidecar spec tw);
                  Some \<lparr>tk_Name = bo_Component (tkg_Base gen), tk_Namespace = bo_Namespace (tkg_Base gen),
                    tk_Labels = GetLabels (tkg_Base gen), tk_Spec = spec\<rparr> } }"

definition Tekton_pipeline :: "SystemTektonGenerator \<Rightarrow> Pipeline option" where
  "Tekton_pipeline gen =
     do { description \<leftarrow> tts_Description (tkg_Spec gen);
          params \<leftarrow> image_params (tkg_Image gen);
          name \<leftarrow> tts_Name (tkg_Spec gen);
          Some \<lparr>pl_Name = bo_Component (tkg_Base gen), pl_Namespace = bo_Namespace (tkg_Base gen), pl_Labels = GetLabels (tkg_Base gen),
            pl_DisplayName = bo_Component (tkg_Base gen), pl_Description = description, pl_Params = params,
            pl_Tasks = [(name, [(''container-image'', ''$(params.container-image)''), (''container-tag'', ''$(params.container-tag)'')],
              bo_Component (tkg_Base gen))]\<rparr> }"

section \<open>The generator\<close>

record SystemGenerator =
  syg_Base :: BaseOptionsV2
  syg_App :: SystemAppGenerator
  syg_CanaryApp :: "SystemAppGenerator option"
  syg_SidekiqDefault :: SidekiqGenerator
  syg_CanarySidekiqDefault :: "SidekiqGenerator option"
  syg_SidekiqBilling :: SidekiqGenerator
  syg_CanarySidekiqBilling :: "SidekiqGenerator option"
  syg_SidekiqLow :: SidekiqGenerator
  syg_CanarySidekiqLow :: "SidekiqGenerator option"
  syg_Searchd :: SearchdGenerator
  syg_Console :: ConsoleGenerator
  syg_Config :: SystemConfig
  syg_GrafanaDashboardSpec :: GrafanaDashboardSpec
  syg_ConfigFilesSecret :: string
  syg_Options :: Options
  syg_Tekton :: "SystemTektonGenerator list"

definition system_base :: "string \<Rightarrow> string \<Rightarrow> string \<Rightarrow> string \<Rightarrow> BaseOptionsV2" where
  "system_base instance namespace component element =
     \<lparr>bo_Component = component, bo_InstanceName = instance, bo_Namespace = namespace,
      bo_Labels = [''app'' \<mapsto> ''3scale-api-management'', ''threescale_component'' \<mapsto> ''system'', ''threescale_component_element'' \<mapsto> element]\<rparr>"

definition system_app :: "BaseOptionsV2 \<Rightarrow> bool \<Rightarrow> SystemSpec \<Rightarrow> SystemAppGenerator option" where
  "system_app base traffic spec =
     do { app \<leftarrow> sys_App spec;
          opts \<leftarrow> system_NewOptions spec;
          img \<leftarrow> sys_Image spec;
          secret \<leftarrow> scf_ConfigFilesSecret (sys_Config spec);
          Some \<lparr>sag_Base = base, sag_Spec = app, sag_Options = opts, sag_Image = img, sag_ConfigFilesSecret = secret,
            sag_Traffic = traffic, sag_TwemproxySpec = sys_Twemproxy spec\<rparr> }"

definition system_sidekiq ::
    "BaseOptionsV2 \<Rightarrow> (SystemSpec \<Rightarrow> SystemSidekiqSpec option) \<Rightarrow> SystemSpec \<Rightarrow> SidekiqGenerator option" where
  "system_sidekiq base field spec =
     do { sidekiq \<leftarrow> field spec;
          opts \<leftarrow> system_NewOptions spec;
          img \<leftarrow> sys_Image spec;
          secret \<leftarrow> scf_ConfigFilesSecret (sys_Config spec);
          Some \<lparr>skg_Base = base, skg_Spec = sidekiq, skg_Options = opts, skg_Image = img, skg_ConfigFilesSecret = secret,
            skg_TwemproxySpec = sys_Twemproxy spec\<rparr> }"

definition system_searchd :: "BaseOptionsV2 \<Rightarrow> SystemSpec \<Rightarrow> SearchdGenerator option" where
  "system_searchd base spec =
     do { searchd \<leftarrow> sys_Searchd spec;
          enabled \<leftarrow> ssd_Enabled searchd;
          img \<leftarrow> ssd_Image searchd;
          config \<leftarrow> ssd_Config searchd;
          port \<leftarrow> sdc_Port config;
          path \<leftarrow> sdc_DatabasePath config;
          size \<leftarrow> sdc_DatabaseStorageSize config;
          Some \<lparr>sdg_Base = base, sdg_Spec = searchd, sdg_Image = img, sdg_DatabasePort = port, sdg_DatabasePath = path,
            sdg_DatabaseStorageSize = size, sdg_DatabaseStorageClass = sdc_DatabaseStorageClass config, sdg_Enabled = enabled\<rparr> }"

definition system_console :: "BaseOptionsV2 \<Rightarrow> SystemSpec \<Rightarrow> ConsoleGenerator option" where
  "system_console base spec =
     do { console \<leftarrow> sys_Console spec;
          opts \<leftarrow> system_NewOptions spec;
          img \<leftarrow> sco_Image console;
          secret \<leftarrow> scf_ConfigFilesSecret (sys_Config spec);
          rails \<leftarrow> scf_Rails (sys_Config spec);
          enabled \<leftarrow> srs_Console rails;
          Some \<lparr>scg_Base = base, scg_Spec = console, scg_Options = opts, scg_Image = img, scg_ConfigFilesSecret = secret,
            scg_Enabled = enabled, scg_TwemproxySpec = sys_Twemproxy spec\<rparr> }"

text \<open>A canary is built from its resolved specification, without autoscaler and disruption budget.\<close>

definition resolve_system_canary ::
    "(SystemSpec, 'doc, 'patch) json_lib \<Rightarrow> globals \<Rightarrow> SystemSpec \<Rightarrow> Canary option \<Rightarrow> (SystemSpec \<Rightarrow> 'g option) \<Rightarrow> (globals \<times> 'g option) result" where
  "resolve_system_canary J g spec canary build =
     (case canary of
        None \<Rightarrow> Some (Inr (g, None))
      | Some c \<Rightarrow>
          do { r \<leftarrow> SystemSpec_ResolveCanarySpec J g spec c;
               case r of
                 Inl e \<Rightarrow> Some (Inl e)
               | Inr (g, canarySpec) \<Rightarrow> do { gen \<leftarrow> build canarySpec; Some (Inr (g, Some gen)) } })"

definition canary_app :: "BaseOptionsV2 \<Rightarrow> bool \<Rightarrow> SystemSpec \<Rightarrow> SystemAppGenerator option" where
  "canary_app base traffic canarySpec =
     map_option (\<lambda>gen. gen\<lparr>sag_Spec := (sag_Spec gen)\<lparr>sas_HPA := Some no_HorizontalPodAutoscalerSpec, sas_PDB := Some no_PodDisruptionBudgetSpec\<rparr>\<rparr>)
       (system_app base traffic canarySpec)"

definition canary_sidekiq ::
    "BaseOptionsV2 \<Rightarrow> (SystemSpec \<Rightarrow> SystemSidekiqSpec option) \<Rightarrow> SystemSpec \<Rightarrow> SidekiqGenerator option" where
  "canary_sidekiq base field canarySpec =
     map_option (\<lambda>gen. gen\<lparr>skg_Spec := (skg_Spec gen)\<lparr>sks_HPA := Some no_HorizontalPodAutoscalerSpec, sks_PDB := Some no_PodDisruptionBudgetSpec\<rparr>\<rparr>)
       (system_sidekiq base field canarySpec)"

definition system_tekton :: "string \<Rightarrow> string \<Rightarrow> globals \<Rightarrow> SystemSpec \<Rightarrow> SystemTektonTaskSpec \<Rightarrow> SystemTektonGenerator option" where
  "system_tekton instance namespace g spec task =
     do { name \<leftarrow> tts_Name task;
          config \<leftarrow> deref g (tts_Config task);
          img \<leftarrow> ttc_Image config;
          opts \<leftarrow> system_NewOptions spec;
          secret \<leftarrow> scf_ConfigFilesSecret (sys_Config spec);
          enabled \<leftarrow> tts_Enabled task;
          Some \<lparr>tkg_Base = system_base instance namespace name (''task-'' @ name), tkg_Spec = task, tkg_Options = opts, tkg_Image = img,
            tkg_ConfigFilesSecret = secret, tkg_TwemproxySpec = sys_Twemproxy spec, tkg_Enabled = enabled\<rparr> }"

definition System_NewGenerator ::
    "(SystemSpec, 'doc, 'patch) json_lib \<Rightarrow> string \<Rightarrow> string \<Rightarrow> globals \<Rightarrow> SystemSpec \<Rightarrow> (globals \<times> SystemGenerator) result" where
  "System_NewGenerator J instance namespace g spec =
     (let base = system_base instance namespace in
      do { app \<leftarrow> system_app (base ''system-app'' ''app'') True spec;
           sidekiqDefault \<leftarrow> system_sidekiq (base ''system-sidekiq-default'' ''sidekiq-default'') sys_SidekiqDefault spec;
           sidekiqBilling \<leftarrow> system_sidekiq (base ''system-sidekiq-billing'' ''sidekiq-billing'') sys_SidekiqBilling spec;
           sidekiqLow \<leftarrow> system_sidekiq (base ''system-sidekiq-low'' ''sidekiq-low'') sys_SidekiqLow spec;
           searchd \<leftarrow> system_searchd (base ''system-searchd'' ''searchd'') spec;
           console \<leftarrow> system_console (base ''system-console'' ''console'') spec;
           dashboard \<leftarrow> sys_GrafanaDashboard spec;
           secret \<leftarrow> scf_ConfigFilesSecret (sys_Config spec);
           opts \<leftarrow> system_NewOptions spec;
           r \<leftarrow> resolve_system_canary J g spec (sas_Canary (sag_Spec app)) (canary_app (base ''system-app-canary'' ''app-canary'')
                  (case sas_Canary (sag_Spec app) of None \<Rightarrow> False | Some c \<Rightarrow> can_SendTraffic c));
           case r of Inl e \<Rightarrow> Some (Inl e) | Inr (g, canaryApp) \<Rightarrow>
        do { r \<leftarrow> resolve_system_canary J g spec (sks_Canary (skg_Spec sidekiqDefault))
                  (canary_sidekiq (base ''system-sidekiq-default-canary'' ''sidekiq-default-canary'') sys_SidekiqDefault);
           case r of Inl e \<Rightarrow> Some (Inl e) | Inr (g, canaryDefault) \<Rightarrow>
        do { r \<leftarrow> resolve_system_canary J g spec (sks_Canary (skg_Spec sidekiqLow))
                  (canary_sidekiq (base ''system-sidekiq-low-canary'' ''sidekiq-low-canary'') sys_SidekiqLow);
           case r of Inl e \<Rightarrow> Some (Inl e) | Inr (g, canaryLow) \<Rightarrow>
        do { r \<leftarrow> resolve_system_canary J g spec (sks_Canary (skg_Spec sidekiqBilling))
                  (canary_sidekiq (base ''system-sidekiq-billing-canary'' ''sidekiq-billing-canary'') sys_SidekiqBilling);
           case r of Inl e \<Rightarrow> Some (Inl e) | Inr (g, canaryBilling) \<Rightarrow>
        do { tekton \<leftarrow> those (map (system_tekton instance namespace g spec) (sys_Tasks spec));
             Some (Inr (g,
               \<lparr>syg_Base = \<lparr>bo_Component = ''system'', bo_InstanceName = instance, bo_Namespace = namespace,
                  bo_Labels = [''app'' \<mapsto> ''3scale-api-management'', ''threescale_component'' \<mapsto> ''system'']\<rparr>,
                syg_App = app, syg_CanaryApp = canaryApp, syg_SidekiqDefault = sidekiqDefault, syg_CanarySidekiqDefault = canaryDefault,
                syg_SidekiqBilling = sidekiqBilling, syg_CanarySidekiqBilling = canaryBilling, syg_SidekiqLow = sidekiqLow,
                syg_CanarySidekiqLow = canaryLow, syg_Searchd = searchd, syg_Console = console, syg_Config = sys_Config spec,
                syg_GrafanaDashboardSpec = dashboard, syg_ConfigFilesSecret = secret, syg_Options = opts, syg_Tekton = tekton\<rparr>)) } } } } })"

record SystemResources =
  syr_Workloads :: "(DeploymentSpec, string) template list"
  syr_Searchd :: "(bool \<times> AppStatefulSet option) \<times> (bool \<times> Service option)"
  syr_Console :: "bool \<times> AppStatefulSet option"
  syr_ExternalSecrets :: "ExternalSecretResource list"
  syr_Dashboard :: "bool \<times> key \<times> labels \<times> string"
  syr_Tekton :: "(bool \<times> TektonTask option \<times> Pipeline option) list"

definition System_Resources :: "envoy_lib \<Rightarrow> config_iter \<Rightarrow> globals \<Rightarrow> SystemGenerator \<Rightarrow> SystemResources result" where
  "System_Resources L iter g gen =
     do { r \<leftarrow> Workload_New L iter (SystemApp_workload (syg_App gen)) (map_option SystemApp_workload (syg_CanaryApp gen));
          case r of Inl e \<Rightarrow> Some (Inl e) | Inr app \<Rightarrow>
     do { r \<leftarrow> Workload_New L iter (Sidekiq_workload (syg_SidekiqDefault gen)) (map_option Sidekiq_workload (syg_CanarySidekiqDefault gen));
          case r of Inl e \<Rightarrow> Some (Inl e) | Inr sidekiqDefault \<Rightarrow>
     do { r \<leftarrow> Workload_New L iter (Sidekiq_workload (syg_SidekiqBilling gen)) (map_option Sidekiq_workload (syg_CanarySidekiqBilling gen));
          case r of Inl e \<Rightarrow> Some (Inl e) | Inr sidekiqBilling \<Rightarrow>
     do { r \<leftarrow> Workload_New L iter (Sidekiq_workload (syg_SidekiqLow gen)) (map_option Sidekiq_workload (syg_CanarySidekiqLow gen));
          case r of Inl e \<Rightarrow> Some (Inl e) | Inr sidekiqLow \<Rightarrow>
     do { secrets \<leftarrow> external_secrets_of (syg_Base gen) (scf_ExternalSecret (syg_Config gen)) (syg_Options gen);
          Some (Inr
            \<lparr>syr_Workloads = app @ sidekiqDefault @ sidekiqBilling @ sidekiqLow,
             syr_Searchd = StatefulSetWithTraffic (syg_Searchd gen), syr_Console = Console_StatefulSet (syg_Console gen),
             syr_ExternalSecrets = secrets,
             syr_Dashboard = dashboard_of (syg_Base gen) (bo_Component (syg_Base gen)) (syg_GrafanaDashboardSpec gen)
               ''dashboards/system.json.gtpl'',
             syr_Tekton = map (\<lambda>t. (tkg_Enabled t, Tekton_task g t, Tekton_pipeline t)) (syg_Tekton gen)\<rparr>) } } } } }"

section \<open>The parts of a generator\<close>

lemma result_bindE:
  assumes "(m \<bind> (\<lambda>r. case r of Inl e \<Rightarrow> Some (Inl e) | Inr x \<Rightarrow> f x)) = Some (Inr y)"
  obtains x where "m = Some (Inr x)" "f x = Some (Inr y)"
proof -
  obtain r where r: "m = Some r" "(case r of Inl e \<Rightarrow> Some (Inl e) | Inr x \<Rightarrow> f x) = Some (Inr y)"
    using assms by (rule bind_SomeE) simp
  with that show thesis by (cases r) simp_all
qed

lemma canary_found:
  "resolve_system_canary J h spec c b = Some (Inr x) \<Longrightarrow> \<exists>h h'. resolve_system_canary J h spec c b = Some (Inr (h', snd x))"
  by (metis prod.collapse)

lemma System_NewGenerator_parts:
  assumes "System_NewGenerator J instance namespace g spec = Some (Inr (g', gen))"
  obtains
    "system_app (system_base instance namespace ''system-app'' ''app'') True spec = Some (syg_App gen)"
    "system_sidekiq (system_base instance namespace ''system-sidekiq-default'' ''sidekiq-default'') sys_SidekiqDefault spec = Some (syg_SidekiqDefault gen)"
    "system_sidekiq (system_base instance namespace ''system-sidekiq-billing'' ''sidekiq-billing'') sys_SidekiqBilling spec = Some (syg_SidekiqBilling gen)"
    "system_sidekiq (system_base instance namespace ''system-sidekiq-low'' ''sidekiq-low'') sys_SidekiqLow spec = Some (syg_SidekiqLow gen)"
    "system_searchd (system_base instance namespace ''system-searchd'' ''searchd'') spec = Some (syg_Searchd gen)"
    "system_console (system_base instance namespace ''system-console'' ''console'') spec = Some (syg_Console gen)"
    "system_NewOptions spec = Some (syg_Options gen)" "syg_Config gen = sys_Config spec"
    "\<exists>h h'. resolve_system_canary J h spec (sas_Canary (sag_Spec (syg_App gen)))
       (canary_app (system_base instance namespace ''system-app-canary'' ''app-canary'')
         (case sas_Canary (sag_Spec (syg_App gen)) of None \<Rightarrow> False | Some c \<Rightarrow> can_SendTraffic c)) = Some (Inr (h', syg_CanaryApp gen))"
    "\<exists>h h'. resolve_system_canary J h spec (sks_Canary (skg_Spec (syg_SidekiqDefault gen)))
       (canary_sidekiq (system_base instance namespace ''system-sidekiq-default-canary'' ''sidekiq-default-canary'') sys_SidekiqDefault) =
       Some (Inr (h', syg_CanarySidekiqDefault gen))"
    "\<exists>h h'. resolve_system_canary J h spec (sks_Canary (skg_Spec (syg_SidekiqLow gen)))
       (canary_sidekiq (system_base instance namespace ''system-sidekiq-low-canary'' ''sidekiq-low-canary'') sys_SidekiqLow) =
       Some (Inr (h', syg_CanarySidekiqLow gen))"
    "\<exists>h h'. resolve_system_canary J h spec (sks_Canary (skg_Spec (syg_SidekiqBilling gen)))
       (canary_sidekiq (system_base instance namespace ''system-sidekiq-billing-canary'' ''sidekiq-billing-canary'') sys_SidekiqBilling) =
       Some (Inr (h', syg_CanarySidekiqBilling gen))"
    "those (map (system_tekton instance namespace g' spec) (sys_Tasks spec)) = Some (syg_Tekton gen)"
  using assms unfolding System_NewGenerator_def Let_def split_def
  by (elim result_bindE bind_SomeE) (simp only: option.inject sum.inject prod.inject fst_conv snd_conv, elim conjE, hypsubst, rule that,
     simp_all, (erule canary_found)+)

lemma System_Resources_parts:
  assumes "System_Resources L iter g gen = Some (Inr r)"
  obtains app sd sb sl where "syr_Workloads r = app @ sd @ sb @ sl"
    "Workload_New L iter (SystemApp_workload (syg_App gen)) (map_option SystemApp_workload (syg_CanaryApp gen)) = Some (Inr app)"
    "Workload_New L iter (Sidekiq_workload (syg_SidekiqDefault gen)) (map_option Sidekiq_workload (syg_CanarySidekiqDefault gen)) = Some (Inr sd)"
    "Workload_New L iter (Sidekiq_workload (syg_SidekiqBilling gen)) (map_option Sidekiq_workload (syg_CanarySidekiqBilling gen)) = Some (Inr sb)"
    "Workload_New L iter (Sidekiq_workload (syg_SidekiqLow gen)) (map_option Sidekiq_workload (syg_CanarySidekiqLow gen)) = Some (Inr sl)"
    "external_secrets_of (syg_Base gen) (scf_ExternalSecret (syg_Config gen)) (syg_Options gen) = Some (syr_ExternalSecrets r)"
    "syr_Searchd r = StatefulSetWithTraffic (syg_Searchd gen)"
  using assms unfolding System_Resources_def
  by (elim result_bindE bind_SomeE) (simp only: option.inject sum.inject, rule that, auto)

lemma resolve_system_canaryE:
  assumes "resolve_system_canary J g spec canary build = Some (Inr (g', c))"
  obtains (none) "canary = None" "c = None" | (some) x canarySpec gen where "canary = Some x" "build canarySpec = Some gen" "c = Some gen"
proof (cases canary)
  case None
  with assms none show thesis by (simp add: resolve_system_canary_def)
next
  case (Some x)
  from assms have "(SystemSpec_ResolveCanarySpec J g spec x \<bind>
      (\<lambda>r. case r of Inl e \<Rightarrow> Some (Inl e) | Inr y \<Rightarrow> (case y of (g, canarySpec) \<Rightarrow> build canarySpec \<bind> (\<lambda>gen. Some (Inr (g, Some gen)))))) = Some (Inr (g', c))"
    by (simp add: resolve_system_canary_def Some)
  then show thesis
    by (rule result_bindE) (auto intro: some [OF Some] elim!: bind_SomeE split: prod.splits)
qed

lemma app_generators:
  "system_app base traffic spec = Some gen \<Longrightarrow> sag_Base gen = base \<and> sag_Traffic gen = traffic \<and> system_NewOptions spec = Some (sag_Options gen)
     \<and> sys_App spec = Some (sag_Spec gen)"
  "canary_app base traffic spec = Some gen \<Longrightarrow> sag_Base gen = base \<and> sag_Traffic gen = traffic"
  "system_sidekiq base field spec = Some sgen \<Longrightarrow> skg_Base sgen = base \<and> system_NewOptions spec = Some (skg_Options sgen) \<and> field spec = Some (skg_Spec sgen)"
  "canary_sidekiq base field spec = Some sgen \<Longrightarrow> skg_Base sgen = base"
  by (auto simp: system_app_def canary_app_def system_sidekiq_def canary_sidekiq_def elim!: bind_SomeE)

lemma searchd_base: "system_searchd base spec = Some gen \<Longrightarrow> sdg_Base gen = base"
  by (auto simp: system_searchd_def elim!: bind_SomeE)

section \<open>Traffic\<close>

lemma system_app_simps [simp]:
  "w_Key (SystemApp_workload gen) = GetKey (sag_Base gen)" "w_Selector (SystemApp_workload gen) = GetSelector (sag_Base gen)"
  "w_Canary (SystemApp_workload gen) = Some (sag_Traffic gen, [traffic_key \<mapsto> ''system-app''])"
  "traffic_of (SystemApp_workload gen) = [traffic_key \<mapsto> ''system-app'']" "sends_traffic (SystemApp_workload gen) = sag_Traffic gen"
  "w_Deployment (SystemApp_workload gen) = SystemApp_deployment gen"
  by (simp_all add: SystemApp_workload_def traffic_of_def sends_traffic_def)

lemma sidekiq_simps [simp]:
  "w_Key (Sidekiq_workload g) = GetKey (skg_Base g)" "w_Selector (Sidekiq_workload g) = GetSelector (skg_Base g)"
  "w_Labels (Sidekiq_workload g) = GetLabels (skg_Base g)" "w_Canary (Sidekiq_workload g) = None" "traffic_of (Sidekiq_workload g) = Map.empty"
  "w_Deployment (Sidekiq_workload g) = Sidekiq_deployment g"
  by (simp_all add: Sidekiq_workload_def traffic_of_def)

interpretation system_pair:
  routed_pair "SystemApp_workload (gen\<lparr>sag_Base := system_base instance namespace ''system-app'' ''app''\<rparr>)"
    "SystemApp_workload (cgen\<lparr>sag_Base := system_base instance namespace ''system-app-canary'' ''app-canary''\<rparr>)"
  for "instance" namespace gen cgen
proof
  have "GetSelector (system_base instance namespace ''system-app'' ''app'') PodSelectorKey = Some ''system-app''"
    "GetSelector (system_base instance namespace ''system-app-canary'' ''app-canary'') PodSelectorKey = Some ''system-app-canary''"
    by (simp_all add: GetSelector_def system_base_def)
  then show "\<exists>k v v'. w_Selector (SystemApp_workload (gen\<lparr>sag_Base := system_base instance namespace ''system-app'' ''app''\<rparr>)) k = Some v \<and>
      w_Selector (SystemApp_workload (cgen\<lparr>sag_Base := system_base instance namespace ''system-app-canary'' ''app-canary''\<rparr>)) k = Some v' \<and>
      v \<noteq> v' \<and> traffic_of (SystemApp_workload (gen\<lparr>sag_Base := system_base instance namespace ''system-app'' ''app''\<rparr>)) k = None"
    by - (rule exI [of _ PodSelectorKey], simp)
qed (simp_all add: identifiable_def GetSelector_def)

text \<open>The sidekiqs have no services and their pods no traffic label.\<close>

definition sidekiq_names :: "string set" where
  "sidekiq_names = {''system-sidekiq-default'', ''system-sidekiq-default-canary'', ''system-sidekiq-billing'', ''system-sidekiq-billing-canary'',
     ''system-sidekiq-low'', ''system-sidekiq-low-canary''}"

lemma sidekiq_deployment_labels: "Sidekiq_deployment gen = Some d0 \<Longrightarrow> orEmpty (dep_PodLabels d0) traffic_key = None"
  unfolding Sidekiq_deployment_def Let_def by (elim bind_SomeE) (rule twemproxy_no_traffic)

lemma sidekiq_built:
  assumes New: "Workload_New L iter (Sidekiq_workload gen) (map_option Sidekiq_workload canary) = Some (Inr ts)"
    and names: "\<forall>g\<in>insert gen (set_option canary). \<exists>c e. skg_Base g = system_base instance namespace c e \<and> c \<in> sidekiq_names"
  shows "OService s \<notin> built ts"
    and "ODeployment d \<in> built ts \<Longrightarrow> pod_labels d traffic_key = None \<and> pod_labels d PodSelectorKey = Some (dep_Name d) \<and> dep_Name d \<in> sidekiq_names"
proof -
  show "OService s \<notin> built ts"
    using built_New(5) [OF New, of s] by (auto simp: service_selector_def)
  assume "ODeployment d \<in> built ts"
  then obtain g d0 where g: "g \<in> insert gen (set_option canary)" "Sidekiq_deployment g = Some d0"
      "d = deployment_of (sidecars_of (Sidekiq_workload gen)) (Sidekiq_workload g) d0"
    by (cases canary) (auto simp: built_New(1) [OF New] workloads_def)
  obtain c e where c: "skg_Base g = system_base instance namespace c e" "c \<in> sidekiq_names"
    using names g(1) by blast
  have "GetLabels (system_base instance namespace c e) traffic_key = None" "GetSelector (system_base instance namespace c e) traffic_key = None"
    by (simp_all add: GetLabels_def GetSelector_def system_base_def traffic_key_def PodSelectorKey_def)
  then have "pod_labels d traffic_key = None"
    unfolding g(3) by (intro plain_workload_pods) (simp_all add: c(1) sidekiq_deployment_labels [OF g(2)])
  moreover have "pod_labels d PodSelectorKey = Some (dep_Name d)"
    unfolding g(3) by (subst pod_label_name) (simp_all)
  moreover have "dep_Name d \<in> sidekiq_names"
    unfolding g(3) by (simp add: GetKey_def c system_base_def)
  ultimately show "pod_labels d traffic_key = None \<and> pod_labels d PodSelectorKey = Some (dep_Name d) \<and> dep_Name d \<in> sidekiq_names" by blast
qed

definition app_receives :: "SystemSpec \<Rightarrow> string \<Rightarrow> bool" where
  "app_receives spec name \<longleftrightarrow> name = ''system-app'' \<or>
     name = ''system-app-canary'' \<and> (\<exists>app canary. sys_App spec = Some app \<and> sas_Canary app = Some canary \<and> can_SendTraffic canary)"

lemma app_service_selector:
  assumes "System_NewGenerator J instance namespace g spec = Some (Inr (g', gen))"
    and New: "Workload_New L iter (SystemApp_workload (syg_App gen)) (map_option SystemApp_workload (syg_CanaryApp gen)) = Some (Inr ts)"
    and s: "OService s \<in> built ts"
  shows "sv_Selector s traffic_key = Some ''system-app''"
proof -
  have "sag_Traffic (syg_App gen)"
    by (rule System_NewGenerator_parts [OF assms(1)]) (simp add: app_generators(1))
  then show ?thesis
    using built_New(5) [OF New s, symmetric]
    by (cases "syg_CanaryApp gen") (auto simp: service_selector_def trafficSwitcher_def enabled_selectors_def split: bool.splits)
qed

lemma app_routes:
  assumes gen: "System_NewGenerator J instance namespace g spec = Some (Inr (g', gen))"
    and New: "Workload_New L iter (SystemApp_workload (syg_App gen)) (map_option SystemApp_workload (syg_CanaryApp gen)) = Some (Inr ts)"
    and d: "ODeployment d \<in> built ts"
  shows "OService s \<in> built ts \<Longrightarrow> selects (sv_Selector s) (pod_labels d) \<longleftrightarrow> app_receives spec (dep_Name d)"
    and "pod_labels d PodSelectorKey = Some (dep_Name d)" "dep_Name d \<in> {''system-app'', ''system-app-canary''}"
proof -
  let ?main = "system_base instance namespace ''system-app'' ''app''" and ?canary = "system_base instance namespace ''system-app-canary'' ''app-canary''"
  obtain h h' where app: "system_app ?main True spec = Some (syg_App gen)"
    and canary: "resolve_system_canary J h spec (sas_Canary (sag_Spec (syg_App gen)))
       (canary_app ?canary (case sas_Canary (sag_Spec (syg_App gen)) of None \<Rightarrow> False | Some c \<Rightarrow> can_SendTraffic c)) = Some (Inr (h', syg_CanaryApp gen))"
    by (rule System_NewGenerator_parts [OF gen]) blast
  have main: "sag_Base (syg_App gen) = ?main" "sag_Traffic (syg_App gen)" "sys_App spec = Some (sag_Spec (syg_App gen))"
    using app_generators(1) [OF app] by simp_all
  then have eq: "(syg_App gen)\<lparr>sag_Base := ?main\<rparr> = syg_App gen" by simp
  have name: "fst (GetKey ?main) = ''system-app''" "fst (GetKey ?canary) = ''system-app-canary''"
    by (simp_all add: GetKey_def system_base_def)
  obtain w d0 where w: "w \<in> set (workloads (SystemApp_workload (syg_App gen)) (map_option SystemApp_workload (syg_CanaryApp gen)))"
      "d = deployment_of (sidecars_of (SystemApp_workload (syg_App gen))) w d0"
    using d by (auto simp: built_New(1) [OF New])
  have "(OService s \<in> built ts \<longrightarrow> selects (sv_Selector s) (pod_labels d) = app_receives spec (dep_Name d)) \<and>
      pod_labels d PodSelectorKey = Some (dep_Name d) \<and> dep_Name d \<in> {''system-app'', ''system-app-canary''}"
    using canary
  proof (cases rule: resolve_system_canaryE)
    case none
    then have w0: "w = SystemApp_workload (syg_App gen)" using w(1) by (simp add: workloads_def)
    have nm: "dep_Name d = ''system-app''" unfolding w(2) w0 by (simp add: main name)
    have "selects (sv_Selector s) (pod_labels d)" if "OService s \<in> built ts"
      using alone_routes [OF _ _ _ _ that d, of L iter "SystemApp_workload (syg_App gen)" "[traffic_key \<mapsto> ''system-app'']"] New none main
      by (simp add: identifiable_def GetSelector_def)
    moreover have "pod_labels d PodSelectorKey = Some (dep_Name d)"
      unfolding w(2) w0 by (subst pod_label_name) simp_all
    ultimately show ?thesis using nm by (simp add: app_receives_def)
  next
    case (some c canarySpec cgen)
    have cg: "sag_Base cgen = ?canary" "sag_Traffic cgen = can_SendTraffic c"
      using app_generators(2) [OF some(2)] some(1) by simp_all
    then have ceq: "cgen\<lparr>sag_Base := ?canary\<rparr> = cgen" by simp
    have New': "Workload_New L iter (SystemApp_workload ((syg_App gen)\<lparr>sag_Base := ?main\<rparr>)) (Some (SystemApp_workload (cgen\<lparr>sag_Base := ?canary\<rparr>))) =
        Some (Inr ts)"
      using New some(3) by (simp only: eq ceq option.map)
    have ne: "fst (w_Key (SystemApp_workload ((syg_App gen)\<lparr>sag_Base := ?main\<rparr>))) \<noteq> fst (w_Key (SystemApp_workload (cgen\<lparr>sag_Base := ?canary\<rparr>)))"
      by (simp add: name)
    have w0: "w = SystemApp_workload (syg_App gen) \<or> w = SystemApp_workload cgen"
      using w(1) some(3) by (auto simp: workloads_def)
    then have nm: "dep_Name d \<in> {''system-app'', ''system-app-canary''}" unfolding w(2) using main cg name by (elim disjE) simp_all
    have lab: "pod_labels d PodSelectorKey = Some (dep_Name d)"
      unfolding w(2) using w0 by (elim disjE; simp) (subst pod_label_name; simp)+
    have "selects (sv_Selector s) (pod_labels d) = app_receives spec (dep_Name d)" if s: "OService s \<in> built ts"
      using system_pair.New_routes_by_name [OF New' ne s d, unfolded eq ceq]
      using some(1) main cg name by (simp add: app_receives_def)
    with nm lab show ?thesis by blast
  qed
  then show "OService s \<in> built ts \<Longrightarrow> selects (sv_Selector s) (pod_labels d) \<longleftrightarrow> app_receives spec (dep_Name d)"
    "pod_labels d PodSelectorKey = Some (dep_Name d)" "dep_Name d \<in> {''system-app'', ''system-app-canary''}" by blast+
qed

lemma sidekiq_bases:
  assumes "system_sidekiq (system_base instance namespace c e) field spec = Some gen" "c \<in> sidekiq_names"
    and "\<exists>h h'. resolve_system_canary J h spec x (canary_sidekiq (system_base instance namespace c' e') field) = Some (Inr (h', canary))"
    and "c' \<in> sidekiq_names"
  shows "\<forall>g\<in>insert gen (set_option canary). \<exists>c e. skg_Base g = system_base instance namespace c e \<and> c \<in> sidekiq_names"
proof -
  have "\<exists>c e. skg_Base g = system_base instance namespace c e \<and> c \<in> sidekiq_names" if "canary = Some g" for g
  proof -
    obtain h h' where "resolve_system_canary J h spec x (canary_sidekiq (system_base instance namespace c' e') field) = Some (Inr (h', Some g))"
      using assms(3) \<open>canary = Some g\<close> by blast
    then have "\<exists>canarySpec. canary_sidekiq (system_base instance namespace c' e') field canarySpec = Some g"
      by (rule resolve_system_canaryE) auto
    with assms(4) app_generators(4) show ?thesis by blast
  qed
  moreover have "skg_Base gen = system_base instance namespace c e"
    using app_generators(3) [OF assms(1)] by blast
  ultimately show ?thesis using assms(2) by auto
qed

lemma sidekiqs_built:
  assumes gen: "System_NewGenerator J instance namespace g spec = Some (Inr (g', gen))"
    and ts: "Workload_New L iter (Sidekiq_workload (syg_SidekiqDefault gen)) (map_option Sidekiq_workload (syg_CanarySidekiqDefault gen)) = Some (Inr sd)"
      "Workload_New L iter (Sidekiq_workload (syg_SidekiqBilling gen)) (map_option Sidekiq_workload (syg_CanarySidekiqBilling gen)) = Some (Inr sb)"
      "Workload_New L iter (Sidekiq_workload (syg_SidekiqLow gen)) (map_option Sidekiq_workload (syg_CanarySidekiqLow gen)) = Some (Inr sl)"
  shows "OService s \<notin> built (sd @ sb @ sl)"
    and "ODeployment d \<in> built (sd @ sb @ sl) \<Longrightarrow>
      pod_labels d traffic_key = None \<and> pod_labels d PodSelectorKey = Some (dep_Name d) \<and> dep_Name d \<in> sidekiq_names"
proof -
  have in_names: "''system-sidekiq-default'' \<in> sidekiq_names" "''system-sidekiq-default-canary'' \<in> sidekiq_names"
      "''system-sidekiq-billing'' \<in> sidekiq_names" "''system-sidekiq-billing-canary'' \<in> sidekiq_names"
      "''system-sidekiq-low'' \<in> sidekiq_names" "''system-sidekiq-low-canary'' \<in> sidekiq_names"
    by (simp_all add: sidekiq_names_def)
  note parts = System_NewGenerator_parts [OF gen]
  have b: "\<forall>g\<in>insert (syg_SidekiqDefault gen) (set_option (syg_CanarySidekiqDefault gen)). \<exists>c e. skg_Base g = system_base instance namespace c e \<and> c \<in> sidekiq_names"
    by (rule parts) (rule sidekiq_bases [OF _ in_names(1) _ in_names(2)])
  have b2: "\<forall>g\<in>insert (syg_SidekiqBilling gen) (set_option (syg_CanarySidekiqBilling gen)). \<exists>c e. skg_Base g = system_base instance namespace c e \<and> c \<in> sidekiq_names"
    by (rule parts) (rule sidekiq_bases [OF _ in_names(3) _ in_names(4)])
  have b3: "\<forall>g\<in>insert (syg_SidekiqLow gen) (set_option (syg_CanarySidekiqLow gen)). \<exists>c e. skg_Base g = system_base instance namespace c e \<and> c \<in> sidekiq_names"
    by (rule parts) (rule sidekiq_bases [OF _ in_names(5) _ in_names(6)])
  show "OService s \<notin> built (sd @ sb @ sl)"
    using sidekiq_built(1) [OF ts(1) b] sidekiq_built(1) [OF ts(2) b2] sidekiq_built(1) [OF ts(3) b3] by (simp only: built_simps Un_iff simp_thms)
  show "ODeployment d \<in> built (sd @ sb @ sl) \<Longrightarrow>
      pod_labels d traffic_key = None \<and> pod_labels d PodSelectorKey = Some (dep_Name d) \<and> dep_Name d \<in> sidekiq_names"
    unfolding built_simps Un_iff
    by (elim disjE) (rule sidekiq_built(2) [OF ts(1) b] sidekiq_built(2) [OF ts(2) b2] sidekiq_built(2) [OF ts(3) b3]; assumption)+
qed

text \<open>
  C16. Traffic of System: a service of the application selects the pods of the application, and those of
  its canary exactly when the canary is set to send traffic; it selects no pods of a sidekiq or of its
  canary. The service of the search daemon selects the pods of its stateful set and of none of the deployments.
\<close>

theorem System_traffic:
  assumes "System_NewGenerator J instance namespace g spec = Some (Inr (g', gen))" "System_Resources L iter h gen = Some (Inr r)"
    and "ODeployment d \<in> built (syr_Workloads r)"
  shows "(OService s \<in> built (syr_Workloads r) \<longrightarrow> (selects (sv_Selector s) (pod_labels d) \<longleftrightarrow> app_receives spec (dep_Name d))) \<and>
    (snd (snd (syr_Searchd r)) = Some svc \<longrightarrow> \<not> selects (sv_Selector svc) (pod_labels d) \<and>
       (\<forall>sts. snd (fst (syr_Searchd r)) = Some sts \<longrightarrow> selects (sv_Selector svc) (orEmpty (sss_PodLabels sts))))"
proof -
  obtain app sd sb sl where ts: "syr_Workloads r = app @ sd @ sb @ sl"
    and New: "Workload_New L iter (SystemApp_workload (syg_App gen)) (map_option SystemApp_workload (syg_CanaryApp gen)) = Some (Inr app)"
      "Workload_New L iter (Sidekiq_workload (syg_SidekiqDefault gen)) (map_option Sidekiq_workload (syg_CanarySidekiqDefault gen)) = Some (Inr sd)"
      "Workload_New L iter (Sidekiq_workload (syg_SidekiqBilling gen)) (map_option Sidekiq_workload (syg_CanarySidekiqBilling gen)) = Some (Inr sb)"
      "Workload_New L iter (Sidekiq_workload (syg_SidekiqLow gen)) (map_option Sidekiq_workload (syg_CanarySidekiqLow gen)) = Some (Inr sl)"
    and searchd: "syr_Searchd r = StatefulSetWithTraffic (syg_Searchd gen)"
    by (rule System_Resources_parts [OF assms(2)])
  note sidekiqs = sidekiqs_built [OF assms(1) New(2-4)]
  have s: "OService s \<in> built app" if "OService s \<in> built (syr_Workloads r)"
    using that sidekiqs(1) [of s] unfolding ts by (simp only: built_simps Un_iff simp_thms)
  consider (app) "ODeployment d \<in> built app" | (sidekiq) "ODeployment d \<in> built (sd @ sb @ sl)"
    using assms(3) unfolding ts by (auto simp only: built_simps Un_iff)
  then have "(OService s \<in> built (syr_Workloads r) \<longrightarrow> (selects (sv_Selector s) (pod_labels d) \<longleftrightarrow> app_receives spec (dep_Name d))) \<and>
      pod_labels d PodSelectorKey = Some (dep_Name d) \<and> dep_Name d \<noteq> ''system-searchd''"
  proof cases
    case app
    note a = app_routes [OF assms(1) New(1) app]
    have "dep_Name d \<noteq> ''system-searchd''" using a(3) by auto
    with a(1) [of s] a(2) s show ?thesis by blast
  next
    case sidekiq
    note k = sidekiqs(2) [OF sidekiq]
    have "\<not> selects (sv_Selector s) (pod_labels d)" if "OService s \<in> built (syr_Workloads r)"
      using app_service_selector [OF assms(1) New(1) s [OF that]] k by (auto simp: selects_def map_le_def dom_def)
    moreover have "\<not> app_receives spec n \<and> n \<noteq> ''system-searchd''" if "n \<in> sidekiq_names" for n
      using that by (auto simp: sidekiq_names_def app_receives_def)
    ultimately show ?thesis using k by blast
  qed
  moreover have "\<not> selects (sv_Selector svc) (pod_labels d) \<and>
      (\<forall>sts. snd (fst (syr_Searchd r)) = Some sts \<longrightarrow> selects (sv_Selector svc) (orEmpty (sss_PodLabels sts)))"
    if "pod_labels d PodSelectorKey = Some (dep_Name d)" "dep_Name d \<noteq> ''system-searchd''" "snd (snd (syr_Searchd r)) = Some svc"
  proof -
    have base: "sdg_Base (syg_Searchd gen) = system_base instance namespace ''system-searchd'' ''searchd''"
      by (rule System_NewGenerator_parts [OF assms(1)]) (rule searchd_base)
    have sel: "sv_Selector svc = [PodSelectorKey \<mapsto> ''system-searchd'']"
      using that(3) by (auto simp: searchd StatefulSetWithTraffic_def Searchd_service_def GetSelector_def base system_base_def elim!: bind_SomeE)
    have "\<not> selects (sv_Selector svc) (pod_labels d)"
      unfolding sel using that(1,2) by (simp add: selects_def map_le_def)
    moreover have "selects (sv_Selector svc) (orEmpty (sss_PodLabels sts))" if "snd (fst (syr_Searchd r)) = Some sts" for sts
    proof -
      have "sss_PodLabels sts = Some (mergeMaps Map.empty [GetLabels (sdg_Base (syg_Searchd gen)), GetSelector (sdg_Base (syg_Searchd gen))])"
        using that by (auto simp: searchd StatefulSetWithTraffic_def Searchd_statefulset_def Let_def app_statefulset_def elim!: bind_SomeE)
      then show ?thesis
        unfolding sel by (simp add: orEmpty_def base GetSelector_def system_base_def selects_def map_le_def)
    qed
    ultimately show ?thesis by blast
  qed
  ultimately show ?thesis by blast
qed

section \<open>Secrets\<close>

definition system_refs :: "SystemConfig \<Rightarrow> SecretReference set" where
  "system_refs cfg =
     {scf_DatabaseDSN cfg, scf_EventsSharedSecret cfg, rec_PublicKey (scf_Recaptcha cfg), rec_PrivateKey (scf_Recaptcha cfg),
      scf_SecretKeyBase cfg, seg_DeletionToken (scf_Segment cfg), seg_WriteKey (scf_Segment cfg), gh_ClientID (scf_Github cfg),
      gh_ClientSecret (scf_Github cfg), rh_ClientID (scf_RedHatCustomerPortal cfg), rh_ClientSecret (scf_RedHatCustomerPortal cfg),
      scf_DatabaseSecret cfg, smtp_User (scf_SMTP cfg), smtp_Password (scf_SMTP cfg), scf_MappingServiceAccessToken cfg,
      szy_AuthToken (scf_Zync cfg), sbe_InternalAPIUser (scf_Backend cfg), sbe_InternalAPIPassword (scf_Backend cfg),
      as_AccessKey (scf_Assets cfg), as_SecretKey (scf_Assets cfg)} \<union> set_option (scf_AccessCode cfg) \<union> bs_APIKey ` set_option (scf_Bugsnag cfg)"

lemma system_secret_names [simp]:
  "SystemDatabaseSecret \<noteq> DefaultSeedSecret" "SystemRecaptchaSecret \<noteq> DefaultSeedSecret" "SystemEventsHookSecret \<noteq> DefaultSeedSecret"
  "SystemSmptSecret \<noteq> DefaultSeedSecret" "SystemMasterApicastSecret \<noteq> DefaultSeedSecret" "SystemZyncSecret \<noteq> DefaultSeedSecret"
  "SystemBackendSecret \<noteq> DefaultSeedSecret" "SystemMultitenantAssetsS3Secret \<noteq> DefaultSeedSecret" "SystemAppSecret \<noteq> DefaultSeedSecret"
  by (simp_all add: system_secrets DefaultSeedSecret_def)

lemma all_rows_ok:
  assumes "\<forall>r\<in>system_refs cfg. complete_ref r" "scf_Bugsnag cfg = Some bugsnag"
  shows "\<forall>row\<in>set (all_rows cfg rails bugsnag). row_ok row"
proof -
  have "\<forall>row\<in>set (system_rows cfg rails bugsnag). row_ok row"
    using assms by (simp add: system_rows_def system_refs_def row_ok_simps bugsnag_row)
  moreover have "\<forall>row\<in>set (apicast_endpoint_rows a). row_ok row" for a
    by (simp add: apicast_endpoint_rows_def row_ok_simps)
  ultimately show ?thesis
    unfolding all_rows_def by (cases "scf_Apicast cfg") auto
qed

lemma all_rows_distinct: "distinct (map fst (all_rows cfg rails bugsnag))"
proof -
  have "map fst (all_rows cfg rails bugsnag) = map fst (system_rows cfg rails bugsnag @ (if scf_Apicast cfg = None then [] else apicast_endpoint_rows undefined))"
    by (auto simp: all_rows_def apicast_endpoint_rows_def split: option.split)
  moreover have "distinct (map fst (system_rows cfg rails bugsnag @ apicast_endpoint_rows a))" for a
    unfolding system_rows_def apicast_endpoint_rows_def map_append list.map fst_conv append.simps by code_simp
  ultimately show ?thesis
    by (simp split: if_splits)
qed

lemma all_rows_total: "add_options (all_rows cfg rails bugsnag) \<noteq> None"
proof -
  have "\<forall>(e, c, v)\<in>set (system_rows cfg rails bugsnag). Unpack v (c (new_option e)) \<noteq> None"
    by (simp add: system_rows_def Text_total Secret_total bool_total bugsnag_row system_secrets del: not_None_eq)
  moreover have "\<forall>(e, c, v)\<in>set (apicast_endpoint_rows a). Unpack v (c (new_option e)) \<noteq> None" for a
    by (simp add: apicast_endpoint_rows_def Text_total del: not_None_eq)
  ultimately show ?thesis
    unfolding add_options_None all_rows_def by (cases "scf_Apicast cfg") fastforce+
qed

lemma console_base: "system_console base spec = Some gen \<Longrightarrow> system_NewOptions spec = Some (scg_Options gen)"
  by (auto simp: system_console_def elim!: bind_SomeE)

lemma tekton_options: "system_tekton instance namespace g spec task = Some gen \<Longrightarrow> system_NewOptions spec = Some (tkg_Options gen)"
  by (auto simp: system_tekton_def elim!: bind_SomeE)

lemma options_of:
  "system_app base b spec = Some a \<Longrightarrow> system_NewOptions spec = Some opts \<Longrightarrow> sag_Options a = opts"
  "system_sidekiq base f spec = Some k \<Longrightarrow> system_NewOptions spec = Some opts \<Longrightarrow> skg_Options k = opts"
  "system_console base spec = Some c \<Longrightarrow> system_NewOptions spec = Some opts \<Longrightarrow> scg_Options c = opts"
  using app_generators(1,3) console_base by force+

text \<open>The components and the tasks share the options of the specification.\<close>

definition component_options :: "SystemGenerator \<Rightarrow> Options set" where
  "component_options gen = {sag_Options (syg_App gen), skg_Options (syg_SidekiqDefault gen), skg_Options (syg_SidekiqBilling gen),
     skg_Options (syg_SidekiqLow gen), scg_Options (syg_Console gen)} \<union> tkg_Options ` set (syg_Tekton gen)"

lemma same_options:
  assumes "System_NewGenerator J instance namespace g spec = Some (Inr (g', gen))"
  shows "component_options gen = {syg_Options gen}" "system_NewOptions spec = Some (syg_Options gen)" "syg_Config gen = sys_Config spec"
proof -
  note parts = System_NewGenerator_parts [OF assms]
  show opts: "system_NewOptions spec = Some (syg_Options gen)" by (rule parts)
  show "syg_Config gen = sys_Config spec" by (rule parts)
  have "sag_Options (syg_App gen) = syg_Options gen" by (rule parts) (erule options_of(1), assumption)
  moreover have "skg_Options (syg_SidekiqDefault gen) = syg_Options gen" by (rule parts) (erule options_of(2), assumption)
  moreover have "skg_Options (syg_SidekiqBilling gen) = syg_Options gen" by (rule parts) (erule options_of(2), assumption)
  moreover have "skg_Options (syg_SidekiqLow gen) = syg_Options gen" by (rule parts) (erule options_of(2), assumption)
  moreover have "scg_Options (syg_Console gen) = syg_Options gen" by (rule parts) (erule options_of(3), assumption)
  moreover have "tkg_Options t = syg_Options gen" if "t \<in> set (syg_Tekton gen)" for t
  proof -
    have "those (map (system_tekton instance namespace g' spec) (sys_Tasks spec)) = Some (syg_Tekton gen)" by (rule parts)
    from set_those [OF this] have "Some t \<in> system_tekton instance namespace g' spec ` set (sys_Tasks spec)"
      using that by simp
    then obtain task where "system_tekton instance namespace g' spec task = Some t" by (metis imageE)
    from tekton_options [OF this] opts show ?thesis by simp
  qed
  ultimately show "component_options gen = {syg_Options gen}"
    by (auto simp: component_options_def)
qed


section \<open>Defaults suffice\<close>

lemma system_complete [simp]:
  "complete_image systemDefaultImage" "complete_image systemDefaultSearchdImage" "complete_probe systemDefaultAppLivenessProbe"
  "complete_probe systemDefaultAppReadinessProbe" "complete_probe systemDefaultSidekiqLivenessProbe" "complete_probe systemDefaultSearchdLivenessProbe"
  "complete_probe systemDefaultSearchdReadinessProbe"
  by (simp_all add: complete_image_def complete_probe_def systemDefaultImage_def systemDefaultSearchdImage_def systemDefaultAppLivenessProbe_def
      systemDefaultAppReadinessProbe_def systemDefaultSidekiqLivenessProbe_def systemDefaultSearchdLivenessProbe_def
      systemDefaultSearchdReadinessProbe_def)

lemma complete_params: "complete_image img \<Longrightarrow> image_params img \<noteq> None"
  by (auto simp: complete_image_def image_params_def)

lemma system_app_deployment_defaulted:
  assumes "sag_Spec gen = SystemAppSpec_Default s" "complete_image (sag_Image gen)" "sag_TwemproxySpec gen = map_option TwemproxySpec_Default tw"
  shows "SystemApp_deployment gen \<noteq> None"
  using assms complete_Image [OF assms(2)] with_twemproxy_defaulted
  by (simp add: SystemApp_deployment_def SystemAppSpec_Default_def HTTPProbeWithHeaders_eq probes_eta complete_init Let_def bind_eq_None_conv
      del: not_None_eq)

lemma sidekiq_deployment_defaulted:
  assumes "skg_Spec gen = SystemSidekiqSpec_Default t s" "complete_image (skg_Image gen)" "skg_TwemproxySpec gen = map_option TwemproxySpec_Default tw"
  shows "Sidekiq_deployment gen \<noteq> None"
proof -
  have "skc_MaxThreads (SidekiqConfig_Default d c) \<noteq> None" for d c
    by (simp add: SidekiqConfig_Default_def orDefault_def del: not_None_eq)
  then show ?thesis
    using assms complete_Image [OF assms(2)] with_twemproxy_defaulted
    by (simp add: Sidekiq_deployment_def SystemSidekiqSpec_Default_def probes_eta complete_init Let_def bind_eq_None_conv del: not_None_eq)
qed

lemma searchd_defaulted:
  assumes "sys_Searchd spec = Some (SystemSearchdSpec_Default s)"
  obtains gen where "system_searchd base spec = Some gen" "Searchd_statefulset gen \<noteq> None" "Searchd_service gen \<noteq> None"
proof -
  have cfg: "sdc_Port (SearchdConfig_Default c) \<noteq> None" "sdc_DatabasePath (SearchdConfig_Default c) \<noteq> None"
      "sdc_DatabaseStorageSize (SearchdConfig_Default c) \<noteq> None" "sdc_ServiceName (SearchdConfig_Default c) \<noteq> None" for c
    by (simp_all add: SearchdConfig_Default_def orDefault_def split: option.split del: not_None_eq)
  have "ssd_Enabled (SystemSearchdSpec_Default s) \<noteq> None"
    by (simp add: SystemSearchdSpec_Default_def orDefault_def del: not_None_eq)
  moreover obtain c where c: "ssd_Config (SystemSearchdSpec_Default s) = Some (SearchdConfig_Default c)"
    by (simp add: SystemSearchdSpec_Default_def)
  moreover have img: "ssd_Image (SystemSearchdSpec_Default s) = Some (InitializeImageSpec (ssd_Image s) systemDefaultSearchdImage)"
    by (simp add: SystemSearchdSpec_Default_def)
  ultimately have "system_searchd base spec \<noteq> None"
    using assms cfg [of c] by (simp add: system_searchd_def bind_eq_None_conv del: not_None_eq)
  then obtain gen where gen: "system_searchd base spec = Some gen" by blast
  then have gs: "sdg_Spec gen = SystemSearchdSpec_Default s" "sdg_Image gen = InitializeImageSpec (ssd_Image s) systemDefaultSearchdImage"
    using assms img by (auto simp: system_searchd_def elim!: bind_SomeE)
  have "Searchd_statefulset gen \<noteq> None"
    using complete_Image [OF init_complete [of systemDefaultSearchdImage]]
    by (simp add: Searchd_statefulset_def gs SystemSearchdSpec_Default_def probes_eta complete_init Let_def bind_eq_None_conv del: not_None_eq)
  moreover have "Searchd_service gen \<noteq> None"
    using cfg by (simp add: Searchd_service_def gs SystemSearchdSpec_Default_def bind_eq_None_conv del: not_None_eq)
  ultimately show thesis using that gen by blast
qed

lemma console_defaulted:
  assumes "sys_Console spec = Some (SystemRailsConsoleSpec_Default img s)" "complete_image img" "system_NewOptions spec \<noteq> None"
    and "sys_Config spec = SystemConfig_Default c" "sys_Twemproxy spec = map_option TwemproxySpec_Default tw"
  obtains gen where "system_console base spec = Some gen" "Console_statefulset gen \<noteq> None"
proof -
  have rails: "srs_Console (SystemRailsSpec_Default x) \<noteq> None" for x
    by (simp add: SystemRailsSpec_Default_def orDefault_def del: not_None_eq)
  have "scf_ConfigFilesSecret (SystemConfig_Default c) \<noteq> None"
    by (simp add: SystemConfig_Default_def orDefault_def del: not_None_eq)
  moreover obtain x where "scf_Rails (SystemConfig_Default c) = Some (SystemRailsSpec_Default x)"
    by (simp add: SystemConfig_Default_def)
  ultimately have "system_console base spec \<noteq> None"
    using assms rails by (simp add: system_console_def SystemRailsConsoleSpec_Default_def bind_eq_None_conv del: not_None_eq)
  then obtain gen where gen: "system_console base spec = Some gen" by blast
  then have gs: "scg_Spec gen = SystemRailsConsoleSpec_Default img s" "scg_Image gen = InitializeImageSpec (sco_Image s) img"
      "scg_TwemproxySpec gen = map_option TwemproxySpec_Default tw"
    using assms(1,5) by (auto simp: system_console_def SystemRailsConsoleSpec_Default_def elim!: bind_SomeE)
  have "AddTwemproxySidecar t (TwemproxySpec_Default x) \<noteq> None" for t x
    using TwemproxyContainer_defaulted [of x] by (simp add: AddTwemproxySidecar_def bind_eq_None_conv split: prod.split del: not_None_eq)
  then have "Console_statefulset gen \<noteq> None"
    using complete_Image [OF init_complete [OF assms(2)]]
    by (simp add: Console_statefulset_def gs SystemRailsConsoleSpec_Default_def Let_def bind_eq_None_conv split: option.split del: not_None_eq)
  with that gen show thesis by blast
qed

lemma tekton_defaulted:
  assumes "defaulted_task img g0 g t0 t" "tts_Name t0 \<noteq> None" "complete_image img" "system_NewOptions spec \<noteq> None"
    and "sys_Config spec = SystemConfig_Default c" "sys_Twemproxy spec = map_option TwemproxySpec_Default tw"
  obtains gen where "system_tekton instance namespace g spec t = Some gen" "Tekton_task g gen \<noteq> None" "Tekton_pipeline gen \<noteq> None"
proof -
  obtain cfg i where d: "deref g (tts_Config t) = Some cfg" "ttc_Image cfg = Some i" "complete_image i"
    using assms(1,3) init_complete by (auto simp: defaulted_task_def SystemTektonTaskConfig_Default_def)
  have t: "tts_Name t \<noteq> None" "tts_Enabled t \<noteq> None" "tts_Resources t \<noteq> None" "tts_Description t \<noteq> None"
    using assms(1,2) by (simp_all add: defaulted_task_def del: not_None_eq)
  have "scf_ConfigFilesSecret (SystemConfig_Default c) \<noteq> None"
    by (simp add: SystemConfig_Default_def orDefault_def del: not_None_eq)
  then have "system_tekton instance namespace g spec t \<noteq> None"
    using assms(4,5) d t by (simp add: system_tekton_def bind_eq_None_conv del: not_None_eq)
  then obtain gen where gen: "system_tekton instance namespace g spec t = Some gen" by blast
  then have gs: "tkg_Spec gen = t" "tkg_Image gen = i" "tkg_TwemproxySpec gen = map_option TwemproxySpec_Default tw"
    using d assms(6) by (auto simp: system_tekton_def elim!: bind_SomeE)
  have "AddTwemproxyTaskSidecar ts (TwemproxySpec_Default x) \<noteq> None" for ts x
    using TwemproxyContainer_defaulted [of x] by (simp add: AddTwemproxyTaskSidecar_def bind_eq_None_conv del: not_None_eq)
  then have "Tekton_task g gen \<noteq> None"
    using complete_params [OF d(3)] d(1) t
    by (simp add: Tekton_task_def gs Let_def bind_eq_None_conv split: option.split del: not_None_eq)
  moreover have "Tekton_pipeline gen \<noteq> None"
    using complete_params [OF d(3)] t by (simp add: Tekton_pipeline_def gs bind_eq_None_conv del: not_None_eq)
  ultimately show thesis using that gen by blast
qed

text \<open>What the components take from a defaulted specification.\<close>

definition system_defaulted :: "SystemSpec \<Rightarrow> ImageSpec \<Rightarrow> bool" where
  "system_defaulted spec img \<longleftrightarrow> sys_Image spec = Some img \<and> complete_image img \<and> (\<exists>c. sys_Config spec = SystemConfig_Default c) \<and>
     (\<exists>tw. sys_Twemproxy spec = map_option TwemproxySpec_Default tw)"

lemma system_defaulted_options: "system_defaulted spec img \<Longrightarrow> system_NewOptions spec \<noteq> None"
  using all_rows_total
  by (auto simp: system_defaulted_def system_NewOptions_def SystemConfig_Default_def bind_eq_None_conv simp del: not_None_eq split: option.splits)

lemma system_defaulted_secret: "system_defaulted spec img \<Longrightarrow> scf_ConfigFilesSecret (sys_Config spec) \<noteq> None"
  by (auto simp: system_defaulted_def SystemConfig_Default_def orDefault_def simp del: not_None_eq)

lemma sidekiq_part:
  assumes "system_defaulted spec img" "field spec = Some (SystemSidekiqSpec_Default t s)"
  obtains gen ts where "system_sidekiq base field spec = Some gen" "sks_Canary (skg_Spec gen) = sks_Canary s"
    "builds L iter (Sidekiq_workload gen) ts" "fst (w_Key (Sidekiq_workload gen)) = bo_Component base" "{s. OService s \<in> built ts} = {}"
proof -
  obtain opts secret where "system_NewOptions spec = Some opts" "scf_ConfigFilesSecret (sys_Config spec) = Some secret"
    using system_defaulted_options [OF assms(1)] system_defaulted_secret [OF assms(1)] by blast
  then obtain gen where gen: "system_sidekiq base field spec = Some gen" "skg_Spec gen = SystemSidekiqSpec_Default t s" "skg_Image gen = img"
      "skg_TwemproxySpec gen = sys_Twemproxy spec" "skg_Base gen = base"
    using assms by (simp add: system_sidekiq_def system_defaulted_def)
  obtain tw where tw: "sys_Twemproxy spec = map_option TwemproxySpec_Default tw" and img: "complete_image img"
    using assms(1) by (auto simp: system_defaulted_def)
  have "Sidekiq_deployment gen \<noteq> None"
    by (rule sidekiq_deployment_defaulted [OF gen(2)]) (simp_all add: gen(3,4) img tw)
  then have all: "\<forall>w\<in>set (workloads (Sidekiq_workload gen) None). has_specs w \<and> w_Deployment w \<noteq> None"
    by (simp add: workloads_def has_specs_def Sidekiq_workload_def [of gen] gen(2) SystemSidekiqSpec_Default_def)
  have ps: "\<forall>e. w_PublishingStrategies (Sidekiq_workload gen) \<noteq> Some (Inl e)" "strategies_of (Sidekiq_workload gen) = simple_defaults []"
    by (simp_all add: Sidekiq_workload_def strategies_of_def simple_defaults_def)
  show thesis
    by (rule default_New [OF all ps disjI1 [OF refl], of L iter]) (rule that [OF gen(1) _ buildsI]; use all in \<open>simp add: gen(2,5) workloads_def GetKey_def SystemSidekiqSpec_Default_def\<close>)
qed

lemma app_part:
  assumes "system_defaulted spec img" "sys_App spec = Some (SystemAppSpec_Default s)" "sas_PublishingStrategies s = None"
  obtains gen ts where "system_app base True spec = Some gen" "sas_Canary (sag_Spec gen) = sas_Canary s"
    "builds L iter (SystemApp_workload gen) ts" "fst (w_Key (SystemApp_workload gen)) = bo_Component base"
    "sv_Name ` {s. OService s \<in> built ts} = {bo_Component base @ ''-http-svc''}"
proof -
  obtain opts secret where "system_NewOptions spec = Some opts" "scf_ConfigFilesSecret (sys_Config spec) = Some secret"
    using system_defaulted_options [OF assms(1)] system_defaulted_secret [OF assms(1)] by blast
  then obtain gen where gen: "system_app base True spec = Some gen" "sag_Spec gen = SystemAppSpec_Default s" "sag_Image gen = img"
      "sag_TwemproxySpec gen = sys_Twemproxy spec" "sag_Base gen = base"
    using assms by (simp add: system_app_def system_defaulted_def)
  let ?w = "SystemApp_workload gen" and ?eps = "[(''HTTP'', [TCPPort ''http'' 3000 (FromString ''ui-api'')])]"
  obtain tw where tw: "sys_Twemproxy spec = map_option TwemproxySpec_Default tw" and img: "complete_image img"
    using assms(1) by (auto simp: system_defaulted_def)
  have "SystemApp_deployment gen \<noteq> None"
    by (rule system_app_deployment_defaulted [OF gen(2)]) (simp_all add: gen(3,4) img tw)
  then have all: "\<forall>w\<in>set (workloads ?w None). has_specs w \<and> w_Deployment w \<noteq> None"
    by (simp add: workloads_def has_specs_def SystemApp_workload_def [of gen] gen(2) SystemAppSpec_Default_def)
  have eps: "system_DefaultAppPublishingStrategy = simple_defaults ?eps"
    by (simp add: system_DefaultAppPublishingStrategy_def simple_defaults_def)
  have ps: "\<forall>e. w_PublishingStrategies ?w \<noteq> Some (Inl e)" "strategies_of ?w = simple_defaults ?eps"
    using default_strategies assms(3) by (simp_all add: SystemApp_workload_def strategies_of_def eps gen(2) SystemAppSpec_Default_def)
  have sel: "service_selector ?w None \<noteq> None" by (simp add: service_selector_def)
  show thesis
    by (rule default_New [OF all ps disjI2 [OF sel], of L iter]) (rule that [OF gen(1) _ buildsI]; use all in \<open>simp add: gen(2,5) workloads_def GetKey_def lower_http SystemAppSpec_Default_def\<close>)
qed

text \<open>A specification without canaries and publishing strategies, whose tasks have names.\<close>

definition plain_system :: "SystemSpec \<Rightarrow> bool" where
  "plain_system spec \<longleftrightarrow> (\<forall>t\<in>set (sys_Tasks spec). own_task t \<and> tts_Name t \<noteq> None) \<and>
     (\<forall>a\<in>set_option (sys_App spec). sas_Canary a = None \<and> sas_PublishingStrategies a = None) \<and>
     (\<forall>s\<in>set_option (sys_SidekiqDefault spec) \<union> set_option (sys_SidekiqBilling spec) \<union> set_option (sys_SidekiqLow spec). sks_Canary s = None)"

lemma plain_components:
  assumes "plain_system spec"
  shows "sas_Canary (or_else (sys_App spec) no_SystemAppSpec) = None" "sas_PublishingStrategies (or_else (sys_App spec) no_SystemAppSpec) = None"
    "sks_Canary (or_else (sys_SidekiqDefault spec) no_SystemSidekiqSpec) = None"
    "sks_Canary (or_else (sys_SidekiqBilling spec) no_SystemSidekiqSpec) = None"
    "sks_Canary (or_else (sys_SidekiqLow spec) no_SystemSidekiqSpec) = None"
  using assms
  by (simp_all add: plain_system_def or_else_def no_SystemAppSpec_def no_SystemSidekiqSpec_def split: option.splits)

lemma system_defaultedI:
  assumes "globals_ok g" "plain_system spec"
  obtains g' spec' img where "SystemSpec_Default g spec = Some (g', spec')" "system_defaulted spec' img"
    "\<forall>t\<in>set (sys_Tasks spec'). \<exists>t0. defaulted_task img g g' t0 t \<and> tts_Name t0 \<noteq> None"
    "spec' = (SystemSpec_Default_components spec)\<lparr>sys_Tasks := sys_Tasks spec'\<rparr>" "img = InitializeImageSpec (sys_Image spec) systemDefaultImage"
proof -
  define img where "img = InitializeImageSpec (sys_Image spec) systemDefaultImage"
  have own: "\<forall>t\<in>set (sys_Tasks spec). own_task t" "\<forall>t\<in>set (sys_Tasks spec). tts_Name t \<noteq> None"
    using assms(2) unfolding plain_system_def by blast+
  obtain g' ts where ts: "SystemTasks_Default img g (sys_Tasks spec) = Some (g', ts)"
      "list_all2 (defaulted_task img g g') (expected_tasks g (sys_Tasks spec)) ts"
    by (rule SystemTasks_Default_eq [OF assms(1) own])
  let ?spec = "(SystemSpec_Default_components spec)\<lparr>sys_Tasks := ts\<rparr>"
  have "SystemSpec_Default g spec = Some (g', ?spec)"
    using ts(1) by (simp add: SystemSpec_Default_def SystemSpec_Default_components_def Let_def img_def)
  moreover have "system_defaulted ?spec img"
    using init_complete [of systemDefaultImage "sys_Image spec"]
    by (auto simp: system_defaulted_def SystemSpec_Default_components_def Let_def img_def)
  moreover have "\<exists>t0. defaulted_task img g g' t0 t \<and> tts_Name t0 \<noteq> None" if "t \<in> set ts" for t
  proof -
    have "\<forall>t\<in>set (expected_tasks g (sys_Tasks spec)). tts_Name t \<noteq> None"
      using own(2) default_derefs [OF assms(1)] by (auto simp: expected_tasks_def missing_defaults_def simp del: not_None_eq)
    with that ts(2) show ?thesis by (metis list_all2_conv_all_nth in_set_conv_nth)
  qed
  ultimately show thesis using that img_def by simp
qed

lemma tektons_defaulted:
  assumes "system_defaulted spec img" "\<forall>t\<in>set (sys_Tasks spec). \<exists>t0. defaulted_task img g0 g t0 t \<and> tts_Name t0 \<noteq> None"
  obtains ts where "those (map (system_tekton instance namespace g spec) (sys_Tasks spec)) = Some ts"
    "\<forall>t\<in>set ts. Tekton_task g t \<noteq> None \<and> Tekton_pipeline t \<noteq> None"
proof -
  obtain c tw where c: "sys_Config spec = SystemConfig_Default c" "sys_Twemproxy spec = map_option TwemproxySpec_Default tw" "complete_image img"
    using assms(1) by (auto simp: system_defaulted_def)
  have each: "\<exists>gen. system_tekton instance namespace g spec t = Some gen \<and> Tekton_task g gen \<noteq> None \<and> Tekton_pipeline gen \<noteq> None"
    if t: "t \<in> set (sys_Tasks spec)" for t
  proof -
    obtain t0 where "defaulted_task img g0 g t0 t" "tts_Name t0 \<noteq> None" using assms(2) t by blast
    then show ?thesis
      using tekton_defaulted [OF _ _ c(3) system_defaulted_options [OF assms(1)] c(1,2)] by metis
  qed
  then have "those (map (system_tekton instance namespace g spec) (sys_Tasks spec)) \<noteq> None"
    by (intro those_total) force
  then obtain ts where ts: "those (map (system_tekton instance namespace g spec) (sys_Tasks spec)) = Some ts" by blast
  have "Tekton_task g t \<noteq> None \<and> Tekton_pipeline t \<noteq> None" if "t \<in> set ts" for t
  proof -
    have "Some t \<in> system_tekton instance namespace g spec ` set (sys_Tasks spec)"
      using set_those [OF ts] that by simp
    then obtain task where "task \<in> set (sys_Tasks spec)" "system_tekton instance namespace g spec task = Some t" by (metis imageE)
    with each show ?thesis by fastforce
  qed
  with that ts show thesis by blast
qed

lemma no_system_canary [simp]: "resolve_system_canary J g spec None build = Some (Inr (g, None))"
  by (simp add: resolve_system_canary_def)

lemma generator_built:
  fixes name namespace :: string
  defines "base \<equiv> system_base name namespace"
  assumes app: "system_app (base ''system-app'' ''app'') True spec = Some app" "sas_Canary (sag_Spec app) = None"
    and sd: "system_sidekiq (base ''system-sidekiq-default'' ''sidekiq-default'') sys_SidekiqDefault spec = Some sd" "sks_Canary (skg_Spec sd) = None"
    and sb: "system_sidekiq (base ''system-sidekiq-billing'' ''sidekiq-billing'') sys_SidekiqBilling spec = Some sb" "sks_Canary (skg_Spec sb) = None"
    and sl: "system_sidekiq (base ''system-sidekiq-low'' ''sidekiq-low'') sys_SidekiqLow spec = Some sl" "sks_Canary (skg_Spec sl) = None"
    and rest: "system_searchd (base ''system-searchd'' ''searchd'') spec = Some searchd" "system_console (base ''system-console'' ''console'') spec = Some console"
      "sys_GrafanaDashboard spec = Some dashboard" "scf_ConfigFilesSecret (sys_Config spec) = Some secret" "system_NewOptions spec = Some opts"
      "those (map (system_tekton name namespace g spec) (sys_Tasks spec)) = Some tekton"
  obtains gen where "System_NewGenerator J name namespace g spec = Some (Inr (g, gen))" "syg_App gen = app" "syg_CanaryApp gen = None"
    "syg_SidekiqDefault gen = sd" "syg_CanarySidekiqDefault gen = None" "syg_SidekiqBilling gen = sb" "syg_CanarySidekiqBilling gen = None"
    "syg_SidekiqLow gen = sl" "syg_CanarySidekiqLow gen = None" "syg_Searchd gen = searchd" "syg_Console gen = console"
    "syg_Config gen = sys_Config spec" "syg_Tekton gen = tekton"
proof -
  note facts = app sd sb sl rest
  show thesis
    by (rule that, unfold System_NewGenerator_def Let_def, unfold base_def [symmetric])
       (simp_all only: facts no_system_canary bind.bind_lunit sum.case prod.case option.case, simp_all)
qed

lemma default_fields:
  assumes "spec' = (SystemSpec_Default_components spec)\<lparr>sys_Tasks := ts\<rparr>"
  shows "sys_App spec' = Some (SystemAppSpec_Default (or_else (sys_App spec) no_SystemAppSpec))"
    "sys_SidekiqDefault spec' = Some (SystemSidekiqSpec_Default DefaultQueues (or_else (sys_SidekiqDefault spec) no_SystemSidekiqSpec))"
    "sys_SidekiqBilling spec' = Some (SystemSidekiqSpec_Default Billing (or_else (sys_SidekiqBilling spec) no_SystemSidekiqSpec))"
    "sys_SidekiqLow spec' = Some (SystemSidekiqSpec_Default Low (or_else (sys_SidekiqLow spec) no_SystemSidekiqSpec))"
    "sys_Searchd spec' = Some (SystemSearchdSpec_Default (or_else (sys_Searchd spec) no_SystemSearchdSpec))"
    "sys_Console spec' = Some (SystemRailsConsoleSpec_Default (InitializeImageSpec (sys_Image spec) systemDefaultImage) (or_else (sys_Console spec) no_SystemRailsConsoleSpec))"
    "sys_Config spec' = SystemConfig_Default (sys_Config spec)" "sys_Twemproxy spec' = map_option TwemproxySpec_Default (sys_Twemproxy spec)"
    "sys_GrafanaDashboard spec' = Some (InitializeGrafanaDashboardSpec (sys_GrafanaDashboard spec) systemDefaultGrafanaDashboard)"
  by (simp_all add: assms SystemSpec_Default_components_def Let_def)

text \<open>The generator of such a specification: it has no canaries, and its workloads, stateful sets and tasks can be built.\<close>

definition app_ready :: "envoy_lib \<Rightarrow> config_iter \<Rightarrow> SystemGenerator \<Rightarrow> (DeploymentSpec, string) template list \<Rightarrow> bool" where
  "app_ready L iter gen ts \<longleftrightarrow> syg_CanaryApp gen = None \<and> builds L iter (SystemApp_workload (syg_App gen)) ts \<and>
     fst (w_Key (SystemApp_workload (syg_App gen))) = ''system-app'' \<and> sv_Name ` {s. OService s \<in> built ts} = {''system-app-http-svc''}"

definition sidekiq_ready ::
    "envoy_lib \<Rightarrow> config_iter \<Rightarrow> string \<Rightarrow> SidekiqGenerator \<Rightarrow> SidekiqGenerator option \<Rightarrow> (DeploymentSpec, string) template list \<Rightarrow> bool" where
  "sidekiq_ready L iter name gen canary ts \<longleftrightarrow> canary = None \<and> builds L iter (Sidekiq_workload gen) ts \<and>
     fst (w_Key (Sidekiq_workload gen)) = name \<and> {s. OService s \<in> built ts} = {}"

definition sets_ready :: "globals \<Rightarrow> SystemGenerator \<Rightarrow> bool" where
  "sets_ready g gen \<longleftrightarrow> Searchd_statefulset (syg_Searchd gen) \<noteq> None \<and> Searchd_service (syg_Searchd gen) \<noteq> None \<and>
     Console_statefulset (syg_Console gen) \<noteq> None \<and> (\<forall>t\<in>set (syg_Tekton gen). Tekton_task g t \<noteq> None \<and> Tekton_pipeline t \<noteq> None)"

lemma System_generated:
  assumes "globals_ok g" "plain_system spec"
  obtains g' spec' gen ts ts1 ts2 ts3 where "SystemSpec_Default g spec = Some (g', spec')"
    "System_NewGenerator J instance namespace g' spec' = Some (Inr (g', gen))" "app_ready L iter gen ts"
    "sidekiq_ready L iter ''system-sidekiq-default'' (syg_SidekiqDefault gen) (syg_CanarySidekiqDefault gen) ts1"
    "sidekiq_ready L iter ''system-sidekiq-billing'' (syg_SidekiqBilling gen) (syg_CanarySidekiqBilling gen) ts2"
    "sidekiq_ready L iter ''system-sidekiq-low'' (syg_SidekiqLow gen) (syg_CanarySidekiqLow gen) ts3"
    "sets_ready g' gen" "\<exists>es. scf_ExternalSecret (syg_Config gen) = ExternalSecret_Default es"
proof -
  let ?base = "system_base instance namespace"
  obtain g' spec' img where d: "SystemSpec_Default g spec = Some (g', spec')" "system_defaulted spec' img"
    "\<forall>t\<in>set (sys_Tasks spec'). \<exists>t0. defaulted_task img g g' t0 t \<and> tts_Name t0 \<noteq> None"
    "spec' = (SystemSpec_Default_components spec)\<lparr>sys_Tasks := sys_Tasks spec'\<rparr>" "img = InitializeImageSpec (sys_Image spec) systemDefaultImage"
    by (rule system_defaultedI [OF assms])
  note plain = plain_components [OF assms(2)]
  note fields = default_fields [OF d(4), folded d(5)]
  have img: "complete_image img" using d(2) by (simp add: system_defaulted_def)
  obtain app ts where app: "system_app (?base ''system-app'' ''app'') True spec' = Some app"
      "sas_Canary (sag_Spec app) = None" "builds L iter (SystemApp_workload app) ts" "fst (w_Key (SystemApp_workload app)) = bo_Component (?base ''system-app'' ''app'')"
      "sv_Name ` {s. OService s \<in> built ts} = {bo_Component (?base ''system-app'' ''app'') @ ''-http-svc''}"
    by (rule app_part [OF d(2) fields(1) plain(2), unfolded plain(1)])
  obtain sd ts1 where sd: "system_sidekiq (?base ''system-sidekiq-default'' ''sidekiq-default'') sys_SidekiqDefault spec' = Some sd"
      "sks_Canary (skg_Spec sd) = None" "builds L iter (Sidekiq_workload sd) ts1"
      "fst (w_Key (Sidekiq_workload sd)) = bo_Component (?base ''system-sidekiq-default'' ''sidekiq-default'')" "{s. OService s \<in> built ts1} = {}"
    by (rule sidekiq_part [where field = sys_SidekiqDefault, OF d(2) fields(2), unfolded plain(3)])
  obtain sb ts2 where sb: "system_sidekiq (?base ''system-sidekiq-billing'' ''sidekiq-billing'') sys_SidekiqBilling spec' = Some sb"
      "sks_Canary (skg_Spec sb) = None" "builds L iter (Sidekiq_workload sb) ts2"
      "fst (w_Key (Sidekiq_workload sb)) = bo_Component (?base ''system-sidekiq-billing'' ''sidekiq-billing'')" "{s. OService s \<in> built ts2} = {}"
    by (rule sidekiq_part [where field = sys_SidekiqBilling, OF d(2) fields(3), unfolded plain(4)])
  obtain sl ts3 where sl: "system_sidekiq (?base ''system-sidekiq-low'' ''sidekiq-low'') sys_SidekiqLow spec' = Some sl"
      "sks_Canary (skg_Spec sl) = None" "builds L iter (Sidekiq_workload sl) ts3"
      "fst (w_Key (Sidekiq_workload sl)) = bo_Component (?base ''system-sidekiq-low'' ''sidekiq-low'')" "{s. OService s \<in> built ts3} = {}"
    by (rule sidekiq_part [where field = sys_SidekiqLow, OF d(2) fields(4), unfolded plain(5)])
  obtain searchd where searchd: "system_searchd (?base ''system-searchd'' ''searchd'') spec' = Some searchd"
      "Searchd_statefulset searchd \<noteq> None" "Searchd_service searchd \<noteq> None"
    by (rule searchd_defaulted [OF fields(5)])
  obtain console where console: "system_console (?base ''system-console'' ''console'') spec' = Some console" "Console_statefulset console \<noteq> None"
    by (rule console_defaulted [OF fields(6) img system_defaulted_options [OF d(2)] fields(7,8)])
  obtain tekton where tekton: "those (map (system_tekton instance namespace g' spec') (sys_Tasks spec')) = Some tekton"
      "\<forall>t\<in>set tekton. Tekton_task g' t \<noteq> None \<and> Tekton_pipeline t \<noteq> None"
    by (rule tektons_defaulted [OF d(2,3)])
  obtain secret opts where so: "scf_ConfigFilesSecret (sys_Config spec') = Some secret" "system_NewOptions spec' = Some opts"
    using system_defaulted_options [OF d(2)] system_defaulted_secret [OF d(2)] by blast
  obtain gen where gen: "System_NewGenerator J instance namespace g' spec' = Some (Inr (g', gen))" "syg_App gen = app" "syg_CanaryApp gen = None"
    "syg_SidekiqDefault gen = sd" "syg_CanarySidekiqDefault gen = None" "syg_SidekiqBilling gen = sb" "syg_CanarySidekiqBilling gen = None"
    "syg_SidekiqLow gen = sl" "syg_CanarySidekiqLow gen = None" "syg_Searchd gen = searchd" "syg_Console gen = console"
    "syg_Config gen = sys_Config spec'" "syg_Tekton gen = tekton"
    by (rule generator_built [OF app(1,2) sd(1,2) sb(1,2) sl(1,2) searchd(1) console(1) fields(9) so tekton(1)])
  show thesis
  proof (rule that [OF d(1) gen(1)])
    show "app_ready L iter gen ts"
      using app(3,4,5) by (simp add: app_ready_def gen(2,3) system_base_def)
    show "sidekiq_ready L iter ''system-sidekiq-default'' (syg_SidekiqDefault gen) (syg_CanarySidekiqDefault gen) ts1"
      "sidekiq_ready L iter ''system-sidekiq-billing'' (syg_SidekiqBilling gen) (syg_CanarySidekiqBilling gen) ts2"
      "sidekiq_ready L iter ''system-sidekiq-low'' (syg_SidekiqLow gen) (syg_CanarySidekiqLow gen) ts3"
      using sd(3,4,5) sb(3,4,5) sl(3,4,5) by (simp_all add: sidekiq_ready_def gen system_base_def)
    show "sets_ready g' gen"
      using searchd(2,3) console(2) tekton(2) by (simp add: sets_ready_def gen del: not_None_eq)
    show "\<exists>es. scf_ExternalSecret (syg_Config gen) = ExternalSecret_Default es"
      by (simp add: gen(12) fields(7) SystemConfig_Default_def) blast
  qed
qed

lemma resources_built:
  assumes "app_ready L iter gen app" "sidekiq_ready L iter n1 (syg_SidekiqDefault gen) (syg_CanarySidekiqDefault gen) sd"
    and "sidekiq_ready L iter n2 (syg_SidekiqBilling gen) (syg_CanarySidekiqBilling gen) sb"
    and "sidekiq_ready L iter n3 (syg_SidekiqLow gen) (syg_CanarySidekiqLow gen) sl"
    and "\<exists>es. scf_ExternalSecret (syg_Config gen) = ExternalSecret_Default es"
  obtains r where "System_Resources L iter g gen = Some (Inr r)" "syr_Workloads r = app @ sd @ sb @ sl"
    "syr_Searchd r = StatefulSetWithTraffic (syg_Searchd gen)" "syr_Console r = Console_StatefulSet (syg_Console gen)"
    "syr_Tekton r = map (\<lambda>t. (tkg_Enabled t, Tekton_task g t, Tekton_pipeline t)) (syg_Tekton gen)"
proof -
  obtain secrets where "external_secrets_of (syg_Base gen) (scf_ExternalSecret (syg_Config gen)) (syg_Options gen) = Some secrets"
    using external_secrets_default assms(5) by (metis not_None_eq)
  with that assms(1-4) show thesis by (simp add: System_Resources_def app_ready_def sidekiq_ready_def builds_def)
qed

lemma built_names:
  assumes "app_ready L iter gen app" "sidekiq_ready L iter n1 g1 c1 sd" "sidekiq_ready L iter n2 g2 c2 sb" "sidekiq_ready L iter n3 g3 c3 sl"
  shows "dep_Name ` {d. ODeployment d \<in> built (app @ sd @ sb @ sl)} = {''system-app'', n1, n2, n3}"
    and "sv_Name ` {s. OService s \<in> built (app @ sd @ sb @ sl)} = {''system-app-http-svc''}"
    and "\<forall>t\<in>set (app @ sd @ sb @ sl). \<exists>o1. tp_Build t = Some (Inr o1)"
proof -
  have "{d. ODeployment d \<in> built (app @ sd @ sb @ sl)} = {d. ODeployment d \<in> built app} \<union> {d. ODeployment d \<in> built sd} \<union>
      {d. ODeployment d \<in> built sb} \<union> {d. ODeployment d \<in> built sl}"
    by auto
  moreover have "dep_Name ` {d. ODeployment d \<in> built ts} = {n}" if "sidekiq_ready L iter n g c ts" for n g c ts
    using that by (simp add: sidekiq_ready_def builds_def)
  moreover have "dep_Name ` {d. ODeployment d \<in> built app} = {''system-app''}"
    using assms(1) by (simp add: app_ready_def builds_def)
  ultimately show "dep_Name ` {d. ODeployment d \<in> built (app @ sd @ sb @ sl)} = {''system-app'', n1, n2, n3}"
    using assms(2-4) by (simp only: image_Un Un_insert_left Un_empty_left)
  have "{s. OService s \<in> built (app @ sd @ sb @ sl)} = {s. OService s \<in> built app}"
    using assms(2-4) by (simp add: sidekiq_ready_def)
  then show "sv_Name ` {s. OService s \<in> built (app @ sd @ sb @ sl)} = {''system-app-http-svc''}"
    using assms(1) by (simp add: app_ready_def)
  show "\<forall>t\<in>set (app @ sd @ sb @ sl). \<exists>o1. tp_Build t = Some (Inr o1)"
  proof -
    have "\<forall>t\<in>set app. \<exists>o1. tp_Build t = Some (Inr o1)" using assms(1) by (simp add: app_ready_def builds_def)
    moreover have "\<forall>t\<in>set ts. \<exists>o1. tp_Build t = Some (Inr o1)" if "sidekiq_ready L iter n g c ts" for n g c ts
      using that by (simp add: sidekiq_ready_def builds_def)
    ultimately show ?thesis using assms(2-4) unfolding set_append by blast
  qed
qed

lemma System_built:
  assumes "globals_ok g" "plain_system spec"
  shows "\<exists>g' spec' gen r. SystemSpec_Default g spec = Some (g', spec') \<and>
    System_NewGenerator J instance namespace g' spec' = Some (Inr (g', gen)) \<and> System_Resources L iter g' gen = Some (Inr r) \<and>
    (\<forall>t\<in>set (syr_Workloads r). \<exists>o1. tp_Build t = Some (Inr o1)) \<and>
    dep_Name ` {d. ODeployment d \<in> built (syr_Workloads r)} =
      {''system-app'', ''system-sidekiq-default'', ''system-sidekiq-billing'', ''system-sidekiq-low''} \<and>
    sv_Name ` {s. OService s \<in> built (syr_Workloads r)} = {''system-app-http-svc''} \<and>
    snd (fst (syr_Searchd r)) \<noteq> None \<and> snd (snd (syr_Searchd r)) \<noteq> None \<and> snd (syr_Console r) \<noteq> None \<and>
    (\<forall>(enabled, task, pipeline)\<in>set (syr_Tekton r). task \<noteq> None \<and> pipeline \<noteq> None)"
proof -
  obtain g' spec' gen ts ts1 ts2 ts3 where d: "SystemSpec_Default g spec = Some (g', spec')"
    "System_NewGenerator J instance namespace g' spec' = Some (Inr (g', gen))" "app_ready L iter gen ts"
    "sidekiq_ready L iter ''system-sidekiq-default'' (syg_SidekiqDefault gen) (syg_CanarySidekiqDefault gen) ts1"
    "sidekiq_ready L iter ''system-sidekiq-billing'' (syg_SidekiqBilling gen) (syg_CanarySidekiqBilling gen) ts2"
    "sidekiq_ready L iter ''system-sidekiq-low'' (syg_SidekiqLow gen) (syg_CanarySidekiqLow gen) ts3"
    "sets_ready g' gen" "\<exists>es. scf_ExternalSecret (syg_Config gen) = ExternalSecret_Default es"
    by (rule System_generated [OF assms])
  obtain r where r: "System_Resources L iter g' gen = Some (Inr r)" "syr_Workloads r = ts @ ts1 @ ts2 @ ts3"
    "syr_Searchd r = StatefulSetWithTraffic (syg_Searchd gen)" "syr_Console r = Console_StatefulSet (syg_Console gen)"
    "syr_Tekton r = map (\<lambda>t. (tkg_Enabled t, Tekton_task g' t, Tekton_pipeline t)) (syg_Tekton gen)"
    by (rule resources_built [OF d(3-6,8)])
  show ?thesis
  proof (intro exI conjI)
    show "\<forall>(enabled, task, pipeline)\<in>set (syr_Tekton r). task \<noteq> None \<and> pipeline \<noteq> None"
      using d(7) unfolding r(5) sets_ready_def by auto
  qed (use d(1,2,7) r built_names [OF d(3-6)] in
      \<open>simp_all only: sets_ready_def StatefulSetWithTraffic_def Console_StatefulSet_def fst_conv snd_conv not_False_eq_True\<close>)
qed

text \<open>
  C18. The defaults of System are enough: every specification without canaries and publishing strategies
  whose tasks have a name, once defaulted, builds its generator and all its resources without error or
  panic: the four workloads, the search daemon and its service, the console, and each Tekton task with
  its pipeline. The workloads hold one deployment each and a single service, that of the application.
\<close>

theorem System_defaults_build:
  assumes "globals_ok g" "plain_system spec"
  shows "\<exists>g' spec' gen r. SystemSpec_Default g spec = Some (g', spec') \<and>
    System_NewGenerator J instance namespace g' spec' = Some (Inr (g', gen)) \<and> System_Resources L iter g' gen = Some (Inr r) \<and>
    (\<forall>t\<in>set (syr_Workloads r). \<exists>o1. tp_Build t = Some (Inr o1)) \<and>
    dep_Name ` {d. ODeployment d \<in> built (syr_Workloads r)} =
      {''system-app'', ''system-sidekiq-default'', ''system-sidekiq-billing'', ''system-sidekiq-low''} \<and>
    sv_Name ` {s. OService s \<in> built (syr_Workloads r)} = {''system-app-http-svc''} \<and>
    snd (fst (syr_Searchd r)) \<noteq> None \<and> snd (snd (syr_Searchd r)) \<noteq> None \<and> snd (syr_Console r) \<noteq> None \<and>
    (\<forall>(enabled, task, pipeline)\<in>set (syr_Tekton r). task \<noteq> None \<and> pipeline \<noteq> None)"
  by (rule System_built [OF assms])

section \<open>Witnesses\<close>

definition system_json :: "(SystemSpec, SystemSpec, unit) json_lib" where
  "system_json = \<lparr>js_Marshal = Inr, js_Unmarshal = Inr, js_DecodePatch = (\<lambda>_. Inr ()), js_Apply = (\<lambda>_. Inr)\<rparr>"

lemma demo_plain: "plain_system (demo_system tag None [])"
  by (simp add: plain_system_def demo_system_def no_SystemAppSpec_def)

lemma demo_system_complete: "\<forall>r\<in>system_refs (SystemConfig_Default (sys_Config (demo_system tag canary tasks))). complete_ref r"
proof -
  have "complete_ref (system_ref key)" if "key \<noteq> ''''" for key
    using that by (simp add: system_ref_def complete_ref_def)
  then show ?thesis
    by (simp add: system_refs_def SystemConfig_Default_def demo_system_def systemDefaultBugsnagSpec_def no_SecretReference_def complete_ref_def)
qed

lemma demo_system_built:
  obtains g' spec' gen r where "SystemSpec_Default initial_globals (demo_system ''v1'' None []) = Some (g', spec')"
    "System_NewGenerator system_json ''cr'' ''ns'' g' spec' = Some (Inr (g', gen))" "System_Resources name_lib id g' gen = Some (Inr r)"
    "dep_Name ` {d. ODeployment d \<in> built (syr_Workloads r)} =
      {''system-app'', ''system-sidekiq-default'', ''system-sidekiq-billing'', ''system-sidekiq-low''}"
    "sv_Name ` {s. OService s \<in> built (syr_Workloads r)} = {''system-app-http-svc''}"
    "sys_Config spec' = SystemConfig_Default (sys_Config (demo_system ''v1'' None []))"
proof -
  obtain g' spec' gen r where R: "SystemSpec_Default initial_globals (demo_system ''v1'' None []) = Some (g', spec')"
    "System_NewGenerator system_json ''cr'' ''ns'' g' spec' = Some (Inr (g', gen))" "System_Resources name_lib id g' gen = Some (Inr r)"
    "dep_Name ` {d. ODeployment d \<in> built (syr_Workloads r)} =
      {''system-app'', ''system-sidekiq-default'', ''system-sidekiq-billing'', ''system-sidekiq-low''}"
    "sv_Name ` {s. OService s \<in> built (syr_Workloads r)} = {''system-app-http-svc''}"
    using System_built [OF globals_ok_initial demo_plain, of "''v1''" system_json "''cr''" "''ns''" name_lib id] by (elim exE conjE)
  have "sys_Config spec' = SystemConfig_Default (sys_Config (demo_system ''v1'' None []))"
    using R(1) by (rule_tac system_defaultedI [OF globals_ok_initial demo_plain [of "''v1''"]]) (drule default_fields(7), simp)
  with R that show thesis by (simp only:)
qed

theorem System_traffic_witness:
  "\<exists>g spec gen r d d' s. System_NewGenerator system_json ''cr'' ''ns'' g spec = Some (Inr (g, gen)) \<and>
     System_Resources name_lib id g gen = Some (Inr r) \<and> OService s \<in> built (syr_Workloads r) \<and>
     ODeployment d \<in> built (syr_Workloads r) \<and> dep_Name d = ''system-app'' \<and> selects (sv_Selector s) (pod_labels d) \<and>
     ODeployment d' \<in> built (syr_Workloads r) \<and> dep_Name d' = ''system-sidekiq-low'' \<and> \<not> selects (sv_Selector s) (pod_labels d')"
proof -
  obtain g' spec' gen r where R: "System_NewGenerator system_json ''cr'' ''ns'' g' spec' = Some (Inr (g', gen))"
    "System_Resources name_lib id g' gen = Some (Inr r)"
    "dep_Name ` {d. ODeployment d \<in> built (syr_Workloads r)} =
      {''system-app'', ''system-sidekiq-default'', ''system-sidekiq-billing'', ''system-sidekiq-low''}"
    "sv_Name ` {s. OService s \<in> built (syr_Workloads r)} = {''system-app-http-svc''}"
    by (rule demo_system_built) (rule that)
  have "{s. OService s \<in> built (syr_Workloads r)} \<noteq> {}"
    using R(4) by (metis image_empty insert_not_empty)
  then obtain s where s: "OService s \<in> built (syr_Workloads r)" by blast
  have "''system-app'' \<in> dep_Name ` {d. ODeployment d \<in> built (syr_Workloads r)}"
      "''system-sidekiq-low'' \<in> dep_Name ` {d. ODeployment d \<in> built (syr_Workloads r)}"
    unfolding R(3) by (simp_all only: insert_iff simp_thms)
  then obtain d d' where d: "ODeployment d \<in> built (syr_Workloads r)" "dep_Name d = ''system-app''"
      "ODeployment d' \<in> built (syr_Workloads r)" "dep_Name d' = ''system-sidekiq-low''"
    by (elim imageE) (simp only: mem_Collect_eq)
  have "app_receives spec' ''system-app''" "\<not> app_receives spec' ''system-sidekiq-low''"
    by (simp_all add: app_receives_def)
  then have "selects (sv_Selector s) (pod_labels d)" "\<not> selects (sv_Selector s) (pod_labels d')"
    using System_traffic [OF R(1,2) d(1)] System_traffic [OF R(1,2) d(3)] s unfolding d(2,4) by blast+
  with R(1,2) s d show ?thesis by (intro exI conjI)
qed


theorem System_defaults_build_witness:
  "\<exists>g' spec' gen r. SystemSpec_Default initial_globals (demo_system ''v1'' None []) = Some (g', spec') \<and>
    System_NewGenerator system_json ''cr'' ''ns'' g' spec' = Some (Inr (g', gen)) \<and> System_Resources name_lib id g' gen = Some (Inr r) \<and>
    (\<forall>t\<in>set (syr_Workloads r). \<exists>o1. tp_Build t = Some (Inr o1)) \<and>
    dep_Name ` {d. ODeployment d \<in> built (syr_Workloads r)} =
      {''system-app'', ''system-sidekiq-default'', ''system-sidekiq-billing'', ''system-sidekiq-low''} \<and>
    sv_Name ` {s. OService s \<in> built (syr_Workloads r)} = {''system-app-http-svc''} \<and>
    snd (fst (syr_Searchd r)) \<noteq> None \<and> snd (snd (syr_Searchd r)) \<noteq> None \<and> snd (syr_Console r) \<noteq> None \<and>
    (\<forall>(enabled, task, pipeline)\<in>set (syr_Tekton r). task \<noteq> None \<and> pipeline \<noteq> None)"
  by (rule System_defaults_build [OF globals_ok_initial demo_plain])

end
