(* ===== verification/Zync.thy ===== *)
theory Zync
  imports Generators
begin

text \<open>
  Zync: the specification with its defaults (\<^verbatim>\<open>api/v1alpha1/zync_types.go\<close>), the environment of its
  components (\<^verbatim>\<open>internal/pkg/generators/zync/config/\<close>) and the generator of its resources
  (\<^verbatim>\<open>internal/pkg/generators/zync/\<close>): the API with its service, the que, and the console, which runs
  with the environment of the API.
\<close>

section \<open>The specification\<close>

definition zyncDefaultImage :: ImageSpec where
  "zyncDefaultImage = \<lparr>img_Name = Some ''quay.io/3scale/zync'', img_Tag = Some ''nightly'', img_PullSecretName = None,
     img_PullPolicy = Some ''IfNotPresent''\<rparr>"

definition zyncDefaultGrafanaDashboard :: GrafanaDashboardSpec where
  "zyncDefaultGrafanaDashboard = \<lparr>gd_SelectorKey = Some ''monitoring-key'', gd_SelectorValue = Some ''middleware''\<rparr>"

definition zyncDefaultRailsConsoleEnabled :: bool where "zyncDefaultRailsConsoleEnabled = False"
definition zyncDefaultConfigRailsEnvironment :: string where "zyncDefaultConfigRailsEnvironment = ''development''"
definition zyncDefaultConfigRailsLogLevel :: string where "zyncDefaultConfigRailsLogLevel = ''info''"
definition zyncDefaultConfigRailsMaxThreads :: int where "zyncDefaultConfigRailsMaxThreads = 10"

definition zyncDefaultConfigBugsnagSpec :: BugsnagSpec where
  "zyncDefaultConfigBugsnagSpec = \<lparr>bs_ReleaseStage = None, bs_APIKey = no_SecretReference\<rparr>"

definition zyncDefaultAPIHPA :: HPASpec where
  "zyncDefaultAPIHPA = \<lparr>hpa_MinReplicas = Some 2, hpa_MaxReplicas = Some 4, hpa_ResourceName = Some ''cpu'',
     hpa_ResourceUtilization = Some 90, hpa_Behavior = None\<rparr>"

definition zyncDefaultAPIPDB :: PDBSpec where
  "zyncDefaultAPIPDB = \<lparr>pdb_MinAvailable = None, pdb_MaxUnavailable = Some (FromInt 1)\<rparr>"

definition zyncDefaultAPIReplicas :: int where "zyncDefaultAPIReplicas = 2"

definition zyncDefaultAPIResources :: Resources where
  "zyncDefaultAPIResources = \<lparr>rr_Limits = Some [(''cpu'', ''750m''), (''memory'', ''512Mi'')],
     rr_Requests = Some [(''cpu'', ''250m''), (''memory'', ''250Mi'')], rr_Claims = None\<rparr>"

definition zyncDefaultAPILivenessProbe :: ProbeSpec where
  "zyncDefaultAPILivenessProbe = \<lparr>pr_InitialDelaySeconds = Some 10, pr_TimeoutSeconds = Some 30, pr_PeriodSeconds = Some 10,
     pr_SuccessThreshold = Some 1, pr_FailureThreshold = Some 3\<rparr>"

definition zyncDefaultAPIReadinessProbe :: ProbeSpec where
  "zyncDefaultAPIReadinessProbe = \<lparr>pr_InitialDelaySeconds = Some 30, pr_TimeoutSeconds = Some 10, pr_PeriodSeconds = Some 10,
     pr_SuccessThreshold = Some 1, pr_FailureThreshold = Some 3\<rparr>"

definition zyncDefaultQueHPA :: HPASpec where
  "zyncDefaultQueHPA = \<lparr>hpa_MinReplicas = Some 2, hpa_MaxReplicas = Some 4, hpa_ResourceName = Some ''cpu'',
     hpa_ResourceUtilization = Some 90, hpa_Behavior = None\<rparr>"

definition zyncDefaultQuePDB :: PDBSpec where
  "zyncDefaultQuePDB = \<lparr>pdb_MinAvailable = None, pdb_MaxUnavailable = Some (FromInt 1)\<rparr>"

definition zyncDefaultQueReplicas :: int where "zyncDefaultQueReplicas = 2"

definition zyncDefaultQueResources :: Resources where
  "zyncDefaultQueResources = \<lparr>rr_Limits = Some [(''cpu'', ''750m''), (''memory'', ''512Mi'')],
     rr_Requests = Some [(''cpu'', ''250m''), (''memory'', ''250Mi'')], rr_Claims = None\<rparr>"

definition zyncDefaultQueLivenessProbe :: ProbeSpec where
  "zyncDefaultQueLivenessProbe = \<lparr>pr_InitialDelaySeconds = Some 10, pr_TimeoutSeconds = Some 30, pr_PeriodSeconds = Some 10,
     pr_SuccessThreshold = Some 1, pr_FailureThreshold = Some 3\<rparr>"

definition zyncDefaultQueReadinessProbe :: ProbeSpec where
  "zyncDefaultQueReadinessProbe = \<lparr>pr_InitialDelaySeconds = Some 30, pr_TimeoutSeconds = Some 10, pr_PeriodSeconds = Some 10,
     pr_SuccessThreshold = Some 1, pr_FailureThreshold = Some 3\<rparr>"

definition zyncDefaultRailsConsoleResources :: Resources where
  "zyncDefaultRailsConsoleResources = \<lparr>rr_Limits = Some [(''cpu'', ''400m''), (''memory'', ''2Gi'')],
     rr_Requests = Some [(''cpu'', ''200m''), (''memory'', ''1Gi'')], rr_Claims = None\<rparr>"

record APISpec =
  zap_PDB :: "PDBSpec option"
  zap_HPA :: "HPASpec option"
  zap_Replicas :: "int option"
  zap_Resources :: "Resources option"
  zap_LivenessProbe :: "ProbeSpec option"
  zap_ReadinessProbe :: "ProbeSpec option"
  zap_NodeAffinity :: "string option"
  zap_Tolerations :: "string list"
  zap_PublishingStrategies :: "PublishingStrategies option"

definition no_APISpec :: APISpec where
  "no_APISpec = \<lparr>zap_PDB = None, zap_HPA = None, zap_Replicas = None, zap_Resources = None, zap_LivenessProbe = None,
     zap_ReadinessProbe = None, zap_NodeAffinity = None, zap_Tolerations = [], zap_PublishingStrategies = None\<rparr>"

definition APISpec_Default :: "APISpec \<Rightarrow> APISpec" where
  "APISpec_Default spec = spec\<lparr>
     zap_HPA := Some (InitializeHorizontalPodAutoscalerSpec (zap_HPA spec) zyncDefaultAPIHPA),
     zap_Replicas := orDefault (zap_Replicas spec) (Some zyncDefaultAPIReplicas),
     zap_PDB := Some (InitializePodDisruptionBudgetSpec (zap_PDB spec) zyncDefaultAPIPDB),
     zap_Resources := Some (InitializeResourceRequirementsSpec (zap_Resources spec) zyncDefaultAPIResources),
     zap_LivenessProbe := Some (InitializeProbeSpec (zap_LivenessProbe spec) zyncDefaultAPILivenessProbe),
     zap_ReadinessProbe := Some (InitializeProbeSpec (zap_ReadinessProbe spec) zyncDefaultAPIReadinessProbe)\<rparr>"

record QueSpec =
  zqu_PDB :: "PDBSpec option"
  zqu_HPA :: "HPASpec option"
  zqu_Replicas :: "int option"
  zqu_Resources :: "Resources option"
  zqu_LivenessProbe :: "ProbeSpec option"
  zqu_ReadinessProbe :: "ProbeSpec option"
  zqu_NodeAffinity :: "string option"
  zqu_Tolerations :: "string list"

definition no_QueSpec :: QueSpec where
  "no_QueSpec = \<lparr>zqu_PDB = None, zqu_HPA = None, zqu_Replicas = None, zqu_Resources = None, zqu_LivenessProbe = None,
     zqu_ReadinessProbe = None, zqu_NodeAffinity = None, zqu_Tolerations = []\<rparr>"

definition QueSpec_Default :: "QueSpec \<Rightarrow> QueSpec" where
  "QueSpec_Default spec = spec\<lparr>
     zqu_HPA := Some (InitializeHorizontalPodAutoscalerSpec (zqu_HPA spec) zyncDefaultQueHPA),
     zqu_Replicas := orDefault (zqu_Replicas spec) (Some zyncDefaultQueReplicas),
     zqu_PDB := Some (InitializePodDisruptionBudgetSpec (zqu_PDB spec) zyncDefaultQuePDB),
     zqu_Resources := Some (InitializeResourceRequirementsSpec (zqu_Resources spec) zyncDefaultQueResources),
     zqu_LivenessProbe := Some (InitializeProbeSpec (zqu_LivenessProbe spec) zyncDefaultQueLivenessProbe),
     zqu_ReadinessProbe := Some (InitializeProbeSpec (zqu_ReadinessProbe spec) zyncDefaultQueReadinessProbe)\<rparr>"

record ZyncRailsSpec =
  zrs_Environment :: "string option"
  zrs_LogLevel :: "string option"
  zrs_MaxThreads :: "int option"

definition ZyncRailsSpec_Default :: "ZyncRailsSpec \<Rightarrow> ZyncRailsSpec" where
  "ZyncRailsSpec_Default rails =
     \<lparr>zrs_Environment = orDefault (zrs_Environment rails) (Some zyncDefaultConfigRailsEnvironment),
      zrs_LogLevel = orDefault (zrs_LogLevel rails) (Some zyncDefaultConfigRailsLogLevel),
      zrs_MaxThreads = orDefault (zrs_MaxThreads rails) (Some zyncDefaultConfigRailsMaxThreads)\<rparr>"

record ZyncConfig =
  zcf_Rails :: "ZyncRailsSpec option"
  zcf_ExternalSecret :: ExternalSecret
  zcf_DatabaseDSN :: SecretReference
  zcf_SecretKeyBase :: SecretReference
  zcf_ZyncAuthToken :: SecretReference
  zcf_Bugsnag :: "BugsnagSpec option"

definition ZyncConfig_Default :: "ZyncConfig \<Rightarrow> ZyncConfig" where
  "ZyncConfig_Default cfg = cfg\<lparr>
     zcf_Rails := Some (ZyncRailsSpec_Default (case zcf_Rails cfg of
       None \<Rightarrow> \<lparr>zrs_Environment = None, zrs_LogLevel = None, zrs_MaxThreads = None\<rparr> | Some r \<Rightarrow> r)),
     zcf_Bugsnag := (case zcf_Bugsnag cfg of None \<Rightarrow> Some zyncDefaultConfigBugsnagSpec | Some b \<Rightarrow> Some b),
     zcf_ExternalSecret := ExternalSecret_Default (zcf_ExternalSecret cfg)\<rparr>"

record ZyncRailsConsoleSpec =
  zco_Enabled :: "bool option"
  zco_Image :: "ImageSpec option"
  zco_Resources :: "Resources option"
  zco_NodeAffinity :: "string option"
  zco_Tolerations :: "string list"

definition no_ZyncRailsConsoleSpec :: ZyncRailsConsoleSpec where
  "no_ZyncRailsConsoleSpec = \<lparr>zco_Enabled = None, zco_Image = None, zco_Resources = None, zco_NodeAffinity = None, zco_Tolerations = []\<rparr>"

definition ZyncRailsConsoleSpec_Default :: "ImageSpec \<Rightarrow> ZyncRailsConsoleSpec \<Rightarrow> ZyncRailsConsoleSpec" where
  "ZyncRailsConsoleSpec_Default img spec = spec\<lparr>
     zco_Enabled := orDefault (zco_Enabled spec) (Some zyncDefaultRailsConsoleEnabled),
     zco_Image := Some (InitializeImageSpec (zco_Image spec) img),
     zco_Resources := Some (InitializeResourceRequirementsSpec (zco_Resources spec) zyncDefaultRailsConsoleResources)\<rparr>"

record ZyncSpec =
  zys_Image :: "ImageSpec option"
  zys_Config :: ZyncConfig
  zys_GrafanaDashboard :: "GrafanaDashboardSpec option"
  zys_API :: "APISpec option"
  zys_Que :: "QueSpec option"
  zys_Console :: "ZyncRailsConsoleSpec option"

text \<open>A missing component is defaulted from an empty one; the console defaults to the image that the components run.\<close>

definition ZyncSpec_Default :: "ZyncSpec \<Rightarrow> ZyncSpec" where
  "ZyncSpec_Default spec =
     (let img = InitializeImageSpec (zys_Image spec) zyncDefaultImage in spec\<lparr>
       zys_Image := Some img,
       zys_Config := ZyncConfig_Default (zys_Config spec),
       zys_API := Some (APISpec_Default (case zys_API spec of None \<Rightarrow> no_APISpec | Some api \<Rightarrow> api)),
       zys_Que := Some (QueSpec_Default (case zys_Que spec of None \<Rightarrow> no_QueSpec | Some que \<Rightarrow> que)),
       zys_GrafanaDashboard := Some (InitializeGrafanaDashboardSpec (zys_GrafanaDashboard spec) zyncDefaultGrafanaDashboard),
       zys_Console := Some (ZyncRailsConsoleSpec_Default img
         (case zys_Console spec of None \<Rightarrow> no_ZyncRailsConsoleSpec | Some console \<Rightarrow> console))\<rparr>)"

section \<open>The environment\<close>

definition ZyncSecret :: string where "ZyncSecret = ''zync''"

definition api_rows :: "ZyncConfig \<Rightarrow> ZyncRailsSpec \<Rightarrow> BugsnagSpec \<Rightarrow> rows" where
  "api_rows cfg rails bugsnag =
     [(''RAILS_ENV'', id, ptr_text (zrs_Environment rails)),
      (''RAILS_LOG_LEVEL'', id, ptr_text (zrs_LogLevel rails)),
      (''RAILS_LOG_TO_STDOUT'', id, Text ''true''),
      (''RAILS_MAX_THREADS'', id, ptr_int (zrs_MaxThreads rails)),
      (''DATABASE_URL'', secret_ref ZyncSecret ''zync-database-url'', Secret (zcf_DatabaseDSN cfg)),
      (''SECRET_KEY_BASE'', secret_ref ZyncSecret ''zync-secret-key-base'', Secret (zcf_SecretKeyBase cfg)),
      (''ZYNC_AUTHENTICATION_TOKEN'', secret_ref ZyncSecret ''zync-auth-token'', Secret (zcf_ZyncAuthToken cfg)),
      (''BUGSNAG_API_KEY'', \<lambda>o1. EmptyIf (\<not> BugsnagSpec_Enabled bugsnag) (secret_ref ZyncSecret ''zync-bugsnag-api-key'' o1),
        Secret (bs_APIKey bugsnag)),
      (''BUGSNAG_RELEASE_STAGE'', id, ptr_text (bs_ReleaseStage bugsnag))]"

definition que_rows :: "ZyncConfig \<Rightarrow> ZyncRailsSpec \<Rightarrow> BugsnagSpec \<Rightarrow> rows" where
  "que_rows cfg rails bugsnag =
     [(''RAILS_ENV'', id, ptr_text (zrs_Environment rails)),
      (''RAILS_LOG_LEVEL'', id, ptr_text (zrs_LogLevel rails)),
      (''RAILS_LOG_TO_STDOUT'', id, Text ''true''),
      (''DATABASE_URL'', secret_ref ZyncSecret ''zync-database-url'', Secret (zcf_DatabaseDSN cfg)),
      (''SECRET_KEY_BASE'', secret_ref ZyncSecret ''zync-secret-key-base'', Secret (zcf_SecretKeyBase cfg)),
      (''ZYNC_AUTHENTICATION_TOKEN'', secret_ref ZyncSecret ''zync-auth-token'', Secret (zcf_ZyncAuthToken cfg)),
      (''BUGSNAG_API_KEY'', \<lambda>o1. WithSeedKey ''zync-bugsnag-api-key'' (EmptyIf (\<not> BugsnagSpec_Enabled bugsnag) (AsSecretRef ZyncSecret o1)),
        Secret (bs_APIKey bugsnag)),
      (''BUGSNAG_RELEASE_STAGE'', id, ptr_text (bs_ReleaseStage bugsnag))]"

definition NewAPIOptions :: "ZyncSpec \<Rightarrow> Options option" where
  "NewAPIOptions spec =
     do { rails \<leftarrow> zcf_Rails (zys_Config spec);
          bugsnag \<leftarrow> zcf_Bugsnag (zys_Config spec);
          add_options (api_rows (zys_Config spec) rails bugsnag) }"

definition NewQueOptions :: "ZyncSpec \<Rightarrow> Options option" where
  "NewQueOptions spec =
     do { rails \<leftarrow> zcf_Rails (zys_Config spec);
          bugsnag \<leftarrow> zcf_Bugsnag (zys_Config spec);
          add_options (que_rows (zys_Config spec) rails bugsnag) }"

section \<open>The components\<close>

definition pod_fields :: "EnvVar list" where
  "pod_fields =
     [\<lparr>env_Name = ''POD_NAME'', env_Value = '''', env_ValueFrom = Some (FieldRef ''metadata.name'' ''v1'')\<rparr>,
      \<lparr>env_Name = ''POD_NAMESPACE'', env_Value = '''', env_ValueFrom = Some (FieldRef ''metadata.namespace'' ''v1'')\<rparr>]"

record APIGenerator =
  zag_Base :: BaseOptionsV2
  zag_Image :: ImageSpec
  zag_APISpec :: APISpec
  zag_Options :: Options
  zag_Traffic :: bool

definition API_deployment :: "APIGenerator \<Rightarrow> DeploymentSpec Deployment option" where
  "API_deployment gen =
     (let spec = zag_APISpec gen; img = zag_Image gen in
      do { image \<leftarrow> Image img;
           resources \<leftarrow> zap_Resources spec;
           pullPolicy \<leftarrow> img_PullPolicy img;
           livenessSpec \<leftarrow> zap_LivenessProbe spec;
           liveness \<leftarrow> HTTPProbe ''/status/live'' (FromString ''http'') ''HTTP'' livenessSpec;
           readinessSpec \<leftarrow> zap_ReadinessProbe spec;
           readiness \<leftarrow> HTTPProbe ''/status/ready'' (FromString ''http'') ''HTTP'' readinessSpec;
           Some (rolling_deployment (zap_Replicas spec) (ImagePullSecrets (img_PullSecretName img))
             [(plain_container ''zync'' image [] [(''http'', 8080), (''metrics'', 9393)]
                 (BuildEnvironment (WithExtraEnv pod_fields (zag_Options gen))) resources pullPolicy)
               \<lparr>ac_LivenessProbe := liveness, ac_ReadinessProbe := readiness\<rparr>]
             (Affinity (GetSelector (zag_Base gen)) (zap_NodeAffinity spec)) (zap_Tolerations spec)) })"

definition API_workload :: "APIGenerator \<Rightarrow> (DeploymentSpec, string) workload" where
  "API_workload gen =
     \<lparr>w_Key = GetKey (zag_Base gen), w_Labels = GetLabels (zag_Base gen), w_Selector = GetSelector (zag_Base gen),
      w_MonitoredEndpoints = [PodMetricsEndpoint ''/metrics'' ''metrics'' 30], w_HPASpec = zap_HPA (zag_APISpec gen),
      w_PDBSpec = zap_PDB (zag_APISpec gen), w_Deployment = API_deployment gen,
      w_Canary = Some (zag_Traffic gen, [traffic_key \<mapsto> ''zync'']),
      w_PublishingStrategies =
        Some (MergeWithDefaultPublishingStrategy zync_DefaultApiPublishingStrategy (zap_PublishingStrategies (zag_APISpec gen)))\<rparr>"

record QueGenerator =
  zqg_Base :: BaseOptionsV2
  zqg_Image :: ImageSpec
  zqg_QueSpec :: QueSpec
  zqg_Options :: Options

definition Que_deployment :: "QueGenerator \<Rightarrow> DeploymentSpec Deployment option" where
  "Que_deployment gen =
     (let spec = zqg_QueSpec gen; img = zqg_Image gen in
      do { image \<leftarrow> Image img;
           resources \<leftarrow> zqu_Resources spec;
           pullPolicy \<leftarrow> img_PullPolicy img;
           livenessSpec \<leftarrow> zqu_LivenessProbe spec;
           liveness \<leftarrow> HTTPProbe ''/metrics'' (FromString ''metrics'') ''HTTP'' livenessSpec;
           readinessSpec \<leftarrow> zqu_ReadinessProbe spec;
           readiness \<leftarrow> HTTPProbe ''/metrics'' (FromString ''metrics'') ''HTTP'' readinessSpec;
           Some (rolling_deployment (zqu_Replicas spec) (ImagePullSecrets (img_PullSecretName img))
             [(plain_container ''zync-que'' image [] [(''metrics'', 9394)]
                 (BuildEnvironment (WithExtraEnv pod_fields (zqg_Options gen))) resources pullPolicy)
               \<lparr>ac_Command := [''/usr/bin/bash'', ''-c'', ''bundle exec rake '' @ [CHR 0x27] @ ''que[--worker-count 10]'' @ [CHR 0x27]],
                ac_LivenessProbe := liveness, ac_ReadinessProbe := readiness\<rparr>]
             (Affinity (GetSelector (zqg_Base gen)) (zqu_NodeAffinity spec)) (zqu_Tolerations spec)) })"

definition Que_workload :: "QueGenerator \<Rightarrow> (DeploymentSpec, string) workload" where
  "Que_workload gen =
     \<lparr>w_Key = GetKey (zqg_Base gen), w_Labels = GetLabels (zqg_Base gen), w_Selector = GetSelector (zqg_Base gen),
      w_MonitoredEndpoints = [PodMetricsEndpoint ''/metrics'' ''metrics'' 30], w_HPASpec = zqu_HPA (zqg_QueSpec gen),
      w_PDBSpec = zqu_PDB (zqg_QueSpec gen), w_Deployment = Que_deployment gen, w_Canary = None, w_PublishingStrategies = None\<rparr>"

text \<open>The image of the console is that of its specification; the field for it in the generator stays empty.\<close>

record ZyncConsoleGenerator =
  zcg_Base :: BaseOptionsV2
  zcg_Image :: ImageSpec
  zcg_Spec :: ZyncRailsConsoleSpec
  zcg_Options :: Options
  zcg_Enabled :: bool

definition zync_console_statefulset :: "ZyncConsoleGenerator \<Rightarrow> AppStatefulSet option" where
  "zync_console_statefulset gen =
     (let spec = zcg_Spec gen in
      do { img \<leftarrow> zco_Image spec;
           image \<leftarrow> Image img;
           resources \<leftarrow> zco_Resources spec;
           pullPolicy \<leftarrow> img_PullPolicy img;
           Some (app_statefulset (zcg_Base gen) ''Parallel''
             \<lparr>pod_ImagePullSecrets = ImagePullSecrets (img_PullSecretName img), pod_InitContainers = [],
              pod_Containers = [plain_container ''zync'' image [''sleep'', ''infinity''] [(''http'', 8080), (''metrics'', 9393)]
                (BuildEnvironment (WithExtraEnv pod_fields (zcg_Options gen))) resources pullPolicy],
              pod_Affinity = Some (Affinity (GetSelector (zcg_Base gen)) (zco_NodeAffinity spec)), pod_Tolerations = zco_Tolerations spec,
              pod_TerminationGracePeriodSeconds = Some 30, pod_Volumes = []\<rparr> []) })"

definition zync_console_StatefulSet :: "ZyncConsoleGenerator \<Rightarrow> bool \<times> AppStatefulSet option" where
  "zync_console_StatefulSet gen = (zcg_Enabled gen, zync_console_statefulset gen)"

section \<open>The generator\<close>

record ZyncGenerator =
  zyg_Base :: BaseOptionsV2
  zyg_API :: APIGenerator
  zyg_Que :: QueGenerator
  zyg_Console :: ZyncConsoleGenerator
  zyg_GrafanaDashboardSpec :: GrafanaDashboardSpec
  zyg_Config :: ZyncConfig

definition zync_base :: "string \<Rightarrow> string \<Rightarrow> string \<Rightarrow> string \<Rightarrow> BaseOptionsV2" where
  "zync_base instance namespace component element =
     \<lparr>bo_Component = component, bo_InstanceName = instance, bo_Namespace = namespace,
      bo_Labels = [''app'' \<mapsto> ''3scale-api-management'', ''threescale_component'' \<mapsto> ''zync'', ''threescale_component_element'' \<mapsto> element]\<rparr>"

definition Zync_NewGenerator :: "string \<Rightarrow> string \<Rightarrow> ZyncSpec \<Rightarrow> ZyncGenerator option" where
  "Zync_NewGenerator instance namespace spec =
     do { api \<leftarrow> zys_API spec;
          img \<leftarrow> zys_Image spec;
          apiOptions \<leftarrow> NewAPIOptions spec;
          que \<leftarrow> zys_Que spec;
          queOptions \<leftarrow> NewQueOptions spec;
          console \<leftarrow> zys_Console spec;
          enabled \<leftarrow> zco_Enabled console;
          dashboard \<leftarrow> zys_GrafanaDashboard spec;
          Some \<lparr>zyg_Base = \<lparr>bo_Component = ''zync'', bo_InstanceName = instance, bo_Namespace = namespace,
              bo_Labels = [''app'' \<mapsto> ''3scale-api-management'', ''threescale_component'' \<mapsto> ''zync'']\<rparr>,
            zyg_API = \<lparr>zag_Base = zync_base instance namespace ''zync'' ''zync'', zag_Image = img, zag_APISpec = api,
              zag_Options = apiOptions, zag_Traffic = True\<rparr>,
            zyg_Que = \<lparr>zqg_Base = zync_base instance namespace ''zync-que'' ''que'', zqg_Image = img, zqg_QueSpec = que,
              zqg_Options = queOptions\<rparr>,
            zyg_Console = \<lparr>zcg_Base = zync_base instance namespace ''zync-console'' ''console'', zcg_Image = no_ImageSpec, zcg_Spec = console,
              zcg_Options = apiOptions, zcg_Enabled = enabled\<rparr>,
            zyg_GrafanaDashboardSpec = dashboard, zyg_Config = zys_Config spec\<rparr> }"

record ZyncResources =
  zyr_Workloads :: "(DeploymentSpec, string) template list"
  zyr_Console :: "bool \<times> AppStatefulSet option"
  zyr_ExternalSecrets :: "ExternalSecretResource list"
  zyr_Dashboard :: "bool \<times> key \<times> labels \<times> string"

definition Zync_Resources :: "envoy_lib \<Rightarrow> config_iter \<Rightarrow> ZyncGenerator \<Rightarrow> ZyncResources result" where
  "Zync_Resources L iter gen =
     do { r \<leftarrow> Workload_New L iter (API_workload (zyg_API gen)) None;
          case r of Inl e \<Rightarrow> Some (Inl e) | Inr api \<Rightarrow>
     do { r \<leftarrow> Workload_New L iter (Que_workload (zyg_Que gen)) None;
          case r of Inl e \<Rightarrow> Some (Inl e) | Inr que \<Rightarrow>
     do { secrets \<leftarrow> external_secrets_of (zyg_Base gen) (zcf_ExternalSecret (zyg_Config gen))
            (Options_Union [zag_Options (zyg_API gen), zqg_Options (zyg_Que gen)]);
          Some (Inr
            \<lparr>zyr_Workloads = api @ que, zyr_Console = zync_console_StatefulSet (zyg_Console gen), zyr_ExternalSecrets = secrets,
             zyr_Dashboard = dashboard_of (zyg_Base gen) (bo_Component (zyg_Base gen)) (zyg_GrafanaDashboardSpec gen)
               ''dashboards/zync.json.gtpl''\<rparr>) } } }"

lemma Zync_NewGenerator_parts:
  assumes "Zync_NewGenerator instance namespace spec = Some gen"
  obtains rails bugsnag where "zys_API spec = Some (zag_APISpec (zyg_API gen))" "zag_Traffic (zyg_API gen)"
    "zag_Base (zyg_API gen) = zync_base instance namespace ''zync'' ''zync''"
    "zqg_Base (zyg_Que gen) = zync_base instance namespace ''zync-que'' ''que''"
    "zcg_Base (zyg_Console gen) = zync_base instance namespace ''zync-console'' ''console''"
    "zcf_Rails (zys_Config spec) = Some rails" "zcf_Bugsnag (zys_Config spec) = Some bugsnag"
    "add_options (api_rows (zys_Config spec) rails bugsnag) = Some (zag_Options (zyg_API gen))"
    "add_options (que_rows (zys_Config spec) rails bugsnag) = Some (zqg_Options (zyg_Que gen))"
    "zcg_Options (zyg_Console gen) = zag_Options (zyg_API gen)"
  using assms unfolding Zync_NewGenerator_def NewAPIOptions_def NewQueOptions_def
  by (elim bind_SomeE) (simp only: option.inject, hypsubst, rule that, simp_all)

lemma Zync_Resources_parts:
  assumes "Zync_Resources L iter gen = Some (Inr r)"
  obtains api que where "zyr_Workloads r = api @ que" "Workload_New L iter (API_workload (zyg_API gen)) None = Some (Inr api)"
    "Workload_New L iter (Que_workload (zyg_Que gen)) None = Some (Inr que)"
    "external_secrets_of (zyg_Base gen) (zcf_ExternalSecret (zyg_Config gen))
       (Options_Union [zag_Options (zyg_API gen), zqg_Options (zyg_Que gen)]) = Some (zyr_ExternalSecrets r)"
    "zyr_Console r = zync_console_StatefulSet (zyg_Console gen)"
  using assms unfolding Zync_Resources_def
  by (elim bind_SomeE) (auto split: sum.splits intro: that elim!: bind_SomeE)

lemma zync_workload_simps [simp]:
  "w_Key (API_workload api) = GetKey (zag_Base api)" "w_Labels (API_workload api) = GetLabels (zag_Base api)"
  "w_Selector (API_workload api) = GetSelector (zag_Base api)" "w_Deployment (API_workload api) = API_deployment api"
  "w_Canary (API_workload api) = Some (zag_Traffic api, [traffic_key \<mapsto> ''zync''])"
  "w_Key (Que_workload que) = GetKey (zqg_Base que)" "w_Labels (Que_workload que) = GetLabels (zqg_Base que)"
  "w_Selector (Que_workload que) = GetSelector (zqg_Base que)" "w_Deployment (Que_workload que) = Que_deployment que"
  "w_Canary (Que_workload que) = None" "w_PublishingStrategies (Que_workload que) = None"
  by (simp_all add: API_workload_def Que_workload_def)

section \<open>Traffic\<close>

lemma zync_base_keys [simp]:
  "GetLabels (zync_base instance namespace c e) traffic_key = None" "GetSelector (zync_base instance namespace c e) traffic_key = None"
  "fst (GetKey (zync_base instance namespace c e)) = c"
  by (simp_all add: GetLabels_def GetSelector_def GetKey_def zync_base_def traffic_key_def PodSelectorKey_def)

lemma que_deployment_labels: "Que_deployment gen = Some d0 \<Longrightarrow> orEmpty (dep_PodLabels d0) traffic_key = None"
  by (auto simp: Que_deployment_def Let_def rolling_deployment_def deployment_with_def orEmpty_def elim!: bind_SomeE)

lemma que_built:
  assumes "Workload_New L iter (Que_workload gen) None = Some (Inr ts)" "zqg_Base gen = zync_base instance namespace ''zync-que'' ''que''"
  shows "OService s \<notin> built ts" "ODeployment d \<in> built ts \<Longrightarrow> pod_labels d traffic_key = None \<and> dep_Name d = ''zync-que''"
proof -
  show "OService s \<notin> built ts"
    using built_New(5) [OF assms(1), of s] by (auto simp: service_selector_def)
  assume "ODeployment d \<in> built ts"
  then obtain d0 where d0: "Que_deployment gen = Some d0" "d = deployment_of (sidecars_of (Que_workload gen)) (Que_workload gen) d0"
    by (auto simp: built_New(1) [OF assms(1)] workloads_def)
  show "pod_labels d traffic_key = None \<and> dep_Name d = ''zync-que''"
    unfolding d0(2) by (simp add: plain_workload_pods que_deployment_labels [OF d0(1)] assms(2))
qed

text \<open>A service of Zync selects the pods of the API, and neither those of the que nor those of the console.\<close>

lemma Zync_traffic:
  assumes "Zync_NewGenerator instance namespace spec = Some gen" "Zync_Resources L iter gen = Some (Inr r)" "OService s \<in> built (zyr_Workloads r)"
  shows "ODeployment d \<in> built (zyr_Workloads r) \<Longrightarrow> selects (sv_Selector s) (pod_labels d) \<longleftrightarrow> dep_Name d = ''zync''"
    and "snd (zyr_Console r) = Some sts \<Longrightarrow> \<not> selects (sv_Selector s) (orEmpty (sss_PodLabels sts))"
proof -
  obtain api que where R: "zyr_Workloads r = api @ que" "Workload_New L iter (API_workload (zyg_API gen)) None = Some (Inr api)"
      "Workload_New L iter (Que_workload (zyg_Que gen)) None = Some (Inr que)" "zyr_Console r = zync_console_StatefulSet (zyg_Console gen)"
    by (rule Zync_Resources_parts [OF assms(2)])
  have base: "zag_Base (zyg_API gen) = zync_base instance namespace ''zync'' ''zync''" "zag_Traffic (zyg_API gen)"
      "zqg_Base (zyg_Que gen) = zync_base instance namespace ''zync-que'' ''que''"
      "zcg_Base (zyg_Console gen) = zync_base instance namespace ''zync-console'' ''console''"
    by (rule Zync_NewGenerator_parts [OF assms(1)], assumption)+
  have s: "OService s \<in> built api"
    using assms(3) que_built(1) [OF R(3) base(3)] by (simp add: R(1))
  have sel: "sv_Selector s traffic_key = Some ''zync''"
    using built_New(5) [OF R(2) s, symmetric] base by (auto simp: service_selector_def trafficSwitcher_def enabled_selectors_def)
  then have other: "\<not> selects (sv_Selector s) labels" if "labels traffic_key = None" for labels
    using that by (auto simp: selects_def map_le_def dom_def)
  show "ODeployment d \<in> built (zyr_Workloads r) \<Longrightarrow> selects (sv_Selector s) (pod_labels d) \<longleftrightarrow> dep_Name d = ''zync''"
    unfolding R(1) built_simps Un_iff
  proof (elim disjE)
    assume d: "ODeployment d \<in> built api"
    have "dep_Name d = ''zync''"
      using d base by (auto simp: built_New(1) [OF R(2)] workloads_def)
    moreover have "selects (sv_Selector s) (pod_labels d)"
      using alone_routes [OF R(2) _ _ _ s d, of "[traffic_key \<mapsto> ''zync'']"] base by (simp add: identifiable_def GetSelector_def traffic_of_def)
    ultimately show ?thesis by simp
  next
    assume "ODeployment d \<in> built que"
    then show ?thesis using que_built(2) [OF R(3) base(3)] other by simp
  qed
  assume "snd (zyr_Console r) = Some sts"
  then have "sss_PodLabels sts = Some (mergeMaps Map.empty [GetLabels (zcg_Base (zyg_Console gen)), GetSelector (zcg_Base (zyg_Console gen))])"
    by (auto simp: R(4) zync_console_StatefulSet_def zync_console_statefulset_def Let_def app_statefulset_def elim!: bind_SomeE)
  then show "\<not> selects (sv_Selector s) (orEmpty (sss_PodLabels sts))"
    using base(4) by (intro other) (simp add: orEmpty_def)
qed

section \<open>Secrets\<close>

definition zync_refs :: "ZyncConfig \<Rightarrow> SecretReference set" where
  "zync_refs cfg = {zcf_DatabaseDSN cfg, zcf_SecretKeyBase cfg, zcf_ZyncAuthToken cfg} \<union> bs_APIKey ` set_option (zcf_Bugsnag cfg)"

text \<open>The two environments configure the key of Bugsnag in another order, to the same effect: the rows of the que are rows of the API.\<close>

lemma que_rows_subset: "set (que_rows cfg rails bugsnag) \<subseteq> set (api_rows cfg rails bugsnag)"
proof -
  have "(\<lambda>o1. WithSeedKey k (EmptyIf b (AsSecretRef s o1))) = (\<lambda>o1. EmptyIf b (secret_ref s k o1))" for k b s
    by (simp add: fun_eq_iff WithSeedKey_def EmptyIf_def AsSecretRef_def secret_ref_def)
  then show ?thesis
    by (simp add: que_rows_def api_rows_def)
qed

lemma zync_rows_ok:
  assumes "\<forall>r\<in>zync_refs cfg. complete_ref r" "zcf_Bugsnag cfg = Some bugsnag"
  shows "\<forall>row\<in>set (api_rows cfg rails bugsnag). row_ok row"
proof -
  have "ZyncSecret \<noteq> DefaultSeedSecret" by (simp add: ZyncSecret_def DefaultSeedSecret_def)
  with assms show ?thesis by (simp add: api_rows_def zync_refs_def row_ok_simps bugsnag_row)
qed

lemma api_rows_distinct: "distinct (map fst (api_rows cfg rails bugsnag))"
  by (simp add: api_rows_def)

lemma zync_same_secrets: "same_secrets (api_rows cfg rails bugsnag @ que_rows cfg rails bugsnag)"
proof -
  have "set (api_rows cfg rails bugsnag @ que_rows cfg rails bugsnag) = set (api_rows cfg rails bugsnag)"
    using que_rows_subset by auto
  then show ?thesis
    unfolding same_secrets_def using eq_key_imp_eq_value [OF api_rows_distinct] by (auto split: unpackable.splits)
qed

lemma zync_rows_total: "add_options (api_rows cfg rails bugsnag) \<noteq> None" "add_options (que_rows cfg rails bugsnag) \<noteq> None"
proof -
  have "\<forall>(e, c, v)\<in>set (api_rows cfg rails bugsnag). Unpack v (c (new_option e)) \<noteq> None"
    by (simp add: api_rows_def Text_total Secret_total bugsnag_row ZyncSecret_def del: not_None_eq)
  then show "add_options (api_rows cfg rails bugsnag) \<noteq> None" "add_options (que_rows cfg rails bugsnag) \<noteq> None"
    using que_rows_subset [of cfg rails bugsnag] unfolding add_options_None by fastforce+
qed

text \<open>
  The external secrets of Zync are those its components read. The console is not among the components
  whose options are joined, but it has the environment of the API.
\<close>

lemma Zync_secrets_exact:
  assumes "Zync_NewGenerator instance namespace spec = Some gen" "Zync_Resources L iter gen = Some (Inr r)"
    and "\<forall>r\<in>zync_refs (zys_Config spec). complete_ref r"
  shows "secret_keys (zyr_ExternalSecrets r) =
    {(name, key). name \<noteq> DefaultSeedSecret \<and>
       (\<exists>opts\<in>{zag_Options (zyg_API gen), zqg_Options (zyg_Que gen), zcg_Options (zyg_Console gen)}. reads_secret opts name key)}"
proof -
  obtain rails bugsnag where o: "zcf_Bugsnag (zys_Config spec) = Some bugsnag"
      "add_options (api_rows (zys_Config spec) rails bugsnag) = Some (zag_Options (zyg_API gen))"
      "add_options (que_rows (zys_Config spec) rails bugsnag) = Some (zqg_Options (zyg_Que gen))"
      "zcg_Options (zyg_Console gen) = zag_Options (zyg_API gen)"
    by (rule Zync_NewGenerator_parts [OF assms(1)])
  let ?rows = "[api_rows (zys_Config spec) rails bugsnag, que_rows (zys_Config spec) rails bugsnag]"
  have "external_secrets_of (zyg_Base gen) (zcf_ExternalSecret (zyg_Config gen))
      (Options_Union [zag_Options (zyg_API gen), zqg_Options (zyg_Que gen)]) = Some (zyr_ExternalSecrets r)"
    by (rule Zync_Resources_parts [OF assms(2)])
  moreover have "\<forall>row\<in>set (concat ?rows). row_ok row"
    using zync_rows_ok [OF assms(3) o(1)] que_rows_subset by fastforce
  ultimately show ?thesis
    using rows_secrets_exact [of ?rows "[zag_Options (zyg_API gen), zqg_Options (zyg_Que gen)]"] zync_same_secrets o
    by (auto dest!: external_secrets_generated)
qed

section \<open>Defaults suffice\<close>

lemma zync_complete [simp]:
  "complete_probe zyncDefaultAPILivenessProbe" "complete_probe zyncDefaultAPIReadinessProbe"
  "complete_probe zyncDefaultQueLivenessProbe" "complete_probe zyncDefaultQueReadinessProbe" "complete_image zyncDefaultImage"
  by (simp_all add: complete_probe_def complete_image_def zyncDefaultAPILivenessProbe_def zyncDefaultAPIReadinessProbe_def
      zyncDefaultQueLivenessProbe_def zyncDefaultQueReadinessProbe_def zyncDefaultImage_def)

lemma zync_deployments:
  "complete_image (zag_Image api) \<Longrightarrow> zag_APISpec api = APISpec_Default s \<Longrightarrow> API_deployment api \<noteq> None"
  "complete_image (zqg_Image que) \<Longrightarrow> zqg_QueSpec que = QueSpec_Default q \<Longrightarrow> Que_deployment que \<noteq> None"
  "complete_image img \<Longrightarrow> zcg_Spec console = ZyncRailsConsoleSpec_Default img c \<Longrightarrow> zync_console_statefulset console \<noteq> None"
  using complete_Image
  by (simp_all add: API_deployment_def APISpec_Default_def Que_deployment_def QueSpec_Default_def zync_console_statefulset_def
      ZyncRailsConsoleSpec_Default_def probes_eta complete_init Let_def bind_eq_None_conv del: not_None_eq)

lemma api_builds:
  assumes "complete_image (zag_Image gen)" "zag_APISpec gen = APISpec_Default s" "zap_PublishingStrategies s = None"
  obtains ts where "builds L iter (API_workload gen) ts" "sv_Name ` {s. OService s \<in> built ts} = {fst (GetKey (zag_Base gen)) @ ''-http-svc''}"
proof -
  let ?w = "API_workload gen" and ?eps = "[(''HTTP'', [TCPPort ''http'' 8080 (FromString ''http'')])]"
  have dep: "w_Deployment ?w \<noteq> None" using zync_deployments(1) [OF assms(1,2)] by simp
  then have all: "\<forall>w\<in>set (workloads ?w None). has_specs w \<and> w_Deployment w \<noteq> None"
    by (simp add: workloads_def has_specs_def) (simp add: API_workload_def assms(2) APISpec_Default_def)
  have eps: "zync_DefaultApiPublishingStrategy = simple_defaults ?eps"
    by (simp add: zync_DefaultApiPublishingStrategy_def simple_defaults_def)
  have ps: "\<forall>e. w_PublishingStrategies ?w \<noteq> Some (Inl e)" "strategies_of ?w = simple_defaults ?eps"
    using assms(3) by (simp_all add: API_workload_def MergeWithDefaultPublishingStrategy_def strategies_of_def eps assms(2) APISpec_Default_def)
  have sel: "service_selector ?w None \<noteq> None" by (simp add: service_selector_def)
  show thesis
    by (rule default_New [OF all ps disjI2 [OF sel], of L iter]) (rule that [OF buildsI]; use dep in \<open>simp add: lower_http\<close>)
qed

lemma que_builds:
  assumes "complete_image (zqg_Image gen)" "zqg_QueSpec gen = QueSpec_Default s"
  obtains ts where "builds L iter (Que_workload gen) ts" "{s. OService s \<in> built ts} = {}"
proof -
  let ?w = "Que_workload gen"
  have dep: "w_Deployment ?w \<noteq> None" using zync_deployments(2) [OF assms] by simp
  then have all: "\<forall>w\<in>set (workloads ?w None). has_specs w \<and> w_Deployment w \<noteq> None"
    by (simp add: workloads_def has_specs_def) (simp add: Que_workload_def assms(2) QueSpec_Default_def)
  have ps: "\<forall>e. w_PublishingStrategies ?w \<noteq> Some (Inl e)" "strategies_of ?w = simple_defaults []"
    by (simp_all add: strategies_of_def simple_defaults_def)
  show thesis
    by (rule default_New [OF all ps disjI1 [OF refl], of L iter]) (rule that [OF buildsI]; use dep in simp)
qed

text \<open>The generator of a defaulted specification.\<close>

lemma Zync_generated:
  assumes "\<forall>api\<in>set_option (zys_API spec). zap_PublishingStrategies api = None"
  obtains gen api que console img where "Zync_NewGenerator instance namespace (ZyncSpec_Default spec) = Some gen" "complete_image img"
    "zag_Image (zyg_API gen) = img" "zqg_Image (zyg_Que gen) = img" "zag_APISpec (zyg_API gen) = APISpec_Default api"
    "zap_PublishingStrategies api = None" "zqg_QueSpec (zyg_Que gen) = QueSpec_Default que"
    "zcg_Spec (zyg_Console gen) = ZyncRailsConsoleSpec_Default img console"
    "zcf_ExternalSecret (zyg_Config gen) = ExternalSecret_Default (zcf_ExternalSecret (zys_Config spec))"
proof -
  let ?spec = "ZyncSpec_Default spec"
  have "NewAPIOptions ?spec \<noteq> None" "NewQueOptions ?spec \<noteq> None"
    using zync_rows_total
    by (simp_all add: NewAPIOptions_def NewQueOptions_def ZyncSpec_Default_def ZyncConfig_Default_def Let_def split: option.split del: not_None_eq)
  then obtain a q where opts: "NewAPIOptions ?spec = Some a" "NewQueOptions ?spec = Some q" by blast
  have enabled: "zco_Enabled (ZyncRailsConsoleSpec_Default i c) = Some (case zco_Enabled c of None \<Rightarrow> False | Some b \<Rightarrow> b)" for i c
    by (simp add: ZyncRailsConsoleSpec_Default_def orDefault_def zyncDefaultRailsConsoleEnabled_def split: option.split)
  have ps: "zap_PublishingStrategies (case zys_API spec of None \<Rightarrow> no_APISpec | Some api \<Rightarrow> api) = None"
    using assms by (simp add: no_APISpec_def split: option.split)
  let ?img = "InitializeImageSpec (zys_Image spec) zyncDefaultImage" and ?api = "case zys_API spec of None \<Rightarrow> no_APISpec | Some api \<Rightarrow> api"
    and ?que = "case zys_Que spec of None \<Rightarrow> no_QueSpec | Some que \<Rightarrow> que"
    and ?console = "case zys_Console spec of None \<Rightarrow> no_ZyncRailsConsoleSpec | Some console \<Rightarrow> console"
  have fields: "zys_API ?spec = Some (APISpec_Default ?api)" "zys_Image ?spec = Some ?img" "zys_Que ?spec = Some (QueSpec_Default ?que)"
      "zys_Console ?spec = Some (ZyncRailsConsoleSpec_Default ?img ?console)"
      "zys_GrafanaDashboard ?spec = Some (InitializeGrafanaDashboardSpec (zys_GrafanaDashboard spec) zyncDefaultGrafanaDashboard)"
      "zcf_ExternalSecret (zys_Config ?spec) = ExternalSecret_Default (zcf_ExternalSecret (zys_Config spec))"
    by (simp_all add: ZyncSpec_Default_def ZyncConfig_Default_def Let_def)
  obtain gen where "Zync_NewGenerator instance namespace ?spec = Some gen" "zag_Image (zyg_API gen) = ?img" "zqg_Image (zyg_Que gen) = ?img"
    "zag_APISpec (zyg_API gen) = APISpec_Default ?api" "zqg_QueSpec (zyg_Que gen) = QueSpec_Default ?que"
    "zcg_Spec (zyg_Console gen) = ZyncRailsConsoleSpec_Default ?img ?console" "zyg_Config gen = zys_Config ?spec"
    by (simp add: Zync_NewGenerator_def opts fields enabled)
  then show thesis
    using that [OF _ init_complete [of zyncDefaultImage "zys_Image spec"] _ _ _ ps] fields(6) by simp
qed

lemma Zync_built:
  assumes "\<forall>api\<in>set_option (zys_API spec). zap_PublishingStrategies api = None"
  obtains gen r where "Zync_NewGenerator instance namespace (ZyncSpec_Default spec) = Some gen" "Zync_Resources L iter gen = Some (Inr r)"
    "\<forall>t\<in>set (zyr_Workloads r). \<exists>o1. tp_Build t = Some (Inr o1)"
    "dep_Name ` {d. ODeployment d \<in> built (zyr_Workloads r)} = {''zync'', ''zync-que''}"
    "sv_Name ` {s. OService s \<in> built (zyr_Workloads r)} = {''zync-http-svc''}" "snd (zyr_Console r) \<noteq> None"
proof -
  obtain gen api que console img where gen: "Zync_NewGenerator instance namespace (ZyncSpec_Default spec) = Some gen" "complete_image img"
    "zag_Image (zyg_API gen) = img" "zqg_Image (zyg_Que gen) = img" "zag_APISpec (zyg_API gen) = APISpec_Default api"
    "zap_PublishingStrategies api = None" "zqg_QueSpec (zyg_Que gen) = QueSpec_Default que"
    "zcg_Spec (zyg_Console gen) = ZyncRailsConsoleSpec_Default img console"
    "zcf_ExternalSecret (zyg_Config gen) = ExternalSecret_Default (zcf_ExternalSecret (zys_Config spec))"
    by (rule Zync_generated [OF assms])
  have base: "zag_Base (zyg_API gen) = zync_base instance namespace ''zync'' ''zync''"
      "zqg_Base (zyg_Que gen) = zync_base instance namespace ''zync-que'' ''que''"
    by (rule Zync_NewGenerator_parts [OF gen(1)], assumption)+
  obtain ts where ts: "builds L iter (API_workload (zyg_API gen)) ts"
      "sv_Name ` {s. OService s \<in> built ts} = {fst (GetKey (zag_Base (zyg_API gen))) @ ''-http-svc''}"
    by (rule api_builds [OF _ gen(5,6)]) (simp_all add: gen)
  obtain ts' where ts': "builds L iter (Que_workload (zyg_Que gen)) ts'" "{s. OService s \<in> built ts'} = {}"
    by (rule que_builds [OF _ gen(7)]) (simp_all add: gen)
  obtain secrets where "external_secrets_of (zyg_Base gen) (zcf_ExternalSecret (zyg_Config gen))
      (Options_Union [zag_Options (zyg_API gen), zqg_Options (zyg_Que gen)]) = Some secrets"
    using external_secrets_default gen(9) by (metis not_None_eq)
  then obtain r where r: "Zync_Resources L iter gen = Some (Inr r)" "zyr_Workloads r = ts @ ts'"
      "zyr_Console r = zync_console_StatefulSet (zyg_Console gen)"
    using ts(1) ts'(1) by (simp add: Zync_Resources_def builds_def)
  show thesis
  proof (rule that [OF gen(1) r(1)])
    show "\<forall>t\<in>set (zyr_Workloads r). \<exists>o1. tp_Build t = Some (Inr o1)"
      using ts(1) ts'(1) unfolding r(2) builds_def set_append by blast
    have "{d. ODeployment d \<in> built (zyr_Workloads r)} = {d. ODeployment d \<in> built ts} \<union> {d. ODeployment d \<in> built ts'}"
      by (auto simp: r(2))
    then show "dep_Name ` {d. ODeployment d \<in> built (zyr_Workloads r)} = {''zync'', ''zync-que''}"
      using ts(1) ts'(1) by (simp add: builds_def base image_Un insert_commute)
    show "sv_Name ` {s. OService s \<in> built (zyr_Workloads r)} = {''zync-http-svc''}"
      using ts(2) ts'(2) by (simp add: r(2) base)
    show "snd (zyr_Console r) \<noteq> None"
      using zync_deployments(3) [OF gen(2,8)] by (simp add: r(3) zync_console_StatefulSet_def)
  qed
qed


definition zync_ref :: "string \<Rightarrow> SecretReference" where
  "zync_ref key = \<lparr>sr_FromVault = Some (''secret/data/zync'', key), sr_Override = None, sr_FromSeed = None\<rparr>"

definition demo_zync :: ZyncSpec where
  "demo_zync = \<lparr>zys_Image = None,
     zys_Config = \<lparr>zcf_Rails = None, zcf_ExternalSecret = \<lparr>es_SecretStoreRef = None, es_RefreshInterval = None\<rparr>,
       zcf_DatabaseDSN = zync_ref ''dsn'', zcf_SecretKeyBase = zync_ref ''base'', zcf_ZyncAuthToken = zync_ref ''token'',
       zcf_Bugsnag = Some \<lparr>bs_ReleaseStage = Some ''staging'', bs_APIKey = zync_ref ''bugsnag''\<rparr>\<rparr>,
     zys_GrafanaDashboard = None, zys_API = Some no_APISpec, zys_Que = None, zys_Console = None\<rparr>"


end
