(* ===== verification/Spec2Isabelle.thy ===== *)
theory Spec2Isabelle
  imports BackupReconciler BackupUpload SentinelController TwemproxyController RedisShardController Apicast Backend SimpleApps SystemApp Zync
begin

text \<open>
  \<^bold>\<open>A verification library for the saas-operator\<close>

  The saas-operator runs the 3scale software as a service on Kubernetes. It has two halves. The
  first manages sharded redis: it tells the redis sentinels which shards to monitor, discovers
  through them which server of each shard is the master, publishes that cluster in the status of a
  Sentinel resource, writes the configuration of twemproxy from it, and runs scheduled backups on
  read-only slaves. The second generates the Kubernetes objects of the applications from their
  custom resources: deployments with canaries and sidecars, the services that route traffic to
  them, Envoy configurations, environments and secrets. This library models both, the first from
  the redis commands up to the reconciliation of each resource, the second from the builders of the
  objects up to the generators of the applications.
  The paths below are relative to \<^verbatim>\<open>src/\<close>.

  \<^bold>\<open>The parts and the theories\<close>

  Each theory imports those it builds on; its definitions carry the names of the Go functions
  and types, with a prefix where HOL or another component has the name already.

  \<^item> Prelude. Strings and integers as text, the errors of \<^verbatim>\<open>internal/pkg/util/error.go\<close> and of
    the discovery as one datatype with \<^verbatim>\<open>errors.As\<close>, \<^verbatim>\<open>net.JoinHostPort\<close> and
    \<^verbatim>\<open>net.SplitHostPort\<close>, and the lemmas on lists, sums and sorting that the others share.
  \<^item> RedisPool. \<^verbatim>\<open>internal/pkg/redis/client\<close> and \<^verbatim>\<open>server\<close>: the commands with the parsing of their
    replies, the pool of servers keyed by address, and the fake client of the sources, which is
    the instance that the witnesses run. The pool never holds two servers of one address.
  \<^item> Sharded, ShardedCluster. \<^verbatim>\<open>internal/pkg/redis/sharded\<close>: discovery of a server, a shard and a
    cluster, initialisation of replication, choice of a healthy sentinel, monitoring. Discovery
    never leaves two masters in a shard and loses no error; initialisation and monitoring
    converge and are then idempotent; the cluster of a topology does not depend on the order in
    which Go iterates over its maps.
  \<^item> Threads. \<^verbatim>\<open>internal/pkg/reconcilers/threads/manager.go\<close>: the threads of the controllers, keyed
    by owner, with the mutex. After a reconciliation the requested threads run and the others of
    the owner are gone; the manager stays usable; two defects are theorems.
  \<^item> Events, SentinelMetrics, BackupRunner. The three kinds of thread:
    \<^verbatim>\<open>internal/pkg/redis/events\<close>, \<^verbatim>\<open>metrics\<close> and \<^verbatim>\<open>backup\<close>. Parsing of events, counters and
    gauges, the polling of BGSAVE, the check of the uploaded object, and the goroutines as step
    relations whose reachable states satisfy an invariant.
  \<^item> BackupUpload. \<^verbatim>\<open>internal/pkg/ssh/remote_exec.go\<close> and the upload of \<^verbatim>\<open>backup/s3upload.go\<close>:
    remote commands and scripts, with what they log. The file is removed only after its upload
    succeeded, the AWS secret stays out of the log, and the check finds the upload exactly when
    the path of the bucket is clean.
  \<^item> CommonTypes. \<^verbatim>\<open>api/v1alpha1/common_types.go\<close>: defaults, canary patches and the aggregated
    status. Defaulting is idempotent and keeps what the user set.
  \<^item> SentinelStatus, SentinelController. The Sentinel resource: \<^verbatim>\<open>api/v1alpha1/sentinel_types.go\<close>,
    \<^verbatim>\<open>internal/pkg/generators/sentinel\<close> and \<^verbatim>\<open>internal/controller/sentinel_controller.go\<close>. A
    successful reconciliation starts a watcher and a gatherer per sentinel and publishes the
    discovered cluster; the cluster read back from the status is the published one.
  \<^item> Twemproxy, PodSync, TwemproxyController. The TwemproxyConfig resource:
    \<^verbatim>\<open>twemproxyconfig_types.go\<close>, \<^verbatim>\<open>internal/pkg/generators/twemproxyconfig\<close>,
    \<^verbatim>\<open>internal/pkg/resource_builders/twemproxy\<close> and \<^verbatim>\<open>twemproxyconfig_controller.go\<close>. The targets
    are the discovered masters or read-write slaves, the file has one server per logical shard,
    and the concurrent annotation of the pods is a step relation with its deadlock.
  \<^item> BackupController, BackupReconciler. The ShardedRedisBackup resource:
    \<^verbatim>\<open>shardedredisbackup_types.go\<close> and \<^verbatim>\<open>shardedredisbackup_controller.go\<close>. A shard has at most one
    active backup, states change only along the edges of the state machine, due backups are
    started and new ones scheduled; and a backup runs on a slave that the Sentinel controller
    discovered.
  \<^item> RedisShard, RedisShardController. The RedisShard resource: \<^verbatim>\<open>redisshard_types.go\<close>,
    \<^verbatim>\<open>internal/pkg/generators/redisshard\<close> and \<^verbatim>\<open>redisshard_controller.go\<close>. Its objects fit
    together; reconciliation initialises the replication and publishes the roles, from which the
    readers of the status find every pod; the limits of its two numbers are theorems.

  \<^item> Publishing, EnvoyConfig. \<^verbatim>\<open>publishing_strategy_types.go\<close>,
    \<^verbatim>\<open>internal/pkg/resource_builders/service\<close> and \<^verbatim>\<open>envoyconfig\<close>: the publishing strategies of an
    application merged with its defaults, the services, the annotations of the Marin3r sidecar and
    the Envoy configuration. The merge refines a specification without aliasing; when services
    and listeners panic is characterised.
  \<^item> Workload. \<^verbatim>\<open>internal/pkg/workloads/deployment\<close> with the autoscaler, disruption budget and pod
    monitor builders: the resources of a workload and its canary. They select the pods of their own
    deployment; the locale \<open>routed_pair\<close> says when the services reach exactly the workloads that
    send traffic.
  \<^item> PodEnvironment. \<^verbatim>\<open>internal/pkg/resource_builders/pod/environment.go\<close> and \<^verbatim>\<open>externalsecret\<close>:
    options, the environment of a container and the external secrets, which are exactly those read.
  \<^item> Generators, TwemproxySidecar, Apicast, Backend. The parts the generators share, the Twemproxy
    sidecar, and two applications: specification with defaults and canaries, environment,
    deployments, generator. A defaulted specification builds all its resources; the traffic of
    Backend goes to the listener and to a canary that asks for it, that of Apicast never to a canary.
  \<^item> SimpleApps. EchoAPI, CORSProxy, MappingService and AutoSSL, the applications of one deployment:
    each is its defaults, its environment and its generator over the parts the four share. Defaulted
    specifications build, the external secrets are those the pods read, and the traffic of AutoSSL
    follows the wish of its canary.
  \<^item> SystemTypes. \<^verbatim>\<open>api/v1alpha1/system_types.go\<close>: the specification of System with its defaults. The
    default Tekton tasks share their configurations with package variables, which are a state here;
    what defaulting makes of the tasks of the user is characterised, and that the default tasks keep
    the image of the first System is a theorem.
  \<^item> SystemApp. \<^verbatim>\<open>internal/pkg/generators/system\<close>: the application and its sidekiqs with their
    canaries, the search daemon, the console and the Tekton tasks. Traffic reaches the application and
    a canary that asks for it and no sidekiq, the external secrets are those that every component and task
    reads, and a defaulted specification builds all its resources.
  \<^item> Zync. \<^verbatim>\<open>api/v1alpha1/zync_types.go\<close> and \<^verbatim>\<open>internal/pkg/generators/zync\<close>: the API, the que and
    the console. A defaulted specification builds them with one service, which reaches the API only,
    and the secrets they read.

  \<^bold>\<open>How the code is modelled\<close>

  \<^item> A Go function that reads or writes redis is a function on a world \<open>'w\<close> of type
    \<open>('w, 'a) go\<close>, which is \<open>'w \<Rightarrow> ('a \<times> 'w) option\<close>: \<^const>\<open>None\<close> is a panic or a call that
    never returns, an error is a value. Values that several goroutines share (the pool, the
    managers of threads, the gauges) are passed and returned.
  \<^item> A pointer into a slice is an index, a pointer to a server of the pool is the pair of host and
    port, a pointer that may be nil is an option.
  \<^item> A Go map is a partial function where the code only looks up and writes, and a list of pairs
    where it iterates; the order of an iteration, the order in which concurrent pings return and
    the choices of a select are parameters or steps.
  \<^item> Numbers are integers without bound where no value that occurs can overflow (ports, counters,
    nanoseconds); the replicas of a RedisShard, computed from user input, are 32 bit words; a \<^verbatim>\<open>float64\<close> gauge holds the integer it is set to.

  What is not in the repository is a parameter: the record \<open>'w lib\<close> of the redis client, the
  Kubernetes client, the S3 and JSON libraries, \<^verbatim>\<open>url.Parse\<close>, DNS, cron schedules and the base
  reconciler. What the code relies on is a named hypothesis, stated as a locale or a predicate
  (\<open>url_canonical\<close>, \<open>replication_laws\<close>, \<open>sentinel_laws\<close>, \<open>kube_client\<close>, \<open>shard_host_laws\<close>, \<open>s3_bucket\<close>, \<open>upload_laws\<close>), and every
  one is proved of a concrete instance. The locales are the interfaces: \<open>server_store\<close> and
  \<open>redis_lib\<close> for the pool, \<open>replication\<close> and \<open>sentinel_monitoring\<close> for redis, \<open>runnable_thread\<close>
  for the threads, with one interpretation per kind of thread, \<open>defaulted_spec\<close> for the
  specifications of the API, \<open>kube_client\<close>, \<open>shard_host\<close> and \<open>s3_bucket\<close> for the services, \<open>routed_pair\<close> for a
  workload and its canary, interpreted on the listener of Backend, on AutoSSL and on the application of System. A generator that dereferences a
  nil pointer is \<^const>\<open>None\<close>; a value of Kubernetes that is only copied (affinity, tolerations) is opaque. There is no fuel:
  every loop of the code is a structural recursion over a list, except the polling of a backup,
  which consumes the list of ticks and timeouts it is given and is shown to return after the save.

  \<^bold>\<open>Not modelled\<close>

  The application controllers, which hand the templates of a generator to the base reconciler; the
  mutations that copy live values into a template; the text of dashboards;
  generated code, and the entry point. The conversion of a custom resource to and
  from JSON, and the life cycle of a resource (finalizers), belong to libraries.
\<close>

end
